(* ===== verification/Go_Prelude.thy ===== *)
theory Go_Prelude
  imports Main "HOL-Library.Word" "HOL-Library.Char_ord" "HOL-Library.List_Lexorder"
    "HOL-Library.AList" "HOL-Library.Multiset"
begin

text \<open>
  The shared vocabulary of the development: Go byte slices, strings, maps and interface
  values, the error values of the packages under \<^verbatim>\<open>src/\<close> with \<^verbatim>\<open>errors.Is\<close>, the result
  type of a fallible Go function with its sequencing combinators, and the generic lemmas
  that carry the component proofs. The collection \<open>result_inv\<close> holds the inversion laws of
  the combinators: rewriting a successful run with them turns the run into the conjunction
  of everything the code checked on the way.
\<close>

named_theorems result_inv \<open>inversion laws: what a successful (or failed) run has checked\<close>

section \<open>Bytes, slices and strings\<close>

type_synonym byte = "8 word"
type_synonym bytes = "byte list"

text \<open>
  A Go \<^verbatim>\<open>[]byte\<close>: \<open>None\<close> is the nil slice, which \<^verbatim>\<open>len\<close> and comparison do not tell
  from the empty one but \<^verbatim>\<open>== nil\<close> does. Values are immutable in the model, so a defensive
  copy (\<^verbatim>\<open>slices.Clone\<close>) is the value itself.
\<close>

type_synonym go_bytes = "bytes option"

definition bytes_of :: "go_bytes \<Rightarrow> bytes" where
  "bytes_of v = (case v of None \<Rightarrow> [] | Some bs \<Rightarrow> bs)"

lemma bytes_of_simps [simp]: "bytes_of None = []" "bytes_of (Some bs) = bs"
  by (simp_all add: bytes_of_def)

text \<open>A Go string is a sequence of bytes; \<^verbatim>\<open>[]byte(s)\<close> and \<^verbatim>\<open>string(b)\<close> convert.\<close>

definition bytes_of_string :: "string \<Rightarrow> bytes" where
  "bytes_of_string s = map (\<lambda>c. of_char c) s"

definition string_of_bytes :: "bytes \<Rightarrow> string" where
  "string_of_bytes bs = map (\<lambda>b. char_of (unat b)) bs"

lemma unat_byte_less [simp]: "unat (b :: byte) < 256"
  using unsigned_less [of b, where ?'a = nat] by simp

lemma unat_of_char_byte: "unat (of_char c :: byte) = of_char c"
proof -
  have "(of_char c :: byte) = word_of_nat (of_char c)"
    by (rule of_nat_of_char [symmetric])
  moreover have "(of_char c :: nat) < 256"
    by simp
  ultimately show ?thesis
    by (simp only: unat_of_nat) simp
qed

lemma of_char_char_of_byte [simp]: "of_char (char_of (unat b) :: char) = (b :: byte)"
proof -
  have "unat (of_char (char_of (unat b) :: char) :: byte) = unat b"
    by (simp add: unat_of_char_byte del: unsigned_of_nat)
  then show ?thesis
    by (simp only: word_unat_eq_iff)
qed

lemma char_of_of_char_byte [simp]: "char_of (unat (of_char c :: byte)) = c"
  by (simp only: unat_of_char_byte char_of_char)

text \<open>Evaluation of the conversions between characters and bytes on integers.\<close>

definition byte_of_char :: "char \<Rightarrow> byte" where "byte_of_char c = of_char c"
definition char_of_byte :: "byte \<Rightarrow> char" where "char_of_byte b = char_of (unat b)"

lemma byte_of_char_code [code abstract]: "Word.the_int (byte_of_char c) = of_char c"
proof -
  have "byte_of_char c = word_of_int (of_char c)"
    using of_int_of_char [of c, where 'a = byte] by (simp add: byte_of_char_def)
  then have "uint (byte_of_char c) = of_char c mod 256"
    by (simp add: uint_word_of_int)
  then show ?thesis
    by simp
qed

lemma char_of_byte_code [code]: "char_of_byte b = char_of (Word.the_int b)"
  by (simp add: char_of_byte_def char_of_def bit_simps)

lemma bytes_of_string_code [code]: "bytes_of_string s = map byte_of_char s"
  by (simp add: bytes_of_string_def byte_of_char_def)

lemma string_of_bytes_code [code]: "string_of_bytes bs = map char_of_byte bs"
  by (simp add: string_of_bytes_def char_of_byte_def)

lemma bytes_of_string_inverse [simp]: "bytes_of_string (string_of_bytes bs) = bs"
  by (induction bs) (simp_all add: bytes_of_string_def string_of_bytes_def)

lemma string_of_bytes_inverse [simp]: "string_of_bytes (bytes_of_string s) = s"
  by (induction s) (simp_all add: bytes_of_string_def string_of_bytes_def)

lemma length_bytes_of_string [simp]: "length (bytes_of_string s) = length s"
  by (simp add: bytes_of_string_def)

lemma bytes_of_string_inj [simp]: "bytes_of_string s = bytes_of_string t \<longleftrightarrow> s = t"
  by (metis string_of_bytes_inverse)

lemma bytes_of_string_eq_Nil [simp]: "bytes_of_string s = [] \<longleftrightarrow> s = []"
  by (simp add: bytes_of_string_def)

subsection \<open>Big-endian integers (\<^verbatim>\<open>encoding/binary.BigEndian\<close>)\<close>

definition be16 :: "byte \<Rightarrow> byte \<Rightarrow> 16 word" where
  "be16 a b = word_of_nat (unat a * 256 + unat b)"

definition be32 :: "byte \<Rightarrow> byte \<Rightarrow> byte \<Rightarrow> byte \<Rightarrow> 32 word" where
  "be32 a b c d = word_of_nat (((unat a * 256 + unat b) * 256 + unat c) * 256 + unat d)"

definition put16 :: "16 word \<Rightarrow> bytes" where
  "put16 w = [word_of_nat (unat w div 256), word_of_nat (unat w)]"

definition put32 :: "32 word \<Rightarrow> bytes" where
  "put32 w = [word_of_nat (unat w div 256 div 256 div 256), word_of_nat (unat w div 256 div 256),
              word_of_nat (unat w div 256), word_of_nat (unat w)]"

lemma byte_of_nat_unat: "m mod 256 = unat b \<Longrightarrow> (word_of_nat m :: byte) = b"
  by (simp add: word_unat_eq_iff unat_of_nat del: unsigned_of_nat)

lemma extend_byte_bound: "m < k \<Longrightarrow> m * 256 + unat (b :: byte) < k * 256"
  using unat_byte_less [of b] by linarith

lemma unat_be16 [simp]: "unat (be16 a b) = unat a * 256 + unat b"
proof -
  have "unat a * 256 + unat b < 65536"
    using unat_byte_less [of a] unat_byte_less [of b] by linarith
  then show ?thesis
    unfolding be16_def unat_of_nat by simp
qed

lemma unat_be32 [simp]:
  "unat (be32 a b c d) = ((unat a * 256 + unat b) * 256 + unat c) * 256 + unat d"
proof -
  have "((unat a * 256 + unat b) * 256 + unat c) * 256 + unat d < 256 * 256 * 256 * 256"
    by (intro extend_byte_bound unat_byte_less)
  then show ?thesis
    unfolding be32_def unat_of_nat by simp
qed

lemma shift_byte: "(m * 256 + unat (x :: byte)) div 256 = m"
  using unat_byte_less [of x] by simp

lemma low_byte: "(word_of_nat (m * 256 + unat (x :: byte)) :: byte) = x"
  using unat_byte_less [of x] by (intro byte_of_nat_unat) simp

lemma put16_be16 [simp]: "put16 (be16 a b) = [a, b]"
  by (simp only: put16_def unat_be16 shift_byte low_byte of_nat_unat ucast_id)

lemma put32_be32 [simp]: "put32 (be32 a b c d) = [a, b, c, d]"
  by (simp only: put32_def unat_be32 shift_byte low_byte of_nat_unat ucast_id)

lemma unat_byte_of_nat: "unat (word_of_nat m :: byte) = m mod 256"
  unfolding unat_of_nat by simp

lemma be16_put16: "\<exists>a b. put16 w = [a, b] \<and> be16 a b = w"
proof -
  have "unat w div 256 < 256"
    using unsigned_less [of w, where ?'a = nat] by simp
  then have "unat w div 256 mod 256 * 256 + unat w mod 256 = unat w"
    by simp
  then have "be16 (word_of_nat (unat w div 256)) (word_of_nat (unat w)) = w"
    by (simp only: be16_def unat_byte_of_nat) (simp only: of_nat_unat ucast_id)
  then show ?thesis
    unfolding put16_def by blast
qed

lemma be32_put32: "\<exists>a b c d. put32 w = [a, b, c, d] \<and> be32 a b c d = w"
proof -
  define n where "n = unat w"
  have "n div 256 div 256 div 256 < 256"
    using unsigned_less [of w, where ?'a = nat] by (simp add: n_def div_mult2_eq [symmetric] less_mult_imp_div_less)
  then have "n div 256 div 256 div 256 mod 256 * 256 + n div 256 div 256 mod 256 = n div 256 div 256"
    by simp
  then have "((n div 256 div 256 div 256 mod 256 * 256 + n div 256 div 256 mod 256) * 256
      + n div 256 mod 256) * 256 + n mod 256 = n"
    by simp
  then have "be32 (word_of_nat (n div 256 div 256 div 256)) (word_of_nat (n div 256 div 256))
      (word_of_nat (n div 256)) (word_of_nat n) = w"
    by (simp only: be32_def unat_byte_of_nat) (simp only: n_def of_nat_unat ucast_id)
  then show ?thesis
    unfolding put32_def n_def by blast
qed

lemma length_put16 [simp]: "length (put16 w) = 2"
  by (simp add: put16_def)

lemma length_put32 [simp]: "length (put32 w) = 4"
  by (simp add: put32_def)

section \<open>Go maps, interface values and contexts\<close>

text \<open>
  A Go map is the list of its entries, one per key, in some iteration order: Go leaves the
  order open, so a statement about a map holds for every list that represents it. The nil
  map behaves as the empty one for reads; where the code tells the two apart the model uses
  an option. \<^verbatim>\<open>len\<close> is \<^term>\<open>length\<close>, \<^verbatim>\<open>m[k]\<close> is \<^term>\<open>map_of\<close>.
\<close>

type_synonym 'v go_map = "(string \<times> 'v) list"

definition wf_map :: "'v go_map \<Rightarrow> bool" where
  "wf_map m \<longleftrightarrow> distinct (map fst m)"

definition map_put :: "string \<Rightarrow> 'v \<Rightarrow> 'v go_map \<Rightarrow> 'v go_map" where
  "map_put k v m = AList.update k v m"

definition sorted_keys :: "'v go_map \<Rightarrow> string list" where
  "sorted_keys m = sort (map fst m)"

lemma set_sorted_keys [simp]: "set (sorted_keys m) = fst ` set m"
  by (simp add: sorted_keys_def)

lemma sorted_sorted_keys [simp]: "sorted (sorted_keys m)"
  by (simp add: sorted_keys_def)

lemma distinct_sorted_keys: "wf_map m \<Longrightarrow> distinct (sorted_keys m)"
  by (simp add: sorted_keys_def wf_map_def)

lemma length_sorted_keys [simp]: "length (sorted_keys m) = length m"
  by (simp add: sorted_keys_def)

lemma sorted_keys_perm: "mset (map fst m) = mset (map fst m') \<Longrightarrow> sorted_keys m = sorted_keys m'"
  unfolding sorted_keys_def by (metis properties_for_sort sorted_sort mset_sort)

lemma map_put_fresh: "k \<notin> fst ` set m \<Longrightarrow> map_put k v m = m @ [(k, v)]"
  by (induction m) (auto simp: map_put_def)

lemma keys_map_put [simp]: "fst ` set (map_put k v m) = insert k (fst ` set m)"
  by (auto simp: map_put_def dom_update)

lemma wf_map_put [simp]: "wf_map m \<Longrightarrow> wf_map (map_put k v m)"
  by (simp add: wf_map_def map_put_def distinct_update)

lemma map_of_map_put [simp]: "map_of (map_put k v m) j = (if j = k then Some v else map_of m j)"
  by (simp add: map_put_def update_conv)

text \<open>
  A Go interface value: the nil interface, an interface that holds a nil pointer, map, slice
  or function (a typed nil), or a usable implementation, whose methods are given as \<open>'a\<close>.
  \<open>IsNil\<close> is \<^verbatim>\<open>interfaceutil.IsNil\<close>, which reports both kinds of nil.
\<close>

datatype 'a iface = NilIface | TypedNil | Impl 'a

fun IsNil :: "'a iface \<Rightarrow> bool" where
  "IsNil NilIface = True"
| "IsNil TypedNil = True"
| "IsNil (Impl _) = False"

lemma IsNil_iff: "IsNil i \<longleftrightarrow> i = NilIface \<or> i = TypedNil"
  by (cases i) auto

lemma not_IsNil_iff: "\<not> IsNil i \<longleftrightarrow> (\<exists>a. i = Impl a)"
  by (cases i) auto

section \<open>First element with a property\<close>

lemma first_split_Cons:
  "(\<exists>before x after. p # ps = before @ x # after \<and> A x \<and> (\<forall>q\<in>set before. R q)) \<longleftrightarrow>
    A p \<or> R p \<and> (\<exists>before x after. ps = before @ x # after \<and> A x \<and> (\<forall>q\<in>set before. R q))" (is "?L \<longleftrightarrow> ?R")
proof
  assume ?L
  then obtain before x after where "p # ps = before @ x # after" "A x" "\<forall>q\<in>set before. R q"
    by blast
  then show ?R
    by (cases before) auto
next
  assume ?R
  then show ?L
  proof
    assume "A p"
    then show ?L
      by (intro exI [of _ "[]"]) auto
  next
    assume "R p \<and> (\<exists>before x after. ps = before @ x # after \<and> A x \<and> (\<forall>q\<in>set before. R q))"
    then obtain before x after where "R p" "ps = before @ x # after" "A x" "\<forall>q\<in>set before. R q"
      by blast
    then show ?L
      by (intro exI [of _ "p # before"]) auto
  qed
qed

end
