(* ===== verification/Go_Errors.thy ===== *)
theory Go_Errors
  imports Go_Prelude
begin

text \<open>
  The error values of the program and the result types of its fallible functions. Every
  exported \<^verbatim>\<open>Err...\<close> variable of the modelled packages is a constructor of \<open>sentinel\<close>;
  \<open>error\<close> has the shapes the code builds from them with \<^verbatim>\<open>fmt.Errorf\<close>, so that
  \<^verbatim>\<open>errors.Is\<close> can be computed. A function that returns \<^verbatim>\<open>(T, error)\<close> is a
  \<open>T result\<close>, one that only returns \<^verbatim>\<open>error\<close> is an \<open>error option\<close> with \<open>None\<close> for nil.
\<close>

section \<open>Errors\<close>

text \<open>
  The attestation format packages repeat the same names of errors; the sentinel
  \<^verbatim>\<open>ErrX\<close> of the package of format \<open>f\<close> is \<open>ErrAttestation f X\<close>.
\<close>

datatype att_format = FormatPacked | FormatFIDOU2F | FormatTPM | FormatApple | FormatAndroidKey | FormatSafetyNet

datatype att_problem =
    InvalidStatement | AlgorithmMismatch | InvalidSignature | CertificateRequirements
  | UnsupportedKey | UnsupportedAlgorithm | PublicKeyMismatch | InvalidPublicArea | InvalidCertInfo
  | InvalidNonce | InvalidExtension | InvalidJWS | InvalidPayload | PolicyConfiguration

datatype sentinel =
    ErrUnsupportedValue
  | ErrMalformedAuthenticatorData | ErrAttestedCredentialDataMissing | ErrMalformedClientData
  | ErrInvalidCredentialPublicKey
  | ErrInvalidID | ErrDuplicateID | ErrUnknownID | ErrInvalidOperation | ErrInvalidRequest
  | ErrInvalidRevision | ErrBindingMismatch | ErrTooManyEntries
  | ErrInvalidFormat | ErrDuplicateFormat | ErrTrustPolicyConfiguration
  | ErrNoneInvalidStatement
  | ErrCompoundInvalidStatement | ErrCompoundVerifier | ErrInsufficientStatements
  | ErrMalformedResponse | ErrInvalidConfiguration | ErrInvalidCeremonyState
  | ErrChallengeMismatch | ErrOriginMismatch | ErrRPIDHashMismatch | ErrUserPresenceRequired
  | ErrUserVerificationRequired | ErrUnsupportedAlgorithm | ErrUnsupportedAttestationFormat
  | ErrInvalidAttestation | ErrRejectedAttestationPolicy | ErrExtensionPolicy
  | ErrCeremonyExpired | ErrInvalidBackupState | ErrBackupEligibilityMismatch
  | ErrCredentialRPIDMismatch | ErrInvalidCredentialRecord
  | ErrCredentialNotAllowed | ErrUserHandleRequired | ErrCredentialOwnershipMismatch
  | ErrInvalidSignature | ErrCloneRisk
  | ErrCredentialUpdateConflict | ErrInvalidCredentialUpdate
  | ErrAttestation att_format att_problem
  | ErrMalformedCBOR
  | ErrNoAlgorithms | ErrStandardUnsupportedAlgorithm | ErrStandardInvalidPublicKey | ErrStandardInvalidSignature
  | ErrInvalidEnvelope | ErrUnsupportedVersion | ErrUnsupportedExtensionValue
  | ErrMalformedJSON | ErrInvalidBase64URL | ErrInvalidProtocolValue
  | ErrRequestBodyTooLarge | ErrReadRequest | ErrWriteResponse | ErrInvalidBodyLimit

datatype error =
    Sentinel sentinel
  | Wrapf sentinel error
  | Notef sentinel string
  | Ctxf string error
  | Newf string
  | ByteLengthError string int int int
  | ValueError string string
  | External string

text \<open>
  \<open>Wrapf s e\<close> is \<^verbatim>\<open>fmt.Errorf("%w: %w", s, e)\<close>, \<open>Notef s t\<close> is \<^verbatim>\<open>fmt.Errorf("%w: t", s)\<close>,
  \<open>Ctxf t e\<close> is \<^verbatim>\<open>fmt.Errorf("t: %w", e)\<close>, \<open>Newf t\<close> is \<^verbatim>\<open>errors.New(t)\<close> and \<open>External\<close> an
  error of an injected dependency. \<^verbatim>\<open>protocol.ValueError\<close> unwraps to \<^verbatim>\<open>ErrUnsupportedValue\<close>.
\<close>

fun errors_is :: "error \<Rightarrow> sentinel \<Rightarrow> bool" where
  "errors_is (Sentinel t) s \<longleftrightarrow> t = s"
| "errors_is (Wrapf t e) s \<longleftrightarrow> t = s \<or> errors_is e s"
| "errors_is (Notef t _) s \<longleftrightarrow> t = s"
| "errors_is (Ctxf _ e) s \<longleftrightarrow> errors_is e s"
| "errors_is (Newf _) s \<longleftrightarrow> False"
| "errors_is (ByteLengthError _ _ _ _) s \<longleftrightarrow> False"
| "errors_is (ValueError _ _) s \<longleftrightarrow> s = ErrUnsupportedValue"
| "errors_is (External _) s \<longleftrightarrow> False"

section \<open>Results and their sequencing\<close>

type_synonym 'a result = "error + 'a"

text \<open>\<^verbatim>\<open>if err := e; err != nil { return ..., err }\<close> followed by \<open>k\<close>.\<close>

definition check :: "error option \<Rightarrow> 'a result \<Rightarrow> 'a result" where
  "check e k = (case e of None \<Rightarrow> k | Some x \<Rightarrow> Inl x)"

text \<open>The same for a function whose own result is only an error.\<close>

definition or_err :: "error option \<Rightarrow> error option \<Rightarrow> error option" where
  "or_err e k = (case e of None \<Rightarrow> k | Some x \<Rightarrow> Some x)"

text \<open>\<^verbatim>\<open>x, err := r; if err != nil { return ..., err }\<close> followed by \<open>f x\<close>.\<close>

definition and_then :: "'a result \<Rightarrow> ('a \<Rightarrow> 'b result) \<Rightarrow> 'b result" where
  "and_then r f = (case r of Inl e \<Rightarrow> Inl e | Inr x \<Rightarrow> f x)"

definition and_err :: "'a result \<Rightarrow> ('a \<Rightarrow> error option) \<Rightarrow> error option" where
  "and_err r f = (case r of Inl e \<Rightarrow> Some e | Inr x \<Rightarrow> f x)"

definition wrap_err :: "sentinel \<Rightarrow> error option \<Rightarrow> error option" where
  "wrap_err s e = map_option (Wrapf s) e"

definition wrap_res :: "sentinel \<Rightarrow> 'a result \<Rightarrow> 'a result" where
  "wrap_res s r = (case r of Inl e \<Rightarrow> Inl (Wrapf s e) | Inr x \<Rightarrow> Inr x)"

text \<open>The error of the first element that has one: a \<^verbatim>\<open>for\<close> loop that returns on error.\<close>

primrec first_err :: "('a \<Rightarrow> error option) \<Rightarrow> 'a list \<Rightarrow> error option" where
  "first_err f [] = None"
| "first_err f (x # xs) = (case f x of None \<Rightarrow> first_err f xs | Some e \<Rightarrow> Some e)"

text \<open>The results of a loop that appends one result per element and returns on error.\<close>

primrec map_res :: "('a \<Rightarrow> 'b result) \<Rightarrow> 'a list \<Rightarrow> 'b list result" where
  "map_res f [] = Inr []"
| "map_res f (x # xs) = and_then (f x) (\<lambda>y. and_then (map_res f xs) (\<lambda>ys. Inr (y # ys)))"

lemma check_simps [simp]: "check None k = k" "check (Some x) k = Inl x"
  by (simp_all add: check_def)

lemma or_err_simps [simp]: "or_err None k = k" "or_err (Some x) k = Some x" "or_err e None = e"
  by (simp_all add: or_err_def split: option.splits)

lemma and_then_simps [simp]: "and_then (Inl e) f = Inl e" "and_then (Inr x) f = f x"
  by (simp_all add: and_then_def)

lemma and_err_simps [simp]: "and_err (Inl e) f = Some e" "and_err (Inr x) f = f x"
  by (simp_all add: and_err_def)

lemma wrap_err_simps [simp]:
  "wrap_err s None = None" "wrap_err s (Some e) = Some (Wrapf s e)" "wrap_err s oe = None \<longleftrightarrow> oe = None"
  by (simp_all add: wrap_err_def)

lemma wrap_res_simps [simp]:
  "wrap_res s (Inl e) = Inl (Wrapf s e)" "wrap_res s (Inr x) = Inr x" "wrap_res s r = Inr x \<longleftrightarrow> r = Inr x"
  by (auto simp: wrap_res_def split: sum.splits)

lemma check_weak_cong [cong]: "e = e' \<Longrightarrow> check e k = check e' k"
  by simp

lemma or_err_weak_cong [cong]: "e = e' \<Longrightarrow> or_err e k = or_err e' k"
  by simp

lemma and_then_weak_cong [cong]: "r = r' \<Longrightarrow> and_then r f = and_then r' f"
  by simp

lemma and_err_weak_cong [cong]: "r = r' \<Longrightarrow> and_err r f = and_err r' f"
  by simp

lemma check_Inr_iff [result_inv]: "check e k = Inr x \<longleftrightarrow> e = None \<and> k = Inr x"
  by (cases e) auto

lemma or_err_None_iff [result_inv]: "or_err e k = None \<longleftrightarrow> e = None \<and> k = None"
  by (cases e) auto

lemma and_then_Inr_iff [result_inv]: "and_then r f = Inr y \<longleftrightarrow> (\<exists>x. r = Inr x \<and> f x = Inr y)"
  by (cases r) auto

lemma and_err_None_iff [result_inv]: "and_err r f = None \<longleftrightarrow> (\<exists>x. r = Inr x \<and> f x = None)"
  by (cases r) auto

lemma if_Inl_Inr_iff [result_inv]: "(if c then Inl e else k) = Inr x \<longleftrightarrow> \<not> c \<and> k = Inr x"
  by auto

lemma if_Some_None_iff [result_inv]: "(if c then Some e else k) = None \<longleftrightarrow> \<not> c \<and> k = None"
  by auto

lemma case_option_Inl_iff:
  "(case x of None \<Rightarrow> Inl e | Some v \<Rightarrow> f v) = Inr y \<longleftrightarrow> (\<exists>v. x = Some v \<and> f v = Inr y)"
  by (cases x) auto

lemma first_err_None_iff [result_inv]: "first_err f xs = None \<longleftrightarrow> (\<forall>x\<in>set xs. f x = None)"
  by (induction xs) (auto split: option.splits)

lemma first_err_SomeD: "first_err f xs = Some e \<Longrightarrow> \<exists>x\<in>set xs. f x = Some e"
  by (induction xs) (auto split: option.splits)

lemma map_res_Inr_iff [result_inv]: "map_res f xs = Inr ys \<longleftrightarrow> list_all2 (\<lambda>x y. f x = Inr y) xs ys"
  by (induction xs arbitrary: ys) (auto simp: and_then_Inr_iff list_all2_Cons1)

text \<open>A result that is not an error carries a value; used to read a run backwards.\<close>

lemma result_not_Inl: "(\<forall>e. r \<noteq> Inl e) \<longleftrightarrow> (\<exists>x. r = Inr x)"
  by (cases r) auto

section \<open>Contexts\<close>

text \<open>
  A \<^verbatim>\<open>context.Context\<close> is seen by the program through \<^verbatim>\<open>ctx.Err()\<close> only: \<open>ctx n\<close> is what
  the \<open>n\<close>-th poll inside one call returns, so that a cancellation between any two polls is
  a possible behaviour. \<open>None\<close> for the context itself is the nil context, replaced by
  \<^verbatim>\<open>context.Background()\<close>, which is never cancelled.
\<close>

type_synonym ctx = "nat \<Rightarrow> error option"

definition Background :: ctx where
  "Background n = None"

definition normalizeContext :: "ctx option \<Rightarrow> ctx" where
  "normalizeContext c = (case c of None \<Rightarrow> Background | Some x \<Rightarrow> x)"

end
