(* ===== verification/Protocol_Bytes.thy ===== *)
theory Protocol_Bytes
  imports Go_Errors
begin

text \<open>
  \<^verbatim>\<open>src/protocol/bytes.go\<close>: the length-checked byte values of the protocol. One constructor
  \<open>newByteValue\<close> serves all of them; the locale \<open>bounded_bytes\<close> states what a constructor
  promises and derives what the ceremonies use, and it is interpreted for each of the eight
  constructors of the source.
\<close>

unbundle bit_operations_syntax

definition MinChallengeLength :: int where "MinChallengeLength = 16"
definition RecommendedChallengeLength :: int where "RecommendedChallengeLength = 32"
definition MaxCredentialIDLength :: int where "MaxCredentialIDLength = 1023"
definition MaxUserHandleLength :: int where "MaxUserHandleLength = 64"
definition MinAuthenticatorDataLength :: nat where "MinAuthenticatorDataLength = 37"

record byteValue =
  bv_value :: go_bytes

definition zero_byteValue :: byteValue where
  "zero_byteValue = \<lparr>bv_value = None\<rparr>"

definition newByteValue :: "string \<Rightarrow> go_bytes \<Rightarrow> int \<Rightarrow> int \<Rightarrow> byteValue result" where
  "newByteValue field v minLength maxLength =
    (let n = int (length (bytes_of v)) in
     if n < minLength \<or> (maxLength > 0 \<and> n > maxLength)
     then Inl (ByteLengthError field n minLength maxLength)
     else Inr \<lparr>bv_value = v\<rparr>)"

definition bv_bytes :: "byteValue \<Rightarrow> bytes" where
  "bv_bytes v = bytes_of (bv_value v)"

definition bv_len :: "byteValue \<Rightarrow> nat" where
  "bv_len v = length (bv_bytes v)"

definition bv_appendTo :: "byteValue \<Rightarrow> bytes \<Rightarrow> bytes" where
  "bv_appendTo v out = out @ bv_bytes v"

text \<open>
  \<^verbatim>\<open>subtle.ConstantTimeCompare\<close>: 0 when the lengths differ, otherwise the bitwise or of the
  differences of all positions compared with 0.
\<close>

definition ConstantTimeCompare :: "bytes \<Rightarrow> bytes \<Rightarrow> int" where
  "ConstantTimeCompare x y =
    (if length x \<noteq> length y then 0
     else if fold (\<lambda>(a, b) v. v OR (a XOR b)) (zip x y) (0 :: byte) = 0 then 1 else 0)"

definition bv_equalBytes :: "byteValue \<Rightarrow> bytes \<Rightarrow> bool" where
  "bv_equalBytes v other \<longleftrightarrow> ConstantTimeCompare (bv_bytes v) other = 1"

definition bv_Equal :: "byteValue \<Rightarrow> byteValue \<Rightarrow> bool" where
  "bv_Equal v other \<longleftrightarrow> bv_equalBytes v (bv_bytes other)"

definition bv_IsNil :: "byteValue \<Rightarrow> bool" where
  "bv_IsNil v \<longleftrightarrow> bv_value v = None"

type_synonym Challenge = byteValue
type_synonym CredentialID = byteValue
type_synonym UserHandle = byteValue
type_synonym RawID = byteValue
type_synonym AuthenticatorData = byteValue
type_synonym ClientDataJSON = byteValue
type_synonym AttestationObject = byteValue
type_synonym Signature = byteValue

definition NewChallenge :: "go_bytes \<Rightarrow> Challenge result" where
  "NewChallenge v = newByteValue ''challenge'' v MinChallengeLength 0"

definition NewCredentialID :: "go_bytes \<Rightarrow> CredentialID result" where
  "NewCredentialID v = newByteValue ''credential id'' v 1 MaxCredentialIDLength"

definition NewUserHandle :: "go_bytes \<Rightarrow> UserHandle result" where
  "NewUserHandle v = newByteValue ''user handle'' v 1 MaxUserHandleLength"

definition NewRawID :: "go_bytes \<Rightarrow> RawID result" where
  "NewRawID v = newByteValue ''raw id'' v 1 MaxCredentialIDLength"

definition NewAuthenticatorData :: "go_bytes \<Rightarrow> AuthenticatorData result" where
  "NewAuthenticatorData v = newByteValue ''authenticator data'' v (int MinAuthenticatorDataLength) 0"

definition NewClientDataJSON :: "go_bytes \<Rightarrow> ClientDataJSON result" where
  "NewClientDataJSON v = newByteValue ''client data json'' v 1 0"

definition NewAttestationObject :: "go_bytes \<Rightarrow> AttestationObject result" where
  "NewAttestationObject v = newByteValue ''attestation object'' v 1 0"

definition NewSignature :: "go_bytes \<Rightarrow> Signature result" where
  "NewSignature v = newByteValue ''signature'' v 1 0"

section \<open>Comparison\<close>

lemma or_eq_0_iff: "(x :: byte) OR y = 0 \<longleftrightarrow> x = 0 \<and> y = 0"
  by (auto simp: bit_eq_iff bit_or_iff)

lemma xor_eq_0_iff: "(x :: byte) XOR y = 0 \<longleftrightarrow> x = y"
  by (auto simp: bit_eq_iff bit_xor_iff)

lemma fold_difference_eq_0:
  "length x = length y \<Longrightarrow>
    fold (\<lambda>(a, b) v. v OR (a XOR b)) (zip x y) (w :: byte) = 0 \<longleftrightarrow> w = 0 \<and> x = y"
  by (induction x y arbitrary: w rule: list_induct2) (auto simp: or_eq_0_iff xor_eq_0_iff)

lemma ConstantTimeCompare_iff: "ConstantTimeCompare x y = 1 \<longleftrightarrow> x = y"
  by (auto simp: ConstantTimeCompare_def fold_difference_eq_0)

lemma bv_equalBytes_iff [simp]: "bv_equalBytes v other \<longleftrightarrow> bv_bytes v = other"
  by (simp add: bv_equalBytes_def ConstantTimeCompare_iff)

lemma bv_Equal_iff [simp]: "bv_Equal v other \<longleftrightarrow> bv_bytes v = bv_bytes other"
  by (simp add: bv_Equal_def)

lemma bv_len_0_iff [simp]: "bv_len v = 0 \<longleftrightarrow> bv_bytes v = []"
  by (simp add: bv_len_def)

lemma bv_IsNil_bytes: "bv_IsNil v \<Longrightarrow> bv_bytes v = []"
  by (simp add: bv_IsNil_def bv_bytes_def)

section \<open>The contract of a constructor\<close>

locale bounded_bytes =
  fixes mk :: "go_bytes \<Rightarrow> byteValue result"
    and field :: string and lo hi :: int
  assumes positive_minimum: "0 < lo"
    and accepts: "(\<exists>b. mk v = Inr b) \<longleftrightarrow>
      lo \<le> int (length (bytes_of v)) \<and> (0 < hi \<longrightarrow> int (length (bytes_of v)) \<le> hi)"
    and keeps: "mk v = Inr b \<Longrightarrow> bv_value b = v"
    and rejects: "mk v = Inl e \<Longrightarrow> e = ByteLengthError field (int (length (bytes_of v))) lo hi"
begin

lemma bounds: "mk v = Inr b \<Longrightarrow> lo \<le> int (bv_len b) \<and> (0 < hi \<longrightarrow> int (bv_len b) \<le> hi)"
  using accepts [of v] keeps [of v b] by (auto simp: bv_len_def bv_bytes_def)

lemma nonempty: "mk v = Inr b \<Longrightarrow> bv_bytes b \<noteq> []"
  using bounds [of v b] positive_minimum by (auto simp: bv_len_def)

lemma not_nil: "mk v = Inr b \<Longrightarrow> \<not> bv_IsNil b"
  using nonempty bv_IsNil_bytes by blast

lemma same_bytes: "mk v = Inr b \<Longrightarrow> bv_bytes b = bytes_of v"
  by (drule keeps) (simp add: bv_bytes_def)

lemma equal_iff: "mk v = Inr b \<Longrightarrow> mk w = Inr c \<Longrightarrow> bv_Equal b c \<longleftrightarrow> v = w"
proof
  assume "mk v = Inr b" "mk w = Inr c" "bv_Equal b c"
  then have "bytes_of v = bytes_of w" "bytes_of v \<noteq> []"
    using same_bytes nonempty by (metis bv_Equal_iff)+
  then show "v = w"
    by (cases v; cases w) auto
qed (auto simp: same_bytes)

lemma reconstruct: "mk v = Inr b \<Longrightarrow> mk (Some (bv_bytes b)) = Inr b"
proof -
  assume b: "mk v = Inr b"
  obtain bs where v: "v = Some bs"
    using nonempty [OF b] same_bytes [OF b] by (cases v) auto
  then show "mk (Some (bv_bytes b)) = Inr b"
    using b same_bytes [OF b] by simp
qed

lemma nil_rejected: "\<exists>e. mk None = Inl e"
  using accepts [of None] positive_minimum by (cases "mk None") auto

end

lemma newByteValue_bounded:
  assumes "\<And>v. mk v = newByteValue field v lo hi" and "0 < lo"
  shows "bounded_bytes mk field lo hi"
  by unfold_locales
    (use assms in \<open>auto simp: newByteValue_def Let_def split: if_splits\<close>)

interpretation challenge: bounded_bytes NewChallenge "''challenge''" MinChallengeLength 0
  by (rule newByteValue_bounded) (simp_all add: NewChallenge_def MinChallengeLength_def)

interpretation credential_id: bounded_bytes NewCredentialID "''credential id''" 1 MaxCredentialIDLength
  by (rule newByteValue_bounded) (simp_all add: NewCredentialID_def)

interpretation user_handle: bounded_bytes NewUserHandle "''user handle''" 1 MaxUserHandleLength
  by (rule newByteValue_bounded) (simp_all add: NewUserHandle_def)

interpretation raw_id: bounded_bytes NewRawID "''raw id''" 1 MaxCredentialIDLength
  by (rule newByteValue_bounded) (simp_all add: NewRawID_def)

interpretation authenticator_data: bounded_bytes NewAuthenticatorData "''authenticator data''"
  "int MinAuthenticatorDataLength" 0
  by (rule newByteValue_bounded) (simp_all add: NewAuthenticatorData_def MinAuthenticatorDataLength_def)

interpretation client_data_json: bounded_bytes NewClientDataJSON "''client data json''" 1 0
  by (rule newByteValue_bounded) (simp_all add: NewClientDataJSON_def)

interpretation attestation_object: bounded_bytes NewAttestationObject "''attestation object''" 1 0
  by (rule newByteValue_bounded) (simp_all add: NewAttestationObject_def)

interpretation signature: bounded_bytes NewSignature "''signature''" 1 0
  by (rule newByteValue_bounded) (simp_all add: NewSignature_def)

end
