(* ===== verification/Extension_Data.thy ===== *)
theory Extension_Data
  imports Complex_Main Go_Errors
begin

text \<open>
  The data of the extension packages: the typed inputs and results of the built-in handlers
  (\<^verbatim>\<open>src/extension/level2.go\<close>, \<^verbatim>\<open>level3.go\<close>, \<^verbatim>\<open>largeblob.go\<close>, \<^verbatim>\<open>uvm.go\<close>,
  \<^verbatim>\<open>remote_client_data.go\<close>) and \<open>goval\<close>, the values a Go \<^verbatim>\<open>any\<close> holds at the untyped
  boundaries of the program (extension inputs and outputs, attestation statements).
\<close>

section \<open>Typed inputs and results\<close>

record PRFValues =
  prf_First :: go_bytes
  prf_Second :: go_bytes

record PRFInput =
  prf_Eval :: "PRFValues option"
  prf_EvalByCredential :: "PRFValues go_map option"
  prf_AllowCredentials :: "string list option"

record PRFResult =
  prfr_Eval :: "PRFValues option"
  prfr_EvalByCredential :: "PRFValues go_map option"
  prfr_Enabled :: "bool option"
  prfr_Results :: "PRFValues option"

record LargeBlobInput =
  lb_Support :: string
  lb_Read :: "bool option"
  lb_Write :: go_bytes

record LargeBlobResult =
  lbr_Support :: string
  lbr_Read :: "bool option"
  lbr_Write :: go_bytes
  lbr_Supported :: "bool option"
  lbr_Blob :: go_bytes
  lbr_Written :: "bool option"

record UVMEntry =
  uvm_UserVerificationMethod :: "32 word"
  uvm_KeyProtectionType :: "16 word"
  uvm_MatcherProtectionType :: "16 word"

record AppIDResult =
  appid_AppID :: string
  appid_Used :: bool

record AppIDExcludeResult =
  appidx_AppID :: string
  appidx_ActedUpon :: bool

section \<open>Dynamic types and values\<close>

datatype int_kind = KInt | KInt8 | KInt16 | KInt32 | KInt64 | KUint | KUint8 | KUint16 | KUint32 | KUint64

text \<open>A floating-point value: the finite ones are rationals.\<close>

datatype gofloat = Finite rat | NotANumber | PosInf | NegInf

text \<open>
  The dynamic types the program distinguishes. \<open>TNamed\<close> are the named struct types of the
  program and of the application, \<open>TIface\<close> is the type \<^verbatim>\<open>any\<close> of a slice or map element.
\<close>

datatype goty =
    TIface | TBool | TString | TInt int_kind | TFloat32 | TFloat64
  | TSlice goty | TArray nat goty | TMap goty goty | TPointer goty | TNamed string

text \<open>
  A slice, array or map carries the type of its elements; \<open>None\<close> for the contents is the nil
  slice or map. \<open>VRawInput\<close> is \<^verbatim>\<open>extension.RawInput\<close> (\<open>None\<close>: its zero value).
  \<open>VInputImpl\<close> is an application type that implements \<^verbatim>\<open>protocol.ExtensionInput\<close>: by the
  contract stated in \<^verbatim>\<open>src/protocol/extension_input.go\<close> its \<^verbatim>\<open>CloneExtensionInput\<close> returns
  an independent copy, here the value itself, or the error given. \<open>VCloner\<close> is an application
  type with a method \<^verbatim>\<open>Clone() T\<close>, \<open>VOther\<close> any other value (functions, channels, structs).
\<close>

datatype goval =
    VNil
  | VBool bool
  | VString string
  | VInt int_kind int
  | VFloat32 gofloat
  | VFloat64 gofloat
  | VBytes go_bytes
  | VSlice goty "goval list option"
  | VArray goty "goval list"
  | VMap goty goty "(goval \<times> goval) list option"
  | VBoolInput bool
  | VStringInput string
  | VRawInput "goval option"
  | VPtrBoolInput "bool option"
  | VPtrStringInput "string option"
  | VPRFValues PRFValues
  | VPtrPRFValues "PRFValues option"
  | VPRFInput PRFInput
  | VPRFResult PRFResult
  | VLargeBlobInput LargeBlobInput
  | VLargeBlobResult LargeBlobResult
  | VCredentialPropertiesResult "bool option"
  | VUVMResult "UVMEntry list option"
  | VUVMEntries "UVMEntry list option"
  | VAppIDResult AppIDResult
  | VAppIDExcludeResult AppIDExcludeResult
  | VRemoteClientDataJSONResult bool
  | VInputImpl string nat "error option"
  | VTypedNilInput string
  | VCloner string nat
  | VCOSEAlgorithm int
  | VSubStatements "(string \<times> (string \<times> goval) list option) list option"
  | VOther goty

fun typeof :: "goval \<Rightarrow> goty" where
  "typeof VNil = TIface"
| "typeof (VBool _) = TBool"
| "typeof (VString _) = TString"
| "typeof (VInt k _) = TInt k"
| "typeof (VFloat32 _) = TFloat32"
| "typeof (VFloat64 _) = TFloat64"
| "typeof (VBytes _) = TSlice (TInt KUint8)"
| "typeof (VSlice t _) = TSlice t"
| "typeof (VArray t xs) = TArray (length xs) t"
| "typeof (VMap k t _) = TMap k t"
| "typeof (VBoolInput _) = TNamed ''protocol.BoolInput''"
| "typeof (VStringInput _) = TNamed ''protocol.StringInput''"
| "typeof (VRawInput _) = TNamed ''extension.RawInput''"
| "typeof (VPtrBoolInput _) = TPointer (TNamed ''protocol.BoolInput'')"
| "typeof (VPtrStringInput _) = TPointer (TNamed ''protocol.StringInput'')"
| "typeof (VPRFValues _) = TNamed ''extension.PRFValues''"
| "typeof (VPtrPRFValues _) = TPointer (TNamed ''extension.PRFValues'')"
| "typeof (VPRFInput _) = TNamed ''extension.PRFInput''"
| "typeof (VPRFResult _) = TNamed ''extension.PRFResult''"
| "typeof (VLargeBlobInput _) = TNamed ''extension.LargeBlobInput''"
| "typeof (VLargeBlobResult _) = TNamed ''extension.LargeBlobResult''"
| "typeof (VCredentialPropertiesResult _) = TNamed ''extension.CredentialPropertiesResult''"
| "typeof (VUVMResult _) = TNamed ''extension.UVMResult''"
| "typeof (VUVMEntries _) = TSlice (TNamed ''extension.UVMEntry'')"
| "typeof (VAppIDResult _) = TNamed ''extension.AppIDResult''"
| "typeof (VAppIDExcludeResult _) = TNamed ''extension.AppIDExcludeResult''"
| "typeof (VRemoteClientDataJSONResult _) = TNamed ''extension.RemoteClientDataJSONResult''"
| "typeof (VInputImpl n _ _) = TNamed n"
| "typeof (VTypedNilInput n) = TPointer (TNamed n)"
| "typeof (VCloner n _) = TNamed n"
| "typeof (VCOSEAlgorithm _) = TNamed ''protocol.COSEAlgorithmIdentifier''"
| "typeof (VSubStatements _) = TSlice (TNamed ''codec.CompoundSubStatement'')"
| "typeof (VOther t) = t"

text \<open>
  \<open>nilLike\<close> (\<^verbatim>\<open>interfaceutil.IsNil\<close> on an \<^verbatim>\<open>any\<close>): nil, or a nil pointer, map or slice.
\<close>

fun nilLike :: "goval \<Rightarrow> bool" where
  "nilLike VNil = True"
| "nilLike (VBytes None) = True"
| "nilLike (VSlice _ None) = True"
| "nilLike (VMap _ _ None) = True"
| "nilLike (VPtrBoolInput None) = True"
| "nilLike (VPtrStringInput None) = True"
| "nilLike (VPtrPRFValues None) = True"
| "nilLike (VUVMEntries None) = True"
| "nilLike (VTypedNilInput _) = True"
| "nilLike (VSubStatements None) = True"
| "nilLike _ = False"

text \<open>Whether the dynamic type implements \<^verbatim>\<open>protocol.ExtensionInput\<close>.\<close>

fun isExtensionInput :: "goval \<Rightarrow> bool" where
  "isExtensionInput (VBoolInput _) = True"
| "isExtensionInput (VStringInput _) = True"
| "isExtensionInput (VRawInput _) = True"
| "isExtensionInput (VPtrBoolInput _) = True"
| "isExtensionInput (VPtrStringInput _) = True"
| "isExtensionInput (VPRFInput _) = True"
| "isExtensionInput (VLargeBlobInput _) = True"
| "isExtensionInput (VInputImpl _ _ _) = True"
| "isExtensionInput (VTypedNilInput _) = True"
| "isExtensionInput _ = False"

text \<open>
  An extension member at an untyped boundary, \<^verbatim>\<open>extension.RawValue\<close>: \<open>None\<close> is absent,
  \<open>Some VNil\<close> is an explicit null.
\<close>

type_synonym RawValue = "goval option"

text \<open>\<^verbatim>\<open>protocol.ExtensionInput\<close> values and the maps the ceremonies exchange.\<close>

type_synonym ExtensionInput = goval
type_synonym ExtensionInputs = "ExtensionInput go_map"
type_synonym ClientOutputs = "RawValue go_map"
type_synonym ExtensionMap = "goval go_map"
type_synonym AttestationStatement = "goval go_map"

end
