(* ===== verification/Protocol_Types.thy ===== *)
theory Protocol_Types
  imports Protocol_Bytes Extension_Data
begin

text \<open>
  \<^verbatim>\<open>src/protocol/types.go\<close> and \<^verbatim>\<open>src/internal/protocolidentifier/identifier.go\<close>: the DOMString
  enumerations with their \<^verbatim>\<open>Known\<close> tests, the option dictionaries and their validation. An
  enumeration stays a string, as in the source, because unknown values travel through it.
\<close>

section \<open>Identifiers\<close>

definition maxIdentifierLength :: nat where "maxIdentifierLength = 32"

definition identifier_char :: "char \<Rightarrow> bool" where
  "identifier_char c \<longleftrightarrow>
    \<not> ((of_char c :: nat) < 0x21 \<or> (of_char c :: nat) > 0x7e \<or> c = CHR 0x22 \<or> c = CHR 0x5c)"

definition identifier_Valid :: "string \<Rightarrow> bool" where
  "identifier_Valid v \<longleftrightarrow>
    \<not> (length v = 0 \<or> length v > maxIdentifierLength) \<and> list_all identifier_char v"

section \<open>Enumerations\<close>

type_synonym PublicKeyCredentialType = string
type_synonym AuthenticatorTransport = string
type_synonym PublicKeyCredentialHint = string
type_synonym AttestationConveyancePreference = string
type_synonym UserVerificationRequirement = string
type_synonym AuthenticatorAttachment = string
type_synonym ResidentKeyRequirement = string
type_synonym ClientDataType = string
type_synonym COSEAlgorithmIdentifier = int

definition CredentialTypePublicKey :: PublicKeyCredentialType where
  "CredentialTypePublicKey = ''public-key''"

definition CredentialType_Known :: "PublicKeyCredentialType \<Rightarrow> bool" where
  "CredentialType_Known t \<longleftrightarrow> t = CredentialTypePublicKey"

definition CredentialType_Validate :: "PublicKeyCredentialType \<Rightarrow> error option" where
  "CredentialType_Validate t =
    (if \<not> CredentialType_Known t then Some (ValueError ''credential type'' t) else None)"

definition Transport_Known :: "AuthenticatorTransport \<Rightarrow> bool" where
  "Transport_Known t \<longleftrightarrow>
    t \<in> set [''usb'', ''nfc'', ''ble'', ''smart-card'', ''hybrid'', ''internal'']"

definition Hint_Known :: "PublicKeyCredentialHint \<Rightarrow> bool" where
  "Hint_Known h \<longleftrightarrow> h \<in> set [''security-key'', ''client-device'', ''hybrid'']"

definition AttestationEnterprise :: AttestationConveyancePreference where "AttestationEnterprise = ''enterprise''"
definition AttestationNone :: AttestationConveyancePreference where
  "AttestationNone = ''none''"

definition Attestation_Known :: "AttestationConveyancePreference \<Rightarrow> bool" where
  "Attestation_Known p \<longleftrightarrow> p \<in> set [AttestationNone, ''indirect'', ''direct'', ''enterprise'']"

definition UserVerificationRequired :: UserVerificationRequirement where
  "UserVerificationRequired = ''required''"

definition UserVerificationPreferred :: UserVerificationRequirement where
  "UserVerificationPreferred = ''preferred''"

definition UserVerification_Known :: "UserVerificationRequirement \<Rightarrow> bool" where
  "UserVerification_Known r \<longleftrightarrow>
    r \<in> set [UserVerificationRequired, UserVerificationPreferred, ''discouraged'']"

definition Attachment_Known :: "AuthenticatorAttachment \<Rightarrow> bool" where
  "Attachment_Known a \<longleftrightarrow> a \<in> set [''platform'', ''cross-platform'']"

definition ResidentKey_Known :: "ResidentKeyRequirement \<Rightarrow> bool" where
  "ResidentKey_Known r \<longleftrightarrow> r \<in> set [''discouraged'', ''preferred'', ''required'']"

definition ClientCapability_Known :: "string \<Rightarrow> bool" where
  "ClientCapability_Known c \<longleftrightarrow>
    c \<in> set [''conditionalCreate'', ''conditionalGet'', ''hybridTransport'',
      ''passkeyPlatformAuthenticator'', ''userVerifyingPlatformAuthenticator'', ''relatedOrigins'',
      ''signalAllAcceptedCredentials'', ''signalCurrentUserDetails'', ''signalUnknownCredential'']"

definition ClientDataTypeCreate :: ClientDataType where
  "ClientDataTypeCreate = ''webauthn.create''"

definition ClientDataTypeGet :: ClientDataType where
  "ClientDataTypeGet = ''webauthn.get''"

definition ClientDataType_Known :: "ClientDataType \<Rightarrow> bool" where
  "ClientDataType_Known t \<longleftrightarrow> t \<in> set [ClientDataTypeCreate, ClientDataTypeGet]"

section \<open>COSE algorithms\<close>

definition AlgorithmEdDSA :: COSEAlgorithmIdentifier where "AlgorithmEdDSA = -8"
definition AlgorithmES256 :: COSEAlgorithmIdentifier where "AlgorithmES256 = -7"
definition AlgorithmESP256 :: COSEAlgorithmIdentifier where "AlgorithmESP256 = -9"
definition AlgorithmES384 :: COSEAlgorithmIdentifier where "AlgorithmES384 = -35"
definition AlgorithmESP384 :: COSEAlgorithmIdentifier where "AlgorithmESP384 = -51"
definition AlgorithmES512 :: COSEAlgorithmIdentifier where "AlgorithmES512 = -36"
definition AlgorithmESP512 :: COSEAlgorithmIdentifier where "AlgorithmESP512 = -52"
definition AlgorithmEd448 :: COSEAlgorithmIdentifier where "AlgorithmEd448 = -53"
definition AlgorithmRS256 :: COSEAlgorithmIdentifier where "AlgorithmRS256 = -257"
definition AlgorithmRS384 :: COSEAlgorithmIdentifier where "AlgorithmRS384 = -258"
definition AlgorithmRS512 :: COSEAlgorithmIdentifier where "AlgorithmRS512 = -259"
definition AlgorithmPS256 :: COSEAlgorithmIdentifier where "AlgorithmPS256 = -37"
definition AlgorithmPS384 :: COSEAlgorithmIdentifier where "AlgorithmPS384 = -38"
definition AlgorithmPS512 :: COSEAlgorithmIdentifier where "AlgorithmPS512 = -39"
definition AlgorithmEd25519 :: COSEAlgorithmIdentifier where "AlgorithmEd25519 = -19"

definition minCOSEAlgorithmIdentifier :: COSEAlgorithmIdentifier where
  "minCOSEAlgorithmIdentifier = - (2 ^ 31)"

definition maxCOSEAlgorithmIdentifier :: COSEAlgorithmIdentifier where
  "maxCOSEAlgorithmIdentifier = 2 ^ 31 - 1"

text \<open>Decimal formatting, \<^verbatim>\<open>strconv.FormatInt(n, 10)\<close> and \<^verbatim>\<open>strconv.Itoa\<close>.\<close>

definition digit_char :: "nat \<Rightarrow> char" where
  "digit_char d = char_of (48 + d)"

fun nat_digits :: "nat \<Rightarrow> string" where
  "nat_digits n = (if n < 10 then [digit_char n] else nat_digits (n div 10) @ [digit_char (n mod 10)])"

declare nat_digits.simps [simp del]

definition itoa :: "int \<Rightarrow> string" where
  "itoa n = (if n < 0 then ''-'' @ nat_digits (nat (- n)) else nat_digits (nat n))"

definition Algorithm_Validate :: "COSEAlgorithmIdentifier \<Rightarrow> error option" where
  "Algorithm_Validate a =
    (if a < minCOSEAlgorithmIdentifier \<or> a > maxCOSEAlgorithmIdentifier
     then Some (ValueError ''COSE algorithm'' (itoa a)) else None)"

section \<open>Dictionaries\<close>

record CredentialParameter =
  cp_Type :: PublicKeyCredentialType
  cp_Algorithm :: COSEAlgorithmIdentifier

definition RecommendedLevel3CredentialParameters :: "CredentialParameter list" where
  "RecommendedLevel3CredentialParameters =
    [\<lparr>cp_Type = CredentialTypePublicKey, cp_Algorithm = AlgorithmEdDSA\<rparr>,
     \<lparr>cp_Type = CredentialTypePublicKey, cp_Algorithm = AlgorithmES256\<rparr>,
     \<lparr>cp_Type = CredentialTypePublicKey, cp_Algorithm = AlgorithmRS256\<rparr>]"

definition CredentialParameter_Validate :: "CredentialParameter \<Rightarrow> error option" where
  "CredentialParameter_Validate p =
    (if cp_Type p = [] then Some (ValueError ''credential type'' [])
     else Algorithm_Validate (cp_Algorithm p))"

record RPEntity =
  rp_ID :: string
  rp_Name :: string

definition RPEntity_Validate :: "RPEntity \<Rightarrow> error option" where
  "RPEntity_Validate e =
    (if rp_ID e = [] then Some (Newf ''rp id is required'')
     else if rp_Name e = [] then Some (Newf ''rp name is required'')
     else None)"

record UserEntity =
  user_ID :: UserHandle
  user_Name :: string
  user_DisplayName :: string

definition UserEntity_Validate :: "UserEntity \<Rightarrow> error option" where
  "UserEntity_Validate e =
    (if bv_len (user_ID e) = 0 then Some (Newf ''user id is required'')
     else if user_Name e = [] then Some (Newf ''user name is required'')
     else None)"

record CredentialDescriptor =
  cd_Type :: PublicKeyCredentialType
  cd_ID :: CredentialID
  cd_Transports :: "AuthenticatorTransport list"

definition CredentialDescriptor_Validate :: "CredentialDescriptor \<Rightarrow> error option" where
  "CredentialDescriptor_Validate d =
    or_err (CredentialType_Validate (cd_Type d))
      (if bv_len (cd_ID d) = 0 then Some (Newf ''credential id is required'') else None)"

record AuthenticatorSelectionCriteria =
  sel_AuthenticatorAttachment :: AuthenticatorAttachment
  sel_ResidentKey :: ResidentKeyRequirement
  sel_RequireResidentKey :: bool
  sel_UserVerification :: UserVerificationRequirement

definition Selection_Validate :: "AuthenticatorSelectionCriteria option \<Rightarrow> error option" where
  "Selection_Validate c =
    (case c of None \<Rightarrow> None
     | Some s \<Rightarrow> first_err
        (\<lambda>(name, v, known). if v \<noteq> [] \<and> \<not> known then Some (ValueError name v) else None)
        [(''authenticatorAttachment'', sel_AuthenticatorAttachment s, Attachment_Known (sel_AuthenticatorAttachment s)),
         (''residentKey'', sel_ResidentKey s, ResidentKey_Known (sel_ResidentKey s)),
         (''userVerification'', sel_UserVerification s, UserVerification_Known (sel_UserVerification s))])"

record PublicKeyCredentialCreationOptions =
  co_RP :: RPEntity
  co_User :: UserEntity
  co_Challenge :: Challenge
  co_PubKeyCredParams :: "CredentialParameter list"
  co_TimeoutMilliseconds :: "32 word"
  co_ExcludeCredentials :: "CredentialDescriptor list"
  co_AuthenticatorSelection :: "AuthenticatorSelectionCriteria option"
  co_Hints :: "PublicKeyCredentialHint list"
  co_Attestation :: AttestationConveyancePreference
  co_AttestationFormats :: "string list"
  co_Extensions :: ExtensionInputs

definition hasSupportedCredentialType :: "CredentialParameter list \<Rightarrow> bool" where
  "hasSupportedCredentialType ps \<longleftrightarrow> ps = [] \<or> list_ex (\<lambda>p. cp_Type p = CredentialTypePublicKey) ps"

definition CreationOptions_Validate :: "PublicKeyCredentialCreationOptions \<Rightarrow> error option" where
  "CreationOptions_Validate opts =
    or_err (Selection_Validate (co_AuthenticatorSelection opts))
    (or_err (RPEntity_Validate (co_RP opts))
    (or_err (UserEntity_Validate (co_User opts))
    (if bv_len (co_Challenge opts) = 0 then Some (Newf ''challenge is required'') else
     or_err (first_err CredentialParameter_Validate (co_PubKeyCredParams opts))
     (if \<not> hasSupportedCredentialType (co_PubKeyCredParams opts)
      then Some (Newf ''no supported public key credential parameters'') else
      or_err (first_err (\<lambda>f. if \<not> identifier_Valid f
          then Some (Newf ''attestation format identifier is invalid'') else None)
        (co_AttestationFormats opts))
      (first_err CredentialDescriptor_Validate (co_ExcludeCredentials opts))))))"

record PublicKeyCredentialRequestOptions =
  ro_Challenge :: Challenge
  ro_TimeoutMilliseconds :: "32 word"
  ro_RPID :: string
  ro_AllowCredentials :: "CredentialDescriptor list"
  ro_UserVerification :: UserVerificationRequirement
  ro_Hints :: "PublicKeyCredentialHint list"
  ro_Extensions :: ExtensionInputs

definition RequestOptions_Validate :: "PublicKeyCredentialRequestOptions \<Rightarrow> error option" where
  "RequestOptions_Validate opts =
    (if bv_len (ro_Challenge opts) = 0 then Some (Newf ''challenge is required'')
     else first_err CredentialDescriptor_Validate (ro_AllowCredentials opts))"

record TokenBinding =
  tb_Status :: string
  tb_ID :: string

record CollectedClientData =
  ccd_Type :: ClientDataType
  ccd_Challenge :: string
  ccd_Origin :: string
  ccd_CrossOrigin :: "bool option"
  ccd_TopOrigin :: string
  ccd_TokenBinding :: "TokenBinding option"
  ccd_Raw :: ClientDataJSON
  ccd_topOriginSet :: bool

definition HasTopOrigin :: "CollectedClientData \<Rightarrow> bool" where
  "HasTopOrigin d \<longleftrightarrow> ccd_topOriginSet d"

definition ValidateType :: "CollectedClientData \<Rightarrow> ClientDataType \<Rightarrow> error option" where
  "ValidateType d expected =
    (if ccd_Type d \<noteq> expected then Some (ValueError ''client data type'' (ccd_Type d)) else None)"

section \<open>What the validators establish\<close>

lemma CredentialType_Validate_None_iff [result_inv]:
  "CredentialType_Validate t = None \<longleftrightarrow> t = CredentialTypePublicKey"
  by (simp add: CredentialType_Validate_def CredentialType_Known_def)

lemma Algorithm_Validate_None_iff [result_inv]:
  "Algorithm_Validate a = None \<longleftrightarrow> - (2 ^ 31) \<le> a \<and> a < 2 ^ 31"
  by (auto simp: Algorithm_Validate_def minCOSEAlgorithmIdentifier_def maxCOSEAlgorithmIdentifier_def)

lemma CredentialParameter_Validate_None_iff [result_inv]:
  "CredentialParameter_Validate p = None \<longleftrightarrow> cp_Type p \<noteq> [] \<and> Algorithm_Validate (cp_Algorithm p) = None"
  by (simp add: CredentialParameter_Validate_def)

lemma RPEntity_Validate_None_iff [result_inv]:
  "RPEntity_Validate e = None \<longleftrightarrow> rp_ID e \<noteq> [] \<and> rp_Name e \<noteq> []"
  by (simp add: RPEntity_Validate_def)

lemma UserEntity_Validate_None_iff [result_inv]:
  "UserEntity_Validate e = None \<longleftrightarrow> bv_bytes (user_ID e) \<noteq> [] \<and> user_Name e \<noteq> []"
  by (simp add: UserEntity_Validate_def)

lemma CredentialDescriptor_Validate_None_iff [result_inv]:
  "CredentialDescriptor_Validate d = None \<longleftrightarrow> cd_Type d = CredentialTypePublicKey \<and> bv_bytes (cd_ID d) \<noteq> []"
  by (simp add: CredentialDescriptor_Validate_def result_inv)

lemma ValidateType_None_iff [result_inv]: "ValidateType d t = None \<longleftrightarrow> ccd_Type d = t"
  by (simp add: ValidateType_def)

lemma Selection_Validate_None_iff:
  "Selection_Validate (Some s) = None \<longleftrightarrow>
    (sel_AuthenticatorAttachment s \<noteq> [] \<longrightarrow> Attachment_Known (sel_AuthenticatorAttachment s)) \<and>
    (sel_ResidentKey s \<noteq> [] \<longrightarrow> ResidentKey_Known (sel_ResidentKey s)) \<and>
    (sel_UserVerification s \<noteq> [] \<longrightarrow> UserVerification_Known (sel_UserVerification s))"
  by (auto simp: Selection_Validate_def split: option.splits)

lemma CreationOptions_Validate_None_iff:
  "CreationOptions_Validate opts = None \<longleftrightarrow>
    Selection_Validate (co_AuthenticatorSelection opts) = None \<and>
    RPEntity_Validate (co_RP opts) = None \<and> UserEntity_Validate (co_User opts) = None \<and>
    bv_bytes (co_Challenge opts) \<noteq> [] \<and>
    (\<forall>p\<in>set (co_PubKeyCredParams opts). CredentialParameter_Validate p = None) \<and>
    hasSupportedCredentialType (co_PubKeyCredParams opts) \<and>
    (\<forall>f\<in>set (co_AttestationFormats opts). identifier_Valid f) \<and>
    (\<forall>d\<in>set (co_ExcludeCredentials opts). CredentialDescriptor_Validate d = None)"
  by (auto simp: CreationOptions_Validate_def or_err_None_iff if_Some_None_iff first_err_None_iff)

lemma RequestOptions_Validate_None_iff:
  "RequestOptions_Validate opts = None \<longleftrightarrow>
    bv_bytes (ro_Challenge opts) \<noteq> [] \<and>
    (\<forall>d\<in>set (ro_AllowCredentials opts). CredentialDescriptor_Validate d = None)"
  by (simp add: RequestOptions_Validate_def result_inv del: CredentialDescriptor_Validate_None_iff)

lemma UserVerification_Known_nonempty: "UserVerification_Known r \<Longrightarrow> r \<noteq> []"
  by (auto simp: UserVerification_Known_def UserVerificationRequired_def UserVerificationPreferred_def)

lemma UserVerificationPreferred_Known [simp]: "UserVerification_Known UserVerificationPreferred"
  by (simp add: UserVerification_Known_def)

lemma AttestationNone_Known [simp]: "Attestation_Known AttestationNone"
  by (simp add: Attestation_Known_def)

lemma identifier_Valid_nonempty: "identifier_Valid v \<Longrightarrow> v \<noteq> []"
  by (auto simp: identifier_Valid_def)

end
