(* ===== verification/Go_Base64.thy ===== *)
theory Go_Base64
  imports Go_Errors
begin

text \<open>
  \<^verbatim>\<open>encoding/base64.RawURLEncoding\<close> of the Go standard library, as the program uses it:
  \<open>EncodeToString\<close>, and \<open>DecodeString\<close> of the \<^verbatim>\<open>Strict()\<close> encoding, which skips carriage
  returns and line feeds and refuses non-zero trailing bits. Because of the skipped line
  breaks decoding is not injective; the program re-encodes to find canonical text.
\<close>

definition b64_alphabet :: string where
  "b64_alphabet = ''ABCDEFGHIJKLMNOPQRSTUVWXYZabcdefghijklmnopqrstuvwxyz0123456789-_''"

definition b64_char :: "nat \<Rightarrow> char" where
  "b64_char n = b64_alphabet ! n"

text \<open>The value of a character: its position in the alphabet.\<close>

definition b64_val :: "char \<Rightarrow> nat option" where
  "b64_val c = map_of (zip b64_alphabet [0..<64]) c"

fun b64_encode :: "bytes \<Rightarrow> string" where
  "b64_encode (a # b # c # bs) =
    b64_char (unat a div 4) # b64_char (unat a mod 4 * 16 + unat b div 16)
    # b64_char (unat b mod 16 * 4 + unat c div 64) # b64_char (unat c mod 64) # b64_encode bs"
| "b64_encode [a, b] =
    [b64_char (unat a div 4), b64_char (unat a mod 4 * 16 + unat b div 16), b64_char (unat b mod 16 * 4)]"
| "b64_encode [a] = [b64_char (unat a div 4), b64_char (unat a mod 4 * 16)]"
| "b64_encode [] = []"

fun b64_sextets :: "nat list \<Rightarrow> bytes option" where
  "b64_sextets (s # t # u # v # ss) =
    map_option (\<lambda>bs. word_of_nat (s * 4 + t div 16) # word_of_nat (t mod 16 * 16 + u div 4)
      # word_of_nat (u mod 4 * 64 + v) # bs) (b64_sextets ss)"
| "b64_sextets [s, t, u] =
    (if u mod 4 \<noteq> 0 then None
     else Some [word_of_nat (s * 4 + t div 16), word_of_nat (t mod 16 * 16 + u div 4)])"
| "b64_sextets [s, t] = (if t mod 16 \<noteq> 0 then None else Some [word_of_nat (s * 4 + t div 16)])"
| "b64_sextets [s] = None"
| "b64_sextets [] = Some []"

definition b64_decode :: "string \<Rightarrow> bytes option" where
  "b64_decode s =
    (let cs = filter (\<lambda>c. c \<noteq> CHR 0x0a \<and> c \<noteq> CHR 0x0d) s in
     if list_all (\<lambda>c. b64_val c \<noteq> None) cs then b64_sextets (map (\<lambda>c. the (b64_val c)) cs) else None)"

section \<open>The alphabet\<close>

lemma length_b64_alphabet: "length b64_alphabet = 64"
  by (simp add: b64_alphabet_def)

lemma distinct_b64_alphabet: "distinct b64_alphabet"
  by (simp add: b64_alphabet_def)

lemma b64_val_char [simp]: "n < 64 \<Longrightarrow> b64_val (b64_char n) = Some n"
  using map_of_zip_nth [of b64_alphabet "[0..<64]" n] length_b64_alphabet distinct_b64_alphabet
  by (simp add: b64_val_def b64_char_def)

lemma b64_val_SomeD: "b64_val c = Some n \<Longrightarrow> n < 64 \<and> b64_char n = c"
  unfolding b64_val_def b64_char_def using length_b64_alphabet
  by (auto dest!: map_of_SomeD simp: set_zip)

lemma b64_alphabet_no_newline: "CHR 0x0a \<notin> set b64_alphabet" "CHR 0x0d \<notin> set b64_alphabet"
  by (simp_all add: b64_alphabet_def)

lemma b64_char_no_newline [simp]: "n < 64 \<Longrightarrow> b64_char n \<noteq> CHR 0x0a" "n < 64 \<Longrightarrow> b64_char n \<noteq> CHR 0x0d"
  using b64_alphabet_no_newline length_b64_alphabet by (metis b64_char_def nth_mem)+

section \<open>Round trips\<close>

lemma byte_splits:
  fixes a b c :: byte
  shows "unat a div 4 < 64" "unat a mod 4 * 16 + unat b div 16 < 64" "unat b mod 16 * 4 + unat c div 64 < 64"
    "unat c mod 64 < 64" "unat b mod 16 * 4 < 64" "unat a mod 4 * 16 < 64"
proof -
  have div4: "unat a div 4 < 64" and div16: "unat b div 16 < 16" and div64: "unat c div 64 < 4"
    by (simp_all add: less_mult_imp_div_less)
  have mods: "unat a mod 4 < 4" "unat b mod 16 < 16" "unat c mod 64 < 64"
    by simp_all
  show "unat a div 4 < 64" "unat a mod 4 * 16 + unat b div 16 < 64"
    "unat b mod 16 * 4 + unat c div 64 < 64" "unat c mod 64 < 64" "unat b mod 16 * 4 < 64"
    "unat a mod 4 * 16 < 64"
    using div4 div16 div64 mods by linarith+
qed

lemma byte_nibbles:
  fixes b :: byte
  shows "unat b div 16 div 16 = 0" "unat b div 16 mod 16 = unat b div 16"
    "unat b div 64 div 4 = 0" "unat b div 64 mod 4 = unat b div 64"
proof -
  have "unat b div 16 < 16" "unat b div 64 < 4"
    by (simp_all add: less_mult_imp_div_less)
  then show "unat b div 16 div 16 = 0" "unat b div 16 mod 16 = unat b div 16"
    "unat b div 64 div 4 = 0" "unat b div 64 mod 4 = unat b div 64"
    by simp_all
qed

definition encode_sextets :: "bytes \<Rightarrow> nat list" where
  "encode_sextets bs = map (\<lambda>c. the (b64_val c)) (b64_encode bs)"

lemma b64_encode_chars:
  "list_all (\<lambda>c. b64_val c \<noteq> None \<and> c \<noteq> CHR 0x0a \<and> c \<noteq> CHR 0x0d) (b64_encode bs)"
  by (induction bs rule: b64_encode.induct) (simp_all add: byte_splits)

lemma b64_sextets_encode: "b64_sextets (encode_sextets bs) = Some bs"
  by (induction bs rule: b64_encode.induct)
    (simp_all add: encode_sextets_def byte_splits byte_nibbles del: of_nat_add of_nat_mult)

lemma b64_decode_encode [simp]: "b64_decode (b64_encode bs) = Some bs"
proof -
  have "filter (\<lambda>c. c \<noteq> CHR 0x0a \<and> c \<noteq> CHR 0x0d) (b64_encode bs) = b64_encode bs"
    using b64_encode_chars [of bs] by (auto simp: filter_id_conv list_all_iff)
  then show ?thesis
    using b64_encode_chars [of bs] b64_sextets_encode [of bs]
    by (auto simp: b64_decode_def list_all_iff encode_sextets_def)
qed

lemma b64_encode_inj: "b64_encode bs = b64_encode cs \<longleftrightarrow> bs = cs"
  by (metis b64_decode_encode option.inject)

end
