(* ===== verification/Go_Std.thy ===== *)
theory Go_Std
  imports Protocol_Types Go_Base64
begin

text \<open>
  What the program uses of the Go standard library. Text functions (\<^verbatim>\<open>strings\<close>,
  \<^verbatim>\<open>strconv\<close>, \<^verbatim>\<open>net/url.URL.Hostname\<close>) are defined here; the record \<open>go_std\<close> holds the
  services whose algorithm no statement depends on, as arguments of the definitions that use
  them: SHA-256, the JSON text grammar, the URL and IP address grammars, and the Unicode part
  of \<^verbatim>\<open>strings.ToLower\<close> and \<^verbatim>\<open>strings.TrimSpace\<close>. Every theorem holds for all of them.
\<close>

section \<open>JSON values\<close>

text \<open>
  The value of a JSON text as \<^verbatim>\<open>encoding/json/v2\<close> reads it: duplicate member names and
  invalid UTF-8 are refused by its text grammar, so members have distinct names.
\<close>

datatype json =
    JNull | JBool bool | JNumber string | JString string
  | JArray "json list" | JObject "(string \<times> json) list"

section \<open>Services\<close>

record URL =
  url_Scheme :: string
  url_Opaque :: string
  url_HasUser :: bool
  url_Host :: string
  url_Path :: string
  url_RawQuery :: string
  url_Fragment :: string
  url_String :: string

record IP =
  ip_IsLoopback :: bool
  ip_String :: string

record go_std =
  std_Sum256 :: "bytes \<Rightarrow> bytes"
  std_json :: "bytes \<Rightarrow> json option"
  std_url_Parse :: "string \<Rightarrow> URL option"
  std_ParseIP :: "string \<Rightarrow> IP option"
  std_unicode_ToLower :: "string \<Rightarrow> string"
  std_unicode_TrimSpace :: "string \<Rightarrow> string"

section \<open>Strings\<close>

definition ascii :: "string \<Rightarrow> bool" where
  "ascii s \<longleftrightarrow> list_all (\<lambda>c. (of_char c :: nat) < 0x80) s"

definition lower_char :: "char \<Rightarrow> char" where
  "lower_char c = (if CHR ''A'' \<le> c \<and> c \<le> CHR ''Z'' then char_of ((of_char c :: nat) + 32) else c)"

definition ToLower :: "go_std \<Rightarrow> string \<Rightarrow> string" where
  "ToLower std s = (if ascii s then map lower_char s else std_unicode_ToLower std s)"

definition ascii_space :: "char \<Rightarrow> bool" where
  "ascii_space c \<longleftrightarrow> c \<in> {CHR 0x09, CHR 0x0a, CHR 0x0b, CHR 0x0c, CHR 0x0d, CHR '' ''}"

definition TrimSpace :: "go_std \<Rightarrow> string \<Rightarrow> string" where
  "TrimSpace std s =
    (if ascii s then rev (dropWhile ascii_space (rev (dropWhile ascii_space s)))
     else std_unicode_TrimSpace std s)"

definition HasPrefix :: "string \<Rightarrow> string \<Rightarrow> bool" where
  "HasPrefix s p \<longleftrightarrow> take (length p) s = p"

definition HasSuffix :: "string \<Rightarrow> string \<Rightarrow> bool" where
  "HasSuffix s p \<longleftrightarrow> length p \<le> length s \<and> drop (length s - length p) s = p"

text \<open>\<^verbatim>\<open>utf8.ValidString\<close>: well-formed UTF-8 without surrogates or overlong forms.\<close>

definition utf8_cont :: "nat \<Rightarrow> nat \<Rightarrow> nat \<Rightarrow> bool" where
  "utf8_cont lo hi b \<longleftrightarrow> lo \<le> b \<and> b \<le> hi"

fun utf8_valid :: "nat list \<Rightarrow> bool" where
  "utf8_valid [] = True"
| "utf8_valid (a # bs) =
    (if a < 0x80 then utf8_valid bs
     else if 0xc2 \<le> a \<and> a \<le> 0xdf then
       (case bs of b # cs \<Rightarrow> utf8_cont 0x80 0xbf b \<and> utf8_valid cs | _ \<Rightarrow> False)
     else if 0xe0 \<le> a \<and> a \<le> 0xef then
       (case bs of b # c # cs \<Rightarrow>
          utf8_cont (if a = 0xe0 then 0xa0 else 0x80) (if a = 0xed then 0x9f else 0xbf) b
          \<and> utf8_cont 0x80 0xbf c \<and> utf8_valid cs | _ \<Rightarrow> False)
     else if 0xf0 \<le> a \<and> a \<le> 0xf4 then
       (case bs of b # c # d # cs \<Rightarrow>
          utf8_cont (if a = 0xf0 then 0x90 else 0x80) (if a = 0xf4 then 0x8f else 0xbf) b
          \<and> utf8_cont 0x80 0xbf c \<and> utf8_cont 0x80 0xbf d \<and> utf8_valid cs | _ \<Rightarrow> False)
     else False)"

text \<open>\<^verbatim>\<open>strings.CutLast\<close> for a one-byte separator; \<open>None\<close> when it does not occur.\<close>

definition CutLast :: "string \<Rightarrow> char \<Rightarrow> (string \<times> string) option" where
  "CutLast s sep =
    (if sep \<in> set s
     then Some (rev (tl (dropWhile (\<lambda>c. c \<noteq> sep) (rev s))), rev (takeWhile (\<lambda>c. c \<noteq> sep) (rev s)))
     else None)"

text \<open>\<^verbatim>\<open>strings.SplitSeq\<close> for a one-byte separator.\<close>

fun SplitSeq :: "string \<Rightarrow> char \<Rightarrow> string list" where
  "SplitSeq [] sep = [[]]"
| "SplitSeq (c # s) sep =
    (if c = sep then [] # SplitSeq s sep
     else (case SplitSeq s sep of [] \<Rightarrow> [[c]] | l # ls \<Rightarrow> (c # l) # ls))"

definition is_digit :: "char \<Rightarrow> bool" where
  "is_digit c \<longleftrightarrow> CHR ''0'' \<le> c \<and> c \<le> CHR ''9''"

definition digits_value :: "string \<Rightarrow> int" where
  "digits_value s = foldl (\<lambda>n c. n * 10 + (int (of_char c) - 48)) 0 s"

text \<open>\<^verbatim>\<open>strconv.Atoi\<close>: an optional sign and decimal digits, within the range of \<^verbatim>\<open>int\<close>.\<close>

definition Atoi :: "string \<Rightarrow> int option" where
  "Atoi s =
    (let (neg, ds) = (case s of [] \<Rightarrow> (False, [])
        | c # cs \<Rightarrow> if c = CHR ''-'' then (True, cs) else if c = CHR ''+'' then (False, cs) else (False, s));
         n = (if neg then - digits_value ds else digits_value ds) in
     if ds = [] \<or> \<not> list_all is_digit ds \<or> n < - (2 ^ 63) \<or> n > 2 ^ 63 - 1 then None else Some n)"

text \<open>\<^verbatim>\<open>URL.Hostname\<close>: the host without a port and without the brackets of an IPv6 literal.\<close>

definition Hostname :: "URL \<Rightarrow> string" where
  "Hostname u =
    (let hostPort = url_Host u;
         host = (case CutLast hostPort (CHR '':'') of None \<Rightarrow> hostPort
           | Some (before, after) \<Rightarrow> if list_all is_digit after then before else hostPort) in
     if HasPrefix host ''['' \<and> HasSuffix host '']'' \<and> 2 \<le> length host
     then butlast (tl host) else host)"

lemma HasSuffix_iff: "HasSuffix s p \<longleftrightarrow> (\<exists>q. s = q @ p)"
proof
  assume h: "HasSuffix s p"
  have "s = take (length s - length p) s @ drop (length s - length p) s"
    by simp
  then show "\<exists>q. s = q @ p"
    using h unfolding HasSuffix_def by metis
qed (auto simp: HasSuffix_def)

lemma HasPrefix_iff: "HasPrefix s p \<longleftrightarrow> (\<exists>q. s = p @ q)"
  by (auto simp: HasPrefix_def) (metis append_take_drop_id)

lemma CutLast_SomeD: "CutLast s sep = Some (before, after) \<Longrightarrow> s = before @ sep # after \<and> sep \<notin> set after"
proof -
  assume cut: "CutLast s sep = Some (before, after)"
  then obtain c cs where drop: "dropWhile (\<lambda>c. c \<noteq> sep) (rev s) = c # cs" and mem: "sep \<in> set s"
    by (cases "dropWhile (\<lambda>c. c \<noteq> sep) (rev s)") (auto simp: CutLast_def split: if_splits)
  then have c: "c = sep"
    using hd_dropWhile [of "\<lambda>c. c \<noteq> sep" "rev s"] by simp
  have "rev s = takeWhile (\<lambda>c. c \<noteq> sep) (rev s) @ sep # cs"
    using drop c takeWhile_dropWhile_id [of "\<lambda>c. c \<noteq> sep" "rev s"] by simp
  then have "s = rev cs @ sep # rev (takeWhile (\<lambda>c. c \<noteq> sep) (rev s))"
    by (metis append.assoc append_Cons append_Nil rev.simps(2) rev_append rev_rev_ident)
  moreover have "before = rev cs" "after = rev (takeWhile (\<lambda>c. c \<noteq> sep) (rev s))"
    using cut mem drop by (auto simp: CutLast_def)
  moreover have "sep \<notin> set (takeWhile (\<lambda>c. c \<noteq> sep) (rev s))"
    by (auto dest: set_takeWhileD)
  ultimately show "s = before @ sep # after \<and> sep \<notin> set after"
    by simp
qed

end
