(* ===== verification/Protocol_ClientData.thy ===== *)
theory Protocol_ClientData
  imports Go_Std
begin

text \<open>
  \<^verbatim>\<open>src/protocol/client_data.go\<close>: decoding the browser's \<^verbatim>\<open>clientDataJSON\<close> and its challenge.
  The members are decoded as \<^verbatim>\<open>encoding/json/v2\<close> decodes into the anonymous struct of the
  source: names are case-sensitive, unknown members are ignored, an absent or null string
  member is the empty string and a member of another type is an error.
\<close>

section \<open>Decoding members\<close>

fun json_string :: "json option \<Rightarrow> string result" where
  "json_string None = Inr []"
| "json_string (Some JNull) = Inr []"
| "json_string (Some (JString s)) = Inr s"
| "json_string (Some _) = Inl (External ''json'')"

fun json_tokenBinding :: "json option \<Rightarrow> TokenBinding option result" where
  "json_tokenBinding None = Inr None"
| "json_tokenBinding (Some JNull) = Inr None"
| "json_tokenBinding (Some (JObject ms)) =
    and_then (json_string (map_of ms ''status'')) (\<lambda>status.
    and_then (json_string (map_of ms ''id'')) (\<lambda>id.
      Inr (Some \<lparr>tb_Status = status, tb_ID = id\<rparr>)))"
| "json_tokenBinding (Some _) = Inl (External ''json'')"

record decodedClientData =
  dcd_Type :: string
  dcd_Challenge :: string
  dcd_Origin :: string
  dcd_CrossOrigin :: "json option"
  dcd_TopOrigin :: "json option"
  dcd_TokenBinding :: "TokenBinding option"

fun decodeClientData :: "json option \<Rightarrow> decodedClientData result" where
  "decodeClientData (Some (JObject ms)) =
    and_then (json_string (map_of ms ''type'')) (\<lambda>type.
    and_then (json_string (map_of ms ''challenge'')) (\<lambda>challenge.
    and_then (json_string (map_of ms ''origin'')) (\<lambda>origin.
    and_then (json_tokenBinding (map_of ms ''tokenBinding'')) (\<lambda>binding.
      Inr \<lparr>dcd_Type = type, dcd_Challenge = challenge, dcd_Origin = origin,
        dcd_CrossOrigin = map_of ms ''crossOrigin'', dcd_TopOrigin = map_of ms ''topOrigin'',
        dcd_TokenBinding = binding\<rparr>))))"
| "decodeClientData (Some JNull) =
    Inr \<lparr>dcd_Type = [], dcd_Challenge = [], dcd_Origin = [], dcd_CrossOrigin = None,
      dcd_TopOrigin = None, dcd_TokenBinding = None\<rparr>"
| "decodeClientData _ = Inl (External ''json'')"

definition TrimBOM :: "bytes \<Rightarrow> bytes" where
  "TrimBOM bs = (if take 3 bs = [0xef, 0xbb, 0xbf] then drop 3 bs else bs)"

fun decodeCrossOrigin :: "json option \<Rightarrow> bool option result" where
  "decodeCrossOrigin None = Inr None"
| "decodeCrossOrigin (Some (JBool b)) = Inr (Some b)"
| "decodeCrossOrigin (Some _) = Inl (Sentinel ErrMalformedClientData)"

fun decodeTopOrigin :: "json option \<Rightarrow> string result" where
  "decodeTopOrigin None = Inr []"
| "decodeTopOrigin (Some (JString s)) =
    (if s = [] then Inl (Sentinel ErrMalformedClientData) else Inr s)"
| "decodeTopOrigin (Some _) = Inl (Sentinel ErrMalformedClientData)"

definition ParseCollectedClientData :: "go_std \<Rightarrow> ClientDataJSON \<Rightarrow> CollectedClientData result" where
  "ParseCollectedClientData std raw =
    and_then (decodeClientData (std_json std (TrimBOM (bv_bytes raw)))) (\<lambda>decoded.
    if dcd_Type decoded = [] \<or> dcd_Challenge decoded = [] \<or> dcd_Origin decoded = []
    then Inl (Sentinel ErrMalformedClientData) else
    and_then (decodeCrossOrigin (dcd_CrossOrigin decoded)) (\<lambda>crossOrigin.
    and_then (decodeTopOrigin (dcd_TopOrigin decoded)) (\<lambda>topOrigin.
      Inr \<lparr>ccd_Type = dcd_Type decoded, ccd_Challenge = dcd_Challenge decoded,
        ccd_Origin = dcd_Origin decoded, ccd_CrossOrigin = crossOrigin, ccd_TopOrigin = topOrigin,
        ccd_TokenBinding = dcd_TokenBinding decoded, ccd_Raw = raw,
        ccd_topOriginSet = (dcd_TopOrigin decoded \<noteq> None)\<rparr>)))"

definition ChallengeBytes :: "CollectedClientData \<Rightarrow> bytes result" where
  "ChallengeBytes d =
    (case b64_decode (ccd_Challenge d) of None \<Rightarrow> Inl (External ''base64'')
     | Some challenge \<Rightarrow> if b64_encode challenge \<noteq> ccd_Challenge d
        then Inl (Sentinel ErrMalformedClientData) else Inr challenge)"

section \<open>What a decoded client data has\<close>

lemma ChallengeBytes_Inr_iff: "ChallengeBytes d = Inr bs \<longleftrightarrow> ccd_Challenge d = b64_encode bs"
proof (cases "b64_decode (ccd_Challenge d)")
  case None
  then have "ccd_Challenge d \<noteq> b64_encode bs"
    by (metis b64_decode_encode option.distinct(1))
  then show ?thesis
    using None by (simp add: ChallengeBytes_def)
next
  case (Some cs)
  then have "ccd_Challenge d = b64_encode bs \<Longrightarrow> cs = bs"
    by (metis b64_decode_encode option.inject)
  then show ?thesis
    using Some by (cases "b64_encode cs = ccd_Challenge d") (auto simp: ChallengeBytes_def)
qed

lemma decodeTopOrigin_set: "decodeTopOrigin j = Inr t \<Longrightarrow> t = [] \<longleftrightarrow> j = None"
  by (cases j rule: decodeTopOrigin.cases) (auto split: if_splits)

lemma ParseCollectedClientData_InrD:
  assumes "ParseCollectedClientData std raw = Inr d"
  shows "ccd_Raw d = raw \<and> ccd_Type d \<noteq> [] \<and> ccd_Challenge d \<noteq> [] \<and> ccd_Origin d \<noteq> []
    \<and> (HasTopOrigin d \<longleftrightarrow> ccd_TopOrigin d \<noteq> [])"
  using assms decodeTopOrigin_set
  by (auto simp: ParseCollectedClientData_def HasTopOrigin_def result_inv)

end
