(* ===== verification/Go_Json.thy ===== *)
theory Go_Json
  imports Protocol_ClientData
begin

text \<open>
  What the JSON boundaries of the program (\<^verbatim>\<open>src/storage/json\<close>) use of \<^verbatim>\<open>encoding/json/v2\<close>: encoding of
  structs with \<^verbatim>\<open>omitzero\<close> and \<^verbatim>\<open>omitempty\<close> members and decoding into structs that refuses unknown members. Member names
  are case-sensitive; an absent or null member leaves the zero value; a value of another kind is an
  error. The text layer is the record \<open>go_text\<close>: printing of JSON values, of floating-point numbers, of
  values of application types and of times.
\<close>

record go_text =
  js_Marshal :: "json \<Rightarrow> bytes result"
  js_FormatFloat :: "rat \<Rightarrow> string"
  js_ParseFloat :: "string \<Rightarrow> rat option"
  js_MarshalHTML :: "json \<Rightarrow> bytes result"
  js_MarshalOther :: "goval \<Rightarrow> json result"
  time_Format :: "int \<Rightarrow> string"
  time_Parse :: "string \<Rightarrow> int option"

definition jsonError :: error where "jsonError = External ''json''"

section \<open>Lists of results\<close>

lemma map_res_cong [fundef_cong]:
  "xs = ys \<Longrightarrow> (\<And>x. x \<in> set ys \<Longrightarrow> f x = g x) \<Longrightarrow> map_res f xs = map_res g ys"
  by (induction xs arbitrary: ys) (auto simp: and_then_def split: sum.split)

lemma map_res_map: "(\<And>x. x \<in> set xs \<Longrightarrow> f (g x) = Inr x) \<Longrightarrow> map_res f (map g xs) = Inr xs"
  by (induction xs) auto

section \<open>Numbers\<close>

definition parse_uint :: "string \<Rightarrow> int option" where
  "parse_uint s = (if s = [] \<or> \<not> list_all is_digit s then None else Some (digits_value s))"

fun parse_int :: "string \<Rightarrow> int option" where
  "parse_int [] = None"
| "parse_int (c # cs) = (if c = CHR ''-'' then map_option uminus (parse_uint cs) else parse_uint (c # cs))"

definition MaxInt64 :: int where "MaxInt64 = 2 ^ 63 - 1"
definition MinInt64 :: int where "MinInt64 = - (2 ^ 63)"
definition MaxUint64 :: int where "MaxUint64 = 2 ^ 64 - 1"

text \<open>Decimal digits on integers; the code equation of \<open>itoa\<close> uses them.\<close>

function int_digits :: "int \<Rightarrow> string" where
  "int_digits n = (if n < 10 then [digit_char (nat n)] else int_digits (n div 10) @ [digit_char (nat (n mod 10))])"
  by pat_completeness auto

termination
  by (relation "measure nat") auto

declare int_digits.simps [simp del]

text \<open>A map of untyped values.\<close>

definition any_object :: "(string \<times> goval) list \<Rightarrow> goval" where
  "any_object es = VMap TString TIface (Some (map (\<lambda>(name, v). (VString name, v)) es))"

section \<open>Decoding\<close>

fun json_bool :: "json option \<Rightarrow> bool result" where
  "json_bool None = Inr False"
| "json_bool (Some JNull) = Inr False"
| "json_bool (Some (JBool b)) = Inr b"
| "json_bool (Some _) = Inl jsonError"

fun json_int :: "int \<Rightarrow> int \<Rightarrow> json option \<Rightarrow> int result" where
  "json_int lo hi None = Inr 0"
| "json_int lo hi (Some JNull) = Inr 0"
| "json_int lo hi (Some (JNumber s)) =
    (case parse_int s of None \<Rightarrow> Inl jsonError
     | Some n \<Rightarrow> if n < lo \<or> n > hi then Inl jsonError else Inr n)"
| "json_int lo hi (Some _) = Inl jsonError"

fun json_uint :: "int \<Rightarrow> json option \<Rightarrow> int result" where
  "json_uint hi None = Inr 0"
| "json_uint hi (Some JNull) = Inr 0"
| "json_uint hi (Some (JNumber s)) =
    (case parse_uint s of None \<Rightarrow> Inl jsonError | Some n \<Rightarrow> if n > hi then Inl jsonError else Inr n)"
| "json_uint hi (Some _) = Inl jsonError"

fun json_list :: "(json option \<Rightarrow> 'a result) \<Rightarrow> json option \<Rightarrow> 'a list result" where
  "json_list dec None = Inr []"
| "json_list dec (Some JNull) = Inr []"
| "json_list dec (Some (JArray xs)) = map_res (\<lambda>x. dec (Some x)) xs"
| "json_list dec (Some _) = Inl jsonError"

text \<open>A pointer: absent and null are nil.\<close>

definition json_ptr :: "(json option \<Rightarrow> 'a result) \<Rightarrow> json option \<Rightarrow> 'a option result" where
  "json_ptr dec j = (if j = None \<or> j = Some JNull then Inr None else and_then (dec j) (\<lambda>x. Inr (Some x)))"

text \<open>The members of a struct with these names; null is the zero value, that is no member at all.\<close>

fun json_members :: "string list \<Rightarrow> json option \<Rightarrow> (string \<times> json) list result" where
  "json_members names None = Inr []"
| "json_members names (Some JNull) = Inr []"
| "json_members names (Some (JObject ms)) =
    (if list_all (\<lambda>(name, _). name \<in> set names) ms then Inr ms else Inl jsonError)"
| "json_members names (Some _) = Inl jsonError"

section \<open>Encoding\<close>

text \<open>An object with optional members; \<open>omit\<close> drops a member, \<open>omitEmpty\<close> an empty string or array.\<close>

fun present_members :: "(string \<times> json option) list \<Rightarrow> (string \<times> json) list" where
  "present_members [] = []"
| "present_members ((name, v) # ms) =
    (case v of None \<Rightarrow> present_members ms | Some x \<Rightarrow> (name, x) # present_members ms)"

definition json_object :: "(string \<times> json option) list \<Rightarrow> json" where
  "json_object ms = JObject (present_members ms)"

definition json_int_of :: "int \<Rightarrow> json" where
  "json_int_of n = JNumber (itoa n)"

definition json_strings_of :: "string list \<Rightarrow> json" where
  "json_strings_of xs = JArray (map JString xs)"

definition omitzero_bool :: "bool \<Rightarrow> json option" where
  "omitzero_bool b = (if b then Some (JBool b) else None)"

definition omitempty_string :: "string \<Rightarrow> json option" where
  "omitempty_string s = (if s = [] then None else Some (JString s))"

definition omitempty_list :: "('a \<Rightarrow> json) \<Rightarrow> 'a list \<Rightarrow> json option" where
  "omitempty_list enc xs = (if xs = [] then None else Some (JArray (map enc xs)))"

section \<open>Codecs\<close>

text \<open>
  A codec of a type of values: what its encoder writes its decoder reads back, for the values the
  type can hold. Lists and optional members of a codec are codecs.
\<close>

locale json_codec =
  fixes enc :: "'a \<Rightarrow> json" and dec :: "json option \<Rightarrow> 'a result" and holds :: "'a \<Rightarrow> bool"
  assumes dec_enc: "holds x \<Longrightarrow> dec (Some (enc x)) = Inr x"
begin

lemma dec_list: "list_all holds xs \<Longrightarrow> json_list dec (Some (JArray (map enc xs))) = Inr xs"
  by (induction xs) (auto simp: dec_enc)

lemma dec_omitempty_list: "list_all holds xs \<Longrightarrow> json_list dec (omitempty_list enc xs) = Inr xs"
  using dec_list [of xs] by (simp add: omitempty_list_def)

end

lemma map_of_json_object:
  "distinct (map fst ms) \<Longrightarrow> map_of (present_members ms) name = Option.bind (map_of ms name) id"
proof (induction ms arbitrary: name rule: present_members.induct)
  case (2 k v ms)
  have "map_of (present_members ms) k = None"
    using "2.IH" "2.prems" by (cases v) (simp_all add: map_of_eq_None_iff [THEN iffD2])
  then show ?case
    using 2 by (cases v) auto
qed simp

lemma present_members_names:
  "set (map fst ms) \<subseteq> set names \<Longrightarrow> list_all (\<lambda>(name, _). name \<in> set names) (present_members ms)"
  by (induction ms rule: present_members.induct) (auto split: option.splits)

lemma json_members_object:
  "set (map fst ms) \<subseteq> set names \<Longrightarrow> json_members names (Some (json_object ms)) = Inr (present_members ms)"
  by (simp add: json_object_def present_members_names)

interpretation string_codec: json_codec JString json_string "\<lambda>_. True"
  by unfold_locales simp

interpretation bool_codec: json_codec JBool json_bool "\<lambda>_. True"
  by unfold_locales simp

section \<open>Decimal round trip\<close>

lemma int_digits_nat: "0 \<le> n \<Longrightarrow> int_digits n = nat_digits (nat n)"
proof (induction n rule: int_digits.induct)
  case (1 n)
  then show ?case
    by (subst int_digits.simps, subst nat_digits.simps)
      (auto simp: nat_div_distrib nat_mod_distrib nat_less_iff pos_imp_zdiv_nonneg_iff)
qed

lemma itoa_code [code]: "itoa n = (if n < 0 then CHR ''-'' # int_digits (- n) else int_digits n)"
  by (simp add: itoa_def int_digits_nat)

lemma digit_char_value: "d < 10 \<Longrightarrow> is_digit (digit_char d) \<and> int (of_char (digit_char d)) - 48 = int d"
  by (simp add: is_digit_def digit_char_def less_eq_char_def)

lemma nat_digits_value: "list_all is_digit (nat_digits n) \<and> nat_digits n \<noteq> [] \<and> digits_value (nat_digits n) = int n"
proof (induction n rule: nat_digits.induct)
  case (1 n)
  show ?case
  proof (cases "n < 10")
    case True
    then show ?thesis
      using digit_char_value [of n] by (simp add: nat_digits.simps [of n] digits_value_def)
  next
    case False
    have "digits_value (nat_digits (n div 10) @ [digit_char (n mod 10)]) = digits_value (nat_digits (n div 10)) * 10 + int (n mod 10)"
      using digit_char_value [of "n mod 10"] by (simp add: digits_value_def)
    also have "\<dots> = int (n div 10) * 10 + int (n mod 10)"
      using 1 [OF False] by simp
    also have "\<dots> = int n"
      by (simp add: zdiv_int zmod_int)
    finally show ?thesis
      using 1 [OF False] False digit_char_value [of "n mod 10"] by (simp add: nat_digits.simps [of n])
  qed
qed

lemma parse_uint_itoa [simp]: "0 \<le> n \<Longrightarrow> parse_uint (itoa n) = Some n"
  using nat_digits_value [of "nat n"] by (simp add: parse_uint_def itoa_def)

lemma parse_int_itoa [simp]: "parse_int (itoa n) = Some n"
proof (cases "n < 0")
  case True
  then show ?thesis
    using nat_digits_value [of "nat (- n)"] by (simp add: itoa_def parse_uint_def)
next
  case False
  obtain c cs where digits: "itoa n = c # cs"
    using nat_digits_value [of "nat n"] False by (cases "nat_digits (nat n)") (auto simp: itoa_def)
  have "is_digit c"
    using nat_digits_value [of "nat n"] False digits by (simp add: itoa_def)
  then have "c \<noteq> CHR ''-''"
    by (auto simp: is_digit_def less_eq_char_def)
  then show ?thesis
    using parse_uint_itoa [of n] False digits by simp
qed

interpretation int_codec: json_codec json_int_of "json_int lo hi" "\<lambda>n. lo \<le> n \<and> n \<le> hi" for lo hi
  by unfold_locales (simp add: json_int_of_def)

interpretation uint_codec: json_codec json_int_of "json_uint hi" "\<lambda>n. 0 \<le> n \<and> n \<le> hi" for hi
  by unfold_locales (simp add: json_int_of_def)

section \<open>Members of structs\<close>

lemma json_bool_omitzero [simp]: "json_bool (omitzero_bool b) = Inr b"
  by (simp add: omitzero_bool_def)

lemma json_string_omitempty [simp]: "json_string (omitempty_string s) = Inr s"
  by (simp add: omitempty_string_def)

lemma json_strings [simp]: "json_list json_string (Some (json_strings_of xs)) = Inr xs"
  using string_codec.dec_list [of xs] by (simp add: json_strings_of_def list_all_iff)

lemma json_strings_omitempty [simp]: "json_list json_string (omitempty_list JString xs) = Inr xs"
  by (rule string_codec.dec_omitempty_list) (simp add: list_all_iff)

lemma json_ptr_of:
  "x \<noteq> JNull \<Longrightarrow> json_ptr dec (Some x) = and_then (dec (Some x)) (\<lambda>y. Inr (Some y))" "json_ptr dec None = Inr None"
  by (simp_all add: json_ptr_def)

lemma json_object_not_null [simp]: "json_object ms \<noteq> JNull" "JNull \<noteq> json_object ms"
  by (simp_all add: json_object_def)

lemmas struct_codec = json_members_object map_of_json_object json_ptr_of

declare present_members.simps [simp del]

section \<open>Byte values\<close>

text \<open>A byte value that its constructor made: the fields of \<^verbatim>\<open>byteValue\<close> are private, so there are no others but zero values.\<close>

definition constructed :: "(go_bytes \<Rightarrow> byteValue result) \<Rightarrow> byteValue \<Rightarrow> bool" where
  "constructed mk b \<longleftrightarrow> mk (Some (bv_bytes b)) = Inr b"

lemma constructed_of: "NewCredentialID v = Inr i \<Longrightarrow> constructed NewCredentialID i"
    "NewUserHandle v = Inr u \<Longrightarrow> constructed NewUserHandle u" "NewChallenge v = Inr c \<Longrightarrow> constructed NewChallenge c"
  by (simp_all add: constructed_def credential_id.reconstruct user_handle.reconstruct challenge.reconstruct)

section \<open>The text layer\<close>

text \<open>A lower bound of the length of a JSON text: the strings and member names it spells out.\<close>

fun json_weight :: "json \<Rightarrow> int" where
  "json_weight (JString s) = 1 + int (length s)"
| "json_weight (JArray xs) = 1 + sum_list (map json_weight xs)"
| "json_weight (JObject ms) = 1 + sum_list (map (\<lambda>(name, x). int (length name) + json_weight x) ms)"
| "json_weight _ = 1"

lemma json_weight_positive: "1 \<le> json_weight j"
proof (induction j rule: json_weight.induct)
  case (2 xs)
  then have "0 \<le> sum_list (map json_weight xs)"
    by (intro sum_list_nonneg) force
  then show ?case
    by simp
next
  case (3 ms)
  then have "0 \<le> sum_list (map (\<lambda>(name, x). int (length name) + json_weight x) ms)"
    by (intro sum_list_nonneg) force
  then show ?case
    by simp
qed simp_all

definition member_weight :: "string \<times> json option \<Rightarrow> int" where
  "member_weight m = (case snd m of None \<Rightarrow> 0 | Some x \<Rightarrow> int (length (fst m)) + json_weight x)"

lemma member_weight_nonneg: "0 \<le> member_weight m"
  using json_weight_positive [of "the (snd m)"] by (cases "snd m") (simp_all add: member_weight_def)

lemma json_weight_object: "json_weight (json_object ms) = 1 + sum_list (map member_weight ms)"
proof -
  have "sum_list (map (\<lambda>(name, x). int (length name) + json_weight x) (present_members ms)) = sum_list (map member_weight ms)"
    by (induction ms rule: present_members.induct)
      (auto simp: present_members.simps member_weight_def split: option.split)
  then show ?thesis
    by (simp add: json_object_def)
qed

lemma json_weight_member: "(name, Some j) \<in> set ms \<Longrightarrow> json_weight j \<le> json_weight (json_object ms)"
proof -
  assume m: "(name, Some j) \<in> set ms"
  have "member_weight (name, Some j) \<le> sum_list (map member_weight ms)"
    by (rule member_le_sum_list) (use m member_weight_nonneg in auto)
  then show "json_weight j \<le> json_weight (json_object ms)"
    by (simp add: json_weight_object member_weight_def)
qed

text \<open>The finite values of \<^verbatim>\<open>float64\<close>.\<close>

definition float64 :: "rat \<Rightarrow> bool" where
  "float64 r \<longleftrightarrow> (\<exists>m e. \<bar>m\<bar> < 2 ^ 53 \<and> - 1074 \<le> e \<and> e \<le> 971 \<and> r = of_int m * 2 powi e)"

text \<open>Times that RFC 3339 can write: from year 1 to year 9999, in nanoseconds.\<close>

definition rfc3339_time :: "int \<Rightarrow> bool" where
  "rfc3339_time t \<longleftrightarrow> 0 \<le> t \<and> t < 315537897600 * 10 ^ 9"

text \<open>
  What the program relies on of \<^verbatim>\<open>encoding/json/v2\<close> and \<^verbatim>\<open>time\<close>: a JSON value that is printed is read
  back, its text is at least as long as the strings in it, and so are finite floats and times of four-digit years.
\<close>

locale json_text =
  fixes std :: go_std and tx :: go_text
  assumes json_reads: "js_Marshal tx j = Inr data \<Longrightarrow> std_json std data = Some j"
    and json_length: "js_Marshal tx j = Inr data \<Longrightarrow> json_weight j \<le> int (length data)"
    and float_reads: "float64 r \<Longrightarrow> js_ParseFloat tx (js_FormatFloat tx r) = Some r"
    and time_reads: "rfc3339_time t \<Longrightarrow> time_Parse tx (time_Format tx t) = Some t"
begin

lemma text_nonempty: "js_Marshal tx j = Inr data \<Longrightarrow> data \<noteq> []"
  using json_length json_weight_positive [of j] by fastforce

lemma printed_inj: "js_Marshal tx j = Inr data \<Longrightarrow> js_Marshal tx j' = Inr data \<Longrightarrow> j = j'"
  by (drule json_reads, drule json_reads) simp

end

end
