(* ===== verification/Origin.thy ===== *)
theory Origin
  imports Protocol_ClientData
begin

text \<open>
  \<^verbatim>\<open>src/origin.go\<close>: the origin policy of a ceremony, its validation against the RP ID and the
  check of a browser's collected client data against it.
\<close>

record OriginPolicy =
  op_AllowedOrigins :: "string list"
  op_AllowedTopOrigins :: "string list"
  op_AllowCrossOriginWithoutTopOrigin :: bool
  op_AllowRelatedOrigins :: bool

text \<open>One DNS label and a whole name.\<close>

definition dns_char :: "char \<Rightarrow> bool" where
  "dns_char c \<longleftrightarrow> \<not> ((c < CHR ''a'' \<or> c > CHR ''z'') \<and> (c < CHR ''0'' \<or> c > CHR ''9'') \<and> c \<noteq> CHR ''-'')"

definition dns_label :: "string \<Rightarrow> bool" where
  "dns_label l \<longleftrightarrow>
    \<not> (l = [] \<or> length l > 63 \<or> HasPrefix l ''-'' \<or> HasSuffix l ''-'') \<and> list_all dns_char l"

definition validDNSName :: "string \<Rightarrow> bool" where
  "validDNSName v \<longleftrightarrow>
    \<not> (v = [] \<or> length v > 253 \<or> HasPrefix v ''.'' \<or> HasSuffix v ''.''
      \<or> list_ex (\<lambda>c. c \<in> set ''/:@?#'') v)
    \<and> list_all dns_label (SplitSeq v (CHR ''.''))"

definition validRPID :: "go_std \<Rightarrow> string \<Rightarrow> bool" where
  "validRPID std v \<longleftrightarrow>
    v = ToLower std v \<and> TrimSpace std v = v \<and> std_ParseIP std v = None \<and> validDNSName v"

definition canonicalOriginHost :: "go_std \<Rightarrow> string \<Rightarrow> bool" where
  "canonicalOriginHost std hostname =
    (case std_ParseIP std hostname of
       Some address \<Rightarrow> ip_String address = hostname
     | None \<Rightarrow> validDNSName hostname)"

text \<open>The port number, whether a port is written, and whether the host is well formed.\<close>

definition canonicalOriginPort :: "string \<Rightarrow> int \<times> bool \<times> bool" where
  "canonicalOriginPort host =
    (let finish = (\<lambda>rawPort.
       case Atoi rawPort of
         None \<Rightarrow> (0, True, False)
       | Some port \<Rightarrow> if port < 1 \<or> port > 65535 \<or> itoa port \<noteq> rawPort then (0, True, False)
           else (port, True, True)) in
     if HasPrefix host ''['' then
       (case CutLast host (CHR '']'') of
          None \<Rightarrow> (0, False, False)
        | Some (_, suffix) \<Rightarrow>
            if suffix \<noteq> [] then
              (if \<not> HasPrefix suffix '':'' then (0, False, False) else finish (tl suffix))
            else (0, False, True))
     else
       (case CutLast host (CHR '':'') of
          None \<Rightarrow> (0, False, True)
        | Some (before, after) \<Rightarrow>
            if CHR '':'' \<in> set before then (0, False, False) else finish after))"

definition validateWebAuthnOrigin :: "go_std \<Rightarrow> string \<Rightarrow> error option" where
  "validateWebAuthnOrigin std v =
    (if v = [] then Some (Newf ''origin is empty'') else
     case std_url_Parse std v of
       None \<Rightarrow> Some (Newf ''origin must be a canonical scheme and authority'')
     | Some parsed \<Rightarrow>
       if url_Opaque parsed \<noteq> [] \<or> url_Scheme parsed = [] \<or> url_Host parsed = [] \<or> url_HasUser parsed
         \<or> url_Path parsed \<noteq> [] \<or> url_RawQuery parsed \<noteq> [] \<or> url_Fragment parsed \<noteq> []
       then Some (Newf ''origin must be a canonical scheme and authority'') else
       let hostname = Hostname parsed in
       if hostname = [] \<or> hostname \<noteq> ToLower std hostname \<or> url_String parsed \<noteq> v
         \<or> \<not> canonicalOriginHost std hostname
       then Some (Newf ''origin is not canonical'') else
       (case canonicalOriginPort (url_Host parsed) of (port, explicitPort, ok) \<Rightarrow>
         if \<not> ok \<or> (explicitPort \<and> ((url_Scheme parsed = ''https'' \<and> port = 443)
             \<or> (url_Scheme parsed = ''http'' \<and> port = 80)))
         then Some (Newf ''origin port is not canonical'')
         else if url_Scheme parsed = ''https'' then None
         else if url_Scheme parsed = ''http'' \<and>
             (hostname = ''localhost''
              \<or> (case std_ParseIP std hostname of None \<Rightarrow> False | Some address \<Rightarrow> ip_IsLoopback address))
         then None
         else Some (Newf ''origin must use https or loopback http'')))"

definition validateOriginPolicy :: "go_std \<Rightarrow> OriginPolicy \<Rightarrow> error option" where
  "validateOriginPolicy std policy =
    (if op_AllowedOrigins policy = [] then Some (Newf ''allowed origins are required'') else
     or_err (first_err (\<lambda>origin. map_option (Ctxf ''allowed origin'') (validateWebAuthnOrigin std origin))
        (op_AllowedOrigins policy))
      (first_err (\<lambda>origin. map_option (Ctxf ''allowed top origin'') (validateWebAuthnOrigin std origin))
        (op_AllowedTopOrigins policy)))"

definition originScopedTo :: "go_std \<Rightarrow> string \<Rightarrow> string \<Rightarrow> error option" where
  "originScopedTo std rpID origin =
    (case std_url_Parse std origin of
       None \<Rightarrow> Some (Newf ''allowed origin is invalid'')
     | Some parsed \<Rightarrow>
       let host = ToLower std (Hostname parsed) in
       if host \<noteq> rpID \<and> \<not> HasSuffix host (''.'' @ rpID)
       then Some (Newf ''allowed origin is not scoped to rp id'') else None)"

definition validateRPIDOriginPolicy :: "go_std \<Rightarrow> string \<Rightarrow> OriginPolicy \<Rightarrow> error option" where
  "validateRPIDOriginPolicy std rpID policy =
    (if \<not> validRPID std rpID then Some (Newf ''rp id is invalid'')
     else if op_AllowRelatedOrigins policy then None
     else first_err (originScopedTo std rpID) (op_AllowedOrigins policy))"

definition verifyCollectedClientOrigin :: "OriginPolicy \<Rightarrow> CollectedClientData \<Rightarrow> error option" where
  "verifyCollectedClientOrigin policy clientData =
    (if ccd_Origin clientData \<notin> set (op_AllowedOrigins policy) then Some (Sentinel ErrOriginMismatch) else
     let crossOrigin = (ccd_CrossOrigin clientData = Some True) in
     if HasTopOrigin clientData then
       (if \<not> crossOrigin then Some (Sentinel ErrOriginMismatch)
        else if ccd_TopOrigin clientData \<notin> set (op_AllowedTopOrigins policy)
        then Some (Sentinel ErrOriginMismatch)
        else None)
     else if crossOrigin \<and> \<not> op_AllowCrossOriginWithoutTopOrigin policy
     then Some (Sentinel ErrOriginMismatch)
     else None)"

section \<open>What the checks establish\<close>

lemma verifyCollectedClientOrigin_None_iff:
  "verifyCollectedClientOrigin policy d = None \<longleftrightarrow>
    ccd_Origin d \<in> set (op_AllowedOrigins policy) \<and>
    (if HasTopOrigin d then ccd_CrossOrigin d = Some True \<and> ccd_TopOrigin d \<in> set (op_AllowedTopOrigins policy)
     else ccd_CrossOrigin d = Some True \<longrightarrow> op_AllowCrossOriginWithoutTopOrigin policy)"
  by (simp add: verifyCollectedClientOrigin_def Let_def)

lemma verifyCollectedClientOrigin_error:
  "verifyCollectedClientOrigin policy d = Some e \<Longrightarrow> e = Sentinel ErrOriginMismatch"
  by (auto simp: verifyCollectedClientOrigin_def Let_def split: if_splits)

lemma validateWebAuthnOrigin_NoneD:
  assumes "validateWebAuthnOrigin std v = None"
  obtains u where "std_url_Parse std v = Some u" "url_String u = v" "url_HasUser u = False"
    "url_Path u = []" "url_RawQuery u = []" "url_Fragment u = []"
    "canonicalOriginHost std (Hostname u)" "Hostname u = ToLower std (Hostname u)"
    "url_Scheme u = ''https'' \<or> url_Scheme u = ''http'' \<and> (Hostname u = ''localhost''
      \<or> (\<exists>a. std_ParseIP std (Hostname u) = Some a \<and> ip_IsLoopback a))"
  using assms
  by (auto simp: validateWebAuthnOrigin_def Let_def split: option.splits prod.splits if_splits)

lemma validateOriginPolicy_None_iff:
  "validateOriginPolicy std policy = None \<longleftrightarrow>
    op_AllowedOrigins policy \<noteq> [] \<and>
    (\<forall>origin\<in>set (op_AllowedOrigins policy) \<union> set (op_AllowedTopOrigins policy).
      validateWebAuthnOrigin std origin = None)"
  by (auto simp: validateOriginPolicy_def result_inv)

lemma originScopedTo_None_iff:
  "originScopedTo std rpID origin = None \<longleftrightarrow>
    (\<exists>u. std_url_Parse std origin = Some u \<and>
      (ToLower std (Hostname u) = rpID \<or> (\<exists>q. ToLower std (Hostname u) = q @ ''.'' @ rpID)))"
  by (auto simp: originScopedTo_def Let_def HasSuffix_iff split: option.splits)

lemma validateRPIDOriginPolicy_None_iff:
  "validateRPIDOriginPolicy std rpID policy = None \<longleftrightarrow>
    validRPID std rpID \<and>
    (op_AllowRelatedOrigins policy \<or> (\<forall>origin\<in>set (op_AllowedOrigins policy). originScopedTo std rpID origin = None))"
  by (auto simp: validateRPIDOriginPolicy_def result_inv)

lemma SplitSeq_not_Nil [simp]: "SplitSeq s sep \<noteq> []"
  by (induction s) (auto split: list.splits)

lemma SplitSeq_join: "concat (map (\<lambda>l. l @ [sep]) (SplitSeq s sep)) = s @ [sep]"
proof (induction s)
  case (Cons c s)
  then show ?case
    by (cases "SplitSeq s sep") auto
qed simp

lemma SplitSeq_chars: "l \<in> set (SplitSeq s sep) \<Longrightarrow> set l \<subseteq> set s - {sep}"
proof (induction s arbitrary: l)
  case (Cons c s)
  then show ?case
    by (cases "SplitSeq s sep") (fastforce split: if_splits)+
qed simp

lemma SplitSeq_covers: "c \<in> set s \<Longrightarrow> c \<noteq> sep \<Longrightarrow> \<exists>l\<in>set (SplitSeq s sep). c \<in> set l"
proof (induction s)
  case (Cons d s)
  then show ?case
    by (cases "SplitSeq s sep") (auto split: if_splits)
qed simp

lemma dns_char_iff:
  "dns_char c \<longleftrightarrow> CHR ''a'' \<le> c \<and> c \<le> CHR ''z'' \<or> CHR ''0'' \<le> c \<and> c \<le> CHR ''9'' \<or> c = CHR ''-''"
  by (auto simp: dns_char_def not_less)

lemma validDNSName_chars: "validDNSName v \<Longrightarrow> c \<in> set v \<Longrightarrow> dns_char c \<or> c = CHR ''.''"
  using SplitSeq_covers [of c v "CHR ''.''"]
  by (fastforce simp: validDNSName_def dns_label_def list_all_iff)

text \<open>For a valid DNS name the lower-case and trimming conditions hold by themselves.\<close>

lemma dns_char_plain:
  assumes "dns_char c \<or> c = CHR ''.''"
  shows "(of_char c :: nat) < 0x80" "lower_char c = c" "\<not> ascii_space c"
proof -
  have range: "(of_char c :: nat) \<in> {45, 46} \<union> {48..57} \<union> {97..122}"
    using assms by (auto simp: dns_char_iff less_eq_char_def)
  show "(of_char c :: nat) < 0x80"
    using range by auto
  show "lower_char c = c"
    using range by (auto simp: lower_char_def less_eq_char_def)
  show "\<not> ascii_space c"
    using range by (auto simp: ascii_space_def)
qed

lemma dropWhile_none: "list_all (\<lambda>c. \<not> P c) xs \<Longrightarrow> dropWhile P xs = xs"
  by (cases xs) auto

lemma validRPID_iff: "validRPID std v \<longleftrightarrow> std_ParseIP std v = None \<and> validDNSName v"
proof (cases "validDNSName v")
  case True
  then have plain: "c \<in> set v \<Longrightarrow> dns_char c \<or> c = CHR ''.''" for c
    by (rule validDNSName_chars)
  have "ascii v" "map lower_char v = v" "list_all (\<lambda>c. \<not> ascii_space c) v"
    using dns_char_plain [OF plain] by (auto simp: ascii_def list_all_iff intro: map_idI)
  then have "ToLower std v = v" "TrimSpace std v = v"
    by (simp_all add: ToLower_def TrimSpace_def dropWhile_none list_all_rev)
  then show ?thesis
    by (simp add: validRPID_def)
qed (simp add: validRPID_def)

lemma canonicalOriginPort_explicitD:
  assumes "canonicalOriginPort host = (port, True, True)"
  shows "1 \<le> port \<and> port \<le> 65535 \<and> (\<exists>h. host = h @ '':'' @ itoa port)"
proof -
  have finish: "1 \<le> port \<and> port \<le> 65535 \<and> itoa port = raw"
    if "(case Atoi raw of None \<Rightarrow> (0 :: int, True, False)
       | Some p \<Rightarrow> if p < 1 \<or> p > 65535 \<or> itoa p \<noteq> raw then (0, True, False) else (p, True, True))
       = (port, True, True)" for raw
    using that by (auto split: option.splits if_splits)
  show ?thesis
  proof (cases "HasPrefix host ''[''")
    case True
    then obtain before suffix where cut: "CutLast host (CHR '']'') = Some (before, suffix)"
      and colon: "HasPrefix suffix '':''"
      using assms by (auto simp: canonicalOriginPort_def Let_def split: option.splits if_splits)
    then have "suffix = '':'' @ tl suffix"
      by (auto simp: HasPrefix_iff)
    then have "host = (before @ '']'') @ '':'' @ tl suffix"
      using CutLast_SomeD [OF cut] by (metis append.assoc append_Cons append_Nil)
    moreover have "1 \<le> port \<and> port \<le> 65535 \<and> itoa port = tl suffix"
      using assms True cut colon
      by (intro finish) (auto simp: canonicalOriginPort_def Let_def split: if_splits)
    ultimately show ?thesis
      by metis
  next
    case False
    then obtain before after where cut: "CutLast host (CHR '':'') = Some (before, after)"
      and single: "CHR '':'' \<notin> set before"
      using assms by (auto simp: canonicalOriginPort_def Let_def split: option.splits if_splits)
    have "1 \<le> port \<and> port \<le> 65535 \<and> itoa port = after"
      using assms False cut single by (intro finish) (simp add: canonicalOriginPort_def Let_def)
    then show ?thesis
      using CutLast_SomeD [OF cut] by auto
  qed
qed

end
