(* ===== verification/Extension_Value.thy ===== *)
theory Extension_Value
  imports Protocol_Types
begin

text \<open>
  \<^verbatim>\<open>src/extension/value.go\<close> and the value half of \<^verbatim>\<open>extension.go\<close> and \<^verbatim>\<open>input.go\<close>: the
  budgeted recursive copy of untyped extension values, raw values and extension inputs. A
  copy of an immutable value is the value; what the code can observe is the normalisation the
  copy performs (inputs become plain values, nil slices empty ones), the depth, node and byte
  limits and the refused types. Error texts that print a Go type name are abbreviated.
\<close>

section \<open>Limits and budget\<close>

definition DefaultMaxCloneDepth :: int where "DefaultMaxCloneDepth = 32"
definition DefaultMaxCloneNodes :: int where "DefaultMaxCloneNodes = 4096"
definition DefaultMaxCloneBytes :: int where "DefaultMaxCloneBytes = 2 ^ 20"

record CloneLimits =
  cl_MaxDepth :: int
  cl_MaxNodes :: int
  cl_MaxBytes :: int

record cloneBudget =
  cb_limits :: CloneLimits
  cb_nodes :: int
  cb_bytes :: int

definition normalizeCloneLimits :: "CloneLimits \<Rightarrow> CloneLimits" where
  "normalizeCloneLimits l =
    \<lparr>cl_MaxDepth = (if cl_MaxDepth l = 0 then DefaultMaxCloneDepth else cl_MaxDepth l),
     cl_MaxNodes = (if cl_MaxNodes l = 0 then DefaultMaxCloneNodes else cl_MaxNodes l),
     cl_MaxBytes = (if cl_MaxBytes l = 0 then DefaultMaxCloneBytes else cl_MaxBytes l)\<rparr>"

definition consume :: "cloneBudget \<Rightarrow> int \<Rightarrow> int \<Rightarrow> cloneBudget result" where
  "consume budget nodes bytes =
    (if nodes < 0 \<or> bytes < 0 \<or> cb_nodes budget > cl_MaxNodes (cb_limits budget) - nodes
        \<or> cb_bytes budget > cl_MaxBytes (cb_limits budget) - bytes
     then Inl (Notef ErrInvalidRequest ''extension value exceeds clone budget'')
     else Inr (budget\<lparr>cb_nodes := cb_nodes budget + nodes, cb_bytes := cb_bytes budget + bytes\<rparr>))"

definition bytes_len :: "go_bytes \<Rightarrow> int" where
  "bytes_len b = int (length (bytes_of b))"

definition map_entries :: "'v go_map option \<Rightarrow> 'v go_map" where
  "map_entries m = (case m of None \<Rightarrow> [] | Some es \<Rightarrow> es)"

definition prfInputCost :: "PRFValues option \<Rightarrow> PRFValues go_map option \<Rightarrow> string list option \<Rightarrow> int \<times> int" where
  "prfInputCost eval byCredential allow =
    (let entries = map_entries byCredential;
         allowed = (case allow of None \<Rightarrow> [] | Some ids \<Rightarrow> ids);
         nodes = 1 + int (length allowed) + int (length entries)
           + (case eval of None \<Rightarrow> 0 | Some _ \<Rightarrow> 2) + 2 * int (length entries);
         bytes = (case eval of None \<Rightarrow> 0 | Some v \<Rightarrow> bytes_len (prf_First v) + bytes_len (prf_Second v))
           + sum_list (map (\<lambda>id. int (length id)) allowed)
           + sum_list (map (\<lambda>(id, v). int (length id) + bytes_len (prf_First v) + bytes_len (prf_Second v)) entries)
     in (nodes, bytes))"

definition directCloneCost :: "goval \<Rightarrow> int \<times> int" where
  "directCloneCost v =
    (case v of
       VString s \<Rightarrow> (1, int (length s))
     | VStringInput s \<Rightarrow> (1, int (length s))
     | VPtrStringInput s \<Rightarrow> (1, case s of None \<Rightarrow> 0 | Some t \<Rightarrow> int (length t))
     | VBytes b \<Rightarrow> (1, bytes_len b)
     | VPRFValues p \<Rightarrow> (3, bytes_len (prf_First p) + bytes_len (prf_Second p))
     | VPRFInput p \<Rightarrow> prfInputCost (prf_Eval p) (prf_EvalByCredential p) (prf_AllowCredentials p)
     | VPRFResult p \<Rightarrow>
        (case prfInputCost (prfr_Eval p) (prfr_EvalByCredential p) None of (nodes, bytes) \<Rightarrow>
          (case prfr_Results p of None \<Rightarrow> (nodes, bytes)
           | Some r \<Rightarrow> (nodes + 2, bytes + bytes_len (prf_First r) + bytes_len (prf_Second r))))
     | VLargeBlobInput l \<Rightarrow> (3, bytes_len (lb_Write l))
     | VLargeBlobResult l \<Rightarrow> (6, bytes_len (lbr_Write l) + bytes_len (lbr_Blob l))
     | VUVMResult es \<Rightarrow> (1 + (case es of None \<Rightarrow> 0 | Some l \<Rightarrow> int (length l)), 0)
     | VUVMEntries es \<Rightarrow> (1 + (case es of None \<Rightarrow> 0 | Some l \<Rightarrow> int (length l)), 0)
     | _ \<Rightarrow> (1, 0))"

section \<open>Map keys and element types\<close>

definition mapKeyByteSize :: "goval \<Rightarrow> int" where
  "mapKeyByteSize k = (case k of VString s \<Rightarrow> int (length s) | VStringInput s \<Rightarrow> int (length s) | _ \<Rightarrow> 0)"

text \<open>
  The named types of the program that are made of immutable fields only; a map key of an
  application's own named type is outside the model and refused.
\<close>

fun immutableMapKeyType :: "goty \<Rightarrow> bool" where
  "immutableMapKeyType TBool = True"
| "immutableMapKeyType TString = True"
| "immutableMapKeyType (TInt _) = True"
| "immutableMapKeyType TFloat32 = True"
| "immutableMapKeyType TFloat64 = True"
| "immutableMapKeyType (TArray _ t) = immutableMapKeyType t"
| "immutableMapKeyType (TNamed n) =
    (n \<in> set [''protocol.BoolInput'', ''protocol.StringInput'', ''protocol.COSEAlgorithmIdentifier'',
       ''extension.AppIDResult'', ''extension.AppIDExcludeResult'',
       ''extension.RemoteClientDataJSONResult'', ''extension.UVMEntry''])"
| "immutableMapKeyType _ = False"

definition cloneMapKey :: "goval \<Rightarrow> goval result" where
  "cloneMapKey k =
    (if k = VNil then Inr VNil
     else if \<not> immutableMapKeyType (typeof k) then Inl (Notef ErrInvalidRequest ''extension map key type'')
     else Inr k)"

text \<open>The nil value of a nilable type.\<close>

fun nil_of :: "goty \<Rightarrow> goval option" where
  "nil_of TIface = Some VNil"
| "nil_of (TSlice t) = Some (if t = TInt KUint8 then VBytes None else VSlice t None)"
| "nil_of (TMap k t) = Some (VMap k t None)"
| "nil_of (TPointer t) = Some (VTypedNilInput (case t of TNamed n \<Rightarrow> n | _ \<Rightarrow> []))"
| "nil_of _ = None"

definition setClonedValue :: "goty \<Rightarrow> goval \<Rightarrow> goval result" where
  "setClonedValue target v =
    (if v = VNil then
       (case nil_of target of Some z \<Rightarrow> Inr z
        | None \<Rightarrow> Inl (Notef ErrInvalidRequest ''nil cannot populate the target''))
     else if target \<noteq> TIface \<and> typeof v \<noteq> target
     then Inl (Notef ErrInvalidRequest ''cloned type cannot populate the target'')
     else Inr v)"

section \<open>The recursive copy\<close>

text \<open>The cases of the type switch that do not recurse.\<close>

fun cloneLeaf :: "goval \<Rightarrow> goval result" where
  "cloneLeaf (VBoolInput b) = Inr (VBool b)"
| "cloneLeaf (VStringInput s) = Inr (VString s)"
| "cloneLeaf (VPtrBoolInput b) =
    (case b of None \<Rightarrow> Inl (Sentinel ErrInvalidRequest) | Some c \<Rightarrow> Inr (VBoolInput c))"
| "cloneLeaf (VPtrStringInput s) =
    (case s of None \<Rightarrow> Inl (Sentinel ErrInvalidRequest) | Some t \<Rightarrow> Inr (VStringInput t))"
| "cloneLeaf (VInputImpl n k e) =
    (case e of None \<Rightarrow> Inr (VInputImpl n k e) | Some err \<Rightarrow> Inl err)"
| "cloneLeaf (VTypedNilInput n) = Inl (Sentinel ErrInvalidRequest)"
| "cloneLeaf (VSubStatements s) =
    (if s = None \<or> s = Some [] then Inr (VSubStatements (Some []))
     else Inl (Notef ErrInvalidRequest ''extension value type''))"
| "cloneLeaf (VPtrPRFValues p) = Inl (Notef ErrInvalidRequest ''extension value type'')"
| "cloneLeaf (VCOSEAlgorithm a) = Inl (Notef ErrInvalidRequest ''extension value type'')"
| "cloneLeaf (VOther t) = Inl (Notef ErrInvalidRequest ''extension value type'')"
| "cloneLeaf v = Inr v"

text \<open>The recursive cases: a raw input, a slice or array, a map.\<close>

datatype shape =
    Wrapped goval
  | Sequence "goval list \<Rightarrow> goval" goty "goval list"
  | Entries goty goty "(goval \<times> goval) list"
  | Leaf

fun shape_of :: "goval \<Rightarrow> shape" where
  "shape_of (VRawInput r) = Wrapped (case r of None \<Rightarrow> VNil | Some v \<Rightarrow> v)"
| "shape_of (VSlice t xs) = Sequence (\<lambda>ys. VSlice t (Some ys)) t (case xs of None \<Rightarrow> [] | Some ys \<Rightarrow> ys)"
| "shape_of (VArray t xs) = Sequence (VArray t) t xs"
| "shape_of (VMap k t es) = Entries k t (case es of None \<Rightarrow> [] | Some fs \<Rightarrow> fs)"
| "shape_of _ = Leaf"

lemma shape_of_size:
  "shape_of v = Wrapped w \<Longrightarrow> size w < size v"
  "shape_of v = Sequence c t xs \<Longrightarrow> size_list size xs < size v"
  "shape_of v = Entries k t es \<Longrightarrow> size_list (size_prod size size) es < size v"
  by (cases v; auto split: option.splits)+

function cloneValueAt :: "goval \<Rightarrow> int \<Rightarrow> cloneBudget \<Rightarrow> (goval \<times> cloneBudget) result"
  and cloneSequence :: "goty \<Rightarrow> goval list \<Rightarrow> int \<Rightarrow> cloneBudget \<Rightarrow> (goval list \<times> cloneBudget) result"
  and cloneMap :: "goty \<Rightarrow> (goval \<times> goval) list \<Rightarrow> int \<Rightarrow> cloneBudget
    \<Rightarrow> ((goval \<times> goval) list \<times> cloneBudget) result"
where
  "cloneValueAt v depth budget =
    (case shape_of v of
       Wrapped inner \<Rightarrow> cloneValueAt inner depth budget
     | sh \<Rightarrow>
        if depth > cl_MaxDepth (cb_limits budget)
        then Inl (Notef ErrInvalidRequest ''extension value nesting too deep'') else
        and_then (consume budget (fst (directCloneCost v)) (snd (directCloneCost v))) (\<lambda>b.
        case sh of
          Sequence build t xs \<Rightarrow>
            and_then (cloneSequence t xs (depth + 1) b) (\<lambda>(ys, b'). Inr (build ys, b'))
        | Entries k t es \<Rightarrow>
            and_then (cloneMap t es (depth + 1) b) (\<lambda>(fs, b'). Inr (VMap k t (Some fs), b'))
        | _ \<Rightarrow> and_then (cloneLeaf v) (\<lambda>w. Inr (w, b))))"
| "cloneSequence t [] depth budget = Inr ([], budget)"
| "cloneSequence t (x # xs) depth budget =
    and_then (cloneValueAt x depth budget) (\<lambda>(item, b).
    and_then (setClonedValue t item) (\<lambda>y.
    and_then (cloneSequence t xs depth b) (\<lambda>(ys, b'). Inr (y # ys, b'))))"
| "cloneMap t [] depth budget = Inr ([], budget)"
| "cloneMap t ((k, x) # es) depth budget =
    and_then (consume budget 1 (mapKeyByteSize k)) (\<lambda>b.
    and_then (cloneMapKey k) (\<lambda>key.
    and_then (cloneValueAt x depth b) (\<lambda>(item, b').
    and_then (setClonedValue t item) (\<lambda>y.
    and_then (cloneMap t es depth b') (\<lambda>(fs, b''). Inr ((key, y) # fs, b''))))))"
  by pat_completeness auto

termination
  by (relation "measure (case_sum (\<lambda>(v, _). size v)
      (case_sum (\<lambda>(_, xs, _). size_list size xs) (\<lambda>(_, es, _). size_list (size_prod size size) es)))")
    (auto simp: shape_of_size)

declare cloneValueAt.simps [simp del]

definition CloneValueWithLimits :: "goval \<Rightarrow> CloneLimits \<Rightarrow> goval result" where
  "CloneValueWithLimits v limits =
    (if cl_MaxDepth limits < 0 \<or> cl_MaxNodes limits < 0 \<or> cl_MaxBytes limits < 0
     then Inl (Notef ErrInvalidRequest ''clone limits must not be negative'')
     else and_then (cloneValueAt v 0 \<lparr>cb_limits = normalizeCloneLimits limits, cb_nodes = 0, cb_bytes = 0\<rparr>)
       (\<lambda>(w, _). Inr w))"

definition CloneValue :: "goval \<Rightarrow> goval result" where
  "CloneValue v = CloneValueWithLimits v \<lparr>cl_MaxDepth = 0, cl_MaxNodes = 0, cl_MaxBytes = 0\<rparr>"

section \<open>The budget is respected\<close>

definition in_budget :: "cloneBudget \<Rightarrow> bool" where
  "in_budget b \<longleftrightarrow> cb_nodes b \<le> cl_MaxNodes (cb_limits b) \<and> cb_bytes b \<le> cl_MaxBytes (cb_limits b)"

definition spends :: "cloneBudget \<Rightarrow> cloneBudget \<Rightarrow> bool" where
  "spends b b' \<longleftrightarrow> cb_limits b' = cb_limits b \<and> cb_nodes b \<le> cb_nodes b' \<and> cb_bytes b \<le> cb_bytes b'
    \<and> (in_budget b \<longrightarrow> in_budget b')"

lemma spends_refl [simp]: "spends b b"
  by (simp add: spends_def)

lemma spends_trans [trans]: "spends a b \<Longrightarrow> spends b c \<Longrightarrow> spends a c"
  by (auto simp: spends_def)

lemma consume_Inr_iff:
  "consume b n k = Inr b' \<longleftrightarrow> 0 \<le> n \<and> 0 \<le> k \<and> in_budget b'
    \<and> b' = b\<lparr>cb_nodes := cb_nodes b + n, cb_bytes := cb_bytes b + k\<rparr>"
  by (auto simp: consume_def in_budget_def)

lemma consume_spends: "consume b n k = Inr b' \<Longrightarrow> spends b b'"
  by (auto simp: consume_Inr_iff spends_def)

lemma clone_spends:
  "cloneValueAt v d b = Inr (w, b') \<Longrightarrow> spends b b'"
  "cloneSequence t xs d b = Inr (ys, b') \<Longrightarrow> spends b b'"
  "cloneMap t es d b = Inr (fs, b') \<Longrightarrow> spends b b'"
proof (induction v d b and t xs d b and t es d b arbitrary: w b' and ys b' and fs b'
    rule: cloneValueAt_cloneSequence_cloneMap.induct)
  case (1 v d b)
  show ?case
  proof (cases "shape_of v")
    case (Wrapped inner)
    then show ?thesis using 1 by (simp add: cloneValueAt.simps [of v])
  next
    case (Sequence c t xs)
    then show ?thesis
      using 1 by (fastforce simp: cloneValueAt.simps [of v] result_inv dest: consume_spends intro: spends_trans)
  next
    case (Entries k t es)
    then show ?thesis
      using 1 by (fastforce simp: cloneValueAt.simps [of v] result_inv dest: consume_spends intro: spends_trans)
  next
    case Leaf
    then show ?thesis
      using 1 by (auto simp: cloneValueAt.simps [of v] result_inv dest: consume_spends)
  qed
next
  case (3 t x xs d b)
  then show ?case
    by (fastforce simp: result_inv intro: spends_trans)
next
  case (5 t k x es d b)
  then show ?case
    by (fastforce simp: result_inv dest: consume_spends intro: spends_trans)
qed simp_all

section \<open>A copy is a fixed point of copying\<close>

text \<open>
  The values the type system of the source admits: the elements of a slice, array or map have
  its element type. Pointers to inputs are left out, because copying one yields the input.
\<close>

fun wt_value :: "goval \<Rightarrow> bool" where
  "wt_value (VSlice t xs) =
    (case xs of None \<Rightarrow> True | Some ys \<Rightarrow> list_all (\<lambda>x. (t = TIface \<or> typeof x = t) \<and> wt_value x) ys)"
| "wt_value (VArray t xs) = list_all (\<lambda>x. (t = TIface \<or> typeof x = t) \<and> wt_value x) xs"
| "wt_value (VMap k t es) =
    (case es of None \<Rightarrow> True | Some fs \<Rightarrow> list_all (\<lambda>(_, x). (t = TIface \<or> typeof x = t) \<and> wt_value x) fs)"
| "wt_value (VRawInput r) = (case r of None \<Rightarrow> True | Some v \<Rightarrow> wt_value v)"
| "wt_value (VPtrBoolInput _) = False"
| "wt_value (VPtrStringInput _) = False"
| "wt_value _ = True"

definition wt_elem :: "goty \<Rightarrow> goval \<Rightarrow> bool" where
  "wt_elem t x \<longleftrightarrow> (t = TIface \<or> typeof x = t) \<and> wt_value x"

lemma wt_value_shape:
  "wt_value v \<Longrightarrow> shape_of v = Wrapped w \<Longrightarrow> wt_value w"
  "wt_value v \<Longrightarrow> shape_of v = Sequence c t xs \<Longrightarrow> list_all (wt_elem t) xs"
  "wt_value v \<Longrightarrow> shape_of v = Entries k t es \<Longrightarrow> list_all (\<lambda>(_, x). wt_elem t x) es"
  by (cases v; auto simp: wt_elem_def [abs_def] split: option.splits)+

lemma shape_of_rebuild:
  "shape_of v = Sequence c t xs \<Longrightarrow>
    shape_of (c ys) = Sequence c t ys \<and> directCloneCost (c ys) = directCloneCost v
    \<and> wt_value (c ys) = list_all (wt_elem t) ys \<and> c ys \<noteq> VNil"
  "shape_of v = Entries k t es \<Longrightarrow>
    directCloneCost (VMap k t fs) = directCloneCost v"
  by (cases v; auto simp: directCloneCost_def wt_elem_def [abs_def])+

lemma cloneLeaf_fixed:
  "cloneLeaf v = Inr w \<Longrightarrow> shape_of v = Leaf \<Longrightarrow> wt_value v \<Longrightarrow>
    cloneLeaf w = Inr w \<and> shape_of w = Leaf \<and> wt_value w \<and> directCloneCost w = directCloneCost v
    \<and> (w = VNil \<longrightarrow> v = VNil)"
  by (cases v) (auto simp: directCloneCost_def split: option.splits if_splits)

lemma setClonedValue_fixed:
  assumes "setClonedValue t item = Inr y" "wt_value item" "item = VNil \<longrightarrow> t = TIface \<or> nil_of t = None"
  shows "y = item \<and> wt_elem t y"
  using assms by (auto simp: setClonedValue_def wt_elem_def split: option.splits if_splits)

lemma cloneMapKey_fixed: "cloneMapKey k = Inr key \<Longrightarrow> key = k"
  by (auto simp: cloneMapKey_def split: if_splits)

lemma cloneValueAt_SequenceD:
  assumes "cloneValueAt v d b = Inr (w, b')" "shape_of v = Sequence c t xs"
  shows "\<exists>b1 ys. \<not> d > cl_MaxDepth (cb_limits b) \<and> w = c ys \<and>
      consume b (fst (directCloneCost v)) (snd (directCloneCost v)) = Inr b1 \<and>
      cloneSequence t xs (d + 1) b1 = Inr (ys, b')"
  using assms by (auto simp: cloneValueAt.simps [of v] result_inv)

lemma cloneValueAt_EntriesD:
  assumes "cloneValueAt v d b = Inr (w, b')" "shape_of v = Entries k t es"
  shows "\<exists>b1 fs. \<not> d > cl_MaxDepth (cb_limits b) \<and> w = VMap k t (Some fs) \<and>
      consume b (fst (directCloneCost v)) (snd (directCloneCost v)) = Inr b1 \<and>
      cloneMap t es (d + 1) b1 = Inr (fs, b')"
  using assms by (auto simp: cloneValueAt.simps [of v] result_inv)

lemma clone_fixed:
  "cloneValueAt v d b = Inr (w, b') \<Longrightarrow> wt_value v \<Longrightarrow>
    wt_value w \<and> cloneValueAt w d b = Inr (w, b') \<and> (w = VNil \<longrightarrow> v = VNil \<or> (\<exists>r. v = VRawInput r))"
  "cloneSequence t xs d b = Inr (ys, b') \<Longrightarrow> list_all (wt_elem t) xs \<Longrightarrow>
    list_all (wt_elem t) ys \<and> cloneSequence t ys d b = Inr (ys, b')"
  "cloneMap t es d b = Inr (fs, b') \<Longrightarrow> list_all (\<lambda>(_, x). wt_elem t x) es \<Longrightarrow>
    list_all (\<lambda>(_, x). wt_elem t x) fs \<and> cloneMap t fs d b = Inr (fs, b')"
proof (induction v d b and t xs d b and t es d b arbitrary: w b' and ys b' and fs b'
    rule: cloneValueAt_cloneSequence_cloneMap.induct)
  case (1 v d b)
  show ?case
  proof (cases "shape_of v")
    case (Wrapped inner)
    have raw: "\<exists>r. v = VRawInput r"
      using Wrapped by (cases v) auto
    have "cloneValueAt inner d b = Inr (w, b')" "wt_value inner"
      using 1(8,9) Wrapped wt_value_shape(1) by (auto simp: cloneValueAt.simps [of v])
    then show ?thesis
      using 1(1) [OF Wrapped] raw by blast
  next
    case (Sequence c t xs)
    obtain b1 ys where run: "\<not> d > cl_MaxDepth (cb_limits b)"
      "consume b (fst (directCloneCost v)) (snd (directCloneCost v)) = Inr b1"
      "cloneSequence t xs (d + 1) b1 = Inr (ys, b')" "w = c ys"
      using cloneValueAt_SequenceD [OF 1(8) Sequence] by blast
    have "list_all (wt_elem t) ys \<and> cloneSequence t ys (d + 1) b1 = Inr (ys, b')"
      using 1(2) [OF Sequence run(1) refl run(3)] wt_value_shape(2) [OF 1(9) Sequence] by blast
    then show ?thesis
      using run shape_of_rebuild(1) [OF Sequence, of ys] by (simp add: cloneValueAt.simps [of "c ys"])
  next
    case (Entries k t es)
    obtain b1 fs where run: "\<not> d > cl_MaxDepth (cb_limits b)"
      "consume b (fst (directCloneCost v)) (snd (directCloneCost v)) = Inr b1"
      "cloneMap t es (d + 1) b1 = Inr (fs, b')" "w = VMap k t (Some fs)"
      using cloneValueAt_EntriesD [OF 1(8) Entries] by blast
    have "list_all (\<lambda>(_, x). wt_elem t x) fs \<and> cloneMap t fs (d + 1) b1 = Inr (fs, b')"
      using 1(5) [OF Entries run(1) refl run(3)] wt_value_shape(3) [OF 1(9) Entries] by blast
    then show ?thesis
      using run shape_of_rebuild(2) [OF Entries, of "Some fs"]
      by (simp add: cloneValueAt.simps [of "VMap k t (Some fs)"] wt_elem_def [abs_def])
  next
    case Leaf
    then obtain b1 where run: "\<not> d > cl_MaxDepth (cb_limits b)" "cloneLeaf v = Inr w"
      "consume b (fst (directCloneCost v)) (snd (directCloneCost v)) = Inr b1" "b' = b1"
      using 1(8) by (auto simp: cloneValueAt.simps [of v] result_inv)
    then show ?thesis
      using cloneLeaf_fixed [OF run(2) Leaf] 1(9) by (auto simp: cloneValueAt.simps [of w])
  qed
next
  case (3 t x xs d b)
  obtain item b1 y zs where run: "cloneValueAt x d b = Inr (item, b1)"
    "setClonedValue t item = Inr y" "cloneSequence t xs d b1 = Inr (zs, b')" "ys = y # zs"
    using 3(3) by (auto simp: result_inv)
  have elem: "wt_elem t x" and xs: "list_all (wt_elem t) xs"
    using 3(4) by simp_all
  then have x: "wt_value x" "t = TIface \<or> typeof x = t"
    by (simp_all add: wt_elem_def)
  note item = 3(1) [OF run(1) x(1)]
  have "y = item \<and> wt_elem t y"
    using setClonedValue_fixed [OF run(2)] item x(2) by auto
  moreover have "list_all (wt_elem t) zs \<and> cloneSequence t zs d b1 = Inr (zs, b')"
    by (rule 3(2) [OF run(3) xs])
  ultimately show ?case
    using run(2,4) item by auto
next
  case (5 t k x es d b)
  obtain b1 item b2 y gs where run: "consume b 1 (mapKeyByteSize k) = Inr b1"
    "cloneMapKey k = Inr k" "cloneValueAt x d b1 = Inr (item, b2)"
    "setClonedValue t item = Inr y" "cloneMap t es d b2 = Inr (gs, b')" "fs = (k, y) # gs"
    using 5(3) cloneMapKey_fixed [of k] by (force simp: result_inv)
  have elem: "wt_elem t x" and es: "list_all (\<lambda>(_, x). wt_elem t x) es"
    using 5(4) by simp_all
  then have x: "wt_value x" "t = TIface \<or> typeof x = t"
    by (simp_all add: wt_elem_def)
  note item = 5(1) [OF run(3) x(1)]
  have "y = item \<and> wt_elem t y"
    using setClonedValue_fixed [OF run(4)] item x(2) by auto
  moreover have "list_all (\<lambda>(_, x). wt_elem t x) gs \<and> cloneMap t gs d b2 = Inr (gs, b')"
    by (rule 5(2) [OF run(5) es])
  ultimately show ?case
    using run(1,2,4,6) item by auto
qed simp_all

lemma CloneValue_Inr_iff:
  "CloneValue v = Inr w \<longleftrightarrow> (\<exists>b. cloneValueAt v 0 \<lparr>cb_limits = \<lparr>cl_MaxDepth = DefaultMaxCloneDepth,
     cl_MaxNodes = DefaultMaxCloneNodes, cl_MaxBytes = DefaultMaxCloneBytes\<rparr>, cb_nodes = 0, cb_bytes = 0\<rparr> = Inr (w, b))"
  by (auto simp: CloneValue_def CloneValueWithLimits_def normalizeCloneLimits_def result_inv)

lemma CloneValue_fixed: "CloneValue v = Inr w \<Longrightarrow> wt_value v \<Longrightarrow> wt_value w \<and> CloneValue w = Inr w"
  unfolding CloneValue_Inr_iff using clone_fixed(1) by blast

end
