(* ===== verification/Extension_Input.thy ===== *)
theory Extension_Input
  imports Extension_Value
begin

text \<open>
  \<^verbatim>\<open>src/extension/input.go\<close>, \<^verbatim>\<open>client_outputs.go\<close> and the raw values of \<^verbatim>\<open>extension.go\<close>: raw
  values at untyped boundaries, extension inputs with their copy contract, and the decoded
  client outputs.
\<close>

definition MaxEntries :: nat where "MaxEntries = 64"

section \<open>Type assertions\<close>

text \<open>\<^verbatim>\<open>v.(bool)\<close>, \<^verbatim>\<open>v.(string)\<close>, \<^verbatim>\<open>v.([]byte)\<close> and \<^verbatim>\<open>v.(protocol.StringInput)\<close>.\<close>

fun assert_bool :: "goval \<Rightarrow> bool option" where
  "assert_bool (VBool b) = Some b" | "assert_bool _ = None"

fun assert_string :: "goval \<Rightarrow> string option" where
  "assert_string (VString s) = Some s" | "assert_string _ = None"

fun assert_bytes :: "goval \<Rightarrow> go_bytes option" where
  "assert_bytes (VBytes b) = Some b" | "assert_bytes _ = None"

fun assert_StringInput :: "goval \<Rightarrow> string option" where
  "assert_StringInput (VStringInput s) = Some s" | "assert_StringInput _ = None"

lemma assert_iff:
  "assert_bool v = Some b \<longleftrightarrow> v = VBool b"
  "assert_string v = Some s \<longleftrightarrow> v = VString s"
  "assert_bytes v = Some bs \<longleftrightarrow> v = VBytes bs"
  "assert_StringInput v = Some s \<longleftrightarrow> v = VStringInput s"
  by (cases v; simp)+

section \<open>Raw values\<close>

definition NewRawValue :: "goval \<Rightarrow> RawValue result" where
  "NewRawValue v = and_then (CloneValue v) (\<lambda>cloned. Inr (Some cloned))"

definition RawValue_Present :: "RawValue \<Rightarrow> bool" where
  "RawValue_Present r \<longleftrightarrow> r \<noteq> None"

definition RawValue_Null :: "RawValue \<Rightarrow> bool" where
  "RawValue_Null r \<longleftrightarrow> r = Some VNil"

definition RawValue_Clone :: "RawValue \<Rightarrow> goval result" where
  "RawValue_Clone r = (case r of None \<Rightarrow> Inr VNil | Some v \<Rightarrow> CloneValue v)"

text \<open>\<^verbatim>\<open>As[bool]\<close> and \<^verbatim>\<open>As[string]\<close>: \<open>None\<close> when the value is absent, null or of another type.\<close>

definition As_bool :: "RawValue \<Rightarrow> bool option" where
  "As_bool r =
    (case r of None \<Rightarrow> None
     | Some v \<Rightarrow> if v = VNil then None else
        (case CloneValue v of Inl _ \<Rightarrow> None | Inr cloned \<Rightarrow> assert_bool cloned))"

definition As_string :: "RawValue \<Rightarrow> string option" where
  "As_string r =
    (case r of None \<Rightarrow> None
     | Some v \<Rightarrow> if v = VNil then None else
        (case CloneValue v of Inl _ \<Rightarrow> None | Inr cloned \<Rightarrow> assert_string cloned))"

definition cloneRawValue :: "RawValue \<Rightarrow> RawValue result" where
  "cloneRawValue r =
    (if \<not> RawValue_Present r then Inr None
     else and_then (RawValue_Clone r) (\<lambda>cloned. Inr (Some cloned)))"

definition invalidRequest :: "string \<Rightarrow> error" where
  "invalidRequest reason = Notef ErrInvalidRequest reason"

definition rawValue :: "RawValue \<Rightarrow> goval result" where
  "rawValue r =
    (if \<not> RawValue_Present r then Inl (invalidRequest ''extension value is absent'') else RawValue_Clone r)"

section \<open>Extension inputs\<close>

definition NewRawInput :: "goval \<Rightarrow> ExtensionInput result" where
  "NewRawInput v = and_then (NewRawValue v) (\<lambda>raw. Inr (VRawInput raw))"

text \<open>
  The method \<^verbatim>\<open>CloneExtensionInput\<close> of each implementation. It is only called on values that
  implement the interface and are not nil; the last line is not reached.
\<close>

fun CloneExtensionInput :: "ExtensionInput \<Rightarrow> ExtensionInput result" where
  "CloneExtensionInput (VBoolInput b) = Inr (VBoolInput b)"
| "CloneExtensionInput (VStringInput s) = Inr (VStringInput s)"
| "CloneExtensionInput (VRawInput r) = and_then (RawValue_Clone r) NewRawInput"
| "CloneExtensionInput (VPRFInput p) = and_then (CloneValue (VPRFInput p)) (\<lambda>_. Inr (VPRFInput p))"
| "CloneExtensionInput (VLargeBlobInput l) =
    and_then (CloneValue (VLargeBlobInput l)) (\<lambda>_. Inr (VLargeBlobInput l))"
| "CloneExtensionInput (VPtrBoolInput (Some b)) = Inr (VBoolInput b)"
| "CloneExtensionInput (VPtrStringInput (Some s)) = Inr (VStringInput s)"
| "CloneExtensionInput (VInputImpl n k e) =
    (case e of None \<Rightarrow> Inr (VInputImpl n k e) | Some err \<Rightarrow> Inl err)"
| "CloneExtensionInput v = Inl (Sentinel ErrInvalidRequest)"

definition CloneInput :: "ExtensionInput \<Rightarrow> ExtensionInput result" where
  "CloneInput input =
    (if nilLike input then Inl (Sentinel ErrInvalidRequest) else
     and_then (CloneExtensionInput input) (\<lambda>cloned.
     if nilLike cloned then Inl (Sentinel ErrInvalidRequest) else
     (case assert_StringInput cloned of
        Some s \<Rightarrow> and_then (CloneValue cloned) (\<lambda>_. Inr cloned)
      | None \<Rightarrow> Inr cloned)))"

definition NormalizeInput :: "goval \<Rightarrow> ExtensionInput result" where
  "NormalizeInput v =
    (if isExtensionInput v then CloneInput v else
     case v of
       VBool b \<Rightarrow> Inr (VBoolInput b)
     | VString s \<Rightarrow> CloneInput (VStringInput s)
     | _ \<Rightarrow> NewRawInput v)"

definition InputValue :: "ExtensionInput \<Rightarrow> goval result" where
  "InputValue input =
    (if nilLike input then Inl (Sentinel ErrInvalidRequest) else
     case input of
       VBoolInput b \<Rightarrow> Inr (VBool b)
     | VStringInput s \<Rightarrow> CloneValue input
     | VRawInput r \<Rightarrow> RawValue_Clone r
     | _ \<Rightarrow> CloneInput input)"

definition SetInput :: "ExtensionInputs option \<Rightarrow> string iface \<Rightarrow> goval \<Rightarrow> ExtensionInputs result" where
  "SetInput inputs handler v =
    (case (inputs, handler) of
       (Some m, Impl handlerID) \<Rightarrow>
        and_then (NormalizeInput v) (\<lambda>input. Inr (map_put handlerID input m))
     | _ \<Rightarrow> Inl (Sentinel ErrInvalidRequest))"

definition ClientOutputsFromRaw :: "goval go_map option \<Rightarrow> ClientOutputs result" where
  "ClientOutputsFromRaw values =
    (case values of None \<Rightarrow> Inr []
     | Some m \<Rightarrow>
       if length m > MaxEntries then Inl (Sentinel ErrTooManyEntries)
       else map_res (\<lambda>(id, v). and_then (NewRawValue v) (\<lambda>raw. Inr (id, raw))) m)"

section \<open>Facts\<close>

lemma NewRawValue_Inr_iff: "NewRawValue v = Inr r \<longleftrightarrow> (\<exists>w. r = Some w \<and> CloneValue v = Inr w)"
  by (auto simp: NewRawValue_def result_inv)

lemma As_bool_SomeD: "As_bool r = Some b \<Longrightarrow> \<exists>v. r = Some v \<and> CloneValue v = Inr (VBool b)"
  by (auto simp: As_bool_def assert_iff split: option.splits if_splits sum.splits)

lemma CloneValue_VNil [simp]: "CloneValue VNil = Inr VNil"
  by code_simp

lemma RawValue_Clone_fixed:
  assumes "RawValue_Clone r = Inr v" "\<And>u. r = Some u \<Longrightarrow> wt_value u"
  shows "wt_value v \<and> CloneValue v = Inr v"
proof (cases r)
  case None
  then show ?thesis
    using assms(1) by (auto simp: RawValue_Clone_def)
next
  case (Some u)
  then show ?thesis
    using assms CloneValue_fixed [of u v] by (simp add: RawValue_Clone_def)
qed

lemma cloneRawValue_fixed:
  assumes "cloneRawValue r = Inr r'" "\<And>u. r = Some u \<Longrightarrow> wt_value u"
  shows "cloneRawValue r' = Inr r'"
proof (cases r)
  case None
  then show ?thesis
    using assms(1) by (simp add: cloneRawValue_def RawValue_Present_def)
next
  case (Some u)
  then obtain v where v: "RawValue_Clone r = Inr v" "r' = Some v"
    using assms(1) by (auto simp: cloneRawValue_def RawValue_Present_def result_inv)
  then have "CloneValue v = Inr v"
    using RawValue_Clone_fixed assms(2) by blast
  then show ?thesis
    using v(2) by (simp add: cloneRawValue_def RawValue_Present_def RawValue_Clone_def)
qed

text \<open>Copying an input twice is copying it once.\<close>

lemma NewRawInput_fixed:
  assumes "NewRawInput v = Inr i" "wt_value v"
  shows "CloneExtensionInput i = Inr i \<and> \<not> nilLike i"
  using assms CloneValue_fixed [of v]
  by (auto simp: NewRawInput_def NewRawValue_def RawValue_Clone_def result_inv)

lemma CloneExtensionInput_fixed:
  assumes "CloneExtensionInput i = Inr j" "wt_value i"
  shows "CloneExtensionInput j = Inr j \<and> \<not> nilLike j"
proof (cases "\<exists>r. i = VRawInput r")
  case True
  then obtain r v where r: "i = VRawInput r" "RawValue_Clone r = Inr v" "NewRawInput v = Inr j"
    using assms by (auto simp: result_inv)
  have "wt_value v"
    using RawValue_Clone_fixed [OF r(2)] r(1) assms(2) by (cases r) simp_all
  then show ?thesis
    using NewRawInput_fixed r(3) by blast
next
  case False
  then show ?thesis
    using assms by (cases i) (auto simp: result_inv split: option.splits)
qed

lemma CloneInput_Inr_iff:
  "CloneInput i = Inr j \<longleftrightarrow> \<not> nilLike i \<and> CloneExtensionInput i = Inr j \<and> \<not> nilLike j
    \<and> (\<forall>s. j = VStringInput s \<longrightarrow> (\<exists>w. CloneValue (VStringInput s) = Inr w))"
  by (auto simp: CloneInput_def result_inv assert_iff split: option.splits)

lemma CloneInput_fixed: "CloneInput i = Inr j \<Longrightarrow> wt_value i \<Longrightarrow> CloneInput j = Inr j"
  using CloneExtensionInput_fixed [of i j] by (auto simp: CloneInput_Inr_iff)

end
