(* ===== verification/Extension_Handlers.thy ===== *)
theory Extension_Handlers
  imports Extension_Input Protocol_ClientData
begin

text \<open>
  The built-in extension handlers: \<^verbatim>\<open>src/extension/level2.go\<close> (appid, appidExclude, credProps),
  \<^verbatim>\<open>level3.go\<close> (prf), \<^verbatim>\<open>largeblob.go\<close>, \<^verbatim>\<open>uvm.go\<close> and \<^verbatim>\<open>remote_client_data.go\<close>. A handler is
  the record of its methods; \<open>extension_handler\<close> is what the ceremonies rely on, and it is
  interpreted for each of the seven handlers.
\<close>

section \<open>Requests and verifications\<close>

type_synonym Operation = string

definition OperationRegistration :: Operation where "OperationRegistration = ''registration''"
definition OperationAuthentication :: Operation where "OperationAuthentication = ''authentication''"

record InputRequest =
  ir_Operation :: Operation
  ir_ID :: string
  ir_Input :: RawValue

record 'i OutputRequest =
  or_Operation :: Operation
  or_ID :: string
  or_Requested :: bool
  or_SelectedCredentialID :: CredentialID
  or_ClientInput :: 'i
  or_ClientOutput :: RawValue
  or_AuthenticatorOutput :: RawValue

record 'o Verification =
  ver_Accepted :: bool
  ver_Deprecated :: bool
  ver_Output :: 'o
  ver_Warnings :: "string list"

record ('i, 'o) Handler =
  h_ID :: string
  h_Revision :: string
  h_ValidateInput :: "InputRequest \<Rightarrow> 'i result"
  h_VerifyOutput :: "ctx \<Rightarrow> 'i OutputRequest \<Rightarrow> 'o Verification result"

definition hasClientOutput :: "'i OutputRequest \<Rightarrow> bool" where
  "hasClientOutput request \<longleftrightarrow> RawValue_Present (or_ClientOutput request)"

definition hasAuthenticatorOutput :: "'i OutputRequest \<Rightarrow> bool" where
  "hasAuthenticatorOutput request \<longleftrightarrow> RawValue_Present (or_AuthenticatorOutput request)"

definition RevisionLevel3Recommendation :: string where
  "RevisionLevel3Recommendation = ''webauthn-3-20260825''"

definition RevisionRemoteClientDataJSON :: string where
  "RevisionRemoteClientDataJSON = ''webauthn-ed-20260730''"

definition IDAppID :: string where "IDAppID = ''appid''"
definition IDAppIDExclude :: string where "IDAppIDExclude = ''appidExclude''"
definition IDUVM :: string where "IDUVM = ''uvm''"
definition IDCredProps :: string where "IDCredProps = ''credProps''"
definition IDLargeBlob :: string where "IDLargeBlob = ''largeBlob''"
definition IDPRF :: string where "IDPRF = ''prf''"
definition IDRemoteClientDataJSON :: string where "IDRemoteClientDataJSON = ''remoteClientDataJSON''"

lemmas extension_ids = IDAppID_def IDAppIDExclude_def IDUVM_def IDCredProps_def IDLargeBlob_def
  IDPRF_def IDRemoteClientDataJSON_def

definition requireOperation :: "'i OutputRequest \<Rightarrow> Operation list \<Rightarrow> error option" where
  "requireOperation request allowed =
    (if or_Operation request \<in> set allowed then None
     else Some (Notef ErrInvalidOperation (or_ID request @ '' for '' @ or_Operation request)))"

definition requireInputOperation :: "InputRequest \<Rightarrow> Operation list \<Rightarrow> error option" where
  "requireInputOperation request allowed =
    (if ir_Operation request \<in> set allowed then None
     else Some (Notef ErrInvalidOperation (ir_ID request @ '' for '' @ ir_Operation request)))"

definition requiredStringValue :: "goval \<Rightarrow> string \<Rightarrow> string result" where
  "requiredStringValue v name =
    (case assert_string v of
       Some out \<Rightarrow> if out = [] then Inl (invalidRequest (name @ '' input must be a non-empty string'')) else Inr out
     | None \<Rightarrow> Inl (invalidRequest (name @ '' input must be a non-empty string'')))"

definition requiredTrueValue :: "goval \<Rightarrow> string \<Rightarrow> error option" where
  "requiredTrueValue v name =
    (if assert_bool v = Some True then None else Some (invalidRequest (name @ '' input must be true'')))"

section \<open>appid and appidExclude\<close>

definition AppIDHandler_ValidateInput :: "InputRequest \<Rightarrow> string result" where
  "AppIDHandler_ValidateInput request =
    check (requireInputOperation request [OperationAuthentication])
    (and_then (rawValue (ir_Input request)) (\<lambda>input. requiredStringValue input IDAppID))"

definition AppIDHandler_VerifyOutput :: "ctx \<Rightarrow> string OutputRequest \<Rightarrow> AppIDResult Verification result" where
  "AppIDHandler_VerifyOutput ctx request =
    check (requireOperation request [OperationAuthentication])
    (if \<not> or_Requested request then Inl (invalidRequest (IDAppID @ '' must be requested''))
     else if hasAuthenticatorOutput request then Inl (invalidRequest ''appid has no authenticator output'')
     else if \<not> hasClientOutput request
     then Inr \<lparr>ver_Accepted = False, ver_Deprecated = False,
       ver_Output = \<lparr>appid_AppID = or_ClientInput request, appid_Used = False\<rparr>, ver_Warnings = []\<rparr>
     else (case As_bool (or_ClientOutput request) of
        None \<Rightarrow> Inl (invalidRequest ''appid client output must be boolean'')
      | Some used \<Rightarrow> Inr \<lparr>ver_Accepted = True, ver_Deprecated = False,
          ver_Output = \<lparr>appid_AppID = or_ClientInput request, appid_Used = used\<rparr>, ver_Warnings = []\<rparr>))"

definition AppIDHandler :: "(string, AppIDResult) Handler" where
  "AppIDHandler = \<lparr>h_ID = IDAppID, h_Revision = RevisionLevel3Recommendation,
    h_ValidateInput = AppIDHandler_ValidateInput, h_VerifyOutput = AppIDHandler_VerifyOutput\<rparr>"

definition AppIDExcludeHandler_ValidateInput :: "InputRequest \<Rightarrow> string result" where
  "AppIDExcludeHandler_ValidateInput request =
    check (requireInputOperation request [OperationRegistration])
    (and_then (rawValue (ir_Input request)) (\<lambda>input. requiredStringValue input IDAppIDExclude))"

definition AppIDExcludeHandler_VerifyOutput ::
  "ctx \<Rightarrow> string OutputRequest \<Rightarrow> AppIDExcludeResult Verification result" where
  "AppIDExcludeHandler_VerifyOutput ctx request =
    check (requireOperation request [OperationRegistration])
    (if \<not> or_Requested request then Inl (invalidRequest (IDAppIDExclude @ '' must be requested''))
     else if hasAuthenticatorOutput request then Inl (invalidRequest ''appidExclude has no authenticator output'')
     else if \<not> hasClientOutput request
     then Inr \<lparr>ver_Accepted = False, ver_Deprecated = False,
       ver_Output = \<lparr>appidx_AppID = or_ClientInput request, appidx_ActedUpon = False\<rparr>, ver_Warnings = []\<rparr>
     else if As_bool (or_ClientOutput request) \<noteq> Some True
     then Inl (invalidRequest ''appidExclude client output must be true'')
     else Inr \<lparr>ver_Accepted = True, ver_Deprecated = False,
       ver_Output = \<lparr>appidx_AppID = or_ClientInput request, appidx_ActedUpon = True\<rparr>, ver_Warnings = []\<rparr>)"

definition AppIDExcludeHandler :: "(string, AppIDExcludeResult) Handler" where
  "AppIDExcludeHandler = \<lparr>h_ID = IDAppIDExclude, h_Revision = RevisionLevel3Recommendation,
    h_ValidateInput = AppIDExcludeHandler_ValidateInput, h_VerifyOutput = AppIDExcludeHandler_VerifyOutput\<rparr>"

section \<open>Untyped objects, slices and integers\<close>

definition string_keys :: "(goval \<times> goval) list \<Rightarrow> goval go_map" where
  "string_keys es = map (\<lambda>(k, v). (case assert_string k of Some s \<Rightarrow> s | None \<Rightarrow> [], v)) es"

fun objectFields :: "goval \<Rightarrow> goval go_map option" where
  "objectFields (VMap k t es) =
    (if k = TString \<and> t \<in> {TIface, TString, TBool}
     then Some (case es of None \<Rightarrow> [] | Some fs \<Rightarrow> string_keys fs) else None)"
| "objectFields _ = None"

definition sliceTypes :: "goty list" where
  "sliceTypes = [TIface, TInt KUint, TInt KUint16, TInt KUint32, TInt KUint64, TInt KInt, TInt KInt64, TFloat64]"

fun anySlice :: "goval \<Rightarrow> goval list option" where
  "anySlice (VBytes b) = Some (map (\<lambda>x. VInt KUint8 (uint x)) (bytes_of b))"
| "anySlice (VSlice t xs) =
    (if t \<in> set sliceTypes then Some (case xs of None \<Rightarrow> [] | Some ys \<Rightarrow> ys) else None)"
| "anySlice _ = None"

definition unsignedInRange :: "int \<Rightarrow> int \<Rightarrow> int option" where
  "unsignedInRange v limit = (if v > limit then None else Some v)"

fun unsignedValue :: "goval \<Rightarrow> int \<Rightarrow> int option" where
  "unsignedValue (VInt k n) limit =
    (if k \<in> {KUint, KUint8, KUint16, KUint32, KUint64} then unsignedInRange n limit
     else if k \<in> {KInt, KInt64} then (if n < 0 then None else unsignedInRange n limit)
     else None)"
| "unsignedValue (VFloat64 f) limit =
    (case f of Finite q \<Rightarrow>
       if q < 0 \<or> of_int (floor q) \<noteq> q \<or> q > of_int limit then None else Some (floor q)
     | _ \<Rightarrow> None)"
| "unsignedValue _ limit = None"

section \<open>credProps\<close>

definition CredPropsHandler_ValidateInput :: "InputRequest \<Rightarrow> bool result" where
  "CredPropsHandler_ValidateInput request =
    check (requireInputOperation request [OperationRegistration])
    (and_then (rawValue (ir_Input request)) (\<lambda>input.
     check (requiredTrueValue input IDCredProps) (Inr True)))"

fun assert_CredentialPropertiesResult :: "goval \<Rightarrow> bool option option" where
  "assert_CredentialPropertiesResult (VCredentialPropertiesResult rk) = Some rk"
| "assert_CredentialPropertiesResult _ = None"

definition parseCredentialPropertiesOutput :: "goval \<Rightarrow> bool option result" where
  "parseCredentialPropertiesOutput v =
    (case assert_CredentialPropertiesResult v of Some rk \<Rightarrow> Inr rk
     | None \<Rightarrow> (case objectFields v of
         None \<Rightarrow> Inl (invalidRequest ''credProps client output must be an object'')
       | Some members \<Rightarrow> (case map_of members ''rk'' of
           None \<Rightarrow> Inr None
         | Some raw \<Rightarrow> (case assert_bool raw of
             None \<Rightarrow> Inl (invalidRequest ''credProps rk must be boolean'')
           | Some residentKey \<Rightarrow> Inr (Some residentKey)))))"

definition CredPropsHandler_VerifyOutput :: "ctx \<Rightarrow> bool OutputRequest \<Rightarrow> bool option Verification result" where
  "CredPropsHandler_VerifyOutput ctx request =
    check (requireOperation request [OperationRegistration])
    (if \<not> or_Requested request then Inl (invalidRequest (IDCredProps @ '' must be requested''))
     else if hasAuthenticatorOutput request then Inl (invalidRequest ''credProps has no authenticator output'')
     else if \<not> hasClientOutput request
     then Inr \<lparr>ver_Accepted = False, ver_Deprecated = False, ver_Output = None, ver_Warnings = []\<rparr>
     else and_then (RawValue_Clone (or_ClientOutput request)) (\<lambda>raw.
       and_then (parseCredentialPropertiesOutput raw) (\<lambda>output.
         Inr \<lparr>ver_Accepted = True, ver_Deprecated = False, ver_Output = output, ver_Warnings = []\<rparr>)))"

definition CredPropsHandler :: "(bool, bool option) Handler" where
  "CredPropsHandler = \<lparr>h_ID = IDCredProps, h_Revision = RevisionLevel3Recommendation,
    h_ValidateInput = CredPropsHandler_ValidateInput, h_VerifyOutput = CredPropsHandler_VerifyOutput\<rparr>"

section \<open>uvm\<close>

definition UVMHandler_ValidateInput :: "InputRequest \<Rightarrow> bool result" where
  "UVMHandler_ValidateInput request =
    check (requireInputOperation request [OperationRegistration, OperationAuthentication])
    (and_then (rawValue (ir_Input request)) (\<lambda>input.
     check (requiredTrueValue input IDUVM) (Inr True)))"

definition validateUVMEntryCount :: "nat \<Rightarrow> error option" where
  "validateUVMEntryCount n =
    (if n < 1 \<or> n > 3 then Some (invalidRequest ''uvm output must contain one to three entries'') else None)"

definition parseUVMEntry :: "goval \<Rightarrow> UVMEntry result" where
  "parseUVMEntry rawEntry =
    (case anySlice rawEntry of
       Some [a, b, c] \<Rightarrow>
        (case unsignedValue a (2 ^ 32 - 1) of
           None \<Rightarrow> Inl (invalidRequest ''uvm method must be uint32'')
         | Some meth \<Rightarrow> (case unsignedValue b (2 ^ 16 - 1) of
             None \<Rightarrow> Inl (invalidRequest ''uvm key protection must be uint16'')
           | Some keyProtection \<Rightarrow> (case unsignedValue c (2 ^ 16 - 1) of
               None \<Rightarrow> Inl (invalidRequest ''uvm matcher protection must be uint16'')
             | Some matcherProtection \<Rightarrow>
                 Inr \<lparr>uvm_UserVerificationMethod = word_of_int meth,
                   uvm_KeyProtectionType = word_of_int keyProtection,
                   uvm_MatcherProtectionType = word_of_int matcherProtection\<rparr>)))
     | _ \<Rightarrow> Inl (invalidRequest ''uvm entry must contain three integers''))"

definition entries_of :: "'a list option \<Rightarrow> 'a list" where
  "entries_of es = (case es of None \<Rightarrow> [] | Some l \<Rightarrow> l)"

text \<open>The typed forms of the output: \<^verbatim>\<open>[]UVMEntry\<close> and \<^verbatim>\<open>UVMResult\<close>.\<close>

fun assert_UVMEntries :: "goval \<Rightarrow> UVMEntry list option" where
  "assert_UVMEntries (VUVMEntries es) = Some (entries_of es)"
| "assert_UVMEntries (VUVMResult es) = Some (entries_of es)"
| "assert_UVMEntries _ = None"

definition parseUVMEntries :: "goval \<Rightarrow> UVMEntry list result" where
  "parseUVMEntries v =
    (case assert_UVMEntries v of
       Some es \<Rightarrow> check (validateUVMEntryCount (length es)) (Inr es)
     | None \<Rightarrow> (case anySlice v of
         None \<Rightarrow> Inl (invalidRequest ''uvm output must be an array'')
       | Some rawEntries \<Rightarrow>
           check (validateUVMEntryCount (length rawEntries)) (map_res parseUVMEntry rawEntries)))"

definition UVMHandler_VerifyOutput :: "ctx \<Rightarrow> bool OutputRequest \<Rightarrow> UVMEntry list option Verification result" where
  "UVMHandler_VerifyOutput ctx request =
    check (requireOperation request [OperationRegistration, OperationAuthentication])
    (if \<not> or_Requested request then Inl (invalidRequest (IDUVM @ '' must be requested'')) else
     and_then
       (if hasClientOutput request
        then and_then (RawValue_Clone (or_ClientOutput request)) (\<lambda>raw.
          and_then (parseUVMEntries raw) (\<lambda>parsed. Inr (Some parsed)))
        else Inr None) (\<lambda>clientEntries.
     and_then
       (if hasAuthenticatorOutput request
        then and_then (RawValue_Clone (or_AuthenticatorOutput request)) (\<lambda>raw.
          and_then (parseUVMEntries raw) (\<lambda>parsed.
            if clientEntries \<noteq> None \<and> clientEntries \<noteq> Some parsed
            then Inl (invalidRequest ''uvm client and authenticator outputs differ'')
            else Inr (Some parsed)))
        else Inr clientEntries) (\<lambda>entries.
     Inr \<lparr>ver_Accepted = (entries \<noteq> None), ver_Deprecated = True, ver_Output = entries, ver_Warnings = []\<rparr>)))"

definition UVMHandler :: "(bool, UVMEntry list option) Handler" where
  "UVMHandler = \<lparr>h_ID = IDUVM, h_Revision = RevisionLevel3Recommendation,
    h_ValidateInput = UVMHandler_ValidateInput, h_VerifyOutput = UVMHandler_VerifyOutput\<rparr>"

section \<open>largeBlob\<close>

definition LargeBlobSupportRequired :: string where "LargeBlobSupportRequired = ''required''"
definition LargeBlobSupportPreferred :: string where "LargeBlobSupportPreferred = ''preferred''"

record largeBlobInputPresence =
  lbip_support :: bool
  lbip_read :: bool
  lbip_write :: bool

record largeBlobOutputPresence =
  lbop_supported :: bool
  lbop_blob :: bool
  lbop_written :: bool

definition largeBlobPresence :: "LargeBlobInput \<Rightarrow> largeBlobInputPresence" where
  "largeBlobPresence input =
    \<lparr>lbip_support = (lb_Support input \<noteq> []), lbip_read = (lb_Read input \<noteq> None), lbip_write = (lb_Write input \<noteq> None)\<rparr>"

text \<open>A member of an object: absent, of the wrong type, or its value.\<close>

definition field :: "(goval \<Rightarrow> 'a option) \<Rightarrow> goval go_map \<Rightarrow> string \<Rightarrow> string \<Rightarrow> 'a option result" where
  "field assert members name err =
    (case map_of members name of None \<Rightarrow> Inr None
     | Some raw \<Rightarrow> (case assert raw of None \<Rightarrow> Inl (invalidRequest err) | Some v \<Rightarrow> Inr (Some v)))"

definition largeBlobInputFromFields :: "goval go_map \<Rightarrow> (LargeBlobInput \<times> largeBlobInputPresence) result" where
  "largeBlobInputFromFields members =
    and_then (field assert_string members ''support'' ''largeBlob support must be a string'') (\<lambda>support.
    and_then (field assert_bool members ''read'' ''largeBlob read must be boolean'') (\<lambda>read.
    and_then (field assert_bytes members ''write'' ''largeBlob write must be bytes'') (\<lambda>write.
      Inr (\<lparr>lb_Support = (case support of None \<Rightarrow> [] | Some s \<Rightarrow> s), lb_Read = read,
             lb_Write = (case write of None \<Rightarrow> None | Some w \<Rightarrow> w)\<rparr>,
           \<lparr>lbip_support = (support \<noteq> None), lbip_read = (read \<noteq> None), lbip_write = (write \<noteq> None)\<rparr>))))"

fun assert_LargeBlobInput :: "goval \<Rightarrow> LargeBlobInput option" where
  "assert_LargeBlobInput (VLargeBlobInput input) = Some input"
| "assert_LargeBlobInput _ = None"

definition parseLargeBlobInput :: "goval \<Rightarrow> (LargeBlobInput \<times> largeBlobInputPresence) result" where
  "parseLargeBlobInput v =
    (case assert_LargeBlobInput v of
       Some input \<Rightarrow> Inr (input, largeBlobPresence input)
     | None \<Rightarrow> (case objectFields v of
         Some members \<Rightarrow> largeBlobInputFromFields members
       | None \<Rightarrow> Inl (invalidRequest ''largeBlob input must be an object'')))"

definition validateLargeBlobInput ::
  "Operation \<Rightarrow> LargeBlobInput \<Rightarrow> largeBlobInputPresence \<Rightarrow> error option" where
  "validateLargeBlobInput operation input presence =
    (if lbip_support presence \<and> lb_Support input \<noteq> LargeBlobSupportRequired
        \<and> lb_Support input \<noteq> LargeBlobSupportPreferred
     then Some (invalidRequest ''largeBlob support must be required or preferred'')
     else if operation = OperationRegistration then
       (if lbip_read presence \<or> lbip_write presence
        then Some (invalidRequest ''largeBlob read and write are authentication-only inputs'') else None)
     else if operation = OperationAuthentication then
       (if lbip_support presence
        then Some (invalidRequest ''largeBlob support is registration-only input'')
        else if lbip_read presence \<and> lbip_write presence
        then Some (invalidRequest ''largeBlob read and write are mutually exclusive'') else None)
     else None)"

definition LargeBlobHandler_ValidateInput :: "InputRequest \<Rightarrow> LargeBlobInput result" where
  "LargeBlobHandler_ValidateInput request =
    check (requireInputOperation request [OperationRegistration, OperationAuthentication])
    (and_then (rawValue (ir_Input request)) (\<lambda>raw.
     and_then (parseLargeBlobInput raw) (\<lambda>(input, presence).
     check (validateLargeBlobInput (ir_Operation request) input presence) (Inr input))))"

definition validateLargeBlobOutput ::
  "Operation \<Rightarrow> LargeBlobInput \<Rightarrow> largeBlobInputPresence \<Rightarrow> largeBlobOutputPresence \<Rightarrow> LargeBlobResult \<Rightarrow> error option"
where
  "validateLargeBlobOutput operation input inputPresence outputPresence output =
    (if operation = OperationRegistration then
       (if lbop_blob outputPresence \<or> lbop_written outputPresence
        then Some (invalidRequest ''largeBlob blob and written are authentication-only outputs'')
        else if \<not> lbop_supported outputPresence
        then Some (invalidRequest ''largeBlob registration output must contain supported'')
        else if lbip_support inputPresence \<and> lb_Support input = LargeBlobSupportRequired
          \<and> lbr_Supported output = Some False
        then Some (invalidRequest ''largeBlob required support was not provided'') else None)
     else if operation = OperationAuthentication then
       (if lbop_supported outputPresence
        then Some (invalidRequest ''largeBlob supported is registration-only output'')
        else if lbop_blob outputPresence \<and> \<not> (lbip_read inputPresence \<and> lb_Read input = Some True)
        then Some (invalidRequest ''largeBlob blob requires read input'')
        else if lbop_written outputPresence \<and> \<not> lbip_write inputPresence
        then Some (invalidRequest ''largeBlob written requires write input'')
        else if lbip_write inputPresence \<and> \<not> lbop_written outputPresence
        then Some (invalidRequest ''largeBlob write output must contain written'') else None)
     else None)"

fun assert_LargeBlobResult :: "goval \<Rightarrow> LargeBlobResult option" where
  "assert_LargeBlobResult (VLargeBlobResult r) = Some r"
| "assert_LargeBlobResult _ = None"

definition parseLargeBlobOutput ::
  "Operation \<Rightarrow> LargeBlobInput \<Rightarrow> largeBlobInputPresence \<Rightarrow> goval \<Rightarrow> LargeBlobResult \<Rightarrow> LargeBlobResult result"
where
  "parseLargeBlobOutput operation input presence v output =
    (case assert_LargeBlobResult v of
       Some typed \<Rightarrow>
         let outputPresence = \<lparr>lbop_supported = (lbr_Supported typed \<noteq> None),
               lbop_blob = (lbr_Blob typed \<noteq> None), lbop_written = (lbr_Written typed \<noteq> None)\<rparr>;
             output' = typed\<lparr>lbr_Support := lbr_Support output, lbr_Read := lbr_Read output,
               lbr_Write := lbr_Write output\<rparr> in
         check (validateLargeBlobOutput operation input presence outputPresence output') (Inr output')
     | None \<Rightarrow> (case objectFields v of
         None \<Rightarrow> Inl (invalidRequest ''largeBlob client output must be an object'')
       | Some members \<Rightarrow>
           and_then (field assert_bool members ''supported'' ''largeBlob supported must be boolean'') (\<lambda>supported.
           and_then (field assert_bytes members ''blob'' ''largeBlob blob must be bytes'') (\<lambda>blob.
           and_then (field assert_bool members ''written'' ''largeBlob written must be boolean'') (\<lambda>written.
             let outputPresence = \<lparr>lbop_supported = (supported \<noteq> None), lbop_blob = (blob \<noteq> None),
                   lbop_written = (written \<noteq> None)\<rparr>;
                 output' = output
                   \<lparr>lbr_Supported := (if supported = None then lbr_Supported output else supported),
                    lbr_Blob := (case blob of None \<Rightarrow> lbr_Blob output | Some b \<Rightarrow> b),
                    lbr_Written := (if written = None then lbr_Written output else written)\<rparr> in
             check (validateLargeBlobOutput operation input presence outputPresence output') (Inr output'))))))"

definition largeBlobResultFromInput :: "LargeBlobInput \<Rightarrow> LargeBlobResult" where
  "largeBlobResultFromInput input =
    \<lparr>lbr_Support = lb_Support input, lbr_Read = lb_Read input, lbr_Write = lb_Write input,
     lbr_Supported = None, lbr_Blob = None, lbr_Written = None\<rparr>"

definition LargeBlobHandler_VerifyOutput ::
  "ctx \<Rightarrow> LargeBlobInput OutputRequest \<Rightarrow> LargeBlobResult Verification result" where
  "LargeBlobHandler_VerifyOutput ctx request =
    check (requireOperation request [OperationRegistration, OperationAuthentication])
    (if \<not> or_Requested request then Inl (invalidRequest ''largeBlob must be requested'')
     else if hasAuthenticatorOutput request then Inl (invalidRequest ''largeBlob has no authenticator output'')
     else
       let input = or_ClientInput request; output = largeBlobResultFromInput input in
       if \<not> hasClientOutput request
       then Inr \<lparr>ver_Accepted = False, ver_Deprecated = False, ver_Output = output, ver_Warnings = []\<rparr>
       else and_then (RawValue_Clone (or_ClientOutput request)) (\<lambda>raw.
         and_then (parseLargeBlobOutput (or_Operation request) input (largeBlobPresence input) raw output) (\<lambda>parsed.
           Inr \<lparr>ver_Accepted = True, ver_Deprecated = False, ver_Output = parsed, ver_Warnings = []\<rparr>)))"

definition LargeBlobHandler :: "(LargeBlobInput, LargeBlobResult) Handler" where
  "LargeBlobHandler = \<lparr>h_ID = IDLargeBlob, h_Revision = RevisionLevel3Recommendation,
    h_ValidateInput = LargeBlobHandler_ValidateInput, h_VerifyOutput = LargeBlobHandler_VerifyOutput\<rparr>"

section \<open>prf\<close>

definition validatePRFValues :: "PRFValues \<Rightarrow> bool \<Rightarrow> error option" where
  "validatePRFValues vs requireOutputLength =
    (if prf_First vs = None then Some (invalidRequest ''prf first is required'')
     else if requireOutputLength then
       (if length (bytes_of (prf_First vs)) \<noteq> 32 then Some (invalidRequest ''prf first result must be 32 bytes'')
        else if prf_Second vs \<noteq> None \<and> length (bytes_of (prf_Second vs)) \<noteq> 32
        then Some (invalidRequest ''prf second result must be 32 bytes'') else None)
     else None)"

definition validatePRFResult :: "PRFValues option \<Rightarrow> error option" where
  "validatePRFResult vs = (case vs of None \<Rightarrow> None | Some v \<Rightarrow> validatePRFValues v True)"

definition requiredBytesField :: "goval go_map \<Rightarrow> string \<Rightarrow> go_bytes result" where
  "requiredBytesField members name =
    (case map_of members name of None \<Rightarrow> Inl (invalidRequest (''prf '' @ name @ '' is required''))
     | Some raw \<Rightarrow> (case assert_bytes raw of
         None \<Rightarrow> Inl (invalidRequest (''prf '' @ name @ '' must be bytes''))
       | Some bs \<Rightarrow> Inr bs))"

text \<open>The typed forms of a PRF value: \<^verbatim>\<open>PRFValues\<close>, a pointer to one, a nil pointer.\<close>

fun assert_PRFValues :: "goval \<Rightarrow> PRFValues option option" where
  "assert_PRFValues (VPRFValues vs) = Some (Some vs)"
| "assert_PRFValues (VPtrPRFValues p) = Some p"
| "assert_PRFValues _ = None"

definition parsePRFValues :: "goval \<Rightarrow> bool \<Rightarrow> PRFValues result" where
  "parsePRFValues v requireOutputLength =
    (case assert_PRFValues v of
       Some (Some out) \<Rightarrow> check (validatePRFValues out requireOutputLength) (Inr out)
     | Some None \<Rightarrow> Inl (invalidRequest ''prf values must be an object'')
     | None \<Rightarrow> (case objectFields v of
         None \<Rightarrow> Inl (invalidRequest ''prf values must be an object'')
       | Some members \<Rightarrow>
           and_then (requiredBytesField members ''first'') (\<lambda>first.
           and_then (field assert_bytes members ''second'' ''prf second must be bytes'') (\<lambda>second.
             let out = \<lparr>prf_First = first, prf_Second = (case second of None \<Rightarrow> None | Some b \<Rightarrow> b)\<rparr> in
             check (validatePRFValues out requireOutputLength) (Inr out)))))"

text \<open>\<^verbatim>\<open>v.(map[string]any)\<close>.\<close>

fun assert_object :: "goval \<Rightarrow> goval go_map option" where
  "assert_object (VMap k t es) =
    (if k = TString \<and> t = TIface then Some (case es of None \<Rightarrow> [] | Some fs \<Rightarrow> string_keys fs) else None)"
| "assert_object _ = None"

fun assert_strings :: "goval \<Rightarrow> string list option option" where
  "assert_strings (VSlice t xs) =
    (if t = TString then Some (case xs of None \<Rightarrow> None | Some ys \<Rightarrow> Some (List.map_filter assert_string ys))
     else if t = TIface then
       (let ys = (case xs of None \<Rightarrow> [] | Some ys \<Rightarrow> ys) in
        if list_all (\<lambda>y. assert_string y \<noteq> None) ys then Some (Some (List.map_filter assert_string ys)) else None)
     else None)"
| "assert_strings _ = None"

definition prfInputFromFields :: "goval go_map \<Rightarrow> PRFInput result" where
  "prfInputFromFields members =
    and_then (case map_of members ''eval'' of None \<Rightarrow> Inr None
      | Some raw \<Rightarrow> and_then (parsePRFValues raw False) (\<lambda>vs. Inr (Some vs))) (\<lambda>eval.
    and_then (case map_of members ''evalByCredential'' of None \<Rightarrow> Inr None
      | Some raw \<Rightarrow> (case assert_object raw of
          None \<Rightarrow> Inl (invalidRequest ''prf evalByCredential must be an object'')
        | Some entries \<Rightarrow>
            and_then (map_res (\<lambda>(k, rawValues). and_then (parsePRFValues rawValues False) (\<lambda>vs. Inr (k, vs))) entries)
              (\<lambda>m. Inr (Some m)))) (\<lambda>byCredential.
    and_then (case map_of members ''allowCredentials'' of None \<Rightarrow> Inr None
      | Some raw \<Rightarrow> (case assert_strings raw of
          None \<Rightarrow> Inl (invalidRequest ''prf allowCredentials must be strings'')
        | Some ids \<Rightarrow> Inr ids)) (\<lambda>allow.
      Inr \<lparr>prf_Eval = eval, prf_EvalByCredential = byCredential, prf_AllowCredentials = allow\<rparr>)))"

fun assert_PRFInput :: "goval \<Rightarrow> PRFInput option" where
  "assert_PRFInput (VPRFInput p) = Some p"
| "assert_PRFInput _ = None"

definition validatePRFInput :: "PRFInput \<Rightarrow> error option" where
  "validatePRFInput input =
    or_err (case prf_Eval input of None \<Rightarrow> None | Some vs \<Rightarrow> validatePRFValues vs False)
      (first_err (\<lambda>(_, vs). validatePRFValues vs False) (map_entries (prf_EvalByCredential input)))"

definition parsePRFInput :: "goval \<Rightarrow> PRFInput result" where
  "parsePRFInput v =
    (case assert_PRFInput v of
       Some input \<Rightarrow> check (validatePRFInput input) (Inr input)
     | None \<Rightarrow> (case assert_object v of
         Some members \<Rightarrow> prfInputFromFields members
       | None \<Rightarrow> Inl (invalidRequest ''prf input must be an object'')))"

definition prfCredentialAllowed :: "string list \<Rightarrow> string \<Rightarrow> error option" where
  "prfCredentialAllowed allowed name =
    (if name = [] \<or> name \<notin> set allowed
     then Some (invalidRequest ''prf evalByCredential credential is not allowed'')
     else (case b64_decode name of
         None \<Rightarrow> Some (invalidRequest ''prf evalByCredential credential must be base64url'')
       | Some decoded \<Rightarrow> if b64_encode decoded \<noteq> name
           then Some (invalidRequest ''prf evalByCredential credential must be base64url'') else None))"

definition PRFHandler_ValidateInput :: "InputRequest \<Rightarrow> PRFInput result" where
  "PRFHandler_ValidateInput request =
    check (requireInputOperation request [OperationRegistration, OperationAuthentication])
    (and_then (rawValue (ir_Input request)) (\<lambda>raw.
     and_then (parsePRFInput raw) (\<lambda>input.
     if ir_Operation request = OperationRegistration \<and> prf_EvalByCredential input \<noteq> None
     then Inl (invalidRequest ''prf evalByCredential is authentication-only'')
     else if ir_Operation request = OperationAuthentication \<and> map_entries (prf_EvalByCredential input) \<noteq> [] then
       (if entries_of (prf_AllowCredentials input) = []
        then Inl (invalidRequest ''prf evalByCredential requires allowCredentials'')
        else check (first_err (\<lambda>(name, _). prfCredentialAllowed (entries_of (prf_AllowCredentials input)) name)
            (map_entries (prf_EvalByCredential input))) (Inr input))
     else Inr input)))"

record prfOutputPresence =
  prfp_enabled :: bool
  prfp_results :: bool

definition selectedPRFInput :: "PRFInput \<Rightarrow> CredentialID \<Rightarrow> PRFValues option" where
  "selectedPRFInput input selectedCredentialID =
    (let entries = map_entries (prf_EvalByCredential input) in
     if entries \<noteq> [] \<and> bv_len selectedCredentialID = 0 then None
     else (case (if entries \<noteq> [] then map_of entries (b64_encode (bv_appendTo selectedCredentialID [])) else None) of
         Some vs \<Rightarrow> Some vs
       | None \<Rightarrow> prf_Eval input))"

definition prfResultCardinalityMatches :: "PRFValues \<Rightarrow> PRFValues \<Rightarrow> bool" where
  "prfResultCardinalityMatches input res \<longleftrightarrow> (prf_Second input = None) = (prf_Second res = None)"

definition prfResultMatchesInput :: "PRFValues \<Rightarrow> PRFValues \<Rightarrow> bool" where
  "prfResultMatchesInput input res \<longleftrightarrow>
    prfResultCardinalityMatches input res \<and>
    (prf_Second input = None \<or> bytes_of (prf_First input) \<noteq> bytes_of (prf_Second input)
      \<or> bytes_of (prf_First res) = bytes_of (prf_Second res))"

definition validatePRFOutput ::
  "Operation \<Rightarrow> PRFInput \<Rightarrow> CredentialID \<Rightarrow> prfOutputPresence \<Rightarrow> PRFResult \<Rightarrow> error option" where
  "validatePRFOutput operation input selectedCredentialID presence output =
    or_err (validatePRFResult (prfr_Results output))
    (if operation = OperationRegistration then
       (if \<not> prfp_enabled presence then Some (invalidRequest ''prf registration output must contain enabled'')
        else if prfp_results presence \<and> prfr_Enabled output = Some False
        then Some (invalidRequest ''prf disabled output cannot contain results'')
        else if prfp_results presence \<and>
          \<not> (case (prf_Eval input, prfr_Results output) of
               (Some eval, Some res) \<Rightarrow> prfResultMatchesInput eval res | _ \<Rightarrow> False)
        then Some (invalidRequest ''prf results do not match registration inputs'') else None)
     else if operation = OperationAuthentication then
       (if prfp_enabled presence then Some (invalidRequest ''prf enabled is registration-only'')
        else if prfp_results presence \<and>
          \<not> (case (selectedPRFInput input selectedCredentialID, prfr_Results output) of
               (Some eval, Some res) \<Rightarrow> prfResultMatchesInput eval res | _ \<Rightarrow> False)
        then Some (invalidRequest ''prf results do not match selected credential input'') else None)
     else None)"

fun assert_PRFResult :: "goval \<Rightarrow> PRFResult option" where
  "assert_PRFResult (VPRFResult r) = Some r"
| "assert_PRFResult _ = None"

definition parsePRFOutput ::
  "Operation \<Rightarrow> PRFInput \<Rightarrow> CredentialID \<Rightarrow> goval \<Rightarrow> PRFResult \<Rightarrow> PRFResult result" where
  "parsePRFOutput operation input selectedCredentialID v output =
    (case assert_PRFResult v of
       Some typed \<Rightarrow>
         let output' = output\<lparr>prfr_Enabled := prfr_Enabled typed, prfr_Results := prfr_Results typed\<rparr>;
             presence = \<lparr>prfp_enabled = (prfr_Enabled typed \<noteq> None), prfp_results = (prfr_Results typed \<noteq> None)\<rparr> in
         check (validatePRFOutput operation input selectedCredentialID presence output') (Inr output')
     | None \<Rightarrow> (case objectFields v of
         None \<Rightarrow> Inl (invalidRequest ''prf client output must be an object'')
       | Some members \<Rightarrow>
           and_then (field assert_bool members ''enabled'' ''prf enabled must be boolean'') (\<lambda>enabled.
           and_then (case map_of members ''results'' of None \<Rightarrow> Inr None
             | Some raw \<Rightarrow> and_then (parsePRFValues raw True) (\<lambda>vs. Inr (Some vs))) (\<lambda>results.
             let output' = output
                   \<lparr>prfr_Enabled := (if enabled = None then prfr_Enabled output else enabled),
                    prfr_Results := (if results = None then prfr_Results output else results)\<rparr>;
                 presence = \<lparr>prfp_enabled = (enabled \<noteq> None), prfp_results = (results \<noteq> None)\<rparr> in
             check (validatePRFOutput operation input selectedCredentialID presence output') (Inr output')))))"

definition PRFHandler_VerifyOutput :: "ctx \<Rightarrow> PRFInput OutputRequest \<Rightarrow> PRFResult Verification result" where
  "PRFHandler_VerifyOutput ctx request =
    check (requireOperation request [OperationRegistration, OperationAuthentication])
    (if \<not> or_Requested request then Inl (invalidRequest ''prf must be requested'')
     else if hasAuthenticatorOutput request then Inl (invalidRequest ''prf has no authenticator output'')
     else
       let input = or_ClientInput request;
           output = \<lparr>prfr_Eval = prf_Eval input, prfr_EvalByCredential = prf_EvalByCredential input,
             prfr_Enabled = None, prfr_Results = None\<rparr> in
       if \<not> hasClientOutput request
       then Inr \<lparr>ver_Accepted = False, ver_Deprecated = False, ver_Output = output, ver_Warnings = []\<rparr>
       else and_then (RawValue_Clone (or_ClientOutput request)) (\<lambda>raw.
         and_then (parsePRFOutput (or_Operation request) input (or_SelectedCredentialID request) raw output) (\<lambda>parsed.
           Inr \<lparr>ver_Accepted = True, ver_Deprecated = False, ver_Output = parsed, ver_Warnings = []\<rparr>)))"

definition PRFHandler :: "(PRFInput, PRFResult) Handler" where
  "PRFHandler = \<lparr>h_ID = IDPRF, h_Revision = RevisionLevel3Recommendation,
    h_ValidateInput = PRFHandler_ValidateInput, h_VerifyOutput = PRFHandler_VerifyOutput\<rparr>"

definition PRFInputWithCredentials :: "ExtensionInput \<Rightarrow> string list \<Rightarrow> PRFInput result" where
  "PRFInputWithCredentials input credentials =
    and_then (InputValue input) (\<lambda>raw.
    and_then (parsePRFInput raw) (\<lambda>parsed.
      Inr (parsed\<lparr>prf_AllowCredentials := (if credentials = [] then None else Some credentials)\<rparr>)))"

section \<open>remoteClientDataJSON\<close>

definition RemoteClientDataJSONHandler_ValidateInput :: "go_std \<Rightarrow> InputRequest \<Rightarrow> string result" where
  "RemoteClientDataJSONHandler_ValidateInput std request =
    check (requireInputOperation request [OperationRegistration, OperationAuthentication])
    (case As_string (ir_Input request) of
       None \<Rightarrow> Inl (invalidRequest ''remoteClientDataJSON input must be a non-empty UTF-8 string'')
     | Some input \<Rightarrow>
       if input = [] \<or> \<not> utf8_valid (map of_char input)
       then Inl (invalidRequest ''remoteClientDataJSON input must be a non-empty UTF-8 string'')
       else (case NewClientDataJSON (Some (bytes_of_string input)) of
         Inl _ \<Rightarrow> Inl (invalidRequest ''remoteClientDataJSON input is invalid'')
       | Inr raw \<Rightarrow> (case ParseCollectedClientData std raw of
           Inl _ \<Rightarrow> Inl (invalidRequest ''remoteClientDataJSON input must contain valid client data'')
         | Inr clientData \<Rightarrow>
           let expectedType = (if ir_Operation request = OperationAuthentication
             then ClientDataTypeGet else ClientDataTypeCreate) in
           if ValidateType clientData expectedType \<noteq> None
           then Inl (invalidRequest ''remoteClientDataJSON ceremony type is invalid'') else Inr input)))"

definition RemoteClientDataJSONHandler_VerifyOutput :: "ctx \<Rightarrow> string OutputRequest \<Rightarrow> bool Verification result" where
  "RemoteClientDataJSONHandler_VerifyOutput ctx request =
    check (requireOperation request [OperationRegistration, OperationAuthentication])
    (if \<not> or_Requested request then Inl (invalidRequest ''remoteClientDataJSON must be requested'')
     else if hasAuthenticatorOutput request
     then Inl (invalidRequest ''remoteClientDataJSON has no authenticator output'')
     else if \<not> hasClientOutput request
     then Inl (invalidRequest ''remoteClientDataJSON client output must be true'')
     else if As_bool (or_ClientOutput request) \<noteq> Some True
     then Inl (invalidRequest ''remoteClientDataJSON client output must be true'')
     else Inr \<lparr>ver_Accepted = True, ver_Deprecated = False, ver_Output = True, ver_Warnings = []\<rparr>)"

definition RemoteClientDataJSONHandler :: "go_std \<Rightarrow> (string, bool) Handler" where
  "RemoteClientDataJSONHandler std = \<lparr>h_ID = IDRemoteClientDataJSON, h_Revision = RevisionRemoteClientDataJSON,
    h_ValidateInput = RemoteClientDataJSONHandler_ValidateInput std,
    h_VerifyOutput = RemoteClientDataJSONHandler_VerifyOutput\<rparr>"

section \<open>The contract of a handler\<close>

text \<open>
  What the registry and the ceremonies rely on: a handler only runs in its ceremonies, wants
  its input present, refuses an output that was not requested, and reports an output as
  accepted only when there is one.
\<close>

locale extension_handler =
  fixes h :: "('i, 'o) Handler" and operations :: "Operation list"
  assumes input_operation: "h_ValidateInput h r = Inr i \<Longrightarrow> ir_Operation r \<in> set operations"
    and input_present: "h_ValidateInput h r = Inr i \<Longrightarrow> ir_Input r \<noteq> None"
    and output_operation: "h_VerifyOutput h c q = Inr v \<Longrightarrow> or_Operation q \<in> set operations"
    and output_requested: "h_VerifyOutput h c q = Inr v \<Longrightarrow> or_Requested q"
    and accepted_output: "h_VerifyOutput h c q = Inr v \<Longrightarrow> ver_Accepted v \<Longrightarrow>
      or_ClientOutput q \<noteq> None \<or> or_AuthenticatorOutput q \<noteq> None"
    and valid_binding: "identifier_Valid (h_ID h) \<and> identifier_Valid (h_Revision h)"
begin

lemma wrong_ceremony_input: "ir_Operation r \<notin> set operations \<Longrightarrow> \<exists>e. h_ValidateInput h r = Inl e"
  using input_operation by (cases "h_ValidateInput h r") auto

lemma unrequested_refused: "\<not> or_Requested q \<Longrightarrow> \<exists>e. h_VerifyOutput h c q = Inl e"
  using output_requested by (cases "h_VerifyOutput h c q") auto

lemma silent_not_accepted:
  "h_VerifyOutput h c q = Inr v \<Longrightarrow> or_ClientOutput q = None \<Longrightarrow> or_AuthenticatorOutput q = None \<Longrightarrow> \<not> ver_Accepted v"
  using accepted_output by blast

end

lemma requireOperation_None_iff [result_inv]: "requireOperation q ops = None \<longleftrightarrow> or_Operation q \<in> set ops"
  by (simp add: requireOperation_def)

lemma requireInputOperation_None_iff [result_inv]:
  "requireInputOperation r ops = None \<longleftrightarrow> ir_Operation r \<in> set ops"
  by (simp add: requireInputOperation_def)

lemma rawValue_Inr_iff: "rawValue r = Inr v \<longleftrightarrow> (\<exists>u. r = Some u \<and> CloneValue u = Inr v)"
  by (cases r) (auto simp: rawValue_def RawValue_Present_def RawValue_Clone_def)

lemma As_None [simp]: "As_bool None = None" "As_string None = None"
  by (simp_all add: As_bool_def As_string_def)

lemmas handler_simps = result_inv rawValue_Inr_iff hasClientOutput_def hasAuthenticatorOutput_def
  RawValue_Present_def identifier_Valid_def identifier_char_def maxIdentifierLength_def extension_ids
  RevisionLevel3Recommendation_def RevisionRemoteClientDataJSON_def

interpretation appid: extension_handler AppIDHandler "[OperationAuthentication]"
  by unfold_locales
    (auto simp: handler_simps AppIDHandler_def AppIDHandler_ValidateInput_def AppIDHandler_VerifyOutput_def
      split: if_splits option.splits)

interpretation appid_exclude: extension_handler AppIDExcludeHandler "[OperationRegistration]"
  by unfold_locales
    (auto simp: handler_simps AppIDExcludeHandler_def AppIDExcludeHandler_ValidateInput_def
      AppIDExcludeHandler_VerifyOutput_def split: if_splits option.splits)

interpretation cred_props: extension_handler CredPropsHandler "[OperationRegistration]"
  by unfold_locales
    (auto simp: handler_simps CredPropsHandler_def CredPropsHandler_ValidateInput_def
      CredPropsHandler_VerifyOutput_def split: if_splits option.splits)

interpretation uvm: extension_handler UVMHandler "[OperationRegistration, OperationAuthentication]"
  by unfold_locales
    (auto simp: handler_simps UVMHandler_def UVMHandler_ValidateInput_def UVMHandler_VerifyOutput_def
      split: if_splits option.splits)

interpretation large_blob: extension_handler LargeBlobHandler "[OperationRegistration, OperationAuthentication]"
  by unfold_locales
    (auto simp: handler_simps LargeBlobHandler_def LargeBlobHandler_ValidateInput_def
      LargeBlobHandler_VerifyOutput_def Let_def split: if_splits option.splits)

interpretation prf_ext: extension_handler PRFHandler "[OperationRegistration, OperationAuthentication]"
  by unfold_locales
    (auto simp: handler_simps PRFHandler_def PRFHandler_ValidateInput_def PRFHandler_VerifyOutput_def Let_def
      split: if_splits option.splits)

interpretation remote: extension_handler "RemoteClientDataJSONHandler std"
  "[OperationRegistration, OperationAuthentication]" for std
proof unfold_locales
  fix r i
  assume "h_ValidateInput (RemoteClientDataJSONHandler std) r = Inr i"
  then show "ir_Input r \<noteq> None"
    by (cases "ir_Input r") (auto simp: RemoteClientDataJSONHandler_def RemoteClientDataJSONHandler_ValidateInput_def result_inv)
qed (auto simp: handler_simps RemoteClientDataJSONHandler_def RemoteClientDataJSONHandler_ValidateInput_def
    RemoteClientDataJSONHandler_VerifyOutput_def)

end
