(* ===== verification/Keyed_Registry.thy ===== *)
theory Keyed_Registry
  imports Go_Errors
begin

text \<open>
  The contract shared by the two registries of the program (attestation format verifiers in
  \<^verbatim>\<open>src/attestation/attestation.go\<close>, extension handlers in \<^verbatim>\<open>src/extension/extension.go\<close>): a
  registry is built from a list of entries, refuses unusable entries and duplicate keys, and
  a lookup finds exactly the entry registered under a key, whatever the registration order.
\<close>

locale keyed_registry =
  fixes build :: "'e list \<Rightarrow> 'v go_map result"
    and key :: "'e \<Rightarrow> string" and val :: "'e \<Rightarrow> 'v" and usable :: "'e \<Rightarrow> bool" and admits :: "nat \<Rightarrow> bool"
  assumes build_iff: "build es = Inr m \<longleftrightarrow>
    admits (length es) \<and> (\<forall>e\<in>set es. usable e) \<and> distinct (map key es) \<and> m = map (\<lambda>e. (key e, val e)) es"
begin

lemma built_wf: "build es = Inr m \<Longrightarrow> wf_map m"
  by (simp add: build_iff wf_map_def comp_def)

lemma lookup_iff: "build es = Inr m \<Longrightarrow> map_of m k = Some v \<longleftrightarrow> (\<exists>e\<in>set es. key e = k \<and> val e = v)"
  by (force simp: build_iff map_of_eq_Some_iff comp_def image_iff)

lemma lookup_usable: "build es = Inr m \<Longrightarrow> map_of m k = Some v \<Longrightarrow> \<exists>e\<in>set es. usable e \<and> key e = k \<and> val e = v"
  using lookup_iff [of es m k v] by (auto simp: build_iff)

lemma duplicate_refused: "\<not> distinct (map key es) \<Longrightarrow> \<exists>err. build es = Inl err"
  by (cases "build es") (auto simp: build_iff)

lemma order_irrelevant:
  assumes "build es = Inr m" "mset es = mset es'"
  shows "\<exists>m'. build es' = Inr m' \<and> (\<forall>k. map_of m' k = map_of m k)"
proof -
  have "length es = length es'" "set es = set es'" "distinct (map key es')"
    using assms mset_eq_setD mset_eq_length mset_eq_imp_distinct_iff [of "map key es" "map key es'"]
    by (auto simp: build_iff)
  then have build': "build es' = Inr (map (\<lambda>e. (key e, val e)) es')"
    using assms by (simp add: build_iff)
  have "map_of (map (\<lambda>e. (key e, val e)) es') k = Some v \<longleftrightarrow> map_of m k = Some v" for k v
    using lookup_iff [OF build'] lookup_iff [OF assms(1)] \<open>set es = set es'\<close> by simp
  then have "map_of (map (\<lambda>e. (key e, val e)) es') k = map_of m k" for k
    by (metis not_None_eq)
  then show ?thesis
    using build' by blast
qed

end

end
