(* ===== verification/Extension_Registry.thy ===== *)
theory Extension_Registry
  imports Extension_Handlers Keyed_Registry
begin

text \<open>
  \<^verbatim>\<open>src/extension/extension.go\<close>: type-erased handlers, results, semantic bindings and the
  handler registry, with the handler lists of \<^verbatim>\<open>level2.go\<close> and \<^verbatim>\<open>level3.go\<close>.
\<close>

section \<open>Results\<close>

record RawResult =
  rr_Requested :: bool
  rr_ClientInput :: RawValue
  rr_ClientOutput :: RawValue
  rr_AuthenticatorOutput :: RawValue

text \<open>The \<^verbatim>\<open>output any\<close> of a result: a handler's typed output or preserved raw values.\<close>

datatype result_output = TypedOutput goval | RawOutput RawResult

record Result =
  res_ID :: string
  res_Accepted :: bool
  res_Deprecated :: bool
  res_Warnings :: "string list"
  res_output :: result_output
  res_raw :: bool
  res_revision :: string

type_synonym Results = "Result list"

record 'o TypedResult =
  tr_ID :: string
  tr_Accepted :: bool
  tr_Deprecated :: bool
  tr_Output :: 'o
  tr_Warnings :: "string list"

section \<open>Type erasure\<close>

type_synonym RawOutputRequest = "RawValue OutputRequest"

record erasedHandler =
  eh_Valid :: bool
  eh_ID :: string
  eh_Revision :: string
  eh_ValidateInput :: "InputRequest \<Rightarrow> RawValue result"
  eh_VerifyOutput :: "ctx \<Rightarrow> RawOutputRequest \<Rightarrow> Result result"

definition erasedAdapter_ValidateInput :: "('i \<Rightarrow> goval) \<Rightarrow> ('i, 'o) Handler \<Rightarrow> InputRequest \<Rightarrow> RawValue result" where
  "erasedAdapter_ValidateInput into h request =
    and_then (h_ValidateInput h request) (\<lambda>input. NewRawValue (into input))"

definition erasedAdapter_VerifyOutput ::
  "('o \<Rightarrow> goval) \<Rightarrow> (goval \<Rightarrow> 'o option) \<Rightarrow> ('i, 'o) Handler \<Rightarrow> ctx \<Rightarrow> RawOutputRequest \<Rightarrow> Result result" where
  "erasedAdapter_VerifyOutput out assert h ctx request =
    and_then (h_ValidateInput h \<lparr>ir_Operation = or_Operation request, ir_ID = or_ID request,
      ir_Input = or_ClientInput request\<rparr>) (\<lambda>input.
    and_then (h_VerifyOutput h ctx \<lparr>or_Operation = or_Operation request, or_ID = or_ID request,
      or_Requested = or_Requested request, or_SelectedCredentialID = or_SelectedCredentialID request,
      or_ClientInput = input, or_ClientOutput = or_ClientOutput request,
      or_AuthenticatorOutput = or_AuthenticatorOutput request\<rparr>) (\<lambda>verification.
    and_then (CloneValue (out (ver_Output verification))) (\<lambda>output.
    case assert output of
      None \<Rightarrow> Inl (invalidRequest ''handler output changed type while cloning'')
    | Some typed \<Rightarrow> Inr \<lparr>res_ID = or_ID request, res_Accepted = ver_Accepted verification,
        res_Deprecated = ver_Deprecated verification, res_Warnings = ver_Warnings verification,
        res_output = TypedOutput (out typed), res_raw = False, res_revision = []\<rparr>)))"

text \<open>
  \<^verbatim>\<open>Register(h).registeredHandler()\<close>. The injections say how the input and output types are
  boxed into \<^verbatim>\<open>any\<close>; a nil handler is marked invalid and never called.
\<close>

definition Register ::
  "('i \<Rightarrow> goval) \<Rightarrow> ('o \<Rightarrow> goval) \<Rightarrow> (goval \<Rightarrow> 'o option) \<Rightarrow> ('i, 'o) Handler iface \<Rightarrow> erasedHandler" where
  "Register into out assert handler =
    (case handler of
       Impl h \<Rightarrow> \<lparr>eh_Valid = True, eh_ID = h_ID h, eh_Revision = h_Revision h,
         eh_ValidateInput = erasedAdapter_ValidateInput into h,
         eh_VerifyOutput = erasedAdapter_VerifyOutput out assert h\<rparr>
     | _ \<Rightarrow> \<lparr>eh_Valid = False, eh_ID = [], eh_Revision = [],
         eh_ValidateInput = (\<lambda>_. Inl (External ''nil handler'')),
         eh_VerifyOutput = (\<lambda>_ _. Inl (External ''nil handler''))\<rparr>)"

section \<open>Bindings and the registry\<close>

record Binding =
  bind_ID :: string
  bind_Revision :: string

definition Binding_Valid :: "Binding \<Rightarrow> bool" where
  "Binding_Valid b \<longleftrightarrow> identifier_Valid (bind_ID b) \<and> identifier_Valid (bind_Revision b)"

definition BuiltInBinding :: "string \<Rightarrow> Binding option" where
  "BuiltInBinding name =
    (if name \<in> set [IDAppID, IDAppIDExclude, IDUVM, IDCredProps, IDLargeBlob, IDPRF]
     then Some \<lparr>bind_ID = name, bind_Revision = RevisionLevel3Recommendation\<rparr>
     else if name = IDRemoteClientDataJSON
     then Some \<lparr>bind_ID = name, bind_Revision = RevisionRemoteClientDataJSON\<rparr>
     else None)"

record registryHandler =
  rh_binding :: Binding
  rh_handler :: erasedHandler

type_synonym ext_registry = "registryHandler go_map"

text \<open>The checks of one entry; \<open>None\<close> is a nil entry.\<close>

definition checkEntry :: "erasedHandler option \<Rightarrow> error option" where
  "checkEntry entry =
    (case entry of None \<Rightarrow> Some (Sentinel ErrInvalidID)
     | Some h \<Rightarrow>
       if \<not> eh_Valid h then Some (Sentinel ErrInvalidID)
       else if \<not> identifier_Valid (eh_ID h) then Some (Sentinel ErrInvalidID)
       else if \<not> identifier_Valid (eh_Revision h) then Some (Sentinel ErrInvalidRevision)
       else (case BuiltInBinding (eh_ID h) of
           Some expected \<Rightarrow> if eh_Revision h \<noteq> bind_Revision expected
             then Some (Notef ErrInvalidRevision (''reserved extension '' @ eh_ID h)) else None
         | None \<Rightarrow> None))"

definition entry_key :: "erasedHandler option \<Rightarrow> string" where
  "entry_key entry = (case entry of None \<Rightarrow> [] | Some h \<Rightarrow> eh_ID h)"

definition entry_value :: "erasedHandler option \<Rightarrow> registryHandler" where
  "entry_value entry =
    (let h = the entry in \<lparr>rh_binding = \<lparr>bind_ID = eh_ID h, bind_Revision = eh_Revision h\<rparr>, rh_handler = h\<rparr>)"

fun addHandlers :: "ext_registry \<Rightarrow> erasedHandler option list \<Rightarrow> ext_registry result" where
  "addHandlers handlers [] = Inr handlers"
| "addHandlers handlers (entry # entries) =
    check (checkEntry entry)
    (if map_of handlers (entry_key entry) \<noteq> None then Inl (Notef ErrDuplicateID (entry_key entry))
     else addHandlers (map_put (entry_key entry) (entry_value entry) handlers) entries)"

definition NewRegistry :: "erasedHandler option list \<Rightarrow> ext_registry result" where
  "NewRegistry entries =
    (if length entries > MaxEntries then Inl (Sentinel ErrTooManyEntries) else addHandlers [] entries)"

text \<open>A \<^verbatim>\<open>*Registry\<close> is an option: \<open>None\<close> is the nil registry.\<close>

definition Registry_Binding :: "ext_registry option \<Rightarrow> string \<Rightarrow> Binding option" where
  "Registry_Binding r name =
    (case r of None \<Rightarrow> None | Some handlers \<Rightarrow> map_option rh_binding (map_of handlers name))"

definition Registry_Contains :: "ext_registry option \<Rightarrow> string \<Rightarrow> bool" where
  "Registry_Contains r name \<longleftrightarrow>
    (case r of None \<Rightarrow> False | Some handlers \<Rightarrow> map_of handlers name \<noteq> None)"

definition Registry_lookup :: "ext_registry option \<Rightarrow> string \<Rightarrow> erasedHandler option" where
  "Registry_lookup r name =
    (case r of None \<Rightarrow> None | Some handlers \<Rightarrow> map_option rh_handler (map_of handlers name))"

definition Registry_ValidateInput :: "ext_registry option \<Rightarrow> InputRequest \<Rightarrow> RawValue result" where
  "Registry_ValidateInput r request =
    (case Registry_lookup r (ir_ID request) of
       None \<Rightarrow> Inl (Notef ErrUnknownID (ir_ID request))
     | Some handler \<Rightarrow> eh_ValidateInput handler request)"

definition Registry_VerifyOutput :: "ext_registry option \<Rightarrow> ctx \<Rightarrow> RawOutputRequest \<Rightarrow> Result result" where
  "Registry_VerifyOutput r ctx request =
    (case r of None \<Rightarrow> Inl (Notef ErrUnknownID (or_ID request))
     | Some handlers \<Rightarrow> (case map_of handlers (or_ID request) of
         None \<Rightarrow> Inl (Notef ErrUnknownID (or_ID request))
       | Some entry \<Rightarrow>
           and_then (eh_VerifyOutput (rh_handler entry) ctx request) (\<lambda>res.
             Inr (res\<lparr>res_revision := bind_Revision (rh_binding entry)\<rparr>))))"

section \<open>Raw results and lookups\<close>

definition cloneRawResult :: "RawResult \<Rightarrow> RawResult result" where
  "cloneRawResult raw =
    and_then (cloneRawValue (rr_ClientInput raw)) (\<lambda>clientInput.
    and_then (cloneRawValue (rr_ClientOutput raw)) (\<lambda>clientOutput.
    and_then (cloneRawValue (rr_AuthenticatorOutput raw)) (\<lambda>authenticatorOutput.
      Inr \<lparr>rr_Requested = rr_Requested raw, rr_ClientInput = clientInput,
        rr_ClientOutput = clientOutput, rr_AuthenticatorOutput = authenticatorOutput\<rparr>)))"

definition PreserveRaw :: "string \<Rightarrow> RawResult \<Rightarrow> string list \<Rightarrow> Result result" where
  "PreserveRaw name raw warnings =
    (if \<not> identifier_Valid name then Inl (Sentinel ErrInvalidID) else
     and_then (cloneRawResult raw) (\<lambda>cloned.
       Inr \<lparr>res_ID = name, res_Accepted = False, res_Deprecated = False, res_Warnings = warnings,
         res_output = RawOutput cloned, res_raw = True, res_revision = []\<rparr>))"

fun Find :: "(goval \<Rightarrow> 'o option) \<Rightarrow> Results \<Rightarrow> ('i, 'o) Handler iface \<Rightarrow> 'o TypedResult option" where
  "Find assert [] handler = None"
| "Find assert (res # results) handler =
    (case handler of
       Impl h \<Rightarrow>
         if res_ID res \<noteq> h_ID h \<or> res_revision res \<noteq> h_Revision h \<or> res_raw res
         then Find assert results handler
         else (case res_output res of
             RawOutput _ \<Rightarrow> None
           | TypedOutput output \<Rightarrow> (case CloneValue output of
               Inl _ \<Rightarrow> None
             | Inr cloned \<Rightarrow> (case assert cloned of
                 None \<Rightarrow> None
               | Some typed \<Rightarrow> Some \<lparr>tr_ID = res_ID res, tr_Accepted = res_Accepted res,
                   tr_Deprecated = res_Deprecated res, tr_Output = typed, tr_Warnings = res_Warnings res\<rparr>)))
     | _ \<Rightarrow> None)"

fun FindRaw :: "Results \<Rightarrow> string \<Rightarrow> RawResult TypedResult option" where
  "FindRaw [] name = None"
| "FindRaw (res # results) name =
    (if res_ID res \<noteq> name \<or> \<not> res_raw res then FindRaw results name
     else (case res_output res of
         TypedOutput _ \<Rightarrow> None
       | RawOutput raw \<Rightarrow> (case cloneRawResult raw of
           Inl _ \<Rightarrow> None
         | Inr cloned \<Rightarrow> Some \<lparr>tr_ID = res_ID res, tr_Accepted = res_Accepted res,
             tr_Deprecated = res_Deprecated res, tr_Output = cloned, tr_Warnings = res_Warnings res\<rparr>)))"

section \<open>The built-in registries\<close>

fun assert_AppIDResult :: "goval \<Rightarrow> AppIDResult option" where
  "assert_AppIDResult (VAppIDResult r) = Some r" | "assert_AppIDResult _ = None"

fun assert_AppIDExcludeResult :: "goval \<Rightarrow> AppIDExcludeResult option" where
  "assert_AppIDExcludeResult (VAppIDExcludeResult r) = Some r" | "assert_AppIDExcludeResult _ = None"

fun assert_UVMResult :: "goval \<Rightarrow> UVMEntry list option option" where
  "assert_UVMResult (VUVMResult r) = Some r" | "assert_UVMResult _ = None"

fun assert_RemoteClientDataJSONResult :: "goval \<Rightarrow> bool option" where
  "assert_RemoteClientDataJSONResult (VRemoteClientDataJSONResult r) = Some r"
| "assert_RemoteClientDataJSONResult _ = None"

definition AppIDEntry :: erasedHandler where
  "AppIDEntry = Register VString VAppIDResult assert_AppIDResult (Impl AppIDHandler)"

definition AppIDExcludeEntry :: erasedHandler where
  "AppIDExcludeEntry = Register VString VAppIDExcludeResult assert_AppIDExcludeResult (Impl AppIDExcludeHandler)"

definition UVMEntryHandler :: erasedHandler where
  "UVMEntryHandler = Register VBool VUVMResult assert_UVMResult (Impl UVMHandler)"

definition CredPropsEntry :: erasedHandler where
  "CredPropsEntry = Register VBool VCredentialPropertiesResult assert_CredentialPropertiesResult (Impl CredPropsHandler)"

definition LargeBlobEntry :: erasedHandler where
  "LargeBlobEntry = Register VLargeBlobInput VLargeBlobResult assert_LargeBlobResult (Impl LargeBlobHandler)"

definition PRFEntry :: erasedHandler where
  "PRFEntry = Register VPRFInput VPRFResult assert_PRFResult (Impl PRFHandler)"

definition RemoteEntry :: "go_std \<Rightarrow> erasedHandler" where
  "RemoteEntry std = Register VString VRemoteClientDataJSONResult assert_RemoteClientDataJSONResult
    (Impl (RemoteClientDataJSONHandler std))"

definition Level2Handlers :: "erasedHandler option list" where
  "Level2Handlers = map Some [AppIDEntry, AppIDExcludeEntry, UVMEntryHandler, CredPropsEntry, LargeBlobEntry]"

definition NewLevel2Registry :: "ext_registry result" where
  "NewLevel2Registry = NewRegistry Level2Handlers"

definition Level3Handlers :: "erasedHandler option list" where
  "Level3Handlers = map Some [AppIDEntry, AppIDExcludeEntry, CredPropsEntry, LargeBlobEntry, PRFEntry]"

definition Level3HandlersWithDeprecated :: "erasedHandler option list" where
  "Level3HandlersWithDeprecated =
    map Some [AppIDEntry, AppIDExcludeEntry, CredPropsEntry, LargeBlobEntry, PRFEntry, UVMEntryHandler]"

definition NewLevel3Registry :: "ext_registry result" where
  "NewLevel3Registry = NewRegistry Level3Handlers"

definition NewLevel3RegistryWithDeprecated :: "ext_registry result" where
  "NewLevel3RegistryWithDeprecated = NewRegistry Level3HandlersWithDeprecated"

section \<open>The registry contract\<close>

lemma addHandlers_Inr_iff:
  "addHandlers acc es = Inr m \<longleftrightarrow>
    (\<forall>e\<in>set es. checkEntry e = None) \<and> distinct (map entry_key es) \<and>
    (\<forall>e\<in>set es. entry_key e \<notin> fst ` set acc) \<and> m = acc @ map (\<lambda>e. (entry_key e, entry_value e)) es"
proof (induction es arbitrary: acc)
  case (Cons e es)
  show ?case
  proof (cases "checkEntry e = None \<and> map_of acc (entry_key e) = None")
    case True
    then have fresh: "entry_key e \<notin> fst ` set acc"
      by (simp add: map_of_eq_None_iff)
    have keys: "(\<forall>x\<in>set es. entry_key x \<notin> fst ` set (acc @ [(entry_key e, entry_value e)])) \<longleftrightarrow>
        entry_key e \<notin> entry_key ` set es \<and> (\<forall>x\<in>set es. entry_key x \<notin> fst ` set acc)"
      by (simp add: image_iff [of "entry_key e"] ball_conj_distrib) (metis (no_types))
    have "addHandlers acc (e # es) = addHandlers (acc @ [(entry_key e, entry_value e)]) es"
      using True fresh by (simp add: map_put_fresh)
    then have "addHandlers acc (e # es) = Inr m \<longleftrightarrow>
        (\<forall>x\<in>set es. checkEntry x = None) \<and> distinct (map entry_key es) \<and>
        (entry_key e \<notin> entry_key ` set es \<and> (\<forall>x\<in>set es. entry_key x \<notin> fst ` set acc)) \<and>
        m = (acc @ [(entry_key e, entry_value e)]) @ map (\<lambda>e. (entry_key e, entry_value e)) es"
      by (simp only: Cons.IH keys)
    then show ?thesis
      using True fresh by (simp del: addHandlers.simps add: conj_ac)
  next
    case False
    then show ?thesis
      by (auto simp: result_inv map_of_eq_None_iff)
  qed
qed auto

interpretation ext_registry: keyed_registry NewRegistry entry_key entry_value
  "\<lambda>e. checkEntry e = None" "\<lambda>n. n \<le> MaxEntries"
  by unfold_locales (auto simp: NewRegistry_def addHandlers_Inr_iff)

text \<open>
  What every handler behind \<open>Register\<close> satisfies, and with it every handler of a registry: an
  implementation outside the package cannot be an entry, so results carry the requested ID
  and are never marked raw.
\<close>

definition wf_erased :: "erasedHandler \<Rightarrow> bool" where
  "wf_erased h \<longleftrightarrow> (\<forall>c q res. eh_VerifyOutput h c q = Inr res \<longrightarrow> res_ID res = or_ID q \<and> \<not> res_raw res)"

definition wf_ext_registry :: "ext_registry \<Rightarrow> bool" where
  "wf_ext_registry m \<longleftrightarrow> wf_map m \<and> length m \<le> MaxEntries \<and>
    (\<forall>(name, entry)\<in>set m. bind_ID (rh_binding entry) = name \<and> Binding_Valid (rh_binding entry) \<and>
      (\<forall>expected. BuiltInBinding name = Some expected \<longrightarrow> rh_binding entry = expected))"

lemma Register_wf_erased: "wf_erased (Register into out assert handler)"
  by (auto simp: wf_erased_def Register_def erasedAdapter_VerifyOutput_def result_inv
      split: iface.splits option.splits)

lemma BuiltInBinding_ID: "BuiltInBinding name = Some b \<Longrightarrow> bind_ID b = name"
  by (auto simp: BuiltInBinding_def split: if_splits)

lemma BuiltInBinding_Valid: "BuiltInBinding name = Some b \<Longrightarrow> Binding_Valid b"
  by (auto simp: BuiltInBinding_def Binding_Valid_def handler_simps split: if_splits)

lemma checkEntry_NoneD:
  assumes "checkEntry e = None"
  shows "bind_ID (rh_binding (entry_value e)) = entry_key e \<and> Binding_Valid (rh_binding (entry_value e)) \<and>
    (\<forall>expected. BuiltInBinding (entry_key e) = Some expected \<longrightarrow> rh_binding (entry_value e) = expected)"
  using assms BuiltInBinding_ID
  by (auto simp: checkEntry_def entry_value_def entry_key_def Binding_Valid_def Let_def
      split: option.splits if_splits)

lemma NewRegistry_wf: "NewRegistry es = Inr m \<Longrightarrow> wf_ext_registry m"
  using ext_registry.built_wf [of es m] checkEntry_NoneD
  by (auto simp: wf_ext_registry_def ext_registry.build_iff)

lemma Registry_Contains_iff: "Registry_Contains r name \<longleftrightarrow> Registry_Binding r name \<noteq> None"
  by (simp add: Registry_Contains_def Registry_Binding_def split: option.splits)

lemma Registry_Binding_wf:
  assumes "\<And>m. r = Some m \<Longrightarrow> wf_ext_registry m" "Registry_Binding r name = Some b"
  shows "bind_ID b = name \<and> Binding_Valid b \<and> (\<forall>e. BuiltInBinding name = Some e \<longrightarrow> b = e)"
  using assms by (fastforce simp: Registry_Binding_def wf_ext_registry_def split: option.splits dest: map_of_SomeD)

lemmas level3_entries = Level3Handlers_def entry_key_def Register_def
  AppIDEntry_def AppIDExcludeEntry_def CredPropsEntry_def LargeBlobEntry_def PRFEntry_def
  AppIDHandler_def AppIDExcludeHandler_def CredPropsHandler_def LargeBlobHandler_def PRFHandler_def

lemma Level3_keys: "map entry_key Level3Handlers = [IDAppID, IDAppIDExclude, IDCredProps, IDLargeBlob, IDPRF]"
  by (simp add: level3_entries)

lemma Level3_registry:
  "NewLevel3Registry = Inr (map (\<lambda>e. (entry_key e, entry_value e)) Level3Handlers)"
  unfolding NewLevel3Registry_def ext_registry.build_iff
  by (auto simp: level3_entries checkEntry_def handler_simps BuiltInBinding_def MaxEntries_def)

section \<open>Handlers behind the adapter\<close>

context extension_handler
begin

lemma adapter_verifies:
  assumes "erasedAdapter_VerifyOutput out assert h c q = Inr res"
  shows "or_Requested q \<and> or_ClientInput q \<noteq> None \<and> or_Operation q \<in> set operations \<and>
    (res_Accepted res \<longrightarrow> or_ClientOutput q \<noteq> None \<or> or_AuthenticatorOutput q \<noteq> None)"
proof -
  obtain input v where i: "h_ValidateInput h \<lparr>ir_Operation = or_Operation q, ir_ID = or_ID q,
      ir_Input = or_ClientInput q\<rparr> = Inr input"
    and v: "h_VerifyOutput h c \<lparr>or_Operation = or_Operation q, or_ID = or_ID q, or_Requested = or_Requested q,
      or_SelectedCredentialID = or_SelectedCredentialID q, or_ClientInput = input,
      or_ClientOutput = or_ClientOutput q, or_AuthenticatorOutput = or_AuthenticatorOutput q\<rparr> = Inr v"
    and r: "res_Accepted res = ver_Accepted v"
    using assms by (auto simp: erasedAdapter_VerifyOutput_def result_inv split: option.splits)
  show ?thesis
    using input_present [OF i] output_operation [OF v] output_requested [OF v] accepted_output [OF v] r by auto
qed

lemma adapter_registers:
  assumes "h_Revision h = (case BuiltInBinding (h_ID h) of None \<Rightarrow> h_Revision h | Some b \<Rightarrow> bind_Revision b)"
  shows "checkEntry (Some (Register into out assert (Impl h))) = None"
  using valid_binding assms by (auto simp: checkEntry_def Register_def split: option.splits)

end

end
