(* ===== verification/Protocol_AuthData.thy ===== *)
theory Protocol_AuthData
  imports Protocol_Types
begin

text \<open>
  \<^verbatim>\<open>src/protocol/authenticator_data.go\<close>: the authenticator data layout. \<open>encodeAuthenticatorData\<close>
  is the layout of the WebAuthn specification, written down independently of the parser, and
  \<open>wf_parsed\<close> the values it may carry; the parser is shown to be exactly its inverse.
\<close>

definition AAGUIDLength :: nat where "AAGUIDLength = 16"
definition RPIDHashLength :: nat where "RPIDHashLength = 32"
definition authDataFlagUP :: byte where "authDataFlagUP = 0x01"
definition authDataFlagUV :: byte where "authDataFlagUV = 0x04"
definition authDataFlagBE :: byte where "authDataFlagBE = 0x08"
definition authDataFlagBS :: byte where "authDataFlagBS = 0x10"
definition authDataFlagAT :: byte where "authDataFlagAT = 0x40"
definition authDataFlagED :: byte where "authDataFlagED = 0x80"
definition authDataRFUMask :: byte where "authDataRFUMask = 0x22"

text \<open>An AAGUID is a 16-byte array; \<open>wf_parsed\<close> carries the length.\<close>

type_synonym AAGUID = bytes
type_synonym AuthenticatorFlags = byte

definition UserPresent :: "AuthenticatorFlags \<Rightarrow> bool" where
  "UserPresent f \<longleftrightarrow> f AND authDataFlagUP \<noteq> 0"

definition UserVerified :: "AuthenticatorFlags \<Rightarrow> bool" where
  "UserVerified f \<longleftrightarrow> f AND authDataFlagUV \<noteq> 0"

definition BackupEligible :: "AuthenticatorFlags \<Rightarrow> bool" where
  "BackupEligible f \<longleftrightarrow> f AND authDataFlagBE \<noteq> 0"

definition BackupState :: "AuthenticatorFlags \<Rightarrow> bool" where
  "BackupState f \<longleftrightarrow> f AND authDataFlagBS \<noteq> 0"

definition HasAttestedCredentialData :: "AuthenticatorFlags \<Rightarrow> bool" where
  "HasAttestedCredentialData f \<longleftrightarrow> f AND authDataFlagAT \<noteq> 0"

definition HasExtensionData :: "AuthenticatorFlags \<Rightarrow> bool" where
  "HasExtensionData f \<longleftrightarrow> f AND authDataFlagED \<noteq> 0"

record AttestedCredentialData =
  acd_AAGUID :: AAGUID
  acd_CredentialID :: CredentialID
  acd_CredentialPublicKeyAndExtensions :: bytes

record ParsedAuthenticatorData =
  pad_Raw :: AuthenticatorData
  pad_RPIDHash :: bytes
  pad_Flags :: AuthenticatorFlags
  pad_SignCount :: "32 word"
  pad_AttestedCredentialData :: "AttestedCredentialData option"
  pad_ExtensionData :: go_bytes

definition parseAttestedCredentialData :: "bytes \<Rightarrow> AttestedCredentialData result" where
  "parseAttestedCredentialData data =
    (if length data < AAGUIDLength + 2 then Inl (Sentinel ErrMalformedAuthenticatorData) else
     let aaguid = take AAGUIDLength data;
         credentialIDLength = unat (be16 (data ! AAGUIDLength) (data ! (AAGUIDLength + 1)));
         credentialIDStart = AAGUIDLength + 2;
         credentialIDEnd = credentialIDStart + credentialIDLength in
     if credentialIDLength = 0 \<or> length data < credentialIDEnd
     then Inl (Sentinel ErrMalformedAuthenticatorData)
     else if length data = credentialIDEnd then Inl (Sentinel ErrMalformedAuthenticatorData)
     else and_then (NewCredentialID (Some (take credentialIDLength (drop credentialIDStart data))))
       (\<lambda>credentialID. Inr \<lparr>acd_AAGUID = aaguid, acd_CredentialID = credentialID,
          acd_CredentialPublicKeyAndExtensions = drop credentialIDEnd data\<rparr>))"

definition ParseAuthenticatorData :: "AuthenticatorData \<Rightarrow> ParsedAuthenticatorData result" where
  "ParseAuthenticatorData raw =
    (let bytes = bv_bytes raw in
     if length bytes < MinAuthenticatorDataLength then Inl (Sentinel ErrMalformedAuthenticatorData) else
     let flags = bytes ! RPIDHashLength;
         parsed = \<lparr>pad_Raw = raw, pad_RPIDHash = take RPIDHashLength bytes, pad_Flags = flags,
           pad_SignCount = be32 (bytes ! (RPIDHashLength + 1)) (bytes ! (RPIDHashLength + 2))
             (bytes ! (RPIDHashLength + 3)) (bytes ! (RPIDHashLength + 4)),
           pad_AttestedCredentialData = None, pad_ExtensionData = None\<rparr> in
     if flags AND authDataRFUMask \<noteq> 0 then Inl (Sentinel ErrMalformedAuthenticatorData)
     else if \<not> HasAttestedCredentialData flags then
       let extensionData = drop MinAuthenticatorDataLength bytes in
       if HasExtensionData flags \<and> length extensionData = 0
       then Inl (Sentinel ErrMalformedAuthenticatorData)
       else if HasExtensionData flags then Inr (parsed\<lparr>pad_ExtensionData := Some extensionData\<rparr>)
       else if length extensionData \<noteq> 0 then Inl (Sentinel ErrMalformedAuthenticatorData)
       else Inr parsed
     else and_then (parseAttestedCredentialData (drop MinAuthenticatorDataLength bytes))
       (\<lambda>attested. Inr (parsed\<lparr>pad_AttestedCredentialData := Some attested\<rparr>)))"

section \<open>The layout as an encoder\<close>

definition encodeAttested :: "AttestedCredentialData \<Rightarrow> bytes" where
  "encodeAttested a = acd_AAGUID a @ put16 (word_of_nat (bv_len (acd_CredentialID a)))
    @ bv_bytes (acd_CredentialID a) @ acd_CredentialPublicKeyAndExtensions a"

definition encodeAuthenticatorData :: "ParsedAuthenticatorData \<Rightarrow> bytes" where
  "encodeAuthenticatorData p = pad_RPIDHash p @ [pad_Flags p] @ put32 (pad_SignCount p)
    @ (case pad_AttestedCredentialData p of None \<Rightarrow> bytes_of (pad_ExtensionData p)
       | Some a \<Rightarrow> encodeAttested a)"

definition wf_attested :: "AttestedCredentialData \<Rightarrow> bool" where
  "wf_attested a \<longleftrightarrow> length (acd_AAGUID a) = AAGUIDLength
    \<and> 1 \<le> bv_len (acd_CredentialID a) \<and> int (bv_len (acd_CredentialID a)) \<le> MaxCredentialIDLength
    \<and> acd_CredentialPublicKeyAndExtensions a \<noteq> []"

definition wf_parsed :: "ParsedAuthenticatorData \<Rightarrow> bool" where
  "wf_parsed p \<longleftrightarrow> length (pad_RPIDHash p) = RPIDHashLength \<and> pad_Flags p AND authDataRFUMask = 0
    \<and> (case pad_AttestedCredentialData p of
         None \<Rightarrow> \<not> HasAttestedCredentialData (pad_Flags p)
           \<and> (case pad_ExtensionData p of None \<Rightarrow> \<not> HasExtensionData (pad_Flags p)
              | Some e \<Rightarrow> HasExtensionData (pad_Flags p) \<and> e \<noteq> [])
       | Some a \<Rightarrow> HasAttestedCredentialData (pad_Flags p) \<and> wf_attested a \<and> pad_ExtensionData p = None)"

lemma NewCredentialID_Inr_iff:
  "NewCredentialID (Some bs) = Inr cid \<longleftrightarrow>
    cid = \<lparr>bv_value = Some bs\<rparr> \<and> 1 \<le> length bs \<and> int (length bs) \<le> MaxCredentialIDLength"
  by (auto simp: NewCredentialID_def newByteValue_def Let_def MaxCredentialIDLength_def Suc_le_eq)

lemma byteValue_eq_Some: "bv_bytes v \<noteq> [] \<Longrightarrow> \<lparr>bv_value = Some (bv_bytes v)\<rparr> = (v :: byteValue)"
  by (cases v) (auto simp: bv_bytes_def bytes_of_def split: option.splits)

lemma unat_16_of_nat: "n \<le> 1023 \<Longrightarrow> unat (word_of_nat n :: 16 word) = n"
  by (simp add: unat_of_nat)

lemma length_eq_Suc2: "2 \<le> length xs \<Longrightarrow> xs = xs ! 0 # xs ! 1 # drop 2 xs"
  by (cases xs; cases "tl xs") auto

lemma parseAttestedCredentialData_iff:
  "parseAttestedCredentialData data = Inr a \<longleftrightarrow> wf_attested a \<and> encodeAttested a = data"
proof
  assume run: "parseAttestedCredentialData data = Inr a"
  define n where "n = unat (be16 (data ! 16) (data ! 17))"
  have len: "18 \<le> length data" and n: "n \<noteq> 0" "18 + n < length data"
    and cid: "NewCredentialID (Some (take n (drop 18 data))) = Inr (acd_CredentialID a)"
    and a: "acd_AAGUID a = take 16 data" "acd_CredentialPublicKeyAndExtensions a = drop (18 + n) data"
    using run unfolding parseAttestedCredentialData_def Let_def AAGUIDLength_def n_def
    by (auto simp: result_inv simp del: unat_be16)
  have id: "acd_CredentialID a = \<lparr>bv_value = Some (take n (drop 18 data))\<rparr>" "n \<le> 1023"
    using cid n by (auto simp: NewCredentialID_Inr_iff MaxCredentialIDLength_def)
  have "word_of_nat n = be16 (data ! 16) (data ! 17)"
    by (simp add: n_def del: unat_be16)
  then have put: "put16 (word_of_nat n) = [data ! 16, data ! 17]"
    by simp
  have "drop 16 data = data ! 16 # data ! 17 # drop 18 data"
    using length_eq_Suc2 [of "drop 16 data"] len by simp
  then have split: "data = take 16 data @ [data ! 16, data ! 17] @ take n (drop 18 data) @ drop (18 + n) data"
    by (metis append_Cons append_Nil append_take_drop_id drop_drop add.commute)
  have "encodeAttested a = data"
    using a id n put split by (simp add: encodeAttested_def bv_len_def bv_bytes_def)
  moreover have "wf_attested a"
    using a id n len by (simp add: wf_attested_def AAGUIDLength_def MaxCredentialIDLength_def bv_len_def bv_bytes_def)
  ultimately show "wf_attested a \<and> encodeAttested a = data"
    by simp
next
  assume enc: "wf_attested a \<and> encodeAttested a = data"
  define cid where "cid = bv_bytes (acd_CredentialID a)"
  define rest where "rest = acd_CredentialPublicKeyAndExtensions a"
  have wf: "length (acd_AAGUID a) = 16" "cid \<noteq> []" "length cid \<le> 1023" "rest \<noteq> []"
    using enc by (auto simp: wf_attested_def AAGUIDLength_def MaxCredentialIDLength_def bv_len_def cid_def rest_def)
  obtain b c where bc: "put16 (word_of_nat (length cid)) = [b, c]" "be16 b c = word_of_nat (length cid)"
    using be16_put16 by metis
  have data: "data = acd_AAGUID a @ b # c # cid @ rest"
    using enc bc by (simp add: encodeAttested_def bv_len_def cid_def rest_def)
  have n: "unat (be16 (data ! 16) (data ! 17)) = length cid"
    using wf bc data by (simp add: nth_append unat_16_of_nat del: unat_be16)
  have "NewCredentialID (Some cid) = Inr (acd_CredentialID a)"
    using wf by (auto simp: NewCredentialID_Inr_iff MaxCredentialIDLength_def cid_def byteValue_eq_Some Suc_le_eq)
  moreover have "take 16 data = acd_AAGUID a" "take (length cid) (drop 18 data) = cid"
    "drop (18 + length cid) data = rest" "length data > 18 + length cid"
    using wf data by auto
  ultimately show "parseAttestedCredentialData data = Inr a"
    using n wf by (simp add: parseAttestedCredentialData_def Let_def AAGUIDLength_def rest_def del: unat_be16)
qed

lemma header_split:
  assumes "37 \<le> length (bs :: bytes)"
  shows "bs = take 32 bs @ [bs ! 32] @ put32 (be32 (bs ! 33) (bs ! 34) (bs ! 35) (bs ! 36)) @ drop 37 bs"
proof -
  have "drop 32 bs = bs ! 32 # bs ! 33 # bs ! 34 # bs ! 35 # bs ! 36 # drop 37 bs"
    using assms by (simp add: Cons_nth_drop_Suc [symmetric])
  then show ?thesis
    by (metis append_Cons append_Nil append_take_drop_id put32_be32)
qed

lemma header_join:
  assumes "bs = hash @ [f] @ put32 n @ (tail :: bytes)" and "length hash = 32"
  shows "37 \<le> length bs" "take 32 bs = hash" "bs ! 32 = f" "drop 37 bs = tail"
    "be32 (bs ! 33) (bs ! 34) (bs ! 35) (bs ! 36) = n"
proof -
  obtain a b c d where "put32 n = [a, b, c, d]" "be32 a b c d = n"
    using be32_put32 by metis
  then show "37 \<le> length bs" "take 32 bs = hash" "bs ! 32 = f" "drop 37 bs = tail"
    "be32 (bs ! 33) (bs ! 34) (bs ! 35) (bs ! 36) = n"
    using assms by (auto simp: nth_append)
qed

lemmas layout_defs = MinAuthenticatorDataLength_def RPIDHashLength_def

lemma ParseAuthenticatorData_sound:
  assumes "ParseAuthenticatorData raw = Inr p"
  shows "wf_parsed p \<and> pad_Raw p = raw \<and> encodeAuthenticatorData p = bv_bytes raw"
proof -
  have len: "37 \<le> length (bv_bytes raw)"
    using assms by (auto simp: ParseAuthenticatorData_def Let_def layout_defs split: if_splits)
  show ?thesis
    using assms header_split [OF len] len
    by (auto simp: ParseAuthenticatorData_def Let_def layout_defs wf_parsed_def encodeAuthenticatorData_def
        and_then_Inr_iff parseAttestedCredentialData_iff split: if_splits)
qed

lemma ParseAuthenticatorData_complete:
  assumes "wf_parsed p" "encodeAuthenticatorData p = bv_bytes (pad_Raw p)"
  shows "ParseAuthenticatorData (pad_Raw p) = Inr p"
proof (cases "pad_AttestedCredentialData p")
  case None
  note header = header_join [OF assms(2) [symmetric, unfolded encodeAuthenticatorData_def]]
  show ?thesis
    using assms(1) None header
    by (cases p; cases "pad_ExtensionData p")
      (auto simp: ParseAuthenticatorData_def Let_def layout_defs wf_parsed_def)
next
  case (Some a)
  note header = header_join [OF assms(2) [symmetric, unfolded encodeAuthenticatorData_def]]
  have "parseAttestedCredentialData (encodeAttested a) = Inr a"
    using assms(1) Some by (simp add: parseAttestedCredentialData_iff wf_parsed_def)
  then show ?thesis
    using assms(1) Some header
    by (cases p) (auto simp: ParseAuthenticatorData_def Let_def layout_defs wf_parsed_def)
qed

lemma ParseAuthenticatorData_Inr_iff:
  "ParseAuthenticatorData raw = Inr p \<longleftrightarrow>
    wf_parsed p \<and> pad_Raw p = raw \<and> encodeAuthenticatorData p = bv_bytes raw"
  using ParseAuthenticatorData_sound ParseAuthenticatorData_complete by metis

lemma wf_parsed_attested_iff:
  "wf_parsed p \<Longrightarrow> HasAttestedCredentialData (pad_Flags p) \<longleftrightarrow> pad_AttestedCredentialData p \<noteq> None"
  by (auto simp: wf_parsed_def split: option.splits)

lemma wf_parsed_attestedD:
  "wf_parsed p \<Longrightarrow> pad_AttestedCredentialData p = Some a \<Longrightarrow> wf_attested a"
  by (simp add: wf_parsed_def)

text \<open>The only errors of the parser.\<close>

lemma NewCredentialID_error:
  "NewCredentialID (Some bs) = Inl e \<Longrightarrow> bs \<noteq> [] \<Longrightarrow>
    \<exists>n. 1023 < n \<and> e = ByteLengthError ''credential id'' n 1 1023"
  by (auto simp: NewCredentialID_def newByteValue_def Let_def MaxCredentialIDLength_def Suc_le_eq
      split: if_splits)

lemma parseAttestedCredentialData_error:
  "parseAttestedCredentialData data = Inl e \<Longrightarrow>
    e = Sentinel ErrMalformedAuthenticatorData
    \<or> (\<exists>n. 1023 < n \<and> e = ByteLengthError ''credential id'' n 1 1023)"
  using NewCredentialID_error
  by (force simp: parseAttestedCredentialData_def Let_def and_then_def simp del: unat_be16
      split: if_splits sum.splits)

lemma ParseAuthenticatorData_error:
  "ParseAuthenticatorData raw = Inl e \<Longrightarrow>
    e = Sentinel ErrMalformedAuthenticatorData
    \<or> (\<exists>n. 1023 < n \<and> e = ByteLengthError ''credential id'' n 1 1023)"
  using parseAttestedCredentialData_error
  by (auto simp: ParseAuthenticatorData_def Let_def and_then_def split: if_splits sum.splits)

end
