(* ===== verification/Ceremony.thy ===== *)
theory Ceremony
  imports Origin Extension_Registry Protocol_AuthData
begin

text \<open>
  \<^verbatim>\<open>src/ceremony.go\<close> and the challenge generators of \<^verbatim>\<open>src/registration_start.go\<close>: what
  registration and authentication share. A \<^verbatim>\<open>time.Time\<close> is the number of nanoseconds since the
  zero time, so that \<^verbatim>\<open>IsZero\<close> is \<open>= 0\<close>; a \<^verbatim>\<open>time.Duration\<close> is a number of nanoseconds.
\<close>

type_synonym time = int
type_synonym duration = int

definition DefaultBrowserTimeout :: duration where "DefaultBrowserTimeout = 5 * 60 * 1000000000"
definition DefaultChallengeTTL :: duration where "DefaultChallengeTTL = 10 * 60 * 1000000000"

text \<open>
  The environment of a call: the clock and the operating system's random source. A reader
  asked for \<open>n\<close> bytes through \<^verbatim>\<open>io.ReadFull\<close> fails or fills all of them.
\<close>

type_synonym reader = "nat \<Rightarrow> (nat \<Rightarrow> byte) result"

record go_env =
  env_Now :: time
  env_Reader :: reader

definition ReadFull :: "reader \<Rightarrow> nat \<Rightarrow> bytes result" where
  "ReadFull reader n = and_then (reader n) (\<lambda>fill. Inr (map fill [0..<n]))"

section \<open>Challenge generators\<close>

type_synonym ChallengeGenerator = "(ctx \<Rightarrow> Challenge result) iface"

text \<open>\<^verbatim>\<open>ChallengeGeneratorFunc\<close>: a nil function reports an error when it is called.\<close>

definition ChallengeGeneratorFunc_Generate :: "(ctx \<Rightarrow> Challenge result) option \<Rightarrow> ctx \<Rightarrow> Challenge result" where
  "ChallengeGeneratorFunc_Generate f ctx =
    (case f of None \<Rightarrow> Inl (Newf ''challenge generator function is nil'') | Some g \<Rightarrow> g ctx)"

record RandomChallengeGenerator =
  rcg_Reader :: "reader iface"
  rcg_Length :: int

definition Random_GenerateChallenge :: "go_env \<Rightarrow> RandomChallengeGenerator \<Rightarrow> ctx option \<Rightarrow> Challenge result" where
  "Random_GenerateChallenge env g ctx =
    check (normalizeContext ctx 0)
    (let length = (if rcg_Length g = 0 then RecommendedChallengeLength else rcg_Length g) in
     if length < MinChallengeLength
     then Inl (ByteLengthError ''challenge'' length MinChallengeLength 0)
     else (case rcg_Reader g of
         TypedNil \<Rightarrow> Inl (Newf ''random reader is typed nil'')
       | NilIface \<Rightarrow> and_then (ReadFull (env_Reader env) (nat length)) (\<lambda>raw. NewChallenge (Some raw))
       | Impl reader \<Rightarrow> and_then (ReadFull reader (nat length)) (\<lambda>raw. NewChallenge (Some raw))))"

text \<open>The challenge of a ceremony: the caller's, or a generated one.\<close>

definition ceremonyChallenge ::
  "go_env \<Rightarrow> Challenge \<Rightarrow> ChallengeGenerator \<Rightarrow> ctx \<Rightarrow> Challenge result" where
  "ceremonyChallenge env challenge generator ctx =
    (if bv_len challenge = 0 then
       (case generator of
          NilIface \<Rightarrow> Random_GenerateChallenge env \<lparr>rcg_Reader = NilIface, rcg_Length = 0\<rparr> (Some ctx)
        | TypedNil \<Rightarrow> Inl (Notef ErrInvalidConfiguration ''challenge generator is typed nil'')
        | Impl generate \<Rightarrow> generate ctx)
     else Inr challenge)"

section \<open>Shared checks\<close>

definition registrationUserVerification :: "AuthenticatorSelectionCriteria option \<Rightarrow> UserVerificationRequirement" where
  "registrationUserVerification selection =
    (case selection of None \<Rightarrow> UserVerificationPreferred
     | Some s \<Rightarrow> if sel_UserVerification s \<noteq> [] then sel_UserVerification s else UserVerificationPreferred)"

definition validateUserVerification :: "UserVerificationRequirement \<Rightarrow> error option" where
  "validateUserVerification v =
    (if \<not> UserVerification_Known v then Some (ValueError ''user verification'' v) else None)"

definition algorithmsFromParameters :: "CredentialParameter list \<Rightarrow> COSEAlgorithmIdentifier list" where
  "algorithmsFromParameters parameters = map cp_Algorithm parameters"

definition timeoutState :: "duration \<Rightarrow> duration \<Rightarrow> time \<Rightarrow> (32 word \<times> time) result" where
  "timeoutState timeout stateTTL now =
    (if timeout < 0 then Inl (Newf ''timeout must not be negative'')
     else if stateTTL < 0 then Inl (Newf ''state ttl must not be negative'')
     else
     let timeout = (if timeout = 0 then DefaultBrowserTimeout else timeout);
         stateTTL = (if stateTTL = 0 then DefaultChallengeTTL else stateTTL) in
     if stateTTL < timeout then Inl (Newf ''state ttl must not be shorter than timeout'') else
     let milliseconds = timeout div 1000000;
         milliseconds = (if milliseconds = 0 then 1 else milliseconds) in
     if milliseconds > 2 ^ 32 - 1 then Inl (Newf ''timeout exceeds uint32 milliseconds'')
     else Inr (word_of_int milliseconds, now + stateTTL))"

definition registrationCredentialParameters :: "CredentialParameter list \<Rightarrow> CredentialParameter list result" where
  "registrationCredentialParameters parameters =
    (if parameters = []
     then Inr [\<lparr>cp_Type = CredentialTypePublicKey, cp_Algorithm = AlgorithmES256\<rparr>,
               \<lparr>cp_Type = CredentialTypePublicKey, cp_Algorithm = AlgorithmRS256\<rparr>]
     else check (first_err CredentialParameter_Validate parameters)
       (let out = filter (\<lambda>p. cp_Type p = CredentialTypePublicKey) parameters in
        if out = [] then Inl (Newf ''no supported public key credential parameters'') else Inr out))"

definition normalizeAuthenticatorAttachment :: "AuthenticatorAttachment \<Rightarrow> AuthenticatorAttachment" where
  "normalizeAuthenticatorAttachment v = (if Attachment_Known v then v else [])"

definition verifyClientData ::
  "go_std \<Rightarrow> ClientDataJSON \<Rightarrow> ClientDataType \<Rightarrow> Challenge \<Rightarrow> OriginPolicy \<Rightarrow> bytes result" where
  "verifyClientData std raw expectedType challenge originPolicy =
    and_then (wrap_res ErrMalformedResponse (ParseCollectedClientData std raw)) (\<lambda>clientData.
    check (wrap_err ErrMalformedResponse (ValidateType clientData expectedType))
    (and_then (wrap_res ErrMalformedResponse (ChallengeBytes clientData)) (\<lambda>challengeBytes.
     if \<not> bv_equalBytes challenge challengeBytes then Inl (Sentinel ErrChallengeMismatch)
     else check (verifyCollectedClientOrigin originPolicy clientData)
       (Inr (std_Sum256 std (bv_appendTo raw []))))))"

section \<open>What they establish\<close>

lemma Random_challenge_length:
  assumes "Random_GenerateChallenge env g ctx = Inr c"
  shows "int (bv_len c) = (if rcg_Length g = 0 then 32 else rcg_Length g) \<and> 16 \<le> bv_len c"
  using assms challenge.same_bytes
  by (fastforce simp: Random_GenerateChallenge_def Let_def ReadFull_def result_inv bv_len_def
      RecommendedChallengeLength_def MinChallengeLength_def split: iface.splits if_splits)

lemma validateUserVerification_None_iff [result_inv]:
  "validateUserVerification v = None \<longleftrightarrow> UserVerification_Known v"
  by (simp add: validateUserVerification_def)

lemma registrationUserVerification_nonempty: "registrationUserVerification selection \<noteq> []"
  by (auto simp: registrationUserVerification_def UserVerificationPreferred_def split: option.splits)

lemma registrationUserVerification_Known:
  "Selection_Validate selection = None \<Longrightarrow> UserVerification_Known (registrationUserVerification selection)"
  by (cases selection) (auto simp: registrationUserVerification_def Selection_Validate_None_iff)

lemma timeoutState_Inr_iff:
  "timeoutState timeout ttl now = Inr (ms, expires) \<longleftrightarrow>
    (let t = (if timeout = 0 then DefaultBrowserTimeout else timeout);
         l = (if ttl = 0 then DefaultChallengeTTL else ttl) in
     0 \<le> timeout \<and> 0 \<le> ttl \<and> t \<le> l \<and> t div 1000000 < 2 ^ 32 \<and>
     ms = word_of_int (max 1 (t div 1000000)) \<and> expires = now + l)"
proof -
  have "0 \<le> t \<Longrightarrow> (if t div 1000000 = 0 then 1 else t div 1000000) = max 1 (t div 1000000)" for t :: int
    using pos_imp_zdiv_nonneg_iff [of 1000000 t] by (auto simp: max_def)
  then show ?thesis
    by (auto simp: timeoutState_def Let_def DefaultBrowserTimeout_def DefaultChallengeTTL_def)
qed

lemma timeoutState_bounds:
  assumes "timeoutState timeout ttl now = Inr (ms, expires)"
  shows "1 \<le> unat ms \<and> now < expires"
proof -
  define t where "t = (if timeout = 0 then DefaultBrowserTimeout else timeout)"
  define n where "n = max 1 (t div 1000000)"
  have n: "1 \<le> n" "n < 2 ^ 32" "ms = word_of_int n"
    using assms by (auto simp: timeoutState_Inr_iff Let_def t_def n_def)
  then have "uint ms = n"
    by (simp add: word_uint_eq_iff uint_word_of_int take_bit_int_eq_self unsigned_of_int)
  then have "unat ms = nat n"
    by (simp add: unat_eq_nat_uint)
  then have "1 \<le> unat ms"
    using n(1) by simp
  moreover have "now < expires"
    using assms by (auto simp: timeoutState_Inr_iff Let_def DefaultBrowserTimeout_def DefaultChallengeTTL_def split: if_splits)
  ultimately show ?thesis
    by simp
qed

lemma registrationCredentialParameters_Inr:
  assumes "registrationCredentialParameters ps = Inr qs"
  shows "qs \<noteq> [] \<and> (\<forall>q\<in>set qs. cp_Type q = CredentialTypePublicKey \<and> CredentialParameter_Validate q = None)"
  using assms
  by (auto simp: registrationCredentialParameters_def Let_def check_Inr_iff first_err_None_iff
      CredentialParameter_Validate_def Algorithm_Validate_def AlgorithmES256_def AlgorithmRS256_def
      minCOSEAlgorithmIdentifier_def maxCOSEAlgorithmIdentifier_def CredentialTypePublicKey_def
      split: if_splits)

lemma registrationCredentialParameters_idem:
  assumes "registrationCredentialParameters ps = Inr qs"
  shows "registrationCredentialParameters qs = Inr qs"
proof -
  have "filter (\<lambda>p. cp_Type p = CredentialTypePublicKey) qs = qs" "first_err CredentialParameter_Validate qs = None"
    using registrationCredentialParameters_Inr [OF assms] by (auto simp: first_err_None_iff)
  then show ?thesis
    using registrationCredentialParameters_Inr [OF assms] by (simp add: registrationCredentialParameters_def)
qed

text \<open>The client data a ceremony accepts, and the hash it signs over.\<close>

definition clientDataAccepted ::
  "go_std \<Rightarrow> ClientDataJSON \<Rightarrow> ClientDataType \<Rightarrow> Challenge \<Rightarrow> OriginPolicy \<Rightarrow> CollectedClientData \<Rightarrow> bool" where
  "clientDataAccepted std raw expectedType challenge policy d \<longleftrightarrow>
    ParseCollectedClientData std raw = Inr d \<and> ccd_Type d = expectedType \<and>
    ccd_Challenge d = b64_encode (bv_bytes challenge) \<and> verifyCollectedClientOrigin policy d = None"

lemma verifyClientData_Inr_iff:
  "verifyClientData std raw expectedType challenge policy = Inr hash \<longleftrightarrow>
    (\<exists>d. clientDataAccepted std raw expectedType challenge policy d) \<and> hash = std_Sum256 std (bv_bytes raw)"
  by (auto simp: verifyClientData_def clientDataAccepted_def and_then_Inr_iff check_Inr_iff if_Inl_Inr_iff
      ValidateType_None_iff ChallengeBytes_Inr_iff bv_appendTo_def)

end
