(* ===== verification/Extension_Verification.thy ===== *)
theory Extension_Verification
  imports Ceremony
begin

text \<open>
  \<^verbatim>\<open>src/extension_verification.go\<close>: normalising extension inputs at ceremony start, binding
  them to the semantic revision of their handler, and verifying the outputs at the finish.
  The functions that take a ceremony state are in the theories of the two ceremonies.
\<close>

section \<open>Contexts of single extensions\<close>

definition validateRemoteClientDataInput ::
  "go_std \<Rightarrow> Operation \<Rightarrow> ExtensionInputs \<Rightarrow> ext_registry option \<Rightarrow> Challenge \<Rightarrow> error option" where
  "validateRemoteClientDataInput std operation inputs registry challenge =
    (case map_of inputs IDRemoteClientDataJSON of
       None \<Rightarrow> None
     | Some v \<Rightarrow>
       if registry = None \<or> \<not> Registry_Contains registry IDRemoteClientDataJSON then None else
       and_err (wrap_res ErrExtensionPolicy (NewRawValue v)) (\<lambda>raw.
       and_err (wrap_res ErrExtensionPolicy (RemoteClientDataJSONHandler_ValidateInput std
         \<lparr>ir_Operation = operation, ir_ID = IDRemoteClientDataJSON, ir_Input = raw\<rparr>)) (\<lambda>normalized.
       case NewClientDataJSON (Some (bytes_of_string normalized)) of
         Inl _ \<Rightarrow> Some (Notef ErrExtensionPolicy ''invalid remote client data'')
       | Inr clientDataJSON \<Rightarrow> (case ParseCollectedClientData std clientDataJSON of
           Inl _ \<Rightarrow> Some (Notef ErrExtensionPolicy ''invalid remote client data'')
         | Inr clientData \<Rightarrow> (case ChallengeBytes clientData of
             Inl _ \<Rightarrow> Some (Notef ErrExtensionPolicy ''remote client data challenge mismatch'')
           | Inr challengeBytes \<Rightarrow> if \<not> bv_equalBytes challenge challengeBytes
               then Some (Notef ErrExtensionPolicy ''remote client data challenge mismatch'') else None)))))"

definition hasExtensionBinding :: "Binding list \<Rightarrow> string \<Rightarrow> bool" where
  "hasExtensionBinding bindings name \<longleftrightarrow> list_ex (\<lambda>b. bind_ID b = name) bindings"

definition verifyRemoteClientDataBinding ::
  "ExtensionInputs \<Rightarrow> Binding list \<Rightarrow> ClientDataJSON \<Rightarrow> error option" where
  "verifyRemoteClientDataBinding inputs bindings raw =
    (case map_of inputs IDRemoteClientDataJSON of
       None \<Rightarrow> None
     | Some v \<Rightarrow>
       if \<not> hasExtensionBinding bindings IDRemoteClientDataJSON then None
       else (case assert_StringInput v of
           None \<Rightarrow> Some (Notef ErrExtensionPolicy ''remote client data changed'')
         | Some serialized \<Rightarrow> if bv_bytes raw \<noteq> bytes_of_string serialized
             then Some (Notef ErrExtensionPolicy ''remote client data changed'') else None))"

definition validateLargeBlobCredentialContext :: "ExtensionInput \<Rightarrow> CredentialDescriptor list \<Rightarrow> error option" where
  "validateLargeBlobCredentialContext v allowCredentials =
    and_err (NewRawValue v) (\<lambda>raw.
    and_err (LargeBlobHandler_ValidateInput
      \<lparr>ir_Operation = OperationAuthentication, ir_ID = IDLargeBlob, ir_Input = raw\<rparr>) (\<lambda>normalized.
    if lb_Write normalized \<noteq> None \<and> length allowCredentials \<noteq> 1
    then Some (Newf ''largeBlob write requires exactly one allowed credential'') else None))"

definition validateStoredAuthenticationExtensionContext ::
  "ExtensionInputs \<Rightarrow> CredentialDescriptor list \<Rightarrow> error option" where
  "validateStoredAuthenticationExtensionContext inputs allowCredentials =
    (case map_of inputs IDLargeBlob of None \<Rightarrow> None
     | Some v \<Rightarrow> validateLargeBlobCredentialContext v allowCredentials)"

definition validateAuthenticationExtensionContext ::
  "ExtensionInputs \<Rightarrow> ext_registry option \<Rightarrow> CredentialDescriptor list \<Rightarrow> error option" where
  "validateAuthenticationExtensionContext inputs registry allowCredentials =
    (case map_of inputs IDLargeBlob of None \<Rightarrow> None
     | Some v \<Rightarrow>
       if registry = None then Some (Notef ErrExtensionPolicy ''largeBlob handler is required'')
       else if \<not> Registry_Contains registry IDLargeBlob
       then Some (Notef ErrExtensionPolicy ''largeBlob handler is required'')
       else wrap_err ErrExtensionPolicy (validateLargeBlobCredentialContext v allowCredentials))"

section \<open>Outputs\<close>

record extensionOutputPolicy =
  eop_rejectUnrequested :: bool
  eop_rejectUnknown :: bool

type_synonym extensionInputTransform = "string \<Rightarrow> ExtensionInput \<Rightarrow> ExtensionInput result"

record extensionVerificationInputs =
  evi_operation :: Operation
  evi_selectedCredentialID :: CredentialID
  evi_requestedExtensions :: ExtensionInputs
  evi_policy :: extensionOutputPolicy
  evi_registry :: "ext_registry option"
  evi_clientExtensionResults :: ClientOutputs
  evi_authenticatorExtensions :: ExtensionMap
  evi_clientInputTransform :: "extensionInputTransform option"

definition rawExtensionValue :: "goval option \<Rightarrow> RawValue result" where
  "rawExtensionValue v = (case v of None \<Rightarrow> Inr None | Some w \<Rightarrow> NewRawValue w)"

definition checkIDs :: "'v go_map \<Rightarrow> error option" where
  "checkIDs m = first_err (\<lambda>(name, _). if \<not> identifier_Valid name
     then Some (Notef ErrExtensionPolicy ''invalid extension id'') else None) m"

text \<open>The identifiers to work on: the keys of the three maps.\<close>

definition validateExtensionWork ::
  "ExtensionInputs \<Rightarrow> ClientOutputs \<Rightarrow> ExtensionMap \<Rightarrow> string list result" where
  "validateExtensionWork requested client authenticator =
    (if length requested > MaxEntries \<or> length client > MaxEntries \<or> length authenticator > MaxEntries
     then Inl (Wrapf ErrExtensionPolicy (Sentinel ErrTooManyEntries)) else
     check (checkIDs requested) (check (checkIDs client) (check (checkIDs authenticator)
     (let ids = remdups (map fst requested @ map fst client @ map fst authenticator) in
      if length ids > MaxEntries then Inl (Wrapf ErrExtensionPolicy (Sentinel ErrTooManyEntries)) else Inr ids))))"

definition verifyExtension :: "ctx \<Rightarrow> extensionVerificationInputs \<Rightarrow> string \<Rightarrow> Result result" where
  "verifyExtension ctx inputs name =
    (let clientInput = map_of (evi_requestedExtensions inputs) name;
         requested = (clientInput \<noteq> None);
         hasClientOutput = (map_of (evi_clientExtensionResults inputs) name \<noteq> None);
         clientOutput = (case map_of (evi_clientExtensionResults inputs) name of None \<Rightarrow> None | Some r \<Rightarrow> r);
         authenticatorOutput = map_of (evi_authenticatorExtensions inputs) name;
         hasAuthenticatorOutput = (authenticatorOutput \<noteq> None);
         known = Registry_Contains (evi_registry inputs) name;
         hasOutput = (hasClientOutput \<or> hasAuthenticatorOutput) in
     if \<not> known \<and> hasOutput \<and> eop_rejectUnknown (evi_policy inputs) then Inl (Sentinel ErrExtensionPolicy)
     else if \<not> requested \<and> hasOutput \<and> eop_rejectUnrequested (evi_policy inputs) then Inl (Sentinel ErrExtensionPolicy)
     else
     and_then (case (clientInput, evi_clientInputTransform inputs) of
         (Some v, Some transform) \<Rightarrow>
           and_then (wrap_res ErrExtensionPolicy (transform name v)) (\<lambda>w. Inr (Some w))
       | _ \<Rightarrow> Inr clientInput) (\<lambda>transformed.
     and_then (wrap_res ErrExtensionPolicy (rawExtensionValue transformed)) (\<lambda>clientInputValue.
     and_then (wrap_res ErrExtensionPolicy (rawExtensionValue authenticatorOutput)) (\<lambda>authenticatorOutputValue.
     if \<not> requested \<and> hasOutput then
       wrap_res ErrExtensionPolicy (PreserveRaw name
         \<lparr>rr_Requested = False, rr_ClientInput = clientInputValue, rr_ClientOutput = clientOutput,
          rr_AuthenticatorOutput = authenticatorOutputValue\<rparr> [''unrequested extension output ignored''])
     else if \<not> known then
       wrap_res ErrExtensionPolicy (PreserveRaw name
         \<lparr>rr_Requested = requested, rr_ClientInput = clientInputValue, rr_ClientOutput = clientOutput,
          rr_AuthenticatorOutput = authenticatorOutputValue\<rparr> [''unknown extension preserved''])
     else
       wrap_res ErrExtensionPolicy (Registry_VerifyOutput (evi_registry inputs) ctx
         \<lparr>or_Operation = evi_operation inputs, or_ID = name, or_Requested = requested,
          or_SelectedCredentialID = evi_selectedCredentialID inputs, or_ClientInput = clientInputValue,
          or_ClientOutput = clientOutput, or_AuthenticatorOutput = authenticatorOutputValue\<rparr>)))))"

text \<open>The context is polled once on entry and once before each identifier.\<close>

fun verifyExtensionList :: "ctx \<Rightarrow> extensionVerificationInputs \<Rightarrow> nat \<Rightarrow> string list \<Rightarrow> Results result" where
  "verifyExtensionList ctx inputs poll [] = Inr []"
| "verifyExtensionList ctx inputs poll (name # names) =
    check (wrap_err ErrExtensionPolicy (ctx poll))
    (and_then (verifyExtension ctx inputs name) (\<lambda>res.
     and_then (verifyExtensionList ctx inputs (poll + 1) names) (\<lambda>results. Inr (res # results))))"

definition verifyExtensions :: "ctx \<Rightarrow> extensionVerificationInputs \<Rightarrow> Results result" where
  "verifyExtensions ctx inputs =
    check (wrap_err ErrExtensionPolicy (ctx 0))
    (and_then (validateExtensionWork (evi_requestedExtensions inputs) (evi_clientExtensionResults inputs)
       (evi_authenticatorExtensions inputs)) (\<lambda>ids.
     verifyExtensionList ctx inputs 1 (sort ids)))"

definition validateClientExtensionResults :: "ClientOutputs \<Rightarrow> error option" where
  "validateClientExtensionResults results =
    (if length results > MaxEntries then Some (Wrapf ErrExtensionPolicy (Sentinel ErrTooManyEntries)) else
     first_err (\<lambda>(name, v).
       if \<not> RawValue_Present v then Some (Notef ErrExtensionPolicy ''absent client output value'')
       else if \<not> identifier_Valid name then Some (Notef ErrExtensionPolicy ''invalid extension id'')
       else None) results)"

section \<open>Inputs\<close>

record ExtensionInputPolicy =
  eip_RejectUnknown :: bool

definition normalizeRegisteredInput ::
  "ext_registry option \<Rightarrow> Operation \<Rightarrow> string \<Rightarrow> ExtensionInput \<Rightarrow> ExtensionInput result" where
  "normalizeRegisteredInput registry operation name input =
    and_then (NewRawValue input) (\<lambda>raw.
    and_then (Registry_ValidateInput registry \<lparr>ir_Operation = operation, ir_ID = name, ir_Input = raw\<rparr>) (\<lambda>normalized.
    and_then (RawValue_Clone normalized) NormalizeInput))"

text \<open>One iteration of the loop: the prepared value and, for a registered extension, its binding.\<close>

definition prepareExtensionInput ::
  "Operation \<Rightarrow> ext_registry option \<Rightarrow> ExtensionInputPolicy \<Rightarrow> extensionInputTransform option
    \<Rightarrow> string \<Rightarrow> ExtensionInput \<Rightarrow> (ExtensionInput \<times> Binding option) result" where
  "prepareExtensionInput operation registry policy transform name input =
    (if \<not> identifier_Valid name then Inl (Notef ErrExtensionPolicy ''extension id is invalid'') else
     and_then (wrap_res ErrExtensionPolicy (CloneInput input)) (\<lambda>v.
     and_then (case transform of None \<Rightarrow> Inr v | Some f \<Rightarrow> wrap_res ErrExtensionPolicy (f name v)) (\<lambda>v.
     if \<not> Registry_Contains registry name then
       (if BuiltInBinding name \<noteq> None
        then Inl (Notef ErrExtensionPolicy (''built-in extension '' @ name @ '' requires its registered handler''))
        else if eip_RejectUnknown policy
        then Inl (Notef ErrExtensionPolicy (''unknown extension input '' @ name))
        else Inr (v, None))
     else
       and_then (wrap_res ErrExtensionPolicy (normalizeRegisteredInput registry operation name v)) (\<lambda>out.
       case Registry_Binding registry name of
         None \<Rightarrow> Inl (Wrapf ErrExtensionPolicy (Sentinel ErrBindingMismatch))
       | Some binding \<Rightarrow> Inr (out, Some binding)))))"

fun prepareExtensionList ::
  "Operation \<Rightarrow> ExtensionInputs \<Rightarrow> ext_registry option \<Rightarrow> ExtensionInputPolicy \<Rightarrow> extensionInputTransform option
    \<Rightarrow> string list \<Rightarrow> (ExtensionInputs \<times> Binding list) result" where
  "prepareExtensionList operation inputs registry policy transform [] = Inr ([], [])"
| "prepareExtensionList operation inputs registry policy transform (name # names) =
    and_then (prepareExtensionInput operation registry policy transform name
      (case map_of inputs name of None \<Rightarrow> VNil | Some v \<Rightarrow> v)) (\<lambda>(out, binding).
    and_then (prepareExtensionList operation inputs registry policy transform names) (\<lambda>(outs, bindings).
      Inr ((name, out) # outs, (case binding of None \<Rightarrow> bindings | Some b \<Rightarrow> b # bindings))))"

definition prepareExtensionInputs ::
  "Operation \<Rightarrow> ExtensionInputs \<Rightarrow> ext_registry option \<Rightarrow> ExtensionInputPolicy \<Rightarrow> extensionInputTransform option
    \<Rightarrow> (ExtensionInputs \<times> Binding list) result" where
  "prepareExtensionInputs operation inputs registry policy transform =
    (if inputs = [] then Inr ([], [])
     else if length inputs > MaxEntries then Inl (Wrapf ErrExtensionPolicy (Sentinel ErrTooManyEntries))
     else if registry = None
     then Inl (Notef ErrExtensionPolicy ''extension registry is required when extensions are requested'')
     else prepareExtensionList operation inputs registry policy transform (sorted_keys inputs))"

definition boundTo :: "Binding list \<Rightarrow> string \<Rightarrow> Binding option" where
  "boundTo bindings = map_of (rev (map (\<lambda>b. (bind_ID b, b)) bindings))"

definition validateFinishExtensionBindings ::
  "ExtensionInputs \<Rightarrow> Binding list \<Rightarrow> ext_registry option \<Rightarrow> error option" where
  "validateFinishExtensionBindings requested bindings registry =
    first_err (\<lambda>(name, _).
      case (boundTo bindings name, Registry_Binding registry name) of
        (Some binding, current) \<Rightarrow>
          if current \<noteq> Some binding then Some (Notef ErrBindingMismatch name) else None
      | (None, Some _) \<Rightarrow> Some (Notef ErrBindingMismatch (name @ '' was not bound at ceremony start''))
      | (None, None) \<Rightarrow> None) requested"

definition cloneExtensionInputs :: "ExtensionInputs \<Rightarrow> ExtensionInputs result" where
  "cloneExtensionInputs inputs =
    map_res (\<lambda>(name, v). and_then (CloneInput v) (\<lambda>cloned. Inr (name, cloned))) inputs"

section \<open>Verified outputs\<close>

definition registry_adapters :: "ext_registry option \<Rightarrow> bool" where
  "registry_adapters r \<longleftrightarrow>
    (case r of None \<Rightarrow> True | Some m \<Rightarrow> (\<forall>(_, entry)\<in>set m. wf_erased (rh_handler entry)))"

lemma PreserveRaw_InrD:
  "PreserveRaw name raw warnings = Inr res \<Longrightarrow> res_ID res = name \<and> \<not> res_Accepted res \<and> res_raw res"
  by (auto simp: PreserveRaw_def result_inv)

lemma Registry_VerifyOutput_InrD:
  assumes "Registry_VerifyOutput r ctx q = Inr res" "registry_adapters r"
  shows "res_ID res = or_ID q \<and> \<not> res_raw res \<and> Registry_Contains r (or_ID q)"
  using assms
  by (fastforce simp: Registry_VerifyOutput_def registry_adapters_def wf_erased_def Registry_Contains_def
      and_then_Inr_iff split: option.splits dest!: map_of_SomeD)

lemma verifyExtension_InrD:
  assumes "verifyExtension ctx inputs name = Inr res" "registry_adapters (evi_registry inputs)"
  shows "res_ID res = name \<and> (res_Accepted res \<longrightarrow> \<not> res_raw res) \<and>
    (\<not> res_raw res \<longrightarrow> map_of (evi_requestedExtensions inputs) name \<noteq> None \<or>
      map_of (evi_clientExtensionResults inputs) name = None \<and> map_of (evi_authenticatorExtensions inputs) name = None) \<and>
    (\<not> res_raw res \<longrightarrow> Registry_Contains (evi_registry inputs) name)"
  using assms
  by (auto simp: verifyExtension_def Let_def and_then_Inr_iff if_Inl_Inr_iff
      dest!: PreserveRaw_InrD Registry_VerifyOutput_InrD split: if_splits)

lemma verifyExtensionList_Inr_iff:
  "verifyExtensionList ctx inputs poll names = Inr results \<longleftrightarrow>
    (\<forall>i<length names. ctx (poll + i) = None) \<and> list_all2 (\<lambda>name res. verifyExtension ctx inputs name = Inr res) names results"
  by (induction names arbitrary: poll results)
    (auto simp: result_inv list_all2_Cons1 All_less_Suc2)

lemma checkIDs_None_iff [result_inv]: "checkIDs m = None \<longleftrightarrow> (\<forall>name\<in>fst ` set m. identifier_Valid name)"
  by (force simp: checkIDs_def first_err_None_iff split: if_splits)

lemma validateExtensionWork_Inr_iff:
  "validateExtensionWork requested client authenticator = Inr ids \<longleftrightarrow>
    length requested \<le> MaxEntries \<and> length client \<le> MaxEntries \<and> length authenticator \<le> MaxEntries \<and>
    ids = remdups (map fst requested @ map fst client @ map fst authenticator) \<and> length ids \<le> MaxEntries \<and>
    (\<forall>name\<in>set ids. identifier_Valid name)"
  unfolding validateExtensionWork_def Let_def if_Inl_Inr_iff check_Inr_iff checkIDs_None_iff
  by (cases "ids = remdups (map fst requested @ map fst client @ map fst authenticator)")
    (auto simp: ball_Un not_less)

definition extensionKeys :: "extensionVerificationInputs \<Rightarrow> string set" where
  "extensionKeys inputs = fst ` set (evi_requestedExtensions inputs)
    \<union> fst ` set (evi_clientExtensionResults inputs) \<union> fst ` set (evi_authenticatorExtensions inputs)"

lemma verifyExtensions_IDs:
  assumes run: "verifyExtensions ctx inputs = Inr results" and adapters: "registry_adapters (evi_registry inputs)"
  shows "sorted (map res_ID results) \<and> distinct (map res_ID results) \<and>
    set (map res_ID results) = extensionKeys inputs \<and> length results \<le> MaxEntries \<and>
    (\<forall>res\<in>set results. verifyExtension ctx inputs (res_ID res) = Inr res)"
proof -
  obtain ids where ids: "ids = remdups (map fst (evi_requestedExtensions inputs)
      @ map fst (evi_clientExtensionResults inputs) @ map fst (evi_authenticatorExtensions inputs))"
    "length ids \<le> MaxEntries"
    and all: "list_all2 (\<lambda>name res. verifyExtension ctx inputs name = Inr res) (sort ids) results"
    using run
    by (auto simp: verifyExtensions_def check_Inr_iff and_then_Inr_iff validateExtensionWork_Inr_iff
        verifyExtensionList_Inr_iff)
  have "list_all2 (\<lambda>name res. name = res_ID res \<and> verifyExtension ctx inputs (res_ID res) = Inr res) (sort ids) results"
    using all by (rule list_all2_mono) (use verifyExtension_InrD [OF _ adapters] in auto)
  then have eq: "sort ids = map res_ID results" "\<forall>res\<in>set results. verifyExtension ctx inputs (res_ID res) = Inr res"
    by (auto simp: list_all2_conv_all_nth list_eq_iff_nth_eq in_set_conv_nth)
  have "set ids = extensionKeys inputs" "distinct ids"
    by (auto simp: ids(1) extensionKeys_def)
  then show ?thesis
    using eq ids(2)
    by (metis distinct_sort length_map length_sort set_sort sorted_sort)
qed

section \<open>Prepared inputs\<close>

lemma prepareExtensionInput_InrD:
  assumes "prepareExtensionInput operation registry policy transform name input = Inr (out, binding)"
  shows "identifier_Valid name \<and> binding = Registry_Binding registry name \<and>
    (BuiltInBinding name \<noteq> None \<longrightarrow> Registry_Contains registry name)"
  using assms
  by (auto simp: prepareExtensionInput_def and_then_Inr_iff if_Inl_Inr_iff Registry_Contains_iff
      split: if_splits option.splits)

lemma prepareExtensionList_InrD:
  "prepareExtensionList operation inputs registry policy transform names = Inr (outs, bindings) \<Longrightarrow>
    map fst outs = names \<and> bindings = List.map_filter (Registry_Binding registry) names \<and>
    (\<forall>name\<in>set names. identifier_Valid name \<and> (BuiltInBinding name \<noteq> None \<longrightarrow> Registry_Contains registry name))"
proof (induction names arbitrary: outs bindings)
  case (Cons name names)
  then obtain out binding outs' bindings' where
    step: "prepareExtensionInput operation registry policy transform name
      (case map_of inputs name of None \<Rightarrow> VNil | Some v \<Rightarrow> v) = Inr (out, binding)"
    and rest: "prepareExtensionList operation inputs registry policy transform names = Inr (outs', bindings')"
    and res: "outs = (name, out) # outs'" "bindings = (case binding of None \<Rightarrow> bindings' | Some b \<Rightarrow> b # bindings')"
    by (auto simp: and_then_Inr_iff)
  show ?case
    using prepareExtensionInput_InrD [OF step] Cons.IH [OF rest] res
    by (auto simp: map_filter_simps split: option.splits)
qed (simp add: map_filter_simps)

lemma prepareExtensionInputs_InrD:
  assumes "prepareExtensionInputs operation inputs registry policy transform = Inr (outs, bindings)"
  shows "map fst outs = sorted_keys inputs \<and> length outs \<le> MaxEntries \<and>
    bindings = List.map_filter (Registry_Binding registry) (sorted_keys inputs) \<and>
    (\<forall>name\<in>fst ` set outs. identifier_Valid name \<and> (BuiltInBinding name \<noteq> None \<longrightarrow> Registry_Contains registry name))"
proof (cases "inputs = []")
  case True
  then show ?thesis
    using assms by (auto simp: prepareExtensionInputs_def sorted_keys_def map_filter_simps)
next
  case False
  then have run: "prepareExtensionList operation inputs registry policy transform (sorted_keys inputs) = Inr (outs, bindings)"
    and len: "length inputs \<le> MaxEntries"
    using assms by (auto simp: prepareExtensionInputs_def split: if_splits)
  have keys: "map fst outs = sorted_keys inputs"
    using prepareExtensionList_InrD [OF run] by simp
  then have "length outs = length inputs" "fst ` set outs = set (sorted_keys inputs)"
    by (metis length_map length_sorted_keys, metis list.set_map)
  then show ?thesis
    using prepareExtensionList_InrD [OF run] len by simp
qed

lemma cloneExtensionInputs_keys:
  "cloneExtensionInputs inputs = Inr outs \<Longrightarrow> map fst outs = map fst inputs"
  unfolding cloneExtensionInputs_def map_res_Inr_iff
  by (induction rule: list_all2_induct) (auto simp: and_then_Inr_iff)

text \<open>The finish of a ceremony accepts the bindings of its start, for the same registry.\<close>

lemma boundTo_distinct:
  assumes "distinct (map bind_ID bindings)"
  shows "boundTo bindings name = Some b \<longleftrightarrow> b \<in> set bindings \<and> bind_ID b = name"
proof -
  have "distinct (map fst (rev (map (\<lambda>b. (bind_ID b, b)) bindings)))"
    using assms by (simp add: rev_map [symmetric] comp_def)
  then show ?thesis
    by (auto simp: boundTo_def map_of_eq_Some_iff)
qed

lemma map_filter_Binding_keys:
  assumes "\<And>name b. Registry_Binding registry name = Some b \<Longrightarrow> bind_ID b = name"
  shows "map bind_ID (List.map_filter (Registry_Binding registry) names)
    = filter (\<lambda>name. Registry_Binding registry name \<noteq> None) names"
  using assms by (induction names) (auto simp: map_filter_simps split: option.splits)

lemma set_map_filter: "set (List.map_filter f xs) = {y. \<exists>x\<in>set xs. f x = Some y}"
  by (induction xs) (auto simp: map_filter_simps split: option.splits)

lemma prepared_bindings_accepted:
  assumes wf: "\<And>m. registry = Some m \<Longrightarrow> wf_ext_registry m"
    and keys: "fst ` set requested \<subseteq> set names" and names: "distinct names"
    and bindings: "bindings = List.map_filter (Registry_Binding registry) names"
  shows "validateFinishExtensionBindings requested bindings registry = None"
proof -
  have ID: "Registry_Binding registry name = Some b \<Longrightarrow> bind_ID b = name" for name b
    using Registry_Binding_wf [OF wf] by blast
  have "distinct (map bind_ID bindings)"
    unfolding bindings using map_filter_Binding_keys [OF ID] names by simp
  then have "boundTo bindings name = Registry_Binding registry name" if "name \<in> set names" for name
    using boundTo_distinct [of bindings name] that ID
    by (cases "Registry_Binding registry name"; cases "boundTo bindings name")
      (fastforce simp: bindings set_map_filter)+
  then show ?thesis
    using keys
    by (fastforce simp: validateFinishExtensionBindings_def first_err_None_iff split: option.splits)
qed

end
