(* ===== verification/Codec.thy ===== *)
theory Codec
  imports Protocol_AuthData
begin

text \<open>
  \<^verbatim>\<open>src/codec/codec.go\<close>, \<^verbatim>\<open>src/crypto/crypto.go\<close> and \<^verbatim>\<open>src/attestation/internal/attstmt\<close>: decoded
  key material, the interfaces of the injected decoders and verifiers, and the helpers that
  read attestation statement members.
\<close>

section \<open>Public keys\<close>

definition MaxCredentialPublicKeyBytes :: int where "MaxCredentialPublicKeyBytes = 64 * 1024"

record EC2PublicKeyMaterial =
  ec2_Curve :: string
  ec2_X :: bytes
  ec2_Y :: bytes

record RSAPublicKeyMaterial =
  rsa_Modulus :: bytes
  rsa_Exponent :: "32 word"

record OKPPublicKeyMaterial =
  okp_Curve :: string
  okp_X :: bytes

record CredentialPublicKeyMaterial =
  mat_EC2 :: "EC2PublicKeyMaterial option"
  mat_RSA :: "RSAPublicKeyMaterial option"
  mat_OKP :: "OKPPublicKeyMaterial option"

record CredentialPublicKey =
  cpk_Algorithm :: COSEAlgorithmIdentifier
  cpk_raw :: bytes
  cpk_material :: CredentialPublicKeyMaterial

definition EC2CurveP256 :: string where "EC2CurveP256 = ''P-256''"
definition EC2CurveP384 :: string where "EC2CurveP384 = ''P-384''"
definition EC2CurveP521 :: string where "EC2CurveP521 = ''P-521''"
definition OKPCurveEd25519 :: string where "OKPCurveEd25519 = ''Ed25519''"
definition OKPCurveEd448 :: string where "OKPCurveEd448 = ''Ed448''"
definition MinRSAModulusBits :: nat where "MinRSAModulusBits = 2048"
definition MaxRSAModulusBits :: nat where "MaxRSAModulusBits = 16384"

definition NewCredentialPublicKey ::
  "COSEAlgorithmIdentifier \<Rightarrow> bytes \<Rightarrow> CredentialPublicKeyMaterial \<Rightarrow> CredentialPublicKey" where
  "NewCredentialPublicKey algorithm raw material =
    \<lparr>cpk_Algorithm = algorithm, cpk_raw = raw, cpk_material = material\<rparr>"

definition NewCredentialPublicKeyWithU2F :: "COSEAlgorithmIdentifier \<Rightarrow> bytes \<Rightarrow> bytes \<Rightarrow> CredentialPublicKey" where
  "NewCredentialPublicKeyWithU2F algorithm raw u2fRaw =
    NewCredentialPublicKey algorithm raw
      \<lparr>mat_EC2 = (if length u2fRaw = 65 \<and> u2fRaw ! 0 = 0x04
         then Some \<lparr>ec2_Curve = EC2CurveP256, ec2_X = take 32 (drop 1 u2fRaw), ec2_Y = drop 33 u2fRaw\<rparr> else None),
       mat_RSA = None, mat_OKP = None\<rparr>"

definition U2FPublicKey :: "CredentialPublicKey \<Rightarrow> go_bytes" where
  "U2FPublicKey k =
    (case mat_EC2 (cpk_material k) of None \<Rightarrow> None
     | Some m \<Rightarrow>
       if cpk_Algorithm k \<noteq> AlgorithmES256 \<or> ec2_Curve m \<noteq> EC2CurveP256 \<or> length (ec2_X m) \<noteq> 32
         \<or> length (ec2_Y m) \<noteq> 32
       then None else Some ([0x04] @ ec2_X m @ ec2_Y m))"

definition PublicKey_Validate :: "CredentialPublicKey \<Rightarrow> error option" where
  "PublicKey_Validate k =
    (if cpk_Algorithm k = 0 \<or> length (cpk_raw k) = 0 \<or> int (length (cpk_raw k)) > MaxCredentialPublicKeyBytes
     then Some (Sentinel ErrInvalidCredentialPublicKey)
     else Algorithm_Validate (cpk_Algorithm k))"

text \<open>\<^verbatim>\<open>bits.Len8\<close>: the number of significant bits of a byte.\<close>

definition Len8 :: "byte \<Rightarrow> nat" where
  "Len8 b = (if b = 0 then 0 else length (takeWhile (\<lambda>i. 2 ^ i \<le> unat b) [0..<8]))"

definition RSA_Valid :: "RSAPublicKeyMaterial option \<Rightarrow> bool" where
  "RSA_Valid key =
    (case key of None \<Rightarrow> False
     | Some m \<Rightarrow>
       if rsa_Modulus m = [] \<or> hd (rsa_Modulus m) = 0 \<or> unat (last (rsa_Modulus m)) mod 2 = 0
         \<or> unat (rsa_Exponent m) < 3 \<or> unat (rsa_Exponent m) mod 2 = 0
       then False
       else let modulusBits = (length (rsa_Modulus m) - 1) * 8 + Len8 (hd (rsa_Modulus m)) in
         modulusBits \<ge> MinRSAModulusBits \<and> modulusBits \<le> MaxRSAModulusBits)"

section \<open>Decoders and verifiers\<close>

record DecodedAttestationObject =
  dao_Format :: string
  dao_AuthenticatorData :: AuthenticatorData
  dao_Statement :: "AttestationStatement"
  dao_Raw :: AttestationObject

type_synonym AttestationObjectDecoder = "(AttestationObject \<Rightarrow> DecodedAttestationObject result) iface"
type_synonym COSEKeyDecoder = "(bytes \<Rightarrow> CredentialPublicKey result) iface"
type_synonym ExtensionMapDecoder = "(bytes \<Rightarrow> ExtensionMap result) iface"

type_synonym AlgorithmPolicy = "(COSEAlgorithmIdentifier \<Rightarrow> bool) iface"

record SignatureInput =
  si_Algorithm :: COSEAlgorithmIdentifier
  si_PublicKey :: CredentialPublicKeyMaterial
  si_RawCredentialPublicKey :: bytes
  si_Signed :: bytes
  si_Signature :: Signature

type_synonym SignatureVerifier = "(ctx \<Rightarrow> SignatureInput \<Rightarrow> error option) iface"

type_synonym Certificate = bytes
type_synonym CertificateChain = "Certificate list"

record CertificateVerificationContext =
  cvc_DNSName :: string
  cvc_CurrentTime :: int
  cvc_Roots :: CertificateChain

record CertificateVerification =
  cv_Trusted :: bool
  cv_Warnings :: "string list"

type_synonym CertificateVerifier =
  "(ctx \<Rightarrow> CertificateChain \<Rightarrow> CertificateVerificationContext \<Rightarrow> CertificateVerification result) iface"

type_synonym JWSToken = bytes

record JWSVerification =
  jws_Payload :: bytes
  jws_Certificates :: CertificateChain

type_synonym JWSVerifier = "(ctx \<Rightarrow> JWSToken \<Rightarrow> JWSVerification result) iface"

section \<open>Attestation statement members\<close>

definition uintAlgorithm :: "int \<Rightarrow> sentinel \<Rightarrow> COSEAlgorithmIdentifier result" where
  "uintAlgorithm v invalid = (if v > 2 ^ 63 - 1 then Inl (Sentinel invalid) else Inr v)"

fun algorithm_number :: "goval \<Rightarrow> sentinel \<Rightarrow> COSEAlgorithmIdentifier result" where
  "algorithm_number (VCOSEAlgorithm a) invalid = Inr a"
| "algorithm_number (VInt k n) invalid = (if k \<in> {KUint, KUint64} then uintAlgorithm n invalid else Inr n)"
| "algorithm_number _ invalid = Inl (Notef invalid ''alg field has type'')"

definition attstmt_Algorithm :: "goval \<Rightarrow> sentinel \<Rightarrow> COSEAlgorithmIdentifier result" where
  "attstmt_Algorithm v invalid =
    and_then (algorithm_number v invalid) (\<lambda>algorithm.
    check (wrap_err invalid (Algorithm_Validate algorithm)) (Inr algorithm))"

fun attstmt_Bytes :: "goval \<Rightarrow> sentinel \<Rightarrow> bytes result" where
  "attstmt_Bytes (VBytes b) invalid =
    (if bytes_of b = [] then Inl (Notef invalid ''bytes field has type'') else Inr (bytes_of b))"
| "attstmt_Bytes _ invalid = Inl (Notef invalid ''bytes field has type'')"

fun attstmt_String :: "goval \<Rightarrow> sentinel \<Rightarrow> string result" where
  "attstmt_String (VString s) invalid =
    (if s = [] then Inl (Notef invalid ''string field has type'') else Inr s)"
| "attstmt_String _ invalid = Inl (Notef invalid ''string field has type'')"

definition cloneByteSlices :: "goval list \<Rightarrow> sentinel \<Rightarrow> bytes list result" where
  "cloneByteSlices xs invalid =
    (if xs = [] then Inl (Sentinel invalid)
     else map_res (\<lambda>x. case attstmt_Bytes x invalid of Inl _ \<Rightarrow> Inl (Sentinel invalid) | Inr b \<Rightarrow> Inr b) xs)"

fun attstmt_X5C :: "goval \<Rightarrow> sentinel \<Rightarrow> bytes list result" where
  "attstmt_X5C (VSlice t xs) invalid =
    (let ys = (case xs of None \<Rightarrow> [] | Some ys \<Rightarrow> ys) in
     if t = TSlice (TInt KUint8) then cloneByteSlices ys invalid
     else if t = TIface then
       and_then (map_res (\<lambda>x. case attstmt_Bytes x invalid of
           Inl _ \<Rightarrow> Inl (Notef invalid ''x5c entry has type'') | Inr b \<Rightarrow> Inr b) ys) (\<lambda>out.
       if out = [] then Inl (Sentinel invalid) else Inr out)
     else Inl (Notef invalid ''x5c field has type''))"
| "attstmt_X5C _ invalid = Inl (Notef invalid ''x5c field has type'')"

definition attstmt_SingleX5C :: "goval \<Rightarrow> sentinel \<Rightarrow> bytes result" where
  "attstmt_SingleX5C v invalid =
    and_then (attstmt_X5C v invalid) (\<lambda>x5c.
    if length x5c \<noteq> 1 then Inl (Sentinel invalid) else Inr (hd x5c))"

section \<open>Facts\<close>

lemma PublicKey_Validate_None_iff [result_inv]:
  "PublicKey_Validate k = None \<longleftrightarrow> cpk_Algorithm k \<noteq> 0 \<and> cpk_raw k \<noteq> []
    \<and> int (length (cpk_raw k)) \<le> MaxCredentialPublicKeyBytes \<and> Algorithm_Validate (cpk_Algorithm k) = None"
  by (auto simp: PublicKey_Validate_def)

text \<open>An uncompressed P-256 point survives the round trip through typed key material.\<close>

lemma U2F_roundtrip:
  assumes "length u2f = 65" "u2f ! 0 = 0x04"
  shows "U2FPublicKey (NewCredentialPublicKeyWithU2F AlgorithmES256 raw u2f) = Some u2f"
proof -
  have "u2f = u2f ! 0 # drop 1 u2f"
    using assms(1) by (cases u2f) auto
  moreover have "take 32 (drop 1 u2f) @ drop 33 u2f = drop 1 u2f"
    using append_take_drop_id [of 32 "drop 1 u2f"] by simp
  ultimately show ?thesis
    using assms by (simp add: U2FPublicKey_def NewCredentialPublicKeyWithU2F_def NewCredentialPublicKey_def)
qed

lemma attstmt_Bytes_nonempty: "attstmt_Bytes v invalid = Inr b \<Longrightarrow> b \<noteq> []"
  by (cases "(v, invalid)" rule: attstmt_Bytes.cases) (auto split: if_splits)

lemma map_res_attstmt_Bytes:
  "map_res (\<lambda>x. case attstmt_Bytes x invalid of Inl _ \<Rightarrow> Inl e | Inr b \<Rightarrow> Inr b) xs = Inr certs \<Longrightarrow>
    length certs = length xs \<and> [] \<notin> set certs"
proof (induction xs arbitrary: certs)
  case (Cons x xs)
  then show ?case
    using attstmt_Bytes_nonempty [of x invalid] by (fastforce simp: and_then_Inr_iff split: sum.splits)
qed simp

lemma attstmt_X5C_nonempty:
  "attstmt_X5C v invalid = Inr certs \<Longrightarrow> certs \<noteq> [] \<and> [] \<notin> set certs"
  by (cases "(v, invalid)" rule: attstmt_X5C.cases)
    (auto simp: Let_def cloneByteSlices_def and_then_Inr_iff dest!: map_res_attstmt_Bytes split: if_splits)

end
