(* ===== verification/Attestation_Core.thy ===== *)
theory Attestation_Core
  imports Codec Keyed_Registry
begin

text \<open>
  \<^verbatim>\<open>src/attestation/attestation.go\<close>, \<^verbatim>\<open>evidence.go\<close> and \<^verbatim>\<open>none/none.go\<close>: verification results
  and trust paths, the registry of format verifiers and the verifier of the \<^verbatim>\<open>none\<close> format.
\<close>

section \<open>Types and results\<close>

type_synonym att_Type = string
type_synonym TrustPathKind = string

definition TypeNone :: att_Type where "TypeNone = ''none''"
definition TypeSelf :: att_Type where "TypeSelf = ''self''"
definition TypeBasic :: att_Type where "TypeBasic = ''basic''"
definition TypeAttCA :: att_Type where "TypeAttCA = ''attca''"
definition TypeAnonymizationCA :: att_Type where "TypeAnonymizationCA = ''anonymization-ca''"
definition TypeUncertain :: att_Type where "TypeUncertain = ''uncertain''"

definition Type_Known :: "att_Type \<Rightarrow> bool" where
  "Type_Known t \<longleftrightarrow> t \<in> set [TypeNone, TypeSelf, TypeBasic, TypeAttCA, TypeAnonymizationCA, TypeUncertain]"

definition TrustPathNone :: TrustPathKind where "TrustPathNone = ''none''"
definition TrustPathX509 :: TrustPathKind where "TrustPathX509 = ''x5c''"
definition TrustPathRaw :: TrustPathKind where "TrustPathRaw = ''raw''"
definition TrustPathCompound :: TrustPathKind where "TrustPathCompound = ''compound''"

definition TrustPathKind_Known :: "TrustPathKind \<Rightarrow> bool" where
  "TrustPathKind_Known k \<longleftrightarrow> k \<in> set [TrustPathNone, TrustPathX509, TrustPathRaw, TrustPathCompound]"

text \<open>
  Format-specific evidence: that of the compound format and of Android SafetyNet (version,
  timestamp, package name, certificate digests, CTS profile match, basic integrity), or evidence
  of the application, whose \<^verbatim>\<open>CloneEvidence\<close> returns an equal, independent copy by the
  contract stated in \<^verbatim>\<open>evidence.go\<close>.
\<close>

datatype Evidence =
    CompoundEvidence int int
  | SafetyNetEvidence string int string "bytes list" bool bool
  | FormatEvidence string nat

datatype VerificationResult = VerificationResult
    (vr_Type: att_Type) (vr_TrustPath: TrustPath) (vr_CryptographicallyValid: bool)
    (vr_Warnings: "string list") (vr_Evidence: "Evidence iface")
  and TrustPath = TrustPath
    (tp_Kind: TrustPathKind) (tp_Certificates: CertificateChain) (tp_Raw: go_bytes)
    (tp_Statements: "VerificationResult list option")

definition cloneEvidence :: "Evidence iface \<Rightarrow> Evidence iface" where
  "cloneEvidence v = (if IsNil v then NilIface else v)"

fun VerificationResult_Clone :: "VerificationResult \<Rightarrow> VerificationResult"
  and cloneTrustPath :: "TrustPath \<Rightarrow> TrustPath" where
  "VerificationResult_Clone (VerificationResult t path valid warnings evidence) =
    VerificationResult t (cloneTrustPath path) valid warnings (cloneEvidence evidence)"
| "cloneTrustPath (TrustPath kind certificates raw statements) =
    TrustPath kind certificates raw (map_option (map VerificationResult_Clone) statements)"

record VerificationRequest =
  vq_Format :: string
  vq_ConveyancePreference :: AttestationConveyancePreference
  vq_AuthenticatorData :: AuthenticatorData
  vq_ClientDataHash :: bytes
  vq_Statement :: AttestationStatement
  vq_CredentialPublicKey :: CredentialPublicKey
  vq_RawAttestationObject :: AttestationObject

record TrustRequest =
  tq_Format :: string
  tq_Result :: VerificationResult
  tq_AAGUID :: AAGUID
  tq_AuthenticatorData :: AuthenticatorData
  tq_CredentialPublicKey :: CredentialPublicKey
  tq_RawAttestationObject :: AttestationObject

record TrustResult =
  trust_Accepted :: bool
  trust_Reason :: string
  trust_Warnings :: "string list"

type_synonym TrustPolicy = "(ctx option \<Rightarrow> TrustRequest \<Rightarrow> TrustResult result) iface"

text \<open>\<^verbatim>\<open>TrustPolicyFunc\<close>: a nil function is a typed nil, and calling it is an error.\<close>

definition TrustPolicyFunc_Evaluate ::
  "(ctx option \<Rightarrow> TrustRequest \<Rightarrow> TrustResult result) option \<Rightarrow> ctx option \<Rightarrow> TrustRequest \<Rightarrow> TrustResult result" where
  "TrustPolicyFunc_Evaluate f ctx request =
    (case f of None \<Rightarrow> Inl (Sentinel ErrTrustPolicyConfiguration) | Some g \<Rightarrow> g ctx request)"

section \<open>Format verifiers and their registry\<close>

record Verifier =
  v_Format :: string
  v_VerifyAttestation :: "ctx option \<Rightarrow> VerificationRequest \<Rightarrow> VerificationResult result"

type_synonym att_registry = "Verifier go_map"

definition verifierUsable :: "Verifier iface \<Rightarrow> bool" where
  "verifierUsable v = (case v of Impl w \<Rightarrow> identifier_Valid (v_Format w) | _ \<Rightarrow> False)"

definition verifierFormat :: "Verifier iface \<Rightarrow> string" where
  "verifierFormat v = (case v of Impl w \<Rightarrow> v_Format w | _ \<Rightarrow> [])"

definition verifierImpl :: "Verifier iface \<Rightarrow> Verifier" where
  "verifierImpl v = (case v of Impl w \<Rightarrow> w
    | _ \<Rightarrow> \<lparr>v_Format = [], v_VerifyAttestation = (\<lambda>_ _. Inl (External ''nil verifier''))\<rparr>)"

fun addVerifiers :: "att_registry \<Rightarrow> Verifier iface list \<Rightarrow> att_registry result" where
  "addVerifiers registry [] = Inr registry"
| "addVerifiers registry (v # vs) =
    (if \<not> verifierUsable v then Inl (Sentinel ErrInvalidFormat)
     else if map_of registry (verifierFormat v) \<noteq> None
     then Inl (Notef ErrDuplicateFormat (verifierFormat v))
     else addVerifiers (map_put (verifierFormat v) (verifierImpl v) registry) vs)"

definition att_NewRegistry :: "Verifier iface list \<Rightarrow> att_registry result" where
  "att_NewRegistry verifiers = addVerifiers [] verifiers"

definition att_Lookup :: "att_registry option \<Rightarrow> string \<Rightarrow> Verifier option" where
  "att_Lookup r format = (case r of None \<Rightarrow> None | Some m \<Rightarrow> map_of m format)"

lemma addVerifiers_Inr_iff:
  "addVerifiers acc vs = Inr m \<longleftrightarrow>
    (\<forall>v\<in>set vs. verifierUsable v) \<and> distinct (map verifierFormat vs) \<and>
    (\<forall>v\<in>set vs. verifierFormat v \<notin> fst ` set acc) \<and> m = acc @ map (\<lambda>v. (verifierFormat v, verifierImpl v)) vs"
proof (induction vs arbitrary: acc)
  case (Cons v vs)
  show ?case
  proof (cases "verifierUsable v \<and> map_of acc (verifierFormat v) = None")
    case True
    then have fresh: "verifierFormat v \<notin> fst ` set acc"
      by (simp add: map_of_eq_None_iff)
    have keys: "(\<forall>x\<in>set vs. verifierFormat x \<notin> fst ` set (acc @ [(verifierFormat v, verifierImpl v)])) \<longleftrightarrow>
        verifierFormat v \<notin> verifierFormat ` set vs \<and> (\<forall>x\<in>set vs. verifierFormat x \<notin> fst ` set acc)"
      by (simp add: image_iff [of "verifierFormat v"] ball_conj_distrib) (metis (no_types))
    have "addVerifiers acc (v # vs) = addVerifiers (acc @ [(verifierFormat v, verifierImpl v)]) vs"
      using True fresh by (simp add: map_put_fresh)
    then have "addVerifiers acc (v # vs) = Inr m \<longleftrightarrow>
        (\<forall>x\<in>set vs. verifierUsable x) \<and> distinct (map verifierFormat vs) \<and>
        (verifierFormat v \<notin> verifierFormat ` set vs \<and> (\<forall>x\<in>set vs. verifierFormat x \<notin> fst ` set acc)) \<and>
        m = (acc @ [(verifierFormat v, verifierImpl v)]) @ map (\<lambda>v. (verifierFormat v, verifierImpl v)) vs"
      by (simp only: Cons.IH keys)
    then show ?thesis
      using True fresh by (simp del: addVerifiers.simps add: conj_ac)
  next
    case False
    then show ?thesis
      by (auto simp: map_of_eq_None_iff)
  qed
qed auto

interpretation att_registry: keyed_registry att_NewRegistry verifierFormat verifierImpl verifierUsable "\<lambda>_. True"
  by unfold_locales (auto simp: att_NewRegistry_def addVerifiers_Inr_iff)

section \<open>The none format\<close>

definition none_format :: string where "none_format = ''none''"

definition none_VerifyAttestation :: "ctx option \<Rightarrow> VerificationRequest \<Rightarrow> VerificationResult result" where
  "none_VerifyAttestation ctx request =
    (if vq_Format request \<noteq> none_format \<or> length (vq_Statement request) \<noteq> 0
     then Inl (Sentinel ErrNoneInvalidStatement)
     else Inr (VerificationResult TypeNone (TrustPath TrustPathNone [] None None) True [] NilIface))"

definition none_Verifier :: Verifier where
  "none_Verifier = \<lparr>v_Format = none_format, v_VerifyAttestation = none_VerifyAttestation\<rparr>"

section \<open>Copies\<close>

lemma Clone_keeps [simp]:
  "vr_Type (VerificationResult_Clone r) = vr_Type r"
  "vr_CryptographicallyValid (VerificationResult_Clone r) = vr_CryptographicallyValid r"
  "vr_Warnings (VerificationResult_Clone r) = vr_Warnings r"
  "vr_TrustPath (VerificationResult_Clone r) = cloneTrustPath (vr_TrustPath r)"
  "vr_Evidence (VerificationResult_Clone r) = cloneEvidence (vr_Evidence r)"
  "tp_Kind (cloneTrustPath p) = tp_Kind p" "tp_Certificates (cloneTrustPath p) = tp_Certificates p"
  "tp_Raw (cloneTrustPath p) = tp_Raw p"
  "tp_Statements (cloneTrustPath p) = map_option (map VerificationResult_Clone) (tp_Statements p)"
  by (cases r; simp)+ (cases p; simp)+

lemma cloneEvidence_idem [simp]: "cloneEvidence (cloneEvidence v) = cloneEvidence v"
  by (simp add: cloneEvidence_def)

lemma Clone_idem [simp]:
  "VerificationResult_Clone (VerificationResult_Clone r) = VerificationResult_Clone r"
  "cloneTrustPath (cloneTrustPath p) = cloneTrustPath p"
proof (induction r and p rule: VerificationResult_Clone_cloneTrustPath.induct)
  case (2 kind certificates raw statements)
  then show ?case
    by (cases statements) auto
qed simp

end
