(* ===== verification/Validation.thy ===== *)
theory Validation
  imports Extension_Verification Attestation_Core
begin

text \<open>
  \<^verbatim>\<open>src/validation.go\<close>: the ceremony states that a caller stores between start and finish, the
  credential record, and their invariants. The types are those of \<^verbatim>\<open>registration_start.go\<close>,
  \<^verbatim>\<open>authentication.go\<close> and \<^verbatim>\<open>registration.go\<close>; they stand here because both ceremonies use them.
\<close>

record RegistrationState =
  rs_Challenge :: Challenge
  rs_RPID :: string
  rs_OriginPolicy :: OriginPolicy
  rs_ConditionalMediation :: bool
  rs_UserHandle :: UserHandle
  rs_RequestedUserVerification :: UserVerificationRequirement
  rs_RequestedExtensions :: ExtensionInputs
  rs_ExtensionBindings :: "Binding list"
  rs_AllowedAlgorithms :: "COSEAlgorithmIdentifier list"
  rs_Attestation :: AttestationConveyancePreference
  rs_ExpiresAt :: time

record AuthenticationState =
  as_Challenge :: Challenge
  as_RPID :: string
  as_OriginPolicy :: OriginPolicy
  as_RequestedUserVerification :: UserVerificationRequirement
  as_RequestedExtensions :: ExtensionInputs
  as_ExtensionBindings :: "Binding list"
  as_AllowCredentials :: "CredentialDescriptor list"
  as_ExpectedUserHandle :: UserHandle
  as_ExpiresAt :: time

record CredentialRecord =
  cr_Type :: PublicKeyCredentialType
  cr_ID :: CredentialID
  cr_PublicKey :: CredentialPublicKey
  cr_UserHandle :: UserHandle
  cr_RPID :: string
  cr_AAGUID :: AAGUID
  cr_SignCount :: "32 word"
  cr_Transports :: "AuthenticatorTransport list"
  cr_BackupEligible :: bool
  cr_BackupState :: bool
  cr_UVInitialized :: bool
  cr_AuthenticatorAttachment :: AuthenticatorAttachment
  cr_AttestationType :: att_Type

text \<open>\<^verbatim>\<open>time.Time.IsZero\<close> and \<^verbatim>\<open>time.Time.Before\<close>.\<close>

definition IsZero :: "time \<Rightarrow> bool" where "IsZero t \<longleftrightarrow> t = 0"
definition Before :: "time \<Rightarrow> time \<Rightarrow> bool" where "Before t u \<longleftrightarrow> t < u"

section \<open>Requested extensions and their bindings\<close>

definition validateRequestedExtensionIDs :: "ExtensionInputs \<Rightarrow> error option" where
  "validateRequestedExtensionIDs inputs =
    (if length inputs > MaxEntries then Some (Wrapf ErrInvalidCeremonyState (Sentinel ErrTooManyEntries)) else
     first_err (\<lambda>(name, _). if \<not> identifier_Valid name
       then Some (Notef ErrInvalidCeremonyState ''invalid extension id'') else None) inputs)"

text \<open>The loop over the stored bindings, with the identifier of the one before.\<close>

fun checkBindings :: "ExtensionInputs \<Rightarrow> string \<Rightarrow> Binding list \<Rightarrow> error option" where
  "checkBindings inputs previous [] = None"
| "checkBindings inputs previous (binding # bindings) =
    (if \<not> Binding_Valid binding \<or> bind_ID binding = previous
     then Some (Notef ErrInvalidCeremonyState ''extension binding is invalid'')
     else if map_of inputs (bind_ID binding) = None
     then Some (Notef ErrInvalidCeremonyState ''extension binding was not requested'')
     else checkBindings inputs (bind_ID binding) bindings)"

definition validateExtensionBindingState :: "ExtensionInputs \<Rightarrow> Binding list \<Rightarrow> error option" where
  "validateExtensionBindingState inputs bindings =
    (if length bindings > MaxEntries
     then Some (Wrapf ErrInvalidCeremonyState (Sentinel ErrTooManyEntries))
     else if \<not> sorted (map bind_ID bindings)
     then Some (Notef ErrInvalidCeremonyState ''extension bindings are not sorted'')
     else or_err (checkBindings inputs [] bindings)
      (first_err (\<lambda>(name, _). case BuiltInBinding name of
          None \<Rightarrow> None
        | Some expected \<Rightarrow>
            if (case boundTo bindings name of None \<Rightarrow> \<lparr>bind_ID = [], bind_Revision = []\<rparr> | Some b \<Rightarrow> b) \<noteq> expected
            then Some (Wrapf ErrInvalidCeremonyState (Notef ErrBindingMismatch name)) else None) inputs))"

section \<open>Ceremony states\<close>

definition RegistrationState_Validate :: "go_std \<Rightarrow> RegistrationState \<Rightarrow> error option" where
  "RegistrationState_Validate std state =
    (if bv_len (rs_Challenge state) = 0 \<or> rs_RPID state = [] then Some (Sentinel ErrInvalidCeremonyState) else
     or_err (wrap_err ErrInvalidCeremonyState (validateOriginPolicy std (rs_OriginPolicy state)))
     (or_err (wrap_err ErrInvalidCeremonyState
        (validateRPIDOriginPolicy std (rs_RPID state) (rs_OriginPolicy state)))
     (if bv_len (rs_UserHandle state) = 0
      then Some (Notef ErrInvalidCeremonyState ''user handle is required'')
      else if IsZero (rs_ExpiresAt state) then Some (Notef ErrInvalidCeremonyState ''expiry is required'')
      else if rs_AllowedAlgorithms state = []
      then Some (Notef ErrInvalidCeremonyState ''allowed algorithms are required'') else
      or_err (first_err (\<lambda>algorithm. wrap_err ErrInvalidCeremonyState (Algorithm_Validate algorithm))
        (rs_AllowedAlgorithms state))
      (if \<not> Attestation_Known (rs_Attestation state)
       then Some (Notef ErrInvalidCeremonyState ''invalid attestation conveyance'') else
       or_err (wrap_err ErrInvalidCeremonyState (validateUserVerification (rs_RequestedUserVerification state)))
       (or_err (validateRequestedExtensionIDs (rs_RequestedExtensions state))
        (validateExtensionBindingState (rs_RequestedExtensions state) (rs_ExtensionBindings state)))))))"

definition AuthenticationState_Validate :: "go_std \<Rightarrow> AuthenticationState \<Rightarrow> error option" where
  "AuthenticationState_Validate std state =
    (if bv_len (as_Challenge state) = 0 \<or> as_RPID state = [] then Some (Sentinel ErrInvalidCeremonyState) else
     or_err (wrap_err ErrInvalidCeremonyState (validateOriginPolicy std (as_OriginPolicy state)))
     (or_err (wrap_err ErrInvalidCeremonyState
        (validateRPIDOriginPolicy std (as_RPID state) (as_OriginPolicy state)))
     (if IsZero (as_ExpiresAt state) then Some (Notef ErrInvalidCeremonyState ''expiry is required'') else
      or_err (wrap_err ErrInvalidCeremonyState (validateUserVerification (as_RequestedUserVerification state)))
      (or_err (first_err (\<lambda>descriptor. wrap_err ErrInvalidCeremonyState (CredentialDescriptor_Validate descriptor))
        (as_AllowCredentials state))
      (or_err (validateRequestedExtensionIDs (as_RequestedExtensions state))
      (or_err (validateExtensionBindingState (as_RequestedExtensions state) (as_ExtensionBindings state))
       (wrap_err ErrInvalidCeremonyState
         (validateStoredAuthenticationExtensionContext (as_RequestedExtensions state) (as_AllowCredentials state)))))))))"

section \<open>Credential records\<close>

definition CredentialRecord_Validate :: "CredentialRecord \<Rightarrow> error option" where
  "CredentialRecord_Validate r =
    or_err (wrap_err ErrInvalidCredentialRecord (CredentialType_Validate (cr_Type r)))
    (if bv_len (cr_ID r) = 0 \<or> bv_len (cr_UserHandle r) = 0 \<or> cr_RPID r = []
     then Some (Notef ErrInvalidCredentialRecord ''required field is missing'') else
     or_err (wrap_err ErrInvalidCredentialRecord (PublicKey_Validate (cr_PublicKey r)))
     (if cr_BackupState r \<and> \<not> cr_BackupEligible r
      then Some (Wrapf ErrInvalidCredentialRecord (Sentinel ErrInvalidBackupState))
      else if cr_AuthenticatorAttachment r \<noteq> [] \<and> \<not> Attachment_Known (cr_AuthenticatorAttachment r)
      then Some (Notef ErrInvalidCredentialRecord ''authenticator attachment'')
      else if \<not> Type_Known (cr_AttestationType r)
      then Some (Notef ErrInvalidCredentialRecord ''attestation type'')
      else None))"

text \<open>\<^verbatim>\<open>Clone\<close> copies the transport slice; records are values here, so the copy is the record.\<close>

definition CredentialRecord_Clone :: "CredentialRecord \<Rightarrow> CredentialRecord" where
  "CredentialRecord_Clone r = r\<lparr>cr_Transports := cr_Transports r\<rparr>"

definition Descriptor :: "CredentialRecord \<Rightarrow> CredentialDescriptor" where
  "Descriptor r = \<lparr>cd_Type = cr_Type r, cd_ID = cr_ID r, cd_Transports = cr_Transports r\<rparr>"

section \<open>What validation establishes\<close>

lemma CredentialRecord_Clone_id [simp]: "CredentialRecord_Clone r = r"
  by (simp add: CredentialRecord_Clone_def)

lemma CredentialRecord_Validate_None_iff:
  "CredentialRecord_Validate r = None \<longleftrightarrow>
    cr_Type r = CredentialTypePublicKey \<and> bv_bytes (cr_ID r) \<noteq> [] \<and> bv_bytes (cr_UserHandle r) \<noteq> [] \<and>
    cr_RPID r \<noteq> [] \<and> PublicKey_Validate (cr_PublicKey r) = None \<and>
    (cr_BackupState r \<longrightarrow> cr_BackupEligible r) \<and>
    (cr_AuthenticatorAttachment r = [] \<or> Attachment_Known (cr_AuthenticatorAttachment r)) \<and>
    Type_Known (cr_AttestationType r)"
  by (auto simp: CredentialRecord_Validate_def or_err_None_iff if_Some_None_iff CredentialType_Validate_None_iff
      bv_len_def)

lemma Descriptor_Validate:
  "CredentialRecord_Validate r = None \<Longrightarrow> CredentialDescriptor_Validate (Descriptor r) = None"
  by (simp add: CredentialRecord_Validate_None_iff CredentialDescriptor_Validate_None_iff Descriptor_def)

lemma validateRequestedExtensionIDs_None_iff:
  "validateRequestedExtensionIDs inputs = None \<longleftrightarrow>
    length inputs \<le> MaxEntries \<and> (\<forall>name\<in>fst ` set inputs. identifier_Valid name)"
  by (force simp: validateRequestedExtensionIDs_def if_Some_None_iff first_err_None_iff not_less split: if_splits)

lemma checkBindings_None_iff:
  "sorted (map bind_ID bindings) \<Longrightarrow> \<forall>b\<in>set bindings. previous \<le> bind_ID b \<Longrightarrow>
    checkBindings inputs previous bindings = None \<longleftrightarrow>
      (\<forall>b\<in>set bindings. Binding_Valid b \<and> bind_ID b \<in> fst ` set inputs \<and> bind_ID b \<noteq> previous) \<and>
      distinct (map bind_ID bindings)"
proof (induction bindings arbitrary: previous)
  case (Cons binding bindings)
  have IH: "checkBindings inputs (bind_ID binding) bindings = None \<longleftrightarrow>
      (\<forall>b\<in>set bindings. Binding_Valid b \<and> bind_ID b \<in> fst ` set inputs \<and> bind_ID b \<noteq> bind_ID binding) \<and>
      distinct (map bind_ID bindings)"
    using Cons.prems by (intro Cons.IH) auto
  have "bind_ID b \<noteq> previous" if "b \<in> set bindings" "bind_ID b \<noteq> bind_ID binding" "bind_ID binding \<noteq> previous" for b
    using Cons.prems that by (metis list.set_intros(1) list.simps(9) order_antisym sorted_simps(2) image_eqI list.set_map)
  then show ?case
    using IH by (auto simp: map_of_eq_None_iff if_Some_None_iff image_iff)
qed simp

lemma validateExtensionBindingState_None_iff:
  "validateExtensionBindingState inputs bindings = None \<longleftrightarrow>
    length bindings \<le> MaxEntries \<and> sorted (map bind_ID bindings) \<and> distinct (map bind_ID bindings) \<and>
    (\<forall>b\<in>set bindings. Binding_Valid b \<and> bind_ID b \<in> fst ` set inputs) \<and>
    (\<forall>name\<in>fst ` set inputs. \<forall>expected. BuiltInBinding name = Some expected \<longrightarrow> expected \<in> set bindings)"
  (is "?run \<longleftrightarrow> ?inv")
proof -
  have nonempty: "Binding_Valid b \<Longrightarrow> bind_ID b \<noteq> []" for b
    by (auto simp: Binding_Valid_def dest: identifier_Valid_nonempty)
  have least: "\<forall>b\<in>set bindings. [] \<le> bind_ID b"
    by simp
  have bound: "(case boundTo bindings name of None \<Rightarrow> \<lparr>bind_ID = [], bind_Revision = []\<rparr> | Some b \<Rightarrow> b) = expected
      \<longleftrightarrow> expected \<in> set bindings"
    if "distinct (map bind_ID bindings)" "BuiltInBinding name = Some expected" for name expected
  proof -
    have "bind_ID expected = name" "name \<noteq> []"
      using BuiltInBinding_ID [OF that(2)] BuiltInBinding_Valid [OF that(2)] nonempty by auto
    then show ?thesis
      using boundTo_distinct [OF that(1), of name expected] boundTo_distinct [OF that(1), of name]
      by (cases "boundTo bindings name") auto
  qed
  show ?thesis
    using nonempty checkBindings_None_iff [OF _ least, of inputs] bound
    by (fastforce simp: validateExtensionBindingState_def if_Some_None_iff or_err_None_iff first_err_None_iff not_less
        split: option.splits if_splits)
qed

end
