(* ===== verification/Registration_Start.thy ===== *)
theory Registration_Start
  imports Validation
begin

text \<open>
  \<^verbatim>\<open>src/registration_start.go\<close>: \<^verbatim>\<open>StartRegistration\<close> builds the creation options for the
  browser and the state the caller stores. The copies it takes (\<^verbatim>\<open>clone\<close>, \<^verbatim>\<open>slices.Clone\<close>) are
  equal to their originals.
\<close>

definition OriginPolicy_clone :: "OriginPolicy \<Rightarrow> OriginPolicy" where
  "OriginPolicy_clone p =
    \<lparr>op_AllowedOrigins = op_AllowedOrigins p, op_AllowedTopOrigins = op_AllowedTopOrigins p,
     op_AllowCrossOriginWithoutTopOrigin = op_AllowCrossOriginWithoutTopOrigin p,
     op_AllowRelatedOrigins = op_AllowRelatedOrigins p\<rparr>"

definition CredentialDescriptor_Clone :: "CredentialDescriptor \<Rightarrow> CredentialDescriptor" where
  "CredentialDescriptor_Clone d = d\<lparr>cd_Transports := cd_Transports d\<rparr>"

definition cloneCredentialDescriptors :: "CredentialDescriptor list \<Rightarrow> CredentialDescriptor list" where
  "cloneCredentialDescriptors descriptors = map CredentialDescriptor_Clone descriptors"

record RegistrationStartOptions =
  rso_RP :: RPEntity
  rso_User :: UserEntity
  rso_OriginPolicy :: OriginPolicy
  rso_ConditionalMediation :: bool
  rso_Challenge :: Challenge
  rso_ChallengeGenerator :: ChallengeGenerator
  rso_PubKeyCredParams :: "CredentialParameter list"
  rso_Timeout :: duration
  rso_StateTTL :: duration
  rso_ExcludeCredentials :: "CredentialDescriptor list"
  rso_AuthenticatorSelection :: "AuthenticatorSelectionCriteria option"
  rso_Hints :: "PublicKeyCredentialHint list"
  rso_Attestation :: AttestationConveyancePreference
  rso_AttestationFormats :: "string list"
  rso_Extensions :: ExtensionInputs
  rso_ExtensionRegistry :: "ext_registry option"
  rso_ExtensionInputPolicy :: ExtensionInputPolicy
  rso_Now :: "time option"

record RegistrationStartResult =
  rsr_Options :: PublicKeyCredentialCreationOptions
  rsr_State :: RegistrationState

text \<open>The clock of a call: the injected \<^verbatim>\<open>Now\<close> callback, or \<^verbatim>\<open>time.Now\<close>.\<close>

definition options_now :: "go_env \<Rightarrow> time option \<Rightarrow> time" where
  "options_now env now = (case now of None \<Rightarrow> env_Now env | Some t \<Rightarrow> t)"

definition defaultedSelection ::
  "AuthenticatorSelectionCriteria option \<Rightarrow> UserVerificationRequirement \<Rightarrow> AuthenticatorSelectionCriteria option" where
  "defaultedSelection selection userVerification =
    map_option (\<lambda>s. if sel_UserVerification s = [] then s\<lparr>sel_UserVerification := userVerification\<rparr> else s) selection"

definition StartRegistration ::
  "go_std \<Rightarrow> go_env \<Rightarrow> ctx option \<Rightarrow> RegistrationStartOptions \<Rightarrow> RegistrationStartResult result" where
  "StartRegistration std env ctx options =
    (let ctx = normalizeContext ctx in
     check (wrap_err ErrInvalidConfiguration (RPEntity_Validate (rso_RP options)))
    (check (wrap_err ErrInvalidConfiguration (UserEntity_Validate (rso_User options)))
    (check (wrap_err ErrInvalidConfiguration (validateOriginPolicy std (rso_OriginPolicy options)))
    (check (wrap_err ErrInvalidConfiguration
       (validateRPIDOriginPolicy std (rp_ID (rso_RP options)) (rso_OriginPolicy options)))
    (check (wrap_err ErrInvalidConfiguration (Selection_Validate (rso_AuthenticatorSelection options)))
    (and_then (wrap_res ErrInvalidConfiguration (registrationCredentialParameters (rso_PubKeyCredParams options)))
      (\<lambda>credentialParameters.
     and_then (ceremonyChallenge env (rso_Challenge options) (rso_ChallengeGenerator options) ctx) (\<lambda>challenge.
     let userVerification = registrationUserVerification (rso_AuthenticatorSelection options) in
     check (wrap_err ErrInvalidConfiguration (validateUserVerification userVerification))
     (and_then (wrap_res ErrInvalidConfiguration
        (prepareExtensionInputs OperationRegistration (rso_Extensions options) (rso_ExtensionRegistry options)
          (rso_ExtensionInputPolicy options) None)) (\<lambda>(preparedExtensions, extensionBindings).
      check (wrap_err ErrInvalidConfiguration (validateRemoteClientDataInput std OperationRegistration
        preparedExtensions (rso_ExtensionRegistry options) challenge))
      (and_then (wrap_res ErrInvalidConfiguration (cloneExtensionInputs preparedExtensions)) (\<lambda>optionExtensions.
       and_then (wrap_res ErrInvalidConfiguration (cloneExtensionInputs preparedExtensions)) (\<lambda>stateExtensions.
       let attestationConveyance = (if rso_Attestation options = [] then AttestationNone else rso_Attestation options) in
       if \<not> Attestation_Known attestationConveyance
       then Inl (Wrapf ErrInvalidConfiguration (ValueError ''attestation'' attestationConveyance)) else
       let authenticatorSelection = defaultedSelection (rso_AuthenticatorSelection options) userVerification in
       and_then (wrap_res ErrInvalidConfiguration (timeoutState (rso_Timeout options) (rso_StateTTL options)
         (options_now env (rso_Now options)))) (\<lambda>(timeoutMilliseconds, expiresAt).
       let creationOptions =
         \<lparr>co_RP = rso_RP options, co_User = rso_User options, co_Challenge = challenge,
          co_PubKeyCredParams = credentialParameters, co_TimeoutMilliseconds = timeoutMilliseconds,
          co_ExcludeCredentials = cloneCredentialDescriptors (rso_ExcludeCredentials options),
          co_AuthenticatorSelection = authenticatorSelection, co_Hints = rso_Hints options,
          co_Attestation = attestationConveyance, co_AttestationFormats = rso_AttestationFormats options,
          co_Extensions = optionExtensions\<rparr> in
       check (wrap_err ErrInvalidConfiguration (CreationOptions_Validate creationOptions))
       (Inr \<lparr>rsr_Options = creationOptions, rsr_State =
         \<lparr>rs_Challenge = challenge, rs_RPID = rp_ID (rso_RP options),
          rs_OriginPolicy = OriginPolicy_clone (rso_OriginPolicy options),
          rs_ConditionalMediation = rso_ConditionalMediation options,
          rs_UserHandle = user_ID (rso_User options), rs_RequestedUserVerification = userVerification,
          rs_RequestedExtensions = stateExtensions, rs_ExtensionBindings = extensionBindings,
          rs_AllowedAlgorithms = algorithmsFromParameters credentialParameters,
          rs_Attestation = attestationConveyance, rs_ExpiresAt = expiresAt\<rparr>\<rparr>)))))))))))))))"

section \<open>The state a successful start returns\<close>

lemma clone_simps [simp]:
  "OriginPolicy_clone p = p" "CredentialDescriptor_Clone d = d" "cloneCredentialDescriptors ds = ds"
proof -
  show descriptor: "CredentialDescriptor_Clone d = d" for d
    by (simp add: CredentialDescriptor_Clone_def)
  show "cloneCredentialDescriptors ds = ds"
    by (simp add: cloneCredentialDescriptors_def descriptor map_idI)
qed (simp add: OriginPolicy_clone_def)

text \<open>
  The parts of a successful start that both ceremonies share: the extensions prepared for the
  browser and for the state, and their bindings, for a registry built by \<^verbatim>\<open>NewRegistry\<close>.
\<close>

definition extensionsBound :: "ext_registry option \<Rightarrow> ExtensionInputs \<Rightarrow> Binding list \<Rightarrow> bool" where
  "extensionsBound registry requested bindings \<longleftrightarrow>
    validateRequestedExtensionIDs requested = None \<and> validateExtensionBindingState requested bindings = None \<and>
    validateFinishExtensionBindings requested bindings registry = None"

lemma prepared_extensionsBound:
  assumes prepared: "prepareExtensionInputs operation inputs registry policy transform = Inr (outs, bindings)"
    and cloned: "cloneExtensionInputs outs = Inr requested"
    and inputs: "wf_map inputs" and wf: "\<And>m. registry = Some m \<Longrightarrow> wf_ext_registry m"
  shows "extensionsBound registry requested bindings"
proof -
  note facts = prepareExtensionInputs_InrD [OF prepared]
  have keys: "map fst requested = sorted_keys inputs"
    using facts cloneExtensionInputs_keys [OF cloned] by simp
  then have keyset: "fst ` set requested = fst ` set outs" "fst ` set requested = set (sorted_keys inputs)"
    "length requested = length outs"
    using facts by (metis list.set_map, metis list.set_map, metis length_map)
  note ID = Registry_Binding_wf [OF wf]
  have distinct: "distinct (sorted_keys inputs)"
    by (rule distinct_sorted_keys [OF inputs])
  have ids: "map bind_ID bindings = filter (\<lambda>name. Registry_Binding registry name \<noteq> None) (sorted_keys inputs)"
    using facts map_filter_Binding_keys [of registry] ID by metis
  have bindings: "b \<in> set bindings \<longleftrightarrow> (\<exists>name\<in>fst ` set requested. Registry_Binding registry name = Some b)" for b
    using facts keyset by (auto simp: set_map_filter)
  have "length bindings \<le> length (sorted_keys inputs)"
    by (metis ids length_filter_le length_map)
  then have len: "length bindings \<le> MaxEntries"
    using facts keyset by (metis le_trans length_map)
  have "validateExtensionBindingState requested bindings = None"
    unfolding validateExtensionBindingState_None_iff
  proof (intro conjI)
    show "sorted (map bind_ID bindings)" "distinct (map bind_ID bindings)"
      unfolding ids using distinct sorted_sorted_keys [of inputs] sorted_filter [of id "sorted_keys inputs"]
      by simp_all
    show "\<forall>b\<in>set bindings. Binding_Valid b \<and> bind_ID b \<in> fst ` set requested"
      using ID bindings by metis
    show "\<forall>name\<in>fst ` set requested. \<forall>expected. BuiltInBinding name = Some expected \<longrightarrow> expected \<in> set bindings"
      using facts keyset(1) bindings ID unfolding Registry_Contains_iff by (metis option.distinct(1) option.exhaust)
  qed (rule len)
  moreover have "validateRequestedExtensionIDs requested = None"
    using facts keyset by (auto simp: validateRequestedExtensionIDs_None_iff)
  moreover have "validateFinishExtensionBindings requested bindings registry = None"
    using prepared_bindings_accepted [of registry requested "sorted_keys inputs" bindings] wf keyset distinct facts
    by blast
  ultimately show ?thesis
    by (simp add: extensionsBound_def)
qed

text \<open>
  Prepared inputs do not change when they are copied, so the options and the state of a
  ceremony carry exactly the values the handlers normalised. \<open>wt_value\<close> is Go's typing of
  composite values; a handler can only return well-typed ones.
\<close>

definition registry_typed :: "ext_registry option \<Rightarrow> bool" where
  "registry_typed registry \<longleftrightarrow>
    (\<forall>name q raw. case Registry_lookup registry name of None \<Rightarrow> True
      | Some h \<Rightarrow> eh_ValidateInput h q = Inr (Some raw) \<longrightarrow> wt_value raw)"

definition transform_copies :: "extensionInputTransform option \<Rightarrow> bool" where
  "transform_copies transform \<longleftrightarrow>
    (\<forall>f name v w. transform = Some f \<longrightarrow> BuiltInBinding name = None \<longrightarrow> f name v = Inr w \<longrightarrow>
      CloneInput v = Inr v \<longrightarrow> CloneInput w = Inr w)"

declare case_option_Inl_iff [result_inv]

lemma NormalizeInput_fixed:
  assumes "NormalizeInput v = Inr i" "wt_value v"
  shows "CloneInput i = Inr i"
proof (cases "isExtensionInput v")
  case True
  then show ?thesis
    using assms CloneInput_fixed by (simp add: NormalizeInput_def)
next
  case False
  consider b where "v = VBool b" | s where "v = VString s" | "NormalizeInput v = NewRawInput v"
    using False by (cases v) (auto simp: NormalizeInput_def)
  then show ?thesis
  proof cases
    case 3
    then have raw: "NewRawInput v = Inr i"
      using assms(1) by simp
    then have "i \<noteq> VStringInput s" for s
      by (auto simp: NewRawInput_def and_then_Inr_iff)
    then show ?thesis
      using NewRawInput_fixed [OF raw assms(2)] by (simp add: CloneInput_Inr_iff)
  qed (use assms CloneInput_fixed [of "VStringInput _" i] in \<open>auto simp: NormalizeInput_def CloneInput_Inr_iff\<close>)
qed

lemma prepareExtensionInput_fixed:
  assumes run: "prepareExtensionInput operation registry policy transform name input = Inr (out, binding)"
    and wt: "wt_value input" "registry_typed registry" "transform_copies transform"
  shows "CloneInput out = Inr out"
proof (cases "Registry_Contains registry name")
  case True
  then obtain normalized v where "RawValue_Clone normalized = Inr v" "NormalizeInput v = Inr out"
    and handler: "\<exists>q. Registry_ValidateInput registry q = Inr normalized"
    using run
    by (simp only: prepareExtensionInput_def normalizeRegisteredInput_def and_then_Inr_iff if_Inl_Inr_iff
        wrap_res_simps not_True_eq_False if_False case_option_Inl_iff sum.inject prod.inject)
      (elim exE conjE, blast)
  moreover have "wt_value u" if "normalized = Some u" for u
    using handler wt(2) that by (fastforce simp: registry_typed_def Registry_ValidateInput_def split: option.splits)
  ultimately show ?thesis
    using RawValue_Clone_fixed [of normalized v] NormalizeInput_fixed [of v out] by blast
next
  case False
  then obtain v where "CloneInput input = Inr v" "BuiltInBinding name = None"
    "(case transform of None \<Rightarrow> Inr v | Some f \<Rightarrow> wrap_res ErrExtensionPolicy (f name v)) = Inr out"
    using run by (auto simp: prepareExtensionInput_def and_then_Inr_iff if_Inl_Inr_iff split: if_splits)
  then show ?thesis
    using CloneInput_fixed [of input v] wt unfolding transform_copies_def
    by (cases transform) auto
qed

lemma prepareExtensionList_fixed:
  "prepareExtensionList operation inputs registry policy transform names = Inr (outs, bindings) \<Longrightarrow>
    \<forall>(_, v)\<in>set inputs. wt_value v \<Longrightarrow> registry_typed registry \<Longrightarrow> transform_copies transform \<Longrightarrow>
    \<forall>(_, out)\<in>set outs. CloneInput out = Inr out"
proof (induction names arbitrary: outs bindings)
  case (Cons name names)
  then obtain out binding outs' bindings' where
    step: "prepareExtensionInput operation registry policy transform name
      (case map_of inputs name of None \<Rightarrow> VNil | Some v \<Rightarrow> v) = Inr (out, binding)"
    and rest: "prepareExtensionList operation inputs registry policy transform names = Inr (outs', bindings')"
    and outs: "outs = (name, out) # outs'"
    by (auto simp: and_then_Inr_iff)
  have "wt_value (case map_of inputs name of None \<Rightarrow> VNil | Some v \<Rightarrow> v)"
    using Cons.prems(2) by (auto split: option.splits dest: map_of_SomeD)
  then show ?case
    using prepareExtensionInput_fixed [OF step] Cons.IH [OF rest] Cons.prems outs by auto
qed simp

lemma prepared_clone_id:
  assumes "prepareExtensionInputs operation inputs registry policy transform = Inr (outs, bindings)"
    and "\<forall>(_, v)\<in>set inputs. wt_value v" "registry_typed registry" "transform_copies transform"
  shows "cloneExtensionInputs outs = Inr outs"
proof -
  have "\<forall>(_, out)\<in>set outs. CloneInput out = Inr out"
    using assms prepareExtensionList_fixed [of operation inputs registry policy transform "sorted_keys inputs" outs bindings]
    by (auto simp: prepareExtensionInputs_def split: if_splits)
  then show ?thesis
    by (auto simp: cloneExtensionInputs_def map_res_Inr_iff list_all2_same and_then_Inr_iff)
qed

text \<open>A typed handler behind the adapter returns well-typed values.\<close>

lemma Register_typed:
  assumes "\<And>x. wt_value (into x)" "eh_ValidateInput (Register into out assert handler) q = Inr (Some raw)"
  shows "wt_value raw"
proof -
  obtain x where "CloneValue (into x) = Inr raw"
    using assms(2)
    by (auto simp: Register_def erasedAdapter_ValidateInput_def NewRawValue_Inr_iff and_then_Inr_iff split: iface.splits)
  then show ?thesis
    using CloneValue_fixed assms(1) by blast
qed

lemma StartRegistration_InrE:
  assumes "StartRegistration std env ctx options = Inr out"
  obtains challenge params prepared ms where
    "ceremonyChallenge env (rso_Challenge options) (rso_ChallengeGenerator options) (normalizeContext ctx) = Inr challenge"
    "rs_Challenge (rsr_State out) = challenge" "co_Challenge (rsr_Options out) = challenge"
    "registrationCredentialParameters (rso_PubKeyCredParams options) = Inr params"
    "rs_AllowedAlgorithms (rsr_State out) = map cp_Algorithm params" "co_PubKeyCredParams (rsr_Options out) = params"
    "prepareExtensionInputs OperationRegistration (rso_Extensions options) (rso_ExtensionRegistry options)
      (rso_ExtensionInputPolicy options) None = Inr (prepared, rs_ExtensionBindings (rsr_State out))"
    "cloneExtensionInputs prepared = Inr (rs_RequestedExtensions (rsr_State out))"
    "cloneExtensionInputs prepared = Inr (co_Extensions (rsr_Options out))"
    "timeoutState (rso_Timeout options) (rso_StateTTL options) (options_now env (rso_Now options))
      = Inr (ms, rs_ExpiresAt (rsr_State out))"
    "rs_RPID (rsr_State out) = rp_ID (rso_RP options)" "rs_OriginPolicy (rsr_State out) = rso_OriginPolicy options"
    "rs_ConditionalMediation (rsr_State out) = rso_ConditionalMediation options"
    "rs_UserHandle (rsr_State out) = user_ID (rso_User options)"
    "rs_RequestedUserVerification (rsr_State out) = registrationUserVerification (rso_AuthenticatorSelection options)"
    "rs_Attestation (rsr_State out) = (if rso_Attestation options = [] then AttestationNone else rso_Attestation options)"
    "co_RP (rsr_Options out) = rso_RP options" "co_User (rsr_Options out) = rso_User options"
    "co_TimeoutMilliseconds (rsr_Options out) = ms" "co_Attestation (rsr_Options out) = rs_Attestation (rsr_State out)"
    "Attestation_Known (rs_Attestation (rsr_State out))"
    "UserVerification_Known (rs_RequestedUserVerification (rsr_State out))"
    "RPEntity_Validate (rso_RP options) = None" "UserEntity_Validate (rso_User options) = None"
    "validateOriginPolicy std (rso_OriginPolicy options) = None"
    "validateRPIDOriginPolicy std (rp_ID (rso_RP options)) (rso_OriginPolicy options) = None"
    "CreationOptions_Validate (rsr_Options out) = None"
  using assms
  unfolding StartRegistration_def Let_def algorithmsFromParameters_def
  by (simp only: check_Inr_iff and_then_Inr_iff wrap_res_simps wrap_err_simps if_Inl_Inr_iff clone_simps
      validateUserVerification_None_iff case_prod_unfold prod.exhaust_sel) (elim exE conjE, auto)

end
