(* ===== verification/Attestation_Policy.thy ===== *)
theory Attestation_Policy
  imports Attestation_Core
begin

text \<open>
  \<^verbatim>\<open>src/attestation/policy.go\<close>: the built-in relying-party trust policies. A policy is the
  function behind the \<^verbatim>\<open>TrustPolicy\<close> interface; the policies that call the application
  (certificate verifier, metadata and status providers) take it as an argument.
\<close>

section \<open>Requests to the application\<close>

record MetadataRequest =
  mq_Format :: string
  mq_Type :: att_Type
  mq_AAGUID :: AAGUID
  mq_TrustPath :: TrustPath
  mq_Evidence :: "Evidence iface"

record MetadataResult =
  mr_Found :: bool
  mr_Trusted :: bool
  mr_Reason :: string
  mr_Warnings :: "string list"

type_synonym MetadataProvider = "(ctx \<Rightarrow> MetadataRequest \<Rightarrow> MetadataResult result) iface"

type_synonym CertificateStatus = string

definition CertificateStatusGood :: CertificateStatus where "CertificateStatusGood = ''good''"
definition CertificateStatusUnknown :: CertificateStatus where "CertificateStatusUnknown = ''unknown''"

record CertificateStatusRequest =
  csq_Format :: string
  csq_Type :: att_Type
  csq_AAGUID :: AAGUID
  csq_TrustPath :: TrustPath
  csq_Certificates :: CertificateChain
  csq_Evidence :: "Evidence iface"

record CertificateStatusResult =
  csr_Status :: CertificateStatus
  csr_Reason :: string
  csr_Warnings :: "string list"

type_synonym CertificateStatusProvider =
  "(ctx \<Rightarrow> CertificateStatusRequest \<Rightarrow> CertificateStatusResult result) iface"

section \<open>Results\<close>

definition trustResult :: "bool \<Rightarrow> string \<Rightarrow> string list \<Rightarrow> TrustResult" where
  "trustResult acc reason warnings =
    \<lparr>trust_Accepted = acc, trust_Reason = reason, trust_Warnings = warnings\<rparr>"

definition accepted :: "string \<Rightarrow> TrustResult" where
  "accepted reason = trustResult True reason []"

definition rejected :: "string \<Rightarrow> TrustResult" where
  "rejected reason = trustResult False reason []"

definition reasonOrDefault :: "string \<Rightarrow> string \<Rightarrow> string" where
  "reasonOrDefault reason fallback = (if reason \<noteq> [] then reason else fallback)"

definition cloneTrustRequest :: "TrustRequest \<Rightarrow> TrustRequest" where
  "cloneTrustRequest request = request\<lparr>tq_Result := VerificationResult_Clone (tq_Result request)\<rparr>"

section \<open>Classification policies\<close>

definition allowTypesPolicy :: "att_Type list \<Rightarrow> string \<Rightarrow> string \<Rightarrow> TrustPolicy" where
  "allowTypesPolicy allowed acceptReason rejectReason = Impl (\<lambda>ctx request.
    Inr (if vr_Type (tq_Result request) \<notin> set allowed then rejected rejectReason else accepted acceptReason))"

definition rejectTypesPolicy :: "att_Type list \<Rightarrow> string \<Rightarrow> string \<Rightarrow> TrustPolicy" where
  "rejectTypesPolicy refused acceptReason rejectReason = Impl (\<lambda>ctx request.
    Inr (if vr_Type (tq_Result request) \<in> set refused then rejected rejectReason else accepted acceptReason))"

definition AcceptNone :: TrustPolicy where
  "AcceptNone = allowTypesPolicy [TypeNone] ''none attestation accepted by policy'' ''none attestation required by policy''"

definition RejectNone :: TrustPolicy where
  "RejectNone = rejectTypesPolicy [TypeNone] ''non-none attestation accepted by policy'' ''none attestation rejected by policy''"

definition AcceptSelf :: TrustPolicy where
  "AcceptSelf = allowTypesPolicy [TypeSelf] ''self attestation accepted by policy'' ''self attestation required by policy''"

definition RejectSelf :: TrustPolicy where
  "RejectSelf = rejectTypesPolicy [TypeSelf] ''non-self attestation accepted by policy'' ''self attestation rejected by policy''"

definition AllowTypes :: "att_Type list \<Rightarrow> TrustPolicy" where
  "AllowTypes types = allowTypesPolicy types ''attestation type accepted by policy'' ''attestation type rejected by policy''"

definition AllowFormats :: "string list \<Rightarrow> TrustPolicy" where
  "AllowFormats formats = Impl (\<lambda>ctx request.
    Inr (if tq_Format request \<notin> set formats then rejected ''attestation format rejected by policy''
         else accepted ''attestation format accepted by policy''))"

definition RequireAAGUID :: "AAGUID list \<Rightarrow> TrustPolicy" where
  "RequireAAGUID aaguids = Impl (\<lambda>ctx request.
    Inr (if tq_AAGUID request \<notin> set aaguids then rejected ''aaguid rejected by policy''
         else accepted ''aaguid accepted by policy''))"

section \<open>Policies that consult the application\<close>

definition hasX5C :: "TrustRequest \<Rightarrow> bool" where
  "hasX5C request \<longleftrightarrow> \<not> (tp_Kind (vr_TrustPath (tq_Result request)) \<noteq> TrustPathX509
    \<or> length (tp_Certificates (vr_TrustPath (tq_Result request))) = 0)"

definition RequireTrustedRoots :: "CertificateVerifier \<Rightarrow> CertificateVerificationContext \<Rightarrow> TrustPolicy" where
  "RequireTrustedRoots verifier verificationContext = Impl (\<lambda>ctx request.
    case verifier of
      Impl verify \<Rightarrow>
        if \<not> hasX5C request then Inr (rejected ''x5c trust path required by policy'') else
        and_then (verify (normalizeContext ctx) (tp_Certificates (vr_TrustPath (tq_Result request))) verificationContext)
          (\<lambda>verification.
          Inr (if \<not> cv_Trusted verification
            then trustResult False ''x5c trust path rejected by policy'' (cv_Warnings verification)
            else trustResult True ''x5c trust path accepted by policy'' (cv_Warnings verification)))
    | _ \<Rightarrow> Inl (Sentinel ErrTrustPolicyConfiguration))"

definition RequireTrustedMetadata :: "MetadataProvider \<Rightarrow> TrustPolicy" where
  "RequireTrustedMetadata provider = Impl (\<lambda>ctx request.
    case provider of
      Impl lookup \<Rightarrow>
        and_then (lookup (normalizeContext ctx)
          \<lparr>mq_Format = tq_Format request, mq_Type = vr_Type (tq_Result request), mq_AAGUID = tq_AAGUID request,
           mq_TrustPath = cloneTrustPath (vr_TrustPath (tq_Result request)),
           mq_Evidence = cloneEvidence (vr_Evidence (tq_Result request))\<rparr>) (\<lambda>metadata.
          Inr (if \<not> mr_Found metadata
            then trustResult False (reasonOrDefault (mr_Reason metadata) ''attestation metadata not found'') (mr_Warnings metadata)
            else if \<not> mr_Trusted metadata
            then trustResult False (reasonOrDefault (mr_Reason metadata) ''attestation metadata rejected by policy'') (mr_Warnings metadata)
            else trustResult True (reasonOrDefault (mr_Reason metadata) ''attestation metadata accepted by policy'') (mr_Warnings metadata)))
    | _ \<Rightarrow> Inl (Sentinel ErrTrustPolicyConfiguration))"

definition RequireCertificateStatus :: "CertificateStatusProvider \<Rightarrow> CertificateStatus list \<Rightarrow> TrustPolicy" where
  "RequireCertificateStatus provider statuses = Impl (\<lambda>ctx request.
    let allowed = (if statuses = [] then [CertificateStatusGood] else statuses) in
    case provider of
      Impl checkStatus \<Rightarrow>
        if \<not> hasX5C request then Inr (rejected ''x5c trust path required by policy'') else
        let trustPath = cloneTrustPath (vr_TrustPath (tq_Result request)) in
        and_then (checkStatus (normalizeContext ctx)
          \<lparr>csq_Format = tq_Format request, csq_Type = vr_Type (tq_Result request), csq_AAGUID = tq_AAGUID request,
           csq_TrustPath = trustPath, csq_Certificates = tp_Certificates trustPath,
           csq_Evidence = cloneEvidence (vr_Evidence (tq_Result request))\<rparr>) (\<lambda>res.
          let status = (if csr_Status res = [] then CertificateStatusUnknown else csr_Status res) in
          Inr (if status \<notin> set allowed
            then trustResult False (reasonOrDefault (csr_Reason res)
              (''certificate status '' @ [CHR 0x22] @ status @ [CHR 0x22] @ '' rejected by policy'')) (csr_Warnings res)
            else trustResult True (reasonOrDefault (csr_Reason res)
              (''certificate status '' @ [CHR 0x22] @ status @ [CHR 0x22] @ '' accepted by policy'')) (csr_Warnings res)))
    | _ \<Rightarrow> Inl (Sentinel ErrTrustPolicyConfiguration))"

section \<open>Combinators\<close>

fun allOf_loop :: "nat \<Rightarrow> string list \<Rightarrow> TrustPolicy list \<Rightarrow> ctx option \<Rightarrow> TrustRequest \<Rightarrow> TrustResult result" where
  "allOf_loop index warnings [] ctx request = Inr (trustResult True ''all trust policies accepted'' warnings)"
| "allOf_loop index warnings (policy # policies) ctx request =
    (case policy of
       Impl evaluate \<Rightarrow>
         and_then (evaluate ctx (cloneTrustRequest request)) (\<lambda>res.
         if \<not> trust_Accepted res then Inr (res\<lparr>trust_Warnings := warnings @ trust_Warnings res\<rparr>)
         else allOf_loop (index + 1) (warnings @ trust_Warnings res) policies ctx request)
     | _ \<Rightarrow> Inl (Notef ErrTrustPolicyConfiguration (''nil policy at index '' @ itoa (int index))))"

definition AllOf :: "TrustPolicy list \<Rightarrow> TrustPolicy" where
  "AllOf policies = Impl (\<lambda>ctx request.
    if policies = [] then Inl (Notef ErrTrustPolicyConfiguration ''all-of policy requires at least one child policy'')
    else allOf_loop 0 [] policies ctx request)"

fun anyOf_loop :: "nat \<Rightarrow> string list \<Rightarrow> TrustPolicy list \<Rightarrow> ctx option \<Rightarrow> TrustRequest \<Rightarrow> TrustResult result" where
  "anyOf_loop index warnings [] ctx request = Inr (trustResult False ''no trust policy accepted attestation'' warnings)"
| "anyOf_loop index warnings (policy # policies) ctx request =
    (case policy of
       Impl evaluate \<Rightarrow>
         and_then (evaluate ctx (cloneTrustRequest request)) (\<lambda>res.
         if trust_Accepted res then Inr res
         else anyOf_loop (index + 1) (warnings @ trust_Warnings res) policies ctx request)
     | _ \<Rightarrow> Inl (Notef ErrTrustPolicyConfiguration (''nil policy at index '' @ itoa (int index))))"

definition AnyOf :: "TrustPolicy list \<Rightarrow> TrustPolicy" where
  "AnyOf policies = Impl (\<lambda>ctx request.
    if policies = [] then Inl (Notef ErrTrustPolicyConfiguration ''any-of policy requires at least one child policy'')
    else anyOf_loop 0 [] policies ctx request)"

section \<open>What a policy decides\<close>

text \<open>The decision of a policy on a request: it accepts, it rejects, or it has none (an error).\<close>

definition evaluate :: "TrustPolicy \<Rightarrow> ctx option \<Rightarrow> TrustRequest \<Rightarrow> TrustResult result" where
  "evaluate policy ctx request =
    (case policy of Impl f \<Rightarrow> f ctx request | _ \<Rightarrow> Inl (Sentinel ErrTrustPolicyConfiguration))"

definition accepts :: "TrustPolicy \<Rightarrow> ctx option \<Rightarrow> TrustRequest \<Rightarrow> bool" where
  "accepts policy ctx request \<longleftrightarrow> (\<exists>res. evaluate policy ctx request = Inr res \<and> trust_Accepted res)"

definition rejects :: "TrustPolicy \<Rightarrow> ctx option \<Rightarrow> TrustRequest \<Rightarrow> bool" where
  "rejects policy ctx request \<longleftrightarrow> (\<exists>res. evaluate policy ctx request = Inr res \<and> \<not> trust_Accepted res)"

lemma allOf_loop_accepts:
  "(\<exists>res. allOf_loop index warnings policies ctx request = Inr res \<and> trust_Accepted res) \<longleftrightarrow>
    (\<forall>p\<in>set policies. accepts p ctx (cloneTrustRequest request))"
proof (induction policies arbitrary: index warnings)
  case (Cons p ps)
  show ?case
  proof (cases p)
    case (Impl f)
    then show ?thesis
      using Cons.IH
      by (cases "f ctx (cloneTrustRequest request)") (auto simp: accepts_def evaluate_def)
  qed (auto simp: accepts_def evaluate_def)
qed (simp add: trustResult_def)

lemma AllOf_accepts_iff:
  "accepts (AllOf policies) ctx request \<longleftrightarrow>
    policies \<noteq> [] \<and> (\<forall>p\<in>set policies. accepts p ctx (cloneTrustRequest request))"
  using allOf_loop_accepts [of 0 "[]" policies ctx request]
  by (auto simp: AllOf_def accepts_def [of "Impl _"] evaluate_def [of "Impl _"])

lemma anyOf_loop_accepts:
  "(\<exists>res. anyOf_loop index warnings policies ctx request = Inr res \<and> trust_Accepted res) \<longleftrightarrow>
    (\<exists>before p after. policies = before @ p # after \<and> accepts p ctx (cloneTrustRequest request) \<and>
      (\<forall>q\<in>set before. rejects q ctx (cloneTrustRequest request)))"
proof (induction policies arbitrary: index warnings)
  case (Cons p ps)
  let ?r = "cloneTrustRequest request"
  show ?case
  proof (cases p)
    case (Impl f)
    then show ?thesis
      unfolding first_split_Cons using Cons.IH
      by (cases "f ctx ?r") (auto simp: accepts_def [of "Impl _"] rejects_def [of "Impl _"] evaluate_def [of "Impl _"])
  next
    case NilIface
    then show ?thesis
      unfolding first_split_Cons by (simp add: accepts_def [of NilIface] rejects_def [of NilIface] evaluate_def)
  next
    case TypedNil
    then show ?thesis
      unfolding first_split_Cons by (simp add: accepts_def [of TypedNil] rejects_def [of TypedNil] evaluate_def)
  qed
qed (simp add: trustResult_def)

lemma AnyOf_accepts_iff:
  "accepts (AnyOf policies) ctx request \<longleftrightarrow>
    (\<exists>before p after. policies = before @ p # after \<and> accepts p ctx (cloneTrustRequest request) \<and>
      (\<forall>q\<in>set before. rejects q ctx (cloneTrustRequest request)))"
  using anyOf_loop_accepts [of 0 "[]" policies ctx request]
  by (auto simp: AnyOf_def accepts_def [of "Impl _"] evaluate_def [of "Impl _"])

lemma hasX5C_clone [simp]: "hasX5C (cloneTrustRequest request) = hasX5C request"
  by (simp add: hasX5C_def cloneTrustRequest_def)

text \<open>The classification policies decide by the classification alone.\<close>

lemma classification_accepts_iff:
  "accepts AcceptNone ctx request \<longleftrightarrow> vr_Type (tq_Result request) = TypeNone"
  "accepts RejectNone ctx request \<longleftrightarrow> vr_Type (tq_Result request) \<noteq> TypeNone"
  "accepts AcceptSelf ctx request \<longleftrightarrow> vr_Type (tq_Result request) = TypeSelf"
  "accepts RejectSelf ctx request \<longleftrightarrow> vr_Type (tq_Result request) \<noteq> TypeSelf"
  "accepts (AllowTypes types) ctx request \<longleftrightarrow> vr_Type (tq_Result request) \<in> set types"
  "accepts (AllowFormats formats) ctx request \<longleftrightarrow> tq_Format request \<in> set formats"
  "accepts (RequireAAGUID aaguids) ctx request \<longleftrightarrow> tq_AAGUID request \<in> set aaguids"
  by (auto simp: accepts_def evaluate_def AcceptNone_def RejectNone_def AcceptSelf_def RejectSelf_def
      AllowTypes_def AllowFormats_def RequireAAGUID_def allowTypesPolicy_def rejectTypesPolicy_def
      accepted_def rejected_def trustResult_def)

lemma RequireTrustedRoots_accepts_iff:
  "accepts (RequireTrustedRoots (Impl verify) vc) ctx request \<longleftrightarrow>
    hasX5C request \<and> (\<exists>v. verify (normalizeContext ctx) (tp_Certificates (vr_TrustPath (tq_Result request))) vc = Inr v
      \<and> cv_Trusted v)"
  by (auto simp: accepts_def evaluate_def RequireTrustedRoots_def rejected_def trustResult_def and_then_Inr_iff)

end
