(* ===== verification/Registration.thy ===== *)
theory Registration
  imports Registration_Start Attestation_Policy
begin

text \<open>
  \<^verbatim>\<open>src/registration.go\<close>: \<^verbatim>\<open>FinishRegistration\<close> verifies a registration response against the
  stored state and returns the credential record to store. Decoders, format verifiers, the
  trust policy and the extension registry are arguments, as in the source.
\<close>

record RegistrationResponse =
  rr_Type :: PublicKeyCredentialType
  rr_RawID :: RawID
  rr_ClientDataJSON :: ClientDataJSON
  rr_AuthenticatorData :: AuthenticatorData
  rr_AttestationObject :: AttestationObject
  rr_PublicKeyAlgorithm :: COSEAlgorithmIdentifier
  rr_Transports :: "AuthenticatorTransport list"
  rr_AuthenticatorAttachment :: AuthenticatorAttachment
  rr_ClientExtensionResults :: ClientOutputs

record RegistrationExtensionPolicy =
  rep_RejectUnrequested :: bool
  rep_RejectUnknown :: bool

record RegistrationFinishOptions =
  rfo_State :: RegistrationState
  rfo_Response :: RegistrationResponse
  rfo_AttestationObjectDecoder :: AttestationObjectDecoder
  rfo_CredentialPublicKeyDecoder :: COSEKeyDecoder
  rfo_ExtensionMapDecoder :: ExtensionMapDecoder
  rfo_AttestationRegistry :: "att_registry option"
  rfo_AttestationTrustPolicy :: TrustPolicy
  rfo_ExtensionRegistry :: "ext_registry option"
  rfo_ExtensionPolicy :: RegistrationExtensionPolicy
  rfo_Now :: "time option"

record RegistrationResult =
  rres_Credential :: CredentialRecord
  rres_Attestation :: VerificationResult
  rres_AttestationTrust :: TrustResult
  rres_Extensions :: Results
  rres_Warnings :: "string list"

section \<open>Guards\<close>

definition validateFinishDependencies ::
  "AttestationObjectDecoder \<Rightarrow> COSEKeyDecoder \<Rightarrow> att_registry option \<Rightarrow> error option" where
  "validateFinishDependencies objectDecoder keyDecoder registry =
    (if IsNil objectDecoder
     then Some (Notef ErrInvalidConfiguration ''registration attestation object decoder is required'')
     else if IsNil keyDecoder
     then Some (Notef ErrInvalidConfiguration ''registration credential public key decoder is required'')
     else if registry = None then Some (Notef ErrInvalidConfiguration ''attestation registry is required'')
     else None)"

definition validateRegistrationState :: "go_std \<Rightarrow> RegistrationState \<Rightarrow> time \<Rightarrow> error option" where
  "validateRegistrationState std state now =
    (if \<not> IsZero (rs_ExpiresAt state) \<and> \<not> Before now (rs_ExpiresAt state) then Some (Sentinel ErrCeremonyExpired)
     else RegistrationState_Validate std state)"

definition validateRegistrationResponseShape :: "RegistrationResponse \<Rightarrow> error option" where
  "validateRegistrationResponseShape response =
    or_err (wrap_err ErrMalformedResponse (CredentialType_Validate (rr_Type response)))
    (if bv_IsNil (rr_RawID response) \<or> bv_IsNil (rr_ClientDataJSON response) \<or> bv_IsNil (rr_AttestationObject response)
     then Some (Sentinel ErrMalformedResponse) else None)"

definition verifyRegistrationAuthenticatorData ::
  "go_std \<Rightarrow> RegistrationState \<Rightarrow> AuthenticatorData \<Rightarrow> ParsedAuthenticatorData result" where
  "verifyRegistrationAuthenticatorData std state raw =
    and_then (wrap_res ErrMalformedResponse (ParseAuthenticatorData raw)) (\<lambda>parsed.
    let flags = pad_Flags parsed; expectedRPIDHash = std_Sum256 std (bytes_of_string (rs_RPID state)) in
    if pad_RPIDHash parsed \<noteq> expectedRPIDHash then Inl (Sentinel ErrRPIDHashMismatch)
    else if \<not> rs_ConditionalMediation state \<and> \<not> UserPresent flags then Inl (Sentinel ErrUserPresenceRequired)
    else if rs_RequestedUserVerification state = UserVerificationRequired \<and> \<not> UserVerified flags
    then Inl (Sentinel ErrUserVerificationRequired)
    else if BackupState flags \<and> \<not> BackupEligible flags then Inl (Sentinel ErrInvalidBackupState)
    else if \<not> HasAttestedCredentialData flags
    then Inl (Wrapf ErrMalformedResponse (Sentinel ErrAttestedCredentialDataMissing))
    else Inr parsed)"

text \<open>
  The credential public key is a prefix of the bytes after the credential identifier; what
  follows it is the extension map. A nil decoder is called only after the dependency check,
  so \<open>call\<close> of it is unreachable there.
\<close>

definition call :: "('a \<Rightarrow> 'b result) iface \<Rightarrow> 'a \<Rightarrow> 'b result" where
  "call f x = (case f of Impl g \<Rightarrow> g x | _ \<Rightarrow> Inl (External ''nil pointer dereference''))"

definition decodeCredentialPublicKeyAndExtensions ::
  "COSEKeyDecoder \<Rightarrow> ExtensionMapDecoder \<Rightarrow> ParsedAuthenticatorData \<Rightarrow> AttestedCredentialData
    \<Rightarrow> (CredentialPublicKey \<times> ExtensionMap) result" where
  "decodeCredentialPublicKeyAndExtensions keyDecoder extensionDecoder parsed attested =
    (let encoded = acd_CredentialPublicKeyAndExtensions attested in
     and_then (wrap_res ErrMalformedResponse (call keyDecoder encoded)) (\<lambda>publicKey.
     check (wrap_err ErrMalformedResponse (PublicKey_Validate publicKey))
     (let rawKey = cpk_raw publicKey in
      if length rawKey = 0 \<or> length rawKey > length encoded \<or> rawKey \<noteq> take (length rawKey) encoded
      then Inl (Sentinel ErrMalformedResponse) else
      let extensionBytes = drop (length rawKey) encoded in
      if \<not> HasExtensionData (pad_Flags parsed) then
        (if length extensionBytes \<noteq> 0 then Inl (Sentinel ErrMalformedResponse) else Inr (publicKey, []))
      else if length extensionBytes = 0 then Inl (Sentinel ErrMalformedResponse)
      else if IsNil extensionDecoder then Inl (Notef ErrInvalidConfiguration
        ''registration extension map decoder is required for authenticator extensions'')
      else and_then (wrap_res ErrMalformedResponse (call extensionDecoder extensionBytes)) (\<lambda>extensions.
        Inr (publicKey, extensions)))))"

record registrationAttestationInputs =
  rai_trustPolicy :: TrustPolicy
  rai_registry :: "att_registry option"
  rai_decodedAttestation :: DecodedAttestationObject
  rai_credentialPublicKey :: CredentialPublicKey
  rai_clientDataHash :: bytes
  rai_aaguid :: AAGUID
  rai_conveyance :: AttestationConveyancePreference

definition attestationRequest :: "registrationAttestationInputs \<Rightarrow> VerificationRequest" where
  "attestationRequest inputs =
    (let decoded = rai_decodedAttestation inputs in
     \<lparr>vq_Format = dao_Format decoded, vq_ConveyancePreference = rai_conveyance inputs,
      vq_AuthenticatorData = dao_AuthenticatorData decoded, vq_ClientDataHash = rai_clientDataHash inputs,
      vq_Statement = dao_Statement decoded, vq_CredentialPublicKey = rai_credentialPublicKey inputs,
      vq_RawAttestationObject = dao_Raw decoded\<rparr>)"

definition attestationTrustRequest :: "registrationAttestationInputs \<Rightarrow> VerificationResult \<Rightarrow> TrustRequest" where
  "attestationTrustRequest inputs res =
    (let decoded = rai_decodedAttestation inputs in
     \<lparr>tq_Format = dao_Format decoded, tq_Result = VerificationResult_Clone res, tq_AAGUID = rai_aaguid inputs,
      tq_AuthenticatorData = dao_AuthenticatorData decoded,
      tq_CredentialPublicKey = rai_credentialPublicKey inputs, tq_RawAttestationObject = dao_Raw decoded\<rparr>)"

definition TrustResult_Clone :: "TrustResult \<Rightarrow> TrustResult" where
  "TrustResult_Clone r = r\<lparr>trust_Warnings := trust_Warnings r\<rparr>"

definition verifyRegistrationAttestation ::
  "ctx \<Rightarrow> registrationAttestationInputs \<Rightarrow> (VerificationResult \<times> TrustResult) result" where
  "verifyRegistrationAttestation ctx inputs =
    (let decoded = rai_decodedAttestation inputs in
     if \<not> identifier_Valid (dao_Format decoded) then Inl (Sentinel ErrInvalidAttestation) else
     case att_Lookup (rai_registry inputs) (dao_Format decoded) of
       None \<Rightarrow> Inl (Sentinel ErrUnsupportedAttestationFormat)
     | Some verifier \<Rightarrow>
       and_then (wrap_res ErrInvalidAttestation (v_VerifyAttestation verifier (Some ctx) (attestationRequest inputs))) (\<lambda>res.
       if \<not> vr_CryptographicallyValid res \<or> \<not> Type_Known (vr_Type res) \<or> \<not> TrustPathKind_Known (tp_Kind (vr_TrustPath res))
       then Inl (Sentinel ErrInvalidAttestation) else
       let res = VerificationResult_Clone res in
       case rai_trustPolicy inputs of
         Impl policy \<Rightarrow>
           and_then (wrap_res ErrRejectedAttestationPolicy (policy (Some ctx) (attestationTrustRequest inputs res))) (\<lambda>trust.
           if \<not> trust_Accepted trust then Inl (Sentinel ErrRejectedAttestationPolicy)
           else Inr (VerificationResult_Clone res, TrustResult_Clone trust))
       | _ \<Rightarrow> Inl (Sentinel ErrRejectedAttestationPolicy)))"

record registrationExtensionInputs =
  rei_state :: RegistrationState
  rei_policy :: RegistrationExtensionPolicy
  rei_registry :: "ext_registry option"
  rei_clientExtensionResults :: ClientOutputs
  rei_authenticatorExtensions :: ExtensionMap
  rei_clientDataJSON :: ClientDataJSON

definition registrationExtensionWork :: "registrationExtensionInputs \<Rightarrow> extensionVerificationInputs" where
  "registrationExtensionWork inputs =
    \<lparr>evi_operation = OperationRegistration, evi_selectedCredentialID = zero_byteValue,
     evi_requestedExtensions = rs_RequestedExtensions (rei_state inputs),
     evi_policy = \<lparr>eop_rejectUnrequested = rep_RejectUnrequested (rei_policy inputs),
       eop_rejectUnknown = rep_RejectUnknown (rei_policy inputs)\<rparr>,
     evi_registry = rei_registry inputs, evi_clientExtensionResults = rei_clientExtensionResults inputs,
     evi_authenticatorExtensions = rei_authenticatorExtensions inputs, evi_clientInputTransform = None\<rparr>"

definition verifyRegistrationExtensions :: "ctx \<Rightarrow> registrationExtensionInputs \<Rightarrow> Results result" where
  "verifyRegistrationExtensions ctx inputs =
    check (verifyRemoteClientDataBinding (rs_RequestedExtensions (rei_state inputs))
      (rs_ExtensionBindings (rei_state inputs)) (rei_clientDataJSON inputs))
    (verifyExtensions ctx (registrationExtensionWork inputs))"

section \<open>The ceremony\<close>

definition FinishRegistration ::
  "go_std \<Rightarrow> go_env \<Rightarrow> ctx option \<Rightarrow> RegistrationFinishOptions \<Rightarrow> RegistrationResult result" where
  "FinishRegistration std env ctx options =
    (let ctx = normalizeContext ctx; state = rfo_State options; response = rfo_Response options in
     check (validateFinishDependencies (rfo_AttestationObjectDecoder options) (rfo_CredentialPublicKeyDecoder options)
       (rfo_AttestationRegistry options))
    (check (validateRegistrationState std state (options_now env (rfo_Now options)))
    (check (wrap_err ErrInvalidConfiguration (validateFinishExtensionBindings (rs_RequestedExtensions state)
       (rs_ExtensionBindings state) (rfo_ExtensionRegistry options)))
    (check (validateRegistrationResponseShape response)
    (check (validateClientExtensionResults (rr_ClientExtensionResults response))
    (and_then (verifyClientData std (rr_ClientDataJSON response) ClientDataTypeCreate (rs_Challenge state)
       (rs_OriginPolicy state)) (\<lambda>clientDataHash.
     and_then (wrap_res ErrMalformedResponse
       (call (rfo_AttestationObjectDecoder options) (rr_AttestationObject response))) (\<lambda>decoded.
     if \<not> bv_Equal (dao_Raw decoded) (rr_AttestationObject response) then Inl (Sentinel ErrMalformedResponse)
     else if \<not> bv_IsNil (rr_AuthenticatorData response)
       \<and> \<not> bv_Equal (rr_AuthenticatorData response) (dao_AuthenticatorData decoded)
     then Inl (Sentinel ErrMalformedResponse) else
     and_then (verifyRegistrationAuthenticatorData std state (dao_AuthenticatorData decoded)) (\<lambda>parsed.
     case pad_AttestedCredentialData parsed of
       None \<Rightarrow> Inl (Wrapf ErrMalformedResponse (Sentinel ErrAttestedCredentialDataMissing))
     | Some attested \<Rightarrow>
       if \<not> bv_Equal (acd_CredentialID attested) (rr_RawID response) then Inl (Sentinel ErrMalformedResponse) else
       and_then (decodeCredentialPublicKeyAndExtensions (rfo_CredentialPublicKeyDecoder options)
         (rfo_ExtensionMapDecoder options) parsed attested) (\<lambda>(publicKey, authenticatorExtensions).
       check (wrap_err ErrMalformedResponse (PublicKey_Validate publicKey))
       (if cpk_Algorithm publicKey \<notin> set (rs_AllowedAlgorithms state) then Inl (Sentinel ErrUnsupportedAlgorithm)
        else if rr_PublicKeyAlgorithm response \<noteq> 0 \<and> rr_PublicKeyAlgorithm response \<noteq> cpk_Algorithm publicKey
        then Inl (Sentinel ErrMalformedResponse) else
        and_then (verifyRegistrationAttestation ctx
          \<lparr>rai_trustPolicy = rfo_AttestationTrustPolicy options, rai_registry = rfo_AttestationRegistry options,
           rai_decodedAttestation = decoded, rai_credentialPublicKey = publicKey,
           rai_clientDataHash = clientDataHash, rai_aaguid = acd_AAGUID attested,
           rai_conveyance = rs_Attestation state\<rparr>) (\<lambda>(attestationResult, trustResult).
        and_then (verifyRegistrationExtensions ctx
          \<lparr>rei_state = state, rei_policy = rfo_ExtensionPolicy options, rei_registry = rfo_ExtensionRegistry options,
           rei_clientExtensionResults = rr_ClientExtensionResults response,
           rei_authenticatorExtensions = authenticatorExtensions,
           rei_clientDataJSON = rr_ClientDataJSON response\<rparr>) (\<lambda>extensionResults.
        Inr \<lparr>rres_Credential =
            \<lparr>cr_Type = rr_Type response, cr_ID = acd_CredentialID attested, cr_PublicKey = publicKey,
             cr_UserHandle = rs_UserHandle state, cr_RPID = rs_RPID state, cr_AAGUID = acd_AAGUID attested,
             cr_SignCount = pad_SignCount parsed, cr_Transports = rr_Transports response,
             cr_BackupEligible = BackupEligible (pad_Flags parsed), cr_BackupState = BackupState (pad_Flags parsed),
             cr_UVInitialized = UserVerified (pad_Flags parsed),
             cr_AuthenticatorAttachment = normalizeAuthenticatorAttachment (rr_AuthenticatorAttachment response),
             cr_AttestationType = vr_Type attestationResult\<rparr>,
           rres_Attestation = attestationResult, rres_AttestationTrust = trustResult,
           rres_Extensions = extensionResults,
           rres_Warnings = vr_Warnings attestationResult @ trust_Warnings trustResult\<rparr>)))))))))))))"

section \<open>What the parts establish\<close>

lemma call_Inr_iff [result_inv]: "call f x = Inr y \<longleftrightarrow> (\<exists>g. f = Impl g \<and> g x = Inr y)"
  by (cases f) (auto simp: call_def)

lemma TrustResult_Clone_id [simp]: "TrustResult_Clone r = r"
  by (simp add: TrustResult_Clone_def)

lemma validateFinishDependencies_None_iff:
  "validateFinishDependencies objectDecoder keyDecoder registry = None \<longleftrightarrow>
    \<not> IsNil objectDecoder \<and> \<not> IsNil keyDecoder \<and> registry \<noteq> None"
  by (simp add: validateFinishDependencies_def)

lemma RegistrationState_Validate_None_iff:
  "RegistrationState_Validate std state = None \<longleftrightarrow>
    bv_bytes (rs_Challenge state) \<noteq> [] \<and> rs_RPID state \<noteq> [] \<and>
    validateOriginPolicy std (rs_OriginPolicy state) = None \<and>
    validateRPIDOriginPolicy std (rs_RPID state) (rs_OriginPolicy state) = None \<and>
    bv_bytes (rs_UserHandle state) \<noteq> [] \<and> rs_ExpiresAt state \<noteq> 0 \<and> rs_AllowedAlgorithms state \<noteq> [] \<and>
    (\<forall>algorithm\<in>set (rs_AllowedAlgorithms state). Algorithm_Validate algorithm = None) \<and>
    Attestation_Known (rs_Attestation state) \<and> UserVerification_Known (rs_RequestedUserVerification state) \<and>
    validateRequestedExtensionIDs (rs_RequestedExtensions state) = None \<and>
    validateExtensionBindingState (rs_RequestedExtensions state) (rs_ExtensionBindings state) = None"
  by (simp only: RegistrationState_Validate_def or_err_None_iff if_Some_None_iff wrap_err_simps first_err_None_iff
      validateUserVerification_None_iff IsZero_def bv_len_def length_0_conv de_Morgan_disj not_not) blast

lemma validateRegistrationState_None_iff:
  "validateRegistrationState std state now = None \<longleftrightarrow>
    now < rs_ExpiresAt state \<and> RegistrationState_Validate std state = None"
  by (auto simp: validateRegistrationState_def IsZero_def Before_def RegistrationState_Validate_None_iff)

lemma validateRegistrationResponseShape_None_iff:
  "validateRegistrationResponseShape response = None \<longleftrightarrow>
    rr_Type response = CredentialTypePublicKey \<and> \<not> bv_IsNil (rr_RawID response) \<and>
    \<not> bv_IsNil (rr_ClientDataJSON response) \<and> \<not> bv_IsNil (rr_AttestationObject response)"
  by (simp add: validateRegistrationResponseShape_def or_err_None_iff CredentialType_Validate_None_iff)

text \<open>The flags and the RP ID hash that registration asks of authenticator data.\<close>

definition registrationFlagsOK :: "RegistrationState \<Rightarrow> AuthenticatorFlags \<Rightarrow> bool" where
  "registrationFlagsOK state flags \<longleftrightarrow>
    (rs_ConditionalMediation state \<or> UserPresent flags) \<and>
    (rs_RequestedUserVerification state = UserVerificationRequired \<longrightarrow> UserVerified flags) \<and>
    (BackupState flags \<longrightarrow> BackupEligible flags) \<and> HasAttestedCredentialData flags"

lemma verifyRegistrationAuthenticatorData_Inr_iff:
  "verifyRegistrationAuthenticatorData std state raw = Inr parsed \<longleftrightarrow>
    ParseAuthenticatorData raw = Inr parsed \<and>
    pad_RPIDHash parsed = std_Sum256 std (bytes_of_string (rs_RPID state)) \<and>
    registrationFlagsOK state (pad_Flags parsed)"
  by (auto simp: verifyRegistrationAuthenticatorData_def Let_def registrationFlagsOK_def and_then_Inr_iff if_Inl_Inr_iff)

text \<open>The encoded key, followed by the extension map exactly when the ED flag announces one.\<close>

definition keyAndExtensions ::
  "COSEKeyDecoder \<Rightarrow> ExtensionMapDecoder \<Rightarrow> AuthenticatorFlags \<Rightarrow> bytes \<Rightarrow> CredentialPublicKey \<Rightarrow> ExtensionMap \<Rightarrow> bool" where
  "keyAndExtensions keyDecoder extensionDecoder flags encoded key exts \<longleftrightarrow>
    call keyDecoder encoded = Inr key \<and> PublicKey_Validate key = None \<and>
    (\<exists>rest. encoded = cpk_raw key @ rest \<and>
      (if HasExtensionData flags then rest \<noteq> [] \<and> call extensionDecoder rest = Inr exts
       else rest = [] \<and> exts = []))"

lemma decodeCredentialPublicKeyAndExtensions_Inr_iff:
  "decodeCredentialPublicKeyAndExtensions keyDecoder extensionDecoder parsed attested = Inr (key, exts) \<longleftrightarrow>
    keyAndExtensions keyDecoder extensionDecoder (pad_Flags parsed)
      (acd_CredentialPublicKeyAndExtensions attested) key exts"
proof -
  define encoded where "encoded = acd_CredentialPublicKeyAndExtensions attested"
  have prefix: "(\<not> (length encoded < length raw) \<and> raw = take (length raw) encoded) \<longleftrightarrow>
      encoded = raw @ drop (length raw) encoded" for raw
    by (metis append_eq_conv_conj append_take_drop_id length_append not_add_less1)
  have "(\<exists>rest. encoded = raw @ rest \<and> Q rest) \<longleftrightarrow> encoded = raw @ drop (length raw) encoded \<and> Q (drop (length raw) encoded)"
    for raw Q
    by (metis append_eq_conv_conj)
  then show ?thesis
    unfolding decodeCredentialPublicKeyAndExtensions_def keyAndExtensions_def encoded_def [symmetric] Let_def
    using prefix
    by (auto simp: and_then_Inr_iff check_Inr_iff if_Inl_Inr_iff PublicKey_Validate_None_iff call_Inr_iff)
qed

lemma verifyRegistrationAttestation_Inr_iff:
  "verifyRegistrationAttestation ctx inputs = Inr (att, trust) \<longleftrightarrow>
    identifier_Valid (dao_Format (rai_decodedAttestation inputs)) \<and>
    (\<exists>verifier res.
      att_Lookup (rai_registry inputs) (dao_Format (rai_decodedAttestation inputs)) = Some verifier \<and>
      v_VerifyAttestation verifier (Some ctx) (attestationRequest inputs) = Inr res \<and>
      att = VerificationResult_Clone res) \<and>
    vr_CryptographicallyValid att \<and> Type_Known (vr_Type att) \<and> TrustPathKind_Known (tp_Kind (vr_TrustPath att)) \<and>
    evaluate (rai_trustPolicy inputs) (Some ctx) (attestationTrustRequest inputs att) = Inr trust \<and>
    trust_Accepted trust"
  by (cases "rai_trustPolicy inputs")
    (auto simp: verifyRegistrationAttestation_def Let_def and_then_Inr_iff if_Inl_Inr_iff evaluate_def
      split: option.splits)

section \<open>The checks of the ceremony\<close>

text \<open>
  The checks of a registration in one relation between the options of the call and its result,
  without the order in which the code performs them: \<open>d\<close> is the
  collected client data, \<open>decoded\<close> the attestation object, \<open>parsed\<close> and \<open>attested\<close> its
  authenticator data, \<open>key\<close> and \<open>exts\<close> the decoded key and extension map.
\<close>

definition attestationInputs ::
  "go_std \<Rightarrow> RegistrationFinishOptions \<Rightarrow> DecodedAttestationObject \<Rightarrow> AttestedCredentialData \<Rightarrow> CredentialPublicKey
    \<Rightarrow> registrationAttestationInputs" where
  "attestationInputs std options decoded attested key =
    \<lparr>rai_trustPolicy = rfo_AttestationTrustPolicy options, rai_registry = rfo_AttestationRegistry options,
     rai_decodedAttestation = decoded, rai_credentialPublicKey = key,
     rai_clientDataHash = std_Sum256 std (bv_bytes (rr_ClientDataJSON (rfo_Response options))),
     rai_aaguid = acd_AAGUID attested, rai_conveyance = rs_Attestation (rfo_State options)\<rparr>"

definition extensionInputs :: "RegistrationFinishOptions \<Rightarrow> ExtensionMap \<Rightarrow> registrationExtensionInputs" where
  "extensionInputs options exts =
    \<lparr>rei_state = rfo_State options, rei_policy = rfo_ExtensionPolicy options,
     rei_registry = rfo_ExtensionRegistry options,
     rei_clientExtensionResults = rr_ClientExtensionResults (rfo_Response options),
     rei_authenticatorExtensions = exts, rei_clientDataJSON = rr_ClientDataJSON (rfo_Response options)\<rparr>"

definition registrationResult ::
  "RegistrationFinishOptions \<Rightarrow> ParsedAuthenticatorData \<Rightarrow> AttestedCredentialData \<Rightarrow> CredentialPublicKey
    \<Rightarrow> VerificationResult \<Rightarrow> TrustResult \<Rightarrow> Results \<Rightarrow> RegistrationResult" where
  "registrationResult options parsed attested key att trust extensionResults =
    (let state = rfo_State options; response = rfo_Response options; flags = pad_Flags parsed in
     \<lparr>rres_Credential =
        \<lparr>cr_Type = rr_Type response, cr_ID = acd_CredentialID attested, cr_PublicKey = key,
         cr_UserHandle = rs_UserHandle state, cr_RPID = rs_RPID state, cr_AAGUID = acd_AAGUID attested,
         cr_SignCount = pad_SignCount parsed, cr_Transports = rr_Transports response,
         cr_BackupEligible = BackupEligible flags, cr_BackupState = BackupState flags,
         cr_UVInitialized = UserVerified flags,
         cr_AuthenticatorAttachment = normalizeAuthenticatorAttachment (rr_AuthenticatorAttachment response),
         cr_AttestationType = vr_Type att\<rparr>,
      rres_Attestation = att, rres_AttestationTrust = trust, rres_Extensions = extensionResults,
      rres_Warnings = vr_Warnings att @ trust_Warnings trust\<rparr>)"

definition registrationReady :: "go_std \<Rightarrow> time \<Rightarrow> RegistrationFinishOptions \<Rightarrow> bool" where
  "registrationReady std now options \<longleftrightarrow>
    \<not> IsNil (rfo_AttestationObjectDecoder options) \<and> \<not> IsNil (rfo_CredentialPublicKeyDecoder options) \<and>
    rfo_AttestationRegistry options \<noteq> None \<and> now < rs_ExpiresAt (rfo_State options) \<and>
    RegistrationState_Validate std (rfo_State options) = None \<and>
    validateFinishExtensionBindings (rs_RequestedExtensions (rfo_State options))
      (rs_ExtensionBindings (rfo_State options)) (rfo_ExtensionRegistry options) = None \<and>
    validateRegistrationResponseShape (rfo_Response options) = None \<and>
    validateClientExtensionResults (rr_ClientExtensionResults (rfo_Response options)) = None"

definition registrationEvidence ::
  "go_std \<Rightarrow> RegistrationFinishOptions \<Rightarrow> CollectedClientData \<Rightarrow> DecodedAttestationObject \<Rightarrow> ParsedAuthenticatorData
    \<Rightarrow> AttestedCredentialData \<Rightarrow> CredentialPublicKey \<Rightarrow> ExtensionMap \<Rightarrow> bool" where
  "registrationEvidence std options d decoded parsed attested key exts \<longleftrightarrow>
    (let state = rfo_State options; response = rfo_Response options in
     clientDataAccepted std (rr_ClientDataJSON response) ClientDataTypeCreate (rs_Challenge state)
       (rs_OriginPolicy state) d \<and>
     call (rfo_AttestationObjectDecoder options) (rr_AttestationObject response) = Inr decoded \<and>
     bv_bytes (dao_Raw decoded) = bv_bytes (rr_AttestationObject response) \<and>
     (bv_IsNil (rr_AuthenticatorData response) \<or>
       bv_bytes (rr_AuthenticatorData response) = bv_bytes (dao_AuthenticatorData decoded)) \<and>
     ParseAuthenticatorData (dao_AuthenticatorData decoded) = Inr parsed \<and>
     pad_RPIDHash parsed = std_Sum256 std (bytes_of_string (rs_RPID state)) \<and>
     registrationFlagsOK state (pad_Flags parsed) \<and>
     pad_AttestedCredentialData parsed = Some attested \<and>
     bv_bytes (acd_CredentialID attested) = bv_bytes (rr_RawID response) \<and>
     keyAndExtensions (rfo_CredentialPublicKeyDecoder options) (rfo_ExtensionMapDecoder options) (pad_Flags parsed)
       (acd_CredentialPublicKeyAndExtensions attested) key exts \<and>
     cpk_Algorithm key \<in> set (rs_AllowedAlgorithms state) \<and>
     (rr_PublicKeyAlgorithm response = 0 \<or> rr_PublicKeyAlgorithm response = cpk_Algorithm key))"

definition registrationSpec :: "go_std \<Rightarrow> time \<Rightarrow> ctx \<Rightarrow> RegistrationFinishOptions \<Rightarrow> RegistrationResult \<Rightarrow> bool" where
  "registrationSpec std now ctx options res \<longleftrightarrow>
    registrationReady std now options \<and>
    (\<exists>d decoded parsed attested key exts att trust extensionResults.
      registrationEvidence std options d decoded parsed attested key exts \<and>
      verifyRegistrationAttestation ctx (attestationInputs std options decoded attested key) = Inr (att, trust) \<and>
      verifyRegistrationExtensions ctx (extensionInputs options exts) = Inr extensionResults \<and>
      res = registrationResult options parsed attested key att trust extensionResults)"

lemma keyAndExtensions_valid: "keyAndExtensions kd ed flags encoded key exts \<Longrightarrow> PublicKey_Validate key = None"
  by (simp add: keyAndExtensions_def)

lemma FinishRegistration_refines:
  "FinishRegistration std env ctx options = Inr res \<longleftrightarrow>
    registrationSpec std (options_now env (rfo_Now options)) (normalizeContext ctx) options res"
proof -
  let ?hash = "std_Sum256 std (bv_bytes (rr_ClientDataJSON (rfo_Response options)))"
  have hash: "(\<exists>h. ((\<exists>d. A d) \<and> h = ?hash) \<and> P h) \<longleftrightarrow> (\<exists>d. A d) \<and> P ?hash" for A :: "CollectedClientData \<Rightarrow> bool" and P
    by blast
  show ?thesis
    unfolding FinishRegistration_def registrationSpec_def registrationReady_def registrationEvidence_def
      attestationInputs_def extensionInputs_def registrationResult_def Let_def
    by (simp only: check_Inr_iff and_then_Inr_iff if_Inl_Inr_iff wrap_res_simps wrap_err_simps case_option_Inl_iff
        split_paired_Ex prod.case validateFinishDependencies_None_iff validateRegistrationState_None_iff
        verifyClientData_Inr_iff hash verifyRegistrationAuthenticatorData_Inr_iff
        decodeCredentialPublicKeyAndExtensions_Inr_iff bv_Equal_iff de_Morgan_conj de_Morgan_disj not_not sum.inject)
      (rule iffI; elim exE conjE; intro conjI exI;
        (assumption | rule sym, assumption | rule keyAndExtensions_valid, assumption)?)
qed

text \<open>The record of a verified registration: the record invariant holds and the algorithm is allowed.\<close>

lemma FinishRegistration_facts:
  assumes run: "FinishRegistration std env ctx options = Inr res"
  shows "CredentialRecord_Validate (rres_Credential res) = None"
    and "cpk_Algorithm (cr_PublicKey (rres_Credential res)) \<in> set (rs_AllowedAlgorithms (rfo_State options))"
proof -
  obtain d decoded parsed attested key exts att trust extensionResults where
    ready: "registrationReady std (options_now env (rfo_Now options)) options"
    and evidence: "registrationEvidence std options d decoded parsed attested key exts"
    and attestation: "verifyRegistrationAttestation (normalizeContext ctx)
      (attestationInputs std options decoded attested key) = Inr (att, trust)"
    and res: "res = registrationResult options parsed attested key att trust extensionResults"
    using run unfolding FinishRegistration_refines registrationSpec_def by blast
  have state: "bv_bytes (rs_UserHandle (rfo_State options)) \<noteq> []" "rs_RPID (rfo_State options) \<noteq> []"
    and type: "rr_Type (rfo_Response options) = CredentialTypePublicKey"
    using ready
    by (auto simp: registrationReady_def RegistrationState_Validate_None_iff validateRegistrationResponseShape_None_iff)
  have parse: "ParseAuthenticatorData (dao_AuthenticatorData decoded) = Inr parsed"
    and attested: "pad_AttestedCredentialData parsed = Some attested"
    and flags: "registrationFlagsOK (rfo_State options) (pad_Flags parsed)"
    and key: "PublicKey_Validate key = None"
    using evidence by (auto simp: registrationEvidence_def Let_def keyAndExtensions_def)
  have "bv_bytes (acd_CredentialID attested) \<noteq> []"
    using ParseAuthenticatorData_sound [OF parse] wf_parsed_attestedD [of parsed attested] attested
    by (auto simp: wf_attested_def bv_len_def)
  moreover have "Type_Known (vr_Type att)"
    using attestation by (simp add: verifyRegistrationAttestation_Inr_iff)
  ultimately show "CredentialRecord_Validate (rres_Credential res) = None"
    using state type flags key
    by (auto simp: res registrationResult_def Let_def CredentialRecord_Validate_None_iff registrationFlagsOK_def
        normalizeAuthenticatorAttachment_def)
  show "cpk_Algorithm (cr_PublicKey (rres_Credential res)) \<in> set (rs_AllowedAlgorithms (rfo_State options))"
    using evidence by (simp add: res registrationResult_def registrationEvidence_def Let_def)
qed

end
