(* ===== verification/Authentication.thy ===== *)
theory Authentication
  imports Registration
begin

text \<open>
  \<^verbatim>\<open>src/authentication.go\<close>: \<^verbatim>\<open>StartAuthentication\<close> and \<^verbatim>\<open>FinishAuthentication\<close>. The signature
  verifier, the algorithm policy and the extension decoder are arguments, as in the source.
\<close>

section \<open>Start\<close>

record AuthenticationStartOptions =
  aso_RPID :: string
  aso_OriginPolicy :: OriginPolicy
  aso_Challenge :: Challenge
  aso_ChallengeGenerator :: ChallengeGenerator
  aso_Timeout :: duration
  aso_StateTTL :: duration
  aso_AllowCredentials :: "CredentialDescriptor list"
  aso_UserVerification :: UserVerificationRequirement
  aso_Hints :: "PublicKeyCredentialHint list"
  aso_Extensions :: ExtensionInputs
  aso_ExtensionRegistry :: "ext_registry option"
  aso_ExtensionInputPolicy :: ExtensionInputPolicy
  aso_ExpectedUserHandle :: UserHandle
  aso_Now :: "time option"

record AuthenticationStartResult =
  asr_Options :: PublicKeyCredentialRequestOptions
  asr_State :: AuthenticationState

definition attachAllowedCredentialIDsToPRFInput ::
  "ExtensionInput \<Rightarrow> CredentialDescriptor list \<Rightarrow> ExtensionInput result" where
  "attachAllowedCredentialIDsToPRFInput input credentials =
    and_then (PRFInputWithCredentials input
      (map (\<lambda>credential. b64_encode (bv_appendTo (cd_ID credential) [])) credentials)) (\<lambda>input. Inr (VPRFInput input))"

text \<open>The input transform that both ends of the ceremony pass on.\<close>

definition prfTransform :: "CredentialDescriptor list \<Rightarrow> extensionInputTransform" where
  "prfTransform credentials name v =
    (if name = IDPRF then attachAllowedCredentialIDsToPRFInput v credentials else Inr v)"

definition StartAuthentication ::
  "go_std \<Rightarrow> go_env \<Rightarrow> ctx option \<Rightarrow> AuthenticationStartOptions \<Rightarrow> AuthenticationStartResult result" where
  "StartAuthentication std env ctx options =
    (let ctx = normalizeContext ctx in
     if aso_RPID options = [] then Inl (Notef ErrInvalidConfiguration ''rp id is required'') else
     check (wrap_err ErrInvalidConfiguration (validateOriginPolicy std (aso_OriginPolicy options)))
    (check (wrap_err ErrInvalidConfiguration
       (validateRPIDOriginPolicy std (aso_RPID options) (aso_OriginPolicy options)))
    (check (first_err (\<lambda>descriptor. wrap_err ErrInvalidConfiguration (CredentialDescriptor_Validate descriptor))
       (aso_AllowCredentials options))
    (and_then (ceremonyChallenge env (aso_Challenge options) (aso_ChallengeGenerator options) ctx) (\<lambda>challenge.
     let userVerification =
       (if aso_UserVerification options = [] then UserVerificationPreferred else aso_UserVerification options) in
     check (wrap_err ErrInvalidConfiguration (validateUserVerification userVerification))
     (and_then (wrap_res ErrInvalidConfiguration
        (prepareExtensionInputs OperationAuthentication (aso_Extensions options) (aso_ExtensionRegistry options)
          (aso_ExtensionInputPolicy options) (Some (prfTransform (aso_AllowCredentials options)))))
        (\<lambda>(preparedExtensions, extensionBindings).
      check (wrap_err ErrInvalidConfiguration (validateRemoteClientDataInput std OperationAuthentication
        preparedExtensions (aso_ExtensionRegistry options) challenge))
      (check (wrap_err ErrInvalidConfiguration (validateAuthenticationExtensionContext preparedExtensions
        (aso_ExtensionRegistry options) (aso_AllowCredentials options)))
      (and_then (wrap_res ErrInvalidConfiguration (cloneExtensionInputs preparedExtensions)) (\<lambda>optionExtensions.
       and_then (wrap_res ErrInvalidConfiguration (cloneExtensionInputs preparedExtensions)) (\<lambda>stateExtensions.
       and_then (wrap_res ErrInvalidConfiguration (timeoutState (aso_Timeout options) (aso_StateTTL options)
         (options_now env (aso_Now options)))) (\<lambda>(timeoutMilliseconds, expiresAt).
       let requestOptions =
         \<lparr>ro_Challenge = challenge, ro_TimeoutMilliseconds = timeoutMilliseconds, ro_RPID = aso_RPID options,
          ro_AllowCredentials = cloneCredentialDescriptors (aso_AllowCredentials options),
          ro_UserVerification = userVerification, ro_Hints = aso_Hints options, ro_Extensions = optionExtensions\<rparr> in
       check (wrap_err ErrInvalidConfiguration (RequestOptions_Validate requestOptions))
       (Inr \<lparr>asr_Options = requestOptions, asr_State =
         \<lparr>as_Challenge = challenge, as_RPID = aso_RPID options,
          as_OriginPolicy = OriginPolicy_clone (aso_OriginPolicy options),
          as_RequestedUserVerification = userVerification, as_RequestedExtensions = stateExtensions,
          as_ExtensionBindings = extensionBindings,
          as_AllowCredentials = cloneCredentialDescriptors (aso_AllowCredentials options),
          as_ExpectedUserHandle = aso_ExpectedUserHandle options, as_ExpiresAt = expiresAt\<rparr>\<rparr>)))))))))))))"

section \<open>Finish\<close>

record AuthenticationResponse =
  ar_Type :: PublicKeyCredentialType
  ar_RawID :: RawID
  ar_ClientDataJSON :: ClientDataJSON
  ar_AuthenticatorData :: AuthenticatorData
  ar_Signature :: Signature
  ar_UserHandle :: UserHandle
  ar_AuthenticatorAttachment :: AuthenticatorAttachment
  ar_ClientExtensionResults :: ClientOutputs

record AuthenticationExtensionPolicy =
  aep_RejectUnrequested :: bool
  aep_RejectUnknown :: bool
  aep_AppID :: string

record CounterPolicy =
  cpol_RejectCloneRisk :: bool
  cpol_UpdateOnCloneRisk :: bool

type_synonym CounterStatus = string

definition CounterStatusUnsupported :: CounterStatus where "CounterStatusUnsupported = ''unsupported''"
definition CounterStatusIncremented :: CounterStatus where "CounterStatusIncremented = ''incremented''"
definition CounterStatusCloneRisk :: CounterStatus where "CounterStatusCloneRisk = ''clone-risk''"

record CounterResult =
  ctr_Stored :: "32 word"
  ctr_New :: "32 word"
  ctr_Status :: CounterStatus
  ctr_CloneRisk :: bool

record AuthenticationFinishOptions =
  afo_State :: AuthenticationState
  afo_Response :: AuthenticationResponse
  afo_Credential :: CredentialRecord
  afo_ExtensionMapDecoder :: ExtensionMapDecoder
  afo_SignatureVerifier :: SignatureVerifier
  afo_AlgorithmPolicy :: AlgorithmPolicy
  afo_ExtensionRegistry :: "ext_registry option"
  afo_ExtensionPolicy :: AuthenticationExtensionPolicy
  afo_CounterPolicy :: CounterPolicy
  afo_UVInitializationAuthorized :: bool
  afo_Now :: "time option"

record CredentialUpdate =
  cu_ID :: CredentialID
  cu_PreviousSignCount :: "32 word"
  cu_PreviousBackupState :: bool
  cu_PreviousUVInitialized :: bool
  cu_PreviousAuthenticatorAttachment :: AuthenticatorAttachment
  cu_SignCount :: "32 word"
  cu_SignCountChanged :: bool
  cu_BackupState :: bool
  cu_BackupStateChanged :: bool
  cu_UVInitialized :: bool
  cu_UVInitializedChanged :: bool
  cu_AuthenticatorAttachment :: AuthenticatorAttachment
  cu_AuthenticatorAttachmentChanged :: bool

record AuthenticationResult =
  ares_Credential :: CredentialRecord
  ares_AuthenticatedAs :: UserHandle
  ares_Counter :: CounterResult
  ares_Update :: CredentialUpdate
  ares_Extensions :: Results
  ares_Warnings :: "string list"
  ares_UserPresent :: bool
  ares_UserVerified :: bool
  ares_UVInitializationPending :: bool

text \<open>The comparison of an interface value with \<^verbatim>\<open>nil\<close>, which a typed nil passes.\<close>

fun is_nil_interface :: "'a iface \<Rightarrow> bool" where
  "is_nil_interface NilIface = True" | "is_nil_interface _ = False"

definition validateAuthenticationDependencies :: "AuthenticationFinishOptions \<Rightarrow> error option" where
  "validateAuthenticationDependencies options =
    (if IsNil (afo_SignatureVerifier options)
     then Some (Notef ErrInvalidConfiguration ''signature verifier is required'')
     else if \<not> is_nil_interface (afo_AlgorithmPolicy options) \<and> IsNil (afo_AlgorithmPolicy options)
     then Some (Notef ErrInvalidConfiguration ''algorithm policy is typed nil'')
     else or_err (CredentialRecord_Validate (afo_Credential options))
      (if cpol_RejectCloneRisk (afo_CounterPolicy options) \<and> cpol_UpdateOnCloneRisk (afo_CounterPolicy options)
       then Some (Notef ErrInvalidConfiguration ''clone-risk counter policy cannot reject and update'') else None))"

definition validateAuthenticationState :: "go_std \<Rightarrow> AuthenticationState \<Rightarrow> time \<Rightarrow> error option" where
  "validateAuthenticationState std state now =
    (if \<not> IsZero (as_ExpiresAt state) \<and> \<not> Before now (as_ExpiresAt state) then Some (Sentinel ErrCeremonyExpired)
     else AuthenticationState_Validate std state)"

definition validateAuthenticationResponseShape :: "AuthenticationResponse \<Rightarrow> error option" where
  "validateAuthenticationResponseShape response =
    or_err (wrap_err ErrMalformedResponse (CredentialType_Validate (ar_Type response)))
    (if bv_IsNil (ar_RawID response) \<or> bv_IsNil (ar_ClientDataJSON response)
       \<or> bv_IsNil (ar_AuthenticatorData response) \<or> bv_IsNil (ar_Signature response)
     then Some (Sentinel ErrMalformedResponse) else None)"

definition verifyAuthenticationCredentialBinding ::
  "AuthenticationState \<Rightarrow> AuthenticationResponse \<Rightarrow> CredentialRecord \<Rightarrow> error option" where
  "verifyAuthenticationCredentialBinding state response credential =
    (if cr_RPID credential = [] \<or> cr_RPID credential \<noteq> as_RPID state then Some (Sentinel ErrCredentialRPIDMismatch)
     else if \<not> bv_Equal (cr_ID credential) (ar_RawID response) then Some (Sentinel ErrCredentialNotAllowed)
     else if as_AllowCredentials state = [] then None
     else if list_ex (\<lambda>descriptor. bv_Equal (cd_ID descriptor) (ar_RawID response)) (as_AllowCredentials state)
     then None
     else Some (Sentinel ErrCredentialNotAllowed))"

definition verifyAuthenticationUserBinding ::
  "AuthenticationState \<Rightarrow> AuthenticationResponse \<Rightarrow> CredentialRecord \<Rightarrow> error option" where
  "verifyAuthenticationUserBinding state response credential =
    (let expected = as_ExpectedUserHandle state in
     if bv_len expected \<noteq> 0 then
       (if \<not> bv_Equal (cr_UserHandle credential) expected then Some (Sentinel ErrCredentialOwnershipMismatch)
        else if bv_len (ar_UserHandle response) \<noteq> 0 \<and> \<not> bv_Equal (ar_UserHandle response) expected
        then Some (Sentinel ErrCredentialOwnershipMismatch)
        else None)
     else if bv_len (ar_UserHandle response) = 0 then Some (Sentinel ErrUserHandleRequired)
     else if \<not> bv_Equal (ar_UserHandle response) (cr_UserHandle credential)
     then Some (Sentinel ErrCredentialOwnershipMismatch)
     else None)"

text \<open>
  The RP ID hash to expect: the App ID takes the place of the RP ID when the client reports
  that it used the \<^verbatim>\<open>appid\<close> extension, and the request and the policy name the same App ID.
\<close>

definition expectedAuthenticationRPIDHash ::
  "go_std \<Rightarrow> AuthenticationState \<Rightarrow> AuthenticationResponse \<Rightarrow> AuthenticationExtensionPolicy \<Rightarrow> bytes option" where
  "expectedAuthenticationRPIDHash std state response policy =
    (let used = (case map_of (ar_ClientExtensionResults response) IDAppID of
        None \<Rightarrow> False | Some raw \<Rightarrow> As_bool raw = Some True) in
     if \<not> used then Some (std_Sum256 std (bytes_of_string (as_RPID state)))
     else (case map_of (as_RequestedExtensions state) IDAppID of
         None \<Rightarrow> None
       | Some requestedAppID \<Rightarrow> (case assert_StringInput requestedAppID of
           None \<Rightarrow> None
         | Some appID \<Rightarrow>
             if appID = [] \<or> aep_AppID policy = [] \<or> appID \<noteq> aep_AppID policy then None
             else Some (std_Sum256 std (bytes_of_string appID)))))"

definition verifyAuthenticationAuthenticatorData ::
  "go_std \<Rightarrow> AuthenticationState \<Rightarrow> AuthenticationResponse \<Rightarrow> CredentialRecord \<Rightarrow> AuthenticationExtensionPolicy
    \<Rightarrow> ParsedAuthenticatorData result" where
  "verifyAuthenticationAuthenticatorData std state response credential policy =
    and_then (wrap_res ErrMalformedResponse (ParseAuthenticatorData (ar_AuthenticatorData response))) (\<lambda>parsed.
    let flags = pad_Flags parsed in
    if HasAttestedCredentialData flags then Inl (Sentinel ErrMalformedResponse)
    else if Some (pad_RPIDHash parsed) \<noteq> expectedAuthenticationRPIDHash std state response policy
    then Inl (Sentinel ErrRPIDHashMismatch)
    else if \<not> UserPresent flags then Inl (Sentinel ErrUserPresenceRequired)
    else if as_RequestedUserVerification state = UserVerificationRequired \<and> \<not> UserVerified flags
    then Inl (Sentinel ErrUserVerificationRequired)
    else if BackupState flags \<and> \<not> BackupEligible flags then Inl (Sentinel ErrInvalidBackupState)
    else if BackupEligible flags \<noteq> cr_BackupEligible credential then Inl (Sentinel ErrBackupEligibilityMismatch)
    else Inr parsed)"

definition decodeAuthenticationExtensions ::
  "ExtensionMapDecoder \<Rightarrow> ParsedAuthenticatorData \<Rightarrow> ExtensionMap result" where
  "decodeAuthenticationExtensions decoder parsed =
    (if \<not> HasExtensionData (pad_Flags parsed) then Inr []
     else if IsNil decoder then Inl (Notef ErrInvalidConfiguration
       ''authentication extension map decoder is required for authenticator extensions'')
     else wrap_res ErrMalformedResponse (call decoder (bytes_of (pad_ExtensionData parsed))))"

record authenticationExtensionInputs =
  aei_state :: AuthenticationState
  aei_selectedCredentialID :: CredentialID
  aei_policy :: AuthenticationExtensionPolicy
  aei_registry :: "ext_registry option"
  aei_clientExtensionResults :: ClientOutputs
  aei_authenticatorExtensions :: ExtensionMap
  aei_clientDataJSON :: ClientDataJSON

definition authenticationExtensionWork :: "authenticationExtensionInputs \<Rightarrow> extensionVerificationInputs" where
  "authenticationExtensionWork inputs =
    \<lparr>evi_operation = OperationAuthentication, evi_selectedCredentialID = aei_selectedCredentialID inputs,
     evi_requestedExtensions = as_RequestedExtensions (aei_state inputs),
     evi_policy = \<lparr>eop_rejectUnrequested = aep_RejectUnrequested (aei_policy inputs),
       eop_rejectUnknown = aep_RejectUnknown (aei_policy inputs)\<rparr>,
     evi_registry = aei_registry inputs, evi_clientExtensionResults = aei_clientExtensionResults inputs,
     evi_authenticatorExtensions = aei_authenticatorExtensions inputs,
     evi_clientInputTransform = Some (prfTransform (as_AllowCredentials (aei_state inputs)))\<rparr>"

definition verifyAuthenticationExtensions :: "ctx \<Rightarrow> authenticationExtensionInputs \<Rightarrow> Results result" where
  "verifyAuthenticationExtensions ctx inputs =
    check (verifyRemoteClientDataBinding (as_RequestedExtensions (aei_state inputs))
      (as_ExtensionBindings (aei_state inputs)) (aei_clientDataJSON inputs))
    (verifyExtensions ctx (authenticationExtensionWork inputs))"

definition verifyAuthenticationSignature ::
  "ctx \<Rightarrow> SignatureVerifier \<Rightarrow> CredentialRecord \<Rightarrow> AuthenticationResponse \<Rightarrow> bytes \<Rightarrow> error option" where
  "verifyAuthenticationSignature ctx verifier credential response clientDataHash =
    (let signed = bv_appendTo (ar_AuthenticatorData response) [] @ clientDataHash in
     wrap_err ErrInvalidSignature (case verifier of
       Impl verify \<Rightarrow> verify ctx
         \<lparr>si_Algorithm = cpk_Algorithm (cr_PublicKey credential),
          si_PublicKey = cpk_material (cr_PublicKey credential),
          si_RawCredentialPublicKey = cpk_raw (cr_PublicKey credential), si_Signed = signed,
          si_Signature = ar_Signature response\<rparr>
     | _ \<Rightarrow> Some (External ''nil pointer dereference'')))"

definition compareCounters :: "32 word \<Rightarrow> 32 word \<Rightarrow> CounterResult" where
  "compareCounters stored new =
    (if stored = 0 \<and> new = 0
     then \<lparr>ctr_Stored = stored, ctr_New = new, ctr_Status = CounterStatusUnsupported, ctr_CloneRisk = False\<rparr>
     else if new > stored
     then \<lparr>ctr_Stored = stored, ctr_New = new, ctr_Status = CounterStatusIncremented, ctr_CloneRisk = False\<rparr>
     else \<lparr>ctr_Stored = stored, ctr_New = new, ctr_Status = CounterStatusCloneRisk, ctr_CloneRisk = True\<rparr>)"

definition authenticationWarnings :: "CounterResult \<Rightarrow> string list" where
  "authenticationWarnings counter =
    (if ctr_CloneRisk counter then [''webauthn: signature counter clone risk''] else [])"

text \<open>The credential, the update and the report of a verified assertion (lines 362--406).\<close>

definition authenticationResult ::
  "AuthenticationFinishOptions \<Rightarrow> ParsedAuthenticatorData \<Rightarrow> CounterResult \<Rightarrow> Results \<Rightarrow> AuthenticationResult" where
  "authenticationResult options parsed counter extensionResults =
    (let stored = afo_Credential options; flags = pad_Flags parsed;
         credential = CredentialRecord_Clone stored;
         nextSignCount = (if ctr_Status counter = CounterStatusIncremented
             \<or> (ctr_CloneRisk counter \<and> cpol_UpdateOnCloneRisk (afo_CounterPolicy options))
           then pad_SignCount parsed else cr_SignCount stored);
         nextBackupState = BackupState flags;
         uvInitializationPending =
           (\<not> cr_UVInitialized stored \<and> UserVerified flags \<and> \<not> afo_UVInitializationAuthorized options);
         nextUVInitialized =
           (if \<not> cr_UVInitialized stored \<and> UserVerified flags \<and> afo_UVInitializationAuthorized options
            then True else cr_UVInitialized stored);
         attachment = normalizeAuthenticatorAttachment (ar_AuthenticatorAttachment (afo_Response options));
         nextAuthenticatorAttachment =
           (if attachment \<noteq> [] then attachment else cr_AuthenticatorAttachment stored);
         credential = credential\<lparr>cr_SignCount := nextSignCount, cr_BackupState := nextBackupState,
           cr_UVInitialized := nextUVInitialized, cr_AuthenticatorAttachment := nextAuthenticatorAttachment\<rparr> in
     \<lparr>ares_Credential = credential, ares_AuthenticatedAs = cr_UserHandle credential, ares_Counter = counter,
      ares_Update =
        \<lparr>cu_ID = cr_ID credential, cu_PreviousSignCount = cr_SignCount stored,
         cu_PreviousBackupState = cr_BackupState stored, cu_PreviousUVInitialized = cr_UVInitialized stored,
         cu_PreviousAuthenticatorAttachment = cr_AuthenticatorAttachment stored,
         cu_SignCount = nextSignCount, cu_SignCountChanged = (nextSignCount \<noteq> cr_SignCount stored),
         cu_BackupState = nextBackupState, cu_BackupStateChanged = (nextBackupState \<noteq> cr_BackupState stored),
         cu_UVInitialized = nextUVInitialized,
         cu_UVInitializedChanged = (nextUVInitialized \<noteq> cr_UVInitialized stored),
         cu_AuthenticatorAttachment = nextAuthenticatorAttachment,
         cu_AuthenticatorAttachmentChanged = (nextAuthenticatorAttachment \<noteq> cr_AuthenticatorAttachment stored)\<rparr>,
      ares_Extensions = extensionResults, ares_Warnings = authenticationWarnings counter,
      ares_UserPresent = UserPresent flags, ares_UserVerified = UserVerified flags,
      ares_UVInitializationPending = uvInitializationPending\<rparr>)"

definition FinishAuthentication ::
  "go_std \<Rightarrow> go_env \<Rightarrow> ctx option \<Rightarrow> AuthenticationFinishOptions \<Rightarrow> AuthenticationResult result" where
  "FinishAuthentication std env ctx options =
    (let ctx = normalizeContext ctx; state = afo_State options; response = afo_Response options;
         credential = afo_Credential options in
     check (validateAuthenticationDependencies options)
    (check (validateAuthenticationState std state (options_now env (afo_Now options)))
    (check (wrap_err ErrInvalidConfiguration (validateFinishExtensionBindings (as_RequestedExtensions state)
       (as_ExtensionBindings state) (afo_ExtensionRegistry options)))
    (check (validateAuthenticationResponseShape response)
    (check (validateClientExtensionResults (ar_ClientExtensionResults response))
    (check (verifyAuthenticationCredentialBinding state response credential)
    (check (verifyAuthenticationUserBinding state response credential)
    (and_then (verifyClientData std (ar_ClientDataJSON response) ClientDataTypeGet (as_Challenge state)
       (as_OriginPolicy state)) (\<lambda>clientDataHash.
     and_then (verifyAuthenticationAuthenticatorData std state response credential (afo_ExtensionPolicy options)) (\<lambda>parsed.
     and_then (decodeAuthenticationExtensions (afo_ExtensionMapDecoder options) parsed) (\<lambda>authenticatorExtensions.
     if (case afo_AlgorithmPolicy options of
           Impl acceptsAlgorithm \<Rightarrow> \<not> acceptsAlgorithm (cpk_Algorithm (cr_PublicKey credential)) | _ \<Rightarrow> False)
     then Inl (Sentinel ErrUnsupportedAlgorithm) else
     check (verifyAuthenticationSignature ctx (afo_SignatureVerifier options) credential response clientDataHash)
     (let counter = compareCounters (cr_SignCount credential) (pad_SignCount parsed) in
      if ctr_CloneRisk counter \<and> cpol_RejectCloneRisk (afo_CounterPolicy options) then Inl (Sentinel ErrCloneRisk) else
      and_then (verifyAuthenticationExtensions ctx
        \<lparr>aei_state = state, aei_selectedCredentialID = cr_ID credential, aei_policy = afo_ExtensionPolicy options,
         aei_registry = afo_ExtensionRegistry options,
         aei_clientExtensionResults = ar_ClientExtensionResults response,
         aei_authenticatorExtensions = authenticatorExtensions,
         aei_clientDataJSON = ar_ClientDataJSON response\<rparr>) (\<lambda>extensionResults.
      Inr (authenticationResult options parsed counter extensionResults))))))))))))))"

section \<open>What the parts establish\<close>

lemma validateAuthenticationDependencies_None_iff:
  "validateAuthenticationDependencies options = None \<longleftrightarrow>
    (\<exists>verify. afo_SignatureVerifier options = Impl verify) \<and> afo_AlgorithmPolicy options \<noteq> TypedNil \<and>
    CredentialRecord_Validate (afo_Credential options) = None \<and>
    \<not> (cpol_RejectCloneRisk (afo_CounterPolicy options) \<and> cpol_UpdateOnCloneRisk (afo_CounterPolicy options))"
  by (cases "afo_SignatureVerifier options"; cases "afo_AlgorithmPolicy options")
    (auto simp: validateAuthenticationDependencies_def or_err_None_iff)

lemma AuthenticationState_Validate_None_iff:
  "AuthenticationState_Validate std state = None \<longleftrightarrow>
    bv_bytes (as_Challenge state) \<noteq> [] \<and> as_RPID state \<noteq> [] \<and>
    validateOriginPolicy std (as_OriginPolicy state) = None \<and>
    validateRPIDOriginPolicy std (as_RPID state) (as_OriginPolicy state) = None \<and>
    as_ExpiresAt state \<noteq> 0 \<and> UserVerification_Known (as_RequestedUserVerification state) \<and>
    (\<forall>descriptor\<in>set (as_AllowCredentials state). CredentialDescriptor_Validate descriptor = None) \<and>
    validateRequestedExtensionIDs (as_RequestedExtensions state) = None \<and>
    validateExtensionBindingState (as_RequestedExtensions state) (as_ExtensionBindings state) = None \<and>
    validateStoredAuthenticationExtensionContext (as_RequestedExtensions state) (as_AllowCredentials state) = None"
  by (simp only: AuthenticationState_Validate_def or_err_None_iff if_Some_None_iff wrap_err_simps first_err_None_iff
      validateUserVerification_None_iff IsZero_def bv_len_def length_0_conv de_Morgan_disj not_not) blast

lemma validateAuthenticationState_None_iff:
  "validateAuthenticationState std state now = None \<longleftrightarrow>
    now < as_ExpiresAt state \<and> AuthenticationState_Validate std state = None"
  by (auto simp: validateAuthenticationState_def IsZero_def Before_def AuthenticationState_Validate_None_iff)

lemma verifyAuthenticationCredentialBinding_None_iff:
  "verifyAuthenticationCredentialBinding state response credential = None \<longleftrightarrow>
    cr_RPID credential = as_RPID state \<and> as_RPID state \<noteq> [] \<and>
    bv_bytes (cr_ID credential) = bv_bytes (ar_RawID response) \<and>
    (as_AllowCredentials state = [] \<or>
      (\<exists>descriptor\<in>set (as_AllowCredentials state). bv_bytes (cd_ID descriptor) = bv_bytes (cr_ID credential)))"
  by (auto simp: verifyAuthenticationCredentialBinding_def list_ex_iff)

lemma verifyAuthenticationUserBinding_None_iff:
  "verifyAuthenticationUserBinding state response credential = None \<longleftrightarrow>
    (if bv_bytes (as_ExpectedUserHandle state) \<noteq> []
     then bv_bytes (cr_UserHandle credential) = bv_bytes (as_ExpectedUserHandle state) \<and>
       (bv_bytes (ar_UserHandle response) = [] \<or>
        bv_bytes (ar_UserHandle response) = bv_bytes (as_ExpectedUserHandle state))
     else bv_bytes (ar_UserHandle response) \<noteq> [] \<and>
       bv_bytes (ar_UserHandle response) = bv_bytes (cr_UserHandle credential))"
  by (auto simp: verifyAuthenticationUserBinding_def Let_def)

definition authenticationFlagsOK :: "AuthenticationState \<Rightarrow> CredentialRecord \<Rightarrow> AuthenticatorFlags \<Rightarrow> bool" where
  "authenticationFlagsOK state credential flags \<longleftrightarrow>
    UserPresent flags \<and> (as_RequestedUserVerification state = UserVerificationRequired \<longrightarrow> UserVerified flags) \<and>
    (BackupState flags \<longrightarrow> BackupEligible flags) \<and> BackupEligible flags = cr_BackupEligible credential \<and>
    \<not> HasAttestedCredentialData flags"

lemma verifyAuthenticationAuthenticatorData_Inr_iff:
  "verifyAuthenticationAuthenticatorData std state response credential policy = Inr parsed \<longleftrightarrow>
    ParseAuthenticatorData (ar_AuthenticatorData response) = Inr parsed \<and>
    expectedAuthenticationRPIDHash std state response policy = Some (pad_RPIDHash parsed) \<and>
    authenticationFlagsOK state credential (pad_Flags parsed)"
  by (auto simp: verifyAuthenticationAuthenticatorData_def Let_def authenticationFlagsOK_def and_then_Inr_iff if_Inl_Inr_iff)

text \<open>The client says it replaced the RP ID by the App ID of the request.\<close>

definition appIDUsed :: "AuthenticationResponse \<Rightarrow> bool" where
  "appIDUsed response \<longleftrightarrow> (\<exists>raw. map_of (ar_ClientExtensionResults response) IDAppID = Some raw \<and> As_bool raw = Some True)"

lemma expectedAuthenticationRPIDHash_Some_iff:
  "expectedAuthenticationRPIDHash std state response policy = Some hash \<longleftrightarrow>
    (if appIDUsed response
     then aep_AppID policy \<noteq> [] \<and>
       map_of (as_RequestedExtensions state) IDAppID = Some (VStringInput (aep_AppID policy)) \<and>
       hash = std_Sum256 std (bytes_of_string (aep_AppID policy))
     else hash = std_Sum256 std (bytes_of_string (as_RPID state)))"
  by (auto simp: expectedAuthenticationRPIDHash_def appIDUsed_def Let_def assert_iff split: option.splits if_splits)

definition signatureInput :: "CredentialRecord \<Rightarrow> AuthenticationResponse \<Rightarrow> bytes \<Rightarrow> SignatureInput" where
  "signatureInput credential response clientDataHash =
    \<lparr>si_Algorithm = cpk_Algorithm (cr_PublicKey credential), si_PublicKey = cpk_material (cr_PublicKey credential),
     si_RawCredentialPublicKey = cpk_raw (cr_PublicKey credential),
     si_Signed = bv_bytes (ar_AuthenticatorData response) @ clientDataHash, si_Signature = ar_Signature response\<rparr>"

lemma verifyAuthenticationSignature_None_iff:
  "verifyAuthenticationSignature ctx verifier credential response hash = None \<longleftrightarrow>
    (\<exists>verify. verifier = Impl verify \<and> verify ctx (signatureInput credential response hash) = None)"
  by (cases verifier) (auto simp: verifyAuthenticationSignature_def signatureInput_def bv_appendTo_def Let_def)

lemma compareCounters_CloneRisk_iff:
  "ctr_CloneRisk (compareCounters stored new) \<longleftrightarrow> new \<le> stored \<and> \<not> (stored = 0 \<and> new = 0)"
  by (auto simp: compareCounters_def)

lemma compareCounters_Incremented_iff:
  "ctr_Status (compareCounters stored new) = CounterStatusIncremented \<longleftrightarrow> stored < new"
  by (auto simp: compareCounters_def CounterStatusUnsupported_def CounterStatusIncremented_def CounterStatusCloneRisk_def)

end
