(* ===== verification/Browser_Json.thy ===== *)
theory Browser_Json
  imports Go_Json Registration Authentication
begin

text \<open>
  \<^verbatim>\<open>src/browser\<close>: the JSON boundary to the browser. Ceremony options are converted to the JSON shapes of the
  Web Authentication specification, responses of the browser are decoded from them. Raw JSON members
  (\<^verbatim>\<open>jsontext.Value\<close>) are the values they denote; Go structs of the JSON shapes are records, and where the code
  puts one into an untyped map it is the map of its members, which has the same JSON.
\<close>

section \<open>Untyped values\<close>

text \<open>\<^verbatim>\<open>json.Unmarshal\<close> into a variable of type \<^verbatim>\<open>any\<close>.\<close>

fun any_of_json :: "go_text \<Rightarrow> json \<Rightarrow> goval result" where
  "any_of_json tx JNull = Inr VNil"
| "any_of_json tx (JBool b) = Inr (VBool b)"
| "any_of_json tx (JString s) = Inr (VString s)"
| "any_of_json tx (JNumber s) =
    (case js_ParseFloat tx s of None \<Rightarrow> Inl jsonError | Some r \<Rightarrow> Inr (VFloat64 (Finite r)))"
| "any_of_json tx (JArray xs) = and_then (map_res (\<lambda>x. any_of_json tx x) xs) (\<lambda>ys. Inr (VSlice TIface (Some ys)))"
| "any_of_json tx (JObject ms) =
    and_then (map_res (\<lambda>(name, x). and_then (any_of_json tx x) (\<lambda>v. Inr (VString name, v))) ms) (\<lambda>es.
    Inr (VMap TString TIface (Some es)))"

text \<open>
  \<^verbatim>\<open>json.Marshal\<close> of a dynamic value. Byte slices are padded base64; a nil slice is an empty array and a
  nil map an empty object. Values of types of the application are the business of \<open>js_MarshalOther\<close>.
\<close>

definition std_b64_char :: "char \<Rightarrow> char" where
  "std_b64_char c = (if c = CHR ''-'' then CHR ''+'' else if c = CHR ''_'' then CHR ''/'' else c)"

definition std_b64_encode :: "bytes \<Rightarrow> string" where
  "std_b64_encode bs = map std_b64_char (b64_encode bs) @ replicate ((3 - length bs mod 3) mod 3) (CHR ''='')"

fun json_of_any :: "go_text \<Rightarrow> goval \<Rightarrow> json result" where
  "json_of_any tx VNil = Inr JNull"
| "json_of_any tx (VBool b) = Inr (JBool b)"
| "json_of_any tx (VString s) = Inr (JString s)"
| "json_of_any tx (VInt k n) = Inr (json_int_of n)"
| "json_of_any tx (VFloat64 f) =
    (case f of Finite r \<Rightarrow> Inr (JNumber (js_FormatFloat tx r)) | _ \<Rightarrow> Inl jsonError)"
| "json_of_any tx (VBytes b) = Inr (JString (std_b64_encode (bytes_of b)))"
| "json_of_any tx (VSlice t xs) =
    and_then (case xs of None \<Rightarrow> Inr [] | Some ys \<Rightarrow> map_res (\<lambda>y. json_of_any tx y) ys) (\<lambda>js. Inr (JArray js))"
| "json_of_any tx (VMap k t es) =
    (if k \<noteq> TString then js_MarshalOther tx (VMap k t es) else
     and_then (case es of None \<Rightarrow> Inr []
       | Some l \<Rightarrow> map_res (\<lambda>(key, v). and_then (json_of_any tx v) (\<lambda>j.
           case key of VString name \<Rightarrow> Inr (name, j) | _ \<Rightarrow> Inl jsonError)) l) (\<lambda>ms. Inr (JObject ms)))"
| "json_of_any tx (VBoolInput b) = Inr (JBool b)"
| "json_of_any tx (VStringInput s) = Inr (JString s)"
| "json_of_any tx (VCOSEAlgorithm n) = Inr (json_int_of n)"
| "json_of_any tx v = js_MarshalOther tx v"

text \<open>A value of dynamic type \<^verbatim>\<open>map[string]any\<close>, with its keys.\<close>

fun assert_any_map :: "goval \<Rightarrow> (goval \<times> goval) list option" where
  "assert_any_map (VMap TString TIface es) = Some (case es of None \<Rightarrow> [] | Some l \<Rightarrow> l)"
| "assert_any_map _ = None"

definition any_map :: "(goval \<times> goval) list \<Rightarrow> goval" where
  "any_map es = VMap TString TIface (Some es)"

text \<open>Assignment to a key that is present, which keeps the other entries.\<close>

definition map_update :: "string \<Rightarrow> goval \<Rightarrow> (goval \<times> goval) list \<Rightarrow> (goval \<times> goval) list" where
  "map_update name v es = map (\<lambda>(key, w). (key, if key = VString name then v else w)) es"

section \<open>JSON shapes of the options\<close>

type_synonym ExtensionJSON = "(string \<times> json) list"

record PRFValuesJSON =
  pvj_First :: string
  pvj_Second :: "string option"

record PRFInputJSON =
  pij_Eval :: "PRFValuesJSON option"
  pij_EvalByCredential :: "(string \<times> PRFValuesJSON) list option"

record LargeBlobInputJSON =
  lbj_Support :: string
  lbj_Read :: "bool option"
  lbj_Write :: "string option"

record RPEntityJSON =
  rpj_ID :: string
  rpj_Name :: string

record UserEntityJSON =
  uej_ID :: string
  uej_Name :: string
  uej_DisplayName :: string

record CredentialParameterJSON =
  cpj_Type :: PublicKeyCredentialType
  cpj_Algorithm :: COSEAlgorithmIdentifier

record CredentialDescriptorJSON =
  cdj_Type :: PublicKeyCredentialType
  cdj_ID :: string
  cdj_Transports :: "AuthenticatorTransport list"

record AuthenticatorSelectionCriteriaJSON =
  scj_AuthenticatorAttachment :: AuthenticatorAttachment
  scj_ResidentKey :: ResidentKeyRequirement
  scj_RequireResidentKey :: bool
  scj_UserVerification :: UserVerificationRequirement

record CredentialCreationOptionsJSON =
  coj_RP :: RPEntityJSON
  coj_User :: UserEntityJSON
  coj_Challenge :: string
  coj_PubKeyCredParams :: "CredentialParameterJSON list"
  coj_TimeoutMilliseconds :: "32 word"
  coj_ExcludeCredentials :: "CredentialDescriptorJSON list"
  coj_AuthenticatorSelection :: "AuthenticatorSelectionCriteriaJSON option"
  coj_Hints :: "PublicKeyCredentialHint list"
  coj_Attestation :: AttestationConveyancePreference
  coj_AttestationFormats :: "string list"
  coj_Extensions :: ExtensionJSON

record CredentialRequestOptionsJSON =
  roj_Challenge :: string
  roj_TimeoutMilliseconds :: "32 word"
  roj_RPID :: string
  roj_AllowCredentials :: "CredentialDescriptorJSON list"
  roj_UserVerification :: UserVerificationRequirement
  roj_Hints :: "PublicKeyCredentialHint list"
  roj_Extensions :: ExtensionJSON

text \<open>The members of the structs that the code puts into untyped values.\<close>

definition PRFValuesJSON_any :: "PRFValuesJSON \<Rightarrow> goval" where
  "PRFValuesJSON_any v = any_object ((''first'', VString (pvj_First v)) #
    (case pvj_Second v of None \<Rightarrow> [] | Some s \<Rightarrow> [(''second'', VString s)]))"

definition PRFInputJSON_any :: "PRFInputJSON \<Rightarrow> goval" where
  "PRFInputJSON_any v = any_object (
    (case pij_Eval v of None \<Rightarrow> [] | Some e \<Rightarrow> [(''eval'', PRFValuesJSON_any e)]) @
    (case pij_EvalByCredential v of None \<Rightarrow> []
     | Some es \<Rightarrow> [(''evalByCredential'', any_object (map (\<lambda>(name, e). (name, PRFValuesJSON_any e)) es))]))"

definition LargeBlobInputJSON_any :: "LargeBlobInputJSON \<Rightarrow> goval" where
  "LargeBlobInputJSON_any v = any_object (
    (if lbj_Support v = [] then [] else [(''support'', VString (lbj_Support v))]) @
    (case lbj_Read v of None \<Rightarrow> [] | Some b \<Rightarrow> [(''read'', VBool b)]) @
    (case lbj_Write v of None \<Rightarrow> [] | Some s \<Rightarrow> [(''write'', VString s)]))"

section \<open>Errors and base64url\<close>

definition protocolValueError :: "string \<Rightarrow> error \<Rightarrow> error" where
  "protocolValueError name e = Wrapf ErrInvalidProtocolValue (Ctxf name e)"

definition protocol_value :: "string \<Rightarrow> 'a result \<Rightarrow> 'a result" where
  "protocol_value name r = (case r of Inl e \<Rightarrow> Inl (protocolValueError name e) | Inr x \<Rightarrow> Inr x)"

definition requiredMemberError :: "string \<Rightarrow> error" where
  "requiredMemberError name = protocolValueError name (Newf ''required member is missing or null'')"

definition decodeBase64URL :: "string \<Rightarrow> string \<Rightarrow> bytes result" where
  "decodeBase64URL name encoded =
    (case b64_decode encoded of None \<Rightarrow> Inl (Wrapf ErrInvalidBase64URL (Ctxf name (External ''base64'')))
     | Some bs \<Rightarrow> if b64_encode bs \<noteq> encoded then Inl (Notef ErrInvalidBase64URL (name @ '': non-canonical encoding'')) else Inr bs)"

section \<open>Options to JSON\<close>

definition encodeLargeBlobByteField :: "string \<Rightarrow> (goval \<times> goval) list \<Rightarrow> (goval \<times> goval) list" where
  "encodeLargeBlobByteField name members =
    (case map_of members (VString name) of Some (VBytes bs) \<Rightarrow> map_update name (VString (b64_encode (bytes_of bs))) members
     | _ \<Rightarrow> members)"

definition largeBlobInputToJSON :: "goval \<Rightarrow> goval" where
  "largeBlobInputToJSON v =
    (case v of VLargeBlobInput l \<Rightarrow> LargeBlobInputJSON_any \<lparr>lbj_Support = lb_Support l, lbj_Read = lb_Read l,
         lbj_Write = map_option b64_encode (lb_Write l)\<rparr>
     | _ \<Rightarrow> (case assert_any_map v of Some es \<Rightarrow> any_map (encodeLargeBlobByteField ''write'' es) | None \<Rightarrow> v))"

definition prfValuesToJSON :: "PRFValues \<Rightarrow> PRFValuesJSON" where
  "prfValuesToJSON values = \<lparr>pvj_First = b64_encode (bytes_of (prf_First values)),
    pvj_Second = map_option b64_encode (prf_Second values)\<rparr>"

definition prfValuesAnyToJSON :: "goval \<Rightarrow> goval" where
  "prfValuesAnyToJSON v =
    (case v of VPRFValues values \<Rightarrow> PRFValuesJSON_any (prfValuesToJSON values)
     | _ \<Rightarrow> (case assert_any_map v of
         Some es \<Rightarrow> any_map (encodeLargeBlobByteField ''second'' (encodeLargeBlobByteField ''first'' es))
       | None \<Rightarrow> v))"

definition prfInputToJSON :: "goval \<Rightarrow> goval" where
  "prfInputToJSON v =
    (case v of VPRFInput p \<Rightarrow> PRFInputJSON_any \<lparr>pij_Eval = map_option prfValuesToJSON (prf_Eval p),
         pij_EvalByCredential = map_option (map (\<lambda>(name, values). (name, prfValuesToJSON values))) (prf_EvalByCredential p)\<rparr>
     | _ \<Rightarrow> (case assert_any_map v of
         None \<Rightarrow> v
       | Some es \<Rightarrow>
         let es1 = (case map_of es (VString ''eval'') of None \<Rightarrow> es
               | Some raw \<Rightarrow> map_update ''eval'' (prfValuesAnyToJSON raw) es);
             es2 = (case map_of es1 (VString ''evalByCredential'') of None \<Rightarrow> es1
               | Some raw \<Rightarrow> (case assert_any_map raw of None \<Rightarrow> es1
                   | Some byCredential \<Rightarrow> map_update ''evalByCredential''
                       (any_map (map (\<lambda>(name, values). (name, prfValuesAnyToJSON values)) byCredential)) es1))
         in any_map es2))"

definition extensionInputToJSON :: "go_text \<Rightarrow> string \<Rightarrow> ExtensionInput \<Rightarrow> json result" where
  "extensionInputToJSON tx name i =
    and_then (protocol_value (''extensions.'' @ name) (InputValue i)) (\<lambda>v.
    protocol_value (''extensions.'' @ name) (and_then
      (json_of_any tx (if name = IDLargeBlob then largeBlobInputToJSON v else if name = IDPRF then prfInputToJSON v else v)) (\<lambda>j.
    and_then (js_Marshal tx j) (\<lambda>_. Inr j))))"

definition extensionInputsToJSON :: "go_text \<Rightarrow> ExtensionInputs \<Rightarrow> ExtensionJSON result" where
  "extensionInputsToJSON tx inputs =
    (if length inputs = 0 then Inr []
     else if length inputs > MaxEntries then Inl (protocolValueError ''extensions'' (Sentinel ErrTooManyEntries))
     else map_res (\<lambda>(name, i). and_then (extensionInputToJSON tx name i) (\<lambda>j. Inr (name, j))) inputs)"

definition CredentialDescriptorToJSON :: "CredentialDescriptor \<Rightarrow> CredentialDescriptorJSON" where
  "CredentialDescriptorToJSON descriptor =
    \<lparr>cdj_Type = cd_Type descriptor, cdj_ID = b64_encode (bv_bytes (cd_ID descriptor)), cdj_Transports = cd_Transports descriptor\<rparr>"

definition credentialDescriptorsToJSON :: "CredentialDescriptor list \<Rightarrow> CredentialDescriptorJSON list" where
  "credentialDescriptorsToJSON descriptors = map CredentialDescriptorToJSON descriptors"

definition credentialParametersToJSON :: "CredentialParameter list \<Rightarrow> CredentialParameterJSON list" where
  "credentialParametersToJSON parameters =
    map (\<lambda>parameter. \<lparr>cpj_Type = cp_Type parameter, cpj_Algorithm = cp_Algorithm parameter\<rparr>) parameters"

definition CredentialCreationOptionsFromProtocol ::
  "go_text \<Rightarrow> PublicKeyCredentialCreationOptions \<Rightarrow> CredentialCreationOptionsJSON result" where
  "CredentialCreationOptionsFromProtocol tx options =
    check (map_option (protocolValueError ''authenticatorSelection'') (Selection_Validate (co_AuthenticatorSelection options)))
    (and_then (extensionInputsToJSON tx (co_Extensions options)) (\<lambda>extensions.
     Inr \<lparr>coj_RP = \<lparr>rpj_ID = rp_ID (co_RP options), rpj_Name = rp_Name (co_RP options)\<rparr>,
       coj_User = \<lparr>uej_ID = b64_encode (bv_bytes (user_ID (co_User options))), uej_Name = user_Name (co_User options),
         uej_DisplayName = user_DisplayName (co_User options)\<rparr>,
       coj_Challenge = b64_encode (bv_bytes (co_Challenge options)),
       coj_PubKeyCredParams = credentialParametersToJSON (co_PubKeyCredParams options),
       coj_TimeoutMilliseconds = co_TimeoutMilliseconds options,
       coj_ExcludeCredentials = credentialDescriptorsToJSON (co_ExcludeCredentials options),
       coj_AuthenticatorSelection = map_option (\<lambda>selection.
         \<lparr>scj_AuthenticatorAttachment = sel_AuthenticatorAttachment selection, scj_ResidentKey = sel_ResidentKey selection,
          scj_RequireResidentKey = sel_RequireResidentKey selection, scj_UserVerification = sel_UserVerification selection\<rparr>)
         (co_AuthenticatorSelection options),
       coj_Hints = co_Hints options, coj_Attestation = co_Attestation options,
       coj_AttestationFormats = co_AttestationFormats options, coj_Extensions = extensions\<rparr>))"

definition CredentialRequestOptionsFromProtocol ::
  "go_text \<Rightarrow> PublicKeyCredentialRequestOptions \<Rightarrow> CredentialRequestOptionsJSON result" where
  "CredentialRequestOptionsFromProtocol tx options =
    and_then (extensionInputsToJSON tx (ro_Extensions options)) (\<lambda>extensions.
    Inr \<lparr>roj_Challenge = b64_encode (bv_bytes (ro_Challenge options)), roj_TimeoutMilliseconds = ro_TimeoutMilliseconds options,
      roj_RPID = ro_RPID options, roj_AllowCredentials = credentialDescriptorsToJSON (ro_AllowCredentials options),
      roj_UserVerification = ro_UserVerification options, roj_Hints = ro_Hints options, roj_Extensions = extensions\<rparr>)"

section \<open>JSON of the option shapes\<close>

definition omitzero_uint32 :: "32 word \<Rightarrow> json option" where
  "omitzero_uint32 w = (if w = 0 then None else Some (json_int_of (uint w)))"

definition omitempty_object :: "ExtensionJSON \<Rightarrow> json option" where
  "omitempty_object es = (if es = [] then None else Some (JObject es))"

definition CredentialDescriptorJSON_json :: "CredentialDescriptorJSON \<Rightarrow> json" where
  "CredentialDescriptorJSON_json d = json_object
    [(''type'', Some (JString (cdj_Type d))), (''id'', Some (JString (cdj_ID d))),
     (''transports'', omitempty_list JString (cdj_Transports d))]"

definition CredentialCreationOptionsJSON_json :: "CredentialCreationOptionsJSON \<Rightarrow> json" where
  "CredentialCreationOptionsJSON_json d = json_object
    [(''rp'', Some (json_object [(''id'', Some (JString (rpj_ID (coj_RP d)))), (''name'', Some (JString (rpj_Name (coj_RP d))))])),
     (''user'', Some (json_object [(''id'', Some (JString (uej_ID (coj_User d)))), (''name'', Some (JString (uej_Name (coj_User d)))),
       (''displayName'', Some (JString (uej_DisplayName (coj_User d))))])),
     (''challenge'', Some (JString (coj_Challenge d))),
     (''pubKeyCredParams'', Some (JArray (map (\<lambda>p. json_object [(''type'', Some (JString (cpj_Type p))),
       (''alg'', Some (json_int_of (cpj_Algorithm p)))]) (coj_PubKeyCredParams d)))),
     (''timeout'', omitzero_uint32 (coj_TimeoutMilliseconds d)),
     (''excludeCredentials'', omitempty_list CredentialDescriptorJSON_json (coj_ExcludeCredentials d)),
     (''authenticatorSelection'', map_option (\<lambda>c. json_object
       [(''authenticatorAttachment'', omitempty_string (scj_AuthenticatorAttachment c)),
        (''residentKey'', omitempty_string (scj_ResidentKey c)),
        (''requireResidentKey'', omitzero_bool (scj_RequireResidentKey c)),
        (''userVerification'', omitempty_string (scj_UserVerification c))]) (coj_AuthenticatorSelection d)),
     (''hints'', omitempty_list JString (coj_Hints d)),
     (''attestation'', omitempty_string (coj_Attestation d)),
     (''attestationFormats'', omitempty_list JString (coj_AttestationFormats d)),
     (''extensions'', omitempty_object (coj_Extensions d))]"

definition CredentialRequestOptionsJSON_json :: "CredentialRequestOptionsJSON \<Rightarrow> json" where
  "CredentialRequestOptionsJSON_json d = json_object
    [(''challenge'', Some (JString (roj_Challenge d))), (''timeout'', omitzero_uint32 (roj_TimeoutMilliseconds d)),
     (''rpId'', omitempty_string (roj_RPID d)),
     (''allowCredentials'', omitempty_list CredentialDescriptorJSON_json (roj_AllowCredentials d)),
     (''userVerification'', omitempty_string (roj_UserVerification d)), (''hints'', omitempty_list JString (roj_Hints d)),
     (''extensions'', omitempty_object (roj_Extensions d))]"

section \<open>Responses from JSON\<close>

definition MaxResponseJSONBytes :: int where "MaxResponseJSONBytes = 1048576"

record attestationResponseWire =
  arw_ClientDataJSON :: "string option"
  arw_AuthenticatorData :: "string option"
  arw_Transports :: "AuthenticatorTransport list option"
  arw_PublicKey :: "string option"
  arw_PublicKeyAlgorithm :: "COSEAlgorithmIdentifier option"
  arw_AttestationObject :: "string option"

record registrationCredentialWire =
  rcw_ID :: "string option"
  rcw_RawID :: "string option"
  rcw_Type :: "PublicKeyCredentialType option"
  rcw_Response :: "attestationResponseWire option"
  rcw_AuthenticatorAttachment :: AuthenticatorAttachment
  rcw_ClientExtensionResults :: "ExtensionJSON option"

record assertionResponseWire =
  asw_ClientDataJSON :: "string option"
  asw_AuthenticatorData :: "string option"
  asw_Signature :: "string option"
  asw_UserHandle :: "string option"

record authenticationCredentialWire =
  acw_ID :: "string option"
  acw_RawID :: "string option"
  acw_Type :: "PublicKeyCredentialType option"
  acw_Response :: "assertionResponseWire option"
  acw_AuthenticatorAttachment :: AuthenticatorAttachment
  acw_ClientExtensionResults :: "ExtensionJSON option"

text \<open>A struct whose unknown members are ignored, and a map of raw members.\<close>

fun json_struct :: "json option \<Rightarrow> (string \<times> json) list result" where
  "json_struct None = Inr []"
| "json_struct (Some JNull) = Inr []"
| "json_struct (Some (JObject ms)) = Inr ms"
| "json_struct (Some _) = Inl jsonError"

definition attestationResponseWire_of_json :: "json option \<Rightarrow> attestationResponseWire result" where
  "attestationResponseWire_of_json j =
    and_then (json_struct j) (\<lambda>ms.
    and_then (json_ptr json_string (map_of ms ''clientDataJSON'')) (\<lambda>clientData.
    and_then (json_ptr json_string (map_of ms ''authenticatorData'')) (\<lambda>authenticatorData.
    and_then (json_ptr (json_list json_string) (map_of ms ''transports'')) (\<lambda>transports.
    and_then (json_ptr json_string (map_of ms ''publicKey'')) (\<lambda>publicKey.
    and_then (json_ptr (json_int MinInt64 MaxInt64) (map_of ms ''publicKeyAlgorithm'')) (\<lambda>algorithm.
    and_then (json_ptr json_string (map_of ms ''attestationObject'')) (\<lambda>attestationObject.
    Inr \<lparr>arw_ClientDataJSON = clientData, arw_AuthenticatorData = authenticatorData, arw_Transports = transports,
      arw_PublicKey = publicKey, arw_PublicKeyAlgorithm = algorithm, arw_AttestationObject = attestationObject\<rparr>)))))))"

definition registrationCredentialWire_of_json :: "json \<Rightarrow> registrationCredentialWire result" where
  "registrationCredentialWire_of_json j =
    and_then (json_struct (Some j)) (\<lambda>ms.
    and_then (json_ptr json_string (map_of ms ''id'')) (\<lambda>name.
    and_then (json_ptr json_string (map_of ms ''rawId'')) (\<lambda>rawID.
    and_then (json_ptr json_string (map_of ms ''type'')) (\<lambda>t.
    and_then (json_ptr attestationResponseWire_of_json (map_of ms ''response'')) (\<lambda>response.
    and_then (json_string (map_of ms ''authenticatorAttachment'')) (\<lambda>attachment.
    and_then (json_ptr json_struct (map_of ms ''clientExtensionResults'')) (\<lambda>extensions.
    Inr \<lparr>rcw_ID = name, rcw_RawID = rawID, rcw_Type = t, rcw_Response = response, rcw_AuthenticatorAttachment = attachment,
      rcw_ClientExtensionResults = extensions\<rparr>)))))))"

definition assertionResponseWire_of_json :: "json option \<Rightarrow> assertionResponseWire result" where
  "assertionResponseWire_of_json j =
    and_then (json_struct j) (\<lambda>ms.
    and_then (json_ptr json_string (map_of ms ''clientDataJSON'')) (\<lambda>clientData.
    and_then (json_ptr json_string (map_of ms ''authenticatorData'')) (\<lambda>authenticatorData.
    and_then (json_ptr json_string (map_of ms ''signature'')) (\<lambda>signature.
    and_then (json_ptr json_string (map_of ms ''userHandle'')) (\<lambda>userHandle.
    Inr \<lparr>asw_ClientDataJSON = clientData, asw_AuthenticatorData = authenticatorData, asw_Signature = signature,
      asw_UserHandle = userHandle\<rparr>)))))"

definition authenticationCredentialWire_of_json :: "json \<Rightarrow> authenticationCredentialWire result" where
  "authenticationCredentialWire_of_json j =
    and_then (json_struct (Some j)) (\<lambda>ms.
    and_then (json_ptr json_string (map_of ms ''id'')) (\<lambda>name.
    and_then (json_ptr json_string (map_of ms ''rawId'')) (\<lambda>rawID.
    and_then (json_ptr json_string (map_of ms ''type'')) (\<lambda>t.
    and_then (json_ptr assertionResponseWire_of_json (map_of ms ''response'')) (\<lambda>response.
    and_then (json_string (map_of ms ''authenticatorAttachment'')) (\<lambda>attachment.
    and_then (json_ptr json_struct (map_of ms ''clientExtensionResults'')) (\<lambda>extensions.
    Inr \<lparr>acw_ID = name, acw_RawID = rawID, acw_Type = t, acw_Response = response, acw_AuthenticatorAttachment = attachment,
      acw_ClientExtensionResults = extensions\<rparr>)))))))"

definition validateResponseJSONSize :: "bytes \<Rightarrow> error option" where
  "validateResponseJSONSize data =
    (if length data = 0 \<or> int (length data) > MaxResponseJSONBytes then Some (Notef ErrMalformedJSON ''response size'') else None)"

definition unmarshalBrowserJSON :: "go_std \<Rightarrow> bytes \<Rightarrow> (json \<Rightarrow> 'a result) \<Rightarrow> 'a result" where
  "unmarshalBrowserJSON std data target =
    wrap_res ErrMalformedJSON (case std_json std data of None \<Rightarrow> Inl jsonError | Some j \<Rightarrow> target j)"

text \<open>A byte value from its base64url text.\<close>

definition fromBase64URL :: "(go_bytes \<Rightarrow> byteValue result) \<Rightarrow> string \<Rightarrow> string \<Rightarrow> byteValue result" where
  "fromBase64URL mk name encoded =
    and_then (decodeBase64URL name encoded) (\<lambda>bs. protocol_value name (mk (Some bs)))"

definition rawIDFromBase64URL :: "string \<Rightarrow> string \<Rightarrow> RawID result" where
  "rawIDFromBase64URL = fromBase64URL NewRawID"

definition clientDataJSONFromBase64URL :: "string \<Rightarrow> string \<Rightarrow> ClientDataJSON result" where
  "clientDataJSONFromBase64URL = fromBase64URL NewClientDataJSON"

definition attestationObjectFromBase64URL :: "string \<Rightarrow> string \<Rightarrow> AttestationObject result" where
  "attestationObjectFromBase64URL = fromBase64URL NewAttestationObject"

definition authenticatorDataFromBase64URL :: "string \<Rightarrow> string \<Rightarrow> AuthenticatorData result" where
  "authenticatorDataFromBase64URL = fromBase64URL NewAuthenticatorData"

definition signatureFromBase64URL :: "string \<Rightarrow> string \<Rightarrow> Signature result" where
  "signatureFromBase64URL = fromBase64URL NewSignature"

definition optionalUserHandleFromBase64URL :: "string \<Rightarrow> string option \<Rightarrow> UserHandle result" where
  "optionalUserHandleFromBase64URL name encoded =
    (case encoded of None \<Rightarrow> Inr zero_byteValue | Some s \<Rightarrow> fromBase64URL NewUserHandle name s)"

definition optionalBytesFromBase64URL :: "string \<Rightarrow> string option \<Rightarrow> go_bytes result" where
  "optionalBytesFromBase64URL name encoded =
    (case encoded of None \<Rightarrow> Inr None | Some s \<Rightarrow> and_then (decodeBase64URL name s) (\<lambda>bs. Inr (Some bs)))"

definition largeBlobOutputFromJSON :: "goval \<Rightarrow> goval result" where
  "largeBlobOutputFromJSON v =
    (case assert_any_map v of None \<Rightarrow> Inr v
     | Some es \<Rightarrow> (case map_of es (VString ''blob'') of
         Some (VString encoded) \<Rightarrow> and_then (decodeBase64URL ''clientExtensionResults.largeBlob.blob'' encoded) (\<lambda>decoded.
           Inr (any_map (map_update ''blob'' (VBytes (Some decoded)) es)))
       | _ \<Rightarrow> Inr (any_map es)))"

fun decodePRFFields :: "string list \<Rightarrow> (goval \<times> goval) list \<Rightarrow> (goval \<times> goval) list result" where
  "decodePRFFields [] converted = Inr converted"
| "decodePRFFields (name # names) converted =
    (case map_of converted (VString name) of
       Some (VString encoded) \<Rightarrow> and_then (decodeBase64URL (''clientExtensionResults.prf.results.'' @ name) encoded) (\<lambda>decoded.
         decodePRFFields names (map_update name (VBytes (Some decoded)) converted))
     | _ \<Rightarrow> decodePRFFields names converted)"

definition prfOutputFromJSON :: "goval \<Rightarrow> goval result" where
  "prfOutputFromJSON v =
    (case assert_any_map v of None \<Rightarrow> Inr v
     | Some es \<Rightarrow> (case map_of es (VString ''results'') of None \<Rightarrow> Inr (any_map es)
       | Some rawResults \<Rightarrow> (case assert_any_map rawResults of None \<Rightarrow> Inr (any_map es)
         | Some results \<Rightarrow> and_then (decodePRFFields [''first'', ''second''] results) (\<lambda>converted.
             Inr (any_map (map_update ''results'' (any_map converted) es))))))"

definition clientExtensionResultFromJSON :: "go_text \<Rightarrow> string \<Rightarrow> json \<Rightarrow> goval result" where
  "clientExtensionResultFromJSON tx name encoded =
    and_then (protocol_value (''clientExtensionResults.'' @ name) (any_of_json tx encoded)) (\<lambda>v.
    if name \<noteq> IDLargeBlob then (if name = IDPRF then prfOutputFromJSON v else Inr v)
    else largeBlobOutputFromJSON v)"

definition clientExtensionResultsFromJSON :: "go_text \<Rightarrow> ExtensionJSON \<Rightarrow> ClientOutputs result" where
  "clientExtensionResultsFromJSON tx results =
    (if length results = 0 then Inr [] else
     and_then (map_res (\<lambda>(name, encoded). and_then (clientExtensionResultFromJSON tx name encoded) (\<lambda>v. Inr (name, v))) results) (\<lambda>out.
     protocol_value ''clientExtensionResults'' (ClientOutputsFromRaw (Some out))))"

definition registrationResponseFromWire :: "go_text \<Rightarrow> registrationCredentialWire \<Rightarrow> RegistrationResponse result" where
  "registrationResponseFromWire tx wire =
    (case (rcw_RawID wire, rcw_Type wire) of
       (Some encodedID, Some t) \<Rightarrow>
         check (map_option (protocolValueError ''type'') (CredentialType_Validate t))
         (and_then (rawIDFromBase64URL ''rawId'' encodedID) (\<lambda>rawID.
          case (rcw_ID wire, rcw_Response wire, rcw_ClientExtensionResults wire) of
            (Some name, Some response, Some results) \<Rightarrow>
              (case (arw_ClientDataJSON response, arw_AuthenticatorData response, arw_Transports response,
                  arw_PublicKeyAlgorithm response, arw_AttestationObject response) of
                 (Some clientData, Some authData, Some transports, Some algorithm, Some attObject) \<Rightarrow>
                   if name \<noteq> b64_encode (bv_bytes rawID)
                   then Inl (protocolValueError ''id'' (Newf ''id does not match rawId'')) else
                   and_then (clientDataJSONFromBase64URL ''response.clientDataJSON'' clientData) (\<lambda>clientDataJSON.
                   and_then (authenticatorDataFromBase64URL ''response.authenticatorData'' authData) (\<lambda>authenticatorData.
                   and_then (attestationObjectFromBase64URL ''response.attestationObject'' attObject) (\<lambda>attestationObject.
                   and_then (optionalBytesFromBase64URL ''response.publicKey'' (arw_PublicKey response)) (\<lambda>_.
                   if algorithm = 0
                   then Inl (protocolValueError ''response.publicKeyAlgorithm'' (Newf ''algorithm is required'')) else
                   and_then (clientExtensionResultsFromJSON tx results) (\<lambda>clientExtensions.
                   Inr \<lparr>rr_Type = t, rr_RawID = rawID, rr_ClientDataJSON = clientDataJSON,
                     rr_AuthenticatorData = authenticatorData, rr_AttestationObject = attestationObject,
                     rr_PublicKeyAlgorithm = algorithm, rr_Transports = transports,
                     rr_AuthenticatorAttachment = rcw_AuthenticatorAttachment wire,
                     rr_ClientExtensionResults = clientExtensions\<rparr>)))))
               | _ \<Rightarrow> Inl (requiredMemberError ''response''))
          | _ \<Rightarrow> Inl (requiredMemberError ''registration response'')))
     | _ \<Rightarrow> Inl (requiredMemberError ''registration response''))"

definition RegistrationResponseFromJSON :: "go_std \<Rightarrow> go_text \<Rightarrow> bytes \<Rightarrow> RegistrationResponse result" where
  "RegistrationResponseFromJSON std tx data =
    check (validateResponseJSONSize data)
    (and_then (unmarshalBrowserJSON std data registrationCredentialWire_of_json) (registrationResponseFromWire tx))"

definition authenticationResponseFromWire :: "go_text \<Rightarrow> authenticationCredentialWire \<Rightarrow> AuthenticationResponse result" where
  "authenticationResponseFromWire tx wire =
    (case (acw_RawID wire, acw_Type wire) of
       (Some encodedID, Some t) \<Rightarrow>
         check (map_option (protocolValueError ''type'') (CredentialType_Validate t))
         (and_then (rawIDFromBase64URL ''rawId'' encodedID) (\<lambda>rawID.
          case (acw_ID wire, acw_Response wire, acw_ClientExtensionResults wire) of
            (Some name, Some response, Some results) \<Rightarrow>
              (case (asw_ClientDataJSON response, asw_AuthenticatorData response, asw_Signature response) of
                 (Some clientData, Some authData, Some sig) \<Rightarrow>
                   if name \<noteq> b64_encode (bv_bytes rawID)
                   then Inl (protocolValueError ''id'' (Newf ''id does not match rawId'')) else
                   and_then (clientDataJSONFromBase64URL ''response.clientDataJSON'' clientData) (\<lambda>clientDataJSON.
                   and_then (authenticatorDataFromBase64URL ''response.authenticatorData'' authData) (\<lambda>authenticatorData.
                   and_then (signatureFromBase64URL ''response.signature'' sig) (\<lambda>signature.
                   and_then (optionalUserHandleFromBase64URL ''response.userHandle'' (asw_UserHandle response)) (\<lambda>userHandle.
                   and_then (clientExtensionResultsFromJSON tx results) (\<lambda>clientExtensions.
                   Inr \<lparr>ar_Type = t, ar_RawID = rawID, ar_ClientDataJSON = clientDataJSON,
                     ar_AuthenticatorData = authenticatorData, ar_Signature = signature, ar_UserHandle = userHandle,
                     ar_AuthenticatorAttachment = acw_AuthenticatorAttachment wire,
                     ar_ClientExtensionResults = clientExtensions\<rparr>)))))
               | _ \<Rightarrow> Inl (requiredMemberError ''response''))
          | _ \<Rightarrow> Inl (requiredMemberError ''authentication response'')))
     | _ \<Rightarrow> Inl (requiredMemberError ''authentication response''))"

definition AuthenticationResponseFromJSON :: "go_std \<Rightarrow> go_text \<Rightarrow> bytes \<Rightarrow> AuthenticationResponse result" where
  "AuthenticationResponseFromJSON std tx data =
    check (validateResponseJSONSize data)
    (and_then (unmarshalBrowserJSON std data authenticationCredentialWire_of_json) (authenticationResponseFromWire tx))"

definition CredentialDescriptorFromJSON :: "CredentialDescriptorJSON \<Rightarrow> CredentialDescriptor result" where
  "CredentialDescriptorFromJSON dto =
    and_then (fromBase64URL NewCredentialID ''id'' (cdj_ID dto)) (\<lambda>credentialID.
    let descriptor = \<lparr>cd_Type = cdj_Type dto, cd_ID = credentialID, cd_Transports = cdj_Transports dto\<rparr> in
    check (map_option (protocolValueError ''credential descriptor'') (CredentialDescriptor_Validate descriptor)) (Inr descriptor))"

section \<open>Byte values survive\<close>

lemma decodeBase64URL_Inr_iff: "decodeBase64URL name s = Inr bs \<longleftrightarrow> s = b64_encode bs"
  by (auto simp: decodeBase64URL_def split: option.splits)

lemma protocol_value_Inr_iff [result_inv]: "protocol_value name r = Inr x \<longleftrightarrow> r = Inr x"
  by (auto simp: protocol_value_def split: sum.splits)

lemma fromBase64URL_Inr_iff:
  "fromBase64URL mk name s = Inr b \<longleftrightarrow> (\<exists>bs. s = b64_encode bs \<and> mk (Some bs) = Inr b)"
  by (auto simp: fromBase64URL_def result_inv decodeBase64URL_Inr_iff)

lemma fromBase64URL_constructed [simp]: "constructed mk b \<Longrightarrow> fromBase64URL mk name (b64_encode (bv_bytes b)) = Inr b"
  by (auto simp: fromBase64URL_Inr_iff constructed_def)

lemma more_constructed_of: "NewRawID v = Inr i \<Longrightarrow> constructed NewRawID i"
    "NewClientDataJSON v = Inr c \<Longrightarrow> constructed NewClientDataJSON c"
    "NewAuthenticatorData v = Inr a \<Longrightarrow> constructed NewAuthenticatorData a"
    "NewAttestationObject v = Inr ob \<Longrightarrow> constructed NewAttestationObject ob"
    "NewSignature v = Inr s \<Longrightarrow> constructed NewSignature s"
  by (simp_all add: constructed_def raw_id.reconstruct client_data_json.reconstruct authenticator_data.reconstruct
      attestation_object.reconstruct signature.reconstruct)

lemmas base64_values = rawIDFromBase64URL_def clientDataJSONFromBase64URL_def attestationObjectFromBase64URL_def
  authenticatorDataFromBase64URL_def signatureFromBase64URL_def

section \<open>What browsers send\<close>

text \<open>
  The JSON that \<^verbatim>\<open>PublicKeyCredential.toJSON\<close> gives for a response, with the raw client extension results and
  the members that the code ignores or only checks.
\<close>

definition registration_json :: "RegistrationResponse \<Rightarrow> string option \<Rightarrow> ExtensionJSON \<Rightarrow> json" where
  "registration_json r publicKey results = json_object
    [(''id'', Some (JString (b64_encode (bv_bytes (rr_RawID r))))), (''rawId'', Some (JString (b64_encode (bv_bytes (rr_RawID r))))),
     (''type'', Some (JString (rr_Type r))),
     (''response'', Some (json_object
       [(''clientDataJSON'', Some (JString (b64_encode (bv_bytes (rr_ClientDataJSON r))))),
        (''authenticatorData'', Some (JString (b64_encode (bv_bytes (rr_AuthenticatorData r))))),
        (''transports'', Some (json_strings_of (rr_Transports r))), (''publicKey'', map_option JString publicKey),
        (''publicKeyAlgorithm'', Some (json_int_of (rr_PublicKeyAlgorithm r))),
        (''attestationObject'', Some (JString (b64_encode (bv_bytes (rr_AttestationObject r)))))])),
     (''authenticatorAttachment'', omitempty_string (rr_AuthenticatorAttachment r)),
     (''clientExtensionResults'', Some (JObject results))]"

definition authentication_json :: "AuthenticationResponse \<Rightarrow> ExtensionJSON \<Rightarrow> json" where
  "authentication_json r results = json_object
    [(''id'', Some (JString (b64_encode (bv_bytes (ar_RawID r))))), (''rawId'', Some (JString (b64_encode (bv_bytes (ar_RawID r))))),
     (''type'', Some (JString (ar_Type r))),
     (''response'', Some (json_object
       [(''clientDataJSON'', Some (JString (b64_encode (bv_bytes (ar_ClientDataJSON r))))),
        (''authenticatorData'', Some (JString (b64_encode (bv_bytes (ar_AuthenticatorData r))))),
        (''signature'', Some (JString (b64_encode (bv_bytes (ar_Signature r))))),
        (''userHandle'', if ar_UserHandle r = zero_byteValue then None else Some (JString (b64_encode (bv_bytes (ar_UserHandle r)))))])),
     (''authenticatorAttachment'', omitempty_string (ar_AuthenticatorAttachment r)),
     (''clientExtensionResults'', Some (JObject results))]"

definition registration_response_typed :: "RegistrationResponse \<Rightarrow> bool" where
  "registration_response_typed r \<longleftrightarrow> rr_Type r = CredentialTypePublicKey \<and> constructed NewRawID (rr_RawID r) \<and>
    constructed NewClientDataJSON (rr_ClientDataJSON r) \<and> constructed NewAuthenticatorData (rr_AuthenticatorData r) \<and>
    constructed NewAttestationObject (rr_AttestationObject r) \<and> rr_PublicKeyAlgorithm r \<noteq> 0 \<and>
    MinInt64 \<le> rr_PublicKeyAlgorithm r \<and> rr_PublicKeyAlgorithm r \<le> MaxInt64"

definition authentication_response_typed :: "AuthenticationResponse \<Rightarrow> bool" where
  "authentication_response_typed r \<longleftrightarrow> ar_Type r = CredentialTypePublicKey \<and> constructed NewRawID (ar_RawID r) \<and>
    constructed NewClientDataJSON (ar_ClientDataJSON r) \<and> constructed NewAuthenticatorData (ar_AuthenticatorData r) \<and>
    constructed NewSignature (ar_Signature r) \<and>
    (ar_UserHandle r = zero_byteValue \<or> constructed NewUserHandle (ar_UserHandle r))"

lemma json_members_read:
  "json_struct (Some (json_object ms)) = Inr (present_members ms)"
  "json_ptr json_struct (Some (JObject es)) = Inr (Some es)"
  "json_ptr json_string (Some (JString s)) = Inr (Some s)"
  "json_ptr json_string (map_option JString v) = Inr v"
  "json_ptr (json_list json_string) (Some (json_strings_of xs)) = Inr (Some xs)"
  "lo \<le> n \<Longrightarrow> n \<le> hi \<Longrightarrow> json_ptr (json_int lo hi) (Some (json_int_of n)) = Inr (Some n)"
  "json_ptr dec (Some (json_object ms)) = and_then (dec (Some (json_object ms))) (\<lambda>x. Inr (Some x))"
  "json_ptr dec None = Inr None"
  using string_codec.dec_list [of xs] int_codec.dec_enc [of lo n hi]
  by (cases v; simp add: json_object_def json_ptr_def json_strings_of_def json_int_of_def list_all_iff)+

lemma registration_wire:
  assumes "registration_response_typed r"
  shows "registrationCredentialWire_of_json (registration_json r publicKey results) = Inr
    \<lparr>rcw_ID = Some (b64_encode (bv_bytes (rr_RawID r))), rcw_RawID = Some (b64_encode (bv_bytes (rr_RawID r))),
     rcw_Type = Some (rr_Type r), rcw_Response = Some
       \<lparr>arw_ClientDataJSON = Some (b64_encode (bv_bytes (rr_ClientDataJSON r))),
        arw_AuthenticatorData = Some (b64_encode (bv_bytes (rr_AuthenticatorData r))), arw_Transports = Some (rr_Transports r),
        arw_PublicKey = publicKey, arw_PublicKeyAlgorithm = Some (rr_PublicKeyAlgorithm r),
        arw_AttestationObject = Some (b64_encode (bv_bytes (rr_AttestationObject r)))\<rparr>,
     rcw_AuthenticatorAttachment = rr_AuthenticatorAttachment r, rcw_ClientExtensionResults = Some results\<rparr>"
  using assms
  by (simp add: registrationCredentialWire_of_json_def attestationResponseWire_of_json_def registration_json_def
      registration_response_typed_def json_members_read map_of_json_object del: present_members.simps)

lemma authentication_wire:
  "authenticationCredentialWire_of_json (authentication_json r results) = Inr
    \<lparr>acw_ID = Some (b64_encode (bv_bytes (ar_RawID r))), acw_RawID = Some (b64_encode (bv_bytes (ar_RawID r))),
     acw_Type = Some (ar_Type r), acw_Response = Some
       \<lparr>asw_ClientDataJSON = Some (b64_encode (bv_bytes (ar_ClientDataJSON r))),
        asw_AuthenticatorData = Some (b64_encode (bv_bytes (ar_AuthenticatorData r))),
        asw_Signature = Some (b64_encode (bv_bytes (ar_Signature r))),
        asw_UserHandle = (if ar_UserHandle r = zero_byteValue then None else Some (b64_encode (bv_bytes (ar_UserHandle r))))\<rparr>,
     acw_AuthenticatorAttachment = ar_AuthenticatorAttachment r, acw_ClientExtensionResults = Some results\<rparr>"
  by (simp add: authenticationCredentialWire_of_json_def assertionResponseWire_of_json_def authentication_json_def
      json_members_read map_of_json_object del: present_members.simps)

lemma type_valid: "map_option f (CredentialType_Validate CredentialTypePublicKey) = None"
  by (simp add: CredentialType_Validate_None_iff)

lemma registration_from_wire:
  assumes "registration_response_typed r" "clientExtensionResultsFromJSON tx results = Inr (rr_ClientExtensionResults r)"
    and "registrationCredentialWire_of_json (registration_json r (map_option b64_encode publicKey) results) = Inr wire"
  shows "registrationResponseFromWire tx wire = Inr r"
proof -
  have "optionalBytesFromBase64URL name (map_option b64_encode publicKey) = Inr publicKey" for name
    by (cases publicKey) (simp_all add: optionalBytesFromBase64URL_def decodeBase64URL_Inr_iff result_inv)
  then show ?thesis
    using assms registration_wire [OF assms(1), of "map_option b64_encode publicKey" results]
    by (auto simp: registrationResponseFromWire_def base64_values registration_response_typed_def check_def type_valid)
qed

lemma authentication_from_wire:
  assumes "authentication_response_typed r" "clientExtensionResultsFromJSON tx results = Inr (ar_ClientExtensionResults r)"
    and "authenticationCredentialWire_of_json (authentication_json r results) = Inr wire"
  shows "authenticationResponseFromWire tx wire = Inr r"
  using assms authentication_wire [of r results]
  by (auto simp: authenticationResponseFromWire_def base64_values authentication_response_typed_def check_def type_valid
      optionalUserHandleFromBase64URL_def)

lemma unmarshalBrowserJSON_Inr_iff:
  "unmarshalBrowserJSON std data target = Inr x \<longleftrightarrow> (\<exists>j. std_json std data = Some j \<and> target j = Inr x)"
  by (auto simp: unmarshalBrowserJSON_def result_inv split: option.splits)

lemma validateResponseJSONSize_None_iff:
  "validateResponseJSONSize data = None \<longleftrightarrow> data \<noteq> [] \<and> int (length data) \<le> MaxResponseJSONBytes"
  by (auto simp: validateResponseJSONSize_def)

section \<open>What decoding establishes\<close>

lemma RegistrationResponseFromJSON_Inr:
  assumes "RegistrationResponseFromJSON std tx data = Inr r"
  shows "data \<noteq> []" "int (length data) \<le> MaxResponseJSONBytes" "rr_Type r = CredentialTypePublicKey"
    "constructed NewRawID (rr_RawID r)" "constructed NewClientDataJSON (rr_ClientDataJSON r)"
    "constructed NewAuthenticatorData (rr_AuthenticatorData r)" "constructed NewAttestationObject (rr_AttestationObject r)"
    "rr_PublicKeyAlgorithm r \<noteq> 0"
proof -
  obtain wire where size: "validateResponseJSONSize data = None" and wire: "registrationResponseFromWire tx wire = Inr r"
    using assms by (auto simp: RegistrationResponseFromJSON_def result_inv)
  show "data \<noteq> []" "int (length data) \<le> MaxResponseJSONBytes"
    using size by (simp_all add: validateResponseJSONSize_None_iff)
  show "rr_Type r = CredentialTypePublicKey"
    "constructed NewRawID (rr_RawID r)" "constructed NewClientDataJSON (rr_ClientDataJSON r)"
    "constructed NewAuthenticatorData (rr_AuthenticatorData r)" "constructed NewAttestationObject (rr_AttestationObject r)"
    "rr_PublicKeyAlgorithm r \<noteq> 0"
    using wire
    by (auto simp: registrationResponseFromWire_def result_inv base64_values fromBase64URL_Inr_iff more_constructed_of
        CredentialType_Validate_None_iff split: option.splits)
qed

lemma AuthenticationResponseFromJSON_Inr:
  assumes "AuthenticationResponseFromJSON std tx data = Inr r"
  shows "data \<noteq> []" "int (length data) \<le> MaxResponseJSONBytes" "ar_Type r = CredentialTypePublicKey"
    "constructed NewRawID (ar_RawID r)" "constructed NewClientDataJSON (ar_ClientDataJSON r)"
    "constructed NewAuthenticatorData (ar_AuthenticatorData r)" "constructed NewSignature (ar_Signature r)"
    "ar_UserHandle r = zero_byteValue \<or> constructed NewUserHandle (ar_UserHandle r)"
proof -
  obtain wire where size: "validateResponseJSONSize data = None" and wire: "authenticationResponseFromWire tx wire = Inr r"
    using assms by (auto simp: AuthenticationResponseFromJSON_def result_inv)
  show "data \<noteq> []" "int (length data) \<le> MaxResponseJSONBytes"
    using size by (simp_all add: validateResponseJSONSize_None_iff)
  show "ar_Type r = CredentialTypePublicKey"
    "constructed NewRawID (ar_RawID r)" "constructed NewClientDataJSON (ar_ClientDataJSON r)"
    "constructed NewAuthenticatorData (ar_AuthenticatorData r)" "constructed NewSignature (ar_Signature r)"
    "ar_UserHandle r = zero_byteValue \<or> constructed NewUserHandle (ar_UserHandle r)"
    using wire
    by (auto simp: authenticationResponseFromWire_def result_inv base64_values fromBase64URL_Inr_iff more_constructed_of
        constructed_of optionalUserHandleFromBase64URL_def CredentialType_Validate_None_iff split: option.splits)
qed

context json_text
begin

lemma registration_response_survives:
  assumes "js_Marshal tx (registration_json r (map_option b64_encode publicKey) results) = Inr data"
    and "int (length data) \<le> MaxResponseJSONBytes" "registration_response_typed r"
    and "clientExtensionResultsFromJSON tx results = Inr (rr_ClientExtensionResults r)"
  shows "RegistrationResponseFromJSON std tx data = Inr r"
proof -
  obtain wire where wire: "registrationCredentialWire_of_json (registration_json r (map_option b64_encode publicKey) results) = Inr wire"
    using registration_wire [OF assms(3)] by blast
  then have "unmarshalBrowserJSON std data registrationCredentialWire_of_json = Inr wire"
    using json_reads [OF assms(1)] by (simp add: unmarshalBrowserJSON_Inr_iff)
  moreover have "validateResponseJSONSize data = None"
    using text_nonempty [OF assms(1)] assms(2) by (simp add: validateResponseJSONSize_None_iff)
  ultimately show ?thesis
    using registration_from_wire [OF assms(3,4) wire] by (simp add: RegistrationResponseFromJSON_def check_def)
qed

lemma authentication_response_survives:
  assumes "js_Marshal tx (authentication_json r results) = Inr data"
    and "int (length data) \<le> MaxResponseJSONBytes" "authentication_response_typed r"
    and "clientExtensionResultsFromJSON tx results = Inr (ar_ClientExtensionResults r)"
  shows "AuthenticationResponseFromJSON std tx data = Inr r"
proof -
  obtain wire where wire: "authenticationCredentialWire_of_json (authentication_json r results) = Inr wire"
    using authentication_wire by blast
  then have "unmarshalBrowserJSON std data authenticationCredentialWire_of_json = Inr wire"
    using json_reads [OF assms(1)] by (simp add: unmarshalBrowserJSON_Inr_iff)
  moreover have "validateResponseJSONSize data = None"
    using text_nonempty [OF assms(1)] assms(2) by (simp add: validateResponseJSONSize_None_iff)
  ultimately show ?thesis
    using authentication_from_wire [OF assms(3,4) wire] by (simp add: AuthenticationResponseFromJSON_def check_def)
qed

end

section \<open>Options survive\<close>

lemma CredentialDescriptor_roundtrip:
  "constructed NewCredentialID (cd_ID d) \<Longrightarrow> CredentialDescriptor_Validate d = None \<Longrightarrow>
    CredentialDescriptorFromJSON (CredentialDescriptorToJSON d) = Inr d"
  by (cases d) (simp add: CredentialDescriptorFromJSON_def CredentialDescriptorToJSON_def check_Inr_iff Let_def)

lemma credentialDescriptors_roundtrip:
  "list_all (\<lambda>d. constructed NewCredentialID (cd_ID d) \<and> CredentialDescriptor_Validate d = None) ds \<Longrightarrow>
    map_res CredentialDescriptorFromJSON (credentialDescriptorsToJSON ds) = Inr ds"
  unfolding credentialDescriptorsToJSON_def
  by (intro map_res_map) (auto simp: list_all_iff CredentialDescriptor_roundtrip)

text \<open>
  What a browser makes of the options: it decodes the base64url members and takes the others as they
  are (\<^verbatim>\<open>parseCreationOptionsFromJSON\<close> and \<^verbatim>\<open>parseRequestOptionsFromJSON\<close> of the specification). The
  extension inputs are an argument.
\<close>

definition parseCreationOptions ::
  "CredentialCreationOptionsJSON \<Rightarrow> ExtensionInputs \<Rightarrow> PublicKeyCredentialCreationOptions result" where
  "parseCreationOptions dto extensions =
    and_then (fromBase64URL NewUserHandle ''user.id'' (uej_ID (coj_User dto))) (\<lambda>userID.
    and_then (fromBase64URL NewChallenge ''challenge'' (coj_Challenge dto)) (\<lambda>challenge.
    and_then (map_res CredentialDescriptorFromJSON (coj_ExcludeCredentials dto)) (\<lambda>excluded.
    Inr \<lparr>co_RP = \<lparr>rp_ID = rpj_ID (coj_RP dto), rp_Name = rpj_Name (coj_RP dto)\<rparr>,
      co_User = \<lparr>user_ID = userID, user_Name = uej_Name (coj_User dto), user_DisplayName = uej_DisplayName (coj_User dto)\<rparr>,
      co_Challenge = challenge,
      co_PubKeyCredParams = map (\<lambda>p. \<lparr>cp_Type = cpj_Type p, cp_Algorithm = cpj_Algorithm p\<rparr>) (coj_PubKeyCredParams dto),
      co_TimeoutMilliseconds = coj_TimeoutMilliseconds dto, co_ExcludeCredentials = excluded,
      co_AuthenticatorSelection = map_option (\<lambda>c. \<lparr>sel_AuthenticatorAttachment = scj_AuthenticatorAttachment c,
        sel_ResidentKey = scj_ResidentKey c, sel_RequireResidentKey = scj_RequireResidentKey c,
        sel_UserVerification = scj_UserVerification c\<rparr>) (coj_AuthenticatorSelection dto),
      co_Hints = coj_Hints dto, co_Attestation = coj_Attestation dto, co_AttestationFormats = coj_AttestationFormats dto,
      co_Extensions = extensions\<rparr>)))"

definition parseRequestOptions :: "CredentialRequestOptionsJSON \<Rightarrow> ExtensionInputs \<Rightarrow> PublicKeyCredentialRequestOptions result" where
  "parseRequestOptions dto extensions =
    and_then (fromBase64URL NewChallenge ''challenge'' (roj_Challenge dto)) (\<lambda>challenge.
    and_then (map_res CredentialDescriptorFromJSON (roj_AllowCredentials dto)) (\<lambda>allowed.
    Inr \<lparr>ro_Challenge = challenge, ro_TimeoutMilliseconds = roj_TimeoutMilliseconds dto, ro_RPID = roj_RPID dto,
      ro_AllowCredentials = allowed, ro_UserVerification = roj_UserVerification dto, ro_Hints = roj_Hints dto,
      ro_Extensions = extensions\<rparr>))"

definition creation_options_typed :: "PublicKeyCredentialCreationOptions \<Rightarrow> bool" where
  "creation_options_typed opts \<longleftrightarrow> constructed NewChallenge (co_Challenge opts) \<and>
    constructed NewUserHandle (user_ID (co_User opts)) \<and>
    list_all (\<lambda>d. constructed NewCredentialID (cd_ID d) \<and> CredentialDescriptor_Validate d = None) (co_ExcludeCredentials opts)"

definition request_options_typed :: "PublicKeyCredentialRequestOptions \<Rightarrow> bool" where
  "request_options_typed opts \<longleftrightarrow> constructed NewChallenge (ro_Challenge opts) \<and>
    list_all (\<lambda>d. constructed NewCredentialID (cd_ID d) \<and> CredentialDescriptor_Validate d = None) (ro_AllowCredentials opts)"

lemma parameters_roundtrip:
  "map (\<lambda>p. \<lparr>cp_Type = cpj_Type p, cp_Algorithm = cpj_Algorithm p\<rparr>) (credentialParametersToJSON ps) = ps"
  by (induction ps) (simp_all add: credentialParametersToJSON_def)

lemma selection_roundtrip:
  "map_option (\<lambda>c. \<lparr>sel_AuthenticatorAttachment = scj_AuthenticatorAttachment c,
        sel_ResidentKey = scj_ResidentKey c, sel_RequireResidentKey = scj_RequireResidentKey c,
        sel_UserVerification = scj_UserVerification c\<rparr>) (map_option (\<lambda>selection.
         \<lparr>scj_AuthenticatorAttachment = sel_AuthenticatorAttachment selection, scj_ResidentKey = sel_ResidentKey selection,
          scj_RequireResidentKey = sel_RequireResidentKey selection, scj_UserVerification = sel_UserVerification selection\<rparr>) s) = s"
  by (cases s) simp_all

lemma creation_options_survive:
  assumes "CredentialCreationOptionsFromProtocol tx opts = Inr dto" "creation_options_typed opts"
  shows "parseCreationOptions dto (co_Extensions opts) = Inr opts"
proof -
  obtain extensions where dto: "dto = \<lparr>coj_RP = \<lparr>rpj_ID = rp_ID (co_RP opts), rpj_Name = rp_Name (co_RP opts)\<rparr>,
       coj_User = \<lparr>uej_ID = b64_encode (bv_bytes (user_ID (co_User opts))), uej_Name = user_Name (co_User opts),
         uej_DisplayName = user_DisplayName (co_User opts)\<rparr>,
       coj_Challenge = b64_encode (bv_bytes (co_Challenge opts)),
       coj_PubKeyCredParams = credentialParametersToJSON (co_PubKeyCredParams opts),
       coj_TimeoutMilliseconds = co_TimeoutMilliseconds opts,
       coj_ExcludeCredentials = credentialDescriptorsToJSON (co_ExcludeCredentials opts),
       coj_AuthenticatorSelection = map_option (\<lambda>selection.
         \<lparr>scj_AuthenticatorAttachment = sel_AuthenticatorAttachment selection, scj_ResidentKey = sel_ResidentKey selection,
          scj_RequireResidentKey = sel_RequireResidentKey selection, scj_UserVerification = sel_UserVerification selection\<rparr>)
         (co_AuthenticatorSelection opts),
       coj_Hints = co_Hints opts, coj_Attestation = co_Attestation opts,
       coj_AttestationFormats = co_AttestationFormats opts, coj_Extensions = extensions\<rparr>"
    using assms(1) by (auto simp: CredentialCreationOptionsFromProtocol_def result_inv)
  have "fromBase64URL NewUserHandle n (b64_encode (bv_bytes (user_ID (co_User opts)))) = Inr (user_ID (co_User opts))"
      "fromBase64URL NewChallenge n (b64_encode (bv_bytes (co_Challenge opts))) = Inr (co_Challenge opts)"
      "map_res CredentialDescriptorFromJSON (credentialDescriptorsToJSON (co_ExcludeCredentials opts)) = Inr (co_ExcludeCredentials opts)" for n
    using assms(2) by (simp_all add: creation_options_typed_def credentialDescriptors_roundtrip)
  then show ?thesis
    by (simp add: dto parseCreationOptions_def parameters_roundtrip selection_roundtrip)
qed

lemma request_options_survive:
  assumes "CredentialRequestOptionsFromProtocol tx opts = Inr dto" "request_options_typed opts"
  shows "parseRequestOptions dto (ro_Extensions opts) = Inr opts"
proof -
  have "fromBase64URL NewChallenge n (b64_encode (bv_bytes (ro_Challenge opts))) = Inr (ro_Challenge opts)"
      "map_res CredentialDescriptorFromJSON (credentialDescriptorsToJSON (ro_AllowCredentials opts)) = Inr (ro_AllowCredentials opts)" for n
    using assms(2) by (simp_all add: request_options_typed_def credentialDescriptors_roundtrip)
  moreover obtain extensions where "dto = \<lparr>roj_Challenge = b64_encode (bv_bytes (ro_Challenge opts)),
      roj_TimeoutMilliseconds = ro_TimeoutMilliseconds opts, roj_RPID = ro_RPID opts,
      roj_AllowCredentials = credentialDescriptorsToJSON (ro_AllowCredentials opts),
      roj_UserVerification = ro_UserVerification opts, roj_Hints = ro_Hints opts, roj_Extensions = extensions\<rparr>"
    using assms(1) by (auto simp: CredentialRequestOptionsFromProtocol_def result_inv)
  ultimately show ?thesis
    by (simp add: parseRequestOptions_def)
qed

end
