(* ===== verification/Http_Transport.thy ===== *)
theory Http_Transport
  imports Browser_Json
begin

text \<open>
  \<^verbatim>\<open>src/transport/http/http.go\<close>: reading browser responses from request bodies within a limit, and writing
  options and errors as JSON responses. A \<^verbatim>\<open>http.ResponseWriter\<close> is what its \<^verbatim>\<open>Write\<close> answers; the calls the
  code makes on it are a list of events.
\<close>

definition DefaultMaxBodyBytes :: int where "DefaultMaxBodyBytes = MaxResponseJSONBytes"

datatype http_event = HeaderSet string string | WriteHeader int | WriteBody bytes

record ResponseWriter =
  rw_Write :: "bytes \<Rightarrow> int \<times> error option"

text \<open>\<^verbatim>\<open>http.StatusText\<close> with the names of \<^verbatim>\<open>net/http\<close>; unknown codes have no text.\<close>

definition status_texts :: "(int \<times> string) list" where
  "status_texts =
    [(100, ''Continue''), (101, ''Switching Protocols''), (102, ''Processing''), (103, ''Early Hints''),
     (200, ''OK''), (201, ''Created''), (202, ''Accepted''), (203, ''Non-Authoritative Information''), (204, ''No Content''),
     (205, ''Reset Content''), (206, ''Partial Content''), (207, ''Multi-Status''), (208, ''Already Reported''), (226, ''IM Used''),
     (300, ''Multiple Choices''), (301, ''Moved Permanently''), (302, ''Found''), (303, ''See Other''), (304, ''Not Modified''),
     (305, ''Use Proxy''), (307, ''Temporary Redirect''), (308, ''Permanent Redirect''),
     (400, ''Bad Request''), (401, ''Unauthorized''), (402, ''Payment Required''), (403, ''Forbidden''), (404, ''Not Found''),
     (405, ''Method Not Allowed''), (406, ''Not Acceptable''), (407, ''Proxy Authentication Required''), (408, ''Request Timeout''),
     (409, ''Conflict''), (410, ''Gone''), (411, ''Length Required''), (412, ''Precondition Failed''),
     (413, ''Request Entity Too Large''), (414, ''Request URI Too Long''), (415, ''Unsupported Media Type''),
     (416, ''Requested Range Not Satisfiable''), (417, ''Expectation Failed''), (418, [CHR ''I'', CHR 0x27] @ ''m a teapot''), (421, ''Misdirected Request''),
     (422, ''Unprocessable Entity''), (423, ''Locked''), (424, ''Failed Dependency''), (425, ''Too Early''), (426, ''Upgrade Required''),
     (428, ''Precondition Required''), (429, ''Too Many Requests''), (431, ''Request Header Fields Too Large''),
     (451, ''Unavailable For Legal Reasons''),
     (500, ''Internal Server Error''), (501, ''Not Implemented''), (502, ''Bad Gateway''), (503, ''Service Unavailable''),
     (504, ''Gateway Timeout''), (505, ''HTTP Version Not Supported''), (506, ''Variant Also Negotiates''),
     (507, ''Insufficient Storage''), (508, ''Loop Detected''), (510, ''Not Extended''), (511, ''Network Authentication Required'')]"

definition StatusText :: "int \<Rightarrow> string" where
  "StatusText status = (case map_of status_texts status of None \<Rightarrow> [] | Some s \<Rightarrow> s)"

definition StatusOK :: int where "StatusOK = 200"
definition StatusBadRequest :: int where "StatusBadRequest = 400"
definition StatusInternalServerError :: int where "StatusInternalServerError = 500"

definition normalizeStatus :: "int \<Rightarrow> int" where
  "normalizeStatus status = (if status < 100 \<or> status > 999 then StatusInternalServerError else status)"

section \<open>Writing\<close>

definition WriteJSON :: "go_text \<Rightarrow> ResponseWriter iface \<Rightarrow> int \<Rightarrow> json \<Rightarrow> http_event list \<times> error option" where
  "WriteJSON tx response status v =
    (case response of
       Impl w \<Rightarrow>
        (case js_MarshalHTML tx v of
           Inl e \<Rightarrow> ([], Some (Wrapf ErrWriteResponse e))
         | Inr encoded \<Rightarrow>
           let events = [HeaderSet ''Content-Type'' ''application/json'', WriteHeader (normalizeStatus status), WriteBody encoded] in
           (case rw_Write w encoded of
              (written, Some e) \<Rightarrow> (events, Some (Wrapf ErrWriteResponse e))
            | (written, None) \<Rightarrow>
              if written \<noteq> int (length encoded) then (events, Some (Wrapf ErrWriteResponse (External ''short write'')))
              else (events, None)))
     | _ \<Rightarrow> ([], Some (Notef ErrWriteResponse ''response writer is nil'')))"

definition WriteCreationOptions ::
  "go_text \<Rightarrow> ResponseWriter iface \<Rightarrow> PublicKeyCredentialCreationOptions \<Rightarrow> http_event list \<times> error option" where
  "WriteCreationOptions tx response options =
    (case CredentialCreationOptionsFromProtocol tx options of
       Inl e \<Rightarrow> ([], Some (Wrapf ErrWriteResponse e))
     | Inr dto \<Rightarrow> WriteJSON tx response StatusOK (CredentialCreationOptionsJSON_json dto))"

definition WriteRequestOptions ::
  "go_text \<Rightarrow> ResponseWriter iface \<Rightarrow> PublicKeyCredentialRequestOptions \<Rightarrow> http_event list \<times> error option" where
  "WriteRequestOptions tx response options =
    (case CredentialRequestOptionsFromProtocol tx options of
       Inl e \<Rightarrow> ([], Some (Wrapf ErrWriteResponse e))
     | Inr dto \<Rightarrow> WriteJSON tx response StatusOK (CredentialRequestOptionsJSON_json dto))"

record ErrorResponse =
  er_Error :: string

definition ErrorResponse_json :: "ErrorResponse \<Rightarrow> json" where
  "ErrorResponse_json r = json_object [(''error'', Some (JString (er_Error r)))]"

definition WriteError :: "go_text \<Rightarrow> ResponseWriter iface \<Rightarrow> int \<Rightarrow> error option \<Rightarrow> http_event list \<times> error option" where
  "WriteError tx response status e =
    (let status = (if status < StatusBadRequest then StatusInternalServerError else status);
         message = (if StatusText status = [] then ''error'' else StatusText status) in
     WriteJSON tx response status (ErrorResponse_json \<lparr>er_Error = message\<rparr>))"

section \<open>Reading\<close>

text \<open>
  A request body: the bytes it delivers and the error it ends with, if it does not end with \<^verbatim>\<open>io.EOF\<close>.
  \<^verbatim>\<open>io.ReadAll\<close> of a \<^verbatim>\<open>LimitedReader\<close> stops after its limit and does not see what comes then.
\<close>

record request_body =
  rb_Bytes :: bytes
  rb_Error :: "error option"

definition ReadAllLimited :: "request_body \<Rightarrow> nat \<Rightarrow> bytes \<times> error option" where
  "ReadAllLimited body n =
    (if length (rb_Bytes body) \<ge> n then (take n (rb_Bytes body), None) else (rb_Bytes body, rb_Error body))"

text \<open>A nil request and a request without a body are both \<open>None\<close>.\<close>

definition readRequestBody :: "request_body option \<Rightarrow> int \<Rightarrow> bytes result" where
  "readRequestBody request maxBodyBytes =
    (case request of None \<Rightarrow> Inl (Notef ErrReadRequest ''request body is nil'')
     | Some body \<Rightarrow>
       let limit = (if maxBodyBytes \<le> 0 then DefaultMaxBodyBytes else maxBodyBytes) in
       if limit > MaxResponseJSONBytes then Inl (Sentinel ErrInvalidBodyLimit) else
       (case ReadAllLimited body (nat (limit + 1)) of
          (data, Some e) \<Rightarrow> Inl (Wrapf ErrReadRequest e)
        | (data, None) \<Rightarrow> if int (length data) > limit then Inl (Sentinel ErrRequestBodyTooLarge) else Inr data))"

definition ReadRegistrationResponse ::
  "go_std \<Rightarrow> go_text \<Rightarrow> request_body option \<Rightarrow> int \<Rightarrow> RegistrationResponse result" where
  "ReadRegistrationResponse std tx request maxBodyBytes =
    and_then (readRequestBody request maxBodyBytes) (RegistrationResponseFromJSON std tx)"

definition ReadAuthenticationResponse ::
  "go_std \<Rightarrow> go_text \<Rightarrow> request_body option \<Rightarrow> int \<Rightarrow> AuthenticationResponse result" where
  "ReadAuthenticationResponse std tx request maxBodyBytes =
    and_then (readRequestBody request maxBodyBytes) (AuthenticationResponseFromJSON std tx)"

section \<open>What is read and what is written\<close>

definition body_limit :: "int \<Rightarrow> int" where
  "body_limit maxBodyBytes = (if maxBodyBytes \<le> 0 then DefaultMaxBodyBytes else maxBodyBytes)"

text \<open>The whole body or an error: never a truncated body.\<close>

lemma readRequestBody_Inr_iff:
  "readRequestBody request maxBodyBytes = Inr data \<longleftrightarrow>
    request = Some \<lparr>rb_Bytes = data, rb_Error = None\<rparr> \<and> int (length data) \<le> body_limit maxBodyBytes \<and>
    body_limit maxBodyBytes \<le> MaxResponseJSONBytes"
proof (cases request)
  case (Some body)
  have "0 < body_limit maxBodyBytes"
    by (simp add: body_limit_def DefaultMaxBodyBytes_def MaxResponseJSONBytes_def)
  then show ?thesis
    unfolding readRequestBody_def Some Let_def body_limit_def [symmetric] ReadAllLimited_def
    by (cases body) (auto simp: nat_le_iff split: option.splits)
qed (simp add: readRequestBody_def)

lemma readRequestBody_too_large:
  assumes "body_limit maxBodyBytes \<le> MaxResponseJSONBytes" "int (length (rb_Bytes body)) > body_limit maxBodyBytes"
  shows "readRequestBody (Some body) maxBodyBytes = Inl (Sentinel ErrRequestBodyTooLarge)"
proof -
  have "0 < body_limit maxBodyBytes"
    by (simp add: body_limit_def DefaultMaxBodyBytes_def MaxResponseJSONBytes_def)
  moreover have "ReadAllLimited body (nat (body_limit maxBodyBytes + 1)) = (take (nat (body_limit maxBodyBytes + 1)) (rb_Bytes body), None)"
    using assms(2) by (simp add: ReadAllLimited_def nat_le_iff)
  ultimately show ?thesis
    using assms unfolding readRequestBody_def Let_def body_limit_def [symmetric] by (simp add: nat_le_iff)
qed

lemma normalizeStatus_range: "100 \<le> normalizeStatus status \<and> normalizeStatus status \<le> 999"
  by (simp add: normalizeStatus_def StatusInternalServerError_def)

text \<open>
  A response is sent as a whole or not begun: every error before the first call of the writer leaves
  it untouched.
\<close>

lemma WriteJSON_events:
  "fst (WriteJSON tx response status v) = [] \<or>
    (\<exists>w encoded. response = Impl w \<and> js_MarshalHTML tx v = Inr encoded \<and> fst (WriteJSON tx response status v) =
      [HeaderSet ''Content-Type'' ''application/json'', WriteHeader (normalizeStatus status), WriteBody encoded])"
  by (auto simp: WriteJSON_def Let_def split: iface.split sum.split prod.split option.split)

lemma WriteJSON_ok_iff:
  "WriteJSON tx response status v = (events, None) \<longleftrightarrow>
    (\<exists>w encoded. response = Impl w \<and> js_MarshalHTML tx v = Inr encoded \<and> rw_Write w encoded = (int (length encoded), None) \<and>
      events = [HeaderSet ''Content-Type'' ''application/json'', WriteHeader (normalizeStatus status), WriteBody encoded])"
  by (auto simp: WriteJSON_def Let_def split: iface.splits sum.splits prod.splits option.splits if_splits)

lemma WriteJSON_status: "WriteHeader s \<in> set (fst (WriteJSON tx response status v)) \<Longrightarrow> s = normalizeStatus status"
  using WriteJSON_events [of tx response status v] by auto

lemma WriteError_status:
  "WriteHeader s \<in> set (fst (WriteError tx response status e)) \<Longrightarrow> 400 \<le> s \<and> s \<le> 999"
  unfolding WriteError_def Let_def
  by (drule WriteJSON_status) (simp add: normalizeStatus_def StatusBadRequest_def StatusInternalServerError_def)

end
