(* ===== verification/Http_Server.thy ===== *)
theory Http_Server
  imports Http_Transport
begin

text \<open>
  What the HTTP handlers of the applications see of \<^verbatim>\<open>net/http\<close>: a request, and the calls they make on a response,
  cookies included. A handler also observes the clock and the random source; \<open>server_call\<close> holds what successive readings
  return, and the environment of the library calls it makes.
\<close>

record http_request =
  req_Method :: string
  req_Host :: string
  req_Header :: "string \<Rightarrow> string"
  req_Cookie :: "string \<Rightarrow> string option"
  req_Query :: "string \<Rightarrow> string"
  req_Body :: "request_body option"
  req_Context :: ctx

record server_call =
  srv_env :: go_env
  srv_rand :: "nat \<Rightarrow> go_env"
  srv_now :: "nat \<Rightarrow> time"

text \<open>\<^verbatim>\<open>http.SetCookie\<close> with the attributes that vary: name, value and \<^verbatim>\<open>MaxAge\<close>.\<close>

datatype server_event = Wrote http_event | SetCookie string string int

definition reply :: "http_event list \<times> error option \<Rightarrow> server_event list" where
  "reply r = map Wrote (fst r)"

definition StatusCreated :: int where "StatusCreated = 201"
definition StatusUnauthorized :: int where "StatusUnauthorized = 401"
definition StatusForbidden :: int where "StatusForbidden = 403"
definition StatusNotFound :: int where "StatusNotFound = 404"
definition StatusConflict :: int where "StatusConflict = 409"
definition StatusTooManyRequests :: int where "StatusTooManyRequests = 429"

text \<open>A map of one boolean, as the handlers answer.\<close>

definition flag_json :: "string \<Rightarrow> bool \<Rightarrow> json" where
  "flag_json name b = JObject [(name, JBool b)]"

lemma SetCookie_reply [simp]: "SetCookie name v n \<notin> set (reply r)"
  by (auto simp: reply_def)

definition second :: duration where "second = 1000000000"

section \<open>States that are used once\<close>

text \<open>
  The contract of the stores for ceremony states in both applications: what is taken was there, and is gone. \<open>'c\<close> is what
  taking depends on besides the name, such as the clock.
\<close>

locale one_time_store =
  fixes wf :: "'s \<Rightarrow> bool" and entry :: "'s \<Rightarrow> string \<Rightarrow> 'v option" and take :: "'s \<Rightarrow> 'c \<Rightarrow> string \<Rightarrow> 's \<times> 'v option"
  assumes take_wf: "wf s \<Longrightarrow> wf (fst (take s c name))"
    and taken: "wf s \<Longrightarrow> take s c name = (s', Some v) \<Longrightarrow> entry s name = Some v \<and> entry s' name = None"
    and take_frame: "wf s \<Longrightarrow> entry (fst (take s c name)) k \<in> {None, entry s k}"
begin

lemma missing: "wf s \<Longrightarrow> entry s name = None \<Longrightarrow> snd (take s c name) = None"
  using taken [of s c name] by (cases "take s c name"; cases "snd (take s c name)") auto

lemma taken_once: "wf s \<Longrightarrow> take s c name = (s', Some v) \<Longrightarrow> snd (take s' c' name) = None"
  using taken [of s c name s' v] take_wf [of s c name] missing [of s' name c'] by simp

end

end
