(* ===== verification/Storage_Value.thy ===== *)
theory Storage_Value
  imports Go_Json Extension_Input
begin

text \<open>
  \<^verbatim>\<open>src/storage/json/value.go\<close>: the tagged encoding of untyped extension values in stored ceremony
  states, with its depth, node and byte budget. Application types that are not values of the datatype \<open>goval\<close>
  count as structs, which the code refuses; texts of errors that print a Go type are abbreviated.
\<close>

definition MaxEnvelopeBytes :: int where "MaxEnvelopeBytes = 1048576"

definition valueNull :: string where "valueNull = ''null''"
definition valueBool :: string where "valueBool = ''bool''"
definition valueString :: string where "valueString = ''string''"
definition valueBytes :: string where "valueBytes = ''bytes''"
definition valueInt :: string where "valueInt = ''int''"
definition valueUint :: string where "valueUint = ''uint''"
definition valueFloat :: string where "valueFloat = ''float''"
definition valueArray :: string where "valueArray = ''array''"
definition valueObject :: string where "valueObject = ''object''"
definition maxValueDepth :: nat where "maxValueDepth = 32"
definition maxValueNodes :: int where "maxValueNodes = 4096"

lemmas value_types = valueNull_def valueBool_def valueString_def valueBytes_def valueInt_def valueUint_def
  valueFloat_def valueArray_def valueObject_def

record valueBudget =
  vb_nodes :: int
  vb_bytes :: int

definition valueBudget_consume :: "valueBudget \<Rightarrow> int \<Rightarrow> int \<Rightarrow> sentinel \<Rightarrow> valueBudget result" where
  "valueBudget_consume budget nodes bytes invalid =
    (if nodes < 0 \<or> bytes < 0 \<or> vb_nodes budget > maxValueNodes - nodes \<or> vb_bytes budget > MaxEnvelopeBytes - bytes
     then Inl (Notef invalid ''extension value exceeds storage budget'')
     else Inr \<lparr>vb_nodes = vb_nodes budget + nodes, vb_bytes = vb_bytes budget + bytes\<rparr>)"

datatype encodedValue = EncodedValue (ev_Type: string) (ev_Bool: "bool option") (ev_String: "string option")
  (ev_Bytes: "string option") (ev_Int: "int option") (ev_Uint: "int option") (ev_Float: "gofloat option")
  (ev_Array: "encodedValue list option") (ev_Object: "(string \<times> encodedValue) list option")

text \<open>The composite literals of the encoder: one tag and the member of that tag.\<close>

definition ofNull :: encodedValue where
  "ofNull = EncodedValue valueNull None None None None None None None None"
definition ofBool :: "bool \<Rightarrow> encodedValue" where
  "ofBool b = EncodedValue valueBool (Some b) None None None None None None None"
definition ofString :: "string \<Rightarrow> encodedValue" where
  "ofString s = EncodedValue valueString None (Some s) None None None None None None"
definition ofBytes :: "string \<Rightarrow> encodedValue" where
  "ofBytes s = EncodedValue valueBytes None None (Some s) None None None None None"
definition ofInt :: "int \<Rightarrow> encodedValue" where
  "ofInt n = EncodedValue valueInt None None None (Some n) None None None None"
definition ofUint :: "int \<Rightarrow> encodedValue" where
  "ofUint n = EncodedValue valueUint None None None None (Some n) None None None"
definition ofFloat :: "gofloat \<Rightarrow> encodedValue" where
  "ofFloat f = EncodedValue valueFloat None None None None None (Some f) None None"
definition ofArray :: "encodedValue list \<Rightarrow> encodedValue" where
  "ofArray xs = EncodedValue valueArray None None None None None None (Some xs) None"
definition ofObject :: "(string \<times> encodedValue) list \<Rightarrow> encodedValue" where
  "ofObject es = EncodedValue valueObject None None None None None None None (Some es)"

lemmas encoded_literals = ofNull_def ofBool_def ofString_def ofBytes_def ofInt_def ofUint_def ofFloat_def ofArray_def ofObject_def

text \<open>An error with the text of its place: the wrapped error is still found by \<^verbatim>\<open>errors.Is\<close>.\<close>

definition ctx_res :: "string \<Rightarrow> 'a result \<Rightarrow> 'a result" where
  "ctx_res text r = (case r of Inl e \<Rightarrow> Inl (Ctxf text e) | Inr x \<Rightarrow> Inr x)"

section \<open>Built-in values as objects\<close>

definition prfValuesObject :: "PRFValues \<Rightarrow> goval" where
  "prfValuesObject values = any_object ((''first'', VBytes (prf_First values)) #
    (if prf_Second values = None then [] else [(''second'', VBytes (prf_Second values))]))"

definition normalizeBuiltInValue :: "goval \<Rightarrow> goval" where
  "normalizeBuiltInValue v =
    (case v of
       VPRFInput p \<Rightarrow> any_object (
         (case prf_Eval p of None \<Rightarrow> [] | Some values \<Rightarrow> [(''eval'', prfValuesObject values)]) @
         (case prf_EvalByCredential p of None \<Rightarrow> []
          | Some entries \<Rightarrow> [(''evalByCredential'', any_object (map (\<lambda>(name, values). (name, prfValuesObject values)) entries))]) @
         (case prf_AllowCredentials p of None \<Rightarrow> []
          | Some ids \<Rightarrow> [(''allowCredentials'', VSlice TString (Some (map VString ids)))]))
     | VPRFValues values \<Rightarrow> prfValuesObject values
     | VLargeBlobInput l \<Rightarrow> any_object (
         (if lb_Support l = [] then [] else [(''support'', VString (lb_Support l))]) @
         (case lb_Read l of None \<Rightarrow> [] | Some b \<Rightarrow> [(''read'', VBool b)]) @
         (if lb_Write l = None then [] else [(''write'', VBytes (lb_Write l))]))
     | _ \<Rightarrow> v)"

section \<open>Encoding\<close>

definition directValueBytes :: "goval \<Rightarrow> int" where
  "directValueBytes v = (case v of VString s \<Rightarrow> int (length s) | VBytes b \<Rightarrow> int (length (bytes_of b)) | _ \<Rightarrow> 0)"

definition unsupported :: "string \<Rightarrow> error" where
  "unsupported reason = Notef ErrUnsupportedExtensionValue reason"

definition encodeFloat :: "gofloat \<Rightarrow> encodedValue result" where
  "encodeFloat f = (case f of Finite r \<Rightarrow> Inr (ofFloat f) | _ \<Rightarrow> Inl (unsupported ''non-finite float''))"

definition signed_kind :: "int_kind \<Rightarrow> bool" where
  "signed_kind k \<longleftrightarrow> k \<in> set [KInt, KInt8, KInt16, KInt32, KInt64]"

text \<open>\<^verbatim>\<open>reflect.Kind\<close> of a map key type is a string for the type \<^verbatim>\<open>string\<close> and for named strings.\<close>

definition stringKeyed :: "goty \<Rightarrow> bool" where
  "stringKeyed k \<longleftrightarrow> k = TString \<or> k = TNamed ''protocol.StringInput''"

fun keyString :: "goval \<Rightarrow> string" where
  "keyString (VString s) = s"
| "keyString (VStringInput s) = s"
| "keyString _ = []"

text \<open>
  The type switch and the reflection on the kind: a basic value with its encoding or an error, a
  sequence of elements, or the entries of a map with string keys.
\<close>

datatype reflected =
  Basic "encodedValue result" | Elements "goval list" | Members "(goval \<times> goval) list"

definition reflected_value :: "goval \<Rightarrow> reflected" where
  "reflected_value v =
    (case v of
       VNil \<Rightarrow> Basic (Inr ofNull)
     | VBool x \<Rightarrow> Basic (Inr (ofBool x))
     | VString s \<Rightarrow> Basic (Inr (ofString s))
     | VBytes bs \<Rightarrow> Basic (Inr (ofBytes (b64_encode (bytes_of bs))))
     | VFloat32 f \<Rightarrow> Basic (encodeFloat f)
     | VFloat64 f \<Rightarrow> Basic (encodeFloat f)
     | VInt k n \<Rightarrow> Basic (Inr (if signed_kind k then ofInt n else ofUint n))
     | VCOSEAlgorithm n \<Rightarrow> Basic (Inr (ofInt n))
     | VSlice t xs \<Rightarrow> Elements (case xs of None \<Rightarrow> [] | Some ys \<Rightarrow> ys)
     | VArray t xs \<Rightarrow> Elements xs
     | VUVMEntries es \<Rightarrow> Elements (map (\<lambda>_. VOther (TNamed ''extension.UVMEntry'')) (case es of None \<Rightarrow> [] | Some l \<Rightarrow> l))
     | VSubStatements es \<Rightarrow>
         Elements (map (\<lambda>_. VOther (TNamed ''codec.CompoundSubStatement'')) (case es of None \<Rightarrow> [] | Some l \<Rightarrow> l))
     | VMap k t es \<Rightarrow>
         if \<not> stringKeyed k then Basic (Inl (unsupported ''map key type''))
         else Members (case es of None \<Rightarrow> [] | Some l \<Rightarrow> l)
     | _ \<Rightarrow> Basic (Inl (unsupported ''type'')))"

function encodeValueAt :: "goval \<Rightarrow> nat \<Rightarrow> valueBudget \<Rightarrow> (encodedValue \<times> valueBudget) result"
  and encodeItems :: "goval list \<Rightarrow> nat \<Rightarrow> valueBudget \<Rightarrow> (encodedValue list \<times> valueBudget) result"
  and encodeEntries :: "(goval \<times> goval) list \<Rightarrow> nat \<Rightarrow> valueBudget \<Rightarrow> ((string \<times> encodedValue) list \<times> valueBudget) result"
where
  "encodeValueAt v depth budget =
    (if depth > maxValueDepth then Inl (unsupported ''nesting too deep'') else
     and_then (valueBudget_consume budget 1 (directValueBytes v) ErrUnsupportedExtensionValue) (\<lambda>b.
     case reflected_value v of
       Basic encoded \<Rightarrow> and_then encoded (\<lambda>e. Inr (e, b))
     | Elements items \<Rightarrow> and_then (encodeItems items (depth + 1) b) (\<lambda>(array, b'). Inr (ofArray array, b'))
     | Members entries \<Rightarrow> and_then (encodeEntries entries (depth + 1) b) (\<lambda>(object, b'). Inr (ofObject object, b'))))"
| "encodeItems [] depth budget = Inr ([], budget)"
| "encodeItems (x # xs) depth budget =
    and_then (encodeValueAt (normalizeBuiltInValue x) depth budget) (\<lambda>(item, b).
    and_then (encodeItems xs depth b) (\<lambda>(items, b'). Inr (item # items, b')))"
| "encodeEntries [] depth budget = Inr ([], budget)"
| "encodeEntries ((key, x) # es) depth budget =
    and_then (valueBudget_consume budget 1 (int (length (keyString key))) ErrUnsupportedExtensionValue) (\<lambda>b.
    and_then (encodeValueAt (normalizeBuiltInValue x) depth b) (\<lambda>(item, b').
    and_then (encodeEntries es depth b') (\<lambda>(entries, b''). Inr ((keyString key, item) # entries, b''))))"
  by pat_completeness auto

termination
  by (relation "inv_image (less_than <*lex*> less_than) (case_sum (\<lambda>(_, depth, _). (34 - depth, 0))
      (case_sum (\<lambda>(xs, depth, _). (34 - depth, Suc (length xs))) (\<lambda>(es, depth, _). (34 - depth, Suc (length es)))))")
    (auto simp: maxValueDepth_def)

declare encodeValueAt.simps [simp del]

fun encodeExtensionList :: "valueBudget \<Rightarrow> ExtensionInputs \<Rightarrow> (string \<times> encodedValue) list result" where
  "encodeExtensionList budget [] = Inr []"
| "encodeExtensionList budget ((name, input) # inputs) =
    (if \<not> identifier_Valid name then Inl (unsupported ''invalid extension id'') else
     and_then (valueBudget_consume budget 1 (int (length name)) ErrUnsupportedExtensionValue) (\<lambda>b.
     and_then (wrap_res ErrUnsupportedExtensionValue (InputValue input)) (\<lambda>raw.
     and_then (ctx_res (''extension '' @ name) (encodeValueAt (normalizeBuiltInValue raw) 0 b)) (\<lambda>(encoded, b').
     and_then (encodeExtensionList b' inputs) (\<lambda>rest. Inr ((name, encoded) # rest))))))"

definition emptyBudget :: valueBudget where "emptyBudget = \<lparr>vb_nodes = 0, vb_bytes = 0\<rparr>"

definition encodeExtensionValues :: "ExtensionInputs \<Rightarrow> (string \<times> encodedValue) list result" where
  "encodeExtensionValues values =
    (if length values > MaxEntries then Inl (Wrapf ErrUnsupportedExtensionValue (Sentinel ErrTooManyEntries))
     else encodeExtensionList emptyBudget values)"

section \<open>Decoding\<close>

definition encodedValueBytes :: "encodedValue \<Rightarrow> int" where
  "encodedValueBytes v =
    (case ev_String v of Some s \<Rightarrow> int (length s)
     | None \<Rightarrow> (case ev_Bytes v of Some s \<Rightarrow> int (length s) | None \<Rightarrow> 0))"

definition validateEncodedValue :: "encodedValue \<Rightarrow> error option" where
  "validateEncodedValue v =
    (let n = length (filter id [ev_Bool v \<noteq> None, ev_String v \<noteq> None, ev_Bytes v \<noteq> None, ev_Int v \<noteq> None,
        ev_Uint v \<noteq> None, ev_Float v \<noteq> None, ev_Array v \<noteq> None, ev_Object v \<noteq> None]);
         t = ev_Type v;
         valid = (if t = valueNull then n = 0
           else if t = valueBool then n = 1 \<and> ev_Bool v \<noteq> None
           else if t = valueString then n = 1 \<and> ev_String v \<noteq> None
           else if t = valueBytes then n = 1 \<and> ev_Bytes v \<noteq> None
           else if t = valueInt then n = 1 \<and> ev_Int v \<noteq> None
           else if t = valueUint then n = 1 \<and> ev_Uint v \<noteq> None
           else if t = valueFloat then n = 1 \<and> ev_Float v \<noteq> None
           else if t = valueArray then n = 1 \<and> ev_Array v \<noteq> None
           else if t = valueObject then n = 1 \<and> ev_Object v \<noteq> None
           else False) in
     if \<not> valid then Some (Notef ErrInvalidEnvelope ''value fields do not match type'') else None)"

definition decodeStoredBytes :: "string \<Rightarrow> goval result" where
  "decodeStoredBytes s =
    (case b64_decode s of None \<Rightarrow> Inl (Notef ErrInvalidEnvelope ''invalid extension bytes'')
     | Some decoded \<Rightarrow> if b64_encode decoded \<noteq> s then Inl (Notef ErrInvalidEnvelope ''invalid extension bytes'')
         else Inr (VBytes (Some decoded)))"

definition decodeStoredFloat :: "gofloat \<Rightarrow> goval result" where
  "decodeStoredFloat f =
    (case f of Finite r \<Rightarrow> Inr (VFloat64 f) | _ \<Rightarrow> Inl (Notef ErrInvalidEnvelope ''non-finite float''))"

text \<open>The members of the tag are there when they are read: \<open>validateEncodedValue\<close> has been checked.\<close>

fun decodeValueAt :: "encodedValue \<Rightarrow> nat \<Rightarrow> valueBudget \<Rightarrow> (goval \<times> valueBudget) result"
  and decodeItems :: "encodedValue list \<Rightarrow> nat \<Rightarrow> valueBudget \<Rightarrow> (goval list \<times> valueBudget) result"
  and decodeEntries :: "(string \<times> encodedValue) list \<Rightarrow> nat \<Rightarrow> valueBudget \<Rightarrow> ((goval \<times> goval) list \<times> valueBudget) result"
where
  "decodeValueAt (EncodedValue t bool string bytes integer natural float array object) depth budget =
    (if depth > maxValueDepth then Inl (Notef ErrInvalidEnvelope ''nesting too deep'') else
     check (validateEncodedValue (EncodedValue t bool string bytes integer natural float array object))
    (and_then (valueBudget_consume budget 1
        (encodedValueBytes (EncodedValue t bool string bytes integer natural float array object)) ErrInvalidEnvelope) (\<lambda>b.
     if t = valueNull then Inr (VNil, b)
     else if t = valueBool then Inr (VBool (the bool), b)
     else if t = valueString then Inr (VString (the string), b)
     else if t = valueBytes then and_then (decodeStoredBytes (the bytes)) (\<lambda>v. Inr (v, b))
     else if t = valueInt then Inr (VInt KInt64 (the integer), b)
     else if t = valueUint then Inr (VInt KUint64 (the natural), b)
     else if t = valueFloat then and_then (decodeStoredFloat (the float)) (\<lambda>v. Inr (v, b))
     else if t = valueArray then
       (case array of None \<Rightarrow> Inl (Notef ErrInvalidEnvelope ''unknown value type'')
        | Some xs \<Rightarrow> and_then (decodeItems xs (depth + 1) b) (\<lambda>(items, b'). Inr (VSlice TIface (Some items), b')))
     else
       (case object of None \<Rightarrow> Inl (Notef ErrInvalidEnvelope ''unknown value type'')
        | Some es \<Rightarrow> and_then (decodeEntries es (depth + 1) b) (\<lambda>(entries, b'). Inr (VMap TString TIface (Some entries), b'))))))"
| "decodeItems [] depth budget = Inr ([], budget)"
| "decodeItems (x # xs) depth budget =
    and_then (decodeValueAt x depth budget) (\<lambda>(item, b).
    and_then (decodeItems xs depth b) (\<lambda>(items, b'). Inr (item # items, b')))"
| "decodeEntries [] depth budget = Inr ([], budget)"
| "decodeEntries ((key, x) # es) depth budget =
    and_then (valueBudget_consume budget 1 (int (length key)) ErrInvalidEnvelope) (\<lambda>b.
    and_then (decodeValueAt x depth b) (\<lambda>(item, b').
    and_then (decodeEntries es depth b') (\<lambda>(entries, b''). Inr ((VString key, item) # entries, b''))))"

declare decodeValueAt.simps [simp del]

fun decodeExtensionList :: "valueBudget \<Rightarrow> (string \<times> encodedValue) list \<Rightarrow> ExtensionInputs result" where
  "decodeExtensionList budget [] = Inr []"
| "decodeExtensionList budget ((name, v) # values) =
    (if \<not> identifier_Valid name then Inl (Notef ErrInvalidEnvelope ''invalid extension id'') else
     and_then (valueBudget_consume budget 1 (int (length name)) ErrInvalidEnvelope) (\<lambda>b.
     and_then (ctx_res (''extension '' @ name) (decodeValueAt v 0 b)) (\<lambda>(decoded, b').
     and_then (wrap_res ErrInvalidEnvelope (NormalizeInput decoded)) (\<lambda>input.
     and_then (decodeExtensionList b' values) (\<lambda>rest. Inr ((name, input) # rest))))))"

definition decodeExtensionValues :: "(string \<times> encodedValue) list \<Rightarrow> ExtensionInputs result" where
  "decodeExtensionValues values =
    (if length values > MaxEntries then Inl (Wrapf ErrInvalidEnvelope (Sentinel ErrTooManyEntries))
     else decodeExtensionList emptyBudget values)"

section \<open>Plain values survive\<close>

text \<open>
  The values a decoder produces: untyped, with 64-bit integers and finite floats. Typed values of the
  built-in extensions are stored as plain ones.
\<close>

fun plain :: "goval \<Rightarrow> bool" where
  "plain VNil \<longleftrightarrow> True"
| "plain (VBool _) \<longleftrightarrow> True"
| "plain (VString _) \<longleftrightarrow> True"
| "plain (VBytes b) \<longleftrightarrow> b \<noteq> None"
| "plain (VInt k n) \<longleftrightarrow> k = KInt64 \<and> - (2 ^ 63) \<le> n \<and> n \<le> 2 ^ 63 - 1 \<or> k = KUint64 \<and> 0 \<le> n \<and> n \<le> 2 ^ 64 - 1"
| "plain (VFloat64 f) \<longleftrightarrow> (case f of Finite r \<Rightarrow> float64 r | _ \<Rightarrow> False)"
| "plain (VSlice t xs) \<longleftrightarrow> t = TIface \<and> (case xs of None \<Rightarrow> False | Some ys \<Rightarrow> list_all plain ys)"
| "plain (VMap k t es) \<longleftrightarrow> k = TString \<and> t = TIface \<and>
    (case es of None \<Rightarrow> False | Some l \<Rightarrow> list_all (\<lambda>(key, v). VString (keyString key) = key \<and> plain v) l)"
| "plain _ \<longleftrightarrow> False"

text \<open>The bytes of strings and member names an encoded value has.\<close>

fun text_bytes :: "encodedValue \<Rightarrow> int" where
  "text_bytes (EncodedValue t bool string bytes integer natural float array object) =
    encodedValueBytes (EncodedValue t bool string bytes integer natural float array object)
    + (case array of None \<Rightarrow> 0 | Some xs \<Rightarrow> sum_list (map text_bytes xs))
    + (case object of None \<Rightarrow> 0 | Some es \<Rightarrow> sum_list (map (\<lambda>(key, x). int (length key) + text_bytes x) es))"

lemma encodedValueBytes_nonneg [simp]: "0 \<le> encodedValueBytes v"
  by (simp add: encodedValueBytes_def split: option.splits)

lemma text_bytes_nonneg [simp]: "0 \<le> text_bytes v"
proof (induction v rule: text_bytes.induct)
  case (1 t bool string bytes integer natural float array object)
  have "0 \<le> (case array of None \<Rightarrow> 0 | Some xs \<Rightarrow> sum_list (map text_bytes xs))"
    using 1(1) by (auto split: option.split intro!: sum_list_nonneg)
  moreover have "0 \<le> (case object of None \<Rightarrow> 0 | Some es \<Rightarrow> sum_list (map (\<lambda>(key, x). int (length key) + text_bytes x) es))"
    using 1(2) by (force split: option.split intro!: sum_list_nonneg)
  ultimately show ?case
    by simp
qed

lemma valueBudget_consume_Inr_iff [result_inv]:
  "valueBudget_consume b n k s = Inr b' \<longleftrightarrow> 0 \<le> n \<and> 0 \<le> k \<and> vb_nodes b + n \<le> maxValueNodes \<and>
    vb_bytes b + k \<le> MaxEnvelopeBytes \<and> b' = \<lparr>vb_nodes = vb_nodes b + n, vb_bytes = vb_bytes b + k\<rparr>"
  by (auto simp: valueBudget_consume_def)

lemma ctx_res_Inr_iff [result_inv]: "ctx_res t r = Inr x \<longleftrightarrow> r = Inr x"
  by (auto simp: ctx_res_def split: sum.splits)

lemma encode_nodes:
  "encodeValueAt v d b = Inr (e, b') \<Longrightarrow> vb_nodes b \<le> vb_nodes b'"
  "encodeItems xs d b = Inr (items, b') \<Longrightarrow> vb_nodes b \<le> vb_nodes b'"
  "encodeEntries es d b = Inr (entries, b') \<Longrightarrow> vb_nodes b \<le> vb_nodes b'"
proof (induction v d b and xs d b and es d b arbitrary: e b' and items b' and entries b'
    rule: encodeValueAt_encodeItems_encodeEntries.induct)
  case (1 v d b)
  then show ?case
    unfolding encodeValueAt.simps [of v d b]
    by (fastforce simp: result_inv split: reflected.split_asm)
qed (fastforce simp: result_inv)+

definition spent :: "valueBudget \<Rightarrow> int \<Rightarrow> int \<Rightarrow> valueBudget" where
  "spent c n k = \<lparr>vb_nodes = vb_nodes c + n, vb_bytes = vb_bytes c + k\<rparr>"

definition affords :: "valueBudget \<Rightarrow> int \<Rightarrow> int \<Rightarrow> bool" where
  "affords c n k \<longleftrightarrow> vb_nodes c + n \<le> maxValueNodes \<and> vb_bytes c + k \<le> MaxEnvelopeBytes"

lemma spent_simps [simp]:
  "vb_nodes (spent c n k) = vb_nodes c + n" "vb_bytes (spent c n k) = vb_bytes c + k"
  "spent (spent c n k) n' k' = spent c (n + n') (k + k')"
  by (simp_all add: spent_def)

lemma consume_affords: "0 \<le> n \<Longrightarrow> 0 \<le> k \<Longrightarrow> affords c n k \<Longrightarrow> valueBudget_consume c n k s = Inr (spent c n k)"
  by (simp add: valueBudget_consume_def affords_def spent_def)

lemma decode_literals:
  assumes "d \<le> maxValueDepth"
  shows "affords c 1 0 \<Longrightarrow> decodeValueAt ofNull d c = Inr (VNil, spent c 1 0)"
    "affords c 1 0 \<Longrightarrow> decodeValueAt (ofBool x) d c = Inr (VBool x, spent c 1 0)"
    "affords c 1 (int (length s)) \<Longrightarrow> decodeValueAt (ofString s) d c = Inr (VString s, spent c 1 (int (length s)))"
    "affords c 1 (int (length s)) \<Longrightarrow> decodeValueAt (ofBytes s) d c =
      and_then (decodeStoredBytes s) (\<lambda>v. Inr (v, spent c 1 (int (length s))))"
    "affords c 1 0 \<Longrightarrow> decodeValueAt (ofInt n) d c = Inr (VInt KInt64 n, spent c 1 0)"
    "affords c 1 0 \<Longrightarrow> decodeValueAt (ofUint n) d c = Inr (VInt KUint64 n, spent c 1 0)"
    "affords c 1 0 \<Longrightarrow> decodeValueAt (ofFloat f) d c = and_then (decodeStoredFloat f) (\<lambda>v. Inr (v, spent c 1 0))"
    "affords c 1 0 \<Longrightarrow> decodeValueAt (ofArray xs) d c =
      and_then (decodeItems xs (d + 1) (spent c 1 0)) (\<lambda>(items, b). Inr (VSlice TIface (Some items), b))"
    "affords c 1 0 \<Longrightarrow> decodeValueAt (ofObject es) d c =
      and_then (decodeEntries es (d + 1) (spent c 1 0)) (\<lambda>(entries, b). Inr (VMap TString TIface (Some entries), b))"
  using assms
  by (simp_all add: encoded_literals decodeValueAt.simps validateEncodedValue_def value_types encodedValueBytes_def
      consume_affords)

lemma text_bytes_literals [simp]:
  "text_bytes ofNull = 0" "text_bytes (ofBool x) = 0" "text_bytes (ofString s) = int (length s)"
  "text_bytes (ofBytes s) = int (length s)" "text_bytes (ofInt n) = 0" "text_bytes (ofUint n) = 0"
  "text_bytes (ofFloat f) = 0" "text_bytes (ofArray xs) = sum_list (map text_bytes xs)"
  "text_bytes (ofObject es) = sum_list (map (\<lambda>(key, x). int (length key) + text_bytes x) es)"
  by (simp_all add: encoded_literals encodedValueBytes_def)

lemma normalizeBuiltInValue_plain [simp]: "plain v \<Longrightarrow> normalizeBuiltInValue v = v"
  by (cases v) (auto simp: normalizeBuiltInValue_def)

lemma decodeStoredBytes_encode [simp]: "decodeStoredBytes (b64_encode bs) = Inr (VBytes (Some bs))"
  by (simp add: decodeStoredBytes_def)

text \<open>A basic plain value: what was encoded decodes to it.\<close>

lemma decode_basic:
  assumes "plain v" "reflected_value v = Basic (Inr e)" "d \<le> maxValueDepth" "affords c 1 (text_bytes e)"
  shows "decodeValueAt e d c = Inr (v, spent c 1 (text_bytes e))"
  using assms
  by (cases v)
    (auto simp: reflected_value_def decode_literals encodeFloat_def decodeStoredFloat_def signed_kind_def stringKeyed_def
      split: option.split_asm gofloat.split_asm)

lemma sum_list_text_nonneg [simp]:
  "0 \<le> sum_list (map text_bytes xs)" "0 \<le> sum_list (map (\<lambda>(key, x). int (length key) + text_bytes x) es)"
  by (auto intro!: sum_list_nonneg)

lemma affords_less: "affords c n k \<Longrightarrow> n' \<le> n \<Longrightarrow> k' \<le> k \<Longrightarrow> affords c n' k'"
  by (simp add: affords_def)

lemma affords_spent [simp]: "affords (spent c n k) n' k' \<longleftrightarrow> affords c (n + n') (k + k')"
  by (simp add: affords_def add.assoc)

lemma encode_decode:
  "plain v \<Longrightarrow> encodeValueAt v d b = Inr (e, b') \<Longrightarrow> affords c (vb_nodes b' - vb_nodes b) (text_bytes e) \<Longrightarrow>
    decodeValueAt e d c = Inr (v, spent c (vb_nodes b' - vb_nodes b) (text_bytes e))"
  "list_all plain xs \<Longrightarrow> encodeItems xs d b = Inr (items, b') \<Longrightarrow>
    affords c (vb_nodes b' - vb_nodes b) (sum_list (map text_bytes items)) \<Longrightarrow>
    decodeItems items d c = Inr (xs, spent c (vb_nodes b' - vb_nodes b) (sum_list (map text_bytes items)))"
  "list_all (\<lambda>(key, v). VString (keyString key) = key \<and> plain v) es \<Longrightarrow> encodeEntries es d b = Inr (entries, b') \<Longrightarrow>
    affords c (vb_nodes b' - vb_nodes b) (sum_list (map (\<lambda>(key, x). int (length key) + text_bytes x) entries)) \<Longrightarrow>
    decodeEntries entries d c = Inr (es, spent c (vb_nodes b' - vb_nodes b)
      (sum_list (map (\<lambda>(key, x). int (length key) + text_bytes x) entries)))"
proof (induction v d b and xs d b and es d b arbitrary: e b' c and items b' c and entries b' c
    rule: encodeValueAt_encodeItems_encodeEntries.induct)
  case (1 v d b)
  obtain b1 where depth: "d \<le> maxValueDepth"
    and consumed: "valueBudget_consume b 1 (directValueBytes v) ErrUnsupportedExtensionValue = Inr b1"
    and run: "(case reflected_value v of
       Basic encoded \<Rightarrow> and_then encoded (\<lambda>e. Inr (e, b1))
     | Elements items \<Rightarrow> and_then (encodeItems items (d + 1) b1) (\<lambda>(array, b'). Inr (ofArray array, b'))
     | Members entries \<Rightarrow> and_then (encodeEntries entries (d + 1) b1) (\<lambda>(object, b'). Inr (ofObject object, b'))) = Inr (e, b')"
    using "1.prems"(2) unfolding encodeValueAt.simps [of v d b] if_Inl_Inr_iff and_then_Inr_iff not_less by blast
  have b1: "vb_nodes b1 = vb_nodes b + 1"
    using consumed by (auto simp: valueBudget_consume_Inr_iff)
  show ?case
  proof (cases "reflected_value v")
    case (Basic r)
    then show ?thesis
      using run b1 depth "1.prems"(1,3) decode_basic [of v e d c] by (auto simp: result_inv)
  next
    case (Elements xs)
    then obtain items where items: "encodeItems xs (d + 1) b1 = Inr (items, b')" "e = ofArray items"
      using run by (auto simp: result_inv)
    have v: "v = VSlice TIface (Some xs)" "list_all plain xs"
      using "1.prems"(1) Elements by (cases v; auto simp: reflected_value_def split: option.splits if_splits)+
    have grow: "vb_nodes b1 \<le> vb_nodes b'"
      by (rule encode_nodes(2) [OF items(1)])
    have "affords (spent c 1 0) (vb_nodes b' - vb_nodes b1) (sum_list (map text_bytes items))"
      using "1.prems"(3) items(2) b1 by simp
    then have "decodeItems items (d + 1) (spent c 1 0) =
        Inr (xs, spent (spent c 1 0) (vb_nodes b' - vb_nodes b1) (sum_list (map text_bytes items)))"
      using "1.IH"(1) [OF _ Elements v(2) items(1)] depth by simp
    moreover have "affords c 1 0"
      using "1.prems"(3) items(2) grow b1 by (auto elim: affords_less)
    ultimately show ?thesis
      using depth items(2) v(1) b1 by (simp add: decode_literals)
  next
    case (Members es)
    then obtain entries where entries: "encodeEntries es (d + 1) b1 = Inr (entries, b')" "e = ofObject entries"
      using run by (auto simp: result_inv)
    have v: "v = VMap TString TIface (Some es)" "list_all (\<lambda>(key, v). VString (keyString key) = key \<and> plain v) es"
      using "1.prems"(1) Members by (cases v; auto simp: reflected_value_def split: option.splits if_splits)+
    have grow: "vb_nodes b1 \<le> vb_nodes b'"
      by (rule encode_nodes(3) [OF entries(1)])
    have "affords (spent c 1 0) (vb_nodes b' - vb_nodes b1) (sum_list (map (\<lambda>(key, x). int (length key) + text_bytes x) entries))"
      using "1.prems"(3) entries(2) b1 by simp
    then have "decodeEntries entries (d + 1) (spent c 1 0) = Inr (es, spent (spent c 1 0) (vb_nodes b' - vb_nodes b1)
        (sum_list (map (\<lambda>(key, x). int (length key) + text_bytes x) entries)))"
      using "1.IH"(2) [OF _ Members v(2) entries(1)] depth by simp
    moreover have "affords c 1 0"
      using "1.prems"(3) entries(2) grow b1 by (auto elim: affords_less)
    ultimately show ?thesis
      using depth entries(2) v(1) b1 by (simp add: decode_literals)
  qed
next
  case (3 x xs d b)
  then obtain item b1 rest where run: "encodeValueAt x d b = Inr (item, b1)" "encodeItems xs d b1 = Inr (rest, b')"
    "items = item # rest" "plain x" "list_all plain xs"
    by (auto simp: result_inv)
  have grow: "vb_nodes b \<le> vb_nodes b1" "vb_nodes b1 \<le> vb_nodes b'"
    using encode_nodes run(1,2) by blast+
  have "decodeValueAt item d c = Inr (x, spent c (vb_nodes b1 - vb_nodes b) (text_bytes item))"
    by (rule "3.IH"(1) [simplified normalizeBuiltInValue_plain [OF run(4)], OF run(4,1)])
      (use "3.prems"(3) run(3) grow in \<open>auto elim: affords_less\<close>)
  moreover have "decodeItems rest d (spent c (vb_nodes b1 - vb_nodes b) (text_bytes item)) =
      Inr (xs, spent (spent c (vb_nodes b1 - vb_nodes b) (text_bytes item)) (vb_nodes b' - vb_nodes b1) (sum_list (map text_bytes rest)))"
    by (rule "3.IH"(2) [OF run(5,2)]) (use "3.prems"(3) run in \<open>auto simp: add.commute\<close>)
  ultimately show ?case
    using run(3) by (simp add: add.commute)
next
  case (5 key x es d b)
  then obtain b1 item b2 rest where
    "valueBudget_consume b 1 (int (length (keyString key))) ErrUnsupportedExtensionValue = Inr b1"
    and steps: "encodeValueAt x d b1 = Inr (item, b2)"
    "encodeEntries es d b2 = Inr (rest, b')" "entries = (keyString key, item) # rest" "plain x" "VString (keyString key) = key"
    "list_all (\<lambda>(key, v). VString (keyString key) = key \<and> plain v) es"
    by (auto simp: result_inv simp del: valueBudget_consume_Inr_iff)
  then have "vb_nodes b1 = vb_nodes b + 1"
    by (auto simp: valueBudget_consume_Inr_iff)
  note run = this steps
  have grow: "vb_nodes b1 \<le> vb_nodes b2" "vb_nodes b2 \<le> vb_nodes b'"
    using encode_nodes run(2,3) by blast+
  let ?k = "int (length (keyString key))"
  have fits: "affords c (1 + (vb_nodes b2 - vb_nodes b1) + (vb_nodes b' - vb_nodes b2))
      (?k + text_bytes item + sum_list (map (\<lambda>(key, x). int (length key) + text_bytes x) rest))"
    using "5.prems"(3) run(1,4) by (simp add: algebra_simps)
  have "affords c 1 ?k"
    using affords_less [OF fits] grow by simp
  then have "valueBudget_consume c 1 ?k ErrInvalidEnvelope = Inr (spent c 1 ?k)"
    by (simp add: consume_affords)
  moreover have "decodeValueAt item d (spent c 1 ?k) = Inr (x, spent (spent c 1 ?k) (vb_nodes b2 - vb_nodes b1) (text_bytes item))"
    by (rule "5.IH"(1) [simplified normalizeBuiltInValue_plain [OF run(5)], OF run(5,2)])
      (use affords_less [OF fits] grow in simp)
  moreover have "decodeEntries rest d (spent (spent c 1 ?k) (vb_nodes b2 - vb_nodes b1) (text_bytes item)) =
      Inr (es, spent (spent (spent c 1 ?k) (vb_nodes b2 - vb_nodes b1) (text_bytes item)) (vb_nodes b' - vb_nodes b2)
        (sum_list (map (\<lambda>(key, x). int (length key) + text_bytes x) rest)))"
    by (rule "5.IH"(2) [OF run(7,3)]) (use fits in simp)
  ultimately show ?case
    using run(1,4,6) by (simp add: algebra_simps)
qed simp_all

end
