(* ===== verification/Storage_Dto.thy ===== *)
theory Storage_Dto
  imports Storage_Value
begin

text \<open>
  The transfer objects of \<^verbatim>\<open>src/storage/json/json.go\<close>: the envelope in which ceremony states and credential
  records are stored. Each struct with JSON tags is a record with an encoder and a decoder, as
  \<^verbatim>\<open>encoding/json/v2\<close> treats them, and each pair is a codec.
\<close>

section \<open>Transfer objects\<close>

record originPolicyDTO =
  opd_AllowedOrigins :: "string list"
  opd_AllowedTopOrigins :: "string list"
  opd_AllowCrossOriginWithoutTopOrigin :: bool
  opd_AllowRelatedOrigins :: bool

record extensionBindingDTO =
  ebd_ID :: string
  ebd_Revision :: string

record credentialDescriptorDTO =
  cdd_Type :: string
  cdd_ID :: string
  cdd_Transports :: "string list"

record registrationStateDTO =
  rsd_Challenge :: string
  rsd_RPID :: string
  rsd_OriginPolicy :: originPolicyDTO
  rsd_ConditionalMediation :: bool
  rsd_UserHandle :: string
  rsd_RequestedUserVerification :: string
  rsd_RequestedExtensions :: "(string \<times> encodedValue) list"
  rsd_ExtensionBindings :: "extensionBindingDTO list"
  rsd_AllowedAlgorithms :: "int list"
  rsd_Attestation :: string
  rsd_ExpiresAt :: string

record authenticationStateDTO =
  asd_Challenge :: string
  asd_RPID :: string
  asd_OriginPolicy :: originPolicyDTO
  asd_RequestedUserVerification :: string
  asd_RequestedExtensions :: "(string \<times> encodedValue) list"
  asd_ExtensionBindings :: "extensionBindingDTO list"
  asd_AllowCredentials :: "credentialDescriptorDTO list"
  asd_ExpectedUserHandle :: string
  asd_ExpiresAt :: string

record credentialRecordDTO =
  crd_Type :: "json option"
  crd_ID :: string
  crd_PublicKeyCOSE :: string
  crd_UserHandle :: string
  crd_RPID :: string
  crd_AAGUID :: string
  crd_SignCount :: "32 word"
  crd_Transports :: "string list"
  crd_BackupEligible :: bool
  crd_BackupState :: bool
  crd_UVInitialized :: bool
  crd_AuthenticatorAttachment :: string
  crd_AttestationType :: string

record envelope =
  envl_Version :: int
  envl_Kind :: string
  envl_RegistrationState :: "registrationStateDTO option"
  envl_AuthenticationState :: "authenticationStateDTO option"
  envl_CredentialRecord :: "credentialRecordDTO option"

section \<open>JSON of extension values\<close>

text \<open>Floats are finite here: the encoder has refused the others.\<close>

fun json_float_of :: "go_text \<Rightarrow> gofloat \<Rightarrow> json" where
  "json_float_of tx (Finite r) = JNumber (js_FormatFloat tx r)"
| "json_float_of tx _ = JNull"

fun json_float :: "go_text \<Rightarrow> json option \<Rightarrow> gofloat result" where
  "json_float tx (Some (JNumber s)) =
    (case js_ParseFloat tx s of None \<Rightarrow> Inl jsonError | Some r \<Rightarrow> Inr (Finite r))"
| "json_float tx _ = Inl jsonError"

fun encodedValue_json :: "go_text \<Rightarrow> encodedValue \<Rightarrow> json" where
  "encodedValue_json tx (EncodedValue t bool string bytes integer natural float array object) =
    json_object
      [(''type'', Some (JString t)), (''bool'', map_option JBool bool), (''string'', map_option JString string),
       (''bytes'', map_option JString bytes), (''int'', map_option json_int_of integer),
       (''uint'', map_option json_int_of natural), (''float'', map_option (json_float_of tx) float),
       (''array'', case array of None \<Rightarrow> None | Some xs \<Rightarrow> Some (JArray (map (encodedValue_json tx) xs))),
       (''object'', case object of None \<Rightarrow> None
          | Some es \<Rightarrow> Some (JObject (map (\<lambda>(key, x). (key, encodedValue_json tx x)) es)))]"

definition encodedValue_names :: "string list" where
  "encodedValue_names = [''type'', ''bool'', ''string'', ''bytes'', ''int'', ''uint'', ''float'', ''array'', ''object'']"

lemma member_size: "map_of ms name = Some j \<Longrightarrow> size j < Suc (size_list (size_prod (\<lambda>_. 0) size) ms)"
  by (induction ms) (auto split: if_splits)

lemma array_member_size:
  assumes "map_of ms name = Some (JArray xs)" "x \<in> set xs"
  shows "size x < Suc (size_list (size_prod (\<lambda>_. 0) size) ms)"
  using member_size [OF assms(1)] size_list_estimation' [OF assms(2), of "size x" size] by simp

lemma object_member_size:
  assumes "map_of ms name = Some (JObject es)" "(key, x) \<in> set es"
  shows "size x < Suc (size_list (size_prod (\<lambda>_. 0) size) ms)"
  using member_size [OF assms(1)] size_list_estimation' [OF assms(2), of "size x" "size_prod (\<lambda>_. 0) size"] by simp

function (sequential) encodedValue_of_json :: "go_text \<Rightarrow> json \<Rightarrow> encodedValue result" where
  "encodedValue_of_json tx JNull = Inr (EncodedValue [] None None None None None None None None)"
| "encodedValue_of_json tx (JObject ms) =
    (if \<not> list_all (\<lambda>(name, _). name \<in> set encodedValue_names) ms then Inl jsonError else
     and_then (json_string (map_of ms ''type'')) (\<lambda>t.
     and_then (json_ptr json_bool (map_of ms ''bool'')) (\<lambda>bool.
     and_then (json_ptr json_string (map_of ms ''string'')) (\<lambda>string.
     and_then (json_ptr json_string (map_of ms ''bytes'')) (\<lambda>bytes.
     and_then (json_ptr (json_int MinInt64 MaxInt64) (map_of ms ''int'')) (\<lambda>integer.
     and_then (json_ptr (json_uint MaxUint64) (map_of ms ''uint'')) (\<lambda>natural.
     and_then (json_ptr (json_float tx) (map_of ms ''float'')) (\<lambda>float.
     and_then (case map_of ms ''array'' of
         None \<Rightarrow> Inr None
       | Some JNull \<Rightarrow> Inr None
       | Some (JArray xs) \<Rightarrow> and_then (map_res (\<lambda>x. encodedValue_of_json tx x) xs) (\<lambda>ys. Inr (Some ys))
       | Some _ \<Rightarrow> Inl jsonError) (\<lambda>array.
     and_then (case map_of ms ''object'' of
         None \<Rightarrow> Inr None
       | Some JNull \<Rightarrow> Inr None
       | Some (JObject es) \<Rightarrow>
           and_then (map_res (\<lambda>(key, x). and_then (encodedValue_of_json tx x) (\<lambda>y. Inr (key, y))) es) (\<lambda>ys. Inr (Some ys))
       | Some _ \<Rightarrow> Inl jsonError) (\<lambda>object.
     Inr (EncodedValue t bool string bytes integer natural float array object)))))))))))"
| "encodedValue_of_json tx _ = Inl jsonError"
  by pat_completeness auto

termination
  by (relation "measure (\<lambda>(_, j). size j)") (auto simp: array_member_size object_member_size)

definition json_extensions_of :: "go_text \<Rightarrow> (string \<times> encodedValue) list \<Rightarrow> json option" where
  "json_extensions_of tx values =
    (if values = [] then None else Some (JObject (map (\<lambda>(name, v). (name, encodedValue_json tx v)) values)))"

fun json_extensions :: "go_text \<Rightarrow> json option \<Rightarrow> (string \<times> encodedValue) list result" where
  "json_extensions tx None = Inr []"
| "json_extensions tx (Some JNull) = Inr []"
| "json_extensions tx (Some (JObject es)) =
    map_res (\<lambda>(name, v). and_then (encodedValue_of_json tx v) (\<lambda>x. Inr (name, x))) es"
| "json_extensions tx (Some _) = Inl jsonError"

section \<open>JSON of the transfer objects\<close>

definition originPolicyDTO_json :: "originPolicyDTO \<Rightarrow> json" where
  "originPolicyDTO_json d = json_object
    [(''allowedOrigins'', Some (json_strings_of (opd_AllowedOrigins d))),
     (''allowedTopOrigins'', omitempty_list JString (opd_AllowedTopOrigins d)),
     (''allowCrossOriginWithoutTopOrigin'', omitzero_bool (opd_AllowCrossOriginWithoutTopOrigin d)),
     (''allowRelatedOrigins'', omitzero_bool (opd_AllowRelatedOrigins d))]"

definition originPolicyDTO_of_json :: "json option \<Rightarrow> originPolicyDTO result" where
  "originPolicyDTO_of_json j =
    and_then (json_members [''allowedOrigins'', ''allowedTopOrigins'', ''allowCrossOriginWithoutTopOrigin'',
      ''allowRelatedOrigins''] j) (\<lambda>ms.
    and_then (json_list json_string (map_of ms ''allowedOrigins'')) (\<lambda>origins.
    and_then (json_list json_string (map_of ms ''allowedTopOrigins'')) (\<lambda>topOrigins.
    and_then (json_bool (map_of ms ''allowCrossOriginWithoutTopOrigin'')) (\<lambda>withoutTop.
    and_then (json_bool (map_of ms ''allowRelatedOrigins'')) (\<lambda>related.
    Inr \<lparr>opd_AllowedOrigins = origins, opd_AllowedTopOrigins = topOrigins,
      opd_AllowCrossOriginWithoutTopOrigin = withoutTop, opd_AllowRelatedOrigins = related\<rparr>)))))"

definition extensionBindingDTO_json :: "extensionBindingDTO \<Rightarrow> json" where
  "extensionBindingDTO_json d = json_object
    [(''id'', Some (JString (ebd_ID d))), (''revision'', Some (JString (ebd_Revision d)))]"

definition extensionBindingDTO_of_json :: "json option \<Rightarrow> extensionBindingDTO result" where
  "extensionBindingDTO_of_json j =
    and_then (json_members [''id'', ''revision''] j) (\<lambda>ms.
    and_then (json_string (map_of ms ''id'')) (\<lambda>name.
    and_then (json_string (map_of ms ''revision'')) (\<lambda>revision.
    Inr \<lparr>ebd_ID = name, ebd_Revision = revision\<rparr>)))"

definition credentialDescriptorDTO_json :: "credentialDescriptorDTO \<Rightarrow> json" where
  "credentialDescriptorDTO_json d = json_object
    [(''type'', Some (JString (cdd_Type d))), (''id'', Some (JString (cdd_ID d))),
     (''transports'', omitempty_list JString (cdd_Transports d))]"

definition credentialDescriptorDTO_of_json :: "json option \<Rightarrow> credentialDescriptorDTO result" where
  "credentialDescriptorDTO_of_json j =
    and_then (json_members [''type'', ''id'', ''transports''] j) (\<lambda>ms.
    and_then (json_string (map_of ms ''type'')) (\<lambda>t.
    and_then (json_string (map_of ms ''id'')) (\<lambda>name.
    and_then (json_list json_string (map_of ms ''transports'')) (\<lambda>transports.
    Inr \<lparr>cdd_Type = t, cdd_ID = name, cdd_Transports = transports\<rparr>))))"

definition registrationStateDTO_json :: "go_text \<Rightarrow> registrationStateDTO \<Rightarrow> json" where
  "registrationStateDTO_json tx d = json_object
    [(''challenge'', Some (JString (rsd_Challenge d))), (''rpId'', Some (JString (rsd_RPID d))),
     (''originPolicy'', Some (originPolicyDTO_json (rsd_OriginPolicy d))),
     (''conditionalMediation'', omitzero_bool (rsd_ConditionalMediation d)),
     (''userHandle'', Some (JString (rsd_UserHandle d))),
     (''requestedUserVerification'', Some (JString (rsd_RequestedUserVerification d))),
     (''requestedExtensions'', json_extensions_of tx (rsd_RequestedExtensions d)),
     (''extensionBindings'', omitempty_list extensionBindingDTO_json (rsd_ExtensionBindings d)),
     (''allowedAlgorithms'', Some (JArray (map json_int_of (rsd_AllowedAlgorithms d)))),
     (''attestation'', Some (JString (rsd_Attestation d))), (''expiresAt'', Some (JString (rsd_ExpiresAt d)))]"

definition registrationStateDTO_of_json :: "go_text \<Rightarrow> json option \<Rightarrow> registrationStateDTO result" where
  "registrationStateDTO_of_json tx j =
    and_then (json_members [''challenge'', ''rpId'', ''originPolicy'', ''conditionalMediation'', ''userHandle'',
      ''requestedUserVerification'', ''requestedExtensions'', ''extensionBindings'', ''allowedAlgorithms'',
      ''attestation'', ''expiresAt''] j) (\<lambda>ms.
    and_then (json_string (map_of ms ''challenge'')) (\<lambda>challenge.
    and_then (json_string (map_of ms ''rpId'')) (\<lambda>rpid.
    and_then (originPolicyDTO_of_json (map_of ms ''originPolicy'')) (\<lambda>policy.
    and_then (json_bool (map_of ms ''conditionalMediation'')) (\<lambda>conditional.
    and_then (json_string (map_of ms ''userHandle'')) (\<lambda>userHandle.
    and_then (json_string (map_of ms ''requestedUserVerification'')) (\<lambda>verification.
    and_then (json_extensions tx (map_of ms ''requestedExtensions'')) (\<lambda>extensions.
    and_then (json_list extensionBindingDTO_of_json (map_of ms ''extensionBindings'')) (\<lambda>bindings.
    and_then (json_list (json_int MinInt64 MaxInt64) (map_of ms ''allowedAlgorithms'')) (\<lambda>algorithms.
    and_then (json_string (map_of ms ''attestation'')) (\<lambda>attestation.
    and_then (json_string (map_of ms ''expiresAt'')) (\<lambda>expiresAt.
    Inr \<lparr>rsd_Challenge = challenge, rsd_RPID = rpid, rsd_OriginPolicy = policy, rsd_ConditionalMediation = conditional,
      rsd_UserHandle = userHandle, rsd_RequestedUserVerification = verification, rsd_RequestedExtensions = extensions,
      rsd_ExtensionBindings = bindings, rsd_AllowedAlgorithms = algorithms, rsd_Attestation = attestation,
      rsd_ExpiresAt = expiresAt\<rparr>))))))))))))"

definition authenticationStateDTO_json :: "go_text \<Rightarrow> authenticationStateDTO \<Rightarrow> json" where
  "authenticationStateDTO_json tx d = json_object
    [(''challenge'', Some (JString (asd_Challenge d))), (''rpId'', Some (JString (asd_RPID d))),
     (''originPolicy'', Some (originPolicyDTO_json (asd_OriginPolicy d))),
     (''requestedUserVerification'', Some (JString (asd_RequestedUserVerification d))),
     (''requestedExtensions'', json_extensions_of tx (asd_RequestedExtensions d)),
     (''extensionBindings'', omitempty_list extensionBindingDTO_json (asd_ExtensionBindings d)),
     (''allowCredentials'', omitempty_list credentialDescriptorDTO_json (asd_AllowCredentials d)),
     (''expectedUserHandle'', omitempty_string (asd_ExpectedUserHandle d)),
     (''expiresAt'', Some (JString (asd_ExpiresAt d)))]"

definition authenticationStateDTO_of_json :: "go_text \<Rightarrow> json option \<Rightarrow> authenticationStateDTO result" where
  "authenticationStateDTO_of_json tx j =
    and_then (json_members [''challenge'', ''rpId'', ''originPolicy'', ''requestedUserVerification'',
      ''requestedExtensions'', ''extensionBindings'', ''allowCredentials'', ''expectedUserHandle'', ''expiresAt''] j) (\<lambda>ms.
    and_then (json_string (map_of ms ''challenge'')) (\<lambda>challenge.
    and_then (json_string (map_of ms ''rpId'')) (\<lambda>rpid.
    and_then (originPolicyDTO_of_json (map_of ms ''originPolicy'')) (\<lambda>policy.
    and_then (json_string (map_of ms ''requestedUserVerification'')) (\<lambda>verification.
    and_then (json_extensions tx (map_of ms ''requestedExtensions'')) (\<lambda>extensions.
    and_then (json_list extensionBindingDTO_of_json (map_of ms ''extensionBindings'')) (\<lambda>bindings.
    and_then (json_list credentialDescriptorDTO_of_json (map_of ms ''allowCredentials'')) (\<lambda>credentials.
    and_then (json_string (map_of ms ''expectedUserHandle'')) (\<lambda>userHandle.
    and_then (json_string (map_of ms ''expiresAt'')) (\<lambda>expiresAt.
    Inr \<lparr>asd_Challenge = challenge, asd_RPID = rpid, asd_OriginPolicy = policy,
      asd_RequestedUserVerification = verification, asd_RequestedExtensions = extensions, asd_ExtensionBindings = bindings,
      asd_AllowCredentials = credentials, asd_ExpectedUserHandle = userHandle, asd_ExpiresAt = expiresAt\<rparr>))))))))))"

text \<open>A raw member with \<^verbatim>\<open>omitempty\<close> is dropped when its JSON is null, an empty string, array or object.\<close>

definition omitempty_raw :: "json option \<Rightarrow> json option" where
  "omitempty_raw raw =
    (if raw \<in> set [Some JNull, Some (JString []), Some (JArray []), Some (JObject [])] then None else raw)"

definition credentialRecordDTO_json :: "credentialRecordDTO \<Rightarrow> json" where
  "credentialRecordDTO_json d = json_object
    [(''type'', omitempty_raw (crd_Type d)), (''id'', Some (JString (crd_ID d))),
     (''publicKeyCose'', Some (JString (crd_PublicKeyCOSE d))), (''userHandle'', Some (JString (crd_UserHandle d))),
     (''rpId'', Some (JString (crd_RPID d))), (''aaguid'', Some (JString (crd_AAGUID d))),
     (''signCount'', Some (json_int_of (uint (crd_SignCount d)))),
     (''transports'', omitempty_list JString (crd_Transports d)),
     (''backupEligible'', Some (JBool (crd_BackupEligible d))), (''backupState'', Some (JBool (crd_BackupState d))),
     (''uvInitialized'', Some (JBool (crd_UVInitialized d))),
     (''authenticatorAttachment'', omitempty_string (crd_AuthenticatorAttachment d)),
     (''attestationType'', Some (JString (crd_AttestationType d)))]"

definition credentialRecordDTO_of_json :: "json option \<Rightarrow> credentialRecordDTO result" where
  "credentialRecordDTO_of_json j =
    and_then (json_members [''type'', ''id'', ''publicKeyCose'', ''userHandle'', ''rpId'', ''aaguid'', ''signCount'',
      ''transports'', ''backupEligible'', ''backupState'', ''uvInitialized'', ''authenticatorAttachment'',
      ''attestationType''] j) (\<lambda>ms.
    and_then (json_string (map_of ms ''id'')) (\<lambda>name.
    and_then (json_string (map_of ms ''publicKeyCose'')) (\<lambda>publicKey.
    and_then (json_string (map_of ms ''userHandle'')) (\<lambda>userHandle.
    and_then (json_string (map_of ms ''rpId'')) (\<lambda>rpid.
    and_then (json_string (map_of ms ''aaguid'')) (\<lambda>aaguid.
    and_then (json_uint (2 ^ 32 - 1) (map_of ms ''signCount'')) (\<lambda>signCount.
    and_then (json_list json_string (map_of ms ''transports'')) (\<lambda>transports.
    and_then (json_bool (map_of ms ''backupEligible'')) (\<lambda>eligible.
    and_then (json_bool (map_of ms ''backupState'')) (\<lambda>backup.
    and_then (json_bool (map_of ms ''uvInitialized'')) (\<lambda>initialized.
    and_then (json_string (map_of ms ''authenticatorAttachment'')) (\<lambda>attachment.
    and_then (json_string (map_of ms ''attestationType'')) (\<lambda>attestationType.
    Inr \<lparr>crd_Type = map_of ms ''type'', crd_ID = name, crd_PublicKeyCOSE = publicKey, crd_UserHandle = userHandle,
      crd_RPID = rpid, crd_AAGUID = aaguid, crd_SignCount = word_of_int signCount, crd_Transports = transports,
      crd_BackupEligible = eligible, crd_BackupState = backup, crd_UVInitialized = initialized,
      crd_AuthenticatorAttachment = attachment, crd_AttestationType = attestationType\<rparr>)))))))))))))"

definition envelope_json :: "go_text \<Rightarrow> envelope \<Rightarrow> json" where
  "envelope_json tx e = json_object
    [(''version'', Some (json_int_of (envl_Version e))), (''kind'', Some (JString (envl_Kind e))),
     (''registrationState'', map_option (registrationStateDTO_json tx) (envl_RegistrationState e)),
     (''authenticationState'', map_option (authenticationStateDTO_json tx) (envl_AuthenticationState e)),
     (''credentialRecord'', map_option credentialRecordDTO_json (envl_CredentialRecord e))]"

definition envelope_of_json :: "go_text \<Rightarrow> json \<Rightarrow> envelope result" where
  "envelope_of_json tx j =
    and_then (json_members [''version'', ''kind'', ''registrationState'', ''authenticationState'', ''credentialRecord'']
      (Some j)) (\<lambda>ms.
    and_then (json_int MinInt64 MaxInt64 (map_of ms ''version'')) (\<lambda>version.
    and_then (json_string (map_of ms ''kind'')) (\<lambda>kind.
    and_then (json_ptr (registrationStateDTO_of_json tx) (map_of ms ''registrationState'')) (\<lambda>registration.
    and_then (json_ptr (authenticationStateDTO_of_json tx) (map_of ms ''authenticationState'')) (\<lambda>authentication.
    and_then (json_ptr credentialRecordDTO_of_json (map_of ms ''credentialRecord'')) (\<lambda>credential.
    Inr \<lparr>envl_Version = version, envl_Kind = kind, envl_RegistrationState = registration,
      envl_AuthenticationState = authentication, envl_CredentialRecord = credential\<rparr>))))))"

section \<open>Codecs\<close>

interpretation originPolicy_codec: json_codec originPolicyDTO_json originPolicyDTO_of_json "\<lambda>_. True"
  by unfold_locales (simp add: originPolicyDTO_json_def originPolicyDTO_of_json_def struct_codec)

interpretation binding_codec: json_codec extensionBindingDTO_json extensionBindingDTO_of_json "\<lambda>_. True"
  by unfold_locales (simp add: extensionBindingDTO_json_def extensionBindingDTO_of_json_def struct_codec)

interpretation descriptor_codec: json_codec credentialDescriptorDTO_json credentialDescriptorDTO_of_json "\<lambda>_. True"
  by unfold_locales (simp add: credentialDescriptorDTO_json_def credentialDescriptorDTO_of_json_def struct_codec)

text \<open>An encoded value whose numbers have a JSON text.\<close>

fun storable :: "go_text \<Rightarrow> encodedValue \<Rightarrow> bool" where
  "storable tx (EncodedValue t bool string bytes integer natural float array object) \<longleftrightarrow>
    (case integer of None \<Rightarrow> True | Some n \<Rightarrow> MinInt64 \<le> n \<and> n \<le> MaxInt64) \<and>
    (case natural of None \<Rightarrow> True | Some n \<Rightarrow> 0 \<le> n \<and> n \<le> MaxUint64) \<and>
    (case float of None \<Rightarrow> True
     | Some f \<Rightarrow> (case f of Finite r \<Rightarrow> js_ParseFloat tx (js_FormatFloat tx r) = Some r | _ \<Rightarrow> False)) \<and>
    (case array of None \<Rightarrow> True | Some xs \<Rightarrow> list_all (storable tx) xs) \<and>
    (case object of None \<Rightarrow> True | Some es \<Rightarrow> list_all (\<lambda>(key, x). storable tx x) es)"

lemma json_ptr_map:
  "(\<And>x. v = Some x \<Longrightarrow> dec (Some (enc x)) = Inr x \<and> enc x \<noteq> JNull) \<Longrightarrow> json_ptr dec (map_option enc v) = Inr v"
  by (cases v) (auto simp: json_ptr_def)

lemma number_members:
  "case v of None \<Rightarrow> True | Some n \<Rightarrow> lo \<le> n \<and> n \<le> hi \<Longrightarrow> json_ptr (json_int lo hi) (map_option json_int_of v) = Inr v"
  "case v of None \<Rightarrow> True | Some n \<Rightarrow> 0 \<le> n \<and> n \<le> hi \<Longrightarrow> json_ptr (json_uint hi) (map_option json_int_of v) = Inr v"
  "case w of None \<Rightarrow> True
     | Some f \<Rightarrow> (case f of Finite r \<Rightarrow> js_ParseFloat tx (js_FormatFloat tx r) = Some r | _ \<Rightarrow> False) \<Longrightarrow>
    json_ptr (json_float tx) (map_option (json_float_of tx) w) = Inr w"
  by (auto simp: json_ptr_def json_int_of_def split: option.splits gofloat.splits)

lemma encodedValue_roundtrip: "storable tx e \<Longrightarrow> encodedValue_of_json tx (encodedValue_json tx e) = Inr e"
proof (induction tx e rule: storable.induct)
  case (1 tx t bool string bytes integer natural float array object)
  let ?ms = "[(''type'', Some (JString t)), (''bool'', map_option JBool bool), (''string'', map_option JString string),
       (''bytes'', map_option JString bytes), (''int'', map_option json_int_of integer),
       (''uint'', map_option json_int_of natural), (''float'', map_option (json_float_of tx) float),
       (''array'', case array of None \<Rightarrow> None | Some xs \<Rightarrow> Some (JArray (map (encodedValue_json tx) xs))),
       (''object'', case object of None \<Rightarrow> None
          | Some es \<Rightarrow> Some (JObject (map (\<lambda>(key, x). (key, encodedValue_json tx x)) es)))]"
  have names: "list_all (\<lambda>(name, _). name \<in> set encodedValue_names) (present_members ?ms)"
    by (rule present_members_names) (simp add: encodedValue_names_def)
  have numbers: "json_ptr (json_int MinInt64 MaxInt64) (map_option json_int_of integer) = Inr integer"
      "json_ptr (json_uint MaxUint64) (map_option json_int_of natural) = Inr natural"
      "json_ptr (json_float tx) (map_option (json_float_of tx) float) = Inr float"
    using "1.prems" by (simp_all add: number_members)
  have members: "json_ptr json_bool (map_option JBool bool) = Inr bool"
      "json_ptr json_string (map_option JString string) = Inr string"
      "json_ptr json_string (map_option JString bytes) = Inr bytes"
    by (auto intro!: json_ptr_map)
  have array: "(case (case array of None \<Rightarrow> None | Some xs \<Rightarrow> Some (JArray (map (encodedValue_json tx) xs))) of
         None \<Rightarrow> Inr None
       | Some JNull \<Rightarrow> Inr None
       | Some (JArray xs) \<Rightarrow> and_then (map_res (\<lambda>x. encodedValue_of_json tx x) xs) (\<lambda>ys. Inr (Some ys))
       | Some _ \<Rightarrow> Inl jsonError) = Inr array"
    using "1.IH"(1) "1.prems" by (auto split: option.split simp: list_all_iff map_res_map)
  have entries: "map_res (\<lambda>(key, x). and_then (encodedValue_of_json tx x) (\<lambda>y. Inr (key, y)))
      (map (\<lambda>(key, x). (key, encodedValue_json tx x)) es) = Inr es" if "object = Some es" for es
    using "1.IH"(2) [OF that] "1.prems" that by (intro map_res_map) (auto simp: list_all_iff)
  have object: "(case (case object of None \<Rightarrow> None
          | Some es \<Rightarrow> Some (JObject (map (\<lambda>(key, x). (key, encodedValue_json tx x)) es))) of
         None \<Rightarrow> Inr None
       | Some JNull \<Rightarrow> Inr None
       | Some (JObject es) \<Rightarrow>
           and_then (map_res (\<lambda>(key, x). and_then (encodedValue_of_json tx x) (\<lambda>y. Inr (key, y))) es) (\<lambda>ys. Inr (Some ys))
       | Some _ \<Rightarrow> Inl jsonError) = Inr object"
    using entries by (simp split: option.split)
  show ?case
    using names numbers members array object
    by (simp add: json_object_def struct_codec)
qed

definition storable_all :: "go_text \<Rightarrow> (string \<times> encodedValue) list \<Rightarrow> bool" where
  "storable_all tx values \<longleftrightarrow> list_all (\<lambda>(_, v). storable tx v) values"

lemma json_extensions_roundtrip:
  assumes "storable_all tx values"
  shows "json_extensions tx (json_extensions_of tx values) = Inr values"
proof -
  have "map_res (\<lambda>(name, v). and_then (encodedValue_of_json tx v) (\<lambda>x. Inr (name, x)))
      (map (\<lambda>(name, v). (name, encodedValue_json tx v)) values) = Inr values"
    using assms by (intro map_res_map) (auto simp: storable_all_def list_all_iff encodedValue_roundtrip)
  then show ?thesis
    by (simp add: json_extensions_of_def)
qed

definition int64s :: "int list \<Rightarrow> bool" where
  "int64s xs \<longleftrightarrow> list_all (\<lambda>n. MinInt64 \<le> n \<and> n \<le> MaxInt64) xs"

lemma int64s_codec: "int64s xs \<Longrightarrow> json_list (json_int MinInt64 MaxInt64) (Some (JArray (map json_int_of xs))) = Inr xs"
  by (rule int_codec.dec_list) (simp add: int64s_def)

lemmas member_codecs = originPolicy_codec.dec_enc [OF TrueI] json_extensions_roundtrip
  binding_codec.dec_omitempty_list [unfolded list_all_iff, simplified]
  descriptor_codec.dec_omitempty_list [unfolded list_all_iff, simplified]
  int64s_codec int64s_codec [unfolded json_list.simps] int_codec.dec_enc uint_codec.dec_enc

interpretation registrationState_codec: json_codec "registrationStateDTO_json tx" "registrationStateDTO_of_json tx"
  "\<lambda>d. storable_all tx (rsd_RequestedExtensions d) \<and> int64s (rsd_AllowedAlgorithms d)" for tx
  by unfold_locales
    (simp add: registrationStateDTO_json_def registrationStateDTO_of_json_def struct_codec member_codecs)

interpretation authenticationState_codec: json_codec "authenticationStateDTO_json tx" "authenticationStateDTO_of_json tx"
  "\<lambda>d. storable_all tx (asd_RequestedExtensions d)" for tx
  by unfold_locales
    (simp add: authenticationStateDTO_json_def authenticationStateDTO_of_json_def struct_codec member_codecs)

lemma signCount_codec: "json_uint 4294967295 (Some (json_int_of (uint (w :: 32 word)))) = Inr (uint w)"
  using uint_codec.dec_enc [of "uint w" "4294967295"] uint_lt2p [of w] by simp

interpretation credentialRecord_codec: json_codec credentialRecordDTO_json credentialRecordDTO_of_json
  "\<lambda>d. omitempty_raw (crd_Type d) = crd_Type d"
  by unfold_locales
    (simp add: credentialRecordDTO_json_def credentialRecordDTO_of_json_def struct_codec signCount_codec)

text \<open>The envelope: the payloads are the codecs above.\<close>

definition envelope_holds :: "go_text \<Rightarrow> envelope \<Rightarrow> bool" where
  "envelope_holds tx e \<longleftrightarrow> MinInt64 \<le> envl_Version e \<and> envl_Version e \<le> MaxInt64 \<and>
    (case envl_RegistrationState e of None \<Rightarrow> True
     | Some d \<Rightarrow> storable_all tx (rsd_RequestedExtensions d) \<and> int64s (rsd_AllowedAlgorithms d)) \<and>
    (case envl_AuthenticationState e of None \<Rightarrow> True | Some d \<Rightarrow> storable_all tx (asd_RequestedExtensions d)) \<and>
    (case envl_CredentialRecord e of None \<Rightarrow> True | Some d \<Rightarrow> omitempty_raw (crd_Type d) = crd_Type d)"

lemma payload_not_null [simp]:
  "registrationStateDTO_json tx r \<noteq> JNull" "authenticationStateDTO_json tx a \<noteq> JNull" "credentialRecordDTO_json c \<noteq> JNull"
  by (simp_all add: registrationStateDTO_json_def authenticationStateDTO_json_def credentialRecordDTO_json_def)

lemma envelope_roundtrip:
  assumes "envelope_holds tx e"
  shows "envelope_of_json tx (envelope_json tx e) = Inr e"
proof -
  have payloads:
      "json_ptr (registrationStateDTO_of_json tx) (map_option (registrationStateDTO_json tx) (envl_RegistrationState e)) =
        Inr (envl_RegistrationState e)"
      "json_ptr (authenticationStateDTO_of_json tx) (map_option (authenticationStateDTO_json tx) (envl_AuthenticationState e)) =
        Inr (envl_AuthenticationState e)"
      "json_ptr credentialRecordDTO_of_json (map_option credentialRecordDTO_json (envl_CredentialRecord e)) =
        Inr (envl_CredentialRecord e)"
    using assms by (auto intro!: json_ptr_map registrationState_codec.dec_enc authenticationState_codec.dec_enc
      credentialRecord_codec.dec_enc simp: envelope_holds_def)
  then show ?thesis
    using assms by (simp add: envelope_json_def envelope_of_json_def struct_codec member_codecs envelope_holds_def)
qed

end
