(* ===== verification/Storage_Json.thy ===== *)
theory Storage_Json
  imports Storage_Dto Registration
begin

text \<open>
  \<^verbatim>\<open>src/storage/json/json.go\<close>: versioned JSON envelopes for registration states, authentication states and
  credential records. What is marshalled has passed the validation of its type, and so has what is
  unmarshalled. The JSON text layer is the records \<open>go_std\<close> (reading) and \<open>go_text\<close> (printing); a raw JSON
  member is the value it denotes.
\<close>

definition EnvelopeVersion :: int where "EnvelopeVersion = 1"
definition MaxStoredPublicKeyBytes :: int where "MaxStoredPublicKeyBytes = MaxCredentialPublicKeyBytes"
definition kindRegistrationState :: string where "kindRegistrationState = ''registration-state''"
definition kindAuthenticationState :: string where "kindAuthenticationState = ''authentication-state''"
definition kindCredentialRecord :: string where "kindCredentialRecord = ''credential-record''"

lemmas envelope_kinds = kindRegistrationState_def kindAuthenticationState_def kindCredentialRecord_def

definition invalid :: "error \<Rightarrow> error" where "invalid e = Wrapf ErrInvalidEnvelope e"

section \<open>Fields\<close>

definition encodeBytes :: "bytes \<Rightarrow> string" where "encodeBytes raw = b64_encode raw"

definition decodeBytes :: "string \<Rightarrow> string \<Rightarrow> int \<Rightarrow> int \<Rightarrow> bytes result" where
  "decodeBytes name encoded lo hi =
    (case b64_decode encoded of None \<Rightarrow> Inl (Notef ErrInvalidEnvelope name)
     | Some raw \<Rightarrow>
       if b64_encode raw \<noteq> encoded \<or> int (length raw) < lo \<or> hi > 0 \<and> int (length raw) > hi
       then Inl (Notef ErrInvalidEnvelope name) else Inr raw)"

definition decodeChallenge :: "string \<Rightarrow> Challenge result" where
  "decodeChallenge encoded =
    and_then (decodeBytes ''challenge'' encoded MinChallengeLength 0) (\<lambda>raw.
    wrap_res ErrInvalidEnvelope (NewChallenge (Some raw)))"

definition decodeUserHandle :: "string \<Rightarrow> string \<Rightarrow> bool \<Rightarrow> UserHandle result" where
  "decodeUserHandle name encoded required =
    (if encoded = [] \<and> \<not> required then Inr zero_byteValue else
     and_then (decodeBytes name encoded 1 MaxUserHandleLength) (\<lambda>raw.
     wrap_res ErrInvalidEnvelope (NewUserHandle (Some raw))))"

definition formatTime :: "go_text \<Rightarrow> time \<Rightarrow> string" where "formatTime tx t = time_Format tx t"

definition parseTime :: "go_text \<Rightarrow> string \<Rightarrow> time result" where
  "parseTime tx encoded =
    (case time_Parse tx encoded of None \<Rightarrow> Inl (Notef ErrInvalidEnvelope ''expiresAt'')
     | Some t \<Rightarrow> if IsZero t \<or> time_Format tx t \<noteq> encoded then Inl (Notef ErrInvalidEnvelope ''expiresAt'') else Inr t)"

definition transportsToStrings :: "AuthenticatorTransport list \<Rightarrow> string list" where
  "transportsToStrings transports = map (\<lambda>transport. transport) transports"

definition stringsToTransports :: "string list \<Rightarrow> AuthenticatorTransport list" where
  "stringsToTransports transports = map (\<lambda>transport. transport) transports"

definition originPolicyToDTO :: "OriginPolicy \<Rightarrow> originPolicyDTO" where
  "originPolicyToDTO policy =
    \<lparr>opd_AllowedOrigins = op_AllowedOrigins policy, opd_AllowedTopOrigins = op_AllowedTopOrigins policy,
     opd_AllowCrossOriginWithoutTopOrigin = op_AllowCrossOriginWithoutTopOrigin policy,
     opd_AllowRelatedOrigins = op_AllowRelatedOrigins policy\<rparr>"

definition originPolicyFromDTO :: "originPolicyDTO \<Rightarrow> OriginPolicy" where
  "originPolicyFromDTO policy =
    \<lparr>op_AllowedOrigins = opd_AllowedOrigins policy, op_AllowedTopOrigins = opd_AllowedTopOrigins policy,
     op_AllowCrossOriginWithoutTopOrigin = opd_AllowCrossOriginWithoutTopOrigin policy,
     op_AllowRelatedOrigins = opd_AllowRelatedOrigins policy\<rparr>"

definition extensionBindingsToDTO :: "Binding list \<Rightarrow> extensionBindingDTO list" where
  "extensionBindingsToDTO bindings =
    map (\<lambda>binding. \<lparr>ebd_ID = bind_ID binding, ebd_Revision = bind_Revision binding\<rparr>) bindings"

definition extensionBindingsFromDTO :: "extensionBindingDTO list \<Rightarrow> Binding list" where
  "extensionBindingsFromDTO bindings =
    map (\<lambda>binding. \<lparr>bind_ID = ebd_ID binding, bind_Revision = ebd_Revision binding\<rparr>) bindings"

definition descriptorsToDTO :: "CredentialDescriptor list \<Rightarrow> credentialDescriptorDTO list" where
  "descriptorsToDTO descriptors =
    map (\<lambda>descriptor. \<lparr>cdd_Type = cd_Type descriptor, cdd_ID = encodeBytes (bv_bytes (cd_ID descriptor)),
      cdd_Transports = transportsToStrings (cd_Transports descriptor)\<rparr>) descriptors"

definition descriptorFromDTO :: "credentialDescriptorDTO \<Rightarrow> CredentialDescriptor result" where
  "descriptorFromDTO descriptor =
    and_then (decodeBytes ''allowCredentials.id'' (cdd_ID descriptor) 1 MaxCredentialIDLength) (\<lambda>idBytes.
    and_then (wrap_res ErrInvalidEnvelope (NewCredentialID (Some idBytes))) (\<lambda>credentialID.
    let out = \<lparr>cd_Type = cdd_Type descriptor, cd_ID = credentialID,
        cd_Transports = stringsToTransports (cdd_Transports descriptor)\<rparr> in
    check (wrap_err ErrInvalidEnvelope (CredentialDescriptor_Validate out)) (Inr out)))"

definition descriptorsFromDTO :: "credentialDescriptorDTO list \<Rightarrow> CredentialDescriptor list result" where
  "descriptorsFromDTO descriptors = map_res descriptorFromDTO descriptors"

definition credentialRecordType :: "json option \<Rightarrow> PublicKeyCredentialType result" where
  "credentialRecordType raw =
    (if raw = None then Inl (Notef ErrInvalidEnvelope ''credential type is required'') else
     case json_string raw of
       Inl _ \<Rightarrow> Inl (Notef ErrInvalidEnvelope ''credential type'')
     | Inr s \<Rightarrow> if s = [] then Inl (Notef ErrInvalidEnvelope ''credential type'') else Inr s)"

definition storage_validateRegistrationState :: "go_std \<Rightarrow> RegistrationState \<Rightarrow> error option" where
  "storage_validateRegistrationState std state = map_option invalid (RegistrationState_Validate std state)"

definition storage_validateAuthenticationState :: "go_std \<Rightarrow> AuthenticationState \<Rightarrow> error option" where
  "storage_validateAuthenticationState std state = map_option invalid (AuthenticationState_Validate std state)"

definition storage_validateCredentialRecord :: "CredentialRecord \<Rightarrow> error option" where
  "storage_validateCredentialRecord r = map_option invalid (CredentialRecord_Validate r)"

section \<open>Envelopes\<close>

definition marshalEnvelope :: "go_text \<Rightarrow> envelope \<Rightarrow> bytes result" where
  "marshalEnvelope tx e =
    and_then (wrap_res ErrInvalidEnvelope (js_Marshal tx (envelope_json tx e))) (\<lambda>encoded.
    if int (length encoded) > MaxEnvelopeBytes then Inl (Notef ErrInvalidEnvelope ''envelope too large'') else Inr encoded)"

definition unmarshalEnvelope :: "go_std \<Rightarrow> go_text \<Rightarrow> bytes \<Rightarrow> string \<Rightarrow> envelope result" where
  "unmarshalEnvelope std tx data expectedKind =
    (if length data = 0 \<or> int (length data) > MaxEnvelopeBytes then Inl (Notef ErrInvalidEnvelope ''envelope size'') else
     and_then (wrap_res ErrInvalidEnvelope
       (case std_json std data of None \<Rightarrow> Inl jsonError | Some j \<Rightarrow> envelope_of_json tx j)) (\<lambda>e.
     if envl_Version e \<noteq> EnvelopeVersion then Inl (Notef ErrUnsupportedVersion (itoa (envl_Version e)))
     else if envl_Kind e \<noteq> expectedKind then Inl (Notef ErrInvalidEnvelope ''envelope kind'') else
     let payloads = length (filter id [envl_RegistrationState e \<noteq> None, envl_AuthenticationState e \<noteq> None,
       envl_CredentialRecord e \<noteq> None]) in
     if payloads \<noteq> 1 \<or> expectedKind = kindRegistrationState \<and> envl_RegistrationState e = None
       \<or> expectedKind = kindAuthenticationState \<and> envl_AuthenticationState e = None
       \<or> expectedKind = kindCredentialRecord \<and> envl_CredentialRecord e = None
     then Inl (Notef ErrInvalidEnvelope ''envelope payload'') else Inr e))"

definition emptyEnvelope :: "string \<Rightarrow> envelope" where
  "emptyEnvelope kind = \<lparr>envl_Version = EnvelopeVersion, envl_Kind = kind, envl_RegistrationState = None,
    envl_AuthenticationState = None, envl_CredentialRecord = None\<rparr>"

section \<open>Registration state\<close>

definition MarshalRegistrationState :: "go_std \<Rightarrow> go_text \<Rightarrow> RegistrationState \<Rightarrow> bytes result" where
  "MarshalRegistrationState std tx state =
    check (storage_validateRegistrationState std state)
    (and_then (encodeExtensionValues (rs_RequestedExtensions state)) (\<lambda>extensions.
     let payload = \<lparr>rsd_Challenge = encodeBytes (bv_bytes (rs_Challenge state)), rsd_RPID = rs_RPID state,
       rsd_OriginPolicy = originPolicyToDTO (rs_OriginPolicy state),
       rsd_ConditionalMediation = rs_ConditionalMediation state,
       rsd_UserHandle = encodeBytes (bv_bytes (rs_UserHandle state)),
       rsd_RequestedUserVerification = rs_RequestedUserVerification state,
       rsd_RequestedExtensions = extensions,
       rsd_ExtensionBindings = extensionBindingsToDTO (rs_ExtensionBindings state),
       rsd_AllowedAlgorithms = rs_AllowedAlgorithms state, rsd_Attestation = rs_Attestation state,
       rsd_ExpiresAt = formatTime tx (rs_ExpiresAt state)\<rparr> in
     marshalEnvelope tx ((emptyEnvelope kindRegistrationState)\<lparr>envl_RegistrationState := Some payload\<rparr>)))"

definition registrationStateFromDTO :: "go_text \<Rightarrow> registrationStateDTO \<Rightarrow> RegistrationState result" where
  "registrationStateFromDTO tx payload =
    and_then (decodeChallenge (rsd_Challenge payload)) (\<lambda>challenge.
    and_then (decodeUserHandle ''userHandle'' (rsd_UserHandle payload) True) (\<lambda>userHandle.
    and_then (parseTime tx (rsd_ExpiresAt payload)) (\<lambda>expiresAt.
    and_then (decodeExtensionValues (rsd_RequestedExtensions payload)) (\<lambda>extensions.
    Inr \<lparr>rs_Challenge = challenge, rs_RPID = rsd_RPID payload,
      rs_OriginPolicy = originPolicyFromDTO (rsd_OriginPolicy payload),
      rs_ConditionalMediation = rsd_ConditionalMediation payload, rs_UserHandle = userHandle,
      rs_RequestedUserVerification = rsd_RequestedUserVerification payload, rs_RequestedExtensions = extensions,
      rs_ExtensionBindings = extensionBindingsFromDTO (rsd_ExtensionBindings payload),
      rs_AllowedAlgorithms = rsd_AllowedAlgorithms payload, rs_Attestation = rsd_Attestation payload,
      rs_ExpiresAt = expiresAt\<rparr>))))"

definition UnmarshalRegistrationState :: "go_std \<Rightarrow> go_text \<Rightarrow> bytes \<Rightarrow> RegistrationState result" where
  "UnmarshalRegistrationState std tx data =
    and_then (unmarshalEnvelope std tx data kindRegistrationState) (\<lambda>e.
    and_then (registrationStateFromDTO tx (the (envl_RegistrationState e))) (\<lambda>state.
    check (storage_validateRegistrationState std state) (Inr state)))"

section \<open>Authentication state\<close>

definition MarshalAuthenticationState :: "go_std \<Rightarrow> go_text \<Rightarrow> AuthenticationState \<Rightarrow> bytes result" where
  "MarshalAuthenticationState std tx state =
    check (storage_validateAuthenticationState std state)
    (and_then (encodeExtensionValues (as_RequestedExtensions state)) (\<lambda>extensions.
     let payload = \<lparr>asd_Challenge = encodeBytes (bv_bytes (as_Challenge state)), asd_RPID = as_RPID state,
       asd_OriginPolicy = originPolicyToDTO (as_OriginPolicy state),
       asd_RequestedUserVerification = as_RequestedUserVerification state,
       asd_RequestedExtensions = extensions,
       asd_ExtensionBindings = extensionBindingsToDTO (as_ExtensionBindings state),
       asd_AllowCredentials = descriptorsToDTO (as_AllowCredentials state),
       asd_ExpectedUserHandle = (if bv_len (as_ExpectedUserHandle state) \<noteq> 0
         then encodeBytes (bv_bytes (as_ExpectedUserHandle state)) else []),
       asd_ExpiresAt = formatTime tx (as_ExpiresAt state)\<rparr> in
     marshalEnvelope tx ((emptyEnvelope kindAuthenticationState)\<lparr>envl_AuthenticationState := Some payload\<rparr>)))"

definition authenticationStateFromDTO :: "go_text \<Rightarrow> authenticationStateDTO \<Rightarrow> AuthenticationState result" where
  "authenticationStateFromDTO tx payload =
    and_then (decodeChallenge (asd_Challenge payload)) (\<lambda>challenge.
    and_then (decodeUserHandle ''expectedUserHandle'' (asd_ExpectedUserHandle payload) False) (\<lambda>expectedUserHandle.
    and_then (parseTime tx (asd_ExpiresAt payload)) (\<lambda>expiresAt.
    and_then (decodeExtensionValues (asd_RequestedExtensions payload)) (\<lambda>extensions.
    and_then (descriptorsFromDTO (asd_AllowCredentials payload)) (\<lambda>descriptors.
    Inr \<lparr>as_Challenge = challenge, as_RPID = asd_RPID payload,
      as_OriginPolicy = originPolicyFromDTO (asd_OriginPolicy payload),
      as_RequestedUserVerification = asd_RequestedUserVerification payload, as_RequestedExtensions = extensions,
      as_ExtensionBindings = extensionBindingsFromDTO (asd_ExtensionBindings payload),
      as_AllowCredentials = descriptors, as_ExpectedUserHandle = expectedUserHandle, as_ExpiresAt = expiresAt\<rparr>)))))"

definition UnmarshalAuthenticationState :: "go_std \<Rightarrow> go_text \<Rightarrow> bytes \<Rightarrow> AuthenticationState result" where
  "UnmarshalAuthenticationState std tx data =
    and_then (unmarshalEnvelope std tx data kindAuthenticationState) (\<lambda>e.
    and_then (authenticationStateFromDTO tx (the (envl_AuthenticationState e))) (\<lambda>state.
    check (storage_validateAuthenticationState std state) (Inr state)))"

section \<open>Credential record\<close>

definition MarshalCredentialRecord :: "go_text \<Rightarrow> CredentialRecord \<Rightarrow> bytes result" where
  "MarshalCredentialRecord tx r =
    check (storage_validateCredentialRecord r)
    (case js_Marshal tx (JString (cr_Type r)) of
       Inl _ \<Rightarrow> Inl (Notef ErrInvalidEnvelope ''credential type'')
     | Inr _ \<Rightarrow>
       let payload = \<lparr>crd_Type = Some (JString (cr_Type r)), crd_ID = encodeBytes (bv_bytes (cr_ID r)),
         crd_PublicKeyCOSE = encodeBytes (cpk_raw (cr_PublicKey r)),
         crd_UserHandle = encodeBytes (bv_bytes (cr_UserHandle r)), crd_RPID = cr_RPID r,
         crd_AAGUID = encodeBytes (cr_AAGUID r), crd_SignCount = cr_SignCount r,
         crd_Transports = transportsToStrings (cr_Transports r), crd_BackupEligible = cr_BackupEligible r,
         crd_BackupState = cr_BackupState r, crd_UVInitialized = cr_UVInitialized r,
         crd_AuthenticatorAttachment = cr_AuthenticatorAttachment r, crd_AttestationType = cr_AttestationType r\<rparr> in
       marshalEnvelope tx ((emptyEnvelope kindCredentialRecord)\<lparr>envl_CredentialRecord := Some payload\<rparr>))"

definition storedPublicKey :: "COSEKeyDecoder \<Rightarrow> bytes \<Rightarrow> CredentialPublicKey result" where
  "storedPublicKey decoder publicKeyBytes =
    (case call decoder publicKeyBytes of
       Inl _ \<Rightarrow> Inl (Notef ErrInvalidEnvelope ''invalid credential public key'')
     | Inr publicKey \<Rightarrow> if cpk_raw publicKey \<noteq> publicKeyBytes
         then Inl (Notef ErrInvalidEnvelope ''invalid credential public key'') else Inr publicKey)"

definition credentialRecordFromDTO :: "COSEKeyDecoder \<Rightarrow> credentialRecordDTO \<Rightarrow> CredentialRecord result" where
  "credentialRecordFromDTO decoder payload =
    and_then (credentialRecordType (crd_Type payload)) (\<lambda>credentialType.
    and_then (decodeBytes ''id'' (crd_ID payload) 1 MaxCredentialIDLength) (\<lambda>idBytes.
    and_then (wrap_res ErrInvalidEnvelope (NewCredentialID (Some idBytes))) (\<lambda>credentialID.
    and_then (decodeUserHandle ''userHandle'' (crd_UserHandle payload) True) (\<lambda>userHandle.
    and_then (decodeBytes ''publicKeyCose'' (crd_PublicKeyCOSE payload) 1 MaxStoredPublicKeyBytes) (\<lambda>publicKeyBytes.
    and_then (storedPublicKey decoder publicKeyBytes) (\<lambda>publicKey.
    and_then (decodeBytes ''aaguid'' (crd_AAGUID payload) (int AAGUIDLength) (int AAGUIDLength)) (\<lambda>aaguid.
    Inr \<lparr>cr_Type = credentialType, cr_ID = credentialID, cr_PublicKey = publicKey, cr_UserHandle = userHandle,
      cr_RPID = crd_RPID payload, cr_AAGUID = aaguid, cr_SignCount = crd_SignCount payload,
      cr_Transports = stringsToTransports (crd_Transports payload), cr_BackupEligible = crd_BackupEligible payload,
      cr_BackupState = crd_BackupState payload, cr_UVInitialized = crd_UVInitialized payload,
      cr_AuthenticatorAttachment = crd_AuthenticatorAttachment payload,
      cr_AttestationType = crd_AttestationType payload\<rparr>)))))))"

definition UnmarshalCredentialRecord :: "go_std \<Rightarrow> go_text \<Rightarrow> bytes \<Rightarrow> COSEKeyDecoder \<Rightarrow> CredentialRecord result" where
  "UnmarshalCredentialRecord std tx data decoder =
    (if IsNil decoder then Inl (Notef ErrInvalidEnvelope ''credential key decoder is required'') else
     and_then (unmarshalEnvelope std tx data kindCredentialRecord) (\<lambda>e.
     and_then (credentialRecordFromDTO decoder (the (envl_CredentialRecord e))) (\<lambda>r.
     check (storage_validateCredentialRecord r) (Inr r))))"

section \<open>Fields survive\<close>

lemma decodeBytes_Inr_iff:
  "decodeBytes name s lo hi = Inr raw \<longleftrightarrow>
    s = encodeBytes raw \<and> lo \<le> int (length raw) \<and> (0 < hi \<longrightarrow> int (length raw) \<le> hi)"
  by (auto simp: decodeBytes_def encodeBytes_def not_less split: option.splits if_splits)

context bounded_bytes
begin

lemma stored_decodes: "mk v = Inr b \<Longrightarrow> decodeBytes name (encodeBytes (bv_bytes b)) lo hi = Inr (bv_bytes b)"
  using bounds [of v b] by (auto simp: decodeBytes_Inr_iff bv_len_def)

end

lemma b64_encode_empty_iff: "b64_encode bs = [] \<longleftrightarrow> bs = []"
  using b64_encode_inj [of bs "[]"] by simp

lemma stored_id:
  assumes "constructed NewCredentialID i"
  shows "decodeBytes name (encodeBytes (bv_bytes i)) 1 MaxCredentialIDLength = Inr (bv_bytes i)"
    "NewCredentialID (Some (bv_bytes i)) = Inr i"
  using assms credential_id.stored_decodes by (auto simp: constructed_def)

lemma stored_challenge: "constructed NewChallenge c \<Longrightarrow> decodeChallenge (encodeBytes (bv_bytes c)) = Inr c"
  by (simp add: constructed_def decodeChallenge_def challenge.stored_decodes)

lemma stored_user_handle:
  "constructed NewUserHandle u \<Longrightarrow> decodeUserHandle name (encodeBytes (bv_bytes u)) required = Inr u"
  using user_handle.nonempty [of "Some (bv_bytes u)" u] user_handle.stored_decodes [of "Some (bv_bytes u)" u]
  by (simp add: constructed_def decodeUserHandle_def encodeBytes_def b64_encode_empty_iff)

lemmas stored_fields = stored_id stored_challenge stored_user_handle

lemma transports_roundtrip [simp]: "stringsToTransports (transportsToStrings ts) = ts"
  by (simp add: stringsToTransports_def transportsToStrings_def)

lemma originPolicy_roundtrip [simp]: "originPolicyFromDTO (originPolicyToDTO policy) = policy"
  by (simp add: originPolicyFromDTO_def originPolicyToDTO_def)

lemma bindings_roundtrip [simp]: "extensionBindingsFromDTO (extensionBindingsToDTO bindings) = bindings"
  by (induction bindings) (simp_all add: extensionBindingsFromDTO_def extensionBindingsToDTO_def)

lemma descriptors_roundtrip:
  "list_all (\<lambda>d. constructed NewCredentialID (cd_ID d) \<and> CredentialDescriptor_Validate d = None) ds \<Longrightarrow>
    descriptorsFromDTO (descriptorsToDTO ds) = Inr ds"
  unfolding descriptorsFromDTO_def descriptorsToDTO_def
  by (intro map_res_map) (auto simp: descriptorFromDTO_def list_all_iff stored_id result_inv Let_def)

section \<open>Envelopes survive\<close>

definition envelope_wf :: "envelope \<Rightarrow> bool" where
  "envelope_wf e \<longleftrightarrow> envl_Version e = EnvelopeVersion \<and>
    (envl_Kind e = kindRegistrationState \<and> envl_RegistrationState e \<noteq> None \<and> envl_AuthenticationState e = None \<and>
       envl_CredentialRecord e = None \<or>
     envl_Kind e = kindAuthenticationState \<and> envl_RegistrationState e = None \<and> envl_AuthenticationState e \<noteq> None \<and>
       envl_CredentialRecord e = None \<or>
     envl_Kind e = kindCredentialRecord \<and> envl_RegistrationState e = None \<and> envl_AuthenticationState e = None \<and>
       envl_CredentialRecord e \<noteq> None)"

lemma kinds_distinct:
  "kindRegistrationState \<noteq> kindAuthenticationState" "kindRegistrationState \<noteq> kindCredentialRecord"
  "kindAuthenticationState \<noteq> kindCredentialRecord"
  by (simp_all add: envelope_kinds)

lemma one_payload_iff:
  assumes "kind \<in> {kindRegistrationState, kindAuthenticationState, kindCredentialRecord}"
  shows "envl_Version e = EnvelopeVersion \<and> envl_Kind e = kind \<and>
    \<not> (length (filter id [envl_RegistrationState e \<noteq> None, envl_AuthenticationState e \<noteq> None, envl_CredentialRecord e \<noteq> None]) \<noteq> 1
       \<or> kind = kindRegistrationState \<and> envl_RegistrationState e = None
       \<or> kind = kindAuthenticationState \<and> envl_AuthenticationState e = None
       \<or> kind = kindCredentialRecord \<and> envl_CredentialRecord e = None) \<longleftrightarrow>
    envl_Kind e = kind \<and> envelope_wf e"
  using assms kinds_distinct
  by (cases "envl_RegistrationState e"; cases "envl_AuthenticationState e"; cases "envl_CredentialRecord e")
    (auto simp: envelope_wf_def)

lemma unmarshalEnvelope_Inr_iff:
  assumes "kind \<in> {kindRegistrationState, kindAuthenticationState, kindCredentialRecord}"
  shows "unmarshalEnvelope std tx data kind = Inr e \<longleftrightarrow>
    data \<noteq> [] \<and> int (length data) \<le> MaxEnvelopeBytes \<and>
    (\<exists>j. std_json std data = Some j \<and> envelope_of_json tx j = Inr e) \<and> envl_Kind e = kind \<and> envelope_wf e"
proof -
  have read: "(case std_json std data of None \<Rightarrow> Inl jsonError | Some j \<Rightarrow> envelope_of_json tx j) = Inr e' \<longleftrightarrow>
      (\<exists>j. std_json std data = Some j \<and> envelope_of_json tx j = Inr e')" for e'
    by (simp split: option.split)
  show ?thesis
    unfolding unmarshalEnvelope_def Let_def if_Inl_Inr_iff and_then_Inr_iff wrap_res_simps(3) read
      one_payload_iff [OF assms, of e, symmetric] length_0_conv
    by auto
qed

context json_text
begin

lemma envelope_survives:
  assumes "marshalEnvelope tx e = Inr data" "envelope_holds tx e" "envelope_wf e" "envl_Kind e = kind"
  shows "unmarshalEnvelope std tx data kind = Inr e"
proof -
  have "js_Marshal tx (envelope_json tx e) = Inr data" "int (length data) \<le> MaxEnvelopeBytes"
    using assms(1) by (auto simp: marshalEnvelope_def result_inv)
  moreover have "kind \<in> {kindRegistrationState, kindAuthenticationState, kindCredentialRecord}"
    using assms(3,4) by (auto simp: envelope_wf_def)
  ultimately show ?thesis
    using assms envelope_roundtrip json_reads text_nonempty by (simp add: unmarshalEnvelope_Inr_iff)
qed

lemma time_survives: "rfc3339_time t \<Longrightarrow> \<not> IsZero t \<Longrightarrow> parseTime tx (formatTime tx t) = Inr t"
  by (simp add: parseTime_def formatTime_def time_reads)

end

section \<open>Records survive\<close>

text \<open>
  Byte values of a record or state only come from their constructors, and an AAGUID is an array of sixteen bytes.
\<close>

definition record_typed :: "CredentialRecord \<Rightarrow> bool" where
  "record_typed r \<longleftrightarrow> constructed NewCredentialID (cr_ID r) \<and> constructed NewUserHandle (cr_UserHandle r) \<and>
    length (cr_AAGUID r) = AAGUIDLength"

lemma storage_validate_None [simp]:
  "storage_validateRegistrationState std s = None \<longleftrightarrow> RegistrationState_Validate std s = None"
  "storage_validateAuthenticationState std a = None \<longleftrightarrow> AuthenticationState_Validate std a = None"
  "storage_validateCredentialRecord r = None \<longleftrightarrow> CredentialRecord_Validate r = None"
  by (simp_all add: storage_validateRegistrationState_def storage_validateAuthenticationState_def
      storage_validateCredentialRecord_def)

context json_text
begin

lemma record_survives:
  assumes "MarshalCredentialRecord tx r = Inr data" "record_typed r"
    and "call decoder (cpk_raw (cr_PublicKey r)) = Inr (cr_PublicKey r)"
  shows "UnmarshalCredentialRecord std tx data decoder = Inr r"
proof -
  obtain e payload where payload: "payload = \<lparr>crd_Type = Some (JString (cr_Type r)), crd_ID = encodeBytes (bv_bytes (cr_ID r)),
         crd_PublicKeyCOSE = encodeBytes (cpk_raw (cr_PublicKey r)),
         crd_UserHandle = encodeBytes (bv_bytes (cr_UserHandle r)), crd_RPID = cr_RPID r,
         crd_AAGUID = encodeBytes (cr_AAGUID r), crd_SignCount = cr_SignCount r,
         crd_Transports = transportsToStrings (cr_Transports r), crd_BackupEligible = cr_BackupEligible r,
         crd_BackupState = cr_BackupState r, crd_UVInitialized = cr_UVInitialized r,
         crd_AuthenticatorAttachment = cr_AuthenticatorAttachment r, crd_AttestationType = cr_AttestationType r\<rparr>"
    and e: "e = (emptyEnvelope kindCredentialRecord)\<lparr>envl_CredentialRecord := Some payload\<rparr>"
    and valid: "CredentialRecord_Validate r = None" and data: "marshalEnvelope tx e = Inr data"
    using assms(1) by (auto simp: MarshalCredentialRecord_def result_inv Let_def split: sum.splits)
  have type: "cr_Type r \<noteq> []" and key: "PublicKey_Validate (cr_PublicKey r) = None"
    using valid by (auto simp: CredentialRecord_Validate_None_iff CredentialTypePublicKey_def)
  have read: "unmarshalEnvelope std tx data kindCredentialRecord = Inr e"
    using data by (rule envelope_survives) (use type in \<open>simp_all add: e payload emptyEnvelope_def envelope_holds_def envelope_wf_def
      EnvelopeVersion_def omitempty_raw_def MinInt64_def MaxInt64_def\<close>)
  have fields: "decodeBytes name (encodeBytes (cpk_raw (cr_PublicKey r))) 1 MaxStoredPublicKeyBytes = Inr (cpk_raw (cr_PublicKey r))"
    "decodeBytes name (encodeBytes (cr_AAGUID r)) (int AAGUIDLength) (int AAGUIDLength) = Inr (cr_AAGUID r)"
    "storedPublicKey decoder (cpk_raw (cr_PublicKey r)) = Inr (cr_PublicKey r)" for name
    using key assms(2,3) by (auto simp: decodeBytes_Inr_iff PublicKey_Validate_None_iff MaxStoredPublicKeyBytes_def
        record_typed_def storedPublicKey_def Suc_le_eq)
  have "credentialRecordFromDTO decoder payload = Inr r"
    using assms(2) type unfolding record_typed_def
    by (simp add: payload credentialRecordFromDTO_def credentialRecordType_def stored_fields fields)
  moreover have "\<not> IsNil decoder"
    using assms(3) by (cases decoder) (simp_all add: call_def)
  ultimately show ?thesis
    using read valid by (simp add: UnmarshalCredentialRecord_def e check_Inr_iff)
qed

end

section \<open>Extension inputs survive\<close>

text \<open>An input in the untyped form that storage gives back: a plain value that normalizes to the input.\<close>

definition plain_input :: "ExtensionInput \<Rightarrow> bool" where
  "plain_input i \<longleftrightarrow>
    (case InputValue i of Inl _ \<Rightarrow> False | Inr raw \<Rightarrow> plain raw \<and> NormalizeInput raw = Inr i)"

definition values_bytes :: "(string \<times> encodedValue) list \<Rightarrow> int" where
  "values_bytes values = sum_list (map (\<lambda>(name, v). int (length name) + text_bytes v) values)"

lemma values_bytes_simps [simp]:
  "values_bytes [] = 0" "values_bytes ((name, v) # values) = int (length name) + text_bytes v + values_bytes values"
  by (simp_all add: values_bytes_def)

lemma values_bytes_nonneg [simp]: "0 \<le> values_bytes vs"
  by (induction vs) auto

lemma encode_nodes_max:
  "encodeValueAt v d b = Inr (e, b') \<Longrightarrow> vb_nodes b' \<le> maxValueNodes"
  "encodeItems xs d b = Inr (items, b') \<Longrightarrow> vb_nodes b \<le> maxValueNodes \<Longrightarrow> vb_nodes b' \<le> maxValueNodes"
  "encodeEntries es d b = Inr (entries, b') \<Longrightarrow> vb_nodes b \<le> maxValueNodes \<Longrightarrow> vb_nodes b' \<le> maxValueNodes"
proof (induction v d b and xs d b and es d b arbitrary: e b' and items b' and entries b'
    rule: encodeValueAt_encodeItems_encodeEntries.induct)
  case (1 v d b)
  then show ?case
    unfolding encodeValueAt.simps [of v d b]
    by (fastforce simp: result_inv split: reflected.split_asm)
qed (fastforce simp: result_inv)+

lemma encodeExtensionList_ConsE:
  assumes "encodeExtensionList b ((name, i) # inputs) = Inr encoded" "plain_input i"
  obtains b1 raw e b2 rest where "identifier_Valid name"
    "valueBudget_consume b 1 (int (length name)) ErrUnsupportedExtensionValue = Inr b1" "plain raw" "NormalizeInput raw = Inr i"
    "encodeValueAt raw 0 b1 = Inr (e, b2)" "encodeExtensionList b2 inputs = Inr rest" "encoded = (name, e) # rest"
proof -
  obtain b1 raw e b2 rest where run: "identifier_Valid name"
      "valueBudget_consume b 1 (int (length name)) ErrUnsupportedExtensionValue = Inr b1" "InputValue i = Inr raw"
      "encodeValueAt (normalizeBuiltInValue raw) 0 b1 = Inr (e, b2)" "encodeExtensionList b2 inputs = Inr rest"
      "encoded = (name, e) # rest"
    using assms(1) by (auto simp: result_inv simp del: valueBudget_consume_Inr_iff)
  moreover have "plain raw" "NormalizeInput raw = Inr i"
    using assms(2) run(3) by (auto simp: plain_input_def)
  ultimately show thesis
    using that by simp
qed

lemma extension_list_survives:
  "list_all (\<lambda>(_, i). plain_input i) inputs \<Longrightarrow> encodeExtensionList b inputs = Inr encoded \<Longrightarrow> vb_nodes c \<le> vb_nodes b \<Longrightarrow>
    vb_bytes c + values_bytes encoded \<le> MaxEnvelopeBytes \<Longrightarrow> decodeExtensionList c encoded = Inr inputs"
proof (induction inputs arbitrary: b c encoded)
  case (Cons entry inputs)
  obtain name i where entry: "entry = (name, i)"
    by (cases entry)
  obtain b1 raw e b2 rest where run: "identifier_Valid name"
      "valueBudget_consume b 1 (int (length name)) ErrUnsupportedExtensionValue = Inr b1" "encodeExtensionList b2 inputs = Inr rest"
      "encoded = (name, e) # rest"
    and plain: "plain raw" "NormalizeInput raw = Inr i" and enc: "encodeValueAt raw 0 b1 = Inr (e, b2)"
    using Cons.prems(1,2) unfolding entry by (auto elim: encodeExtensionList_ConsE simp del: encodeExtensionList.simps)
  let ?c = "spent c 1 (int (length name))"
  have nodes: "vb_nodes b1 = vb_nodes b + 1" "vb_nodes b1 \<le> vb_nodes b2" "vb_nodes b2 \<le> maxValueNodes"
    using run(2) encode_nodes(1) [OF enc] encode_nodes_max(1) [OF enc] by (auto simp: valueBudget_consume_Inr_iff)
  have bytes: "vb_bytes c + (int (length name) + text_bytes e + values_bytes rest) \<le> MaxEnvelopeBytes"
    using Cons.prems(4) run(4) by simp
  have bounds: "vb_bytes c + int (length name) \<le> MaxEnvelopeBytes" "vb_bytes c + int (length name) + text_bytes e \<le> MaxEnvelopeBytes"
    using bytes text_bytes_nonneg [of e] values_bytes_nonneg [of rest] by linarith+
  have "valueBudget_consume c 1 (int (length name)) ErrInvalidEnvelope = Inr ?c"
    using nodes Cons.prems(3) bounds by (intro consume_affords) (simp_all add: affords_def)
  moreover have "decodeValueAt e 0 ?c = Inr (raw, spent ?c (vb_nodes b2 - vb_nodes b1) (text_bytes e))"
    using nodes Cons.prems(3) bounds by (intro encode_decode(1) [OF plain(1) enc]) (simp add: affords_def)
  moreover have "decodeExtensionList (spent ?c (vb_nodes b2 - vb_nodes b1) (text_bytes e)) rest = Inr inputs"
    using Cons.prems(1,3) bytes nodes by (intro Cons.IH [OF _ run(3)]) (simp_all add: entry)
  ultimately show ?case
    using run(1,4) plain(2) by (simp add: entry ctx_res_def)
qed simp

lemma encoded_length: "encodeExtensionList b inputs = Inr encoded \<Longrightarrow> length encoded = length inputs"
proof (induction inputs arbitrary: b encoded)
  case (Cons entry inputs)
  then show ?case
    by (cases entry) (fastforce simp: result_inv)
qed simp

lemma extension_values_survive:
  assumes "encodeExtensionValues inputs = Inr encoded" "list_all (\<lambda>(_, i). plain_input i) inputs"
    and "values_bytes encoded \<le> MaxEnvelopeBytes"
  shows "decodeExtensionValues encoded = Inr inputs"
  using assms encoded_length extension_list_survives [of inputs emptyBudget encoded emptyBudget]
  by (auto simp: encodeExtensionValues_def decodeExtensionValues_def emptyBudget_def split: if_splits)

text \<open>The bytes a decoder charges are spelled out in the text of the value.\<close>

lemma text_bytes_weight: "text_bytes e \<le> json_weight (encodedValue_json tx e)"
proof (induction tx e rule: encodedValue_json.induct)
  case (1 tx t bool string bytes integer natural float array object)
  let ?ms = "[(''type'', Some (JString t)), (''bool'', map_option JBool bool), (''string'', map_option JString string),
       (''bytes'', map_option JString bytes), (''int'', map_option json_int_of integer),
       (''uint'', map_option json_int_of natural), (''float'', map_option (json_float_of tx) float)]"
  let ?a = "(''array'', case array of None \<Rightarrow> None | Some xs \<Rightarrow> Some (JArray (map (encodedValue_json tx) xs)))"
  let ?o = "(''object'', case object of None \<Rightarrow> None
          | Some es \<Rightarrow> Some (JObject (map (\<lambda>(key, x). (key, encodedValue_json tx x)) es)))"
  have "encodedValueBytes (EncodedValue t bool string bytes integer natural float array object) \<le>
      member_weight (''string'', map_option JString string) + member_weight (''bytes'', map_option JString bytes)"
    by (simp add: encodedValueBytes_def member_weight_def split: option.split)
  also have "\<dots> \<le> sum_list (map member_weight ?ms)"
    using member_weight_nonneg [of "(''type'', Some (JString t))"] member_weight_nonneg [of "(''bool'', map_option JBool bool)"]
      member_weight_nonneg [of "(''int'', map_option json_int_of integer)"]
      member_weight_nonneg [of "(''uint'', map_option json_int_of natural)"]
      member_weight_nonneg [of "(''float'', map_option (json_float_of tx) float)"] by simp
  finally have direct: "encodedValueBytes (EncodedValue t bool string bytes integer natural float array object) \<le> \<dots>" .
  have items: "(case array of None \<Rightarrow> 0 | Some xs \<Rightarrow> sum_list (map text_bytes xs)) \<le> member_weight ?a"
    using "1.IH"(1) by (auto simp: member_weight_def o_def split: option.split intro!: add_increasing sum_list_mono)
  have entries: "(case object of None \<Rightarrow> 0 | Some es \<Rightarrow> sum_list (map (\<lambda>(key, x). int (length key) + text_bytes x) es)) \<le>
      member_weight ?o"
  proof (cases object)
    case (Some es)
    have "sum_list (map (\<lambda>(key, x). int (length key) + text_bytes x) es) \<le>
        sum_list (map (\<lambda>(key, x). int (length key) + json_weight (encodedValue_json tx x)) es)"
      by (rule sum_list_mono) (use "1.IH"(2) [OF Some] in auto)
    also have "\<dots> = sum_list (map (\<lambda>(name, x). int (length name) + json_weight x) (map (\<lambda>(key, x). (key, encodedValue_json tx x)) es))"
      by (simp add: o_def case_prod_unfold)
    finally show ?thesis
      using Some by (simp add: member_weight_def)
  qed (simp add: member_weight_def)
  show ?case
    using direct items entries by (simp add: json_weight_object)
qed

lemma values_bytes_weight:
  "json_extensions_of tx values = Some j \<Longrightarrow> values_bytes values \<le> json_weight j"
  "values_bytes values \<le> (case json_extensions_of tx values of None \<Rightarrow> 0 | Some j \<Rightarrow> json_weight j)"
proof -
  have "values_bytes vs \<le> sum_list (map (\<lambda>(name, x). int (length name) + json_weight x)
      (map (\<lambda>(name, v). (name, encodedValue_json tx v)) vs))" for vs
    by (induction vs) (auto simp: text_bytes_weight intro!: add_mono)
  from this [of "values"]
  show "json_extensions_of tx values = Some j \<Longrightarrow> values_bytes values \<le> json_weight j"
    and "values_bytes values \<le> (case json_extensions_of tx values of None \<Rightarrow> 0 | Some j \<Rightarrow> json_weight j)"
    by (auto simp: json_extensions_of_def split: if_splits)
qed

lemma storable_literals [simp]:
  "storable tx (ofArray xs) \<longleftrightarrow> list_all (storable tx) xs"
  "storable tx (ofObject es) \<longleftrightarrow> list_all (\<lambda>(key, x). storable tx x) es"
  by (simp_all add: encoded_literals)

context json_text
begin

lemma basic_storable: "plain v \<Longrightarrow> reflected_value v = Basic (Inr e) \<Longrightarrow> storable tx e"
  by (cases v)
    (auto simp: reflected_value_def encoded_literals encodeFloat_def signed_kind_def stringKeyed_def MinInt64_def MaxInt64_def
      MaxUint64_def float_reads split: option.split_asm gofloat.split_asm)

lemma encoded_storable:
  "plain v \<Longrightarrow> encodeValueAt v d b = Inr (e, b') \<Longrightarrow> storable tx e"
  "list_all plain xs \<Longrightarrow> encodeItems xs d b = Inr (items, b') \<Longrightarrow> list_all (storable tx) items"
  "list_all (\<lambda>(key, v). VString (keyString key) = key \<and> plain v) es \<Longrightarrow> encodeEntries es d b = Inr (entries, b') \<Longrightarrow>
    list_all (\<lambda>(key, x). storable tx x) entries"
proof (induction v d b and xs d b and es d b arbitrary: e b' and items b' and entries b'
    rule: encodeValueAt_encodeItems_encodeEntries.induct)
  case (1 v d b)
  obtain b1 where depth: "\<not> d > maxValueDepth"
    and consumed: "valueBudget_consume b 1 (directValueBytes v) ErrUnsupportedExtensionValue = Inr b1"
    and run: "(case reflected_value v of
       Basic encoded \<Rightarrow> and_then encoded (\<lambda>e. Inr (e, b1))
     | Elements items \<Rightarrow> and_then (encodeItems items (d + 1) b1) (\<lambda>(array, b'). Inr (ofArray array, b'))
     | Members entries \<Rightarrow> and_then (encodeEntries entries (d + 1) b1) (\<lambda>(object, b'). Inr (ofObject object, b'))) = Inr (e, b')"
    using "1.prems"(2) unfolding encodeValueAt.simps [of v d b] if_Inl_Inr_iff and_then_Inr_iff by blast
  show ?case
  proof (cases "reflected_value v")
    case (Basic r)
    then show ?thesis
      using run "1.prems"(1) basic_storable by (auto simp: result_inv)
  next
    case (Elements xs)
    then have "list_all plain xs"
      using "1.prems"(1) by (cases v; auto simp: reflected_value_def split: option.splits if_splits)+
    then show ?thesis
      using run Elements "1.IH"(1) [OF depth Elements] by (auto simp: result_inv)
  next
    case (Members es)
    then have "list_all (\<lambda>(key, v). VString (keyString key) = key \<and> plain v) es"
      using "1.prems"(1) by (cases v; auto simp: reflected_value_def split: option.splits if_splits)+
    then show ?thesis
      using run Members "1.IH"(2) [OF depth Members] by (auto simp: result_inv)
  qed
next
  case (3 x xs d b)
  then show ?case
    by (fastforce simp: result_inv)
next
  case (5 key x es d b)
  then show ?case
    by (fastforce simp: result_inv)
qed (simp_all)

lemma extensions_storable:
  "list_all (\<lambda>(_, i). plain_input i) inputs \<Longrightarrow> encodeExtensionList b inputs = Inr encoded \<Longrightarrow> storable_all tx encoded"
proof (induction inputs arbitrary: b encoded)
  case (Cons entry inputs)
  obtain name i where entry: "entry = (name, i)"
    by (cases entry)
  obtain b1 raw e b2 rest where "plain raw" "encodeValueAt raw 0 b1 = Inr (e, b2)" "encodeExtensionList b2 inputs = Inr rest"
      "encoded = (name, e) # rest"
    using Cons.prems unfolding entry by (auto elim: encodeExtensionList_ConsE simp del: encodeExtensionList.simps)
  then show ?case
    using Cons.IH Cons.prems(1) encoded_storable(1) by (auto simp: storable_all_def)
qed (simp add: storable_all_def)

end

section \<open>Ceremony states survive\<close>

definition registration_typed :: "RegistrationState \<Rightarrow> bool" where
  "registration_typed s \<longleftrightarrow> constructed NewChallenge (rs_Challenge s) \<and> constructed NewUserHandle (rs_UserHandle s) \<and>
    int64s (rs_AllowedAlgorithms s) \<and> rfc3339_time (rs_ExpiresAt s)"

definition authentication_typed :: "AuthenticationState \<Rightarrow> bool" where
  "authentication_typed s \<longleftrightarrow> constructed NewChallenge (as_Challenge s) \<and>
    (as_ExpectedUserHandle s = zero_byteValue \<or> constructed NewUserHandle (as_ExpectedUserHandle s)) \<and>
    list_all (\<lambda>d. constructed NewCredentialID (cd_ID d)) (as_AllowCredentials s) \<and> rfc3339_time (as_ExpiresAt s)"

lemma extensions_within_envelope:
  "values_bytes (rsd_RequestedExtensions d) \<le> json_weight (registrationStateDTO_json tx d)"
  "values_bytes (asd_RequestedExtensions a) \<le> json_weight (authenticationStateDTO_json tx a)"
proof -
  show "values_bytes (rsd_RequestedExtensions d) \<le> json_weight (registrationStateDTO_json tx d)"
  proof (cases "json_extensions_of tx (rsd_RequestedExtensions d)")
    case (Some j)
    then have "json_weight j \<le> json_weight (registrationStateDTO_json tx d)"
      unfolding registrationStateDTO_json_def by (intro json_weight_member [of "''requestedExtensions''"]) simp
    then show ?thesis
      using values_bytes_weight(1) [OF Some] by simp
  qed (use values_bytes_weight(2) [of "rsd_RequestedExtensions d" tx] json_weight_positive [of "registrationStateDTO_json tx d"] in simp)
  show "values_bytes (asd_RequestedExtensions a) \<le> json_weight (authenticationStateDTO_json tx a)"
  proof (cases "json_extensions_of tx (asd_RequestedExtensions a)")
    case (Some j)
    then have "json_weight j \<le> json_weight (authenticationStateDTO_json tx a)"
      unfolding authenticationStateDTO_json_def by (intro json_weight_member [of "''requestedExtensions''"]) simp
    then show ?thesis
      using values_bytes_weight(1) [OF Some] by simp
  qed (use values_bytes_weight(2) [of "asd_RequestedExtensions a" tx] json_weight_positive [of "authenticationStateDTO_json tx a"] in simp)
qed

lemma payload_within_envelope:
  "envl_RegistrationState e = Some d \<Longrightarrow> json_weight (registrationStateDTO_json tx d) \<le> json_weight (envelope_json tx e)"
  "envl_AuthenticationState e = Some a \<Longrightarrow> json_weight (authenticationStateDTO_json tx a) \<le> json_weight (envelope_json tx e)"
  unfolding envelope_json_def
  by (intro json_weight_member [of "''registrationState''"], simp)
    (intro json_weight_member [of "''authenticationState''"], simp)

lemma encodeExtensionValues_list:
  "encodeExtensionValues inputs = Inr encoded \<Longrightarrow> encodeExtensionList emptyBudget inputs = Inr encoded"
  by (simp add: encodeExtensionValues_def split: if_splits)

context json_text
begin

lemma extensions_survive:
  assumes "marshalEnvelope tx e = Inr data" "encodeExtensionValues inputs = Inr encoded"
    and "list_all (\<lambda>(_, i). plain_input i) inputs" "values_bytes encoded \<le> json_weight (envelope_json tx e)"
  shows "decodeExtensionValues encoded = Inr inputs"
proof -
  have "json_weight (envelope_json tx e) \<le> MaxEnvelopeBytes"
    using assms(1) json_length by (fastforce simp: marshalEnvelope_def result_inv)
  then show ?thesis
    using extension_values_survive assms(2-4) by simp
qed

lemma registration_state_survives:
  assumes "MarshalRegistrationState std tx state = Inr data" "registration_typed state"
    and "list_all (\<lambda>(_, i). plain_input i) (rs_RequestedExtensions state)"
  shows "UnmarshalRegistrationState std tx data = Inr state"
proof -
  obtain extensions payload e where valid: "RegistrationState_Validate std state = None"
    and extensions: "encodeExtensionValues (rs_RequestedExtensions state) = Inr extensions"
    and payload: "payload = \<lparr>rsd_Challenge = encodeBytes (bv_bytes (rs_Challenge state)), rsd_RPID = rs_RPID state,
       rsd_OriginPolicy = originPolicyToDTO (rs_OriginPolicy state),
       rsd_ConditionalMediation = rs_ConditionalMediation state,
       rsd_UserHandle = encodeBytes (bv_bytes (rs_UserHandle state)),
       rsd_RequestedUserVerification = rs_RequestedUserVerification state,
       rsd_RequestedExtensions = extensions,
       rsd_ExtensionBindings = extensionBindingsToDTO (rs_ExtensionBindings state),
       rsd_AllowedAlgorithms = rs_AllowedAlgorithms state, rsd_Attestation = rs_Attestation state,
       rsd_ExpiresAt = formatTime tx (rs_ExpiresAt state)\<rparr>"
    and e: "e = (emptyEnvelope kindRegistrationState)\<lparr>envl_RegistrationState := Some payload\<rparr>"
    and data: "marshalEnvelope tx e = Inr data"
    using assms(1) by (auto simp: MarshalRegistrationState_def result_inv Let_def)
  have typed: "constructed NewChallenge (rs_Challenge state)" "constructed NewUserHandle (rs_UserHandle state)"
      "int64s (rs_AllowedAlgorithms state)" "rfc3339_time (rs_ExpiresAt state)"
    using assms(2) by (simp_all add: registration_typed_def)
  have "storable_all tx extensions"
    using extensions_storable assms(3) encodeExtensionValues_list extensions by blast
  then have read: "unmarshalEnvelope std tx data kindRegistrationState = Inr e"
    using data typed(3) by (intro envelope_survives) (simp_all add: e payload emptyEnvelope_def envelope_holds_def envelope_wf_def
      EnvelopeVersion_def MinInt64_def MaxInt64_def)
  have "values_bytes extensions \<le> json_weight (envelope_json tx e)"
    using extensions_within_envelope(1) [of payload tx] payload_within_envelope(1) [of e payload tx] by (simp add: e payload)
  then have decoded: "decodeExtensionValues extensions = Inr (rs_RequestedExtensions state)"
    using extensions_survive data extensions assms(3) by blast
  have "\<not> IsZero (rs_ExpiresAt state)"
    using valid by (auto simp: RegistrationState_Validate_def or_err_None_iff if_Some_None_iff)
  then have "registrationStateFromDTO tx payload = Inr state"
    using typed by (simp add: payload registrationStateFromDTO_def stored_fields time_survives decoded)
  then show ?thesis
    using read valid by (simp add: UnmarshalRegistrationState_def e check_Inr_iff)
qed

lemma authentication_state_survives:
  assumes "MarshalAuthenticationState std tx state = Inr data" "authentication_typed state"
    and "list_all (\<lambda>(_, i). plain_input i) (as_RequestedExtensions state)"
  shows "UnmarshalAuthenticationState std tx data = Inr state"
proof -
  obtain extensions payload e where valid: "AuthenticationState_Validate std state = None"
    and extensions: "encodeExtensionValues (as_RequestedExtensions state) = Inr extensions"
    and payload: "payload = \<lparr>asd_Challenge = encodeBytes (bv_bytes (as_Challenge state)), asd_RPID = as_RPID state,
       asd_OriginPolicy = originPolicyToDTO (as_OriginPolicy state),
       asd_RequestedUserVerification = as_RequestedUserVerification state,
       asd_RequestedExtensions = extensions,
       asd_ExtensionBindings = extensionBindingsToDTO (as_ExtensionBindings state),
       asd_AllowCredentials = descriptorsToDTO (as_AllowCredentials state),
       asd_ExpectedUserHandle = (if bv_len (as_ExpectedUserHandle state) \<noteq> 0
         then encodeBytes (bv_bytes (as_ExpectedUserHandle state)) else []),
       asd_ExpiresAt = formatTime tx (as_ExpiresAt state)\<rparr>"
    and e: "e = (emptyEnvelope kindAuthenticationState)\<lparr>envl_AuthenticationState := Some payload\<rparr>"
    and data: "marshalEnvelope tx e = Inr data"
    using assms(1) by (simp add: MarshalAuthenticationState_def result_inv Let_def) blast
  have typed: "constructed NewChallenge (as_Challenge state)" "rfc3339_time (as_ExpiresAt state)"
    using assms(2) by (simp_all add: authentication_typed_def)
  have "storable_all tx extensions"
    using extensions_storable assms(3) encodeExtensionValues_list extensions by blast
  then have read: "unmarshalEnvelope std tx data kindAuthenticationState = Inr e"
    using data by (intro envelope_survives) (simp_all add: e payload emptyEnvelope_def envelope_holds_def envelope_wf_def
      EnvelopeVersion_def MinInt64_def MaxInt64_def)
  have "values_bytes extensions \<le> json_weight (envelope_json tx e)"
    using extensions_within_envelope(2) [of payload tx] payload_within_envelope(2) [of e payload tx] by (simp add: e payload)
  then have decoded: "decodeExtensionValues extensions = Inr (as_RequestedExtensions state)"
    using extensions_survive data extensions assms(3) by blast
  have "\<not> IsZero (as_ExpiresAt state)" "\<forall>d\<in>set (as_AllowCredentials state). CredentialDescriptor_Validate d = None"
    using valid by (auto simp: AuthenticationState_Validate_def or_err_None_iff if_Some_None_iff first_err_None_iff)
  moreover have "descriptorsFromDTO (descriptorsToDTO (as_AllowCredentials state)) = Inr (as_AllowCredentials state)"
    using assms(2) calculation(2) by (intro descriptors_roundtrip) (simp add: authentication_typed_def list_all_iff)
  moreover have "decodeUserHandle name (asd_ExpectedUserHandle payload) False = Inr (as_ExpectedUserHandle state)" for name
  proof (cases "as_ExpectedUserHandle state = zero_byteValue")
    case True
    then show ?thesis
      by (simp add: payload zero_byteValue_def bv_bytes_def decodeUserHandle_def)
  next
    case False
    then have u: "constructed NewUserHandle (as_ExpectedUserHandle state)"
      using assms(2) by (simp add: authentication_typed_def)
    then have "bv_bytes (as_ExpectedUserHandle state) \<noteq> []"
      unfolding constructed_def by (rule user_handle.nonempty)
    then show ?thesis
      using stored_user_handle [OF u] by (simp add: payload)
  qed
  ultimately have "authenticationStateFromDTO tx payload = Inr state"
    using typed by (simp add: authenticationStateFromDTO_def stored_fields time_survives decoded payload)
  then show ?thesis
    using read valid by (simp add: UnmarshalAuthenticationState_def e check_Inr_iff)
qed

end

section \<open>What unmarshalling establishes\<close>

lemma decodeUserHandle_constructed:
  "decodeUserHandle name s required = Inr u \<Longrightarrow> \<not> required \<and> u = zero_byteValue \<or> constructed NewUserHandle u"
  by (auto simp: decodeUserHandle_def result_inv constructed_of split: if_splits)

lemma decodeChallenge_constructed: "decodeChallenge s = Inr c \<Longrightarrow> constructed NewChallenge c"
  by (auto simp: decodeChallenge_def result_inv constructed_of)

lemma storedPublicKey_Inr: "storedPublicKey decoder raw = Inr k \<longleftrightarrow> call decoder raw = Inr k \<and> cpk_raw k = raw"
  by (auto simp: storedPublicKey_def split: sum.splits)

lemma credentialRecordFromDTO_typed:
  assumes "credentialRecordFromDTO decoder payload = Inr r"
  shows "record_typed r" "call decoder (cpk_raw (cr_PublicKey r)) = Inr (cr_PublicKey r)"
  using assms
  by (auto simp: credentialRecordFromDTO_def result_inv record_typed_def constructed_of decodeBytes_Inr_iff storedPublicKey_Inr
      AAGUIDLength_def dest: decodeUserHandle_constructed)

lemma UnmarshalCredentialRecord_Inr:
  assumes "UnmarshalCredentialRecord std tx data decoder = Inr r"
  shows "CredentialRecord_Validate r = None" "record_typed r" "call decoder (cpk_raw (cr_PublicKey r)) = Inr (cr_PublicKey r)"
  using assms credentialRecordFromDTO_typed
  by (auto simp: UnmarshalCredentialRecord_def result_inv)

lemma UnmarshalRegistrationState_Inr:
  assumes "UnmarshalRegistrationState std tx data = Inr s"
  shows "RegistrationState_Validate std s = None" "constructed NewChallenge (rs_Challenge s)"
    "constructed NewUserHandle (rs_UserHandle s)"
  using assms
  by (auto simp: UnmarshalRegistrationState_def registrationStateFromDTO_def result_inv
      dest: decodeUserHandle_constructed decodeChallenge_constructed)

lemma UnmarshalAuthenticationState_Inr:
  assumes "UnmarshalAuthenticationState std tx data = Inr s"
  shows "AuthenticationState_Validate std s = None" "constructed NewChallenge (as_Challenge s)"
    "as_ExpectedUserHandle s = zero_byteValue \<or> constructed NewUserHandle (as_ExpectedUserHandle s)"
  using assms
  by (auto simp: UnmarshalAuthenticationState_def authenticationStateFromDTO_def result_inv
      dest: decodeUserHandle_constructed decodeChallenge_constructed)

end

