(* ===== verification/Authentication_Spec.thy ===== *)
theory Authentication_Spec
  imports Authentication
begin

text \<open>
  The checks of an assertion as one relation between the options and the result of
  \<^verbatim>\<open>FinishAuthentication\<close>, without the order in which the code performs them, and the state that \<^verbatim>\<open>StartAuthentication\<close> hands to it.
\<close>

section \<open>The checks of the ceremony\<close>

definition assertionExtensionInputs ::
  "AuthenticationFinishOptions \<Rightarrow> ExtensionMap \<Rightarrow> authenticationExtensionInputs" where
  "assertionExtensionInputs options exts =
    \<lparr>aei_state = afo_State options, aei_selectedCredentialID = cr_ID (afo_Credential options),
     aei_policy = afo_ExtensionPolicy options, aei_registry = afo_ExtensionRegistry options,
     aei_clientExtensionResults = ar_ClientExtensionResults (afo_Response options),
     aei_authenticatorExtensions = exts, aei_clientDataJSON = ar_ClientDataJSON (afo_Response options)\<rparr>"

definition authenticationReady :: "go_std \<Rightarrow> time \<Rightarrow> AuthenticationFinishOptions \<Rightarrow> bool" where
  "authenticationReady std now options \<longleftrightarrow>
    validateAuthenticationDependencies options = None \<and> now < as_ExpiresAt (afo_State options) \<and>
    AuthenticationState_Validate std (afo_State options) = None \<and>
    validateFinishExtensionBindings (as_RequestedExtensions (afo_State options))
      (as_ExtensionBindings (afo_State options)) (afo_ExtensionRegistry options) = None \<and>
    validateAuthenticationResponseShape (afo_Response options) = None \<and>
    validateClientExtensionResults (ar_ClientExtensionResults (afo_Response options)) = None"

text \<open>The stored credential is the one that answered, it may answer, and it belongs to the user.\<close>

definition assertionBound :: "AuthenticationFinishOptions \<Rightarrow> bool" where
  "assertionBound options \<longleftrightarrow>
    verifyAuthenticationCredentialBinding (afo_State options) (afo_Response options) (afo_Credential options) = None \<and>
    verifyAuthenticationUserBinding (afo_State options) (afo_Response options) (afo_Credential options) = None"

definition assertionEvidence ::
  "go_std \<Rightarrow> ctx \<Rightarrow> AuthenticationFinishOptions \<Rightarrow> CollectedClientData \<Rightarrow> ParsedAuthenticatorData \<Rightarrow> ExtensionMap \<Rightarrow> bool" where
  "assertionEvidence std ctx options d parsed exts \<longleftrightarrow>
    (let state = afo_State options; response = afo_Response options; credential = afo_Credential options;
         hash = std_Sum256 std (bv_bytes (ar_ClientDataJSON response)) in
     clientDataAccepted std (ar_ClientDataJSON response) ClientDataTypeGet (as_Challenge state)
       (as_OriginPolicy state) d \<and>
     ParseAuthenticatorData (ar_AuthenticatorData response) = Inr parsed \<and>
     expectedAuthenticationRPIDHash std state response (afo_ExtensionPolicy options) = Some (pad_RPIDHash parsed) \<and>
     authenticationFlagsOK state credential (pad_Flags parsed) \<and>
     decodeAuthenticationExtensions (afo_ExtensionMapDecoder options) parsed = Inr exts \<and>
     (\<forall>f. afo_AlgorithmPolicy options = Impl f \<longrightarrow> f (cpk_Algorithm (cr_PublicKey credential))) \<and>
     (\<exists>verify. afo_SignatureVerifier options = Impl verify \<and>
       verify ctx (signatureInput credential response hash) = None) \<and>
     (cpol_RejectCloneRisk (afo_CounterPolicy options) \<longrightarrow>
       \<not> ctr_CloneRisk (compareCounters (cr_SignCount credential) (pad_SignCount parsed))))"

definition authenticationSpec ::
  "go_std \<Rightarrow> time \<Rightarrow> ctx \<Rightarrow> AuthenticationFinishOptions \<Rightarrow> AuthenticationResult \<Rightarrow> bool" where
  "authenticationSpec std now ctx options res \<longleftrightarrow>
    authenticationReady std now options \<and> assertionBound options \<and>
    (\<exists>d parsed exts extensionResults.
      assertionEvidence std ctx options d parsed exts \<and>
      verifyAuthenticationExtensions ctx (assertionExtensionInputs options exts) = Inr extensionResults \<and>
      res = authenticationResult options parsed
        (compareCounters (cr_SignCount (afo_Credential options)) (pad_SignCount parsed)) extensionResults)"

lemma algorithm_refused_iff:
  "(case policy of Impl f \<Rightarrow> \<not> f a | _ \<Rightarrow> False) \<longleftrightarrow> \<not> (\<forall>f. policy = Impl f \<longrightarrow> f a)"
  by (cases policy) auto

lemma FinishAuthentication_refines:
  "FinishAuthentication std env ctx options = Inr res \<longleftrightarrow>
    authenticationSpec std (options_now env (afo_Now options)) (normalizeContext ctx) options res"
proof -
  let ?hash = "std_Sum256 std (bv_bytes (ar_ClientDataJSON (afo_Response options)))"
  have hash: "(\<exists>h. ((\<exists>d. A d) \<and> h = ?hash) \<and> P h) \<longleftrightarrow> (\<exists>d. A d) \<and> P ?hash" for A :: "CollectedClientData \<Rightarrow> bool" and P
    by blast
  show ?thesis
    unfolding FinishAuthentication_def authenticationSpec_def authenticationReady_def assertionBound_def
      assertionEvidence_def assertionExtensionInputs_def Let_def
    by (simp only: check_Inr_iff and_then_Inr_iff if_Inl_Inr_iff wrap_err_simps validateAuthenticationState_None_iff
        verifyClientData_Inr_iff hash verifyAuthenticationAuthenticatorData_Inr_iff algorithm_refused_iff
        verifyAuthenticationSignature_None_iff de_Morgan_conj not_not sum.inject)
      (rule iffI; elim exE conjE; intro conjI exI; (assumption | rule sym, assumption | blast)?)
qed

section \<open>The state a successful start returns\<close>

lemma StartAuthentication_InrE:
  assumes "StartAuthentication std env ctx options = Inr out"
  obtains challenge prepared ms where
    "ceremonyChallenge env (aso_Challenge options) (aso_ChallengeGenerator options) (normalizeContext ctx) = Inr challenge"
    "as_Challenge (asr_State out) = challenge" "ro_Challenge (asr_Options out) = challenge"
    "prepareExtensionInputs OperationAuthentication (aso_Extensions options) (aso_ExtensionRegistry options)
      (aso_ExtensionInputPolicy options) (Some (prfTransform (aso_AllowCredentials options)))
      = Inr (prepared, as_ExtensionBindings (asr_State out))"
    "validateAuthenticationExtensionContext prepared (aso_ExtensionRegistry options) (aso_AllowCredentials options) = None"
    "cloneExtensionInputs prepared = Inr (as_RequestedExtensions (asr_State out))"
    "cloneExtensionInputs prepared = Inr (ro_Extensions (asr_Options out))"
    "timeoutState (aso_Timeout options) (aso_StateTTL options) (options_now env (aso_Now options))
      = Inr (ms, as_ExpiresAt (asr_State out))"
    "as_RPID (asr_State out) = aso_RPID options" "ro_RPID (asr_Options out) = aso_RPID options"
    "as_OriginPolicy (asr_State out) = aso_OriginPolicy options"
    "as_RequestedUserVerification (asr_State out) =
      (if aso_UserVerification options = [] then UserVerificationPreferred else aso_UserVerification options)"
    "ro_UserVerification (asr_Options out) = as_RequestedUserVerification (asr_State out)"
    "as_AllowCredentials (asr_State out) = aso_AllowCredentials options"
    "ro_AllowCredentials (asr_Options out) = aso_AllowCredentials options"
    "as_ExpectedUserHandle (asr_State out) = aso_ExpectedUserHandle options"
    "ro_TimeoutMilliseconds (asr_Options out) = ms"
    "UserVerification_Known (as_RequestedUserVerification (asr_State out))" "aso_RPID options \<noteq> []"
    "\<forall>descriptor\<in>set (aso_AllowCredentials options). CredentialDescriptor_Validate descriptor = None"
    "validateOriginPolicy std (aso_OriginPolicy options) = None"
    "validateRPIDOriginPolicy std (aso_RPID options) (aso_OriginPolicy options) = None"
    "RequestOptions_Validate (asr_Options out) = None"
  using assms
  unfolding StartAuthentication_def Let_def
  by (simp only: check_Inr_iff and_then_Inr_iff wrap_res_simps wrap_err_simps if_Inl_Inr_iff clone_simps
      first_err_None_iff validateUserVerification_None_iff case_prod_unfold prod.exhaust_sel)
    (elim exE conjE, auto)

end
