(* ===== verification/Credential_Update.thy ===== *)
theory Credential_Update
  imports Authentication_Spec
begin

text \<open>
  \<^verbatim>\<open>src/credential_update.go\<close>: applying the update of a verified authentication to the stored
  record, with a comparison of the previous values (a compare-and-swap under the lock of
  the caller's store).
\<close>

definition ApplyTo :: "CredentialUpdate \<Rightarrow> CredentialRecord \<Rightarrow> CredentialRecord result" where
  "ApplyTo update stored =
    check (CredentialRecord_Validate stored)
    (if \<not> bv_Equal (cr_ID stored) (cu_ID update) \<or> cr_SignCount stored \<noteq> cu_PreviousSignCount update
       \<or> cr_BackupState stored \<noteq> cu_PreviousBackupState update
       \<or> cr_UVInitialized stored \<noteq> cu_PreviousUVInitialized update
       \<or> cr_AuthenticatorAttachment stored \<noteq> cu_PreviousAuthenticatorAttachment update
     then Inl (Sentinel ErrCredentialUpdateConflict)
     else
     let next = CredentialRecord_Clone stored;
         next = (if cu_SignCountChanged update then next\<lparr>cr_SignCount := cu_SignCount update\<rparr> else next);
         next = (if cu_BackupStateChanged update then next\<lparr>cr_BackupState := cu_BackupState update\<rparr> else next);
         next = (if cu_UVInitializedChanged update then next\<lparr>cr_UVInitialized := cu_UVInitialized update\<rparr> else next);
         next = (if cu_AuthenticatorAttachmentChanged update
           then next\<lparr>cr_AuthenticatorAttachment := cu_AuthenticatorAttachment update\<rparr> else next) in
     check (wrap_err ErrInvalidCredentialUpdate (CredentialRecord_Validate next)) (Inr next))"

text \<open>The record an update writes, and the condition of the comparison.\<close>

definition updatedRecord :: "CredentialUpdate \<Rightarrow> CredentialRecord \<Rightarrow> CredentialRecord" where
  "updatedRecord update stored = stored
    \<lparr>cr_SignCount := (if cu_SignCountChanged update then cu_SignCount update else cr_SignCount stored),
     cr_BackupState := (if cu_BackupStateChanged update then cu_BackupState update else cr_BackupState stored),
     cr_UVInitialized := (if cu_UVInitializedChanged update then cu_UVInitialized update else cr_UVInitialized stored),
     cr_AuthenticatorAttachment := (if cu_AuthenticatorAttachmentChanged update
       then cu_AuthenticatorAttachment update else cr_AuthenticatorAttachment stored)\<rparr>"

definition matchesPrevious :: "CredentialUpdate \<Rightarrow> CredentialRecord \<Rightarrow> bool" where
  "matchesPrevious update stored \<longleftrightarrow>
    bv_bytes (cr_ID stored) = bv_bytes (cu_ID update) \<and> cr_SignCount stored = cu_PreviousSignCount update \<and>
    cr_BackupState stored = cu_PreviousBackupState update \<and>
    cr_UVInitialized stored = cu_PreviousUVInitialized update \<and>
    cr_AuthenticatorAttachment stored = cu_PreviousAuthenticatorAttachment update"

lemma ApplyTo_unfold:
  "ApplyTo update stored =
    check (CredentialRecord_Validate stored)
    (if \<not> matchesPrevious update stored then Inl (Sentinel ErrCredentialUpdateConflict)
     else check (wrap_err ErrInvalidCredentialUpdate (CredentialRecord_Validate (updatedRecord update stored)))
       (Inr (updatedRecord update stored)))"
proof -
  have fields: "(if d then (if c then (if b then (if a then r\<lparr>cr_SignCount := n\<rparr> else r)\<lparr>cr_BackupState := s\<rparr>
          else (if a then r\<lparr>cr_SignCount := n\<rparr> else r))\<lparr>cr_UVInitialized := u\<rparr>
        else (if b then (if a then r\<lparr>cr_SignCount := n\<rparr> else r)\<lparr>cr_BackupState := s\<rparr>
          else (if a then r\<lparr>cr_SignCount := n\<rparr> else r)))\<lparr>cr_AuthenticatorAttachment := t\<rparr>
      else (if c then (if b then (if a then r\<lparr>cr_SignCount := n\<rparr> else r)\<lparr>cr_BackupState := s\<rparr>
          else (if a then r\<lparr>cr_SignCount := n\<rparr> else r))\<lparr>cr_UVInitialized := u\<rparr>
        else (if b then (if a then r\<lparr>cr_SignCount := n\<rparr> else r)\<lparr>cr_BackupState := s\<rparr>
          else (if a then r\<lparr>cr_SignCount := n\<rparr> else r))))
      = r\<lparr>cr_SignCount := (if a then n else cr_SignCount r), cr_BackupState := (if b then s else cr_BackupState r),
          cr_UVInitialized := (if c then u else cr_UVInitialized r),
          cr_AuthenticatorAttachment := (if d then t else cr_AuthenticatorAttachment r)\<rparr>"
    for a b c d n s u t and r :: CredentialRecord
    by simp
  show ?thesis
    unfolding ApplyTo_def Let_def CredentialRecord_Clone_id fields updatedRecord_def [symmetric] matchesPrevious_def
      bv_Equal_iff de_Morgan_conj by (rule refl)
qed

lemma ApplyTo_Inr_iff:
  "ApplyTo update stored = Inr out \<longleftrightarrow>
    CredentialRecord_Validate stored = None \<and> matchesPrevious update stored \<and>
    out = updatedRecord update stored \<and> CredentialRecord_Validate out = None"
  by (auto simp: ApplyTo_unfold check_Inr_iff if_Inl_Inr_iff)

section \<open>Updates of verified assertions\<close>

lemma authenticationResult_simps [simp]:
  "cr_ID (ares_Credential (authenticationResult options parsed counter exts)) = cr_ID (afo_Credential options)"
  "cr_BackupState (ares_Credential (authenticationResult options parsed counter exts)) = BackupState (pad_Flags parsed)"
  "cr_BackupEligible (ares_Credential (authenticationResult options parsed counter exts))
    = cr_BackupEligible (afo_Credential options)"
  "ares_AuthenticatedAs (authenticationResult options parsed counter exts) = cr_UserHandle (afo_Credential options)"
  "ares_Counter (authenticationResult options parsed counter exts) = counter"
  "ares_Extensions (authenticationResult options parsed counter exts) = exts"
  "ares_UserPresent (authenticationResult options parsed counter exts) = UserPresent (pad_Flags parsed)"
  "ares_UserVerified (authenticationResult options parsed counter exts) = UserVerified (pad_Flags parsed)"
  "ares_Warnings (authenticationResult options parsed counter exts) = authenticationWarnings counter"
  by (simp_all add: authenticationResult_def Let_def)

lemma normalizeAuthenticatorAttachment_Known:
  "normalizeAuthenticatorAttachment a \<noteq> [] \<Longrightarrow> Attachment_Known (normalizeAuthenticatorAttachment a)"
  by (simp add: normalizeAuthenticatorAttachment_def split: if_splits)

lemma authenticationResult_Validate:
  assumes "CredentialRecord_Validate (afo_Credential options) = None"
    and "authenticationFlagsOK state (afo_Credential options) (pad_Flags parsed)"
  shows "CredentialRecord_Validate (ares_Credential (authenticationResult options parsed counter exts)) = None"
  using assms normalizeAuthenticatorAttachment_Known
  by (auto simp: CredentialRecord_Validate_None_iff authenticationFlagsOK_def authenticationResult_def Let_def)

lemma update_writes_credential:
  "matchesPrevious (ares_Update (authenticationResult options parsed counter exts)) (afo_Credential options) \<and>
    updatedRecord (ares_Update (authenticationResult options parsed counter exts)) (afo_Credential options)
      = ares_Credential (authenticationResult options parsed counter exts)"
  by (simp add: matchesPrevious_def updatedRecord_def authenticationResult_def Let_def)

text \<open>Applying twice: the second application of an update that changed something conflicts.\<close>

lemma updatedRecord_matches_again:
  assumes "matchesPrevious update stored" "matchesPrevious update (updatedRecord update stored)"
  shows "updatedRecord update stored = stored"
  using assms by (auto simp: matchesPrevious_def updatedRecord_def)

end
