(* ===== verification/Integration_Store.thy ===== *)
theory Integration_Store
  imports Storage_Json Credential_Update
begin

text \<open>
  \<^verbatim>\<open>src/examples/integration/memory.go\<close>: the stores of an application that keeps ceremonies and credentials as
  stored JSON, with row versions for credentials. Every method is one step under the lock of its store;
  a method that changes the store returns it. The clock of the ceremony store and the source of random
  identifiers are arguments.
\<close>

definition errDenied :: error where "errDenied = Newf ''application: request denied''"
definition errRisk :: error where "errRisk = Newf ''application: additional authentication required''"
definition errDuplicate :: error where "errDuplicate = Newf ''application: credential already registered''"

text \<open>\<^verbatim>\<open>ctx.Err()\<close> at the start of a method.\<close>

definition ctx_Err :: "ctx \<Rightarrow> error option" where "ctx_Err ctx = ctx 0"

definition map_delete :: "string \<Rightarrow> 'v go_map \<Rightarrow> 'v go_map" where
  "map_delete name m = filter (\<lambda>(k, _). k \<noteq> name) m"

section \<open>Accounts\<close>

record memoryAccounts =
  ma_users :: "UserEntity go_map"
  ma_grants :: "string go_map"

definition EnrollmentUser :: "memoryAccounts \<Rightarrow> ctx \<Rightarrow> string \<Rightarrow> UserEntity result" where
  "EnrollmentUser s ctx session =
    check (ctx_Err ctx)
    (case map_of (ma_grants s) session of None \<Rightarrow> Inl errDenied
     | Some name \<Rightarrow> (case map_of (ma_users s) name of None \<Rightarrow> Inl errDenied
       | Some user \<Rightarrow> if session = [] then Inl errDenied else Inr user))"

definition UserByName :: "memoryAccounts \<Rightarrow> ctx \<Rightarrow> string \<Rightarrow> UserEntity result" where
  "UserByName s ctx name =
    check (ctx_Err ctx) (case map_of (ma_users s) name of None \<Rightarrow> Inl errDenied | Some user \<Rightarrow> Inr user)"

section \<open>Ceremonies\<close>

datatype ceremonyKind = registration | authentication

record savedCeremony =
  sc_kind :: ceremonyKind
  sc_session :: string
  sc_account :: UserHandle
  sc_expires :: time
  sc_payload :: bytes

type_synonym memoryCeremonies = "savedCeremony go_map"

definition ceremonies_Save ::
  "memoryCeremonies \<Rightarrow> time \<Rightarrow> ctx \<Rightarrow> string \<Rightarrow> savedCeremony \<Rightarrow> memoryCeremonies \<times> error option" where
  "ceremonies_Save s now ctx name saved =
    (case ctx_Err ctx of Some e \<Rightarrow> (s, Some e)
     | None \<Rightarrow>
       let entries = filter (\<lambda>(_, entry). Before now (sc_expires entry)) s in
       if map_of entries name \<noteq> None then (entries, Some errDenied)
       else if name = [] \<or> sc_session saved = [] \<or> \<not> Before now (sc_expires saved) \<or> length entries \<ge> 128
       then (entries, Some errDenied)
       else (map_put name saved entries, None))"

definition ceremonies_Consume ::
  "memoryCeremonies \<Rightarrow> time \<Rightarrow> ctx \<Rightarrow> string \<Rightarrow> string \<Rightarrow> ceremonyKind \<Rightarrow> UserHandle option
    \<Rightarrow> memoryCeremonies \<times> savedCeremony result" where
  "ceremonies_Consume s now ctx name session kind account =
    (case ctx_Err ctx of Some e \<Rightarrow> (s, Inl e)
     | None \<Rightarrow>
       (case map_of s name of None \<Rightarrow> (s, Inl errDenied)
        | Some saved \<Rightarrow>
          if session = [] \<or> sc_session saved \<noteq> session \<or> sc_kind saved \<noteq> kind
            \<or> (case account of None \<Rightarrow> False | Some u \<Rightarrow> \<not> bv_Equal (sc_account saved) u)
          then (s, Inl errDenied)
          else (map_delete name s,
            if \<not> Before now (sc_expires saved) then Inl (Sentinel ErrCeremonyExpired) else Inr saved)))"

section \<open>Credentials\<close>

record savedCredential =
  sv_payload :: bytes
  sv_version :: "64 word"

type_synonym memoryCredentials = "savedCredential go_map"

record credentialSnapshot =
  snap_record :: CredentialRecord
  snap_version :: "64 word"

definition credentials_List ::
  "go_std \<Rightarrow> go_text \<Rightarrow> COSEKeyDecoder \<Rightarrow> memoryCredentials \<Rightarrow> ctx \<Rightarrow> UserHandle \<Rightarrow> CredentialDescriptor list result" where
  "credentials_List std tx decoder s ctx user =
    check (ctx_Err ctx)
    (and_then (map_res (\<lambda>(_, entry). UnmarshalCredentialRecord std tx (sv_payload entry) decoder) s) (\<lambda>records.
     Inr (map Descriptor (filter (\<lambda>r. bv_Equal (cr_UserHandle r) user) records))))"

definition credentials_Lookup ::
  "go_std \<Rightarrow> go_text \<Rightarrow> COSEKeyDecoder \<Rightarrow> memoryCredentials \<Rightarrow> ctx \<Rightarrow> RawID \<Rightarrow> UserHandle \<Rightarrow> credentialSnapshot result" where
  "credentials_Lookup std tx decoder s ctx rawID user =
    check (ctx_Err ctx)
    (case map_of s (string_of_bytes (bv_bytes rawID)) of None \<Rightarrow> Inl errDenied
     | Some entry \<Rightarrow>
       and_then (UnmarshalCredentialRecord std tx (sv_payload entry) decoder) (\<lambda>r.
       if \<not> bv_Equal (cr_UserHandle r) user then Inl errDenied
       else Inr \<lparr>snap_record = r, snap_version = sv_version entry\<rparr>))"

definition credentials_Insert ::
  "go_text \<Rightarrow> memoryCredentials \<Rightarrow> ctx \<Rightarrow> CredentialRecord \<Rightarrow> memoryCredentials \<times> error option" where
  "credentials_Insert tx s ctx r =
    (case ctx_Err ctx of Some e \<Rightarrow> (s, Some e)
     | None \<Rightarrow>
       (case MarshalCredentialRecord tx r of Inl e \<Rightarrow> (s, Some e)
        | Inr payload \<Rightarrow>
          let key = string_of_bytes (bv_bytes (cr_ID r)) in
          if map_of s key \<noteq> None then (s, Some errDuplicate)
          else (map_put key \<lparr>sv_payload = payload, sv_version = 1\<rparr> s, None)))"

definition MaxVersion :: "64 word" where "MaxVersion = - 1"

definition credentials_Update ::
  "go_std \<Rightarrow> go_text \<Rightarrow> COSEKeyDecoder \<Rightarrow> memoryCredentials \<Rightarrow> ctx \<Rightarrow> CredentialUpdate \<Rightarrow> 64 word
    \<Rightarrow> memoryCredentials \<times> error option" where
  "credentials_Update std tx decoder s ctx update version =
    (case ctx_Err ctx of Some e \<Rightarrow> (s, Some e)
     | None \<Rightarrow>
       let key = string_of_bytes (bv_bytes (cu_ID update)) in
       (case map_of s key of None \<Rightarrow> (s, Some (Sentinel ErrCredentialUpdateConflict))
        | Some entry \<Rightarrow>
          if sv_version entry \<noteq> version \<or> version = MaxVersion then (s, Some (Sentinel ErrCredentialUpdateConflict)) else
          (case and_then (UnmarshalCredentialRecord std tx (sv_payload entry) decoder) (\<lambda>r.
              and_then (ApplyTo update r) (MarshalCredentialRecord tx)) of
             Inl e \<Rightarrow> (s, Some e)
           | Inr payload \<Rightarrow> (map_put key \<lparr>sv_payload = payload, sv_version = version + 1\<rparr> s, None))))"

section \<open>Sessions\<close>

type_synonym memorySessions = "UserHandle go_map"

definition ceremonyID :: "go_env \<Rightarrow> string result" where
  "ceremonyID env = and_then (ReadFull (env_Reader env) 32) (\<lambda>raw. Inr (b64_encode raw))"

definition sessions_Create :: "memorySessions \<Rightarrow> go_env \<Rightarrow> ctx \<Rightarrow> UserHandle \<Rightarrow> memorySessions \<times> string result" where
  "sessions_Create s env ctx user =
    (case ctx_Err ctx of Some e \<Rightarrow> (s, Inl e)
     | None \<Rightarrow> (case ceremonyID env of Inl e \<Rightarrow> (s, Inl e) | Inr name \<Rightarrow> (map_put name user s, Inr name)))"

section \<open>Ceremonies are used at most once\<close>

lemma map_of_map_delete [simp]: "map_of (map_delete name m) k = (if k = name then None else map_of m k)"
  by (induction m) (auto simp: map_delete_def)

text \<open>
  The contract of a ceremony store: what is consumed was saved, is of the session and kind asked for,
  has not expired, and is gone. It is stated over an abstraction \<open>entry\<close> of the store.
\<close>

locale ceremony_store =
  fixes wf :: "'s \<Rightarrow> bool" and entry :: "'s \<Rightarrow> string \<Rightarrow> savedCeremony option"
    and save :: "'s \<Rightarrow> time \<Rightarrow> ctx \<Rightarrow> string \<Rightarrow> savedCeremony \<Rightarrow> 's \<times> error option"
    and consume :: "'s \<Rightarrow> time \<Rightarrow> ctx \<Rightarrow> string \<Rightarrow> string \<Rightarrow> ceremonyKind \<Rightarrow> UserHandle option \<Rightarrow> 's \<times> savedCeremony result"
  assumes save_wf: "wf s \<Longrightarrow> wf (fst (save s now ctx name saved))"
    and consume_wf: "wf s \<Longrightarrow> wf (fst (consume s now ctx name session kind account))"
    and consumed: "consume s now ctx name session kind account = (s', Inr saved) \<Longrightarrow>
      entry s name = Some saved \<and> sc_session saved = session \<and> sc_kind saved = kind \<and> now < sc_expires saved \<and>
      (\<forall>u. account = Some u \<longrightarrow> bv_bytes (sc_account saved) = bv_bytes u) \<and> entry s' name = None"
    and consume_shrinks: "entry (fst (consume s now ctx name session kind account)) k \<in> {None, entry s k}"
    and save_frame: "wf s \<Longrightarrow> entry (fst (save s now ctx name saved)) k \<in> {None, entry s k} \<union> (if k = name then {Some saved} else {})"
    and saved_fresh: "save s now ctx name saved = (s', None) \<Longrightarrow> entry s' name = Some saved \<and> now < sc_expires saved"
begin

lemma no_second_use:
  "consume s now ctx name session kind account = (s', Inr saved) \<Longrightarrow> consume s' now' ctx' name session' kind' account' \<noteq> (s'', Inr saved')"
  using consumed [of s now ctx name session kind account s' saved]
    consumed [of s' now' ctx' name session' kind' account' s'' saved'] by auto

lemma consume_after_save:
  assumes "save s now ctx name saved = (s', None)" "consume s' now' ctx' name session kind account = (s'', Inr saved')"
  shows "saved' = saved" "now' < sc_expires saved"
  using consumed [OF assms(2)] saved_fresh [OF assms(1)] by auto

end

lemma map_of_filter: "distinct (map fst m) \<Longrightarrow> map_of (filter P m) k \<in> {None, map_of m k}"
  by (induction m) (auto split: if_splits simp: image_iff map_of_eq_None_iff)

lemma wf_map_filter: "wf_map m \<Longrightarrow> wf_map (filter P m)"
  by (simp add: wf_map_def distinct_map_filter)

interpretation memory_ceremonies: ceremony_store wf_map map_of ceremonies_Save ceremonies_Consume
proof unfold_locales
  show "wf_map s \<Longrightarrow> wf_map (fst (ceremonies_Save s now ctx name saved))" for s now ctx name saved
    by (auto simp: ceremonies_Save_def Let_def wf_map_filter split: option.split)
  show "wf_map s \<Longrightarrow> wf_map (fst (ceremonies_Consume s now ctx name session kind account))"
    for s now ctx name session kind account
    by (auto simp: ceremonies_Consume_def map_delete_def wf_map_filter split: option.split)
  show "map_of s name = Some saved \<and> sc_session saved = session \<and> sc_kind saved = kind \<and> now < sc_expires saved \<and>
      (\<forall>u. account = Some u \<longrightarrow> bv_bytes (sc_account saved) = bv_bytes u) \<and> map_of s' name = None"
    if "ceremonies_Consume s now ctx name session kind account = (s', Inr saved)"
    for s now ctx name session kind account s' saved
    using that by (auto simp: ceremonies_Consume_def Before_def split: option.splits if_splits)
  show "map_of (fst (ceremonies_Consume s now ctx name session kind account)) k \<in> {None, map_of s k}"
    for s now ctx name session kind account k
    by (auto simp: ceremonies_Consume_def split: option.split)
  show "map_of (fst (ceremonies_Save s now ctx name saved)) k \<in> {None, map_of s k} \<union> (if k = name then {Some saved} else {})"
    if "wf_map s" for s now ctx name saved k
    using that map_of_filter [of s "\<lambda>(_, entry). Before now (sc_expires entry)" k]
    by (auto simp: ceremonies_Save_def Let_def wf_map_def split: option.split)
  show "map_of s' name = Some saved \<and> now < sc_expires saved" if "ceremonies_Save s now ctx name saved = (s', None)"
    for s now ctx name saved s'
    using that by (auto simp: ceremonies_Save_def Let_def Before_def split: option.splits if_splits)
qed

section \<open>Credential rows refine records\<close>

text \<open>
  The abstract store: records with versions, without JSON. A row of the store represents a record when its
  payload is read as that record and its key is the identifier of the record.
\<close>

type_synonym rows = "credentialSnapshot go_map"

definition represents :: "go_std \<Rightarrow> go_text \<Rightarrow> COSEKeyDecoder \<Rightarrow> memoryCredentials \<Rightarrow> rows \<Rightarrow> bool" where
  "represents std tx decoder s rows \<longleftrightarrow>
    list_all2 (\<lambda>(k, entry) (k', snap). k = k' \<and> k = string_of_bytes (bv_bytes (cr_ID (snap_record snap))) \<and>
      UnmarshalCredentialRecord std tx (sv_payload entry) decoder = Inr (snap_record snap) \<and>
      sv_version entry = snap_version snap) s rows"

definition rows_List :: "rows \<Rightarrow> UserHandle \<Rightarrow> CredentialDescriptor list" where
  "rows_List rows user = map (\<lambda>(_, snap). Descriptor (snap_record snap))
    (filter (\<lambda>(_, snap). bv_bytes (cr_UserHandle (snap_record snap)) = bv_bytes user) rows)"

definition rows_Lookup :: "rows \<Rightarrow> RawID \<Rightarrow> UserHandle \<Rightarrow> credentialSnapshot result" where
  "rows_Lookup rows rawID user =
    (case map_of rows (string_of_bytes (bv_bytes rawID)) of None \<Rightarrow> Inl errDenied
     | Some snap \<Rightarrow> if bv_bytes (cr_UserHandle (snap_record snap)) \<noteq> bv_bytes user then Inl errDenied else Inr snap)"

definition rows_Insert :: "rows \<Rightarrow> CredentialRecord \<Rightarrow> rows" where
  "rows_Insert rows r = map_put (string_of_bytes (bv_bytes (cr_ID r))) \<lparr>snap_record = r, snap_version = 1\<rparr> rows"

definition rows_Update :: "rows \<Rightarrow> CredentialUpdate \<Rightarrow> rows" where
  "rows_Update rows update =
    (let key = string_of_bytes (bv_bytes (cu_ID update)) in
     case map_of rows key of None \<Rightarrow> rows
     | Some snap \<Rightarrow> map_put key \<lparr>snap_record = updatedRecord update (snap_record snap), snap_version = snap_version snap + 1\<rparr> rows)"

lemma represents_lookup:
  "represents std tx decoder s rows \<Longrightarrow>
    (case map_of s key of None \<Rightarrow> map_of rows key = None
     | Some entry \<Rightarrow> \<exists>snap. map_of rows key = Some snap \<and> key = string_of_bytes (bv_bytes (cr_ID (snap_record snap))) \<and>
        UnmarshalCredentialRecord std tx (sv_payload entry) decoder = Inr (snap_record snap) \<and>
        sv_version entry = snap_version snap)"
  unfolding represents_def
  by (induction s rows rule: list_all2_induct) (auto split: option.split)

lemma represents_put:
  assumes "represents std tx decoder s rows" "key = string_of_bytes (bv_bytes (cr_ID (snap_record snap)))"
    and "UnmarshalCredentialRecord std tx (sv_payload entry) decoder = Inr (snap_record snap)" "sv_version entry = snap_version snap"
  shows "represents std tx decoder (map_put key entry s) (map_put key snap rows)"
  using assms unfolding represents_def map_put_def
  by (induction s rows rule: list_all2_induct) (auto split: if_splits)

lemma lookup_refines:
  "represents std tx decoder s rows \<Longrightarrow> ctx_Err ctx = None \<Longrightarrow>
    credentials_Lookup std tx decoder s ctx rawID user = rows_Lookup rows rawID user"
  using represents_lookup [of std tx decoder s rows "string_of_bytes (bv_bytes rawID)"]
  by (auto simp: credentials_Lookup_def rows_Lookup_def check_def split: option.splits)

lemma list_refines:
  assumes "represents std tx decoder s rows" "ctx_Err ctx = None"
  shows "credentials_List std tx decoder s ctx user = Inr (rows_List rows user)"
proof -
  have "map_res (\<lambda>(_, entry). UnmarshalCredentialRecord std tx (sv_payload entry) decoder) s = Inr (map (snap_record \<circ> snd) rows)"
    using assms(1) unfolding represents_def
    by (induction s rows rule: list_all2_induct) auto
  then show ?thesis
    using assms(2)
    by (auto simp: credentials_List_def check_def rows_List_def filter_map o_def case_prod_unfold)
qed

lemma failed_insert_keeps: "credentials_Insert tx s ctx r = (s', Some e) \<Longrightarrow> s' = s"
  by (auto simp: credentials_Insert_def Let_def split: option.splits sum.splits if_splits)

lemma failed_update_keeps: "credentials_Update std tx decoder s ctx update version = (s', Some e) \<Longrightarrow> s' = s"
  by (auto simp: credentials_Update_def Let_def split: option.splits sum.splits if_splits)

lemma version_grows: "version \<noteq> MaxVersion \<Longrightarrow> unat (version + 1 :: 64 word) = unat version + 1"
proof -
  assume v: "version \<noteq> MaxVersion"
  have "unat version \<noteq> 2 ^ 64 - 1"
  proof
    assume "unat version = 2 ^ 64 - 1"
    then have "word_of_nat (unat version) = (word_of_nat (2 ^ 64 - 1) :: 64 word)"
      by simp
    then show False
      using v by (simp add: MaxVersion_def)
  qed
  then have "unat version + 1 < 2 ^ 64"
    using unsigned_less [of version, where ?'a = nat] by simp
  then show "unat (version + 1) = unat version + 1"
    by (simp add: unat_word_ariths(1))
qed

lemma updatedRecord_typed:
  "record_typed (updatedRecord update r) \<longleftrightarrow> record_typed r" "cr_ID (updatedRecord update r) = cr_ID r"
  "cr_PublicKey (updatedRecord update r) = cr_PublicKey r" "cr_UserHandle (updatedRecord update r) = cr_UserHandle r"
  by (simp_all add: updatedRecord_def record_typed_def)

context json_text
begin

lemma insert_refines:
  assumes "credentials_Insert tx s ctx r = (s', None)" "represents std tx decoder s rows"
    and "record_typed r" "call decoder (cpk_raw (cr_PublicKey r)) = Inr (cr_PublicKey r)"
  shows "map_of rows (string_of_bytes (bv_bytes (cr_ID r))) = None" "represents std tx decoder s' (rows_Insert rows r)"
proof -
  obtain payload where payload: "MarshalCredentialRecord tx r = Inr payload"
    and fresh: "map_of s (string_of_bytes (bv_bytes (cr_ID r))) = None"
    and s': "s' = map_put (string_of_bytes (bv_bytes (cr_ID r))) \<lparr>sv_payload = payload, sv_version = 1\<rparr> s"
    using assms(1) by (auto simp: credentials_Insert_def Let_def split: option.splits sum.splits if_splits)
  show "map_of rows (string_of_bytes (bv_bytes (cr_ID r))) = None"
    using represents_lookup [OF assms(2), of "string_of_bytes (bv_bytes (cr_ID r))"] fresh by simp
  have "UnmarshalCredentialRecord std tx payload decoder = Inr r"
    by (rule record_survives [OF payload assms(3,4)])
  then show "represents std tx decoder s' (rows_Insert rows r)"
    unfolding s' rows_Insert_def by (intro represents_put [OF assms(2)]) simp_all
qed

lemma update_refines:
  assumes "credentials_Update std tx decoder s ctx update version = (s', None)" "represents std tx decoder s rows"
  obtains snap where "map_of rows (string_of_bytes (bv_bytes (cu_ID update))) = Some snap" "snap_version snap = version"
    "ApplyTo update (snap_record snap) = Inr (updatedRecord update (snap_record snap))" "version \<noteq> MaxVersion"
    "represents std tx decoder s' (rows_Update rows update)"
proof -
  let ?key = "string_of_bytes (bv_bytes (cu_ID update))"
  obtain entry r nextRecord payload where entry: "map_of s ?key = Some entry" "sv_version entry = version" "version \<noteq> MaxVersion"
    and r: "UnmarshalCredentialRecord std tx (sv_payload entry) decoder = Inr r" and nxt: "ApplyTo update r = Inr nextRecord"
    and payload: "MarshalCredentialRecord tx nextRecord = Inr payload"
    and s': "s' = map_put ?key \<lparr>sv_payload = payload, sv_version = version + 1\<rparr> s"
    using assms(1)
    by (auto simp: credentials_Update_def Let_def result_inv split: option.splits sum.splits if_splits)
  obtain snap where snap: "map_of rows ?key = Some snap" "?key = string_of_bytes (bv_bytes (cr_ID (snap_record snap)))"
      "snap_record snap = r" "snap_version snap = version"
    using represents_lookup [OF assms(2), of ?key] entry r by auto
  have upd: "nextRecord = updatedRecord update r"
    using nxt by (simp add: ApplyTo_Inr_iff)
  have "UnmarshalCredentialRecord std tx payload decoder = Inr nextRecord"
    using UnmarshalCredentialRecord_Inr [OF r]
    by (intro record_survives [OF payload]) (simp_all add: upd updatedRecord_typed)
  then have "represents std tx decoder s' (rows_Update rows update)"
    using snap unfolding s' rows_Update_def
    by (auto simp: Let_def upd updatedRecord_typed intro!: represents_put [OF assms(2)])
  then show thesis
    using that snap nxt upd entry(3) by auto
qed

end

end
