(* ===== verification/E2e_Store.thy ===== *)
theory E2e_Store
  imports Http_Server Integration_Store
begin

text \<open>
  \<^verbatim>\<open>src/internal/e2eapp/store.go\<close>: the store of the end-to-end test application. Credentials are objects that two indexes
  share by pointer and that an update changes in place, so the store has a heap: an address is a position in \<open>st_heap\<close>.
  Users never change, so a pointer to one is its value. Every method holds the lock and is one step.
\<close>

record e2e_user =
  u_Handle :: UserHandle
  u_Email :: string
  u_DisplayName :: string
  u_CreatedAt :: time

record e2e_credential =
  ec_Credential :: CredentialRecord
  ec_CreatedAt :: time
  ec_UpdatedAt :: time

record registrationState =
  ers_Email :: string
  ers_State :: RegistrationState

record authenticationState =
  eas_Email :: string
  eas_State :: AuthenticationState

record e2e_store =
  st_heap :: "e2e_credential list"
  st_usersByEmail :: "e2e_user go_map"
  st_usersByHandle :: "e2e_user go_map"
  st_credentialsByID :: "nat go_map"
  st_credentialsByUserHandle :: "nat list go_map"
  st_registrationStates :: "registrationState go_map"
  st_authenticationStates :: "authenticationState go_map"
  st_sessions :: "string go_map"

definition newStore :: e2e_store where
  "newStore = \<lparr>st_heap = [], st_usersByEmail = [], st_usersByHandle = [], st_credentialsByID = [], st_credentialsByUserHandle = [],
     st_registrationStates = [], st_authenticationStates = [], st_sessions = []\<rparr>"

definition randomBytes :: "go_env \<Rightarrow> nat \<Rightarrow> bytes result" where
  "randomBytes env n = ReadFull (env_Reader env) n"

definition randomToken :: "go_env \<Rightarrow> string result" where
  "randomToken env = and_then (randomBytes env 32) (\<lambda>bs. Inr (b64_encode bs))"

definition credentialKey :: "bytes \<Rightarrow> string" where "credentialKey bs = b64_encode bs"
definition handleKey :: "UserHandle \<Rightarrow> string" where "handleKey h = b64_encode (bv_bytes h)"

definition getOrCreateUser :: "e2e_store \<Rightarrow> go_env \<Rightarrow> time \<Rightarrow> string \<Rightarrow> string \<Rightarrow> e2e_store \<times> e2e_user result" where
  "getOrCreateUser s env now email displayName =
    (case map_of (st_usersByEmail s) email of Some u \<Rightarrow> (s, Inr u)
     | None \<Rightarrow>
       (case and_then (randomBytes env 32) (\<lambda>bs. NewUserHandle (Some bs)) of Inl e \<Rightarrow> (s, Inl e)
        | Inr handle \<Rightarrow>
          let u = \<lparr>u_Handle = handle, u_Email = email, u_DisplayName = (if displayName = [] then email else displayName),
                u_CreatedAt = now\<rparr> in
          (s\<lparr>st_usersByEmail := map_put email u (st_usersByEmail s),
             st_usersByHandle := map_put (handleKey handle) u (st_usersByHandle s)\<rparr>, Inr u)))"

definition userByEmail :: "e2e_store \<Rightarrow> string \<Rightarrow> e2e_user option" where
  "userByEmail s email = map_of (st_usersByEmail s) email"

definition userByHandle :: "e2e_store \<Rightarrow> UserHandle \<Rightarrow> e2e_user option" where
  "userByHandle s handle = map_of (st_usersByHandle s) (handleKey handle)"

definition saveRegistrationState :: "e2e_store \<Rightarrow> string \<Rightarrow> registrationState \<Rightarrow> e2e_store" where
  "saveRegistrationState s name state = s\<lparr>st_registrationStates := map_put name state (st_registrationStates s)\<rparr>"

definition consumeRegistrationState :: "e2e_store \<Rightarrow> string \<Rightarrow> e2e_store \<times> registrationState option" where
  "consumeRegistrationState s name =
    (case map_of (st_registrationStates s) name of None \<Rightarrow> (s, None)
     | Some state \<Rightarrow> (s\<lparr>st_registrationStates := map_delete name (st_registrationStates s)\<rparr>, Some state))"

definition saveAuthenticationState :: "e2e_store \<Rightarrow> string \<Rightarrow> authenticationState \<Rightarrow> e2e_store" where
  "saveAuthenticationState s name state = s\<lparr>st_authenticationStates := map_put name state (st_authenticationStates s)\<rparr>"

definition consumeAuthenticationState :: "e2e_store \<Rightarrow> string \<Rightarrow> e2e_store \<times> authenticationState option" where
  "consumeAuthenticationState s name =
    (case map_of (st_authenticationStates s) name of None \<Rightarrow> (s, None)
     | Some state \<Rightarrow> (s\<lparr>st_authenticationStates := map_delete name (st_authenticationStates s)\<rparr>, Some state))"

text \<open>The pointers of a user: a missing entry of the map is the nil slice.\<close>

definition pointersOf :: "e2e_store \<Rightarrow> string \<Rightarrow> nat list" where
  "pointersOf s userKey = (case map_of (st_credentialsByUserHandle s) userKey of None \<Rightarrow> [] | Some ps \<Rightarrow> ps)"

definition insertCredential :: "e2e_store \<Rightarrow> time \<Rightarrow> CredentialRecord \<Rightarrow> e2e_store \<times> bool" where
  "insertCredential s now r =
    (let key = credentialKey (bv_bytes (cr_ID r)); userKey = handleKey (cr_UserHandle r); p = length (st_heap s) in
     if map_of (st_credentialsByID s) key \<noteq> None then (s, False)
     else (s\<lparr>st_heap := st_heap s @ [\<lparr>ec_Credential = CredentialRecord_Clone r, ec_CreatedAt = now, ec_UpdatedAt = now\<rparr>],
        st_credentialsByID := map_put key p (st_credentialsByID s),
        st_credentialsByUserHandle := map_put userKey (pointersOf s userKey @ [p]) (st_credentialsByUserHandle s)\<rparr>, True))"

definition credentialByID :: "e2e_store \<Rightarrow> bytes \<Rightarrow> CredentialRecord option" where
  "credentialByID s bs = map_option (\<lambda>p. CredentialRecord_Clone (ec_Credential (st_heap s ! p))) (map_of (st_credentialsByID s) (credentialKey bs))"

definition store_debugCredential :: "e2e_store \<Rightarrow> bytes \<Rightarrow> CredentialRecord option" where
  "store_debugCredential s bs = credentialByID s bs"

definition credentialsForUser :: "e2e_store \<Rightarrow> UserHandle \<Rightarrow> CredentialRecord list" where
  "credentialsForUser s handle = map (\<lambda>p. CredentialRecord_Clone (ec_Credential (st_heap s ! p))) (pointersOf s (handleKey handle))"

definition updateCredential :: "e2e_store \<Rightarrow> time \<Rightarrow> CredentialUpdate \<Rightarrow> e2e_store \<times> bool" where
  "updateCredential s now update =
    (case map_of (st_credentialsByID s) (credentialKey (bv_bytes (cu_ID update))) of None \<Rightarrow> (s, False)
     | Some p \<Rightarrow>
       let r = ec_Credential (st_heap s ! p) in
       if cr_SignCount r \<noteq> cu_PreviousSignCount update \<or> cr_BackupState r \<noteq> cu_PreviousBackupState update
         \<or> cr_UVInitialized r \<noteq> cu_PreviousUVInitialized update
         \<or> cr_AuthenticatorAttachment r \<noteq> cu_PreviousAuthenticatorAttachment update
       then (s, False)
       else
         let r = (if cu_SignCountChanged update then r\<lparr>cr_SignCount := cu_SignCount update\<rparr> else r);
             r = (if cu_BackupStateChanged update then r\<lparr>cr_BackupState := cu_BackupState update\<rparr> else r);
             r = (if cu_UVInitializedChanged update then r\<lparr>cr_UVInitialized := cu_UVInitialized update\<rparr> else r);
             r = (if cu_AuthenticatorAttachmentChanged update
               then r\<lparr>cr_AuthenticatorAttachment := cu_AuthenticatorAttachment update\<rparr> else r) in
         (s\<lparr>st_heap := (st_heap s)[p := (st_heap s ! p)\<lparr>ec_Credential := r, ec_UpdatedAt := now\<rparr>]\<rparr>, True))"

definition createSession :: "e2e_store \<Rightarrow> go_env \<Rightarrow> UserHandle \<Rightarrow> e2e_store \<times> string result" where
  "createSession s env handle =
    (case randomToken env of Inl e \<Rightarrow> (s, Inl e)
     | Inr name \<Rightarrow> (s\<lparr>st_sessions := map_put name (handleKey handle) (st_sessions s)\<rparr>, Inr name))"

definition deleteSession :: "e2e_store \<Rightarrow> string \<Rightarrow> e2e_store" where
  "deleteSession s name = s\<lparr>st_sessions := map_delete name (st_sessions s)\<rparr>"

definition sessionUser :: "e2e_store \<Rightarrow> string \<Rightarrow> e2e_user option" where
  "sessionUser s name = (case map_of (st_sessions s) name of None \<Rightarrow> None | Some handle \<Rightarrow> map_of (st_usersByHandle s) handle)"

section \<open>The indexes agree\<close>

text \<open>
  The object at an address. The store is well indexed when the first index leads to existing objects under their own
  identifiers, and the second lists, without repetition, the objects of the first that belong to the user.
\<close>

definition object_at :: "e2e_store \<Rightarrow> nat \<Rightarrow> CredentialRecord" where
  "object_at s p = ec_Credential (st_heap s ! p)"

definition indexed :: "e2e_store \<Rightarrow> bool" where
  "indexed s \<longleftrightarrow>
    (\<forall>key p. map_of (st_credentialsByID s) key = Some p \<longrightarrow>
      p < length (st_heap s) \<and> key = credentialKey (bv_bytes (cr_ID (object_at s p)))) \<and>
    (\<forall>userKey. distinct (pointersOf s userKey) \<and>
      set (pointersOf s userKey) = {p. (\<exists>key. map_of (st_credentialsByID s) key = Some p) \<and> handleKey (cr_UserHandle (object_at s p)) = userKey})"

text \<open>The abstract store: a map from keys to records.\<close>

definition records_of :: "e2e_store \<Rightarrow> string \<Rightarrow> CredentialRecord option" where
  "records_of s key = map_option (object_at s) (map_of (st_credentialsByID s) key)"

lemma handleKey_iff: "handleKey h = handleKey h' \<longleftrightarrow> bv_bytes h = bv_bytes h'"
  by (simp add: handleKey_def b64_encode_inj)

lemma credentialKey_iff [simp]: "credentialKey bs = credentialKey bs' \<longleftrightarrow> bs = bs'"
  by (simp add: credentialKey_def b64_encode_inj)

lemma indexedD:
  assumes "indexed s" "map_of (st_credentialsByID s) key = Some p"
  shows "p < length (st_heap s)" "key = credentialKey (bv_bytes (cr_ID (object_at s p)))"
  using assms by (auto simp: indexed_def)

lemma credentialByID_records: "credentialByID s bs = records_of s (credentialKey bs)"
  by (cases "map_of (st_credentialsByID s) (credentialKey bs)")
    (simp_all add: credentialByID_def records_of_def object_at_def CredentialRecord_Clone_id)

lemma credentialsForUser_records:
  assumes "indexed s"
  shows "set (credentialsForUser s h) = {r. \<exists>key. records_of s key = Some r \<and> bv_bytes (cr_UserHandle r) = bv_bytes h}"
  using assms
  by (auto simp: indexed_def credentialsForUser_def records_of_def CredentialRecord_Clone_id object_at_def [symmetric] handleKey_iff image_iff)

lemma records_key: "indexed s \<Longrightarrow> records_of s key = Some r \<Longrightarrow> key = credentialKey (bv_bytes (cr_ID r))"
  by (auto simp: indexed_def records_of_def)

lemma pointersOf_put:
  "pointersOf (s\<lparr>st_heap := h, st_credentialsByID := m, st_credentialsByUserHandle := map_put k ps (st_credentialsByUserHandle s)\<rparr>) userKey
    = (if userKey = k then ps else pointersOf s userKey)"
  by (simp add: pointersOf_def)

lemma insertCredential_refines:
  assumes "indexed s" "insertCredential s now r = (s', b)"
  shows "b \<longleftrightarrow> records_of s (credentialKey (bv_bytes (cr_ID r))) = None" "indexed s'"
    "records_of s' = (if b then (records_of s) (credentialKey (bv_bytes (cr_ID r)) \<mapsto> r) else records_of s)"
proof -
  let ?key = "credentialKey (bv_bytes (cr_ID r))" and ?p = "length (st_heap s)" and ?user = "handleKey (cr_UserHandle r)"
  show b: "b \<longleftrightarrow> records_of s ?key = None"
    using assms(2) by (auto simp: insertCredential_def records_of_def Let_def split: if_splits)
  show "indexed s'" "records_of s' = (if b then (records_of s) (?key \<mapsto> r) else records_of s)"
  proof (atomize (full), cases b)
    case False
    then show "indexed s' \<and> records_of s' = (if b then (records_of s) (?key \<mapsto> r) else records_of s)"
      using assms by (simp add: insertCredential_def Let_def split: if_splits)
  next
    case True
    then have fresh: "map_of (st_credentialsByID s) ?key = None"
      using b by (simp add: records_of_def)
    have s': "s' = s\<lparr>st_heap := st_heap s @ [\<lparr>ec_Credential = r, ec_CreatedAt = now, ec_UpdatedAt = now\<rparr>],
        st_credentialsByID := map_put ?key ?p (st_credentialsByID s),
        st_credentialsByUserHandle := map_put ?user (pointersOf s ?user @ [?p]) (st_credentialsByUserHandle s)\<rparr>"
      using assms(2) fresh by (simp add: insertCredential_def Let_def CredentialRecord_Clone_id)
    have old: "object_at s' p = object_at s p" if "p < ?p" for p
      using that by (simp add: s' object_at_def nth_append)
    have new: "object_at s' ?p = r"
      by (simp add: s' object_at_def)
    have ids: "map_of (st_credentialsByID s') k = (if k = ?key then Some ?p else map_of (st_credentialsByID s) k)" for k
      by (simp add: s')
    have users: "pointersOf s' k = (if k = ?user then pointersOf s ?user @ [?p] else pointersOf s k)" for k
      unfolding s' pointersOf_put by simp
    have bound: "p < ?p" if "map_of (st_credentialsByID s) k = Some p" for k p
      using that assms(1) by (auto simp: indexed_def)
    have known: "\<And>k p. map_of (st_credentialsByID s) k = Some p \<Longrightarrow> k = credentialKey (bv_bytes (cr_ID (object_at s p)))"
      "\<And>k. distinct (pointersOf s k)"
      "\<And>k. set (pointersOf s k) = {p. (\<exists>key. map_of (st_credentialsByID s) key = Some p) \<and> handleKey (cr_UserHandle (object_at s p)) = k}"
      using assms(1) by (auto simp: indexed_def)
    have "p < length (st_heap s') \<and> k = credentialKey (bv_bytes (cr_ID (object_at s' p)))" if "map_of (st_credentialsByID s') k = Some p" for k p
      using that known(1) [of k p] bound [of k p] old [of p] new by (auto simp: ids s' split: if_splits)
    moreover have "distinct (pointersOf s' k)" for k
      using known(2) known(3) [of k] bound by (fastforce simp: users)
    moreover have "set (pointersOf s' k) = {p. (\<exists>key. map_of (st_credentialsByID s') key = Some p) \<and> handleKey (cr_UserHandle (object_at s' p)) = k}" for k
    proof -
      have "(\<exists>key. map_of (st_credentialsByID s') key = Some p) \<longleftrightarrow> p = ?p \<or> (\<exists>key. map_of (st_credentialsByID s) key = Some p)" for p
        using fresh by (auto simp: ids) (metis option.distinct(1))+
      then show ?thesis
        using known(3) [of k] old bound new by (auto simp: users)
    qed
    moreover have "records_of s' = (records_of s) (?key \<mapsto> r)"
    proof
      fix k
      show "records_of s' k = ((records_of s) (?key \<mapsto> r)) k"
        using new old bound [of k] by (cases "map_of (st_credentialsByID s) k") (auto simp: records_of_def ids)
    qed
    ultimately show "indexed s' \<and> records_of s' = (if b then (records_of s) (?key \<mapsto> r) else records_of s)"
      using True by (simp add: indexed_def)
  qed
qed

section \<open>Updates in place are the library's compare-and-set\<close>

lemma updateCredential_iff:
  assumes "indexed s"
  shows "updateCredential s now update = (s', b) \<longleftrightarrow>
    (case map_of (st_credentialsByID s) (credentialKey (bv_bytes (cu_ID update))) of None \<Rightarrow> s' = s \<and> \<not> b
     | Some p \<Rightarrow> if matchesPrevious update (object_at s p)
         then b \<and> s' = s\<lparr>st_heap := (st_heap s)[p := (st_heap s ! p)\<lparr>ec_Credential := updatedRecord update (object_at s p), ec_UpdatedAt := now\<rparr>]\<rparr>
         else s' = s \<and> \<not> b)"
proof (cases "map_of (st_credentialsByID s) (credentialKey (bv_bytes (cu_ID update)))")
  case (Some p)
  then have "bv_bytes (cr_ID (object_at s p)) = bv_bytes (cu_ID update)"
    using indexedD(2) [OF assms Some] by simp
  then have guard: "(cr_SignCount (object_at s p) \<noteq> cu_PreviousSignCount update \<or> cr_BackupState (object_at s p) \<noteq> cu_PreviousBackupState update
      \<or> cr_UVInitialized (object_at s p) \<noteq> cu_PreviousUVInitialized update
      \<or> cr_AuthenticatorAttachment (object_at s p) \<noteq> cu_PreviousAuthenticatorAttachment update) \<longleftrightarrow> \<not> matchesPrevious update (object_at s p)"
    by (auto simp: matchesPrevious_def)
  have record_update: "(let x = (if a then r\<lparr>cr_SignCount := n\<rparr> else r); x = (if b then x\<lparr>cr_BackupState := m\<rparr> else x);
        x = (if c then x\<lparr>cr_UVInitialized := u\<rparr> else x); x = (if d then x\<lparr>cr_AuthenticatorAttachment := t\<rparr> else x) in f x)
      = f (r\<lparr>cr_SignCount := (if a then n else cr_SignCount r), cr_BackupState := (if b then m else cr_BackupState r),
          cr_UVInitialized := (if c then u else cr_UVInitialized r),
          cr_AuthenticatorAttachment := (if d then t else cr_AuthenticatorAttachment r)\<rparr>)"
    for a b c d n m u t and r :: CredentialRecord and f :: "CredentialRecord \<Rightarrow> e2e_store \<times> bool"
    by simp
  show ?thesis
    unfolding updateCredential_def Some option.case object_at_def [symmetric] record_update updatedRecord_def [symmetric]
    by (subst Let_def, unfold guard) auto
qed (auto simp: updateCredential_def)

lemma updateCredential_refines:
  assumes "indexed s" "updateCredential s now update = (s', b)"
  shows "b \<longleftrightarrow> (\<exists>r. records_of s (credentialKey (bv_bytes (cu_ID update))) = Some r \<and> matchesPrevious update r)" "indexed s'"
    "records_of s' = (if b then (records_of s) (credentialKey (bv_bytes (cu_ID update)) \<mapsto>
      updatedRecord update (the (records_of s (credentialKey (bv_bytes (cu_ID update)))))) else records_of s)"
    "\<not> b \<Longrightarrow> s' = s"
proof -
  let ?key = "credentialKey (bv_bytes (cu_ID update))"
  show b: "b \<longleftrightarrow> (\<exists>r. records_of s ?key = Some r \<and> matchesPrevious update r)"
    and same: "\<not> b \<Longrightarrow> s' = s"
    using assms(2) unfolding updateCredential_iff [OF assms(1)] by (auto simp: records_of_def split: option.splits if_splits)
  show "indexed s'" "records_of s' = (if b then (records_of s) (?key \<mapsto> updatedRecord update (the (records_of s ?key))) else records_of s)"
  proof (atomize (full), cases b)
    case False
    then show "indexed s' \<and> records_of s' = (if b then (records_of s) (?key \<mapsto> updatedRecord update (the (records_of s ?key))) else records_of s)"
      using same assms(1) by simp
  next
    case True
    obtain p where p: "map_of (st_credentialsByID s) ?key = Some p"
      and s': "s' = s\<lparr>st_heap := (st_heap s)[p := (st_heap s ! p)\<lparr>ec_Credential := updatedRecord update (object_at s p), ec_UpdatedAt := now\<rparr>]\<rparr>"
      using assms(2) True unfolding updateCredential_iff [OF assms(1)] by (auto split: option.splits if_splits)
    have bound: "p < length (st_heap s)"
      using p assms(1) by (auto simp: indexed_def)
    have obj: "object_at s' q = (if q = p then updatedRecord update (object_at s p) else object_at s q)" for q
      using bound by (auto simp: s' object_at_def)
    have same: "cr_ID (object_at s' q) = cr_ID (object_at s q)" "cr_UserHandle (object_at s' q) = cr_UserHandle (object_at s q)" for q
      by (simp_all add: obj updatedRecord_def)
    have ids: "st_credentialsByID s' = st_credentialsByID s" "pointersOf s' = pointersOf s" "length (st_heap s') = length (st_heap s)"
      by (auto simp: s' pointersOf_def)
    have "indexed s'"
      using assms(1) unfolding indexed_def same ids .
    moreover have "records_of s' k = ((records_of s) (?key \<mapsto> updatedRecord update (the (records_of s ?key)))) k" for k
    proof (cases "map_of (st_credentialsByID s) k")
      case (Some q)
      have "q = p \<longleftrightarrow> k = ?key"
        by (rule iffI) (use indexedD(2) [OF assms(1) Some] indexedD(2) [OF assms(1) p] in metis, use Some p in simp)
      then show ?thesis
        using Some p by (simp add: records_of_def ids obj)
    qed (use p in \<open>auto simp: records_of_def ids\<close>)
    ultimately show "indexed s' \<and> records_of s' = (if b then (records_of s) (?key \<mapsto> updatedRecord update (the (records_of s ?key))) else records_of s)"
      using True by (simp only: if_True) (blast intro: ext)
  qed
qed

section \<open>States are used once\<close>

interpretation e2e_registrations: one_time_store "\<lambda>_. True" "\<lambda>s. map_of (st_registrationStates s)"
    "\<lambda>s (_ :: unit). consumeRegistrationState s"
  by unfold_locales (auto simp: consumeRegistrationState_def split: option.splits)

interpretation e2e_authentications: one_time_store "\<lambda>_. True" "\<lambda>s. map_of (st_authenticationStates s)"
    "\<lambda>s (_ :: unit). consumeAuthenticationState s"
  by unfold_locales (auto simp: consumeAuthenticationState_def split: option.splits)

end
