(* ===== verification/Relying_Party.thy ===== *)
theory Relying_Party
  imports Credential_Update
begin

text \<open>
  \<^verbatim>\<open>src/config.go\<close> and \<^verbatim>\<open>src/relying_party.go\<close>: the reusable relying party, which validates its
  configuration once, fills in defaults, starts ceremonies from it and refuses states that
  another configuration produced.
\<close>

record RegistrationConfig =
  rc_AuthenticatorSelection :: "AuthenticatorSelectionCriteria option"
  rc_Attestation :: AttestationConveyancePreference
  rc_AttestationFormats :: "string list"
  rc_ExtensionInputPolicy :: ExtensionInputPolicy
  rc_ExtensionPolicy :: RegistrationExtensionPolicy

record AuthenticationConfig =
  ac_UserVerification :: UserVerificationRequirement
  ac_ExtensionInputPolicy :: ExtensionInputPolicy
  ac_ExtensionPolicy :: AuthenticationExtensionPolicy
  ac_CounterPolicy :: CounterPolicy

record Config =
  cfg_RP :: RPEntity
  cfg_OriginPolicy :: OriginPolicy
  cfg_PubKeyCredParams :: "CredentialParameter list"
  cfg_AttestationObjectDecoder :: AttestationObjectDecoder
  cfg_CredentialPublicKeyDecoder :: COSEKeyDecoder
  cfg_ExtensionMapDecoder :: ExtensionMapDecoder
  cfg_SignatureVerifier :: SignatureVerifier
  cfg_AlgorithmPolicy :: AlgorithmPolicy
  cfg_AttestationRegistry :: "att_registry option"
  cfg_AttestationTrustPolicy :: TrustPolicy
  cfg_ExtensionRegistry :: "ext_registry option"
  cfg_Registration :: RegistrationConfig
  cfg_Authentication :: AuthenticationConfig
  cfg_Timeout :: duration
  cfg_StateTTL :: duration
  cfg_ChallengeGenerator :: ChallengeGenerator
  cfg_Now :: "time option"

record RelyingParty =
  rp_config :: Config
  rp_algorithms :: "COSEAlgorithmIdentifier list"
  rp_ready :: bool

section \<open>Configuration\<close>

text \<open>
  The interfaces that must not be nil, in the order they are tested. \<open>dependency\<close> erases the
  type of an interface value, as passing it as \<^verbatim>\<open>any\<close> does; only nil-ness is looked at.
\<close>

definition dependency :: "string \<Rightarrow> 'a iface \<Rightarrow> string \<times> bool" where
  "dependency name v = (name, IsNil v)"

definition validateConfig :: "Config \<Rightarrow> go_std \<Rightarrow> error option" where
  "validateConfig c std =
    or_err (RPEntity_Validate (cfg_RP c))
    (or_err (validateOriginPolicy std (cfg_OriginPolicy c))
    (or_err (validateRPIDOriginPolicy std (rp_ID (cfg_RP c)) (cfg_OriginPolicy c))
    (and_err (timeoutState (cfg_Timeout c) (cfg_StateTTL c) 0) (\<lambda>_.
     or_err (validateFinishDependencies (cfg_AttestationObjectDecoder c) (cfg_CredentialPublicKeyDecoder c)
       (cfg_AttestationRegistry c))
    (or_err (first_err (\<lambda>(name, missing). if missing then Some (Newf (name @ '' is required'')) else None)
       [dependency ''extension map decoder'' (cfg_ExtensionMapDecoder c),
        dependency ''signature verifier'' (cfg_SignatureVerifier c),
        dependency ''algorithm policy'' (cfg_AlgorithmPolicy c),
        dependency ''attestation trust policy'' (cfg_AttestationTrustPolicy c),
        dependency ''challenge generator'' (cfg_ChallengeGenerator c)])
    (or_err (Selection_Validate (rc_AuthenticatorSelection (cfg_Registration c)))
    (or_err (validateUserVerification (ac_UserVerification (cfg_Authentication c)))
    (if \<not> Attestation_Known (rc_Attestation (cfg_Registration c))
     then Some (ValueError ''attestation'' (rc_Attestation (cfg_Registration c))) else
     or_err (first_err (\<lambda>format. if \<not> identifier_Valid format
        then Some (Newf ''invalid attestation format preference'') else None)
       (rc_AttestationFormats (cfg_Registration c)))
     (let counterPolicy = ac_CounterPolicy (cfg_Authentication c) in
      if cpol_RejectCloneRisk counterPolicy \<and> cpol_UpdateOnCloneRisk counterPolicy
      then Some (Newf ''clone-risk policy cannot reject and update'') else
      first_err (\<lambda>parameter. case cfg_AlgorithmPolicy c of
          Impl acceptsAlgorithm \<Rightarrow> if \<not> acceptsAlgorithm (cp_Algorithm parameter)
            then Some (Sentinel ErrUnsupportedAlgorithm) else None
        | _ \<Rightarrow> Some (External ''nil pointer dereference'')) (cfg_PubKeyCredParams c))))))))))"

text \<open>
  The defaults of \<^verbatim>\<open>New\<close>. A missing clock becomes \<^verbatim>\<open>time.Now\<close>, which is what \<open>None\<close> stands for
  in the options of a call.
\<close>

definition configDefaults :: "go_env \<Rightarrow> CredentialParameter list \<Rightarrow> Config \<Rightarrow> Config" where
  "configDefaults env parameters config =
    (let registration = cfg_Registration config; authentication = cfg_Authentication config in
     config\<lparr>cfg_OriginPolicy := OriginPolicy_clone (cfg_OriginPolicy config),
       cfg_PubKeyCredParams := parameters,
       cfg_Timeout := (if cfg_Timeout config = 0 then DefaultBrowserTimeout else cfg_Timeout config),
       cfg_StateTTL := (if cfg_StateTTL config = 0 then DefaultChallengeTTL else cfg_StateTTL config),
       cfg_ChallengeGenerator := (case cfg_ChallengeGenerator config of
           NilIface \<Rightarrow> Impl (\<lambda>ctx. Random_GenerateChallenge env \<lparr>rcg_Reader = NilIface, rcg_Length = 0\<rparr> (Some ctx))
         | generator \<Rightarrow> generator),
       cfg_Registration := registration\<lparr>
         rc_Attestation := (if rc_Attestation registration = [] then AttestationNone else rc_Attestation registration),
         rc_AuthenticatorSelection :=
           defaultedSelection (rc_AuthenticatorSelection registration) UserVerificationPreferred\<rparr>,
       cfg_Authentication := authentication\<lparr>
         ac_UserVerification := (if ac_UserVerification authentication = [] then UserVerificationPreferred
           else ac_UserVerification authentication)\<rparr>\<rparr>)"

definition New :: "go_std \<Rightarrow> go_env \<Rightarrow> Config \<Rightarrow> RelyingParty result" where
  "New std env config =
    and_then (wrap_res ErrInvalidConfiguration (registrationCredentialParameters (cfg_PubKeyCredParams config)))
    (\<lambda>parameters.
     let config = configDefaults env parameters config in
     check (wrap_err ErrInvalidConfiguration (validateConfig config std))
     (Inr \<lparr>rp_config = config, rp_algorithms = algorithmsFromParameters parameters, rp_ready = True\<rparr>))"

section \<open>Ceremonies of a relying party\<close>

record RegistrationRequest =
  rreq_User :: UserEntity
  rreq_ExcludeCredentials :: "CredentialDescriptor list"
  rreq_Extensions :: ExtensionInputs
  rreq_Hints :: "PublicKeyCredentialHint list"
  rreq_ConditionalMediation :: bool

record AuthenticationRequest =
  areq_AllowCredentials :: "CredentialDescriptor list"
  areq_ExpectedUserHandle :: UserHandle
  areq_Extensions :: ExtensionInputs
  areq_Hints :: "PublicKeyCredentialHint list"

record RegistrationVerification =
  rver_State :: RegistrationState
  rver_Response :: RegistrationResponse

record AuthenticationVerification =
  aver_State :: AuthenticationState
  aver_Response :: AuthenticationResponse
  aver_Credential :: CredentialRecord
  aver_UVInitializationAuthorized :: bool

definition registrationStartOptions :: "Config \<Rightarrow> RegistrationRequest \<Rightarrow> RegistrationStartOptions" where
  "registrationStartOptions c request =
    \<lparr>rso_RP = cfg_RP c, rso_User = rreq_User request, rso_OriginPolicy = cfg_OriginPolicy c,
     rso_ConditionalMediation = rreq_ConditionalMediation request, rso_Challenge = zero_byteValue,
     rso_ChallengeGenerator = cfg_ChallengeGenerator c, rso_PubKeyCredParams = cfg_PubKeyCredParams c,
     rso_Timeout = cfg_Timeout c, rso_StateTTL = cfg_StateTTL c,
     rso_ExcludeCredentials = rreq_ExcludeCredentials request,
     rso_AuthenticatorSelection = rc_AuthenticatorSelection (cfg_Registration c), rso_Hints = rreq_Hints request,
     rso_Attestation = rc_Attestation (cfg_Registration c),
     rso_AttestationFormats = rc_AttestationFormats (cfg_Registration c), rso_Extensions = rreq_Extensions request,
     rso_ExtensionRegistry = cfg_ExtensionRegistry c,
     rso_ExtensionInputPolicy = rc_ExtensionInputPolicy (cfg_Registration c), rso_Now = cfg_Now c\<rparr>"

definition RP_StartRegistration ::
  "go_std \<Rightarrow> go_env \<Rightarrow> RelyingParty option \<Rightarrow> ctx option \<Rightarrow> RegistrationRequest \<Rightarrow> RegistrationStartResult result" where
  "RP_StartRegistration std env rp ctx request =
    (case rp of None \<Rightarrow> Inl (Sentinel ErrInvalidConfiguration)
     | Some r \<Rightarrow> if \<not> rp_ready r then Inl (Sentinel ErrInvalidConfiguration)
         else StartRegistration std env ctx (registrationStartOptions (rp_config r) request))"

definition matchesOrigin :: "RelyingParty \<Rightarrow> string \<Rightarrow> OriginPolicy \<Rightarrow> bool" where
  "matchesOrigin rp rpID policy \<longleftrightarrow>
    (let c = rp_config rp in
     rpID = rp_ID (cfg_RP c) \<and> op_AllowedOrigins policy = op_AllowedOrigins (cfg_OriginPolicy c) \<and>
     op_AllowedTopOrigins policy = op_AllowedTopOrigins (cfg_OriginPolicy c) \<and>
     op_AllowRelatedOrigins policy = op_AllowRelatedOrigins (cfg_OriginPolicy c) \<and>
     op_AllowCrossOriginWithoutTopOrigin policy = op_AllowCrossOriginWithoutTopOrigin (cfg_OriginPolicy c))"

definition registrationFinishOptions :: "Config \<Rightarrow> RegistrationVerification \<Rightarrow> RegistrationFinishOptions" where
  "registrationFinishOptions c request =
    \<lparr>rfo_State = rver_State request, rfo_Response = rver_Response request,
     rfo_AttestationObjectDecoder = cfg_AttestationObjectDecoder c,
     rfo_CredentialPublicKeyDecoder = cfg_CredentialPublicKeyDecoder c,
     rfo_ExtensionMapDecoder = cfg_ExtensionMapDecoder c, rfo_AttestationRegistry = cfg_AttestationRegistry c,
     rfo_AttestationTrustPolicy = cfg_AttestationTrustPolicy c, rfo_ExtensionRegistry = cfg_ExtensionRegistry c,
     rfo_ExtensionPolicy = rc_ExtensionPolicy (cfg_Registration c), rfo_Now = cfg_Now c\<rparr>"

definition registrationStateMatches :: "RelyingParty \<Rightarrow> RegistrationState \<Rightarrow> bool" where
  "registrationStateMatches rp s \<longleftrightarrow>
    matchesOrigin rp (rs_RPID s) (rs_OriginPolicy s) \<and>
    rs_RequestedUserVerification s
      = registrationUserVerification (rc_AuthenticatorSelection (cfg_Registration (rp_config rp))) \<and>
    rs_AllowedAlgorithms s = rp_algorithms rp \<and> rs_Attestation s = rc_Attestation (cfg_Registration (rp_config rp))"

definition RP_FinishRegistration ::
  "go_std \<Rightarrow> go_env \<Rightarrow> RelyingParty option \<Rightarrow> ctx option \<Rightarrow> RegistrationVerification \<Rightarrow> RegistrationResult result" where
  "RP_FinishRegistration std env rp ctx request =
    (case rp of None \<Rightarrow> Inl (Sentinel ErrInvalidConfiguration)
     | Some r \<Rightarrow> if \<not> rp_ready r then Inl (Sentinel ErrInvalidConfiguration)
         else if \<not> registrationStateMatches r (rver_State request)
         then Inl (Notef ErrInvalidCeremonyState ''state does not match relying party configuration'')
         else FinishRegistration std env ctx (registrationFinishOptions (rp_config r) request))"

definition authenticationStartOptions :: "Config \<Rightarrow> AuthenticationRequest \<Rightarrow> AuthenticationStartOptions" where
  "authenticationStartOptions c request =
    \<lparr>aso_RPID = rp_ID (cfg_RP c), aso_OriginPolicy = cfg_OriginPolicy c, aso_Challenge = zero_byteValue,
     aso_ChallengeGenerator = cfg_ChallengeGenerator c, aso_Timeout = cfg_Timeout c, aso_StateTTL = cfg_StateTTL c,
     aso_AllowCredentials = areq_AllowCredentials request,
     aso_UserVerification = ac_UserVerification (cfg_Authentication c), aso_Hints = areq_Hints request,
     aso_Extensions = areq_Extensions request, aso_ExtensionRegistry = cfg_ExtensionRegistry c,
     aso_ExtensionInputPolicy = ac_ExtensionInputPolicy (cfg_Authentication c),
     aso_ExpectedUserHandle = areq_ExpectedUserHandle request, aso_Now = cfg_Now c\<rparr>"

definition RP_StartAuthentication ::
  "go_std \<Rightarrow> go_env \<Rightarrow> RelyingParty option \<Rightarrow> ctx option \<Rightarrow> AuthenticationRequest \<Rightarrow> AuthenticationStartResult result" where
  "RP_StartAuthentication std env rp ctx request =
    (case rp of None \<Rightarrow> Inl (Sentinel ErrInvalidConfiguration)
     | Some r \<Rightarrow> if \<not> rp_ready r then Inl (Sentinel ErrInvalidConfiguration)
         else StartAuthentication std env ctx (authenticationStartOptions (rp_config r) request))"

definition authenticationFinishOptions :: "Config \<Rightarrow> AuthenticationVerification \<Rightarrow> AuthenticationFinishOptions" where
  "authenticationFinishOptions c request =
    \<lparr>afo_State = aver_State request, afo_Response = aver_Response request, afo_Credential = aver_Credential request,
     afo_ExtensionMapDecoder = cfg_ExtensionMapDecoder c, afo_SignatureVerifier = cfg_SignatureVerifier c,
     afo_AlgorithmPolicy = cfg_AlgorithmPolicy c, afo_ExtensionRegistry = cfg_ExtensionRegistry c,
     afo_ExtensionPolicy = ac_ExtensionPolicy (cfg_Authentication c),
     afo_CounterPolicy = ac_CounterPolicy (cfg_Authentication c),
     afo_UVInitializationAuthorized = aver_UVInitializationAuthorized request, afo_Now = cfg_Now c\<rparr>"

definition authenticationStateMatches :: "RelyingParty \<Rightarrow> AuthenticationState \<Rightarrow> bool" where
  "authenticationStateMatches rp s \<longleftrightarrow>
    matchesOrigin rp (as_RPID s) (as_OriginPolicy s) \<and>
    as_RequestedUserVerification s = ac_UserVerification (cfg_Authentication (rp_config rp))"

definition RP_FinishAuthentication ::
  "go_std \<Rightarrow> go_env \<Rightarrow> RelyingParty option \<Rightarrow> ctx option \<Rightarrow> AuthenticationVerification \<Rightarrow> AuthenticationResult result" where
  "RP_FinishAuthentication std env rp ctx request =
    (case rp of None \<Rightarrow> Inl (Sentinel ErrInvalidConfiguration)
     | Some r \<Rightarrow> if \<not> rp_ready r then Inl (Sentinel ErrInvalidConfiguration)
         else if \<not> authenticationStateMatches r (aver_State request)
         then Inl (Notef ErrInvalidCeremonyState ''state does not match relying party configuration'')
         else check (CredentialRecord_Validate (aver_Credential request))
          (if cpk_Algorithm (cr_PublicKey (aver_Credential request)) \<notin> set (rp_algorithms r)
           then Inl (Sentinel ErrUnsupportedAlgorithm)
           else FinishAuthentication std env ctx (authenticationFinishOptions (rp_config r) request)))"

section \<open>What a configured relying party guarantees\<close>

lemma New_InrE:
  assumes "New std env config = Inr rp"
  obtains parameters where
    "registrationCredentialParameters (cfg_PubKeyCredParams config) = Inr parameters"
    "rp_config rp = configDefaults env parameters config" "rp_ready rp"
    "rp_algorithms rp = map cp_Algorithm parameters" "validateConfig (rp_config rp) std = None"
  using assms by (auto simp: New_def Let_def algorithmsFromParameters_def and_then_Inr_iff check_Inr_iff)

lemma configDefaults_simps [simp]:
  "cfg_PubKeyCredParams (configDefaults env ps config) = ps"
  "cfg_RP (configDefaults env ps config) = cfg_RP config"
  "cfg_OriginPolicy (configDefaults env ps config) = cfg_OriginPolicy config"
  "cfg_ExtensionRegistry (configDefaults env ps config) = cfg_ExtensionRegistry config"
  "rc_Attestation (cfg_Registration (configDefaults env ps config)) \<noteq> []"
  "ac_UserVerification (cfg_Authentication (configDefaults env ps config)) \<noteq> []"
  by (simp_all add: configDefaults_def Let_def AttestationNone_def UserVerificationPreferred_def)

lemma matchesOrigin_iff: "matchesOrigin rp rpID policy \<longleftrightarrow> rpID = rp_ID (cfg_RP (rp_config rp)) \<and> policy = cfg_OriginPolicy (rp_config rp)"
  by (cases policy; cases "cfg_OriginPolicy (rp_config rp)") (auto simp: matchesOrigin_def Let_def)

lemma validateConfig_NoneD:
  assumes "validateConfig c std = None"
  shows "\<not> IsNil (cfg_AttestationObjectDecoder c) \<and> \<not> IsNil (cfg_CredentialPublicKeyDecoder c) \<and>
    \<not> IsNil (cfg_ExtensionMapDecoder c) \<and> \<not> IsNil (cfg_SignatureVerifier c) \<and> \<not> IsNil (cfg_AlgorithmPolicy c) \<and>
    \<not> IsNil (cfg_AttestationTrustPolicy c) \<and> \<not> IsNil (cfg_ChallengeGenerator c) \<and> cfg_AttestationRegistry c \<noteq> None \<and>
    \<not> (cpol_RejectCloneRisk (ac_CounterPolicy (cfg_Authentication c)) \<and>
      cpol_UpdateOnCloneRisk (ac_CounterPolicy (cfg_Authentication c))) \<and>
    validateOriginPolicy std (cfg_OriginPolicy c) = None \<and>
    validateRPIDOriginPolicy std (rp_ID (cfg_RP c)) (cfg_OriginPolicy c) = None"
  using assms
  by (simp only: validateConfig_def or_err_None_iff and_err_None_iff if_Some_None_iff validateFinishDependencies_None_iff
      first_err_None_iff dependency_def Let_def list.set insert_iff empty_iff ball_simps prod.case) blast

lemma validateConfig_algorithms:
  assumes "validateConfig c std = None" "parameter \<in> set (cfg_PubKeyCredParams c)"
  shows "\<exists>f. cfg_AlgorithmPolicy c = Impl f \<and> f (cp_Algorithm parameter)"
proof -
  have "first_err (\<lambda>parameter. case cfg_AlgorithmPolicy c of
      Impl acceptsAlgorithm \<Rightarrow> if \<not> acceptsAlgorithm (cp_Algorithm parameter)
        then Some (Sentinel ErrUnsupportedAlgorithm) else None
    | _ \<Rightarrow> Some (External ''nil pointer dereference'')) (cfg_PubKeyCredParams c) = None"
    using assms(1)
    by (simp only: validateConfig_def or_err_None_iff and_err_None_iff if_Some_None_iff Let_def) blast
  then show ?thesis
    using assms(2) by (cases "cfg_AlgorithmPolicy c") (auto simp: first_err_None_iff split: if_splits)
qed

text \<open>A ceremony started by a relying party is one its own finish recognises.\<close>

lemma RP_StartRegistration_matches:
  assumes "New std env config = Inr rp" "RP_StartRegistration std env (Some rp) ctx request = Inr out"
  shows "registrationStateMatches rp (rsr_State out)"
proof -
  obtain parameters where params: "registrationCredentialParameters (cfg_PubKeyCredParams config) = Inr parameters"
    and rp: "rp_config rp = configDefaults env parameters config" "rp_ready rp" "rp_algorithms rp = map cp_Algorithm parameters"
    using assms(1) by (rule New_InrE)
  have run: "StartRegistration std env ctx (registrationStartOptions (rp_config rp) request) = Inr out"
    using assms(2) rp(2) by (simp add: RP_StartRegistration_def)
  show ?thesis
    using registrationCredentialParameters_idem [OF params] rp
    by (rule_tac StartRegistration_InrE [OF run])
      (auto simp: registrationStateMatches_def matchesOrigin_iff registrationStartOptions_def)
qed

lemma RP_StartAuthentication_matches:
  assumes "New std env config = Inr rp" "RP_StartAuthentication std env (Some rp) ctx request = Inr out"
  shows "authenticationStateMatches rp (asr_State out)"
proof -
  obtain parameters where rp: "rp_config rp = configDefaults env parameters config" "rp_ready rp"
    using assms(1) by (rule New_InrE)
  have run: "StartAuthentication std env ctx (authenticationStartOptions (rp_config rp) request) = Inr out"
    using assms(2) rp(2) by (simp add: RP_StartAuthentication_def)
  show ?thesis
    using rp
    by (rule_tac StartAuthentication_InrE [OF run])
      (auto simp: authenticationStateMatches_def matchesOrigin_iff authenticationStartOptions_def)
qed

end
