(* ===== verification/Attestation_Compound.thy ===== *)
theory Attestation_Compound
  imports Attestation_Core
begin

text \<open>
  \<^verbatim>\<open>src/attestation/compound/compound.go\<close>: the compound format, which verifies the
  sub-statements of an attacker-controlled array through a registry and counts successes.
  The context is polled once before each sub-statement.
\<close>

definition compound_Format :: string where "compound_Format = ''compound''"
definition DefaultMaxStatements :: int where "DefaultMaxStatements = 16"
definition maxConfiguredStatements :: int where "maxConfiguredStatements = 64"
definition CompoundSubStatementsKey :: string where "CompoundSubStatementsKey = ''statements''"

record compound_Policy =
  cmp_MinimumSuccessful :: int
  cmp_RequireAll :: bool
  cmp_MaxStatements :: int

record CompoundSubStatement =
  css_Format :: string
  css_Statement :: AttestationStatement

fun assert_SubStatements :: "goval \<Rightarrow> (string \<times> AttestationStatement option) list option" where
  "assert_SubStatements (VSubStatements s) = Some (case s of None \<Rightarrow> [] | Some l \<Rightarrow> l)"
| "assert_SubStatements _ = None"

definition compoundSubStatements :: "AttestationStatement \<Rightarrow> CompoundSubStatement list result" where
  "compoundSubStatements statement =
    (if length statement \<noteq> 1 then Inl (Sentinel ErrCompoundInvalidStatement) else
     case map_of statement CompoundSubStatementsKey of
       None \<Rightarrow> Inl (Sentinel ErrCompoundInvalidStatement)
     | Some raw \<Rightarrow> (case assert_SubStatements raw of
         None \<Rightarrow> Inl (Sentinel ErrCompoundInvalidStatement)
       | Some statements \<Rightarrow>
         if length statements < 2 then Inl (Sentinel ErrCompoundInvalidStatement) else
         map_res (\<lambda>(format, s). case s of
             None \<Rightarrow> Inl (Sentinel ErrCompoundInvalidStatement)
           | Some stmt \<Rightarrow> if \<not> identifier_Valid format then Inl (Sentinel ErrCompoundInvalidStatement)
               else Inr \<lparr>css_Format = format, css_Statement = stmt\<rparr>) statements))"

definition requiredSuccesses :: "compound_Policy \<Rightarrow> int \<Rightarrow> int result" where
  "requiredSuccesses policy n =
    (if n < 2 then Inl (Sentinel ErrCompoundInvalidStatement) else
     let maximum = (if cmp_MaxStatements policy = 0 then DefaultMaxStatements else cmp_MaxStatements policy) in
     if maximum < 2 \<or> maximum > maxConfiguredStatements \<or> n > maximum
     then Inl (Sentinel ErrCompoundInvalidStatement)
     else if cmp_RequireAll policy \<or> cmp_MinimumSuccessful policy = 0 then Inr n
     else if cmp_MinimumSuccessful policy < 0 \<or> cmp_MinimumSuccessful policy > n
     then Inl (Sentinel ErrCompoundInvalidStatement)
     else Inr (cmp_MinimumSuccessful policy))"

definition subRequest :: "VerificationRequest \<Rightarrow> CompoundSubStatement \<Rightarrow> VerificationRequest" where
  "subRequest request statement =
    request\<lparr>vq_Format := css_Format statement, vq_Statement := css_Statement statement\<rparr>"

definition resultUsable :: "VerificationResult \<Rightarrow> bool" where
  "resultUsable res \<longleftrightarrow> \<not> (\<not> vr_CryptographicallyValid res \<or> \<not> Type_Known (vr_Type res)
    \<or> \<not> TrustPathKind_Known (tp_Kind (vr_TrustPath res)))"

text \<open>The loop over the sub-statements; the number of successes is the length of the results.\<close>

fun verifyStatements :: "att_registry option \<Rightarrow> ctx \<Rightarrow> VerificationRequest \<Rightarrow> nat \<Rightarrow> CompoundSubStatement list
  \<Rightarrow> VerificationResult list \<Rightarrow> string list \<Rightarrow> (VerificationResult list \<times> string list) result" where
  "verifyStatements registry ctx request i [] results warnings = Inr (results, warnings)"
| "verifyStatements registry ctx request i (statement # statements) results warnings =
    check (ctx i)
    (if css_Format statement = compound_Format then Inl (Sentinel ErrCompoundInvalidStatement) else
     case att_Lookup registry (css_Format statement) of
       None \<Rightarrow> verifyStatements registry ctx request (i + 1) statements results
         (warnings @ [''compound sub-statement verifier missing: '' @ css_Format statement])
     | Some verifier \<Rightarrow>
       (case v_VerifyAttestation verifier (Some ctx) (subRequest request statement) of
          Inl _ \<Rightarrow> verifyStatements registry ctx request (i + 1) statements results
            (warnings @ [''compound sub-statement failed: '' @ css_Format statement])
        | Inr res \<Rightarrow>
            if \<not> resultUsable res
            then verifyStatements registry ctx request (i + 1) statements results
              (warnings @ [''compound sub-statement invalid: '' @ css_Format statement])
            else verifyStatements registry ctx request (i + 1) statements
              (results @ [VerificationResult_Clone res]) warnings))"

definition compound_VerifyAttestation ::
  "att_registry option \<Rightarrow> compound_Policy \<Rightarrow> ctx option \<Rightarrow> VerificationRequest \<Rightarrow> VerificationResult result" where
  "compound_VerifyAttestation registry policy ctx request =
    (if vq_Format request \<noteq> compound_Format then Inl (Sentinel ErrCompoundInvalidStatement)
     else if registry = None then Inl (Sentinel ErrCompoundVerifier)
     else
     and_then (compoundSubStatements (vq_Statement request)) (\<lambda>statements.
     and_then (requiredSuccesses policy (int (length statements))) (\<lambda>required.
     and_then (verifyStatements registry (normalizeContext ctx) request 0 statements [] []) (\<lambda>(results, warnings).
     if int (length results) < required
     then Inl (Notef ErrInsufficientStatements
       (''got '' @ itoa (int (length results)) @ '' want '' @ itoa required))
     else Inr (VerificationResult TypeUncertain (TrustPath TrustPathCompound [] None (Some results)) True warnings
       (Impl (CompoundEvidence (int (length results)) required)))))))"

definition compound_Verifier :: "att_registry option \<Rightarrow> compound_Policy \<Rightarrow> Verifier" where
  "compound_Verifier registry policy =
    \<lparr>v_Format = compound_Format, v_VerifyAttestation = compound_VerifyAttestation registry policy\<rparr>"

section \<open>What a compound result stands for\<close>

text \<open>
  A sub-statement is verified when the registry has a verifier for its format (which is not
  the compound format itself) and that verifier returns a usable result.
\<close>

definition verifiedBy :: "att_registry option \<Rightarrow> ctx \<Rightarrow> VerificationRequest \<Rightarrow> CompoundSubStatement \<Rightarrow> VerificationResult option" where
  "verifiedBy registry ctx request statement =
    (case att_Lookup registry (css_Format statement) of None \<Rightarrow> None
     | Some verifier \<Rightarrow>
       (case v_VerifyAttestation verifier (Some ctx) (subRequest request statement) of
          Inl _ \<Rightarrow> None
        | Inr res \<Rightarrow> if resultUsable res then Some (VerificationResult_Clone res) else None))"

lemma verifyStatements_Inr_iff:
  "(\<exists>warnings'. verifyStatements registry ctx request i statements results warnings = Inr (results', warnings')) \<longleftrightarrow>
    (\<forall>j<length statements. ctx (i + j) = None) \<and> (\<forall>s\<in>set statements. css_Format s \<noteq> compound_Format) \<and>
    results' = results @ List.map_filter (verifiedBy registry ctx request) statements"
proof (induction statements arbitrary: i results warnings)
  case (Cons s ss)
  have polls: "(\<forall>j<length (s # ss). ctx (i + j) = None) \<longleftrightarrow> ctx i = None \<and> (\<forall>j<length ss. ctx (i + 1 + j) = None)"
    by (simp add: All_less_Suc2)
  show ?case
    unfolding polls
    by (cases "verifiedBy registry ctx request s")
      (auto simp: check_Inr_iff Cons.IH [simplified] verifiedBy_def [of registry ctx request s] map_filter_simps
        split: option.splits sum.splits if_splits)
qed (auto simp: map_filter_simps)

lemma verifyStatements_results:
  "verifyStatements registry ctx request i statements results warnings = Inr (results', warnings') \<Longrightarrow>
    (\<forall>s\<in>set statements. css_Format s \<noteq> compound_Format) \<and>
    results' = results @ List.map_filter (verifiedBy registry ctx request) statements"
  using verifyStatements_Inr_iff by blast

lemma length_map_filter_le: "length (List.map_filter f xs) \<le> length xs"
  by (induction xs) (auto simp: map_filter_simps split: option.split)

lemma requiredSuccesses_bounds:
  "requiredSuccesses policy n = Inr required \<Longrightarrow>
    2 \<le> n \<and> n \<le> 64 \<and> 1 \<le> required \<and> required \<le> n \<and>
    required = (if cmp_RequireAll policy \<or> cmp_MinimumSuccessful policy = 0 then n else cmp_MinimumSuccessful policy)"
  by (auto simp: requiredSuccesses_def Let_def maxConfiguredStatements_def DefaultMaxStatements_def split: if_splits)

end
