(* ===== verification/Cbor_Codec.thy ===== *)
theory Cbor_Codec
  imports Attestation_Compound
begin

text \<open>
  \<^verbatim>\<open>src/codec/cbor\<close>: the decoders of attestation objects, extension maps and COSE keys. The CBOR grammar
  itself is the third-party package \<^verbatim>\<open>fxamacker/cbor\<close>: the record \<open>go_cbor\<close> holds its configured decoder
  (\<^verbatim>\<open>Unmarshal\<close>, \<^verbatim>\<open>UnmarshalFirst\<close>), its canonical encoder (\<^verbatim>\<open>Marshal\<close>), and the point validation of
  \<^verbatim>\<open>crypto/ecdh\<close>. A decoder is an option: the nil pointer is \<open>None\<close>.
\<close>

record go_cbor =
  cbor_Unmarshal :: "bytes \<Rightarrow> goval result"
  cbor_UnmarshalFirst :: "bytes \<Rightarrow> (goval \<times> bytes) result"
  cbor_Marshal :: "goval \<Rightarrow> bytes result"
  ecdh_NewPublicKey :: "string \<Rightarrow> bytes \<Rightarrow> bool"

definition MaxCBORBytes :: int where "MaxCBORBytes = 1048576"

section \<open>Maps\<close>

fun stringEntries :: "(goval \<times> goval) list \<Rightarrow> goval go_map option" where
  "stringEntries [] = Some []"
| "stringEntries ((VString name, item) # es) = map_option (\<lambda>rest. (name, item) # rest) (stringEntries es)"
| "stringEntries _ = None"

fun stringMap :: "goval \<Rightarrow> goval go_map option" where
  "stringMap (VMap k t es) =
    (if (k = TString \<or> k = TIface) \<and> t = TIface
     then stringEntries (case es of None \<Rightarrow> [] | Some entries \<Rightarrow> entries) else None)"
| "stringMap _ = None"

fun integerKey :: "goval \<Rightarrow> int option" where
  "integerKey (VInt k n) =
    (if k = KInt64 \<or> k = KInt then Some n
     else if k = KUint64 \<or> k = KUint then (if n > 9223372036854775807 then None else Some n)
     else None)"
| "integerKey _ = None"

type_synonym int_map = "(int \<times> goval) list"

fun integerEntries :: "int_map \<Rightarrow> (goval \<times> goval) list \<Rightarrow> int_map option" where
  "integerEntries out [] = Some out"
| "integerEntries out ((key, item) # es) =
    (case integerKey key of None \<Rightarrow> None | Some n \<Rightarrow> integerEntries (AList.update n item out) es)"

fun integerMap :: "goval \<Rightarrow> int_map option" where
  "integerMap (VMap k t es) =
    (if k = TIface \<and> t = TIface then integerEntries [] (case es of None \<Rightarrow> [] | Some entries \<Rightarrow> entries) else None)"
| "integerMap _ = None"

section \<open>Canonical values\<close>

definition validateCanonical :: "go_cbor option \<Rightarrow> bytes \<Rightarrow> goval result" where
  "validateCanonical d data =
    (case d of None \<Rightarrow> Inl (Newf ''nil cbor decoder'')
     | Some c \<Rightarrow>
       if length data = 0 \<or> int (length data) > MaxCBORBytes then Inl (Sentinel ErrMalformedCBOR) else
       and_then (wrap_res ErrMalformedCBOR (cbor_Unmarshal c data)) (\<lambda>decoded.
       and_then (wrap_res ErrMalformedCBOR (cbor_Marshal c decoded)) (\<lambda>encoded.
       if encoded \<noteq> data then Inl (Sentinel ErrMalformedCBOR) else Inr decoded)))"

fun cbor_text :: "goval \<Rightarrow> string option" where
  "cbor_text (VString s) = Some s"
| "cbor_text _ = None"

fun cbor_bytes :: "goval \<Rightarrow> bytes option" where
  "cbor_bytes (VBytes b) = Some (bytes_of b)"
| "cbor_bytes _ = None"

fun cbor_array :: "goval \<Rightarrow> goval list option" where
  "cbor_array (VSlice t xs) = (if t = TIface then Some (case xs of None \<Rightarrow> [] | Some ys \<Rightarrow> ys) else None)"
| "cbor_array _ = None"

definition map_field :: "goval go_map \<Rightarrow> string \<Rightarrow> goval" where
  "map_field m key = (case map_of m key of None \<Rightarrow> VNil | Some v \<Rightarrow> v)"

section \<open>Attestation objects and extension maps\<close>

text \<open>One sub-statement of a compound statement: the body of the loop.\<close>

definition decodeSubStatement :: "goval \<Rightarrow> (string \<times> (string \<times> goval) list option) result" where
  "decodeSubStatement rawStatement =
    (case stringMap rawStatement of None \<Rightarrow> Inl (Sentinel ErrMalformedCBOR)
     | Some members \<Rightarrow>
       if length members \<noteq> 2 then Inl (Sentinel ErrMalformedCBOR) else
       (case cbor_text (map_field members ''fmt'') of None \<Rightarrow> Inl (Sentinel ErrMalformedCBOR)
        | Some format \<Rightarrow>
          if \<not> identifier_Valid format \<or> format = compound_Format then Inl (Sentinel ErrMalformedCBOR) else
          (case stringMap (map_field members ''attStmt'') of None \<Rightarrow> Inl (Sentinel ErrMalformedCBOR)
           | Some statement \<Rightarrow> Inr (format, Some statement))))"

definition decodeAttestationStatement :: "string \<Rightarrow> goval \<Rightarrow> AttestationStatement result" where
  "decodeAttestationStatement format v =
    (if format \<noteq> compound_Format then
       (case stringMap v of None \<Rightarrow> Inl (Sentinel ErrMalformedCBOR) | Some statement \<Rightarrow> Inr statement)
     else
       (case cbor_array v of None \<Rightarrow> Inl (Sentinel ErrMalformedCBOR)
        | Some rawStatements \<Rightarrow>
          if length rawStatements < 2 then Inl (Sentinel ErrMalformedCBOR) else
          and_then (map_res decodeSubStatement rawStatements) (\<lambda>statements.
          Inr [(CompoundSubStatementsKey, VSubStatements (Some statements))])))"

definition DecodeAttestationObject :: "go_cbor option \<Rightarrow> AttestationObject \<Rightarrow> DecodedAttestationObject result" where
  "DecodeAttestationObject d raw =
    and_then (validateCanonical d (bv_bytes raw)) (\<lambda>decodedValue.
    case stringMap decodedValue of None \<Rightarrow> Inl (Sentinel ErrMalformedCBOR)
    | Some members \<Rightarrow>
    if length members \<noteq> 3 then Inl (Sentinel ErrMalformedCBOR) else
    case cbor_text (map_field members ''fmt'') of None \<Rightarrow> Inl (Sentinel ErrMalformedCBOR)
    | Some format \<Rightarrow>
    if \<not> identifier_Valid format then Inl (Sentinel ErrMalformedCBOR) else
    case cbor_bytes (map_field members ''authData'') of None \<Rightarrow> Inl (Sentinel ErrMalformedCBOR)
    | Some authenticatorData \<Rightarrow>
    if length authenticatorData = 0 then Inl (Sentinel ErrMalformedCBOR)
    else if map_field members ''attStmt'' = VNil then Inl (Sentinel ErrMalformedCBOR) else
    and_then (decodeAttestationStatement format (map_field members ''attStmt'')) (\<lambda>statement.
    and_then (NewAuthenticatorData (Some authenticatorData)) (\<lambda>authData.
    Inr \<lparr>dao_Format = format, dao_AuthenticatorData = authData, dao_Statement = statement, dao_Raw = raw\<rparr>)))"

definition DecodeExtensionMap :: "go_cbor option \<Rightarrow> bytes \<Rightarrow> ExtensionMap result" where
  "DecodeExtensionMap d raw =
    and_then (validateCanonical d raw) (\<lambda>decodedValue.
    case stringMap decodedValue of None \<Rightarrow> Inl (Sentinel ErrMalformedCBOR) | Some extensions \<Rightarrow> Inr extensions)"

section \<open>Credential public keys\<close>

definition credentialKeyOKP :: int where "credentialKeyOKP = 1"
definition credentialKeyEC2 :: int where "credentialKeyEC2 = 2"
definition credentialKeyRSA :: int where "credentialKeyRSA = 3"

definition int_field :: "int_map \<Rightarrow> int \<Rightarrow> goval" where
  "int_field m label = (case map_of m label of None \<Rightarrow> VNil | Some v \<Rightarrow> v)"

definition credentialKeyInteger :: "int_map \<Rightarrow> int \<Rightarrow> int option" where
  "credentialKeyInteger key label =
    (case integerKey (int_field key label) of None \<Rightarrow> None
     | Some v \<Rightarrow> if v < - 2147483648 \<or> v > 2147483647 then None else Some v)"

definition credentialKeyBytes :: "int_map \<Rightarrow> int \<Rightarrow> bytes option" where
  "credentialKeyBytes key label = cbor_bytes (int_field key label)"

definition validateCredentialPublicKeyParameters :: "int_map \<Rightarrow> int \<Rightarrow> error option" where
  "validateCredentialPublicKeyParameters parameters keyType =
    (if map_of parameters 1 = None \<or> map_of parameters 3 = None then Some (Sentinel ErrMalformedCBOR)
     else if keyType \<noteq> credentialKeyEC2 \<and> keyType \<noteq> credentialKeyRSA \<and> keyType \<noteq> credentialKeyOKP then
       (if list_ex (\<lambda>optional. map_of parameters optional \<noteq> None) [2, 4, 5] then Some (Sentinel ErrMalformedCBOR) else None)
     else
       let allowed = (if keyType = credentialKeyEC2 then [1, 3, -1, -2, -3] else [1, 3, -1, -2]) in
       if length parameters \<noteq> length allowed then Some (Sentinel ErrMalformedCBOR)
       else if list_ex (\<lambda>(parameter, _). parameter \<notin> set allowed) parameters then Some (Sentinel ErrMalformedCBOR)
       else None)"

definition noMaterial :: CredentialPublicKeyMaterial where
  "noMaterial = \<lparr>mat_EC2 = None, mat_RSA = None, mat_OKP = None\<rparr>"

definition ec2Curve :: "int \<Rightarrow> (string \<times> nat) option" where
  "ec2Curve curve =
    (if curve = 1 then Some (EC2CurveP256, 32) else if curve = 2 then Some (EC2CurveP384, 48)
     else if curve = 3 then Some (EC2CurveP521, 66) else None)"

definition okpCurve :: "int \<Rightarrow> (string \<times> nat) option" where
  "okpCurve curve =
    (if curve = 6 then Some (OKPCurveEd25519, 32) else if curve = 7 then Some (OKPCurveEd448, 57) else None)"

definition ec2PublicKeyMaterial :: "int_map \<Rightarrow> CredentialPublicKeyMaterial" where
  "ec2PublicKeyMaterial key =
    (case (credentialKeyInteger key (-1), credentialKeyBytes key (-2), credentialKeyBytes key (-3)) of
       (Some curve, Some x, Some y) \<Rightarrow>
         (case ec2Curve curve of None \<Rightarrow> noMaterial
          | Some (curveName, coordinateLength) \<Rightarrow>
            if length x \<noteq> coordinateLength \<or> length y \<noteq> coordinateLength then noMaterial
            else noMaterial\<lparr>mat_EC2 := Some \<lparr>ec2_Curve = curveName, ec2_X = x, ec2_Y = y\<rparr>\<rparr>)
     | _ \<Rightarrow> noMaterial)"

definition okpPublicKeyMaterial :: "int_map \<Rightarrow> CredentialPublicKeyMaterial" where
  "okpPublicKeyMaterial key =
    (case (credentialKeyInteger key (-1), credentialKeyBytes key (-2)) of
       (Some curve, Some x) \<Rightarrow>
         (case okpCurve curve of None \<Rightarrow> noMaterial
          | Some (curveName, coordinateLength) \<Rightarrow>
            if length x \<noteq> coordinateLength then noMaterial
            else let algorithm = (case credentialKeyInteger key 3 of None \<Rightarrow> 0 | Some a \<Rightarrow> a) in
              if (algorithm = AlgorithmEdDSA \<or> algorithm = AlgorithmEd25519) \<and> curve \<noteq> 6 then noMaterial
              else if algorithm = AlgorithmEd448 \<and> curve \<noteq> 7 then noMaterial
              else noMaterial\<lparr>mat_OKP := Some \<lparr>okp_Curve = curveName, okp_X = x\<rparr>\<rparr>)
     | _ \<Rightarrow> noMaterial)"

definition padExponent :: "bytes \<Rightarrow> 32 word" where
  "padExponent bs = (let p = replicate (4 - length bs) 0 @ bs in be32 (p ! 0) (p ! 1) (p ! 2) (p ! 3))"

definition rsaPublicKeyMaterial :: "int_map \<Rightarrow> CredentialPublicKeyMaterial" where
  "rsaPublicKeyMaterial key =
    (case credentialKeyBytes key (-1) of None \<Rightarrow> noMaterial
     | Some modulus \<Rightarrow>
       if modulus = [] \<or> hd modulus = 0 then noMaterial else
       (case credentialKeyBytes key (-2) of None \<Rightarrow> noMaterial
        | Some exponentBytes \<Rightarrow>
          if exponentBytes = [] \<or> length exponentBytes > 4 \<or> hd exponentBytes = 0 then noMaterial
          else if padExponent exponentBytes = 0 then noMaterial
          else noMaterial\<lparr>mat_RSA := Some \<lparr>rsa_Modulus = modulus, rsa_Exponent = padExponent exponentBytes\<rparr>\<rparr>))"

definition publicKeyMaterial :: "int_map \<Rightarrow> int \<Rightarrow> CredentialPublicKeyMaterial" where
  "publicKeyMaterial key keyType =
    (if keyType = credentialKeyEC2 then ec2PublicKeyMaterial key
     else if keyType = credentialKeyRSA then rsaPublicKeyMaterial key
     else if keyType = credentialKeyOKP then okpPublicKeyMaterial key
     else noMaterial)"

definition validateEC2Material :: "go_cbor \<Rightarrow> CredentialPublicKeyMaterial \<Rightarrow> string \<Rightarrow> error option" where
  "validateEC2Material c material curveName =
    (case mat_EC2 material of None \<Rightarrow> Some (Sentinel ErrMalformedCBOR)
     | Some m \<Rightarrow>
       if mat_RSA material \<noteq> None \<or> mat_OKP material \<noteq> None \<or> ec2_Curve m \<noteq> curveName
       then Some (Sentinel ErrMalformedCBOR)
       else if \<not> ecdh_NewPublicKey c curveName ([0x04] @ ec2_X m @ ec2_Y m) then Some (Sentinel ErrMalformedCBOR)
       else None)"

definition validateCredentialPublicKey ::
  "go_cbor \<Rightarrow> COSEAlgorithmIdentifier \<Rightarrow> CredentialPublicKeyMaterial \<Rightarrow> error option" where
  "validateCredentialPublicKey c algorithm material =
    (if algorithm = AlgorithmES256 \<or> algorithm = AlgorithmESP256 then validateEC2Material c material EC2CurveP256
     else if algorithm = AlgorithmES384 \<or> algorithm = AlgorithmESP384 then validateEC2Material c material EC2CurveP384
     else if algorithm = AlgorithmES512 \<or> algorithm = AlgorithmESP512 then validateEC2Material c material EC2CurveP521
     else if algorithm \<in> set [AlgorithmRS256, AlgorithmRS384, AlgorithmRS512, AlgorithmPS256, AlgorithmPS384, AlgorithmPS512] then
       (if mat_RSA material = None \<or> mat_EC2 material \<noteq> None \<or> mat_OKP material \<noteq> None \<or> \<not> RSA_Valid (mat_RSA material)
        then Some (Sentinel ErrMalformedCBOR) else None)
     else if algorithm = AlgorithmEdDSA \<or> algorithm = AlgorithmEd25519 then
       (case mat_OKP material of None \<Rightarrow> Some (Sentinel ErrMalformedCBOR)
        | Some m \<Rightarrow>
          if mat_EC2 material \<noteq> None \<or> mat_RSA material \<noteq> None \<or> okp_Curve m \<noteq> OKPCurveEd25519 \<or> length (okp_X m) \<noteq> 32
          then Some (Sentinel ErrMalformedCBOR) else None)
     else if algorithm = AlgorithmEd448 then
       (case mat_OKP material of None \<Rightarrow> Some (Sentinel ErrMalformedCBOR)
        | Some m \<Rightarrow>
          if mat_EC2 material \<noteq> None \<or> mat_RSA material \<noteq> None \<or> okp_Curve m \<noteq> OKPCurveEd448 \<or> length (okp_X m) \<noteq> 57
          then Some (Sentinel ErrMalformedCBOR) else None)
     else None)"

definition DecodeCredentialPublicKey :: "go_cbor option \<Rightarrow> bytes \<Rightarrow> CredentialPublicKey result" where
  "DecodeCredentialPublicKey d raw =
    (case d of None \<Rightarrow> Inl (Newf ''nil cbor decoder'')
     | Some c \<Rightarrow>
       if length raw = 0 \<or> int (length raw) > MaxCBORBytes then Inl (Sentinel ErrMalformedCBOR) else
       and_then (wrap_res ErrMalformedCBOR (cbor_UnmarshalFirst c raw)) (\<lambda>(v, rest).
       let consumed = int (length raw) - int (length rest) in
       if consumed \<le> 0 \<or> consumed > MaxCredentialPublicKeyBytes then Inl (Sentinel ErrMalformedCBOR) else
       let encodedKey = take (nat consumed) raw in
       and_then (validateCanonical d encodedKey) (\<lambda>canonicalValue.
       case integerMap canonicalValue of None \<Rightarrow> Inl (Sentinel ErrMalformedCBOR)
       | Some key \<Rightarrow>
       case credentialKeyInteger key 1 of None \<Rightarrow> Inl (Sentinel ErrMalformedCBOR)
       | Some keyType \<Rightarrow>
       if keyType = 0 then Inl (Sentinel ErrMalformedCBOR) else
       check (validateCredentialPublicKeyParameters key keyType)
      (case credentialKeyInteger key 3 of None \<Rightarrow> Inl (Sentinel ErrMalformedCBOR)
       | Some algorithm \<Rightarrow>
       if algorithm = 0 then Inl (Sentinel ErrMalformedCBOR)
       else if Algorithm_Validate algorithm \<noteq> None then Inl (Sentinel ErrMalformedCBOR) else
       let material = publicKeyMaterial key keyType in
       check (validateCredentialPublicKey c algorithm material)
       (Inr (NewCredentialPublicKey algorithm encodedKey material))))))"

section \<open>What decoded values have\<close>

lemma validateCanonical_Inr_iff [result_inv]:
  "validateCanonical d data = Inr v \<longleftrightarrow> (\<exists>c. d = Some c \<and> data \<noteq> [] \<and> int (length data) \<le> MaxCBORBytes \<and>
    cbor_Unmarshal c data = Inr v \<and> cbor_Marshal c v = Inr data)"
  by (cases d) (auto simp: validateCanonical_def result_inv not_less)

text \<open>
  Everything accepted is the canonical encoding of the value it decodes to, so a value has one
  accepted encoding at most.
\<close>

lemma validateCanonical_unique:
  "validateCanonical d data = Inr v \<Longrightarrow> validateCanonical d data' = Inr v \<Longrightarrow> data = data'"
  by (auto simp: validateCanonical_Inr_iff)

lemma cbor_text_Some_iff [result_inv]: "cbor_text v = Some s \<longleftrightarrow> v = VString s"
  by (cases v rule: cbor_text.cases) auto

lemma DecodeAttestationObject_InrE:
  assumes "DecodeAttestationObject d raw = Inr obj"
  obtains v members where "validateCanonical d (bv_bytes raw) = Inr v" "stringMap v = Some members"
    "length members = 3" "map_field members ''fmt'' = VString (dao_Format obj)" "identifier_Valid (dao_Format obj)"
    "cbor_bytes (map_field members ''authData'') = Some (bv_bytes (dao_AuthenticatorData obj))"
    "decodeAttestationStatement (dao_Format obj) (map_field members ''attStmt'') = Inr (dao_Statement obj)" "dao_Raw obj = raw"
  using assms unfolding DecodeAttestationObject_def
  by (auto simp: result_inv case_option_Inl_iff dest!: authenticator_data.same_bytes simp del: validateCanonical_Inr_iff)

text \<open>A decoded sub-statement is well formed for the compound verifier.\<close>

lemma decodeSubStatement_Inr:
  "decodeSubStatement v = Inr (format, s) \<Longrightarrow> identifier_Valid format \<and> format \<noteq> compound_Format \<and> s \<noteq> None"
  by (auto simp: decodeSubStatement_def result_inv case_option_Inl_iff)

lemma decodeSubStatements_pass:
  "map_res decodeSubStatement vs = Inr statements \<Longrightarrow>
    map_res (\<lambda>(format, s). case s of
             None \<Rightarrow> Inl (Sentinel ErrCompoundInvalidStatement)
           | Some stmt \<Rightarrow> if \<not> identifier_Valid format then Inl (Sentinel ErrCompoundInvalidStatement)
               else Inr \<lparr>css_Format = format, css_Statement = stmt\<rparr>) statements
      = Inr (map (\<lambda>(format, s). \<lparr>css_Format = format, css_Statement = the s\<rparr>) statements) \<and>
    length statements = length vs \<and> compound_Format \<notin> fst ` set statements"
proof (induction vs arbitrary: statements)
  case (Cons v vs)
  then obtain format s rest where "decodeSubStatement v = Inr (format, s)" "map_res decodeSubStatement vs = Inr rest"
    "statements = (format, s) # rest"
    by (auto simp: result_inv)
  with Cons.IH [of rest] decodeSubStatement_Inr [of v format s] show ?case
    by auto
qed simp

lemma decodeAttestationStatement_compound:
  assumes "decodeAttestationStatement compound_Format v = Inr statement"
  obtains subs where "compoundSubStatements statement = Inr subs" "2 \<le> length subs"
    "compound_Format \<notin> css_Format ` set subs"
proof -
  obtain vs statements where run: "2 \<le> length vs" "map_res decodeSubStatement vs = Inr statements"
    "statement = [(CompoundSubStatementsKey, VSubStatements (Some statements))]"
    using assms by (auto simp: decodeAttestationStatement_def result_inv not_less split: option.split_asm if_split_asm)
  let ?subs = "map (\<lambda>(format, s). \<lparr>css_Format = format, css_Statement = the s\<rparr>) statements"
  have "compoundSubStatements statement = Inr ?subs"
    using run decodeSubStatements_pass [OF run(2)] by (simp add: compoundSubStatements_def)
  moreover have "compound_Format \<notin> css_Format ` set ?subs"
    using decodeSubStatements_pass [OF run(2)] by force
  ultimately show thesis
    using that run(1) decodeSubStatements_pass [OF run(2)] by simp
qed

text \<open>A decoded key is the canonical prefix that was consumed, and its material fits its algorithm.\<close>

lemma DecodeCredentialPublicKey_InrE:
  assumes "DecodeCredentialPublicKey d raw = Inr k"
  obtains c v rest canonical key keyType where "d = Some c" "raw \<noteq> []" "int (length raw) \<le> MaxCBORBytes"
    "cbor_UnmarshalFirst c raw = Inr (v, rest)" "length rest < length raw"
    "cpk_raw k = take (length raw - length rest) raw"
    "int (length (cpk_raw k)) \<le> MaxCredentialPublicKeyBytes"
    "validateCanonical d (cpk_raw k) = Inr canonical" "integerMap canonical = Some key"
    "credentialKeyInteger key 1 = Some keyType" "credentialKeyInteger key 3 = Some (cpk_Algorithm k)"
    "validateCredentialPublicKeyParameters key keyType = None"
    "PublicKey_Validate k = None" "cpk_material k = publicKeyMaterial key keyType"
    "validateCredentialPublicKey c (cpk_Algorithm k) (cpk_material k) = None"
proof (cases d)
  case (Some c)
  obtain v rest where first: "raw \<noteq> []" "int (length raw) \<le> MaxCBORBytes"
    "cbor_UnmarshalFirst c raw = Inr (v, rest)"
    "0 < int (length raw) - int (length rest)" "int (length raw) - int (length rest) \<le> MaxCredentialPublicKeyBytes"
    using assms Some by (auto simp: DecodeCredentialPublicKey_def result_inv Let_def not_less not_le)
  then have consumed: "nat (int (length raw) - int (length rest)) = length raw - length rest"
    by linarith
  let ?encoded = "take (length raw - length rest) raw"
  obtain canonical key keyType algorithm where second: "validateCanonical d ?encoded = Inr canonical"
    "integerMap canonical = Some key" "credentialKeyInteger key 1 = Some keyType"
    "validateCredentialPublicKeyParameters key keyType = None" "credentialKeyInteger key 3 = Some algorithm"
    "algorithm \<noteq> 0" "Algorithm_Validate algorithm = None"
    "validateCredentialPublicKey c algorithm (publicKeyMaterial key keyType) = None"
    "k = NewCredentialPublicKey algorithm ?encoded (publicKeyMaterial key keyType)"
    using assms first unfolding DecodeCredentialPublicKey_def Some
    by (simp add: Let_def consumed and_then_Inr_iff if_Inl_Inr_iff check_Inr_iff case_option_Inl_iff
      del: validateCanonical_Inr_iff) blast
  show thesis
    by (rule that [OF Some first(1-3) _ _ _ _ second(2,3)])
       (use first second in \<open>auto simp: NewCredentialPublicKey_def PublicKey_Validate_None_iff
         simp del: validateCanonical_Inr_iff\<close>)
qed (use assms in \<open>simp add: DecodeCredentialPublicKey_def\<close>)

end
