(* ===== verification/Go_Asn1.thy ===== *)
theory Go_Asn1
  imports Go_Std
begin

text \<open>
  The part of \<^verbatim>\<open>encoding/asn1\<close> the attestation formats use: \<^verbatim>\<open>asn1.Unmarshal\<close> of the first DER
  element of a byte slice into a \<^verbatim>\<open>RawValue\<close>, a \<^verbatim>\<open>[]byte\<close>, an \<^verbatim>\<open>int\<close>, an \<^verbatim>\<open>Enumerated\<close>, a
  \<^verbatim>\<open>*big.Int\<close>, an \<^verbatim>\<open>ObjectIdentifier\<close>, a \<^verbatim>\<open>string\<close> and a \<^verbatim>\<open>[]RawValue\<close>, each with the rest of the
  input. The callers only ask whether there is an error, so its text is not modelled.
\<close>

section \<open>Tag and length\<close>

record asn1_RawValue =
  raw_Class :: int
  raw_Tag :: int
  raw_IsCompound :: bool
  raw_Bytes :: bytes
  raw_FullBytes :: bytes

abbreviation asn1_error :: "'a result" where
  "asn1_error \<equiv> Inl (External ''asn1'')"

definition ClassUniversal :: int where "ClassUniversal = 0"
definition ClassContextSpecific :: int where "ClassContextSpecific = 2"
definition TagInteger :: int where "TagInteger = 2"
definition TagOctetString :: int where "TagOctetString = 4"
definition TagNull :: int where "TagNull = 5"
definition TagOID :: int where "TagOID = 6"
definition TagEnum :: int where "TagEnum = 10"
definition TagUTF8String :: int where "TagUTF8String = 12"
definition TagSequence :: int where "TagSequence = 16"
definition TagSet :: int where "TagSet = 17"
definition TagPrintableString :: int where "TagPrintableString = 19"

text \<open>\<^verbatim>\<open>parseBase128Int\<close>: at most five octets, minimal, below \<open>2 ^ 31\<close>.\<close>

fun parseBase128Int :: "nat \<Rightarrow> int \<Rightarrow> bytes \<Rightarrow> (int \<times> bytes) result" where
  "parseBase128Int shifted acc [] = asn1_error"
| "parseBase128Int shifted acc (b # bs) =
    (if shifted = 5 \<or> (shifted = 0 \<and> b = 0x80) then asn1_error
     else let v = acc * 128 + uint b mod 128 in
       if b < 0x80 then (if v > 2147483647 then asn1_error else Inr (v, bs))
       else parseBase128Int (shifted + 1) v bs)"

fun parseLongLength :: "nat \<Rightarrow> int \<Rightarrow> bytes \<Rightarrow> (int \<times> bytes) result" where
  "parseLongLength 0 acc bs = (if acc < 128 then asn1_error else Inr (acc, bs))"
| "parseLongLength (Suc n) acc [] = asn1_error"
| "parseLongLength (Suc n) acc (b # bs) =
    (if acc \<ge> 8388608 then asn1_error
     else let v = acc * 256 + uint b in if v = 0 then asn1_error else parseLongLength n v bs)"

fun parseLength :: "bytes \<Rightarrow> (int \<times> bytes) result" where
  "parseLength [] = asn1_error"
| "parseLength (b # bs) =
    (if b < 0x80 then Inr (uint b, bs)
     else if b = 0x80 then asn1_error
     else parseLongLength (unat b - 128) 0 bs)"

fun parseTag :: "bytes \<Rightarrow> ((int \<times> bool \<times> int) \<times> bytes) result" where
  "parseTag [] = asn1_error"
| "parseTag (b # bs) =
    (let class = uint b div 64; compound = (uint b mod 64 \<ge> 32); tag = uint b mod 32 in
     if tag = 31 then
       and_then (parseBase128Int 0 0 bs) (\<lambda>(long, rest).
       if long < 31 then asn1_error else Inr ((class, compound, long), rest))
     else Inr ((class, compound, tag), bs))"

section \<open>Unmarshal\<close>

definition Unmarshal_Raw :: "bytes \<Rightarrow> (asn1_RawValue \<times> bytes) result" where
  "Unmarshal_Raw data =
    and_then (parseTag data) (\<lambda>((class, compound, tag), afterTag).
    and_then (parseLength afterTag) (\<lambda>(len, afterLength).
    if len > int (length afterLength) then asn1_error
    else let rest = drop (nat len) afterLength in
      Inr (\<lparr>raw_Class = class, raw_Tag = tag, raw_IsCompound = compound,
             raw_Bytes = take (nat len) afterLength, raw_FullBytes = take (length data - length rest) data\<rparr>, rest)))"

text \<open>The first element when it is of the universal class and has the tag the Go type requires.\<close>

definition Unmarshal_Tagged :: "int \<Rightarrow> bool \<Rightarrow> bytes \<Rightarrow> (bytes \<times> bytes) result" where
  "Unmarshal_Tagged tag compound data =
    and_then (Unmarshal_Raw data) (\<lambda>(v, rest).
    if raw_Class v \<noteq> ClassUniversal \<or> raw_Tag v \<noteq> tag \<or> raw_IsCompound v \<noteq> compound then asn1_error
    else Inr (raw_Bytes v, rest))"

definition Unmarshal_Octets :: "bytes \<Rightarrow> (bytes \<times> bytes) result" where
  "Unmarshal_Octets data = Unmarshal_Tagged TagOctetString False data"

text \<open>A two's complement integer in its shortest form.\<close>

definition minimalInteger :: "bytes \<Rightarrow> bool" where
  "minimalInteger bs =
    (case bs of [] \<Rightarrow> False | [_] \<Rightarrow> True
     | a # b # _ \<Rightarrow> \<not> (a = 0 \<and> b < 0x80 \<or> a = 0xff \<and> b \<ge> 0x80))"

definition signedInteger :: "bytes \<Rightarrow> int" where
  "signedInteger bs =
    (let v = foldl (\<lambda>acc b. acc * 256 + uint b) 0 bs in
     if bs \<noteq> [] \<and> hd bs \<ge> 0x80 then v - 256 ^ length bs else v)"

definition Unmarshal_BigInt :: "bytes \<Rightarrow> (int \<times> bytes) result" where
  "Unmarshal_BigInt data =
    and_then (Unmarshal_Tagged TagInteger False data) (\<lambda>(bs, rest).
    if minimalInteger bs then Inr (signedInteger bs, rest) else asn1_error)"

definition Unmarshal_Int :: "bytes \<Rightarrow> (int \<times> bytes) result" where
  "Unmarshal_Int data =
    and_then (Unmarshal_Tagged TagInteger False data) (\<lambda>(bs, rest).
    if minimalInteger bs \<and> length bs \<le> 8 then Inr (signedInteger bs, rest) else asn1_error)"

definition Unmarshal_Enumerated :: "bytes \<Rightarrow> (int \<times> bytes) result" where
  "Unmarshal_Enumerated data =
    and_then (Unmarshal_Tagged TagEnum False data) (\<lambda>(bs, rest).
    if minimalInteger bs \<and> length bs \<le> 4 then Inr (signedInteger bs, rest) else asn1_error)"

type_synonym OID = "int list"

lemma parseBase128Int_shorter: "parseBase128Int i acc bs = Inr (v, rest) \<Longrightarrow> length rest < length bs"
proof (induction i acc bs rule: parseBase128Int.induct)
  case (2 shifted acc b bs)
  then show ?case
    by (auto simp: Let_def split: if_splits)
qed simp

function parseOIDTail :: "bytes \<Rightarrow> OID result" where
  "parseOIDTail bs =
    (if bs = [] then Inr []
     else case parseBase128Int 0 0 bs of Inl e \<Rightarrow> Inl e
       | Inr (v, rest) \<Rightarrow> and_then (parseOIDTail rest) (\<lambda>vs. Inr (v # vs)))"
  by auto
termination
  by (relation "measure length") (auto dest: parseBase128Int_shorter)

declare parseOIDTail.simps [simp del]

definition parseObjectIdentifier :: "bytes \<Rightarrow> OID result" where
  "parseObjectIdentifier bs =
    (if bs = [] then asn1_error else
     and_then (parseBase128Int 0 0 bs) (\<lambda>(v, rest).
     and_then (parseOIDTail rest) (\<lambda>vs.
     Inr ((if v < 80 then [v div 40, v mod 40] else [2, v - 80]) @ vs))))"

definition Unmarshal_OID :: "bytes \<Rightarrow> (OID \<times> bytes) result" where
  "Unmarshal_OID data =
    and_then (Unmarshal_Tagged TagOID False data) (\<lambda>(bs, rest).
    and_then (parseObjectIdentifier bs) (\<lambda>oid. Inr (oid, rest)))"

text \<open>
  The ASN.1 string types: \<^verbatim>\<open>PrintableString\<close> (19, with the asterisk and the ampersand Go
  tolerates), \<^verbatim>\<open>NumericString\<close> (18), \<^verbatim>\<open>IA5String\<close> (22), \<^verbatim>\<open>T61String\<close> (20) and
  \<^verbatim>\<open>GeneralString\<close> (27) as they are, \<^verbatim>\<open>UTF8String\<close> (12), and \<^verbatim>\<open>BMPString\<close> (30), whose
  conversion to UTF-8 is the argument \<open>bmp\<close>.
\<close>

definition printable_char :: "char \<Rightarrow> bool" where
  "printable_char c \<longleftrightarrow>
    list_ex (\<lambda>(first, last). first \<le> c \<and> c \<le> last)
      [(CHR ''a'', CHR ''z''), (CHR ''A'', CHR ''Z''), (CHR ''0'', CHR ''9''), (CHR 0x27, CHR '')''), (CHR ''+'', CHR ''/'')]
    \<or> c \<in> set '' :=?*&''"

definition parseString :: "(bytes \<Rightarrow> string option) \<Rightarrow> int \<Rightarrow> bytes \<Rightarrow> string result" where
  "parseString bmp tag bs =
    (let s = string_of_bytes bs; accept = (\<lambda>ok. if ok then Inr s else asn1_error) in
     if tag = TagPrintableString then accept (list_all printable_char s)
     else if tag = 18 then accept (list_all (\<lambda>c. CHR ''0'' \<le> c \<and> c \<le> CHR ''9'' \<or> c = CHR '' '') s)
     else if tag = 22 then accept (ascii s)
     else if tag = TagUTF8String then accept (utf8_valid (map of_char s))
     else if tag = 20 \<or> tag = 27 then Inr s
     else if tag = 30 then (case bmp bs of None \<Rightarrow> asn1_error | Some t \<Rightarrow> Inr t)
     else asn1_error)"

definition Unmarshal_String :: "(bytes \<Rightarrow> string option) \<Rightarrow> bytes \<Rightarrow> (string \<times> bytes) result" where
  "Unmarshal_String bmp data =
    and_then (Unmarshal_Raw data) (\<lambda>(v, rest).
    if raw_Class v \<noteq> ClassUniversal \<or> raw_IsCompound v then asn1_error
    else and_then (parseString bmp (raw_Tag v) (raw_Bytes v)) (\<lambda>text. Inr (text, rest)))"

section \<open>What is consumed\<close>

lemma parseBase128Int_suffix:
  "parseBase128Int i acc bs = Inr (v, rest) \<Longrightarrow> \<exists>octets. octets \<noteq> [] \<and> bs = octets @ rest"
proof (induction i acc bs rule: parseBase128Int.induct)
  case (2 shifted acc b bs)
  show ?case
  proof (cases "b < 0x80")
    case True
    then have "bs = rest"
      using "2.prems" by (auto simp: Let_def split: if_splits)
    then show ?thesis
      by (intro exI [of _ "[b]"]) simp
  next
    case False
    have small: "\<not> (shifted = 5 \<or> (shifted = 0 \<and> b = 0x80))"
      using "2.prems" by (auto simp: Let_def split: if_splits)
    then have "parseBase128Int (shifted + 1) (acc * 128 + uint b mod 128) bs = Inr (v, rest)"
      using "2.prems" False by (simp only: parseBase128Int.simps Let_def if_False)
    from "2.IH" [OF small refl False this] obtain octets where "bs = octets @ rest"
      by blast
    then show ?thesis
      by (intro exI [of _ "b # octets"]) simp
  qed
qed simp

lemma parseLongLength_suffix:
  "parseLongLength n acc bs = Inr (v, rest) \<Longrightarrow> 0 \<le> acc \<Longrightarrow> 0 \<le> v \<and> (\<exists>octets. bs = octets @ rest)"
proof (induction n acc bs rule: parseLongLength.induct)
  case (3 n acc b bs)
  have "acc < 8388608" "acc * 256 + uint b \<noteq> 0" and run: "parseLongLength n (acc * 256 + uint b) bs = Inr (v, rest)"
    using "3.prems" by (simp_all add: Let_def split: if_splits)
  then have "0 \<le> v \<and> (\<exists>octets. bs = octets @ rest)"
    using "3.IH" [OF _ refl _ run] "3.prems"(2) by simp
  then show ?case
    by (metis append_Cons)
qed (auto split: if_splits)

lemma parseLength_suffix: "parseLength bs = Inr (v, rest) \<Longrightarrow> 0 \<le> v \<and> (\<exists>octets. octets \<noteq> [] \<and> bs = octets @ rest)"
proof (induction bs rule: parseLength.induct)
  case (2 b bs)
  show ?case
  proof (cases "b < 0x80")
    case True
    then show ?thesis
      using 2 by (intro conjI exI [of _ "[b]"]) auto
  next
    case False
    then have "parseLongLength (unat b - 128) 0 bs = Inr (v, rest)"
      using 2 by (simp split: if_splits)
    then obtain octets where "0 \<le> v" "bs = octets @ rest"
      using parseLongLength_suffix by blast
    then show ?thesis
      by (intro conjI exI [of _ "b # octets"]) auto
  qed
qed simp

lemma parseTag_suffix: "parseTag bs = Inr (t, rest) \<Longrightarrow> \<exists>octets. octets \<noteq> [] \<and> bs = octets @ rest"
proof (induction bs rule: parseTag.induct)
  case (2 b bs)
  show ?case
  proof (cases "uint b mod 32 = 31")
    case True
    then obtain v where "parseBase128Int 0 0 bs = Inr (v, rest)"
      using 2 by (auto simp: Let_def and_then_Inr_iff split: if_splits)
    then show ?thesis
      using parseBase128Int_suffix by (metis append_Cons list.distinct(1))
  next
    case False
    then show ?thesis
      using 2 by (intro exI [of _ "[b]"]) (auto simp: Let_def)
  qed
qed simp

text \<open>
  A parsed element is a non-empty prefix of the input and the rest follows it; its contents end
  the element.
\<close>

lemma Unmarshal_Raw_prefix:
  assumes "Unmarshal_Raw data = Inr (v, rest)"
  shows "data = raw_FullBytes v @ rest \<and> raw_FullBytes v \<noteq> [] \<and> (\<exists>header. header \<noteq> [] \<and> raw_FullBytes v = header @ raw_Bytes v)"
proof -
  obtain t afterTag len afterLength where tag: "parseTag data = Inr (t, afterTag)"
    and len: "parseLength afterTag = Inr (len, afterLength)" "\<not> int (length afterLength) < len"
    and v: "raw_Bytes v = take (nat len) afterLength" "rest = drop (nat len) afterLength"
      "raw_FullBytes v = take (length data - length rest) data"
    using assms by (auto simp: Unmarshal_Raw_def and_then_Inr_iff Let_def split: if_splits)
  obtain a b where "data = a @ b @ afterLength" "a \<noteq> []"
    using parseTag_suffix [OF tag] parseLength_suffix [OF len(1)] by blast
  then have data: "data = (a @ b @ raw_Bytes v) @ rest" "a \<noteq> []"
    by (simp_all add: v)
  then have "raw_FullBytes v = a @ b @ raw_Bytes v"
    by (simp add: v(3))
  then show ?thesis
    using data by (auto intro: exI [of _ "a @ b"])
qed

lemma Unmarshal_Raw_shorter: "Unmarshal_Raw data = Inr (v, rest) \<Longrightarrow> length rest < length data"
  using Unmarshal_Raw_prefix [of data v rest] by (metis length_append length_greater_0_conv less_add_same_cancel2)

section \<open>Sequences of elements\<close>

text \<open>
  The loop over the elements of a constructed value: \<^verbatim>\<open>parseSequenceOf\<close> of the library for
  \<^verbatim>\<open>[]asn1.RawValue\<close>, and \<^verbatim>\<open>rawItems\<close> and \<^verbatim>\<open>parseASN1Items\<close> of the program, which all stop at the
  first malformed element.
\<close>

function rawElements :: "bytes \<Rightarrow> asn1_RawValue list result" where
  "rawElements data =
    (if data = [] then Inr []
     else case Unmarshal_Raw data of Inl e \<Rightarrow> Inl e
       | Inr (item, rest) \<Rightarrow> and_then (rawElements rest) (\<lambda>items. Inr (item # items)))"
  by auto
termination
  by (relation "measure length") (auto dest: Unmarshal_Raw_shorter)

declare rawElements.simps [simp del]

definition Unmarshal_RawSequence :: "bytes \<Rightarrow> (asn1_RawValue list \<times> bytes) result" where
  "Unmarshal_RawSequence data =
    and_then (Unmarshal_Tagged TagSequence True data) (\<lambda>(bs, rest).
    and_then (rawElements bs) (\<lambda>items. Inr (items, rest)))"

lemma rawElements_concat: "rawElements data = Inr items \<Longrightarrow> data = concat (map raw_FullBytes items)"
proof (induction data arbitrary: items rule: rawElements.induct)
  case (1 data)
  show ?case
  proof (cases "data = []")
    case True
    then show ?thesis
      using 1 by (simp add: rawElements.simps)
  next
    case False
    then obtain item rest more where item: "Unmarshal_Raw data = Inr (item, rest)"
      and more: "rawElements rest = Inr more" and items: "items = item # more"
      using "1.prems" by (auto simp: rawElements.simps [of data] and_then_Inr_iff split: sum.splits)
    then have "rest = concat (map raw_FullBytes more)"
      using "1.IH" False by blast
    then show ?thesis
      using Unmarshal_Raw_prefix [OF item] items by simp
  qed
qed

end
