(* ===== verification/X509_Util.thy ===== *)
theory X509_Util
  imports Go_Asn1 Attestation_Core
begin

text \<open>
  \<^verbatim>\<open>src/attestation/internal/x509util\<close> and \<^verbatim>\<open>src/attestation/internal/attcrypto\<close>: certificate
  chains, certificate extensions, X.509 names with their string tags, the comparison of
  certificate keys with credential keys and the check of an attestation signature.

  The record \<open>go_pki\<close> holds what the formats use of \<^verbatim>\<open>crypto/x509\<close>, \<^verbatim>\<open>crypto/sha512\<close> and the elliptic
  curves: \<^verbatim>\<open>x509.ParseCertificate\<close>, the text of a \<^verbatim>\<open>BMPString\<close>, the two longer hashes, and the curve
  equation behind \<^verbatim>\<open>ecdsa.PublicKey.Bytes\<close>. Every theorem holds for all of them.
\<close>

section \<open>Certificates\<close>

record ecdsa_PublicKey =
  ecdsa_Curve :: "string option"
  ecdsa_X :: "int option"
  ecdsa_Y :: "int option"

record rsa_PublicKey =
  rsa_N :: "int option"
  rsa_E :: int

text \<open>The dynamic types of \<^verbatim>\<open>Certificate.PublicKey\<close> the code distinguishes; \<open>None\<close> is a nil pointer.\<close>

datatype go_PublicKey =
    EcdsaKey "ecdsa_PublicKey option" | RsaKey "rsa_PublicKey option" | Ed25519Key bytes | UnknownKey

record pkix_Extension =
  pkix_Id :: OID
  pkix_Critical :: bool
  pkix_Value :: bytes

record pkix_Name =
  name_Country :: "string list"
  name_Organization :: "string list"
  name_OrganizationalUnit :: "string list"
  name_Locality :: "string list"
  name_Province :: "string list"
  name_StreetAddress :: "string list"
  name_PostalCode :: "string list"
  name_SerialNumber :: string
  name_CommonName :: string
  name_Names :: "(OID \<times> string) list"
  name_ExtraNames :: "(OID \<times> string) list"

record x509_Certificate =
  x509_Version :: int
  x509_RawSubject :: bytes
  x509_Subject :: pkix_Name
  x509_Extensions :: "pkix_Extension list"
  x509_UnknownExtKeyUsage :: "OID list"
  x509_BasicConstraintsValid :: bool
  x509_IsCA :: bool
  x509_PublicKey :: go_PublicKey
  x509_VerifyHostname :: "string \<Rightarrow> error option"

record go_pki =
  pki_ParseCertificate :: "bytes \<Rightarrow> x509_Certificate result"
  pki_BMPString :: "bytes \<Rightarrow> string option"
  pki_Sum384 :: "bytes \<Rightarrow> bytes"
  pki_Sum512 :: "bytes \<Rightarrow> bytes"
  pki_IsOnCurve :: "string \<Rightarrow> int \<Rightarrow> int \<Rightarrow> bool"

record NameAttribute =
  na_Type :: OID
  na_Value :: string
  na_Tag :: int

definition ParseCertificateChain ::
  "go_pki \<Rightarrow> bytes list \<Rightarrow> sentinel \<Rightarrow> (CertificateChain \<times> x509_Certificate list) result" where
  "ParseCertificateChain pki rawChain invalid =
    (if rawChain = [] then Inl (Sentinel invalid) else
     and_then (map_res (\<lambda>raw. wrap_res invalid (pki_ParseCertificate pki raw)) rawChain) (\<lambda>certificates.
     Inr (rawChain, certificates)))"

definition FindExtension :: "x509_Certificate \<Rightarrow> OID \<Rightarrow> pkix_Extension option" where
  "FindExtension certificate oid = find (\<lambda>e. pkix_Id e = oid) (x509_Extensions certificate)"

definition HasExtension :: "x509_Certificate \<Rightarrow> OID \<Rightarrow> bool" where
  "HasExtension certificate oid \<longleftrightarrow> FindExtension certificate oid \<noteq> None"

section \<open>Names\<close>

definition rawItems :: "bytes \<Rightarrow> asn1_RawValue list result" where
  "rawItems data = (case rawElements data of Inl _ \<Rightarrow> Inl (Newf ''invalid asn1 items'') | Inr items \<Rightarrow> Inr items)"

definition constructed :: "int \<Rightarrow> asn1_RawValue \<Rightarrow> bool" where
  "constructed tag v \<longleftrightarrow> raw_Class v = ClassUniversal \<and> raw_Tag v = tag \<and> raw_IsCompound v"

text \<open>One \<^verbatim>\<open>AttributeTypeAndValue\<close>: the body of the inner loop.\<close>

definition parseNameAttribute :: "go_pki \<Rightarrow> asn1_RawValue \<Rightarrow> NameAttribute result" where
  "parseNameAttribute pki item =
    (if \<not> constructed TagSequence item then Inl (Newf ''invalid x509 name attribute'') else
     case Unmarshal_OID (raw_Bytes item) of
       Inl _ \<Rightarrow> Inl (Newf ''invalid x509 name attribute oid'')
     | Inr (oid, remainder) \<Rightarrow>
       if remainder = [] then Inl (Newf ''invalid x509 name attribute oid'') else
       (case Unmarshal_Raw remainder of
          Inl _ \<Rightarrow> Inl (Newf ''invalid x509 name attribute value'')
        | Inr (value, trailing) \<Rightarrow>
          if trailing \<noteq> [] then Inl (Newf ''invalid x509 name attribute value'') else
          (case Unmarshal_String (pki_BMPString pki) (raw_FullBytes value) of
             Inl _ \<Rightarrow> Inl (Newf ''invalid x509 name attribute string'')
           | Inr (text, trailing) \<Rightarrow>
             if trailing \<noteq> [] then Inl (Newf ''invalid x509 name attribute string'')
             else Inr \<lparr>na_Type = oid, na_Value = text, na_Tag = raw_Tag value\<rparr>)))"

definition ParseNameAttributes :: "go_pki \<Rightarrow> bytes \<Rightarrow> NameAttribute list result" where
  "ParseNameAttributes pki raw =
    (case Unmarshal_Raw raw of
       Inl _ \<Rightarrow> Inl (Newf ''invalid x509 name'')
     | Inr (sequence, rest) \<Rightarrow>
       if rest \<noteq> [] \<or> \<not> constructed TagSequence sequence then Inl (Newf ''invalid x509 name'') else
       and_then (rawItems (raw_Bytes sequence)) (\<lambda>sets.
       and_then (map_res (\<lambda>s. if \<not> constructed TagSet s then Inl (Newf ''invalid x509 name set'') else
           and_then (rawItems (raw_Bytes s)) (map_res (parseNameAttribute pki))) sets) (\<lambda>attributes.
       Inr (concat attributes))))"

section \<open>Public keys\<close>

text \<open>\<^verbatim>\<open>big.Int.Bytes\<close> (of the absolute value), \<^verbatim>\<open>BitLen\<close> and \<^verbatim>\<open>FillBytes\<close>.\<close>

fun bigBytes :: "nat \<Rightarrow> bytes" where
  "bigBytes n = (if n = 0 then [] else bigBytes (n div 256) @ [word_of_nat n])"

declare bigBytes.simps [simp del]

definition BitLen :: "int \<Rightarrow> nat" where
  "BitLen n = (case bigBytes (nat \<bar>n\<bar>) of [] \<Rightarrow> 0 | b # bs \<Rightarrow> length bs * 8 + Len8 b)"

definition FillBytes :: "nat \<Rightarrow> int \<Rightarrow> bytes" where
  "FillBytes len n = (let bs = bigBytes (nat \<bar>n\<bar>) in replicate (len - length bs) 0 @ bs)"

definition curveMaterial :: "ecdsa_PublicKey \<Rightarrow> (string \<times> nat) option" where
  "curveMaterial key =
    (case ecdsa_Curve key of None \<Rightarrow> None
     | Some name \<Rightarrow>
       if name = ''P-256'' then Some (EC2CurveP256, 32)
       else if name = ''P-384'' then Some (EC2CurveP384, 48)
       else if name = ''P-521'' then Some (EC2CurveP521, 66)
       else None)"

text \<open>\<^verbatim>\<open>ecdsa.PublicKey.Bytes\<close>: the uncompressed point, an error off the curve.\<close>

definition ecdsa_Bytes :: "go_pki \<Rightarrow> string \<Rightarrow> nat \<Rightarrow> int \<Rightarrow> int \<Rightarrow> bytes option" where
  "ecdsa_Bytes pki curve len x y =
    (if pki_IsOnCurve pki curve x y then Some (0x04 # FillBytes len x @ FillBytes len y) else None)"

definition ecMaterial :: "go_pki \<Rightarrow> ecdsa_PublicKey \<Rightarrow> EC2PublicKeyMaterial option" where
  "ecMaterial pki key =
    (case (ecdsa_X key, ecdsa_Y key, curveMaterial key) of
       (Some x, Some y, Some (curve, coordinateLength)) \<Rightarrow>
         (case ecdsa_Bytes pki curve coordinateLength x y of None \<Rightarrow> None
          | Some encoded \<Rightarrow> Some \<lparr>ec2_Curve = curve, ec2_X = take coordinateLength (drop 1 encoded),
              ec2_Y = drop (1 + coordinateLength) encoded\<rparr>)
     | _ \<Rightarrow> None)"

definition PublicKeyMaterial :: "go_pki \<Rightarrow> go_PublicKey \<Rightarrow> CredentialPublicKeyMaterial option" where
  "PublicKeyMaterial pki publicKey =
    (case publicKey of
       EcdsaKey (Some key) \<Rightarrow>
         map_option (\<lambda>m. \<lparr>mat_EC2 = Some m, mat_RSA = None, mat_OKP = None\<rparr>) (ecMaterial pki key)
     | RsaKey (Some key) \<Rightarrow>
       (case rsa_N key of None \<Rightarrow> None
        | Some n \<Rightarrow>
          if BitLen n < MinRSAModulusBits \<or> BitLen n > MaxRSAModulusBits \<or> rsa_E key < 3
            \<or> rsa_E key mod 2 = 0 \<or> rsa_E key > 2 ^ 32 - 1
          then None
          else Some \<lparr>mat_EC2 = None, mat_RSA = Some \<lparr>rsa_Modulus = bigBytes (nat \<bar>n\<bar>),
            rsa_Exponent = word_of_int (rsa_E key)\<rparr>, mat_OKP = None\<rparr>)
     | Ed25519Key bs \<Rightarrow>
         if length bs \<noteq> 32 then None
         else Some \<lparr>mat_EC2 = None, mat_RSA = None, mat_OKP = Some \<lparr>okp_Curve = OKPCurveEd25519, okp_X = bs\<rparr>\<rparr>
     | _ \<Rightarrow> None)"

definition ValidatePublicKey ::
  "go_pki \<Rightarrow> go_PublicKey \<Rightarrow> CredentialPublicKeyMaterial \<Rightarrow> sentinel \<Rightarrow> sentinel \<Rightarrow> error option" where
  "ValidatePublicKey pki publicKey material unsupported mismatch =
    (case publicKey of
       EcdsaKey key \<Rightarrow>
       (case (Option.bind key (ecMaterial pki), mat_EC2 material) of
          (Some actual, Some m) \<Rightarrow>
            if ec2_Curve actual \<noteq> ec2_Curve m then Some (Sentinel unsupported)
            else if ec2_X actual \<noteq> ec2_X m \<or> ec2_Y actual \<noteq> ec2_Y m then Some (Sentinel mismatch)
            else None
        | _ \<Rightarrow> Some (Sentinel unsupported))
     | RsaKey key \<Rightarrow>
       (case (Option.bind key rsa_N, key, mat_RSA material) of
          (Some n, Some k, Some m) \<Rightarrow>
            if \<not> RSA_Valid (Some m) then Some (Sentinel unsupported)
            else if BitLen n < MinRSAModulusBits \<or> BitLen n > MaxRSAModulusBits \<or> rsa_E k \<le> 0
              \<or> rsa_E k > 2 ^ 32 - 1
            then Some (Sentinel unsupported)
            else if word_of_int (rsa_E k) \<noteq> rsa_Exponent m \<or> bigBytes (nat \<bar>n\<bar>) \<noteq> rsa_Modulus m
            then Some (Sentinel mismatch)
            else None
        | _ \<Rightarrow> Some (Sentinel unsupported))
     | Ed25519Key bs \<Rightarrow>
       (case mat_OKP material of None \<Rightarrow> Some (Sentinel unsupported)
        | Some m \<Rightarrow>
          if length bs \<noteq> 32 \<or> mat_EC2 material \<noteq> None \<or> mat_RSA material \<noteq> None
            \<or> okp_Curve m \<noteq> OKPCurveEd25519 \<or> length (okp_X m) \<noteq> 32
          then Some (Sentinel unsupported)
          else if bs \<noteq> okp_X m then Some (Sentinel mismatch)
          else None)
     | UnknownKey \<Rightarrow> Some (Sentinel unsupported))"

section \<open>Signatures\<close>

definition SignedData :: "AuthenticatorData \<Rightarrow> bytes \<Rightarrow> bytes" where
  "SignedData authenticatorData clientDataHash = bv_appendTo authenticatorData [] @ clientDataHash"

definition VerifySignature ::
  "ctx \<Rightarrow> SignatureVerifier \<Rightarrow> COSEAlgorithmIdentifier \<Rightarrow> CredentialPublicKeyMaterial \<Rightarrow> bytes \<Rightarrow> bytes \<Rightarrow> bytes
    \<Rightarrow> sentinel \<Rightarrow> sentinel \<Rightarrow> error option" where
  "VerifySignature ctx verifier algorithm publicKey rawCredentialPublicKey data signature malformed invalid =
    (case verifier of
       Impl verify \<Rightarrow>
         and_err (wrap_res malformed (NewSignature (Some signature))) (\<lambda>protocolSignature.
         wrap_err invalid (verify ctx
           \<lparr>si_Algorithm = algorithm, si_PublicKey = publicKey, si_RawCredentialPublicKey = rawCredentialPublicKey,
            si_Signed = data, si_Signature = protocolSignature\<rparr>))
     | _ \<Rightarrow> Some (Notef invalid ''signature verifier is nil''))"

section \<open>Statement members shared by the formats\<close>

text \<open>\<^verbatim>\<open>statement[key]\<close>, nil when absent, and the loop that refuses members outside a list.\<close>

definition statementField :: "AttestationStatement \<Rightarrow> string \<Rightarrow> goval" where
  "statementField statement key = (case map_of statement key of None \<Rightarrow> VNil | Some v \<Rightarrow> v)"

definition unexpectedField :: "string list \<Rightarrow> sentinel \<Rightarrow> AttestationStatement \<Rightarrow> error option" where
  "unexpectedField allowed invalid statement =
    first_err (\<lambda>(key, _). if key \<in> set allowed then None else Some (Notef invalid (''unexpected field '' @ key))) statement"

section \<open>Certificate requirements shared by the formats\<close>

text \<open>
  The certificate profiles demand that each attribute type of a list occurs exactly once in a
  name, with a value that passes a check; other attributes are ignored. This is the loop of
  \<^verbatim>\<open>validatePackedSubject\<close> and \<^verbatim>\<open>nameHasTPMAttributes\<close>; \<open>seen\<close> holds the types found so far. The
  map of the source is keyed by the dotted text of the identifier, which determines it.
\<close>

fun requiredLoop :: "OID list \<Rightarrow> (NameAttribute \<Rightarrow> bool) \<Rightarrow> OID list \<Rightarrow> NameAttribute list \<Rightarrow> OID list option" where
  "requiredLoop keys ok seen [] = Some seen"
| "requiredLoop keys ok seen (a # as) =
    (if na_Type a \<notin> set keys then requiredLoop keys ok seen as
     else if na_Type a \<in> set seen \<or> \<not> ok a then None
     else requiredLoop keys ok (na_Type a # seen) as)"

definition eachOnce :: "OID list \<Rightarrow> (NameAttribute \<Rightarrow> bool) \<Rightarrow> NameAttribute list \<Rightarrow> bool" where
  "eachOnce keys ok attributes =
    (case requiredLoop keys ok [] attributes of None \<Rightarrow> False
     | Some seen \<Rightarrow> list_all (\<lambda>key. key \<in> set seen) keys)"

definition oidExtensionBasicConstraints :: OID where "oidExtensionBasicConstraints = [2, 5, 29, 19]"
definition oidExtensionFIDOAAGUID :: OID where "oidExtensionFIDOAAGUID = [1, 3, 6, 1, 4, 1, 45724, 1, 1, 4]"

text \<open>The AAGUID extension, when present, is not critical and holds the AAGUID as an octet string.\<close>

definition validateAAGUIDExtension :: "sentinel \<Rightarrow> x509_Certificate \<Rightarrow> AAGUID \<Rightarrow> error option" where
  "validateAAGUIDExtension invalid certificate aaguid =
    (case FindExtension certificate oidExtensionFIDOAAGUID of
       None \<Rightarrow> None
     | Some extension \<Rightarrow>
       if pkix_Critical extension then Some (Sentinel invalid) else
       (case Unmarshal_Octets (pkix_Value extension) of
          Inl _ \<Rightarrow> Some (Sentinel invalid)
        | Inr (extensionAAGUID, rest) \<Rightarrow>
          if rest \<noteq> [] \<or> length extensionAAGUID \<noteq> AAGUIDLength then Some (Sentinel invalid)
          else if aaguid \<noteq> extensionAAGUID then Some (Sentinel invalid)
          else None))"

section \<open>Facts\<close>

lemma requiredLoop_eq:
  "requiredLoop keys ok seen as =
    (let found = filter (\<lambda>a. na_Type a \<in> set keys) as in
     if list_all ok found \<and> distinct (map na_Type found) \<and> set (map na_Type found) \<inter> set seen = {}
     then Some (rev (map na_Type found) @ seen) else None)"
  by (induction as arbitrary: seen) (auto simp: Let_def)

lemma distinct_iff_filter_single:
  "distinct (map f xs) \<longleftrightarrow> (\<forall>x\<in>set xs. filter (\<lambda>y. f y = f x) xs = [x])"
proof (induction xs)
  case (Cons x xs)
  have "filter (\<lambda>y. f y = f x) xs = [] \<longleftrightarrow> f x \<notin> f ` set xs"
    by (auto simp: filter_empty_conv image_iff)
  then show ?case
    using Cons by (auto simp: image_iff)
qed simp

lemma eachOnce_iff:
  "eachOnce keys ok as \<longleftrightarrow> (\<forall>k\<in>set keys. \<exists>a. filter (\<lambda>a. na_Type a = k) as = [a] \<and> ok a)"
proof -
  define found where "found = filter (\<lambda>a. na_Type a \<in> set keys) as"
  have restrict: "filter (\<lambda>a. na_Type a = k) as = filter (\<lambda>a. na_Type a = k) found" if "k \<in> set keys" for k
    using that unfolding found_def by (induction as) auto
  have "eachOnce keys ok as \<longleftrightarrow> list_all ok found \<and> distinct (map na_Type found) \<and> set keys \<subseteq> na_Type ` set found"
    by (auto simp: eachOnce_def requiredLoop_eq Let_def found_def [symmetric] list_all_iff split: option.splits)
  also have "\<dots> \<longleftrightarrow> (\<forall>k\<in>set keys. \<exists>a. filter (\<lambda>a. na_Type a = k) found = [a] \<and> ok a)" (is "?L \<longleftrightarrow> ?R")
  proof
    assume ?L
    then show ?R
      unfolding distinct_iff_filter_single by (fastforce simp: list_all_iff)
  next
    assume each: ?R
    have single: "filter (\<lambda>b. na_Type b = na_Type a) found = [a] \<and> ok a" if "a \<in> set found" for a
    proof -
      have "a \<in> set (filter (\<lambda>b. na_Type b = na_Type a) found)" "na_Type a \<in> set keys"
        using that by (simp_all add: found_def)
      moreover obtain b where b: "filter (\<lambda>b. na_Type b = na_Type a) found = [b]" "ok b"
        using each calculation(2) by blast
      ultimately have "a = b"
        by (simp only: b(1)) simp
      then show ?thesis
        using b by blast
    qed
    then have "distinct (map na_Type found)" "list_all ok found"
      by (auto simp: distinct_iff_filter_single list_all_iff)
    moreover have "set keys \<subseteq> na_Type ` set found"
    proof
      fix k assume "k \<in> set keys"
      then obtain a where "filter (\<lambda>b. na_Type b = k) found = [a]"
        using each by blast
      then have "a \<in> set (filter (\<lambda>b. na_Type b = k) found)"
        by simp
      then show "k \<in> na_Type ` set found"
        by auto
    qed
    ultimately show ?L
      by blast
  qed
  finally show ?thesis
    using restrict by (metis (no_types, lifting))
qed

lemma ParseCertificateChain_Inr_iff [result_inv]:
  "ParseCertificateChain pki raws invalid = Inr (chain, certificates) \<longleftrightarrow>
    raws \<noteq> [] \<and> chain = raws \<and> list_all2 (\<lambda>raw c. pki_ParseCertificate pki raw = Inr c) raws certificates"
  by (auto simp: ParseCertificateChain_def result_inv)

lemma leaf_parsed:
  "raws \<noteq> [] \<Longrightarrow> list_all2 (\<lambda>raw c. pki_ParseCertificate pki raw = Inr c) raws certificates \<Longrightarrow>
    pki_ParseCertificate pki (hd raws) = Inr (hd certificates)"
  by (cases raws) (auto simp: list_all2_Cons1)

lemma VerifySignature_None_iff [result_inv]:
  "VerifySignature ctx verifier algorithm key raw data signature malformed invalid = None \<longleftrightarrow>
    (\<exists>verify sig. verifier = Impl verify \<and> NewSignature (Some signature) = Inr sig \<and> verify ctx
      \<lparr>si_Algorithm = algorithm, si_PublicKey = key, si_RawCredentialPublicKey = raw,
       si_Signed = data, si_Signature = sig\<rparr> = None)"
  by (cases verifier) (auto simp: VerifySignature_def result_inv)

lemma unexpectedField_None_iff [result_inv]:
  "unexpectedField allowed invalid statement = None \<longleftrightarrow> fst ` set statement \<subseteq> set allowed"
  by (fastforce simp: unexpectedField_def first_err_None_iff split: if_splits)

lemma SignedData_eq [simp]: "SignedData authData hash = bv_bytes authData @ hash"
  by (simp add: SignedData_def bv_appendTo_def)

lemma FindExtension_Some_iff:
  "FindExtension certificate oid = Some e \<Longrightarrow> e \<in> set (x509_Extensions certificate) \<and> pkix_Id e = oid"
  by (auto simp: FindExtension_def find_Some_iff)

text \<open>
  A certificate key that passes the comparison with the credential key has the same typed
  material: what a signature by the certificate proves, the credential key proves.
\<close>

lemma ValidatePublicKey_same_material:
  assumes "ValidatePublicKey pki key material unsupported mismatch = None" "PublicKeyMaterial pki key = Some actual"
  shows "mat_EC2 actual = (if mat_EC2 actual = None then None else mat_EC2 material) \<and>
    mat_RSA actual = (if mat_RSA actual = None then None else mat_RSA material) \<and>
    mat_OKP actual = (if mat_OKP actual = None then None else mat_OKP material) \<and>
    (mat_EC2 actual \<noteq> None \<or> mat_RSA actual \<noteq> None \<or> mat_OKP actual \<noteq> None)"
proof (cases key)
  case (EcdsaKey k)
  then show ?thesis
    using assms by (auto simp: ValidatePublicKey_def PublicKeyMaterial_def split: option.splits if_splits)
next
  case (RsaKey k)
  then show ?thesis
    using assms by (auto simp: ValidatePublicKey_def PublicKeyMaterial_def split: option.splits if_splits)
next
  case (Ed25519Key bs)
  then show ?thesis
    using assms by (auto simp: ValidatePublicKey_def PublicKeyMaterial_def split: option.splits if_splits)
next
  case UnknownKey
  then show ?thesis
    using assms by (simp add: ValidatePublicKey_def)
qed

end
