(* ===== verification/Standard_Verifier.thy ===== *)
theory Standard_Verifier
  imports X509_Util
begin

text \<open>
  \<^verbatim>\<open>src/crypto/standard/standard.go\<close>: the algorithm policy and signature verifier over the Go standard
  library. The record \<open>go_crypto\<close> holds the primitives of \<^verbatim>\<open>crypto/ecdsa\<close>, \<^verbatim>\<open>crypto/rsa\<close> and
  \<^verbatim>\<open>crypto/ed25519\<close>; what is verified here is which primitive an algorithm reaches, with which key, hash
  and data.
\<close>

datatype go_hash = SHA256 | SHA384 | SHA512

record go_crypto =
  gc_ParseUncompressedPublicKey :: "string \<Rightarrow> bytes \<Rightarrow> bool"
  gc_ecdsa_VerifyASN1 :: "string \<Rightarrow> bytes \<Rightarrow> bytes \<Rightarrow> bytes \<Rightarrow> bool"
  gc_rsa_VerifyPSS :: "int \<Rightarrow> int \<Rightarrow> go_hash \<Rightarrow> bytes \<Rightarrow> bytes \<Rightarrow> error option"
  gc_rsa_VerifyPKCS1v15 :: "int \<Rightarrow> int \<Rightarrow> go_hash \<Rightarrow> bytes \<Rightarrow> bytes \<Rightarrow> error option"
  gc_ed25519_Verify :: "bytes \<Rightarrow> bytes \<Rightarrow> bytes \<Rightarrow> bool"

type_synonym standard_Verifier = "COSEAlgorithmIdentifier list"

definition supported :: "COSEAlgorithmIdentifier \<Rightarrow> bool" where
  "supported algorithm \<longleftrightarrow> algorithm \<in> set
    [AlgorithmEdDSA, AlgorithmEd25519, AlgorithmES256, AlgorithmESP256, AlgorithmES384, AlgorithmESP384, AlgorithmES512,
     AlgorithmESP512, AlgorithmRS256, AlgorithmRS384, AlgorithmRS512, AlgorithmPS256, AlgorithmPS384, AlgorithmPS512]"

definition NewVerifier :: "COSEAlgorithmIdentifier list \<Rightarrow> standard_Verifier result" where
  "NewVerifier allowed =
    (if length allowed = 0 then Inl (Sentinel ErrNoAlgorithms)
     else check (first_err (\<lambda>algorithm. if \<not> supported algorithm
         then Some (Notef ErrStandardUnsupportedAlgorithm (itoa algorithm)) else None) allowed)
       (Inr (remdups allowed)))"

definition AcceptsAlgorithm :: "standard_Verifier option \<Rightarrow> COSEAlgorithmIdentifier \<Rightarrow> bool" where
  "AcceptsAlgorithm v algorithm = (case v of None \<Rightarrow> False | Some allowed \<Rightarrow> algorithm \<in> set allowed)"

definition digest :: "go_std \<Rightarrow> go_pki \<Rightarrow> go_hash \<Rightarrow> bytes \<Rightarrow> bytes" where
  "digest std pki hash data =
    (case hash of SHA256 \<Rightarrow> std_Sum256 std data | SHA384 \<Rightarrow> pki_Sum384 pki data | SHA512 \<Rightarrow> pki_Sum512 pki data)"

text \<open>\<open>coordinateLength\<close> is \<^verbatim>\<open>(curve.Params().BitSize + 7) / 8\<close> of the curve of that name.\<close>

definition verifyECDSA ::
  "go_std \<Rightarrow> go_pki \<Rightarrow> go_crypto \<Rightarrow> CredentialPublicKeyMaterial \<Rightarrow> string \<Rightarrow> nat \<Rightarrow> go_hash \<Rightarrow> bytes \<Rightarrow> bytes \<Rightarrow> error option" where
  "verifyECDSA std pki gc material curveName coordinateLength hash data signature =
    (case mat_EC2 material of None \<Rightarrow> Some (Sentinel ErrStandardInvalidPublicKey)
     | Some m \<Rightarrow>
       if mat_RSA material \<noteq> None \<or> mat_OKP material \<noteq> None \<or> ec2_Curve m \<noteq> curveName
       then Some (Sentinel ErrStandardInvalidPublicKey)
       else if length (ec2_X m) \<noteq> coordinateLength \<or> length (ec2_Y m) \<noteq> coordinateLength
       then Some (Sentinel ErrStandardInvalidPublicKey)
       else let encoded = [0x04] @ ec2_X m @ ec2_Y m in
         if \<not> gc_ParseUncompressedPublicKey gc curveName encoded then Some (Sentinel ErrStandardInvalidPublicKey)
         else if \<not> gc_ecdsa_VerifyASN1 gc curveName encoded (digest std pki hash data) signature
         then Some (Sentinel ErrStandardInvalidSignature)
         else None)"

definition bigInt :: "bytes \<Rightarrow> int" where
  "bigInt bs = foldl (\<lambda>acc b. acc * 256 + uint b) 0 bs"

definition verifyRSA ::
  "go_std \<Rightarrow> go_pki \<Rightarrow> go_crypto \<Rightarrow> CredentialPublicKeyMaterial \<Rightarrow> go_hash \<Rightarrow> bool \<Rightarrow> bytes \<Rightarrow> bytes \<Rightarrow> error option" where
  "verifyRSA std pki gc material hash pss data signature =
    (case mat_RSA material of None \<Rightarrow> Some (Sentinel ErrStandardInvalidPublicKey)
     | Some m \<Rightarrow>
       if mat_EC2 material \<noteq> None \<or> mat_OKP material \<noteq> None \<or> \<not> RSA_Valid (Some m)
       then Some (Sentinel ErrStandardInvalidPublicKey)
       else let n = bigInt (rsa_Modulus m); e = uint (rsa_Exponent m) in
         wrap_err ErrStandardInvalidSignature
          (if pss then gc_rsa_VerifyPSS gc n e hash (digest std pki hash data) signature
           else gc_rsa_VerifyPKCS1v15 gc n e hash (digest std pki hash data) signature))"

definition verifyEd25519 :: "go_crypto \<Rightarrow> CredentialPublicKeyMaterial \<Rightarrow> bytes \<Rightarrow> bytes \<Rightarrow> error option" where
  "verifyEd25519 gc material data signature =
    (case mat_OKP material of None \<Rightarrow> Some (Sentinel ErrStandardInvalidPublicKey)
     | Some m \<Rightarrow>
       if mat_EC2 material \<noteq> None \<or> mat_RSA material \<noteq> None \<or> okp_Curve m \<noteq> OKPCurveEd25519 \<or> length (okp_X m) \<noteq> 32
       then Some (Sentinel ErrStandardInvalidPublicKey)
       else if \<not> gc_ed25519_Verify gc (okp_X m) data signature then Some (Sentinel ErrStandardInvalidSignature)
       else None)"

definition standard_VerifySignature ::
  "go_std \<Rightarrow> go_pki \<Rightarrow> go_crypto \<Rightarrow> standard_Verifier option \<Rightarrow> ctx option \<Rightarrow> SignatureInput \<Rightarrow> error option" where
  "standard_VerifySignature std pki gc v ctx input =
    (let algorithm = si_Algorithm input; key = si_PublicKey input; data = si_Signed input;
         signature = bv_bytes (si_Signature input) in
     if \<not> AcceptsAlgorithm v algorithm then Some (Notef ErrStandardUnsupportedAlgorithm (itoa algorithm))
     else or_err (case ctx of None \<Rightarrow> None | Some poll \<Rightarrow> poll 0)
      (if algorithm = AlgorithmES256 \<or> algorithm = AlgorithmESP256
       then verifyECDSA std pki gc key EC2CurveP256 32 SHA256 data signature
       else if algorithm = AlgorithmES384 \<or> algorithm = AlgorithmESP384
       then verifyECDSA std pki gc key EC2CurveP384 48 SHA384 data signature
       else if algorithm = AlgorithmES512 \<or> algorithm = AlgorithmESP512
       then verifyECDSA std pki gc key EC2CurveP521 66 SHA512 data signature
       else if algorithm = AlgorithmRS256 then verifyRSA std pki gc key SHA256 False data signature
       else if algorithm = AlgorithmRS384 then verifyRSA std pki gc key SHA384 False data signature
       else if algorithm = AlgorithmRS512 then verifyRSA std pki gc key SHA512 False data signature
       else if algorithm = AlgorithmPS256 then verifyRSA std pki gc key SHA256 True data signature
       else if algorithm = AlgorithmPS384 then verifyRSA std pki gc key SHA384 True data signature
       else if algorithm = AlgorithmPS512 then verifyRSA std pki gc key SHA512 True data signature
       else if algorithm = AlgorithmEdDSA \<or> algorithm = AlgorithmEd25519 then verifyEd25519 gc key data signature
       else Some (Notef ErrStandardUnsupportedAlgorithm (itoa algorithm))))"

section \<open>Algorithm and key agree\<close>

text \<open>
  The reference view of the dispatch: each algorithm has one scheme, and a scheme accepts keys of
  exactly one kind. The verifier accepts a signature exactly when the scheme of the algorithm does.
\<close>

datatype scheme = ECDSA string nat go_hash | RSA go_hash bool | Ed25519

definition scheme_of :: "COSEAlgorithmIdentifier \<Rightarrow> scheme option" where
  "scheme_of = map_of
    [(AlgorithmES256, ECDSA EC2CurveP256 32 SHA256), (AlgorithmESP256, ECDSA EC2CurveP256 32 SHA256),
     (AlgorithmES384, ECDSA EC2CurveP384 48 SHA384), (AlgorithmESP384, ECDSA EC2CurveP384 48 SHA384),
     (AlgorithmES512, ECDSA EC2CurveP521 66 SHA512), (AlgorithmESP512, ECDSA EC2CurveP521 66 SHA512),
     (AlgorithmRS256, RSA SHA256 False), (AlgorithmRS384, RSA SHA384 False), (AlgorithmRS512, RSA SHA512 False),
     (AlgorithmPS256, RSA SHA256 True), (AlgorithmPS384, RSA SHA384 True), (AlgorithmPS512, RSA SHA512 True),
     (AlgorithmEdDSA, Ed25519), (AlgorithmEd25519, Ed25519)]"

fun scheme_accepts :: "go_std \<Rightarrow> go_pki \<Rightarrow> go_crypto \<Rightarrow> scheme \<Rightarrow> CredentialPublicKeyMaterial \<Rightarrow> bytes \<Rightarrow> bytes \<Rightarrow> bool" where
  "scheme_accepts std pki gc (ECDSA curve len hash) key data signature \<longleftrightarrow>
    (\<exists>m. key = \<lparr>mat_EC2 = Some m, mat_RSA = None, mat_OKP = None\<rparr> \<and> ec2_Curve m = curve \<and>
      length (ec2_X m) = len \<and> length (ec2_Y m) = len \<and>
      gc_ParseUncompressedPublicKey gc curve ([0x04] @ ec2_X m @ ec2_Y m) \<and>
      gc_ecdsa_VerifyASN1 gc curve ([0x04] @ ec2_X m @ ec2_Y m) (digest std pki hash data) signature)"
| "scheme_accepts std pki gc (RSA hash pss) key data signature \<longleftrightarrow>
    (\<exists>m. key = \<lparr>mat_EC2 = None, mat_RSA = Some m, mat_OKP = None\<rparr> \<and> RSA_Valid (Some m) \<and>
      (if pss then gc_rsa_VerifyPSS gc else gc_rsa_VerifyPKCS1v15 gc)
        (bigInt (rsa_Modulus m)) (uint (rsa_Exponent m)) hash (digest std pki hash data) signature = None)"
| "scheme_accepts std pki gc Ed25519 key data signature \<longleftrightarrow>
    (\<exists>m. key = \<lparr>mat_EC2 = None, mat_RSA = None, mat_OKP = Some m\<rparr> \<and> okp_Curve m = OKPCurveEd25519 \<and>
      length (okp_X m) = 32 \<and> gc_ed25519_Verify gc (okp_X m) data signature)"

lemmas algorithm_defs = AlgorithmEdDSA_def AlgorithmES256_def AlgorithmESP256_def AlgorithmES384_def AlgorithmESP384_def
  AlgorithmES512_def AlgorithmESP512_def AlgorithmEd448_def AlgorithmRS256_def AlgorithmRS384_def AlgorithmRS512_def
  AlgorithmPS256_def AlgorithmPS384_def AlgorithmPS512_def AlgorithmEd25519_def

lemma verifyECDSA_None_iff:
  "verifyECDSA std pki gc key curve len hash data signature = None \<longleftrightarrow>
    scheme_accepts std pki gc (ECDSA curve len hash) key data signature"
  by (cases key) (auto simp: verifyECDSA_def Let_def split: option.splits if_splits)

lemma verifyRSA_None_iff:
  "verifyRSA std pki gc key hash pss data signature = None \<longleftrightarrow> scheme_accepts std pki gc (RSA hash pss) key data signature"
  by (cases key) (auto simp: verifyRSA_def Let_def split: option.splits if_splits)

lemma verifyEd25519_None_iff:
  "verifyEd25519 gc key data signature = None \<longleftrightarrow> scheme_accepts std pki gc Ed25519 key data signature"
  by (cases key) (auto simp: verifyEd25519_def split: option.splits if_splits)

lemma scheme_of_supported: "supported algorithm \<longleftrightarrow> scheme_of algorithm \<noteq> None"
  by (simp add: supported_def scheme_of_def)

lemma NewVerifier_Inr_iff:
  "NewVerifier allowed = Inr v \<longleftrightarrow> allowed \<noteq> [] \<and> (\<forall>a\<in>set allowed. supported a) \<and> v = remdups allowed"
  by (auto simp: NewVerifier_def check_Inr_iff first_err_None_iff split: if_splits)

lemma standard_VerifySignature_None_iff:
  "standard_VerifySignature std pki gc v ctx input = None \<longleftrightarrow>
    AcceptsAlgorithm v (si_Algorithm input) \<and> (case ctx of None \<Rightarrow> True | Some poll \<Rightarrow> poll 0 = None) \<and>
    (\<exists>s. scheme_of (si_Algorithm input) = Some s \<and>
      scheme_accepts std pki gc s (si_PublicKey input) (si_Signed input) (bv_bytes (si_Signature input)))"
proof -
  have ctx: "(case ctx of None \<Rightarrow> None | Some poll \<Rightarrow> poll 0) = None \<longleftrightarrow> (case ctx of None \<Rightarrow> True | Some poll \<Rightarrow> poll 0 = None)"
    by (simp split: option.splits)
  show ?thesis
    unfolding standard_VerifySignature_def Let_def if_Some_None_iff or_err_None_iff ctx not_not
    by (intro conj_cong refl)
      (simp add: scheme_of_def algorithm_defs verifyECDSA_None_iff verifyRSA_None_iff
        verifyEd25519_None_iff [of gc _ _ _ std pki] del: scheme_accepts.simps)
qed

end
