(* ===== verification/Credential_Keys.thy ===== *)
theory Credential_Keys
  imports Cbor_Codec Standard_Verifier
begin

text \<open>
  From COSE bytes to a signature check: the keys that \<^verbatim>\<open>src/codec/cbor\<close> decodes are of the kind that
  \<^verbatim>\<open>src/crypto/standard\<close> needs for their algorithm, so a verdict on such a key is one about the signature.
\<close>

fun schemeKey :: "go_cbor \<Rightarrow> scheme \<Rightarrow> CredentialPublicKeyMaterial \<Rightarrow> bool" where
  "schemeKey c (ECDSA curve len hash) key \<longleftrightarrow>
    (\<exists>m. key = \<lparr>mat_EC2 = Some m, mat_RSA = None, mat_OKP = None\<rparr> \<and> ec2_Curve m = curve \<and>
      length (ec2_X m) = len \<and> length (ec2_Y m) = len \<and> ecdh_NewPublicKey c curve ([0x04] @ ec2_X m @ ec2_Y m))"
| "schemeKey c (RSA hash pss) key \<longleftrightarrow>
    (\<exists>m. key = \<lparr>mat_EC2 = None, mat_RSA = Some m, mat_OKP = None\<rparr> \<and> RSA_Valid (Some m))"
| "schemeKey c Ed25519 key \<longleftrightarrow>
    (\<exists>m. key = \<lparr>mat_EC2 = None, mat_RSA = None, mat_OKP = Some m\<rparr> \<and> okp_Curve m = OKPCurveEd25519 \<and> length (okp_X m) = 32)"

lemmas curve_names = EC2CurveP256_def EC2CurveP384_def EC2CurveP521_def OKPCurveEd25519_def OKPCurveEd448_def

lemma ec2_coordinates:
  assumes "mat_EC2 (publicKeyMaterial key keyType) = Some m"
  shows "length (ec2_X m) = length (ec2_Y m)"
    "ec2_Curve m = EC2CurveP256 \<Longrightarrow> length (ec2_X m) = 32" "ec2_Curve m = EC2CurveP384 \<Longrightarrow> length (ec2_X m) = 48"
    "ec2_Curve m = EC2CurveP521 \<Longrightarrow> length (ec2_X m) = 66"
  using assms
  by (auto simp: publicKeyMaterial_def ec2PublicKeyMaterial_def rsaPublicKeyMaterial_def okpPublicKeyMaterial_def noMaterial_def
      ec2Curve_def curve_names Let_def split: if_splits option.splits)

lemma validateEC2Material_None_iff:
  "validateEC2Material c material curve = None \<longleftrightarrow>
    (\<exists>m. material = \<lparr>mat_EC2 = Some m, mat_RSA = None, mat_OKP = None\<rparr> \<and> ec2_Curve m = curve \<and>
      ecdh_NewPublicKey c curve ([0x04] @ ec2_X m @ ec2_Y m))"
  by (cases material) (auto simp: validateEC2Material_def split: option.splits if_splits)

lemma decoded_schemeKey:
  assumes "validateCredentialPublicKey c algorithm (publicKeyMaterial key keyType) = None" "scheme_of algorithm = Some s"
  shows "schemeKey c s (publicKeyMaterial key keyType)"
proof -
  have ec: "schemeKey c (ECDSA curve len hash) (publicKeyMaterial key keyType)"
    if "validateEC2Material c (publicKeyMaterial key keyType) curve = None"
      "(curve, len) \<in> {(EC2CurveP256, 32), (EC2CurveP384, 48), (EC2CurveP521, 66)}" for curve len hash
    using that ec2_coordinates [of key keyType] by (auto simp: validateEC2Material_None_iff)
  show ?thesis
    using assms ec
    by (cases "publicKeyMaterial key keyType")
      (auto simp: validateCredentialPublicKey_def scheme_of_def algorithm_defs split: if_splits option.splits)
qed

text \<open>On a key of its scheme the verifier never blames the key.\<close>

lemma schemeKey_verdict:
  assumes "schemeKey c s key" "scheme_of (si_Algorithm input) = Some s" "si_PublicKey input = key"
    and points: "\<And>curve point. ecdh_NewPublicKey c curve point \<Longrightarrow> gc_ParseUncompressedPublicKey gc curve point"
    and "AcceptsAlgorithm v (si_Algorithm input)"
    and "standard_VerifySignature std pki gc v None input = Some e"
  shows "errors_is e ErrStandardInvalidSignature"
  using assms
  by (auto simp: standard_VerifySignature_def scheme_of_def algorithm_defs verifyECDSA_def verifyRSA_def verifyEd25519_def
      Let_def wrap_err_def split: if_splits option.splits)

end
