(* ===== verification/Passkey_Preset.thy ===== *)
theory Passkey_Preset
  imports Relying_Party Authentication_Spec Attestation_Policy Credential_Keys
begin

text \<open>
  \<^verbatim>\<open>src/preset/passkey.go\<close>: the configuration for discoverable credentials with required user verification,
  assembled from the decoder, verifier, registries and policies of the repository. The mode of the CBOR
  decoder comes from a package outside the repository: \<open>NewDecoder\<close> is an argument.
\<close>

definition ResidentKeyRequired :: ResidentKeyRequirement where "ResidentKeyRequired = ''required''"

text \<open>The zero value of the policies the preset leaves out.\<close>

definition zero_ExtensionInputPolicy :: ExtensionInputPolicy where
  "zero_ExtensionInputPolicy = \<lparr>eip_RejectUnknown = False\<rparr>"

definition PasskeyConfig ::
  "go_std \<Rightarrow> go_pki \<Rightarrow> go_crypto \<Rightarrow> go_cbor result \<Rightarrow> RPEntity \<Rightarrow> OriginPolicy \<Rightarrow> Config result" where
  "PasskeyConfig std pki gc NewDecoder rp origins =
    and_then NewDecoder (\<lambda>decoder.
    let parameters = RecommendedLevel3CredentialParameters; algorithms = map cp_Algorithm parameters in
    and_then (NewVerifier algorithms) (\<lambda>verifier.
    and_then (att_NewRegistry [Impl none_Verifier]) (\<lambda>attesters.
    and_then NewLevel3Registry (\<lambda>extensions.
    Inr \<lparr>cfg_RP = rp, cfg_OriginPolicy = origins, cfg_PubKeyCredParams = parameters,
      cfg_AttestationObjectDecoder = Impl (DecodeAttestationObject (Some decoder)),
      cfg_CredentialPublicKeyDecoder = Impl (DecodeCredentialPublicKey (Some decoder)),
      cfg_ExtensionMapDecoder = Impl (DecodeExtensionMap (Some decoder)),
      cfg_SignatureVerifier = Impl (\<lambda>ctx. standard_VerifySignature std pki gc (Some verifier) (Some ctx)),
      cfg_AlgorithmPolicy = Impl (AcceptsAlgorithm (Some verifier)),
      cfg_AttestationRegistry = Some attesters, cfg_AttestationTrustPolicy = AcceptNone,
      cfg_ExtensionRegistry = Some extensions,
      cfg_Registration = \<lparr>rc_AuthenticatorSelection = Some \<lparr>sel_AuthenticatorAttachment = [], sel_ResidentKey = ResidentKeyRequired,
          sel_RequireResidentKey = False, sel_UserVerification = UserVerificationRequired\<rparr>,
        rc_Attestation = AttestationNone, rc_AttestationFormats = [], rc_ExtensionInputPolicy = zero_ExtensionInputPolicy,
        rc_ExtensionPolicy = \<lparr>rep_RejectUnrequested = False, rep_RejectUnknown = False\<rparr>\<rparr>,
      cfg_Authentication = \<lparr>ac_UserVerification = UserVerificationRequired, ac_ExtensionInputPolicy = zero_ExtensionInputPolicy,
        ac_ExtensionPolicy = \<lparr>aep_RejectUnrequested = False, aep_RejectUnknown = False, aep_AppID = []\<rparr>,
        ac_CounterPolicy = \<lparr>cpol_RejectCloneRisk = False, cpol_UpdateOnCloneRisk = False\<rparr>\<rparr>,
      cfg_Timeout = 0, cfg_StateTTL = 0, cfg_ChallengeGenerator = NilIface, cfg_Now = None\<rparr>))))"

section \<open>The preset is accepted\<close>

lemma passkey_verifier:
  "NewVerifier (map cp_Algorithm RecommendedLevel3CredentialParameters) = Inr [AlgorithmEdDSA, AlgorithmES256, AlgorithmRS256]"
  by code_simp

lemma passkey_attesters: "att_NewRegistry [Impl none_Verifier] = Inr [(none_format, none_Verifier)]"
proof -
  have "identifier_Valid none_format"
    by code_simp
  then show ?thesis
    by (simp add: att_NewRegistry_def addVerifiers_Inr_iff verifierUsable_def verifierFormat_def verifierImpl_def none_Verifier_def map_put_def)
qed

lemma PasskeyConfig_Inr:
  assumes "PasskeyConfig std pki gc NewDecoder rp origins = Inr c"
  shows "cfg_RP c = rp" "cfg_OriginPolicy c = origins" "cfg_PubKeyCredParams c = RecommendedLevel3CredentialParameters"
    "cfg_SignatureVerifier c = Impl (\<lambda>ctx. standard_VerifySignature std pki gc
      (Some [AlgorithmEdDSA, AlgorithmES256, AlgorithmRS256]) (Some ctx))"
    "cfg_AlgorithmPolicy c = Impl (AcceptsAlgorithm (Some [AlgorithmEdDSA, AlgorithmES256, AlgorithmRS256]))"
    "cfg_AttestationTrustPolicy c = AcceptNone" "cfg_AttestationRegistry c = Some [(none_format, none_Verifier)]"
    "rc_Attestation (cfg_Registration c) = AttestationNone"
    "ac_UserVerification (cfg_Authentication c) = UserVerificationRequired"
    "\<exists>selection. rc_AuthenticatorSelection (cfg_Registration c) = Some selection \<and>
      sel_ResidentKey selection = ResidentKeyRequired \<and> sel_UserVerification selection = UserVerificationRequired"
    "\<not> IsNil (cfg_AttestationObjectDecoder c)" "\<not> IsNil (cfg_CredentialPublicKeyDecoder c)"
    "\<not> IsNil (cfg_ExtensionMapDecoder c)"
  using assms unfolding PasskeyConfig_def Let_def passkey_verifier passkey_attesters
  by (auto simp: and_then_Inr_iff)

lemma PasskeyConfig_total:
  "(\<exists>c. PasskeyConfig std pki gc NewDecoder rp origins = Inr c) \<longleftrightarrow> (\<exists>d. NewDecoder = Inr d)"
  unfolding PasskeyConfig_def Let_def passkey_verifier passkey_attesters Level3_registry
  by (auto simp: and_then_Inr_iff)

lemma passkey_parameters: "registrationCredentialParameters RecommendedLevel3CredentialParameters = Inr RecommendedLevel3CredentialParameters"
  by code_simp

lemma passkey_algorithms: "map cp_Algorithm RecommendedLevel3CredentialParameters = [AlgorithmEdDSA, AlgorithmES256, AlgorithmRS256]"
  by code_simp

lemma passkey_timeout: "and_err (timeoutState DefaultBrowserTimeout DefaultChallengeTTL 0) (\<lambda>_. e) = e"
proof -
  have "case timeoutState DefaultBrowserTimeout DefaultChallengeTTL 0 of Inl _ \<Rightarrow> False | Inr _ \<Rightarrow> True"
    by code_simp
  then show ?thesis
    by (auto simp: and_err_def split: sum.splits)
qed

lemma passkey_checks:
  "Selection_Validate (defaultedSelection (Some \<lparr>sel_AuthenticatorAttachment = [], sel_ResidentKey = ResidentKeyRequired,
    sel_RequireResidentKey = False, sel_UserVerification = UserVerificationRequired\<rparr>) UserVerificationPreferred) = None"
  "validateUserVerification UserVerificationRequired = None" "Attestation_Known AttestationNone"
  "AttestationNone \<noteq> []" "UserVerificationRequired \<noteq> []"
  by code_simp+

lemma passkey_policy:
  "first_err (\<lambda>parameter. if \<not> AcceptsAlgorithm (Some [AlgorithmEdDSA, AlgorithmES256, AlgorithmRS256]) (cp_Algorithm parameter)
    then Some (Sentinel ErrUnsupportedAlgorithm) else None) RecommendedLevel3CredentialParameters = None"
  by code_simp

lemma passkey_trust: "\<not> IsNil AcceptNone"
  by (simp add: AcceptNone_def allowTypesPolicy_def)

lemma passkey_accepted_iff:
  assumes "PasskeyConfig std pki gc NewDecoder rp origins = Inr c"
  shows "(\<exists>p. New std env c = Inr p) \<longleftrightarrow> RPEntity_Validate rp = None \<and> validateOriginPolicy std origins = None \<and>
    validateRPIDOriginPolicy std (rp_ID rp) origins = None"
proof -
  obtain d where "NewDecoder = Inr d"
    using PasskeyConfig_total assms by blast
  then have "PasskeyConfig std pki gc (Inr d) rp origins = Inr c"
    using assms by simp
  then have c: "Inr c = PasskeyConfig std pki gc (Inr d) rp origins"
    by simp
  have accepted: "(\<exists>p. New std env c = Inr p) \<longleftrightarrow> validateConfig (configDefaults env RecommendedLevel3CredentialParameters c) std = None"
    using PasskeyConfig_Inr(3) [OF assms] passkey_parameters by (auto simp: New_def Let_def result_inv)
  show ?thesis
    unfolding accepted validateConfig_def
    using c
    by (simp add: PasskeyConfig_def passkey_verifier passkey_attesters Level3_registry configDefaults_def Let_def passkey_timeout
        or_err_None_iff passkey_checks passkey_policy passkey_trust dependency_def validateFinishDependencies_None_iff
        first_err_None_iff)
qed

lemma passkey_authentication:
  assumes "PasskeyConfig std pki gc NewDecoder rp origins = Inr c" "New std env c = Inr p"
    and "RP_FinishAuthentication std env (Some p) ctx request = Inr res"
  shows "ares_UserVerified res"
    "\<exists>s. scheme_of (cpk_Algorithm (cr_PublicKey (aver_Credential request))) = Some s \<and>
      scheme_accepts std pki gc s (cpk_material (cr_PublicKey (aver_Credential request)))
        (bv_bytes (ar_AuthenticatorData (aver_Response request)) @
          std_Sum256 std (bv_bytes (ar_ClientDataJSON (aver_Response request))))
        (bv_bytes (ar_Signature (aver_Response request)))"
    "cpk_Algorithm (cr_PublicKey (aver_Credential request)) \<in> {AlgorithmEdDSA, AlgorithmES256, AlgorithmRS256}"
proof -
  note c = PasskeyConfig_Inr [OF assms(1)]
  obtain parameters where params: "registrationCredentialParameters (cfg_PubKeyCredParams c) = Inr parameters"
    and p: "rp_config p = configDefaults env parameters c" "rp_ready p" "rp_algorithms p = map cp_Algorithm parameters"
    using assms(2) by (rule New_InrE)
  let ?options = "authenticationFinishOptions (rp_config p) request"
  have run: "FinishAuthentication std env ctx ?options = Inr res"
    and state: "authenticationStateMatches p (aver_State request)"
    and algorithm: "cpk_Algorithm (cr_PublicKey (aver_Credential request)) \<in> set (rp_algorithms p)"
    using assms(3) p(2) by (auto simp: RP_FinishAuthentication_def result_inv)
  have required: "as_RequestedUserVerification (aver_State request) = UserVerificationRequired"
    using state c(9) by (simp add: authenticationStateMatches_def p(1) configDefaults_def Let_def UserVerificationRequired_def)
  obtain d parsed exts extensionResults where
    evidence: "assertionEvidence std (normalizeContext ctx) ?options d parsed exts"
    and res: "res = authenticationResult ?options parsed
      (compareCounters (cr_SignCount (afo_Credential ?options)) (pad_SignCount parsed)) extensionResults"
    using run unfolding FinishAuthentication_refines authenticationSpec_def by blast
  show "ares_UserVerified res"
    using evidence required by (simp add: res assertionEvidence_def Let_def authenticationFlagsOK_def authenticationFinishOptions_def)
  show "cpk_Algorithm (cr_PublicKey (aver_Credential request)) \<in> {AlgorithmEdDSA, AlgorithmES256, AlgorithmRS256}"
    using algorithm params unfolding p(3) c(3) passkey_parameters
    by (auto simp: RecommendedLevel3CredentialParameters_def)
  have "cfg_SignatureVerifier (rp_config p) = cfg_SignatureVerifier c"
    by (simp add: p(1) configDefaults_def Let_def)
  then have "standard_VerifySignature std pki gc (Some [AlgorithmEdDSA, AlgorithmES256, AlgorithmRS256]) (Some (normalizeContext ctx))
      (signatureInput (aver_Credential request) (aver_Response request)
        (std_Sum256 std (bv_bytes (ar_ClientDataJSON (aver_Response request))))) = None"
    using evidence c(4) by (simp add: assertionEvidence_def Let_def authenticationFinishOptions_def)
  then show "\<exists>s. scheme_of (cpk_Algorithm (cr_PublicKey (aver_Credential request))) = Some s \<and>
      scheme_accepts std pki gc s (cpk_material (cr_PublicKey (aver_Credential request)))
        (bv_bytes (ar_AuthenticatorData (aver_Response request)) @
          std_Sum256 std (bv_bytes (ar_ClientDataJSON (aver_Response request))))
        (bv_bytes (ar_Signature (aver_Response request)))"
    unfolding standard_VerifySignature_None_iff by (simp add: signatureInput_def)
qed

end
