(* ===== verification/E2e_App.thy ===== *)
theory E2e_App
  imports E2e_Store Passkey_Preset
begin

text \<open>
  The other files of \<^verbatim>\<open>src/internal/e2eapp\<close>: the application, its handlers, the JSON it answers, its signature verifier and
  the normalization of the registration JSON of a test browser. \<open>e2e_RawMember\<close> is the text of a member of a JSON object
  (\<^verbatim>\<open>jsontext.Value\<close>); it, the multiplexer and the file server are parameters. TLS is left to the standard library.
\<close>

section \<open>The application\<close>

definition registrationCookie :: string where "registrationCookie = ''e2e_registration''"
definition authenticationCookie :: string where "authenticationCookie = ''e2e_authentication''"
definition sessionCookie :: string where "sessionCookie = ''e2e_session''"

record e2e_app =
  e2e_std :: go_std
  e2e_text :: go_text
  e2e_pki :: go_pki
  e2e_crypto :: go_crypto
  e2e_RawMember :: "bytes \<Rightarrow> string \<Rightarrow> bytes option"
  e2e_rpID :: string
  e2e_origin :: string
  e2e_decoder :: go_cbor
  e2e_attesters :: att_registry
  e2e_extensions :: ext_registry

definition e2e_newApp ::
  "go_std \<Rightarrow> go_text \<Rightarrow> go_pki \<Rightarrow> go_crypto \<Rightarrow> (bytes \<Rightarrow> string \<Rightarrow> bytes option) \<Rightarrow> go_cbor result \<Rightarrow> string \<Rightarrow> (e2e_app \<times> e2e_store) result" where
  "e2e_newApp std tx pki gc raw NewDecoder host =
    and_then NewDecoder (\<lambda>decoder.
    and_then (att_NewRegistry [Impl none_Verifier]) (\<lambda>attesters.
    and_then NewLevel3RegistryWithDeprecated (\<lambda>extensions.
    Inr (\<lparr>e2e_std = std, e2e_text = tx, e2e_pki = pki, e2e_crypto = gc, e2e_RawMember = raw, e2e_rpID = host,
       e2e_origin = ''https://'' @ host @ '':8443'', e2e_decoder = decoder, e2e_attesters = attesters, e2e_extensions = extensions\<rparr>,
      newStore))))"

definition e2e_originPolicy :: "e2e_app \<Rightarrow> OriginPolicy" where
  "e2e_originPolicy a = \<lparr>op_AllowedOrigins = [e2e_origin a], op_AllowedTopOrigins = [], op_AllowCrossOriginWithoutTopOrigin = False,
     op_AllowRelatedOrigins = False\<rparr>"

definition e2e_clearCookie :: "string \<Rightarrow> server_event" where
  "e2e_clearCookie name = SetCookie name [] (- 1)"

definition setSession :: "e2e_store \<Rightarrow> go_env \<Rightarrow> UserHandle \<Rightarrow> e2e_store \<times> server_event list result" where
  "setSession s env handle =
    (case createSession s env handle of (s', Inl e) \<Rightarrow> (s', Inl e)
     | (s', Inr name) \<Rightarrow> (s', Inr [SetCookie sessionCookie name 3600]))"

section \<open>Signatures\<close>

definition ec2CurveAndHash :: "COSEAlgorithmIdentifier \<Rightarrow> string \<Rightarrow> (string \<times> nat \<times> go_hash) result" where
  "ec2CurveAndHash algorithm curveName =
    (if algorithm = AlgorithmES256 \<and> curveName = EC2CurveP256 then Inr (EC2CurveP256, 256, SHA256)
     else if algorithm = AlgorithmES384 \<and> curveName = EC2CurveP384 then Inr (EC2CurveP384, 384, SHA384)
     else if algorithm = AlgorithmES512 \<and> curveName = EC2CurveP521 then Inr (EC2CurveP521, 521, SHA512)
     else Inl (Newf ''unsupported EC2 algorithm with curve''))"

definition e2e_VerifySignature :: "e2e_app \<Rightarrow> CredentialPublicKey \<Rightarrow> SignatureInput \<Rightarrow> error option" where
  "e2e_VerifySignature a publicKey i =
    (case mat_EC2 (cpk_material publicKey) of
       Some m \<Rightarrow>
        (case ec2CurveAndHash (si_Algorithm i) (ec2_Curve m) of Inl e \<Rightarrow> Some e
         | Inr (curve, bits, hash) \<Rightarrow>
           let coordinateLength = (bits + 7) div 8; encoded = [4] @ ec2_X m @ ec2_Y m in
           if length (ec2_X m) \<noteq> coordinateLength \<or> length (ec2_Y m) \<noteq> coordinateLength
           then Some (Newf ''invalid EC2 coordinate length'')
           else if \<not> gc_ParseUncompressedPublicKey (e2e_crypto a) curve encoded
           then Some (Newf ''invalid EC2 coordinates'')
           else if \<not> gc_ecdsa_VerifyASN1 (e2e_crypto a) curve encoded (digest (e2e_std a) (e2e_pki a) hash (si_Signed i))
             (bv_bytes (si_Signature i))
           then Some (Newf ''ECDSA signature rejected'')
           else None)
     | None \<Rightarrow> Some (Newf ''unsupported algorithm''))"

section \<open>Requests and responses\<close>

definition userResponse_json :: "string \<Rightarrow> json" where
  "userResponse_json email = JObject [(''email'', JString email)]"

definition sessionResponse_json :: "bool \<Rightarrow> string option \<Rightarrow> json" where
  "sessionResponse_json authenticated user =
    json_object [(''authenticated'', Some (JBool authenticated)), (''user'', map_option userResponse_json user)]"

definition authenticationResponse_json :: "string \<Rightarrow> json" where
  "authenticationResponse_json email = JObject [(''ok'', JBool True), (''user'', userResponse_json email)]"

definition debugCredentialResponse_json :: "string \<Rightarrow> 32 word \<Rightarrow> json" where
  "debugCredentialResponse_json email signCount =
    JObject [(''ok'', JBool True), (''email'', JString email), (''signCount'', json_int_of (uint signCount))]"

definition writeGenericError :: "e2e_app \<Rightarrow> ResponseWriter iface \<Rightarrow> int \<Rightarrow> server_event list" where
  "writeGenericError a w status =
    reply (WriteJSON (e2e_text a) w status (JObject [(''ok'', JBool False), (''error'', JString (StatusText status))]))"

text \<open>The server gives every request a body.\<close>

definition decodeJSON :: "e2e_app \<Rightarrow> http_request \<Rightarrow> (bytes \<Rightarrow> json \<Rightarrow> 'a result) \<Rightarrow> 'a result" where
  "decodeJSON a r target =
    (let body = (case req_Body r of None \<Rightarrow> \<lparr>rb_Bytes = [], rb_Error = None\<rparr> | Some b \<Rightarrow> b) in
     case ReadAllLimited body (nat (DefaultMaxBodyBytes + 1)) of
       (data, Some e) \<Rightarrow> Inl e
     | (data, None) \<Rightarrow>
       if int (length data) > DefaultMaxBodyBytes then Inl (Sentinel ErrRequestBodyTooLarge)
       else (case std_json (e2e_std a) data of None \<Rightarrow> Inl jsonError | Some j \<Rightarrow> target data j))"

definition registerOptionsRequest_of_json :: "bytes \<Rightarrow> json \<Rightarrow> (string \<times> string \<times> string) result" where
  "registerOptionsRequest_of_json data j =
    and_then (json_struct (Some j)) (\<lambda>ms.
    and_then (json_string (map_of ms ''email'')) (\<lambda>email.
    and_then (json_string (map_of ms ''displayName'')) (\<lambda>displayName.
    and_then (json_string (map_of ms ''mode'')) (\<lambda>mode. Inr (email, displayName, mode)))))"

definition loginOptionsRequest_of_json :: "bytes \<Rightarrow> json \<Rightarrow> (string \<times> string) result" where
  "loginOptionsRequest_of_json data j =
    and_then (json_struct (Some j)) (\<lambda>ms.
    and_then (json_string (map_of ms ''email'')) (\<lambda>email.
    and_then (json_string (map_of ms ''mode'')) (\<lambda>mode. Inr (email, mode))))"

text \<open>\<^verbatim>\<open>registerFinishRequest\<close> and \<^verbatim>\<open>loginFinishRequest\<close>: the credential is the text of a member, empty when it is absent.\<close>

definition finishRequest_of_json :: "e2e_app \<Rightarrow> bytes \<Rightarrow> json \<Rightarrow> (string \<times> bytes) result" where
  "finishRequest_of_json a data j =
    and_then (json_struct (Some j)) (\<lambda>ms.
    and_then (json_string (map_of ms ''email'')) (\<lambda>email.
    Inr (email, case e2e_RawMember a data ''credential'' of None \<Rightarrow> [] | Some raw \<Rightarrow> raw)))"

section \<open>The registration JSON of a test browser\<close>

definition sameJSONString :: "json option \<Rightarrow> json option \<Rightarrow> bool" where
  "sameJSONString left right =
    (case (left, right) of
       (Some l, Some r) \<Rightarrow>
        (case (json_string (Some l), json_string (Some r)) of (Inr x, Inr y) \<Rightarrow> x = y | _ \<Rightarrow> False)
     | _ \<Rightarrow> False)"

definition registrationMembers :: "go_std \<Rightarrow> bytes \<Rightarrow> ((string \<times> json) list \<times> (string \<times> json) list) result" where
  "registrationMembers std data =
    (case std_json std data of None \<Rightarrow> Inl jsonError
     | Some j \<Rightarrow> and_then (json_struct (Some j)) (\<lambda>root.
       case map_of root ''response'' of Some (JObject response) \<Rightarrow> Inr (root, response)
       | _ \<Rightarrow> Inl (Newf ''registration response is required'')))"

definition encodedAttestation :: "(string \<times> json) list \<Rightarrow> AttestationObject result" where
  "encodedAttestation response =
    (case map_of response ''attestationObject'' of None \<Rightarrow> Inl (Newf ''attestation object is required'')
     | Some j \<Rightarrow>
       (case json_string (Some j) of Inl _ \<Rightarrow> Inl (Newf ''attestation object is required'')
        | Inr encoded \<Rightarrow>
          if encoded = [] then Inl (Newf ''attestation object is required'')
          else (case b64_decode encoded of None \<Rightarrow> Inl (Newf ''attestation object encoding is invalid'')
            | Some bs \<Rightarrow> if b64_encode bs \<noteq> encoded then Inl (Newf ''attestation object encoding is invalid'')
                else NewAttestationObject (Some bs))))"

definition normalizePlaywrightRegistrationJSON ::
  "go_std \<Rightarrow> go_text \<Rightarrow> bytes \<Rightarrow> AttestationObjectDecoder \<Rightarrow> bytes result" where
  "normalizePlaywrightRegistrationJSON std tx data decoder =
    (if IsNil decoder then Inl (Newf ''attestation object decoder is required'') else
     and_then (registrationMembers std data) (\<lambda>(root, response).
     if map_of response ''authenticatorData'' \<noteq> None \<and>
       \<not> sameJSONString (map_of response ''authenticatorData'') (map_of response ''attestationObject'')
     then Inr data
     else and_then (encodedAttestation response) (\<lambda>attestationObject.
     and_then (call decoder attestationObject) (\<lambda>decoded.
     let encoded = JString (b64_encode (bv_bytes (dao_AuthenticatorData decoded)));
         response = map_put ''authenticatorData'' encoded response in
     and_then (js_Marshal tx encoded) (\<lambda>_.
     and_then (js_Marshal tx (JObject response)) (\<lambda>_.
     js_Marshal tx (JObject (map_put ''response'' (JObject response) root))))))))"

section \<open>Registration\<close>

definition AuthenticatorAttachmentPlatform :: AuthenticatorAttachment where "AuthenticatorAttachmentPlatform = ''platform''"
definition AuthenticatorAttachmentCrossPlatform :: AuthenticatorAttachment where
  "AuthenticatorAttachmentCrossPlatform = ''cross-platform''"
definition ResidentKeyDiscouraged :: ResidentKeyRequirement where "ResidentKeyDiscouraged = ''discouraged''"
definition HintClientDevice :: PublicKeyCredentialHint where "HintClientDevice = ''client-device''"
definition HintSecurityKey :: PublicKeyCredentialHint where "HintSecurityKey = ''security-key''"

definition registerSelection :: "string \<Rightarrow> AuthenticatorSelectionCriteria \<times> PublicKeyCredentialHint list" where
  "registerSelection mode =
    (if mode = ''roaming''
     then (\<lparr>sel_AuthenticatorAttachment = AuthenticatorAttachmentCrossPlatform, sel_ResidentKey = ResidentKeyDiscouraged,
         sel_RequireResidentKey = False, sel_UserVerification = UserVerificationPreferred\<rparr>, [HintSecurityKey])
     else (\<lparr>sel_AuthenticatorAttachment = AuthenticatorAttachmentPlatform, sel_ResidentKey = ResidentKeyRequired,
         sel_RequireResidentKey = True, sel_UserVerification = UserVerificationRequired\<rparr>, [HintClientDevice]))"

definition registerStart :: "e2e_app \<Rightarrow> e2e_user \<Rightarrow> string \<Rightarrow> RegistrationStartOptions" where
  "registerStart a user mode =
    \<lparr>rso_RP = \<lparr>rp_ID = e2e_rpID a, rp_Name = ''WebAuthn E2E''\<rparr>,
     rso_User = \<lparr>user_ID = u_Handle user, user_Name = u_Email user, user_DisplayName = u_DisplayName user\<rparr>,
     rso_OriginPolicy = e2e_originPolicy a, rso_ConditionalMediation = False, rso_Challenge = zero_byteValue,
     rso_ChallengeGenerator = NilIface,
     rso_PubKeyCredParams = [\<lparr>cp_Type = CredentialTypePublicKey, cp_Algorithm = AlgorithmES256\<rparr>],
     rso_Timeout = 30 * second, rso_StateTTL = 0, rso_ExcludeCredentials = [],
     rso_AuthenticatorSelection = Some (fst (registerSelection mode)), rso_Hints = snd (registerSelection mode),
     rso_Attestation = AttestationNone, rso_AttestationFormats = [], rso_Extensions = [], rso_ExtensionRegistry = None,
     rso_ExtensionInputPolicy = zero_ExtensionInputPolicy, rso_Now = None\<rparr>"

definition cookie_age :: int where "cookie_age = DefaultChallengeTTL div second"

definition registerOptions ::
  "e2e_app \<Rightarrow> e2e_store \<Rightarrow> ResponseWriter iface \<Rightarrow> http_request \<Rightarrow> server_call \<Rightarrow> e2e_store \<times> server_event list" where
  "registerOptions a s w r c =
    (case decodeJSON a r registerOptionsRequest_of_json of Inl _ \<Rightarrow> (s, writeGenericError a w StatusBadRequest)
     | Inr (email, displayName, mode) \<Rightarrow>
       if email = [] then (s, writeGenericError a w StatusBadRequest) else
       (case getOrCreateUser s (srv_rand c 0) (srv_now c 0) email displayName of
          (s, Inl _) \<Rightarrow> (s, writeGenericError a w StatusInternalServerError)
        | (s, Inr user) \<Rightarrow>
          (case StartRegistration (e2e_std a) (srv_env c) (Some (req_Context r)) (registerStart a user mode) of
             Inl _ \<Rightarrow> (s, writeGenericError a w StatusBadRequest)
           | Inr start \<Rightarrow>
             (case randomToken (srv_rand c 1) of Inl _ \<Rightarrow> (s, writeGenericError a w StatusInternalServerError)
              | Inr stateID \<Rightarrow>
                (saveRegistrationState s stateID \<lparr>ers_Email = u_Email user, ers_State = rsr_State start\<rparr>,
                 SetCookie registrationCookie stateID cookie_age # reply (WriteCreationOptions (e2e_text a) w (rsr_Options start)))))))"

definition registerFinishOptions :: "e2e_app \<Rightarrow> RegistrationState \<Rightarrow> RegistrationResponse \<Rightarrow> RegistrationFinishOptions" where
  "registerFinishOptions a state response =
    \<lparr>rfo_State = state, rfo_Response = response,
     rfo_AttestationObjectDecoder = Impl (DecodeAttestationObject (Some (e2e_decoder a))),
     rfo_CredentialPublicKeyDecoder = Impl (DecodeCredentialPublicKey (Some (e2e_decoder a))),
     rfo_ExtensionMapDecoder = Impl (DecodeExtensionMap (Some (e2e_decoder a))),
     rfo_AttestationRegistry = Some (e2e_attesters a), rfo_AttestationTrustPolicy = AcceptNone,
     rfo_ExtensionRegistry = Some (e2e_extensions a),
     rfo_ExtensionPolicy = \<lparr>rep_RejectUnrequested = False, rep_RejectUnknown = False\<rparr>, rfo_Now = None\<rparr>"

text \<open>From the consumed state to the verified registration; an error is the status of the answer.\<close>

definition registerVerified ::
  "e2e_app \<Rightarrow> http_request \<Rightarrow> server_call \<Rightarrow> string \<Rightarrow> bytes \<Rightarrow> registrationState option \<Rightarrow> int + RegistrationResult" where
  "registerVerified a r c email credential found =
    (case found of None \<Rightarrow> Inl StatusUnauthorized
     | Some state \<Rightarrow>
       if ers_Email state \<noteq> email then Inl StatusUnauthorized else
       (case and_then (normalizePlaywrightRegistrationJSON (e2e_std a) (e2e_text a) credential
             (Impl (DecodeAttestationObject (Some (e2e_decoder a)))))
           (RegistrationResponseFromJSON (e2e_std a) (e2e_text a)) of
          Inl _ \<Rightarrow> Inl StatusBadRequest
        | Inr response \<Rightarrow>
          (case FinishRegistration (e2e_std a) (srv_env c) (Some (req_Context r)) (registerFinishOptions a (ers_State state) response) of
             Inl _ \<Rightarrow> Inl StatusUnauthorized | Inr res \<Rightarrow> Inr res)))"

definition registerFinish ::
  "e2e_app \<Rightarrow> e2e_store \<Rightarrow> ResponseWriter iface \<Rightarrow> http_request \<Rightarrow> server_call \<Rightarrow> e2e_store \<times> server_event list" where
  "registerFinish a s w r c =
    (case decodeJSON a r (finishRequest_of_json a) of Inl _ \<Rightarrow> (s, writeGenericError a w StatusBadRequest)
     | Inr (email, credential) \<Rightarrow>
       if email = [] \<or> credential = [] then (s, writeGenericError a w StatusBadRequest) else
       (case req_Cookie r registrationCookie of None \<Rightarrow> (s, writeGenericError a w StatusUnauthorized)
        | Some stateID \<Rightarrow>
          (case consumeRegistrationState s stateID of (s, found) \<Rightarrow>
           (case registerVerified a r c email credential found of
              Inl status \<Rightarrow> (s, e2e_clearCookie registrationCookie # writeGenericError a w status)
            | Inr res \<Rightarrow>
              (case insertCredential s (srv_now c 0) (rres_Credential res) of
                 (s, False) \<Rightarrow> (s, e2e_clearCookie registrationCookie # writeGenericError a w StatusConflict)
               | (s, True) \<Rightarrow>
                 (case setSession s (srv_rand c 0) (cr_UserHandle (rres_Credential res)) of
                    (s, Inl _) \<Rightarrow> (s, e2e_clearCookie registrationCookie # writeGenericError a w StatusInternalServerError)
                  | (s, Inr session) \<Rightarrow> (s, e2e_clearCookie registrationCookie # session @
                      reply (WriteJSON (e2e_text a) w StatusOK (authenticationResponse_json email)))))))))"

section \<open>Login\<close>

definition descriptorsFromCredentials :: "CredentialRecord list \<Rightarrow> CredentialDescriptor list" where
  "descriptorsFromCredentials credentials =
    map (\<lambda>r. \<lparr>cd_Type = CredentialTypePublicKey, cd_ID = cr_ID r, cd_Transports = cr_Transports r\<rparr>) credentials"

definition userVerificationForMode :: "string \<Rightarrow> UserVerificationRequirement" where
  "userVerificationForMode mode = (if mode = ''roaming'' then UserVerificationPreferred else UserVerificationRequired)"

definition loginStart ::
  "e2e_app \<Rightarrow> string \<Rightarrow> CredentialDescriptor list \<Rightarrow> UserHandle \<Rightarrow> AuthenticationStartOptions" where
  "loginStart a mode allowed expected =
    \<lparr>aso_RPID = e2e_rpID a, aso_OriginPolicy = e2e_originPolicy a, aso_Challenge = zero_byteValue, aso_ChallengeGenerator = NilIface,
     aso_Timeout = 0, aso_StateTTL = 0, aso_AllowCredentials = allowed, aso_UserVerification = userVerificationForMode mode,
     aso_Hints = [], aso_Extensions = [], aso_ExtensionRegistry = None, aso_ExtensionInputPolicy = zero_ExtensionInputPolicy,
     aso_ExpectedUserHandle = expected, aso_Now = None\<rparr>"

definition loginSelection :: "e2e_store \<Rightarrow> string \<Rightarrow> string \<Rightarrow> (string \<times> CredentialDescriptor list \<times> UserHandle) option" where
  "loginSelection s email mode =
    (if mode = ''roaming'' then
       (case userByEmail s email of None \<Rightarrow> None
        | Some user \<Rightarrow>
          let credentials = credentialsForUser s (u_Handle user) in
          if credentials = [] then None else Some (u_Email user, descriptorsFromCredentials credentials, u_Handle user))
     else Some ([], [], zero_byteValue))"

definition loginOptions ::
  "e2e_app \<Rightarrow> e2e_store \<Rightarrow> ResponseWriter iface \<Rightarrow> http_request \<Rightarrow> server_call \<Rightarrow> e2e_store \<times> server_event list" where
  "loginOptions a s w r c =
    (case decodeJSON a r loginOptionsRequest_of_json of Inl _ \<Rightarrow> (s, writeGenericError a w StatusBadRequest)
     | Inr (email, mode) \<Rightarrow>
       (case loginSelection s email mode of None \<Rightarrow> (s, writeGenericError a w StatusUnauthorized)
        | Some (owner, allowed, expected) \<Rightarrow>
          (case StartAuthentication (e2e_std a) (srv_env c) (Some (req_Context r)) (loginStart a mode allowed expected) of
             Inl _ \<Rightarrow> (s, writeGenericError a w StatusBadRequest)
           | Inr start \<Rightarrow>
             (case randomToken (srv_rand c 0) of Inl _ \<Rightarrow> (s, writeGenericError a w StatusInternalServerError)
              | Inr stateID \<Rightarrow>
                (saveAuthenticationState s stateID \<lparr>eas_Email = owner, eas_State = asr_State start\<rparr>,
                 SetCookie authenticationCookie stateID cookie_age # reply (WriteRequestOptions (e2e_text a) w (asr_Options start)))))))"

definition loginFinishOptions ::
  "e2e_app \<Rightarrow> AuthenticationState \<Rightarrow> AuthenticationResponse \<Rightarrow> CredentialRecord \<Rightarrow> AuthenticationFinishOptions" where
  "loginFinishOptions a state response credential =
    \<lparr>afo_State = state, afo_Response = response, afo_Credential = credential,
     afo_ExtensionMapDecoder = Impl (DecodeExtensionMap (Some (e2e_decoder a))),
     afo_SignatureVerifier = Impl (\<lambda>_. e2e_VerifySignature a (cr_PublicKey credential)), afo_AlgorithmPolicy = NilIface,
     afo_ExtensionRegistry = Some (e2e_extensions a),
     afo_ExtensionPolicy = \<lparr>aep_RejectUnrequested = False, aep_RejectUnknown = False, aep_AppID = []\<rparr>,
     afo_CounterPolicy = \<lparr>cpol_RejectCloneRisk = True, cpol_UpdateOnCloneRisk = False\<rparr>,
     afo_UVInitializationAuthorized = False, afo_Now = None\<rparr>"

definition assertionVerified ::
  "e2e_app \<Rightarrow> e2e_store \<Rightarrow> http_request \<Rightarrow> server_call \<Rightarrow> string \<Rightarrow> bytes \<Rightarrow> authenticationState option
    \<Rightarrow> int + (CredentialRecord \<times> AuthenticationResult)" where
  "assertionVerified a s r c email credential found =
    (case found of None \<Rightarrow> Inl StatusUnauthorized
     | Some state \<Rightarrow>
       if eas_Email state \<noteq> [] \<and> eas_Email state \<noteq> email then Inl StatusUnauthorized else
       (case AuthenticationResponseFromJSON (e2e_std a) (e2e_text a) credential of Inl _ \<Rightarrow> Inl StatusBadRequest
        | Inr assertion \<Rightarrow>
          (case credentialByID s (bv_bytes (ar_RawID assertion)) of None \<Rightarrow> Inl StatusUnauthorized
           | Some stored \<Rightarrow>
             (case FinishAuthentication (e2e_std a) (srv_env c) (Some (req_Context r)) (loginFinishOptions a (eas_State state) assertion stored) of
                Inl _ \<Rightarrow> Inl StatusUnauthorized | Inr res \<Rightarrow> Inr (stored, res)))))"

definition loginFinish ::
  "e2e_app \<Rightarrow> e2e_store \<Rightarrow> ResponseWriter iface \<Rightarrow> http_request \<Rightarrow> server_call \<Rightarrow> e2e_store \<times> server_event list" where
  "loginFinish a s w r c =
    (case decodeJSON a r (finishRequest_of_json a) of Inl _ \<Rightarrow> (s, writeGenericError a w StatusBadRequest)
     | Inr (email, credential) \<Rightarrow>
       if credential = [] then (s, writeGenericError a w StatusBadRequest) else
       (case req_Cookie r authenticationCookie of None \<Rightarrow> (s, writeGenericError a w StatusUnauthorized)
        | Some stateID \<Rightarrow>
          (case consumeAuthenticationState s stateID of (s, found) \<Rightarrow>
           (case assertionVerified a s r c email credential found of
              Inl status \<Rightarrow> (s, e2e_clearCookie authenticationCookie # writeGenericError a w status)
            | Inr (stored, res) \<Rightarrow>
              (case updateCredential s (srv_now c 0) (ares_Update res) of
                 (s, False) \<Rightarrow> (s, e2e_clearCookie authenticationCookie # writeGenericError a w StatusConflict)
               | (s, True) \<Rightarrow>
                 (case setSession s (srv_rand c 0) (ares_AuthenticatedAs res) of
                    (s, Inl _) \<Rightarrow> (s, e2e_clearCookie authenticationCookie # writeGenericError a w StatusInternalServerError)
                  | (s, Inr session) \<Rightarrow> (s, e2e_clearCookie authenticationCookie # session @
                      (case userByHandle s (ares_AuthenticatedAs res) of
                         None \<Rightarrow> writeGenericError a w StatusInternalServerError
                       | Some user \<Rightarrow> reply (WriteJSON (e2e_text a) w StatusOK (authenticationResponse_json (u_Email user)))))))))))"

section \<open>Sessions\<close>

definition e2e_me ::
  "e2e_app \<Rightarrow> e2e_store \<Rightarrow> ResponseWriter iface \<Rightarrow> http_request \<Rightarrow> server_call \<Rightarrow> e2e_store \<times> server_event list" where
  "e2e_me a s w r c =
    (s, reply (WriteJSON (e2e_text a) w StatusOK
      (case req_Cookie r sessionCookie of None \<Rightarrow> sessionResponse_json False None
       | Some name \<Rightarrow> (case sessionUser s name of None \<Rightarrow> sessionResponse_json False None
         | Some user \<Rightarrow> sessionResponse_json True (Some (u_Email user))))))"

definition e2e_logout ::
  "e2e_app \<Rightarrow> e2e_store \<Rightarrow> ResponseWriter iface \<Rightarrow> http_request \<Rightarrow> server_call \<Rightarrow> e2e_store \<times> server_event list" where
  "e2e_logout a s w r c =
    ((case req_Cookie r sessionCookie of None \<Rightarrow> s | Some name \<Rightarrow> deleteSession s name),
     e2e_clearCookie sessionCookie # reply (WriteJSON (e2e_text a) w StatusOK (flag_json ''ok'' True)))"

definition e2e_healthz ::
  "e2e_app \<Rightarrow> e2e_store \<Rightarrow> ResponseWriter iface \<Rightarrow> http_request \<Rightarrow> server_call \<Rightarrow> e2e_store \<times> server_event list" where
  "e2e_healthz a s w r c = (s, reply (WriteJSON (e2e_text a) w StatusOK (flag_json ''ok'' True)))"

text \<open>\<^verbatim>\<open>RawURLEncoding.DecodeString\<close> without \<^verbatim>\<open>Strict\<close>: the unused bits of the last character are dropped.\<close>

definition lax_sextets :: "nat list \<Rightarrow> nat list" where
  "lax_sextets ss =
    (if ss = [] then [] else if length ss mod 4 = 2 then butlast ss @ [last ss div 16 * 16]
     else if length ss mod 4 = 3 then butlast ss @ [last ss div 4 * 4] else ss)"

definition b64_decode_lax :: "string \<Rightarrow> bytes option" where
  "b64_decode_lax s =
    (let cs = filter (\<lambda>c. c \<noteq> CHR 0x0a \<and> c \<noteq> CHR 0x0d) s in
     if list_all (\<lambda>c. b64_val c \<noteq> None) cs then b64_sextets (lax_sextets (map (\<lambda>c. the (b64_val c)) cs)) else None)"

definition credentialIDQuery :: "http_request \<Rightarrow> bytes option" where
  "credentialIDQuery r = (let name = req_Query r ''id'' in if name = [] then None else b64_decode_lax name)"

definition debugCredential ::
  "e2e_app \<Rightarrow> e2e_store \<Rightarrow> ResponseWriter iface \<Rightarrow> http_request \<Rightarrow> server_call \<Rightarrow> e2e_store \<times> server_event list" where
  "debugCredential a s w r c =
    (s, case credentialIDQuery r of None \<Rightarrow> writeGenericError a w StatusBadRequest
        | Some bs \<Rightarrow>
          (case store_debugCredential s bs of None \<Rightarrow> writeGenericError a w StatusNotFound
           | Some credential \<Rightarrow>
             reply (WriteJSON (e2e_text a) w StatusOK (debugCredentialResponse_json
               (case userByHandle s (cr_UserHandle credential) of None \<Rightarrow> [] | Some user \<Rightarrow> u_Email user) (cr_SignCount credential)))))"

definition e2e_patterns :: "string list" where
  "e2e_patterns = [''GET /healthz'', ''POST /register/options'', ''POST /register/finish'', ''POST /login/options'',
     ''POST /login/finish'', ''GET /me'', ''POST /logout'', ''GET /debug/credential'', ''/'']"

definition e2e_routes ::
  "(string list \<Rightarrow> http_request \<Rightarrow> string option) \<Rightarrow> (http_request \<Rightarrow> server_event list) \<Rightarrow> e2e_app \<Rightarrow> e2e_store
    \<Rightarrow> ResponseWriter iface \<Rightarrow> http_request \<Rightarrow> server_call \<Rightarrow> e2e_store \<times> server_event list" where
  "e2e_routes mux static a s w r c =
    (let p = mux e2e_patterns r in
     if p = Some ''GET /healthz'' then e2e_healthz a s w r c
     else if p = Some ''POST /register/options'' then registerOptions a s w r c
     else if p = Some ''POST /register/finish'' then registerFinish a s w r c
     else if p = Some ''POST /login/options'' then loginOptions a s w r c
     else if p = Some ''POST /login/finish'' then loginFinish a s w r c
     else if p = Some ''GET /me'' then e2e_me a s w r c
     else if p = Some ''POST /logout'' then e2e_logout a s w r c
     else if p = Some ''GET /debug/credential'' then debugCredential a s w r c
     else (s, static r))"

end
