(* ===== verification/Update_Laws.thy ===== *)
theory Update_Laws
  imports Credential_Update
begin

text \<open>
  What the update of a verified authentication can do to a stored record: it keeps the identity of the credential, and
  under a policy that does not move the counter on a clone risk it never lowers the counter. The stores of the
  applications rely on these laws.
\<close>

text \<open>What no update may change: the identity of the credential.\<close>

definition same_identity :: "CredentialRecord \<Rightarrow> CredentialRecord \<Rightarrow> bool" where
  "same_identity r s \<longleftrightarrow> cr_Type s = cr_Type r \<and> cr_ID s = cr_ID r \<and> cr_PublicKey s = cr_PublicKey r \<and>
    cr_UserHandle s = cr_UserHandle r \<and> cr_RPID s = cr_RPID r \<and> cr_AAGUID s = cr_AAGUID r \<and>
    cr_BackupEligible s = cr_BackupEligible r \<and> cr_AttestationType s = cr_AttestationType r \<and>
    cr_Transports s = cr_Transports r"

text \<open>An update that does not lower the counter it was computed from.\<close>

definition monotone_update :: "CredentialUpdate \<Rightarrow> bool" where
  "monotone_update u \<longleftrightarrow> (cu_SignCountChanged u \<longrightarrow> cu_PreviousSignCount u < cu_SignCount u) \<and>
    (cu_UVInitializedChanged u \<longrightarrow> cu_UVInitialized u)"

lemma updatedRecord_same_identity [simp]: "same_identity s (updatedRecord u s)"
  by (simp add: same_identity_def updatedRecord_def)

lemma same_identity_trans: "same_identity r s \<Longrightarrow> same_identity s t \<Longrightarrow> same_identity r t"
  by (simp add: same_identity_def)

lemma monotone_update_applied:
  assumes "matchesPrevious u s" "monotone_update u"
  shows "cr_SignCount s \<le> cr_SignCount (updatedRecord u s)" "cr_UVInitialized s \<Longrightarrow> cr_UVInitialized (updatedRecord u s)"
  using assms by (auto simp: matchesPrevious_def updatedRecord_def monotone_update_def)

lemma verified_update_monotone:
  assumes "FinishAuthentication std env ctx options = Inr res"
    and "\<not> cpol_UpdateOnCloneRisk (afo_CounterPolicy options)"
  shows "monotone_update (ares_Update res)"
proof -
  obtain parsed exts where res: "res = authenticationResult options parsed
      (compareCounters (cr_SignCount (afo_Credential options)) (pad_SignCount parsed)) exts"
    using assms(1) unfolding FinishAuthentication_refines authenticationSpec_def by blast
  show ?thesis
    using assms(2)
    by (auto simp: res monotone_update_def authenticationResult_def Let_def compareCounters_Incremented_iff)
qed

end
