(* ===== verification/E2e_Runs.thy ===== *)
theory E2e_Runs
  imports E2e_App Update_Laws Authentication_Spec "HOL-Library.Multiset"
begin

text \<open>
  The runs of the end-to-end application: every interleaving of the operations its handlers perform on the shared
  store. The indexes stay coherent, every credential has a user, every session has both, and an update
  only succeeds on the very record that was verified.
\<close>

section \<open>The results of the library\<close>

lemma FinishAuthentication_result:
  assumes run: "FinishAuthentication std env ctx options = Inr res"
  shows "ares_AuthenticatedAs res = cr_UserHandle (afo_Credential options)" "cu_ID (ares_Update res) = cr_ID (afo_Credential options)"
    "matchesPrevious (ares_Update res) (afo_Credential options)"
    "updatedRecord (ares_Update res) (afo_Credential options) = ares_Credential res"
    "CredentialRecord_Validate (afo_Credential options) = None" "CredentialRecord_Validate (ares_Credential res) = None"
proof -
  obtain d parsed exts extensionResults where ready: "authenticationReady std (options_now env (afo_Now options)) options"
    and evidence: "assertionEvidence std (normalizeContext ctx) options d parsed exts"
    and res: "res = authenticationResult options parsed
      (compareCounters (cr_SignCount (afo_Credential options)) (pad_SignCount parsed)) extensionResults"
    using run unfolding FinishAuthentication_refines authenticationSpec_def by blast
  show valid: "CredentialRecord_Validate (afo_Credential options) = None"
    using ready by (simp add: authenticationReady_def validateAuthenticationDependencies_None_iff)
  have "authenticationFlagsOK (afo_State options) (afo_Credential options) (pad_Flags parsed)"
    using evidence by (simp add: assertionEvidence_def Let_def)
  then show "CredentialRecord_Validate (ares_Credential res) = None"
    using authenticationResult_Validate valid by (simp add: res)
  show "ares_AuthenticatedAs res = cr_UserHandle (afo_Credential options)" "cu_ID (ares_Update res) = cr_ID (afo_Credential options)"
    by (simp_all add: res authenticationResult_def Let_def)
  show "matchesPrevious (ares_Update res) (afo_Credential options)"
    "updatedRecord (ares_Update res) (afo_Credential options) = ares_Credential res"
    by (simp_all add: res update_writes_credential)
qed

lemma FinishRegistration_owner:
  assumes "FinishRegistration std env ctx options = Inr res"
  shows "cr_UserHandle (rres_Credential res) = rs_UserHandle (rfo_State options)"
  using assms unfolding FinishRegistration_refines registrationSpec_def
  by (auto simp: registrationResult_def Let_def)

text \<open>Two records of one credential that an update expects are the same record.\<close>

lemma same_identity_matches:
  "same_identity r s \<Longrightarrow> matchesPrevious u r \<Longrightarrow> matchesPrevious u s \<Longrightarrow> r = s"
  by (simp add: same_identity_def matchesPrevious_def)

section \<open>Steps\<close>

text \<open>What a handler holds between two operations on the store.\<close>

datatype e2e_pending =
    Starting e2e_user
  | Registering "registrationState option"
  | Checking "authenticationState option"
  | Refreshing CredentialRecord AuthenticationResult
  | Entering UserHandle

inductive e2e_step :: "e2e_app \<Rightarrow> e2e_store \<times> e2e_pending multiset \<Rightarrow> e2e_store \<times> e2e_pending multiset \<Rightarrow> bool" for a where
  finds_user: "getOrCreateUser s env now email name = (s', Inr user) \<Longrightarrow>
    e2e_step a (s, ps) (s', add_mset (Starting user) ps)"
| saves_registration: "StartRegistration (e2e_std a) env ctx (registerStart a user mode) = Inr start \<Longrightarrow>
    e2e_step a (s, add_mset (Starting user) ps)
      (saveRegistrationState s name \<lparr>ers_Email = u_Email user, ers_State = rsr_State start\<rparr>, ps)"
| takes_registration: "consumeRegistrationState s name = (s', found) \<Longrightarrow>
    e2e_step a (s, ps) (s', add_mset (Registering found) ps)"
| registers: "registerVerified a r c email credential found = Inr res \<Longrightarrow>
    insertCredential s now (rres_Credential res) = (s', True) \<Longrightarrow>
    e2e_step a (s, add_mset (Registering found) ps) (s', add_mset (Entering (cr_UserHandle (rres_Credential res))) ps)"
| saves_authentication: "e2e_step a (s, ps) (saveAuthenticationState s name state, ps)"
| takes_authentication: "consumeAuthenticationState s name = (s', found) \<Longrightarrow>
    e2e_step a (s, ps) (s', add_mset (Checking found) ps)"
| checks: "assertionVerified a s r c email credential found = Inr (stored, res) \<Longrightarrow>
    e2e_step a (s, add_mset (Checking found) ps) (s, add_mset (Refreshing stored res) ps)"
| updates: "updateCredential s now (ares_Update res) = (s', True) \<Longrightarrow>
    e2e_step a (s, add_mset (Refreshing stored res) ps) (s', add_mset (Entering (ares_AuthenticatedAs res)) ps)"
| enters: "createSession s env handle = (s', out) \<Longrightarrow> e2e_step a (s, add_mset (Entering handle) ps) (s', ps)"
| leaves: "e2e_step a (s, ps) (deleteSession s name, ps)"
| stops: "e2e_step a (s, add_mset p ps) (s, ps)"

inductive e2e_reachable :: "e2e_app \<Rightarrow> e2e_store \<times> e2e_pending multiset \<Rightarrow> bool" for a where
  start: "e2e_reachable a (newStore, {#})"
| step: "e2e_reachable a s \<Longrightarrow> e2e_step a s s' \<Longrightarrow> e2e_reachable a s'"

section \<open>What only grows\<close>

definition has_user :: "e2e_store \<Rightarrow> UserHandle \<Rightarrow> bool" where
  "has_user s handle \<longleftrightarrow> userByHandle s handle \<noteq> None"

definition has_record :: "e2e_store \<Rightarrow> CredentialRecord \<Rightarrow> bool" where
  "has_record s r \<longleftrightarrow> (\<exists>r'. records_of s (credentialKey (bv_bytes (cr_ID r))) = Some r' \<and> same_identity r r')"

definition has_credential :: "e2e_store \<Rightarrow> string \<Rightarrow> bool" where
  "has_credential s userKey \<longleftrightarrow> (\<exists>key r. records_of s key = Some r \<and> handleKey (cr_UserHandle r) = userKey)"

definition store_grows :: "e2e_store \<Rightarrow> e2e_store \<Rightarrow> bool" where
  "store_grows s s' \<longleftrightarrow> (\<forall>handle. has_user s handle \<longrightarrow> has_user s' handle) \<and>
    (\<forall>key r. records_of s key = Some r \<longrightarrow> (\<exists>r'. records_of s' key = Some r' \<and> same_identity r r' \<and>
      cr_SignCount r \<le> cr_SignCount r' \<and> (cr_UVInitialized r \<longrightarrow> cr_UVInitialized r')))"

lemma grows_user: "store_grows s s' \<Longrightarrow> has_user s handle \<Longrightarrow> has_user s' handle"
  by (simp add: store_grows_def)

lemma grows_record: "store_grows s s' \<Longrightarrow> has_record s r \<Longrightarrow> has_record s' r"
  unfolding store_grows_def has_record_def using same_identity_trans by blast

lemma grows_credential: "store_grows s s' \<Longrightarrow> has_credential s userKey \<Longrightarrow> has_credential s' userKey"
  unfolding store_grows_def has_credential_def same_identity_def by metis

fun e2e_pending_ok :: "e2e_store \<Rightarrow> e2e_pending \<Rightarrow> bool" where
  "e2e_pending_ok s (Starting user) \<longleftrightarrow> has_user s (u_Handle user)"
| "e2e_pending_ok s (Registering (Some state)) \<longleftrightarrow> has_user s (rs_UserHandle (ers_State state))"
| "e2e_pending_ok s (Registering None) \<longleftrightarrow> True"
| "e2e_pending_ok s (Checking found) \<longleftrightarrow> True"
| "e2e_pending_ok s (Refreshing stored res) \<longleftrightarrow> has_record s stored \<and> ares_AuthenticatedAs res = cr_UserHandle stored \<and>
    cu_ID (ares_Update res) = cr_ID stored \<and> matchesPrevious (ares_Update res) stored \<and>
    updatedRecord (ares_Update res) stored = ares_Credential res \<and> CredentialRecord_Validate (ares_Credential res) = None \<and>
    monotone_update (ares_Update res)"
| "e2e_pending_ok s (Entering handle) \<longleftrightarrow> has_credential s (handleKey handle)"

lemma grows_pending: "store_grows s s' \<Longrightarrow> e2e_pending_ok s p \<Longrightarrow> e2e_pending_ok s' p"
  by (cases "(s, p)" rule: e2e_pending_ok.cases) (auto intro: grows_user grows_record grows_credential)

section \<open>The invariant\<close>

definition users_ok :: "e2e_store \<Rightarrow> bool" where
  "users_ok s \<longleftrightarrow>
    (\<forall>email u. map_of (st_usersByEmail s) email = Some u \<longrightarrow> u_Email u = email \<and> has_user s (u_Handle u)) \<and>
    (\<forall>key u. map_of (st_usersByHandle s) key = Some u \<longrightarrow>
      key = handleKey (u_Handle u) \<and> map_of (st_usersByEmail s) (u_Email u) = Some u)"

definition records_ok :: "e2e_store \<Rightarrow> bool" where
  "records_ok s \<longleftrightarrow> indexed s \<and>
    (\<forall>key r. records_of s key = Some r \<longrightarrow> CredentialRecord_Validate r = None \<and> has_user s (cr_UserHandle r))"

definition e2e_inv :: "e2e_store \<times> e2e_pending multiset \<Rightarrow> bool" where
  "e2e_inv = (\<lambda>(s, ps). users_ok s \<and> records_ok s \<and>
    (\<forall>name state. map_of (st_registrationStates s) name = Some state \<longrightarrow> has_user s (rs_UserHandle (ers_State state))) \<and>
    (\<forall>name userKey. map_of (st_sessions s) name = Some userKey \<longrightarrow> has_credential s userKey) \<and>
    (\<forall>p\<in>#ps. e2e_pending_ok s p))"

text \<open>Parts of the store that an operation leaves alone.\<close>

lemma object_at_frame [simp]:
  "object_at (s\<lparr>st_usersByEmail := e, st_usersByHandle := h\<rparr>) = object_at s"
  "object_at (s\<lparr>st_registrationStates := rs\<rparr>) = object_at s"
  "object_at (s\<lparr>st_authenticationStates := as\<rparr>) = object_at s"
  "object_at (s\<lparr>st_sessions := ss\<rparr>) = object_at s"
  by (simp_all add: object_at_def fun_eq_iff)

lemma frame_simps [simp]:
  "records_of (s\<lparr>st_usersByEmail := e, st_usersByHandle := h\<rparr>) = records_of s"
  "records_of (s\<lparr>st_registrationStates := rs\<rparr>) = records_of s"
  "records_of (s\<lparr>st_authenticationStates := as\<rparr>) = records_of s"
  "records_of (s\<lparr>st_sessions := ss\<rparr>) = records_of s"
  "indexed (s\<lparr>st_usersByEmail := e, st_usersByHandle := h\<rparr>) = indexed s"
  "indexed (s\<lparr>st_registrationStates := rs\<rparr>) = indexed s"
  "indexed (s\<lparr>st_authenticationStates := as\<rparr>) = indexed s"
  "indexed (s\<lparr>st_sessions := ss\<rparr>) = indexed s"
  by (simp_all add: records_of_def indexed_def pointersOf_def fun_eq_iff)

lemma has_user_frame [simp]:
  "has_user (s\<lparr>st_registrationStates := rs\<rparr>) = has_user s" "has_user (s\<lparr>st_authenticationStates := as\<rparr>) = has_user s"
  "has_user (s\<lparr>st_sessions := ss\<rparr>) = has_user s"
  by (simp_all add: has_user_def userByHandle_def fun_eq_iff)

lemma has_credential_frame [simp]:
  "has_credential (s\<lparr>st_registrationStates := rs\<rparr>) = has_credential s"
  "has_credential (s\<lparr>st_authenticationStates := as\<rparr>) = has_credential s"
  "has_credential (s\<lparr>st_sessions := ss\<rparr>) = has_credential s"
  by (simp_all add: has_credential_def fun_eq_iff)

lemma pending_frame [simp]:
  "e2e_pending_ok (s\<lparr>st_registrationStates := rs\<rparr>) p \<longleftrightarrow> e2e_pending_ok s p"
  "e2e_pending_ok (s\<lparr>st_authenticationStates := as\<rparr>) p \<longleftrightarrow> e2e_pending_ok s p"
  "e2e_pending_ok (s\<lparr>st_sessions := ss\<rparr>) p \<longleftrightarrow> e2e_pending_ok s p"
  by (cases "(s, p)" rule: e2e_pending_ok.cases; simp add: has_record_def)+

lemma store_grows_refl [simp]:
  "store_grows s s" "store_grows s (s\<lparr>st_registrationStates := rs\<rparr>)" "store_grows s (s\<lparr>st_authenticationStates := as\<rparr>)"
  "store_grows s (s\<lparr>st_sessions := ss\<rparr>)"
  by (auto simp: store_grows_def same_identity_def)

text \<open>
  An operation keeps the invariant when it keeps that of users and records, and the states, sessions and handlers it adds are ok.
\<close>

lemma e2e_inv_step:
  assumes "e2e_inv (s, ps)" "store_grows s s'" "users_ok s'" "records_ok s'"
    and "\<And>name state. map_of (st_registrationStates s') name = Some state \<Longrightarrow>
      map_of (st_registrationStates s) name = Some state \<or> has_user s' (rs_UserHandle (ers_State state))"
    and "\<And>name userKey. map_of (st_sessions s') name = Some userKey \<Longrightarrow>
      map_of (st_sessions s) name = Some userKey \<or> has_credential s' userKey"
    and "\<And>p. p \<in># ps' \<Longrightarrow> p \<in># ps \<or> e2e_pending_ok s' p"
  shows "e2e_inv (s', ps')"
  using assms unfolding e2e_inv_def prod.case
  by (meson grows_user grows_credential grows_pending)

lemma getOrCreateUser_inv:
  assumes "getOrCreateUser s env now email name = (s', Inr user)" "users_ok s" "records_ok s"
  shows "store_grows s s'" "users_ok s'" "records_ok s'" "has_user s' (u_Handle user)"
    "st_registrationStates s' = st_registrationStates s" "st_sessions s' = st_sessions s"
proof -
  have "store_grows s s' \<and> users_ok s' \<and> records_ok s' \<and> has_user s' (u_Handle user) \<and>
      st_registrationStates s' = st_registrationStates s \<and> st_sessions s' = st_sessions s"
  proof (cases "map_of (st_usersByEmail s) email")
    case (Some u)
    then show ?thesis
      using assms by (auto simp: getOrCreateUser_def users_ok_def)
  next
    case None
    then have s': "s' = s\<lparr>st_usersByEmail := map_put email user (st_usersByEmail s),
        st_usersByHandle := map_put (handleKey (u_Handle user)) user (st_usersByHandle s)\<rparr>" "u_Email user = email"
      using assms(1) by (auto simp: getOrCreateUser_def Let_def split: sum.splits)
    have more: "has_user s' h \<longleftrightarrow> has_user s h \<or> handleKey h = handleKey (u_Handle user)" for h
      by (auto simp: s'(1) has_user_def userByHandle_def)
    have "users_ok s'"
      using assms(2) None unfolding users_ok_def more by (auto simp: s' split: if_splits)
    then show ?thesis
      using assms(3) by (simp add: store_grows_def records_ok_def more) (simp add: s' same_identity_def)
  qed
  then show "store_grows s s'" "users_ok s'" "records_ok s'" "has_user s' (u_Handle user)"
      "st_registrationStates s' = st_registrationStates s" "st_sessions s' = st_sessions s"
    by blast+
qed

lemma insertCredential_inv:
  assumes "insertCredential s now r = (s', True)" "users_ok s" "records_ok s" "CredentialRecord_Validate r = None"
    "has_user s (cr_UserHandle r)"
  shows "store_grows s s'" "users_ok s'" "records_ok s'" "has_credential s' (handleKey (cr_UserHandle r))"
    "st_registrationStates s' = st_registrationStates s" "st_sessions s' = st_sessions s"
proof -
  have indexed: "indexed s"
    using assms(3) by (simp add: records_ok_def)
  note step = insertCredential_refines [OF indexed assms(1), simplified]
  have same: "has_user s' = has_user s" "st_usersByEmail s' = st_usersByEmail s" "st_usersByHandle s' = st_usersByHandle s"
    "st_registrationStates s' = st_registrationStates s" "st_sessions s' = st_sessions s"
    using assms(1) by (auto simp: insertCredential_def has_user_def userByHandle_def Let_def fun_eq_iff split: if_splits)
  then show "users_ok s'" "st_registrationStates s' = st_registrationStates s" "st_sessions s' = st_sessions s"
    using assms(2) by (simp_all add: users_ok_def)
  show "store_grows s s'" "records_ok s'" "has_credential s' (handleKey (cr_UserHandle r))"
    using step assms(3-) by (auto simp: store_grows_def records_ok_def has_credential_def same same_identity_def)
qed

lemma updateCredential_inv:
  assumes "updateCredential s now (ares_Update res) = (s', True)" "users_ok s" "records_ok s"
    and "e2e_pending_ok s (Refreshing stored res)"
  shows "store_grows s s'" "users_ok s'" "records_ok s'" "has_credential s' (handleKey (ares_AuthenticatedAs res))"
    "st_registrationStates s' = st_registrationStates s" "st_sessions s' = st_sessions s"
    "records_of s (credentialKey (bv_bytes (cr_ID stored))) = Some stored"
    "records_of s' = (records_of s)(credentialKey (bv_bytes (cr_ID stored)) \<mapsto> ares_Credential res)"
proof -
  let ?key = "credentialKey (bv_bytes (cr_ID stored))"
  have indexed: "indexed s"
    using assms(3) by (simp add: records_ok_def)
  have key: "cu_ID (ares_Update res) = cr_ID stored"
    using assms(4) by simp
  note step = updateCredential_refines [OF indexed assms(1), unfolded key, simplified]
  show stored: "records_of s ?key = Some stored"
    using step(1) assms(4) same_identity_matches by (fastforce simp: has_record_def)
  then show after: "records_of s' = (records_of s)(?key \<mapsto> ares_Credential res)"
    using step(3) assms(4) by simp
  have same: "has_user s' = has_user s" "st_usersByEmail s' = st_usersByEmail s" "st_usersByHandle s' = st_usersByHandle s"
    "st_registrationStates s' = st_registrationStates s" "st_sessions s' = st_sessions s"
    using assms(1) unfolding updateCredential_iff [OF indexed]
    by (auto simp: has_user_def userByHandle_def fun_eq_iff split: option.splits if_splits)
  then show "users_ok s'" "st_registrationStates s' = st_registrationStates s" "st_sessions s' = st_sessions s"
    using assms(2) by (simp_all add: users_ok_def)
  have "same_identity stored (ares_Credential res)" "cr_SignCount stored \<le> cr_SignCount (ares_Credential res)"
      "cr_UVInitialized stored \<Longrightarrow> cr_UVInitialized (ares_Credential res)"
    using assms(4) updatedRecord_same_identity [of stored "ares_Update res"]
      monotone_update_applied [of "ares_Update res" stored] by simp_all
  then show "store_grows s s'" "records_ok s'" "has_credential s' (handleKey (ares_AuthenticatedAs res))"
    using step(2) stored assms(3,4) unfolding store_grows_def records_ok_def has_credential_def after same
    by (auto simp: same_identity_def)
qed

lemma registerVerified_Inr:
  assumes "registerVerified a r c email credential found = Inr res"
  obtains state response where "found = Some state" "ers_Email state = email"
    "FinishRegistration (e2e_std a) (srv_env c) (Some (req_Context r)) (registerFinishOptions a (ers_State state) response) = Inr res"
    "cr_UserHandle (rres_Credential res) = rs_UserHandle (ers_State state)" "CredentialRecord_Validate (rres_Credential res) = None"
proof -
  obtain state response where run: "found = Some state" "ers_Email state = email"
    "FinishRegistration (e2e_std a) (srv_env c) (Some (req_Context r)) (registerFinishOptions a (ers_State state) response) = Inr res"
    using assms by (auto simp: registerVerified_def split: option.splits if_splits sum.splits)
  show thesis
    using that [OF run] FinishRegistration_owner [OF run(3)] FinishRegistration_facts(1) [OF run(3)]
    by (simp add: registerFinishOptions_def)
qed

lemma assertionVerified_Inr:
  assumes "assertionVerified a s r c email credential found = Inr (stored, res)"
  obtains state assertion where "found = Some state" "eas_Email state = [] \<or> eas_Email state = email"
    "AuthenticationResponseFromJSON (e2e_std a) (e2e_text a) credential = Inr assertion"
    "credentialByID s (bv_bytes (ar_RawID assertion)) = Some stored"
    "FinishAuthentication (e2e_std a) (srv_env c) (Some (req_Context r)) (loginFinishOptions a (eas_State state) assertion stored) = Inr res"
  using assms by (auto simp: assertionVerified_def split: option.splits if_splits sum.splits)

lemma assertionVerified_pending:
  assumes "assertionVerified a s r c email credential found = Inr (stored, res)" "indexed s"
  shows "e2e_pending_ok s (Refreshing stored res)"
proof -
  obtain state :: authenticationState and assertion where lookup: "credentialByID s (bv_bytes (ar_RawID assertion)) = Some stored"
    and run: "FinishAuthentication (e2e_std a) (srv_env c) (Some (req_Context r)) (loginFinishOptions a (eas_State state) assertion stored) = Inr res"
    using assertionVerified_Inr [OF assms(1)] by metis
  have "records_of s (credentialKey (bv_bytes (cr_ID stored))) = Some stored"
    using lookup records_key [OF assms(2)] by (metis credentialByID_records)
  then show ?thesis
    using FinishAuthentication_result [OF run] verified_update_monotone [OF run]
    by (simp add: loginFinishOptions_def has_record_def same_identity_def)
qed

lemma e2e_step_inv: "e2e_step a s s' \<Longrightarrow> e2e_inv s \<Longrightarrow> e2e_inv s'"
proof (induction rule: e2e_step.induct)
  case (finds_user s env now email name s' user ps)
  have ok: "users_ok s" "records_ok s"
    using finds_user(2) by (simp_all add: e2e_inv_def)
  show ?case
    by (rule e2e_inv_step [OF finds_user(2)]) (use getOrCreateUser_inv [OF finds_user(1) ok] in auto)
next
  case (saves_registration env ctx user mode start s ps name)
  have "rs_UserHandle (rsr_State start) = u_Handle user"
    using StartRegistration_InrE [OF saves_registration(1)] by (metis registerStart_def RegistrationStartOptions.select_convs(2) UserEntity.select_convs(1))
  then show ?case
    using saves_registration(2)
    by (intro e2e_inv_step [OF saves_registration(2)]) (auto simp: saveRegistrationState_def e2e_inv_def users_ok_def records_ok_def split: if_splits)
next
  case (takes_registration s name s' found ps)
  have "e2e_pending_ok s (Registering found)"
    using takes_registration by (cases found) (auto simp: consumeRegistrationState_def e2e_inv_def split: option.splits)
  then show ?case
    using takes_registration
    by (intro e2e_inv_step [OF takes_registration(2)])
      (auto simp: consumeRegistrationState_def e2e_inv_def users_ok_def records_ok_def
        split: option.splits if_splits)
next
  case (registers r c email credential found res s now s' ps)
  obtain state where state: "found = Some state" "cr_UserHandle (rres_Credential res) = rs_UserHandle (ers_State state)"
      "CredentialRecord_Validate (rres_Credential res) = None"
    using registerVerified_Inr [OF registers(1)] by metis
  have ok: "users_ok s" "records_ok s" "has_user s (cr_UserHandle (rres_Credential res))"
    using registers(3) state by (simp_all add: e2e_inv_def)
  show ?case
    by (rule e2e_inv_step [OF registers(3)]) (use insertCredential_inv [OF registers(2) ok(1,2) state(3) ok(3)] in auto)
next
  case (takes_authentication s name s' found ps)
  show ?case
    using takes_authentication
    by (intro e2e_inv_step [OF takes_authentication(2)])
      (auto simp: consumeAuthenticationState_def e2e_inv_def users_ok_def records_ok_def split: option.splits if_splits)
next
  case (checks s r c email credential found stored res ps)
  then have "indexed s"
    by (simp add: e2e_inv_def records_ok_def)
  then show ?case
    using checks(2) assertionVerified_pending [OF checks(1)] by (simp add: e2e_inv_def)
next
  case (updates s now res s' stored ps)
  have ok: "users_ok s" "records_ok s" "e2e_pending_ok s (Refreshing stored res)"
    using updates(2) by (simp_all add: e2e_inv_def)
  show ?case
    by (rule e2e_inv_step [OF updates(2)]) (use updateCredential_inv [OF updates(1) ok] in auto)
next
  case (enters s env handle s' out ps)
  show ?case
    using enters
    by (intro e2e_inv_step [OF enters(2)])
      (auto simp: createSession_def e2e_inv_def users_ok_def records_ok_def split: sum.splits if_splits)
qed (auto simp: saveAuthenticationState_def deleteSession_def e2e_inv_def users_ok_def records_ok_def split: if_splits)

lemma e2e_reachable_inv: "e2e_reachable a s \<Longrightarrow> e2e_inv s"
proof (induction rule: e2e_reachable.induct)
  case start
  show ?case
    by (simp add: e2e_inv_def users_ok_def records_ok_def newStore_def indexed_def records_of_def pointersOf_def)
qed (rule e2e_step_inv)

lemma e2e_session_user:
  assumes "e2e_inv (s, ps)" "map_of (st_sessions s) name = Some handle"
  obtains user where "sessionUser s name = Some user" "userByEmail s (u_Email user) = Some user" "credentialsForUser s (u_Handle user) \<noteq> []"
proof -
  have "has_credential s handle" and records: "records_ok s"
    using assms by (simp_all add: e2e_inv_def)
  then obtain key r where r: "records_of s key = Some r" "handleKey (cr_UserHandle r) = handle"
    by (auto simp: has_credential_def)
  moreover have "has_user s (cr_UserHandle r)"
    using records r(1) by (simp add: records_ok_def)
  ultimately obtain user where user: "map_of (st_usersByHandle s) handle = Some user"
    by (auto simp: has_user_def userByHandle_def)
  then have "handle = handleKey (u_Handle user)" "userByEmail s (u_Email user) = Some user"
    using assms(1) by (auto simp: e2e_inv_def users_ok_def userByEmail_def)
  moreover have "indexed s"
    using assms(1) by (simp add: e2e_inv_def records_ok_def)
  ultimately have "r \<in> set (credentialsForUser s (u_Handle user))" "userByEmail s (u_Email user) = Some user"
    using r credentialsForUser_records [of s "u_Handle user"] by (auto simp: handleKey_iff)
  then show thesis
    using that [of user] user assms(2) by (cases "credentialsForUser s (u_Handle user)") (simp_all add: sessionUser_def)
qed

text \<open>An update of a verified login succeeds exactly on the record that was verified.\<close>

lemma updateCredential_applied:
  assumes "updateCredential s now (ares_Update res) = (s', applied)" "users_ok s" "records_ok s" "e2e_pending_ok s (Refreshing stored res)"
  shows "(applied \<longleftrightarrow> credentialByID s (bv_bytes (cr_ID stored)) = Some stored) \<and> (\<not> applied \<longrightarrow> s' = s) \<and>
    (applied \<longrightarrow> credentialByID s' = (credentialByID s)(bv_bytes (cr_ID stored) \<mapsto> ares_Credential res) \<and>
      ApplyTo (ares_Update res) stored = Inr (ares_Credential res) \<and>
      ares_Credential res \<in> set (credentialsForUser s' (cr_UserHandle stored)))"
proof -
  let ?key = "credentialKey (bv_bytes (cr_ID stored))"
  have indexed: "indexed s"
    using assms(3) by (simp add: records_ok_def)
  have known: "cu_ID (ares_Update res) = cr_ID stored" "matchesPrevious (ares_Update res) stored"
      "updatedRecord (ares_Update res) stored = ares_Credential res" "CredentialRecord_Validate (ares_Credential res) = None"
    using assms(4) by simp_all
  note step = updateCredential_refines [OF indexed assms(1), unfolded known(1)]
  have iff: "applied \<longleftrightarrow> records_of s ?key = Some stored"
    using step(1) known(2) assms(4) same_identity_matches by (fastforce simp: has_record_def)
  moreover have "records_of s' = (records_of s)(?key \<mapsto> ares_Credential res) \<and> ApplyTo (ares_Update res) stored = Inr (ares_Credential res) \<and>
      ares_Credential res \<in> set (credentialsForUser s' (cr_UserHandle stored))" if applied
  proof -
    have stored: "records_of s ?key = Some stored"
      using iff that by simp
    then have after: "records_of s' = (records_of s)(?key \<mapsto> ares_Credential res)"
      using step(3) that known(3) by simp
    moreover have "ApplyTo (ares_Update res) stored = Inr (ares_Credential res)"
      using stored assms(3) known by (auto simp: ApplyTo_Inr_iff records_ok_def)
    moreover have "cr_UserHandle (ares_Credential res) = cr_UserHandle stored"
      by (simp add: known(3) [symmetric] updatedRecord_def)
    ultimately show ?thesis
      using credentialsForUser_records [OF step(2)] by auto
  qed
  ultimately show ?thesis
    using step(4) by (auto simp: credentialByID_records fun_eq_iff)
qed

text \<open>No step takes a user or a credential away, replaces a credential by another one or lowers its counter.\<close>

lemma e2e_step_grows: "e2e_step a s s' \<Longrightarrow> e2e_inv s \<Longrightarrow> store_grows (fst s) (fst s')"
proof (induction rule: e2e_step.induct)
  case (finds_user s env now email name s' user ps)
  then show ?case
    using getOrCreateUser_inv(1) [OF finds_user(1)] by (simp add: e2e_inv_def)
next
  case (registers r c email credential found res s now s' ps)
  obtain state where state: "found = Some state" "cr_UserHandle (rres_Credential res) = rs_UserHandle (ers_State state)"
      "CredentialRecord_Validate (rres_Credential res) = None"
    using registerVerified_Inr [OF registers(1)] by metis
  then show ?case
    using insertCredential_inv(1) [OF registers(2)] registers(3) by (simp add: e2e_inv_def)
next
  case (updates s now res s' stored ps)
  then show ?case
    using updateCredential_inv(1) [OF updates(1), of stored] by (simp add: e2e_inv_def)
qed (auto simp: saveRegistrationState_def consumeRegistrationState_def saveAuthenticationState_def consumeAuthenticationState_def
    createSession_def deleteSession_def split: option.splits sum.splits if_splits)

lemma store_grows_trans: "store_grows s t \<Longrightarrow> store_grows t u \<Longrightarrow> store_grows s u"
  unfolding store_grows_def by (meson same_identity_trans order_trans)

section \<open>Handlers are runs\<close>

abbreviation e2e_run :: "e2e_app \<Rightarrow> e2e_store \<times> e2e_pending multiset \<Rightarrow> e2e_store \<times> e2e_pending multiset \<Rightarrow> bool" where
  "e2e_run a \<equiv> (e2e_step a)\<^sup>*\<^sup>*"

lemmas e2e_one = r_into_rtranclp [of "e2e_step a" for a]
lemmas e2e_then = rtranclp.rtrancl_into_rtrancl [of "e2e_step a" for a]

lemma registerOptions_run: "e2e_run a (s, ps) (fst (registerOptions a s w r c), ps)"
proof -
  have created: "e2e_run a (s, ps) (s', ps)" if "getOrCreateUser s env now email name = (s', out)" for env now email name s' out
    using that e2e_then [OF e2e_one [OF finds_user] stops] by (cases out) (auto simp: getOrCreateUser_def Let_def split: option.splits sum.splits)
  have saved: "e2e_run a (s, ps) (saveRegistrationState s' stateID \<lparr>ers_Email = u_Email user, ers_State = rsr_State start\<rparr>, ps)"
    if "getOrCreateUser s env now email name = (s', Inr user)" "StartRegistration (e2e_std a) env' ctx (registerStart a user mode) = Inr start"
    for env now email name s' user env' ctx mode start stateID
    using e2e_then [OF e2e_one [OF finds_user [OF that(1)]] saves_registration [OF that(2)]] .
  show ?thesis
    unfolding registerOptions_def by (auto split: sum.split prod.split intro: created saved)
qed

lemma setSession_creates: "setSession s env handle = (s', out) \<Longrightarrow> \<exists>out'. createSession s env handle = (s', out')"
  by (auto simp: setSession_def split: prod.splits sum.splits)

lemma registerFinish_run: "e2e_run a (s, ps) (fst (registerFinish a s w r c), ps)"
proof -
  have taken: "e2e_run a (s, ps) (s1, ps)" "e2e_run a (s, ps) (s1, add_mset (Registering found) ps)"
    if "consumeRegistrationState s name = (s1, found)" for name s1 found
    using e2e_one [OF takes_registration [OF that]] e2e_then [OF e2e_one [OF takes_registration [OF that]] stops] by blast+
  have unchanged: "s2 = s1" if "insertCredential s1 now rec = (s2, False)" for s1 now rec s2
    using that by (simp add: insertCredential_def Let_def split: if_splits)
  have entered: "e2e_run a (s, ps) (s3, ps)"
    if "consumeRegistrationState s name = (s1, found)" "registerVerified a r c email credential found = Inr res"
      "insertCredential s1 now (rres_Credential res) = (s2, True)" "setSession s2 env (cr_UserHandle (rres_Credential res)) = (s3, out)"
    for name s1 found email credential res now s2 env s3 out
    using setSession_creates [OF that(4)] e2e_then [OF e2e_then [OF taken(2) [OF that(1)] registers [OF that(2,3)]] enters] by blast
  show ?thesis
    unfolding registerFinish_def
    by (auto split: sum.split prod.split option.split bool.split intro: taken(1) entered dest!: unchanged)
qed

lemma loginOptions_run: "e2e_run a (s, ps) (fst (loginOptions a s w r c), ps)"
  unfolding loginOptions_def by (auto split: sum.split prod.split option.split intro: e2e_one saves_authentication)

lemma loginFinish_run: "e2e_run a (s, ps) (fst (loginFinish a s w r c), ps)"
proof -
  have taken: "e2e_run a (s, ps) (s1, ps)" "e2e_run a (s, ps) (s1, add_mset (Checking found) ps)"
    if "consumeAuthenticationState s name = (s1, found)" for name s1 found
    using e2e_one [OF takes_authentication [OF that]] e2e_then [OF e2e_one [OF takes_authentication [OF that]] stops] by blast+
  have unchanged: "s2 = s1" if "updateCredential s1 now u = (s2, False)" for s1 now u s2
    using that by (simp add: updateCredential_def Let_def split: if_splits option.splits)
  have entered: "e2e_run a (s, ps) (s3, ps)"
    if "consumeAuthenticationState s name = (s1, found)" "assertionVerified a s1 r c email credential found = Inr (stored, res)"
      "updateCredential s1 now (ares_Update res) = (s2, True)" "setSession s2 env (ares_AuthenticatedAs res) = (s3, out)"
    for name s1 found email credential stored res now s2 env s3 out
    using setSession_creates [OF that(4)] e2e_then [OF e2e_then [OF e2e_then [OF taken(2) [OF that(1)] checks [OF that(2)]] updates [OF that(3)]] enters] by blast
  show ?thesis
    unfolding loginFinish_def
    by (auto split: sum.split prod.split option.split bool.split intro: taken(1) entered dest!: unchanged)
qed

lemma e2e_routes_run: "e2e_run a (s, ps) (fst (e2e_routes mux static a s w r c), ps)"
  using registerOptions_run registerFinish_run loginOptions_run loginFinish_run e2e_one [OF leaves]
  by (auto simp: e2e_routes_def Let_def e2e_healthz_def e2e_me_def e2e_logout_def debugCredential_def split: option.split)

lemma e2e_reachable_run: "e2e_run a s s' \<Longrightarrow> e2e_reachable a s \<Longrightarrow> e2e_reachable a s'"
  by (induction rule: rtranclp_induct) (auto intro: e2e_reachable.step)

lemma e2e_run_grows:
  assumes "e2e_run a s s'" "e2e_reachable a s"
  shows "store_grows (fst s) (fst s')"
  using assms(1)
proof (induction rule: rtranclp_induct)
  case (step t u)
  then show ?case
    using e2e_step_grows [OF step(2) e2e_reachable_inv [OF e2e_reachable_run [OF step(1) assms(2)]]] store_grows_trans by blast
qed simp

end
