(* ===== verification/Quickstart.thy ===== *)
theory Quickstart
  imports Http_Server Integration_Store Passkey_Preset
begin

text \<open>
  \<^verbatim>\<open>src/examples/quickstart\<close>: a passkey demo for one account. The store keeps states, records and sessions in maps
  of bounded size; every section of the code under the lock of the store is one definition. The configuration is the
  passkey preset. \<^verbatim>\<open>http.ServeMux\<close>, the file server and \<^verbatim>\<open>mime.ParseMediaType\<close> are arguments of \<open>qs_routes\<close>.
\<close>

section \<open>The store\<close>

record memoryStore =
  qs_registration :: "RegistrationState go_map"
  qs_authentication :: "AuthenticationState go_map"
  qs_credentials :: "CredentialRecord go_map"
  qs_sessions :: "time go_map"

definition newMemoryStore :: memoryStore where
  "newMemoryStore = \<lparr>qs_registration = [], qs_authentication = [], qs_credentials = [], qs_sessions = []\<rparr>"

definition token :: "go_env \<Rightarrow> string result" where
  "token env = and_then (ReadFull (env_Reader env) 32) (\<lambda>raw. Inr (b64_encode raw))"

definition prune :: "time \<Rightarrow> memoryStore \<Rightarrow> memoryStore" where
  "prune now s = s\<lparr>qs_registration := filter (\<lambda>(_, state). Before now (rs_ExpiresAt state)) (qs_registration s),
     qs_authentication := filter (\<lambda>(_, state). Before now (as_ExpiresAt state)) (qs_authentication s),
     qs_sessions := filter (\<lambda>(_, expiry). Before now expiry) (qs_sessions s)\<rparr>"

definition qs_insert :: "memoryStore \<Rightarrow> CredentialRecord \<Rightarrow> memoryStore \<times> bool" where
  "qs_insert s r =
    (let key = string_of_bytes (bv_bytes (cr_ID r)) in
     if map_of (qs_credentials s) key \<noteq> None \<or> length (qs_credentials s) \<ge> 64 then (s, False)
     else (s\<lparr>qs_credentials := map_put key (CredentialRecord_Clone r) (qs_credentials s)\<rparr>, True))"

definition qs_lookup :: "memoryStore \<Rightarrow> RawID \<Rightarrow> UserHandle \<Rightarrow> CredentialRecord option" where
  "qs_lookup s rawID user =
    (case map_of (qs_credentials s) (string_of_bytes (bv_bytes rawID)) of None \<Rightarrow> None
     | Some r \<Rightarrow> if bv_Equal (cr_UserHandle r) user then Some (CredentialRecord_Clone r) else None)"

definition qs_descriptors :: "memoryStore \<Rightarrow> CredentialDescriptor list" where
  "qs_descriptors s = map (\<lambda>(_, r). Descriptor r) (qs_credentials s)"

definition qs_update :: "memoryStore \<Rightarrow> CredentialUpdate \<Rightarrow> memoryStore \<times> bool" where
  "qs_update s u =
    (let key = string_of_bytes (bv_bytes (cu_ID u)) in
     case map_of (qs_credentials s) key of None \<Rightarrow> (s, False)
     | Some r \<Rightarrow> (case ApplyTo u r of Inl _ \<Rightarrow> (s, False)
       | Inr r' \<Rightarrow> (s\<lparr>qs_credentials := map_put key r' (qs_credentials s)\<rparr>, True)))"

text \<open>The sections of the handlers that hold the lock.\<close>

definition saveRegistration :: "memoryStore \<Rightarrow> time \<Rightarrow> string \<Rightarrow> string \<Rightarrow> RegistrationState \<Rightarrow> memoryStore \<times> bool" where
  "saveRegistration s now old name state =
    (let s = prune now s; s = s\<lparr>qs_registration := map_delete old (qs_registration s)\<rparr> in
     if length (qs_registration s) \<ge> 128 then (s, False)
     else (s\<lparr>qs_registration := map_put name state (qs_registration s)\<rparr>, True))"

definition takeRegistration :: "memoryStore \<Rightarrow> time \<Rightarrow> string \<Rightarrow> memoryStore \<times> RegistrationState option" where
  "takeRegistration s now name =
    (let s = prune now s in
     (s\<lparr>qs_registration := map_delete name (qs_registration s)\<rparr>, map_of (qs_registration s) name))"

definition saveAuthentication :: "memoryStore \<Rightarrow> time \<Rightarrow> string \<Rightarrow> string \<Rightarrow> AuthenticationState \<Rightarrow> memoryStore \<times> bool" where
  "saveAuthentication s now old name state =
    (let s = prune now s; s = s\<lparr>qs_authentication := map_delete old (qs_authentication s)\<rparr> in
     if length (qs_authentication s) \<ge> 128 then (s, False)
     else (s\<lparr>qs_authentication := map_put name state (qs_authentication s)\<rparr>, True))"

definition takeAuthentication :: "memoryStore \<Rightarrow> time \<Rightarrow> string \<Rightarrow> memoryStore \<times> AuthenticationState option" where
  "takeAuthentication s now name =
    (let s = prune now s in
     (s\<lparr>qs_authentication := map_delete name (qs_authentication s)\<rparr>, map_of (qs_authentication s) name))"

definition openSession :: "memoryStore \<Rightarrow> time \<Rightarrow> string \<Rightarrow> string \<Rightarrow> time \<Rightarrow> memoryStore \<times> bool" where
  "openSession s now old name later =
    (let s = prune now s; s = s\<lparr>qs_sessions := map_delete old (qs_sessions s)\<rparr> in
     if length (qs_sessions s) \<ge> 128 then (s, False)
     else (s\<lparr>qs_sessions := map_put name (later + 3600 * second) (qs_sessions s)\<rparr>, True))"

section \<open>The application\<close>

definition demoOrigin :: string where "demoOrigin = ''http://localhost:8080''"
definition qs_registrationCookie :: string where "qs_registrationCookie = ''demo-registration''"
definition qs_authenticationCookie :: string where "qs_authenticationCookie = ''demo-authentication''"
definition qs_sessionCookie :: string where "qs_sessionCookie = ''demo-session''"

record demo_app =
  demo_std :: go_std
  demo_text :: go_text
  demo_rp :: RelyingParty
  demo_user :: UserEntity

definition qs_newApp ::
  "go_std \<Rightarrow> go_text \<Rightarrow> go_pki \<Rightarrow> go_crypto \<Rightarrow> go_cbor result \<Rightarrow> go_env \<Rightarrow> go_env \<Rightarrow> (demo_app \<times> memoryStore) result" where
  "qs_newApp std tx pki gc NewDecoder env random =
    and_then (PasskeyConfig std pki gc NewDecoder \<lparr>rp_ID = ''localhost'', rp_Name = ''Passkey demo''\<rparr>
      \<lparr>op_AllowedOrigins = [demoOrigin], op_AllowedTopOrigins = [], op_AllowCrossOriginWithoutTopOrigin = False,
       op_AllowRelatedOrigins = False\<rparr>) (\<lambda>config.
    and_then (New std env config) (\<lambda>rp.
    and_then (ReadFull (env_Reader random) 32) (\<lambda>raw.
    and_then (NewUserHandle (Some raw)) (\<lambda>handle.
    Inr (\<lparr>demo_std = std, demo_text = tx, demo_rp = rp,
       demo_user = \<lparr>user_ID = handle, user_Name = ''demo'', user_DisplayName = ''Local demo account''\<rparr>\<rparr>, newMemoryStore)))))"

definition fail :: "demo_app \<Rightarrow> ResponseWriter iface \<Rightarrow> int \<Rightarrow> server_event list" where
  "fail a w status = reply (WriteError (demo_text a) w status None)"

definition cookieID :: "http_request \<Rightarrow> string \<Rightarrow> string" where
  "cookieID r name = (case req_Cookie r name of None \<Rightarrow> [] | Some v \<Rightarrow> v)"

definition demo_answer :: "demo_app \<Rightarrow> ResponseWriter iface \<Rightarrow> int \<Rightarrow> string \<Rightarrow> bool \<Rightarrow> server_event list" where
  "demo_answer a w status name b = reply (WriteJSON (demo_text a) w status (flag_json name b))"

definition cookie_seconds :: int where "cookie_seconds = DefaultChallengeTTL div second"

definition beginRegistration ::
  "demo_app \<Rightarrow> memoryStore \<Rightarrow> ResponseWriter iface \<Rightarrow> http_request \<Rightarrow> server_call \<Rightarrow> memoryStore \<times> server_event list" where
  "beginRegistration a s w r c =
    (case RP_StartRegistration (demo_std a) (srv_env c) (Some (demo_rp a)) (Some (req_Context r))
        \<lparr>rreq_User = demo_user a, rreq_ExcludeCredentials = qs_descriptors s, rreq_Extensions = [], rreq_Hints = [],
         rreq_ConditionalMediation = False\<rparr> of
       Inl _ \<Rightarrow> (s, fail a w StatusInternalServerError)
     | Inr start \<Rightarrow>
       (case token (srv_rand c 0) of Inl _ \<Rightarrow> (s, fail a w StatusInternalServerError)
        | Inr name \<Rightarrow>
          (case saveRegistration s (srv_now c 0) (cookieID r qs_registrationCookie) name (rsr_State start) of
             (s', False) \<Rightarrow> (s', fail a w StatusTooManyRequests)
           | (s', True) \<Rightarrow> (s', SetCookie qs_registrationCookie name cookie_seconds #
               reply (WriteCreationOptions (demo_text a) w (rsr_Options start))))))"

definition finishRegistration ::
  "demo_app \<Rightarrow> memoryStore \<Rightarrow> ResponseWriter iface \<Rightarrow> http_request \<Rightarrow> server_call \<Rightarrow> memoryStore \<times> server_event list" where
  "finishRegistration a s w r c =
    (let (s, found) = takeRegistration s (srv_now c 0) (cookieID r qs_registrationCookie);
         cleared = SetCookie qs_registrationCookie [] (- 1) in
     case found of None \<Rightarrow> (s, cleared # fail a w StatusUnauthorized)
     | Some state \<Rightarrow>
       (case ReadRegistrationResponse (demo_std a) (demo_text a) (req_Body r) 0 of
          Inl _ \<Rightarrow> (s, cleared # fail a w StatusBadRequest)
        | Inr response \<Rightarrow>
          (case RP_FinishRegistration (demo_std a) (srv_env c) (Some (demo_rp a)) (Some (req_Context r))
              \<lparr>rver_State = state, rver_Response = response\<rparr> of
             Inl _ \<Rightarrow> (s, cleared # fail a w StatusUnauthorized)
           | Inr res \<Rightarrow>
             (case qs_insert s (rres_Credential res) of
                (s, False) \<Rightarrow> (s, cleared # fail a w StatusConflict)
              | (s, True) \<Rightarrow> (s, cleared # demo_answer a w StatusCreated ''registered'' True)))))"

definition beginAuthentication ::
  "demo_app \<Rightarrow> memoryStore \<Rightarrow> ResponseWriter iface \<Rightarrow> http_request \<Rightarrow> server_call \<Rightarrow> memoryStore \<times> server_event list" where
  "beginAuthentication a s w r c =
    (case RP_StartAuthentication (demo_std a) (srv_env c) (Some (demo_rp a)) (Some (req_Context r))
        \<lparr>areq_AllowCredentials = [], areq_ExpectedUserHandle = zero_byteValue, areq_Extensions = [], areq_Hints = []\<rparr> of
       Inl _ \<Rightarrow> (s, fail a w StatusInternalServerError)
     | Inr start \<Rightarrow>
       (case token (srv_rand c 0) of Inl _ \<Rightarrow> (s, fail a w StatusInternalServerError)
        | Inr name \<Rightarrow>
          (case saveAuthentication s (srv_now c 0) (cookieID r qs_authenticationCookie) name (asr_State start) of
             (s', False) \<Rightarrow> (s', fail a w StatusTooManyRequests)
           | (s', True) \<Rightarrow> (s', SetCookie qs_authenticationCookie name cookie_seconds #
               reply (WriteRequestOptions (demo_text a) w (asr_Options start))))))"

text \<open>\<^verbatim>\<open>finishAuthentication\<close> up to the verified result, and after it.\<close>

definition demoVerified ::
  "demo_app \<Rightarrow> memoryStore \<Rightarrow> http_request \<Rightarrow> server_call \<Rightarrow> AuthenticationState option \<Rightarrow> int + AuthenticationResult" where
  "demoVerified a s r c found =
    (case found of None \<Rightarrow> Inl StatusUnauthorized
     | Some state \<Rightarrow>
       (case ReadAuthenticationResponse (demo_std a) (demo_text a) (req_Body r) 0 of
          Inl _ \<Rightarrow> Inl StatusBadRequest
        | Inr response \<Rightarrow>
          (case qs_lookup s (ar_RawID response) (ar_UserHandle response) of
             None \<Rightarrow> Inl StatusUnauthorized
           | Some credential \<Rightarrow>
             (case RP_FinishAuthentication (demo_std a) (srv_env c) (Some (demo_rp a)) (Some (req_Context r))
                 \<lparr>aver_State = state, aver_Response = response, aver_Credential = credential,
                  aver_UVInitializationAuthorized = False\<rparr> of
                Inl _ \<Rightarrow> Inl StatusUnauthorized
              | Inr res \<Rightarrow>
                if ctr_CloneRisk (ares_Counter res) \<or> ares_UVInitializationPending res then Inl StatusUnauthorized else Inr res))))"

definition finishAuthentication ::
  "demo_app \<Rightarrow> memoryStore \<Rightarrow> ResponseWriter iface \<Rightarrow> http_request \<Rightarrow> server_call \<Rightarrow> memoryStore \<times> server_event list" where
  "finishAuthentication a s w r c =
    (let (s, found) = takeAuthentication s (srv_now c 0) (cookieID r qs_authenticationCookie);
         cleared = SetCookie qs_authenticationCookie [] (- 1) in
     case demoVerified a s r c found of Inl status \<Rightarrow> (s, cleared # fail a w status)
     | Inr res \<Rightarrow>
       (case qs_update s (ares_Update res) of
          (s, False) \<Rightarrow> (s, cleared # fail a w StatusConflict)
        | (s, True) \<Rightarrow>
          (case token (srv_rand c 0) of Inl _ \<Rightarrow> (s, cleared # fail a w StatusInternalServerError)
           | Inr name \<Rightarrow>
             (case openSession s (srv_now c 1) (cookieID r qs_sessionCookie) name (srv_now c 2) of
                (s, False) \<Rightarrow> (s, cleared # fail a w StatusTooManyRequests)
              | (s, True) \<Rightarrow> (s, cleared # SetCookie qs_sessionCookie name 3600 # demo_answer a w StatusOK ''authenticated'' True)))))"

definition qs_me ::
  "demo_app \<Rightarrow> memoryStore \<Rightarrow> ResponseWriter iface \<Rightarrow> http_request \<Rightarrow> server_call \<Rightarrow> memoryStore \<times> server_event list" where
  "qs_me a s w r c =
    (let s = prune (srv_now c 0) s in
     (s, demo_answer a w StatusOK ''authenticated'' (map_of (qs_sessions s) (cookieID r qs_sessionCookie) \<noteq> None)))"

definition qs_logout ::
  "demo_app \<Rightarrow> memoryStore \<Rightarrow> ResponseWriter iface \<Rightarrow> http_request \<Rightarrow> server_call \<Rightarrow> memoryStore \<times> server_event list" where
  "qs_logout a s w r c =
    (s\<lparr>qs_sessions := map_delete (cookieID r qs_sessionCookie) (qs_sessions s)\<rparr>,
     SetCookie qs_sessionCookie [] (- 1) # demo_answer a w StatusOK ''authenticated'' False)"

text \<open>
  The routes, behind the check of host, origin and media type. \<open>mux\<close> is the pattern \<^verbatim>\<open>http.ServeMux\<close> selects among those
  registered, \<open>static\<close> what the file server or the multiplexer itself answers.
\<close>

definition demo_headers :: "server_event list" where
  "demo_headers = map Wrote [HeaderSet ''Cache-Control'' ''no-store'', HeaderSet ''X-Content-Type-Options'' ''nosniff'',
     HeaderSet ''Content-Security-Policy'' (''default-src '' @ [CHR 0x27] @ ''self'' @ [CHR 0x27] @ ''; frame-ancestors '' @ [CHR 0x27]
       @ ''none'' @ [CHR 0x27] @ ''; base-uri '' @ [CHR 0x27] @ ''none'' @ [CHR 0x27] @ ''; form-action '' @ [CHR 0x27] @ ''self'' @ [CHR 0x27])]"

definition demo_patterns :: "string list" where
  "demo_patterns = [''POST /register/options'', ''POST /register/finish'', ''POST /login/options'', ''POST /login/finish'',
     ''POST /logout'', ''GET /me'', ''GET /'']"

definition demo_dispatch ::
  "string option \<Rightarrow> (http_request \<Rightarrow> server_event list) \<Rightarrow> demo_app \<Rightarrow> memoryStore \<Rightarrow> ResponseWriter iface \<Rightarrow> http_request
    \<Rightarrow> server_call \<Rightarrow> memoryStore \<times> server_event list" where
  "demo_dispatch p static a s w r c =
    (if p = Some ''POST /register/options'' then beginRegistration a s w r c
     else if p = Some ''POST /register/finish'' then finishRegistration a s w r c
     else if p = Some ''POST /login/options'' then beginAuthentication a s w r c
     else if p = Some ''POST /login/finish'' then finishAuthentication a s w r c
     else if p = Some ''POST /logout'' then qs_logout a s w r c
     else if p = Some ''GET /me'' then qs_me a s w r c
     else (s, static r))"

definition demo_guard :: "(string \<Rightarrow> string option) \<Rightarrow> http_request \<Rightarrow> bool" where
  "demo_guard ParseMediaType r \<longleftrightarrow> req_Host r = ''localhost:8080'' \<and>
    (req_Method r = ''POST'' \<longrightarrow>
      req_Header r ''Origin'' = demoOrigin \<and> ParseMediaType (req_Header r ''Content-Type'') = Some ''application/json'')"

definition qs_routes ::
  "(string list \<Rightarrow> http_request \<Rightarrow> string option) \<Rightarrow> (http_request \<Rightarrow> server_event list) \<Rightarrow> (string \<Rightarrow> string option) \<Rightarrow> demo_app
    \<Rightarrow> memoryStore \<Rightarrow> ResponseWriter iface \<Rightarrow> http_request \<Rightarrow> server_call \<Rightarrow> memoryStore \<times> server_event list" where
  "qs_routes mux static ParseMediaType a s w r c =
    (if \<not> demo_guard ParseMediaType r then (s, demo_headers @ fail a w StatusForbidden)
     else (case demo_dispatch (mux demo_patterns r) static a s w r c of (s', events) \<Rightarrow> (s', demo_headers @ events)))"

end
