(* ===== verification/Integration_App.thy ===== *)
theory Integration_App
  imports Integration_Store Browser_Json Relying_Party "HOL-Library.Multiset"
begin

text \<open>
  \<^verbatim>\<open>src/examples/integration/app.go\<close>: enrollment and login of an application over a relying party, the JSON boundary
  and the stores. A handler takes the state of the application and returns it with a result. What a call finds
  outside is the record \<open>app_call\<close>: its context, as each of its operations in turn observes it, and the clock
  and randomness of the library and of the stores.
\<close>

record application =
  app_accounts :: memoryAccounts
  app_ceremonies :: memoryCeremonies
  app_credentials :: memoryCredentials
  app_sessions :: memorySessions

record app_call =
  call_ctx :: "nat \<Rightarrow> ctx"
  call_env :: go_env
  call_id :: go_env
  call_now :: time

text \<open>The fixed parts of an application: the relying party, the text layer and the key decoder of the credential store.\<close>

record app_config =
  app_std :: go_std
  app_text :: go_text
  app_decoder :: COSEKeyDecoder
  app_rp :: RelyingParty

definition app_save :: "application \<Rightarrow> app_call \<Rightarrow> ctx \<Rightarrow> savedCeremony \<Rightarrow> application \<times> string result" where
  "app_save a c ctx saved =
    (if sc_session saved = [] then (a, Inl errDenied) else
     case ceremonyID (call_id c) of Inl e \<Rightarrow> (a, Inl e)
     | Inr name \<Rightarrow>
       (case ceremonies_Save (app_ceremonies a) (call_now c) ctx name saved of
          (entries, Some e) \<Rightarrow> (a\<lparr>app_ceremonies := entries\<rparr>, Inl e)
        | (entries, None) \<Rightarrow> (a\<lparr>app_ceremonies := entries\<rparr>, Inr name)))"

section \<open>Enrollment\<close>

definition enrollmentStarted ::
  "app_config \<Rightarrow> application \<Rightarrow> app_call \<Rightarrow> string \<Rightarrow> (savedCeremony \<times> CredentialCreationOptionsJSON) result" where
  "enrollmentStarted cfg a c session =
    and_then (EnrollmentUser (app_accounts a) (call_ctx c 0) session) (\<lambda>user.
    and_then (credentials_List (app_std cfg) (app_text cfg) (app_decoder cfg) (app_credentials a) (call_ctx c 1) (user_ID user))
      (\<lambda>credentials.
    and_then (RP_StartRegistration (app_std cfg) (call_env c) (Some (app_rp cfg)) (Some (call_ctx c 2))
      \<lparr>rreq_User = user, rreq_ExcludeCredentials = credentials, rreq_Extensions = [], rreq_Hints = [],
       rreq_ConditionalMediation = False\<rparr>) (\<lambda>start.
    and_then (CredentialCreationOptionsFromProtocol (app_text cfg) (rsr_Options start)) (\<lambda>dto.
    and_then (MarshalRegistrationState (app_std cfg) (app_text cfg) (rsr_State start)) (\<lambda>payload.
    Inr (\<lparr>sc_kind = registration, sc_session = session, sc_account = user_ID user,
      sc_expires = rs_ExpiresAt (rsr_State start), sc_payload = payload\<rparr>, dto))))))"

definition beginEnrollment ::
  "app_config \<Rightarrow> application \<Rightarrow> app_call \<Rightarrow> string \<Rightarrow> application \<times> (string \<times> CredentialCreationOptionsJSON) result" where
  "beginEnrollment cfg a c session =
    (case enrollmentStarted cfg a c session of Inl e \<Rightarrow> (a, Inl e)
     | Inr (saved, dto) \<Rightarrow>
       (case app_save a c (call_ctx c 3) saved of
          (a', Inl e) \<Rightarrow> (a', Inl e) | (a', Inr name) \<Rightarrow> (a', Inr (name, dto))))"

definition enrollmentVerified ::
  "app_config \<Rightarrow> app_call \<Rightarrow> savedCeremony \<Rightarrow> bytes \<Rightarrow> CredentialRecord result" where
  "enrollmentVerified cfg c saved body =
    and_then (UnmarshalRegistrationState (app_std cfg) (app_text cfg) (sc_payload saved)) (\<lambda>state.
    if \<not> bv_Equal (rs_UserHandle state) (sc_account saved) \<or> rs_ExpiresAt state \<noteq> sc_expires saved
    then Inl (Sentinel ErrInvalidCeremonyState) else
    and_then (RegistrationResponseFromJSON (app_std cfg) (app_text cfg) body) (\<lambda>response.
    and_then (RP_FinishRegistration (app_std cfg) (call_env c) (Some (app_rp cfg)) (Some (call_ctx c 2))
      \<lparr>rver_State = state, rver_Response = response\<rparr>) (\<lambda>res.
    Inr (rres_Credential res))))"

definition finishEnrollment ::
  "app_config \<Rightarrow> application \<Rightarrow> app_call \<Rightarrow> string \<Rightarrow> string \<Rightarrow> bytes \<Rightarrow> application \<times> error option" where
  "finishEnrollment cfg a c session name body =
    (case EnrollmentUser (app_accounts a) (call_ctx c 0) session of Inl e \<Rightarrow> (a, Some e)
     | Inr user \<Rightarrow>
       (case ceremonies_Consume (app_ceremonies a) (call_now c) (call_ctx c 1) name session registration (Some (user_ID user)) of
          (entries, Inl e) \<Rightarrow> (a\<lparr>app_ceremonies := entries\<rparr>, Some e)
        | (entries, Inr saved) \<Rightarrow>
          let a' = a\<lparr>app_ceremonies := entries\<rparr> in
          (case enrollmentVerified cfg c saved body of Inl e \<Rightarrow> (a', Some e)
           | Inr r \<Rightarrow>
             (case credentials_Insert (app_text cfg) (app_credentials a') (call_ctx c 3) r of
                (rows, e) \<Rightarrow> (a'\<lparr>app_credentials := rows\<rparr>, e)))))"

section \<open>Login\<close>

definition loginRequest :: "app_config \<Rightarrow> application \<Rightarrow> app_call \<Rightarrow> string \<Rightarrow> AuthenticationRequest result" where
  "loginRequest cfg a c username =
    (if username = [] then Inr \<lparr>areq_AllowCredentials = [], areq_ExpectedUserHandle = zero_byteValue, areq_Extensions = [],
       areq_Hints = []\<rparr> else
     and_then (UserByName (app_accounts a) (call_ctx c 0) username) (\<lambda>user.
     and_then (credentials_List (app_std cfg) (app_text cfg) (app_decoder cfg) (app_credentials a) (call_ctx c 1) (user_ID user))
       (\<lambda>credentials.
     if credentials = [] then Inl errDenied else
     Inr \<lparr>areq_AllowCredentials = credentials, areq_ExpectedUserHandle = user_ID user, areq_Extensions = [], areq_Hints = []\<rparr>)))"

definition loginStarted ::
  "app_config \<Rightarrow> application \<Rightarrow> app_call \<Rightarrow> string \<Rightarrow> string \<Rightarrow> (savedCeremony \<times> CredentialRequestOptionsJSON) result" where
  "loginStarted cfg a c session username =
    and_then (loginRequest cfg a c username) (\<lambda>request.
    and_then (RP_StartAuthentication (app_std cfg) (call_env c) (Some (app_rp cfg)) (Some (call_ctx c 2)) request) (\<lambda>start.
    and_then (CredentialRequestOptionsFromProtocol (app_text cfg) (asr_Options start)) (\<lambda>dto.
    and_then (MarshalAuthenticationState (app_std cfg) (app_text cfg) (asr_State start)) (\<lambda>payload.
    Inr (\<lparr>sc_kind = authentication, sc_session = session, sc_account = as_ExpectedUserHandle (asr_State start),
      sc_expires = as_ExpiresAt (asr_State start), sc_payload = payload\<rparr>, dto)))))"

definition beginLogin ::
  "app_config \<Rightarrow> application \<Rightarrow> app_call \<Rightarrow> string \<Rightarrow> string \<Rightarrow> application \<times> (string \<times> CredentialRequestOptionsJSON) result" where
  "beginLogin cfg a c session username =
    (case loginStarted cfg a c session username of Inl e \<Rightarrow> (a, Inl e)
     | Inr (saved, dto) \<Rightarrow>
       (case app_save a c (call_ctx c 3) saved of
          (a', Inl e) \<Rightarrow> (a', Inl e) | (a', Inr name) \<Rightarrow> (a', Inr (name, dto))))"

definition loginVerified ::
  "app_config \<Rightarrow> memoryCredentials \<Rightarrow> app_call \<Rightarrow> savedCeremony \<Rightarrow> bytes \<Rightarrow> (credentialSnapshot \<times> AuthenticationResult) result" where
  "loginVerified cfg credentials c saved body =
    and_then (UnmarshalAuthenticationState (app_std cfg) (app_text cfg) (sc_payload saved)) (\<lambda>state.
    if \<not> bv_Equal (as_ExpectedUserHandle state) (sc_account saved) \<or> as_ExpiresAt state \<noteq> sc_expires saved
    then Inl (Sentinel ErrInvalidCeremonyState) else
    and_then (AuthenticationResponseFromJSON (app_std cfg) (app_text cfg) body) (\<lambda>response.
    let lookupUser = (if bv_len (as_ExpectedUserHandle state) = 0 then ar_UserHandle response else as_ExpectedUserHandle state) in
    if bv_len lookupUser = 0 then Inl errDenied else
    and_then (credentials_Lookup (app_std cfg) (app_text cfg) (app_decoder cfg) credentials (call_ctx c 1)
      (ar_RawID response) lookupUser) (\<lambda>stored.
    and_then (RP_FinishAuthentication (app_std cfg) (call_env c) (Some (app_rp cfg)) (Some (call_ctx c 2))
      \<lparr>aver_State = state, aver_Response = response, aver_Credential = snap_record stored, aver_UVInitializationAuthorized = False\<rparr>)
      (\<lambda>res.
    if ctr_CloneRisk (ares_Counter res) \<or> ares_UVInitializationPending res then Inl errRisk else Inr (stored, res)))))"

definition loginCompleted ::
  "app_config \<Rightarrow> application \<Rightarrow> app_call \<Rightarrow> credentialSnapshot \<Rightarrow> AuthenticationResult \<Rightarrow> application \<times> string result" where
  "loginCompleted cfg a c stored res =
    (case credentials_Update (app_std cfg) (app_text cfg) (app_decoder cfg) (app_credentials a) (call_ctx c 3)
        (ares_Update res) (snap_version stored) of
       (rows, Some e) \<Rightarrow> (a\<lparr>app_credentials := rows\<rparr>, Inl e)
     | (rows, None) \<Rightarrow>
       (case sessions_Create (app_sessions a) (call_id c) (call_ctx c 4) (ares_AuthenticatedAs res) of
          (sessions, r) \<Rightarrow> (a\<lparr>app_credentials := rows, app_sessions := sessions\<rparr>, r)))"

definition finishLogin ::
  "app_config \<Rightarrow> application \<Rightarrow> app_call \<Rightarrow> string \<Rightarrow> string \<Rightarrow> bytes \<Rightarrow> application \<times> string result" where
  "finishLogin cfg a c session name body =
    (case ceremonies_Consume (app_ceremonies a) (call_now c) (call_ctx c 0) name session authentication None of
       (entries, Inl e) \<Rightarrow> (a\<lparr>app_ceremonies := entries\<rparr>, Inl e)
     | (entries, Inr saved) \<Rightarrow>
       let a' = a\<lparr>app_ceremonies := entries\<rparr> in
       (case loginVerified cfg (app_credentials a') c saved body of Inl e \<Rightarrow> (a', Inl e)
        | Inr (stored, res) \<Rightarrow> loginCompleted cfg a' c stored res))"

section \<open>Runs\<close>

text \<open>
  Requests are served concurrently. A handler is a sequence of atomic operations of the stores with computations
  between them, which read no state; \<open>pending\<close> is what a handler carries from one operation to the next, and a
  step of the application performs one operation of one handler. A handler may stop after any of them, as it
  does when an operation fails.
\<close>

datatype pending =
  Saving app_call savedCeremony
| Enrolling app_call savedCeremony bytes
| LoggingIn app_call savedCeremony bytes
| Updating app_call credentialSnapshot AuthenticationResult
| Opening app_call UserHandle

inductive app_step :: "app_config \<Rightarrow> application \<times> pending multiset \<Rightarrow> application \<times> pending multiset \<Rightarrow> bool" for cfg where
  enrollment_starts: "enrollmentStarted cfg a c session = Inr (saved, dto) \<Longrightarrow> app_step cfg (a, ps) (a, add_mset (Saving c saved) ps)"
| login_starts: "loginStarted cfg a c session username = Inr (saved, dto) \<Longrightarrow> app_step cfg (a, ps) (a, add_mset (Saving c saved) ps)"
| saves: "app_step cfg (a, add_mset (Saving c saved) ps) (fst (app_save a c (call_ctx c 3) saved), ps)"
| refuses: "app_step cfg (a, ps)
    (a\<lparr>app_ceremonies := fst (ceremonies_Consume (app_ceremonies a) now ctx name session kind account)\<rparr>, ps)"
| enrollment_consumes: "EnrollmentUser (app_accounts a) (call_ctx c 0) session = Inr user \<Longrightarrow>
    ceremonies_Consume (app_ceremonies a) (call_now c) (call_ctx c 1) name session registration (Some (user_ID user))
      = (entries, Inr saved) \<Longrightarrow>
    app_step cfg (a, ps) (a\<lparr>app_ceremonies := entries\<rparr>, add_mset (Enrolling c saved body) ps)"
| enrolls: "enrollmentVerified cfg c saved body = Inr r \<Longrightarrow>
    credentials_Insert (app_text cfg) (app_credentials a) (call_ctx c 3) r = (rows, e) \<Longrightarrow>
    app_step cfg (a, add_mset (Enrolling c saved body) ps) (a\<lparr>app_credentials := rows\<rparr>, ps)"
| login_consumes: "ceremonies_Consume (app_ceremonies a) (call_now c) (call_ctx c 0) name session authentication None
      = (entries, Inr saved) \<Longrightarrow>
    app_step cfg (a, ps) (a\<lparr>app_ceremonies := entries\<rparr>, add_mset (LoggingIn c saved body) ps)"
| verifies: "loginVerified cfg (app_credentials a) c saved body = Inr (stored, res) \<Longrightarrow>
    app_step cfg (a, add_mset (LoggingIn c saved body) ps) (a, add_mset (Updating c stored res) ps)"
| updates: "credentials_Update (app_std cfg) (app_text cfg) (app_decoder cfg) (app_credentials a) (call_ctx c 3)
      (ares_Update res) (snap_version stored) = (rows, None) \<Longrightarrow>
    app_step cfg (a, add_mset (Updating c stored res) ps)
      (a\<lparr>app_credentials := rows\<rparr>, add_mset (Opening c (ares_AuthenticatedAs res)) ps)"
| opens: "app_step cfg (a, add_mset (Opening c user) ps)
    (a\<lparr>app_sessions := fst (sessions_Create (app_sessions a) (call_id c) (call_ctx c 4) user)\<rparr>, ps)"
| stops: "app_step cfg (a, add_mset p ps) (a, ps)"

inductive app_reachable :: "app_config \<Rightarrow> memoryAccounts \<Rightarrow> application \<times> pending multiset \<Rightarrow> bool" for cfg accounts where
  start: "app_reachable cfg accounts (\<lparr>app_accounts = accounts, app_ceremonies = [], app_credentials = [], app_sessions = []\<rparr>, {#})"
| step: "app_reachable cfg accounts s \<Longrightarrow> app_step cfg s s' \<Longrightarrow> app_reachable cfg accounts s'"

text \<open>A handler that is not interleaved with others is a sequence of such steps.\<close>

abbreviation app_run :: "app_config \<Rightarrow> application \<times> pending multiset \<Rightarrow> application \<times> pending multiset \<Rightarrow> bool" where
  "app_run cfg \<equiv> (app_step cfg)\<^sup>*\<^sup>*"

lemma beginEnrollment_run: "app_run cfg (a, ps) (fst (beginEnrollment cfg a c session), ps)"
proof (cases "enrollmentStarted cfg a c session")
  case (Inr started)
  obtain saved dto where started: "started = (saved, dto)"
    by (cases started)
  have "fst (beginEnrollment cfg a c session) = fst (app_save a c (call_ctx c 3) saved)"
    by (simp add: beginEnrollment_def Inr started split: prod.split sum.split)
  then show ?thesis
    using enrollment_starts [OF Inr [unfolded started]] saves [of cfg a c saved ps]
    by (metis converse_rtranclp_into_rtranclp r_into_rtranclp)
qed (simp add: beginEnrollment_def)

lemma beginLogin_run: "app_run cfg (a, ps) (fst (beginLogin cfg a c session username), ps)"
proof (cases "loginStarted cfg a c session username")
  case (Inr started)
  obtain saved dto where started: "started = (saved, dto)"
    by (cases started)
  have "fst (beginLogin cfg a c session username) = fst (app_save a c (call_ctx c 3) saved)"
    by (simp add: beginLogin_def Inr started split: prod.split sum.split)
  then show ?thesis
    using login_starts [OF Inr [unfolded started]] saves [of cfg a c saved ps]
    by (metis converse_rtranclp_into_rtranclp r_into_rtranclp)
qed (simp add: beginLogin_def)

lemma finishEnrollment_run: "app_run cfg (a, ps) (fst (finishEnrollment cfg a c session name body), ps)"
proof (cases "EnrollmentUser (app_accounts a) (call_ctx c 0) session")
  case (Inr user)
  note user = Inr
  let ?consume = "ceremonies_Consume (app_ceremonies a) (call_now c) (call_ctx c 1) name session registration (Some (user_ID user))"
  obtain entries r where "?consume = (entries, r)"
    by force
  note consume = this [unfolded One_nat_def]
  show ?thesis
  proof (cases r)
    case (Inl e)
    then show ?thesis
      using refuses [of cfg a ps "call_now c" "call_ctx c 1" name session registration "Some (user_ID user)"]
      by (simp add: finishEnrollment_def user consume r_into_rtranclp)
  next
    case (Inr saved)
    have first: "app_step cfg (a, ps) (a\<lparr>app_ceremonies := entries\<rparr>, add_mset (Enrolling c saved body) ps)"
      using user consume Inr by (intro enrollment_consumes) auto
    show ?thesis
    proof (cases "enrollmentVerified cfg c saved body")
      case (Inl e)
      then show ?thesis
        using first stops [of cfg "a\<lparr>app_ceremonies := entries\<rparr>" "Enrolling c saved body" ps]
        by (simp add: finishEnrollment_def user consume Inr converse_rtranclp_into_rtranclp)
    next
      case verified: (Inr cr)
      obtain rows e where "credentials_Insert (app_text cfg) (app_credentials a) (call_ctx c 3) cr = (rows, e)"
        by force
      then show ?thesis
        using first enrolls [OF verified, of "a\<lparr>app_ceremonies := entries\<rparr>" rows e ps]
        by (simp add: finishEnrollment_def user consume Inr verified converse_rtranclp_into_rtranclp)
    qed
  qed
qed (simp add: finishEnrollment_def)

lemma loginCompleted_run: "app_run cfg (a, add_mset (Updating c stored res) ps) (fst (loginCompleted cfg a c stored res), ps)"
proof -
  obtain rows e where update: "credentials_Update (app_std cfg) (app_text cfg) (app_decoder cfg) (app_credentials a)
      (call_ctx c 3) (ares_Update res) (snap_version stored) = (rows, e)"
    by force
  show ?thesis
  proof (cases e)
    case None
    show ?thesis
      using updates [of cfg a c res stored rows ps] opens [of cfg "a\<lparr>app_credentials := rows\<rparr>" c "ares_AuthenticatedAs res" ps] update
      by (simp add: loginCompleted_def None converse_rtranclp_into_rtranclp split: prod.split)
  next
    case (Some e')
    then have "rows = app_credentials a"
      using failed_update_keeps update by blast
    then show ?thesis
      using stops [of cfg a "Updating c stored res" ps] by (simp add: loginCompleted_def update Some)
  qed
qed

lemma finishLogin_run: "app_run cfg (a, ps) (fst (finishLogin cfg a c session name body), ps)"
proof -
  obtain entries r where consume:
      "ceremonies_Consume (app_ceremonies a) (call_now c) (call_ctx c 0) name session authentication None = (entries, r)"
    by force
  let ?a = "a\<lparr>app_ceremonies := entries\<rparr>"
  show ?thesis
  proof (cases r)
    case (Inl e)
    then show ?thesis
      using refuses [of cfg a ps "call_now c" "call_ctx c 0" name session authentication None]
      by (simp add: finishLogin_def consume r_into_rtranclp)
  next
    case (Inr saved)
    have first: "app_step cfg (a, ps) (?a, add_mset (LoggingIn c saved body) ps)"
      using consume Inr by (auto intro: login_consumes)
    show ?thesis
    proof (cases "loginVerified cfg (app_credentials a) c saved body")
      case (Inl e)
      then show ?thesis
        using first stops [of cfg ?a "LoggingIn c saved body" ps] by (simp add: finishLogin_def consume Inr converse_rtranclp_into_rtranclp)
    next
      case verified: (Inr found)
      obtain stored res where found: "found = (stored, res)"
        by (cases found)
      have "app_step cfg (?a, add_mset (LoggingIn c saved body) ps) (?a, add_mset (Updating c stored res) ps)"
        using verified found by (intro verifies) simp
      then show ?thesis
        using first loginCompleted_run [of cfg ?a c stored res ps]
        by (simp add: finishLogin_def consume Inr verified found converse_rtranclp_into_rtranclp)
    qed
  qed
qed

end
