(* ===== verification/Integration_Runs.thy ===== *)
theory Integration_Runs
  imports Integration_App Authentication_Spec
begin

text \<open>
  What the handlers of \<open>Integration_App\<close> establish, one at a time and interleaved: the credential rows always
  represent records, a session belongs to the owner of a row, and an update is applied to the record
  that was verified.
\<close>

section \<open>The results of the library\<close>

lemma RP_FinishAuthentication_result:
  assumes "RP_FinishAuthentication std env rp ctx request = Inr res"
  shows "ares_AuthenticatedAs res = cr_UserHandle (aver_Credential request)" "cu_ID (ares_Update res) = cr_ID (aver_Credential request)"
    "updatedRecord (ares_Update res) (aver_Credential request) = ares_Credential res"
proof -
  obtain r :: RelyingParty where "FinishAuthentication std env ctx (authenticationFinishOptions (rp_config r) request) = Inr res"
    using assms by (auto simp: RP_FinishAuthentication_def check_Inr_iff split: option.splits if_splits)
  then obtain parsed counter exts where
    res: "res = authenticationResult (authenticationFinishOptions (rp_config r) request) parsed counter exts"
    unfolding FinishAuthentication_refines authenticationSpec_def by blast
  show "ares_AuthenticatedAs res = cr_UserHandle (aver_Credential request)"
    by (simp add: res authenticationFinishOptions_def)
  show "cu_ID (ares_Update res) = cr_ID (aver_Credential request)"
    by (simp add: res authenticationResult_def authenticationFinishOptions_def Let_def)
  show "updatedRecord (ares_Update res) (aver_Credential request) = ares_Credential res"
    using update_writes_credential [of "authenticationFinishOptions (rp_config r) request" parsed counter exts]
    by (simp add: res) (simp add: authenticationFinishOptions_def)
qed

lemma RP_FinishRegistration_record:
  assumes "RP_FinishRegistration std env (Some rp) ctx request = Inr res"
    and "Go_Json.constructed NewUserHandle (rs_UserHandle (rver_State request))"
  obtains raw where "record_typed (rres_Credential res)" "cr_UserHandle (rres_Credential res) = rs_UserHandle (rver_State request)"
    "call (cfg_CredentialPublicKeyDecoder (rp_config rp)) raw = Inr (cr_PublicKey (rres_Credential res))"
proof -
  let ?options = "registrationFinishOptions (rp_config rp) request"
  have "FinishRegistration std env ctx ?options = Inr res"
    using assms(1) by (auto simp: RP_FinishRegistration_def split: if_splits)
  then obtain d decoded parsed attested key exts att trust extensionResults where
    evidence: "registrationEvidence std ?options d decoded parsed attested key exts"
    and res: "res = registrationResult ?options parsed attested key att trust extensionResults"
    unfolding FinishRegistration_refines registrationSpec_def by blast
  have parse: "ParseAuthenticatorData (dao_AuthenticatorData decoded) = Inr parsed" "pad_AttestedCredentialData parsed = Some attested"
    and key: "call (cfg_CredentialPublicKeyDecoder (rp_config rp)) (acd_CredentialPublicKeyAndExtensions attested) = Inr key"
    using evidence by (auto simp: registrationEvidence_def Let_def keyAndExtensions_def registrationFinishOptions_def)
  have wf: "wf_attested attested"
    using ParseAuthenticatorData_sound [OF parse(1)] wf_parsed_attestedD [of parsed attested] parse(2) by simp
  then have "Go_Json.constructed NewCredentialID (acd_CredentialID attested)"
    by (cases "acd_CredentialID attested"; cases "bv_value (acd_CredentialID attested)")
      (auto simp: wf_attested_def Go_Json.constructed_def NewCredentialID_def newByteValue_def bv_len_def bv_bytes_def Let_def)
  then show thesis
    using that [of "acd_CredentialPublicKeyAndExtensions attested"] key wf assms(2)
    by (simp add: res registrationResult_def registrationFinishOptions_def record_typed_def wf_attested_def Let_def)
qed

lemma enrollmentVerified_Inr:
  assumes "enrollmentVerified cfg c saved body = Inr r"
  obtains state response res raw where "UnmarshalRegistrationState (app_std cfg) (app_text cfg) (sc_payload saved) = Inr state"
    "bv_bytes (rs_UserHandle state) = bv_bytes (sc_account saved)" "rs_ExpiresAt state = sc_expires saved"
    "RegistrationResponseFromJSON (app_std cfg) (app_text cfg) body = Inr response"
    "RP_FinishRegistration (app_std cfg) (call_env c) (Some (app_rp cfg)) (Some (call_ctx c 2))
      \<lparr>rver_State = state, rver_Response = response\<rparr> = Inr res"
    "r = rres_Credential res" "record_typed r" "cr_UserHandle r = rs_UserHandle state"
    "call (cfg_CredentialPublicKeyDecoder (rp_config (app_rp cfg))) raw = Inr (cr_PublicKey r)"
proof -
  obtain state response res where run: "UnmarshalRegistrationState (app_std cfg) (app_text cfg) (sc_payload saved) = Inr state"
    "bv_bytes (rs_UserHandle state) = bv_bytes (sc_account saved)" "rs_ExpiresAt state = sc_expires saved"
    "RegistrationResponseFromJSON (app_std cfg) (app_text cfg) body = Inr response"
    "RP_FinishRegistration (app_std cfg) (call_env c) (Some (app_rp cfg)) (Some (call_ctx c 2))
      \<lparr>rver_State = state, rver_Response = response\<rparr> = Inr res"
    "r = rres_Credential res"
    using assms by (auto simp: enrollmentVerified_def result_inv)
  have "Go_Json.constructed NewUserHandle (rs_UserHandle state)"
    by (rule UnmarshalRegistrationState_Inr(3) [OF run(1)])
  then show thesis
    using that [OF run] RP_FinishRegistration_record [OF run(5)] run(6) by (metis RegistrationVerification.select_convs(1))
qed

lemma loginVerified_Inr:
  assumes "loginVerified cfg credentials c saved body = Inr (stored, res)"
  obtains state response user where "UnmarshalAuthenticationState (app_std cfg) (app_text cfg) (sc_payload saved) = Inr state"
    "bv_bytes (as_ExpectedUserHandle state) = bv_bytes (sc_account saved)" "as_ExpiresAt state = sc_expires saved"
    "AuthenticationResponseFromJSON (app_std cfg) (app_text cfg) body = Inr response"
    "credentials_Lookup (app_std cfg) (app_text cfg) (app_decoder cfg) credentials (call_ctx c 1) (ar_RawID response) user = Inr stored"
    "RP_FinishAuthentication (app_std cfg) (call_env c) (Some (app_rp cfg)) (Some (call_ctx c 2))
      \<lparr>aver_State = state, aver_Response = response, aver_Credential = snap_record stored, aver_UVInitializationAuthorized = False\<rparr>
      = Inr res"
    "\<not> ctr_CloneRisk (ares_Counter res)" "\<not> ares_UVInitializationPending res"
  using assms unfolding loginVerified_def
  by (auto simp: result_inv Let_def)

lemma set_map_put: "set (map_put k v m) \<subseteq> insert (k, v) (set m)"
  by (induction m) (auto simp: map_put_def)

section \<open>Rows under insertions and updates\<close>

abbreviation row_key :: "CredentialRecord \<Rightarrow> string" where
  "row_key r \<equiv> string_of_bytes (bv_bytes (cr_ID r))"

definition owned :: "rows \<Rightarrow> UserHandle \<Rightarrow> bool" where
  "owned rows user \<longleftrightarrow> (\<exists>key snap. map_of rows key = Some snap \<and> cr_UserHandle (snap_record snap) = user)"

text \<open>
  A snapshot that a handler has read: its row is still there with the same owner, has not gone back to an earlier
  version, and holds the same record while it has the same version.
\<close>

definition snapshot_of :: "rows \<Rightarrow> credentialSnapshot \<Rightarrow> bool" where
  "snapshot_of rows stored \<longleftrightarrow>
    (\<exists>snap. map_of rows (row_key (snap_record stored)) = Some snap \<and>
      cr_UserHandle (snap_record snap) = cr_UserHandle (snap_record stored) \<and>
      unat (snap_version stored) \<le> unat (snap_version snap) \<and>
      (snap_version snap = snap_version stored \<longrightarrow> snap_record snap = snap_record stored))"

definition rows_grow :: "rows \<Rightarrow> rows \<Rightarrow> bool" where
  "rows_grow rows rows' \<longleftrightarrow>
    (\<forall>key snap. map_of rows key = Some snap \<longrightarrow> (\<exists>snap'. map_of rows' key = Some snap' \<and>
      cr_UserHandle (snap_record snap') = cr_UserHandle (snap_record snap) \<and>
      (snap' = snap \<or> unat (snap_version snap) < unat (snap_version snap'))))"

lemma rows_grow_refl [simp]: "rows_grow rows rows"
  by (simp add: rows_grow_def)

lemma rows_grow_Insert: "map_of rows (row_key r) = None \<Longrightarrow> rows_grow rows (rows_Insert rows r)"
  by (auto simp: rows_grow_def rows_Insert_def)

lemma rows_grow_Update:
  assumes "map_of rows (string_of_bytes (bv_bytes (cu_ID update))) = Some snap" "snap_version snap \<noteq> MaxVersion"
  shows "rows_grow rows (rows_Update rows update)"
  using assms by (auto simp: rows_grow_def rows_Update_def Let_def updatedRecord_typed version_grows)

lemma owned_grow: "rows_grow rows rows' \<Longrightarrow> owned rows user \<Longrightarrow> owned rows' user"
  unfolding rows_grow_def owned_def by metis

lemma snapshot_grow:
  assumes "rows_grow rows rows'" "snapshot_of rows stored"
  shows "snapshot_of rows' stored"
proof -
  let ?key = "row_key (snap_record stored)"
  obtain snap where snap: "map_of rows ?key = Some snap" "cr_UserHandle (snap_record snap) = cr_UserHandle (snap_record stored)"
      "unat (snap_version stored) \<le> unat (snap_version snap)"
      "snap_version snap = snap_version stored \<longrightarrow> snap_record snap = snap_record stored"
    using assms(2) unfolding snapshot_of_def by blast
  obtain snap' where "map_of rows' ?key = Some snap'" "cr_UserHandle (snap_record snap') = cr_UserHandle (snap_record snap)"
      "snap' = snap \<or> unat (snap_version snap) < unat (snap_version snap')"
    using assms(1) snap(1) unfolding rows_grow_def by blast
  then show ?thesis
    using snap unfolding snapshot_of_def by fastforce
qed

text \<open>What a handler between two operations knows.\<close>

fun pending_ok :: "app_config \<Rightarrow> rows \<Rightarrow> pending \<Rightarrow> bool" where
  "pending_ok cfg rows (Updating c stored res) \<longleftrightarrow> snapshot_of rows stored \<and>
    ares_AuthenticatedAs res = cr_UserHandle (snap_record stored) \<and> cu_ID (ares_Update res) = cr_ID (snap_record stored) \<and>
    updatedRecord (ares_Update res) (snap_record stored) = ares_Credential res"
| "pending_ok cfg rows (Opening c user) \<longleftrightarrow> owned rows user"
| "pending_ok cfg rows (Saving c saved) \<longleftrightarrow> True"
| "pending_ok cfg rows (Enrolling c saved body) \<longleftrightarrow> True"
| "pending_ok cfg rows (LoggingIn c saved body) \<longleftrightarrow> True"

lemma pending_grow: "rows_grow rows rows' \<Longrightarrow> pending_ok cfg rows p \<Longrightarrow> pending_ok cfg rows' p"
  by (cases p) (auto intro: owned_grow snapshot_grow)

definition consistent :: "app_config \<Rightarrow> rows \<Rightarrow> application \<times> pending multiset \<Rightarrow> bool" where
  "consistent cfg rows s \<longleftrightarrow>
    represents (app_std cfg) (app_text cfg) (app_decoder cfg) (app_credentials (fst s)) rows \<and>
    (\<forall>p\<in>#snd s. pending_ok cfg rows p) \<and> (\<forall>(_, user)\<in>set (app_sessions (fst s)). owned rows user)"

lemma consistent_grow:
  assumes "consistent cfg rows (a, ps)" "rows_grow rows rows'"
    and "represents (app_std cfg) (app_text cfg) (app_decoder cfg) credentials rows'"
  shows "consistent cfg rows' (a\<lparr>app_credentials := credentials\<rparr>, ps)"
  using assms unfolding consistent_def by (auto intro: pending_grow owned_grow)

text \<open>
  An application whose text layer reads what it writes, and whose credential store decodes the keys that the relying
  party's decoder returned.
\<close>

locale integration = json_text "app_std cfg" "app_text cfg" for cfg :: app_config +
  assumes stored_keys: "call (cfg_CredentialPublicKeyDecoder (rp_config (app_rp cfg))) raw = Inr key \<Longrightarrow>
    call (app_decoder cfg) (cpk_raw key) = Inr key"
begin

lemma lookup_snapshot:
  assumes "represents (app_std cfg) (app_text cfg) (app_decoder cfg) credentials rows"
    and "credentials_Lookup (app_std cfg) (app_text cfg) (app_decoder cfg) credentials ctx rawID user = Inr stored"
  shows "snapshot_of rows stored" "map_of rows (row_key (snap_record stored)) = Some stored"
proof -
  have "ctx_Err ctx = None"
    using assms(2) by (auto simp: credentials_Lookup_def check_Inr_iff)
  then have "rows_Lookup rows rawID user = Inr stored"
    using lookup_refines [OF assms(1)] assms(2) by metis
  then have stored: "map_of rows (string_of_bytes (bv_bytes rawID)) = Some stored"
    by (auto simp: rows_Lookup_def split: option.splits if_splits)
  have "row_key (snap_record stored) = string_of_bytes (bv_bytes rawID)"
    using represents_lookup [OF assms(1), of "string_of_bytes (bv_bytes rawID)"] stored by (auto split: option.splits)
  then show "map_of rows (row_key (snap_record stored)) = Some stored" "snapshot_of rows stored"
    using stored by (auto simp: snapshot_of_def)
qed

lemma step_consistent:
  assumes "app_step cfg s s'" "consistent cfg rows s"
  shows "\<exists>rows'. consistent cfg rows' s'"
  using assms
proof (induction rule: app_step.induct)
  case (saves a c saved ps)
  have "app_credentials (fst (app_save a c ctx saved)) = app_credentials a \<and> app_sessions (fst (app_save a c ctx saved)) = app_sessions a"
    for ctx
    by (auto simp: app_save_def split: sum.split prod.split option.split)
  then show ?case
    using saves by (auto simp: consistent_def)
next
  case (enrolls c saved body r a credentials e ps)
  show ?case
  proof (cases e)
    case (Some e')
    then have "credentials = app_credentials a"
      using failed_insert_keeps enrolls(2) by blast
    then show ?thesis
      using enrolls(3) by (auto simp: consistent_def)
  next
    case None
    obtain raw where r: "record_typed r" "call (cfg_CredentialPublicKeyDecoder (rp_config (app_rp cfg))) raw = Inr (cr_PublicKey r)"
      using enrollmentVerified_Inr [OF enrolls(1)] by blast
    have reps: "represents (app_std cfg) (app_text cfg) (app_decoder cfg) (app_credentials a) rows" and "consistent cfg rows (a, ps)"
      using enrolls(3) by (simp_all add: consistent_def)
    then show ?thesis
      using insert_refines [OF _ reps r(1) stored_keys [OF r(2)]] enrolls(2) None rows_grow_Insert consistent_grow by metis
  qed
next
  case (verifies a c saved body stored res ps)
  then have "snapshot_of rows stored"
    using loginVerified_Inr [OF verifies(1)] lookup_snapshot(1) by (metis consistent_def fst_conv)
  moreover have "ares_AuthenticatedAs res = cr_UserHandle (snap_record stored)" "cu_ID (ares_Update res) = cr_ID (snap_record stored)"
      "updatedRecord (ares_Update res) (snap_record stored) = ares_Credential res"
    using loginVerified_Inr [OF verifies(1)] RP_FinishAuthentication_result
    by (metis AuthenticationVerification.select_convs(3))+
  ultimately show ?case
    using verifies(2) by (auto simp: consistent_def intro!: exI [of _ rows])
next
  case (updates a c res stored credentials ps)
  have reps: "represents (app_std cfg) (app_text cfg) (app_decoder cfg) (app_credentials a) rows" and rest: "consistent cfg rows (a, ps)"
    and stored: "pending_ok cfg rows (Updating c stored res)"
    using updates(2) by (simp_all add: consistent_def)
  obtain snap where snap: "map_of rows (string_of_bytes (bv_bytes (cu_ID (ares_Update res)))) = Some snap" "snap_version snap \<noteq> MaxVersion"
      "represents (app_std cfg) (app_text cfg) (app_decoder cfg) credentials (rows_Update rows (ares_Update res))"
    using update_refines [OF updates(1) reps] by metis
  have grow: "rows_grow rows (rows_Update rows (ares_Update res))"
    by (rule rows_grow_Update [OF snap(1,2)])
  have "owned rows (ares_AuthenticatedAs res)"
    using stored by (auto simp: snapshot_of_def owned_def)
  then show ?case
    using consistent_grow [OF rest grow snap(3)] owned_grow [OF grow] by (auto simp: consistent_def)
next
  case (opens a c user ps)
  have "set (fst (sessions_Create (app_sessions a) (call_id c) (call_ctx c 4) user)) \<subseteq> set (app_sessions a) \<union> UNIV \<times> {user}"
    using set_map_put [of _ user "app_sessions a"] by (auto simp: sessions_Create_def split: option.splits sum.splits)
  then show ?case
    using opens by (force simp: consistent_def)
qed (auto simp: consistent_def)

lemma reachable_consistent: "app_reachable cfg accounts s \<Longrightarrow> \<exists>rows. consistent cfg rows s"
proof (induction rule: app_reachable.induct)
  case start
  have "consistent cfg [] (\<lparr>app_accounts = accounts, app_ceremonies = [], app_credentials = [], app_sessions = []\<rparr>, {#})"
    by (simp add: consistent_def represents_def)
  then show ?case
    by blast
next
  case (step s s')
  then show ?case
    using step_consistent by blast
qed

text \<open>An update that succeeds replaced the very record that was verified, whatever ran in between.\<close>

lemma update_applies_to_verified:
  assumes "app_reachable cfg accounts (a, add_mset (Updating c stored res) ps)"
    and "credentials_Update (app_std cfg) (app_text cfg) (app_decoder cfg) (app_credentials a) ctx (ares_Update res)
      (snap_version stored) = (credentials, None)"
  obtains entry entry' where "map_of (app_credentials a) (row_key (snap_record stored)) = Some entry"
    "UnmarshalCredentialRecord (app_std cfg) (app_text cfg) (sv_payload entry) (app_decoder cfg) = Inr (snap_record stored)"
    "map_of credentials (row_key (snap_record stored)) = Some entry'"
    "UnmarshalCredentialRecord (app_std cfg) (app_text cfg) (sv_payload entry') (app_decoder cfg) = Inr (ares_Credential res)"
    "unat (sv_version entry') = unat (sv_version entry) + 1"
proof -
  let ?key = "row_key (snap_record stored)"
  obtain rows where rows: "consistent cfg rows (a, add_mset (Updating c stored res) ps)"
    using reachable_consistent [OF assms(1)] by blast
  then have reps: "represents (app_std cfg) (app_text cfg) (app_decoder cfg) (app_credentials a) rows"
    and known: "snapshot_of rows stored" "cu_ID (ares_Update res) = cr_ID (snap_record stored)"
      "updatedRecord (ares_Update res) (snap_record stored) = ares_Credential res"
    by (simp_all add: consistent_def)
  obtain snap where snap: "map_of rows ?key = Some snap" "snap_version snap = snap_version stored" "snap_version stored \<noteq> MaxVersion"
      "represents (app_std cfg) (app_text cfg) (app_decoder cfg) credentials (rows_Update rows (ares_Update res))"
    using update_refines [OF assms(2) reps] known(2) by metis
  have same: "snap_record snap = snap_record stored"
    using known(1) snap(1,2) by (auto simp: snapshot_of_def)
  have new: "map_of (rows_Update rows (ares_Update res)) ?key
      = Some \<lparr>snap_record = ares_Credential res, snap_version = snap_version stored + 1\<rparr>"
    using snap(1,2) known(2,3) same by (simp add: rows_Update_def)
  show thesis
    using that represents_lookup [OF reps, of ?key] represents_lookup [OF snap(4), of ?key] snap(1-3) same new
    by (auto simp: version_grows split: option.splits)
qed

end

section \<open>A finished login\<close>

lemma finishLogin_Inr:
  assumes "finishLogin cfg a c session name body = (a', Inr token)"
  obtains entries saved stored res credentials where
    "ceremonies_Consume (app_ceremonies a) (call_now c) (call_ctx c 0) name session authentication None = (entries, Inr saved)"
    "loginVerified cfg (app_credentials a) c saved body = Inr (stored, res)"
    "credentials_Update (app_std cfg) (app_text cfg) (app_decoder cfg) (app_credentials a) (call_ctx c 3) (ares_Update res)
      (snap_version stored) = (credentials, None)"
    "a' = a\<lparr>app_ceremonies := entries, app_credentials := credentials,
      app_sessions := map_put token (ares_AuthenticatedAs res) (app_sessions a)\<rparr>"
  using assms
  by (auto simp: finishLogin_def loginCompleted_def sessions_Create_def Let_def split: prod.splits sum.splits option.splits)

lemma finishEnrollment_None:
  assumes "finishEnrollment cfg a c session name body = (a', None)"
  obtains user entries saved r credentials where
    "EnrollmentUser (app_accounts a) (call_ctx c 0) session = Inr user"
    "ceremonies_Consume (app_ceremonies a) (call_now c) (call_ctx c 1) name session registration (Some (user_ID user))
      = (entries, Inr saved)"
    "enrollmentVerified cfg c saved body = Inr r"
    "credentials_Insert (app_text cfg) (app_credentials a) (call_ctx c 3) r = (credentials, None)"
    "a' = a\<lparr>app_ceremonies := entries, app_credentials := credentials\<rparr>"
  using assms
  by (auto simp: finishEnrollment_def Let_def split: prod.splits sum.splits option.splits)

end
