(* ===== verification/Quickstart_Runs.thy ===== *)
theory Quickstart_Runs
  imports Quickstart Integration_Runs
begin

text \<open>
  The runs of the demo: every interleaving of the sections of its handlers. The maps stay within their bounds, and
  every stored record is valid and stored under its own identifier.
\<close>

section \<open>Steps\<close>

inductive demo_step :: "demo_app \<Rightarrow> memoryStore \<Rightarrow> memoryStore \<Rightarrow> bool" for a where
  saves_registration: "demo_step a s (fst (saveRegistration s now old name state))"
| takes_registration: "demo_step a s (fst (takeRegistration s now name))"
| saves_authentication: "demo_step a s (fst (saveAuthentication s now old name state'))"
| takes_authentication: "demo_step a s (fst (takeAuthentication s now name))"
| inserts: "RP_FinishRegistration (demo_std a) env (Some (demo_rp a)) ctx request = Inr res \<Longrightarrow>
    demo_step a s (fst (qs_insert s (rres_Credential res)))"
| updates: "demo_step a s (fst (qs_update s u))"
| opens: "demo_step a s (fst (openSession s now old name later))"
| prunes: "demo_step a s (prune now s)"
| logs_out: "demo_step a s (s\<lparr>qs_sessions := map_delete name (qs_sessions s)\<rparr>)"

abbreviation demo_run :: "demo_app \<Rightarrow> memoryStore \<Rightarrow> memoryStore \<Rightarrow> bool" where
  "demo_run a \<equiv> (demo_step a)\<^sup>*\<^sup>*"

text \<open>Every request is answered by a sequence of such steps.\<close>

lemma beginRegistration_run: "demo_run a s (fst (beginRegistration a s w r c))"
proof -
  have saved: "demo_run a s s'" if "saveRegistration s now old name state = (s', b)" for now old name state s' b
    using saves_registration [of a s now old name state] that by (simp add: r_into_rtranclp)
  show ?thesis
    unfolding beginRegistration_def by (auto split: sum.split prod.split bool.split intro: saved)
qed

lemma beginAuthentication_run: "demo_run a s (fst (beginAuthentication a s w r c))"
proof -
  have saved: "demo_run a s s'" if "saveAuthentication s now old name state = (s', b)" for now old name state s' b
    using saves_authentication [of a s now old name state] that by (simp add: r_into_rtranclp)
  show ?thesis
    unfolding beginAuthentication_def by (auto split: sum.split prod.split bool.split intro: saved)
qed

lemma finishRegistration_run: "demo_run a s (fst (finishRegistration a s w r c))"
proof -
  obtain s1 found where take: "takeRegistration s (srv_now c 0) (cookieID r qs_registrationCookie) = (s1, found)"
    by force
  then have first: "demo_run a s s1"
    using takes_registration [of a s "srv_now c 0" "cookieID r qs_registrationCookie"] by (simp add: r_into_rtranclp)
  have inserted: "demo_run a s s2" if "RP_FinishRegistration (demo_std a) (srv_env c) (Some (demo_rp a)) (Some (req_Context r)) request = Inr res"
      "qs_insert s1 (rres_Credential res) = (s2, b)" for request res s2 b
    using first inserts [OF that(1), of s1] that(2) by (simp add: rtranclp.rtrancl_into_rtrancl)
  show ?thesis
    unfolding finishRegistration_def take Let_def
    by (auto split: option.split sum.split prod.split bool.split intro: first inserted)
qed

lemma finishAuthentication_run: "demo_run a s (fst (finishAuthentication a s w r c))"
proof -
  obtain s1 found where take: "takeAuthentication s (srv_now c 0) (cookieID r qs_authenticationCookie) = (s1, found)"
    by force
  then have first: "demo_run a s s1"
    using takes_authentication [of a s "srv_now c 0" "cookieID r qs_authenticationCookie"] by (simp add: r_into_rtranclp)
  have updated: "demo_run a s s2" if "qs_update s1 u = (s2, b)" for u s2 b
    using first updates [of a s1 u] that by (simp add: rtranclp.rtrancl_into_rtrancl)
  have opened: "demo_run a s s3" if "qs_update s1 u = (s2, b)" "openSession s2 now old name later = (s3, b')"
    for u s2 b now old name later s3 b'
    using updated [OF that(1)] opens [of a s2 now old name later] that(2) by (simp add: rtranclp.rtrancl_into_rtrancl)
  show ?thesis
    unfolding finishAuthentication_def take Let_def
    by (auto split: sum.split prod.split bool.split intro: first updated opened)
qed

lemma demo_routes_run: "demo_run a s (fst (qs_routes mux static ParseMediaType a s w r c))"
proof -
  have "demo_run a s (fst (demo_dispatch p static a s w r c))" for p
    using beginRegistration_run finishRegistration_run beginAuthentication_run finishAuthentication_run
      prunes [of a s] logs_out [of a s]
    by (auto simp: demo_dispatch_def qs_me_def qs_logout_def Let_def intro: r_into_rtranclp [of "demo_step a"])
  then show ?thesis
    by (simp add: qs_routes_def split: prod.split) (metis fst_conv)
qed

section \<open>The invariant\<close>

definition demo_inv :: "memoryStore \<Rightarrow> bool" where
  "demo_inv s \<longleftrightarrow> wf_map (qs_registration s) \<and> wf_map (qs_authentication s) \<and> wf_map (qs_credentials s) \<and> wf_map (qs_sessions s) \<and>
    length (qs_registration s) \<le> 128 \<and> length (qs_authentication s) \<le> 128 \<and> length (qs_credentials s) \<le> 64 \<and>
    length (qs_sessions s) \<le> 128 \<and>
    (\<forall>key r. map_of (qs_credentials s) key = Some r \<longrightarrow> key = row_key r \<and> CredentialRecord_Validate r = None)"

lemma length_map_put: "length (map_put k v m) = (if map_of m k = None then Suc (length m) else length m)"
  by (induction m) (auto simp: map_put_def)

lemma length_map_delete: "length (map_delete k m) \<le> length m"
  by (simp add: map_delete_def)

lemma wf_map_delete: "wf_map m \<Longrightarrow> wf_map (map_delete k m)"
  by (simp add: map_delete_def wf_map_filter)

lemma prune_inv: "demo_inv s \<Longrightarrow> demo_inv (prune now s)"
  by (auto simp: demo_inv_def prune_def wf_map_filter intro: le_trans [OF length_filter_le])

lemma delete_inv:
  assumes "demo_inv s"
  shows "demo_inv (s\<lparr>qs_registration := map_delete k (qs_registration s)\<rparr>)"
    "demo_inv (s\<lparr>qs_authentication := map_delete k (qs_authentication s)\<rparr>)"
    "demo_inv (s\<lparr>qs_sessions := map_delete k (qs_sessions s)\<rparr>)"
  using assms le_trans [OF length_map_delete] by (auto simp: demo_inv_def wf_map_delete)

lemma put_inv:
  assumes "demo_inv s"
  shows "wf_map m \<Longrightarrow> length m < 128 \<Longrightarrow> demo_inv (s\<lparr>qs_registration := map_put k x m\<rparr>)"
    "wf_map n \<Longrightarrow> length n < 128 \<Longrightarrow> demo_inv (s\<lparr>qs_authentication := map_put k y n\<rparr>)"
    "wf_map p \<Longrightarrow> length p < 128 \<Longrightarrow> demo_inv (s\<lparr>qs_sessions := map_put k z p\<rparr>)"
  using assms by (auto simp: demo_inv_def length_map_put)

lemma pruned_wf:
  "demo_inv s \<Longrightarrow> wf_map (map_delete k (qs_registration (prune now s)))"
  "demo_inv s \<Longrightarrow> wf_map (map_delete k (qs_authentication (prune now s)))"
  "demo_inv s \<Longrightarrow> wf_map (map_delete k (qs_sessions (prune now s)))"
  by (simp_all add: demo_inv_def prune_def wf_map_delete wf_map_filter)

lemma RP_FinishRegistration_valid:
  "RP_FinishRegistration std env rp ctx request = Inr res \<Longrightarrow> CredentialRecord_Validate (rres_Credential res) = None"
  by (auto simp: RP_FinishRegistration_def split: option.splits if_splits intro: FinishRegistration_facts(1))

lemma demo_step_inv: "demo_step a s s' \<Longrightarrow> demo_inv s \<Longrightarrow> demo_inv s'"
proof (induction rule: demo_step.induct)
  case (inserts env ctx request res s)
  then show ?case
    using RP_FinishRegistration_valid [OF inserts(1)]
    by (auto simp: qs_insert_def Let_def demo_inv_def length_map_put CredentialRecord_Clone_id)
next
  case (updates s u)
  then show ?case
    by (auto simp: qs_update_def Let_def demo_inv_def length_map_put ApplyTo_Inr_iff updatedRecord_typed(2) split: option.split sum.split)
qed (auto simp: saveRegistration_def takeRegistration_def saveAuthentication_def takeAuthentication_def openSession_def Let_def
    pruned_wf intro!: prune_inv delete_inv put_inv)

inductive demo_reachable :: "demo_app \<Rightarrow> memoryStore \<Rightarrow> bool" for a where
  start: "demo_reachable a newMemoryStore"
| step: "demo_reachable a s \<Longrightarrow> demo_step a s s' \<Longrightarrow> demo_reachable a s'"

lemma demo_reachable_inv: "demo_reachable a s \<Longrightarrow> demo_inv s"
proof (induction rule: demo_reachable.induct)
  case start
  show ?case
    by (simp add: demo_inv_def newMemoryStore_def wf_map_def)
qed (rule demo_step_inv)

lemma demo_reachable_run: "demo_run a s s' \<Longrightarrow> demo_reachable a s \<Longrightarrow> demo_reachable a s'"
  by (induction rule: rtranclp_induct) (auto intro: demo_reachable.step)

section \<open>Logins\<close>

lemma demoVerified_Inr:
  assumes "demoVerified a s r c found = Inr res"
  obtains state response credential where "found = Some state"
    "ReadAuthenticationResponse (demo_std a) (demo_text a) (req_Body r) 0 = Inr response"
    "qs_lookup s (ar_RawID response) (ar_UserHandle response) = Some credential"
    "RP_FinishAuthentication (demo_std a) (srv_env c) (Some (demo_rp a)) (Some (req_Context r))
      \<lparr>aver_State = state, aver_Response = response, aver_Credential = credential, aver_UVInitializationAuthorized = False\<rparr> = Inr res"
    "\<not> ctr_CloneRisk (ares_Counter res)" "\<not> ares_UVInitializationPending res"
  using assms by (auto simp: demoVerified_def split: option.splits sum.splits if_splits)

lemma finishAuthentication_session:
  assumes "SetCookie qs_sessionCookie name n \<in> set (snd (finishAuthentication a s w r c))"
  obtains s1 found res s2 where
    "takeAuthentication s (srv_now c 0) (cookieID r qs_authenticationCookie) = (s1, found)"
    "demoVerified a s1 r c found = Inr res" "qs_update s1 (ares_Update res) = (s2, True)"
    "openSession s2 (srv_now c 1) (cookieID r qs_sessionCookie) name (srv_now c 2) = (fst (finishAuthentication a s w r c), True)"
proof -
  have "qs_sessionCookie \<noteq> qs_authenticationCookie"
    by (simp add: qs_sessionCookie_def qs_authenticationCookie_def)
  then show thesis
    using assms that unfolding finishAuthentication_def Let_def
    by (auto simp: fail_def demo_answer_def split: prod.splits sum.splits bool.splits)
qed

lemma map_of_filter_Some: "wf_map m \<Longrightarrow> map_of (filter (\<lambda>(_, x). P x) m) k = Some v \<Longrightarrow> map_of m k = Some v \<and> P v"
  by (auto simp: wf_map_def intro: map_of_is_SomeI dest!: map_of_SomeD)

lemma map_of_filter_None: "map_of m k = None \<Longrightarrow> map_of (filter (\<lambda>(_, x). P x) m) k = None"
  by (induction m) (auto split: if_splits)

lemma map_of_filtered: "wf_map m \<Longrightarrow> map_of (filter (\<lambda>(_, x). P x) m) k \<in> {None, map_of m k}"
  using map_of_filter_Some [of m P k] by (cases "map_of (filter (\<lambda>(_, x). P x) m) k") auto

interpretation demo_registrations: one_time_store "\<lambda>s. wf_map (qs_registration s)" "\<lambda>s. map_of (qs_registration s)" takeRegistration
proof unfold_locales
  show "wf_map (qs_registration (fst (takeRegistration s c name)))" if "wf_map (qs_registration s)" for s c name
    using that by (simp add: takeRegistration_def prune_def Let_def wf_map_delete wf_map_filter)
  show "map_of (qs_registration s) name = Some v \<and> map_of (qs_registration s') name = None"
    if "wf_map (qs_registration s)" "takeRegistration s c name = (s', Some v)" for s c name s' v
    using that map_of_filter_Some [OF that(1), of "\<lambda>state. Before c (rs_ExpiresAt state)" name v]
    by (auto simp: takeRegistration_def prune_def Let_def)
  show "map_of (qs_registration (fst (takeRegistration s c name))) k \<in> {None, map_of (qs_registration s) k}"
    if "wf_map (qs_registration s)" for s c name k
    using map_of_filtered [OF that, of "\<lambda>state. Before c (rs_ExpiresAt state)" k] by (simp add: takeRegistration_def prune_def Let_def)
qed

interpretation demo_authentications: one_time_store "\<lambda>s. wf_map (qs_authentication s)" "\<lambda>s. map_of (qs_authentication s)" takeAuthentication
proof unfold_locales
  show "wf_map (qs_authentication (fst (takeAuthentication s c name)))" if "wf_map (qs_authentication s)" for s c name
    using that by (simp add: takeAuthentication_def prune_def Let_def wf_map_delete wf_map_filter)
  show "map_of (qs_authentication s) name = Some v \<and> map_of (qs_authentication s') name = None"
    if "wf_map (qs_authentication s)" "takeAuthentication s c name = (s', Some v)" for s c name s' v
    using that map_of_filter_Some [OF that(1), of "\<lambda>state. Before c (as_ExpiresAt state)" name v]
    by (auto simp: takeAuthentication_def prune_def Let_def)
  show "map_of (qs_authentication (fst (takeAuthentication s c name))) k \<in> {None, map_of (qs_authentication s) k}"
    if "wf_map (qs_authentication s)" for s c name k
    using map_of_filtered [OF that, of "\<lambda>state. Before c (as_ExpiresAt state)" k] by (simp add: takeAuthentication_def prune_def Let_def)
qed

lemma takeAuthentication_found:
  assumes "wf_map (qs_authentication s)" "takeAuthentication s now name = (s', Some state)"
  shows "map_of (qs_authentication s) name = Some state" "Before now (as_ExpiresAt state)" "map_of (qs_authentication s') name = None"
    "qs_credentials s' = qs_credentials s"
  using demo_authentications.taken [OF assms] assms map_of_filter_Some [OF assms(1), of "\<lambda>state. Before now (as_ExpiresAt state)" name state]
  by (auto simp: takeAuthentication_def prune_def Let_def)

text \<open>Without a saved state there is no session.\<close>

lemma finishAuthentication_missing:
  assumes "wf_map (qs_authentication s)" "map_of (qs_authentication s) (cookieID r qs_authenticationCookie) = None"
  shows "SetCookie qs_sessionCookie name n \<notin> set (snd (finishAuthentication a s w r c))"
proof
  assume "SetCookie qs_sessionCookie name n \<in> set (snd (finishAuthentication a s w r c))"
  then obtain s1 found res where "takeAuthentication s (srv_now c 0) (cookieID r qs_authenticationCookie) = (s1, found)"
      "demoVerified a s1 r c found = Inr res"
    using finishAuthentication_session by metis
  then show False
    using demo_authentications.missing [OF assms, of "srv_now c 0"] by (auto simp: demoVerified_def)
qed

lemma openSession_opened:
  assumes "openSession s now old name later = (s', True)"
  shows "qs_credentials s' = qs_credentials s" "map_of (qs_sessions s') name = Some (later + 3600 * second)"
    "qs_authentication s' = filter (\<lambda>(_, state). Before now (as_ExpiresAt state)) (qs_authentication s)"
  using assms by (auto simp: openSession_def prune_def Let_def split: if_splits)

section \<open>A started login is kept\<close>

text \<open>A request of somebody else, answered while the state of a login is still valid.\<close>

definition undisturbed :: "string \<Rightarrow> AuthenticationState \<Rightarrow> http_request \<Rightarrow> server_call \<Rightarrow> bool" where
  "undisturbed name state r c \<longleftrightarrow> cookieID r qs_authenticationCookie \<noteq> name \<and> token (srv_rand c 0) \<noteq> Inr name \<and>
    (\<forall>i. Before (srv_now c i) (as_ExpiresAt state))"

definition waiting :: "memoryStore \<Rightarrow> string \<Rightarrow> AuthenticationState \<Rightarrow> bool" where
  "waiting s name state \<longleftrightarrow> map_of (qs_authentication s) name = Some state"

lemma map_of_filter_kept: "map_of m k = Some v \<Longrightarrow> P v \<Longrightarrow> map_of (filter (\<lambda>(_, x). P x) m) k = Some v"
  by (induction m) (auto split: if_splits)

lemma waiting_prune: "waiting s name state \<Longrightarrow> Before now (as_ExpiresAt state) \<Longrightarrow> waiting (prune now s) name state"
  by (simp add: waiting_def prune_def map_of_filter_kept)

lemma waiting_sections:
  assumes "waiting s name state"
  shows "Before now (as_ExpiresAt state) \<Longrightarrow> saveRegistration s now old n st = (s', b) \<Longrightarrow> waiting s' name state"
    "Before now (as_ExpiresAt state) \<Longrightarrow> takeRegistration s now n = (s', found) \<Longrightarrow> waiting s' name state"
    "Before now (as_ExpiresAt state) \<Longrightarrow> saveAuthentication s now old n st' = (s', b) \<Longrightarrow> old \<noteq> name \<Longrightarrow> n \<noteq> name \<Longrightarrow> waiting s' name state"
    "Before now (as_ExpiresAt state) \<Longrightarrow> takeAuthentication s now n = (s', found') \<Longrightarrow> n \<noteq> name \<Longrightarrow> waiting s' name state"
    "Before now (as_ExpiresAt state) \<Longrightarrow> openSession s now old n later = (s', b) \<Longrightarrow> waiting s' name state"
    "qs_insert s rec = (s', b) \<Longrightarrow> waiting s' name state" "qs_update s u = (s', b) \<Longrightarrow> waiting s' name state"
  using waiting_prune [OF assms, of now] assms
  by (auto simp: waiting_def saveRegistration_def takeRegistration_def saveAuthentication_def takeAuthentication_def openSession_def
      qs_insert_def qs_update_def Let_def split: if_splits option.splits sum.splits)

lemma waiting_routes:
  assumes "waiting s name state" "undisturbed name state r c"
  shows "waiting (fst (qs_routes mux static ParseMediaType a s w r c)) name state"
proof -
  have times: "Before (srv_now c i) (as_ExpiresAt state)" and other: "cookieID r qs_authenticationCookie \<noteq> name"
      "token (srv_rand c 0) \<noteq> Inr name" for i
    using assms(2) by (simp_all add: undisturbed_def)
  note here = assms(1) waiting_sections [OF assms(1)]
  have "waiting (fst (beginRegistration a s w r c)) name state"
    unfolding beginRegistration_def by (auto split: sum.split prod.split bool.split intro: here(1) here(2) [OF times])
  moreover have "waiting (fst (finishRegistration a s w r c)) name state"
  proof -
    obtain s1 found where take: "takeRegistration s (srv_now c 0) (cookieID r qs_registrationCookie) = (s1, found)"
      by force
    note first = here(3) [OF times take]
    show ?thesis
      unfolding finishRegistration_def take Let_def
      by (auto split: option.split sum.split prod.split bool.split intro: first waiting_sections(6) [OF first])
  qed
  moreover have "waiting (fst (beginAuthentication a s w r c)) name state"
    unfolding beginAuthentication_def using other
    by (auto split: sum.split prod.split bool.split intro: here(1) here(4) [OF times])
  moreover have "waiting (fst (finishAuthentication a s w r c)) name state"
  proof -
    obtain s1 found where take: "takeAuthentication s (srv_now c 0) (cookieID r qs_authenticationCookie) = (s1, found)"
      by force
    note first = here(5) [OF times take other(1)]
    have updated: "waiting s2 name state" if "qs_update s1 u = (s2, b)" for u s2 b
      using waiting_sections(7) [OF first that] .
    have opened: "waiting s3 name state" if "qs_update s1 u = (s2, b)" "openSession s2 (srv_now c 1) old n later = (s3, b')"
      for u s2 b old n later s3 b'
      using waiting_sections(5) [OF updated [OF that(1)] times that(2)] .
    show ?thesis
      unfolding finishAuthentication_def take Let_def
      by (auto split: sum.split prod.split bool.split intro: first updated opened)
  qed
  moreover have "waiting (fst (qs_me a s w r c)) name state" "waiting (fst (qs_logout a s w r c)) name state"
    using waiting_prune [OF assms(1) times] assms(1) by (auto simp: qs_me_def qs_logout_def Let_def waiting_def)
  ultimately have "waiting (fst (demo_dispatch p static a s w r c)) name state" for p
    using assms(1) by (simp add: demo_dispatch_def)
  then show ?thesis
    using assms(1) by (simp add: qs_routes_def split: prod.split) (metis fst_conv)
qed

definition demo_serve ::
  "(string list \<Rightarrow> http_request \<Rightarrow> string option) \<Rightarrow> (http_request \<Rightarrow> server_event list) \<Rightarrow> (string \<Rightarrow> string option) \<Rightarrow> demo_app
    \<Rightarrow> memoryStore \<Rightarrow> (ResponseWriter iface \<times> http_request \<times> server_call) list \<Rightarrow> memoryStore" where
  "demo_serve mux static ParseMediaType a = foldl (\<lambda>s (w, r, c). fst (qs_routes mux static ParseMediaType a s w r c))"

lemma waiting_serve:
  "waiting s name state \<Longrightarrow> list_all (\<lambda>(_, r, c). undisturbed name state r c) requests \<Longrightarrow>
    waiting (demo_serve mux static ParseMediaType a s requests) name state"
  by (induction requests arbitrary: s) (auto simp: demo_serve_def intro: waiting_routes)

lemma waiting_taken:
  "waiting s name state \<Longrightarrow> Before now (as_ExpiresAt state) \<Longrightarrow> snd (takeAuthentication s now name) = Some state"
  using waiting_prune [of s name state now] by (simp add: takeAuthentication_def waiting_def Let_def)

lemma beginAuthentication_waiting:
  assumes "SetCookie qs_authenticationCookie name n \<in> set (snd (beginAuthentication a s w r c))"
  obtains start where "RP_StartAuthentication (demo_std a) (srv_env c) (Some (demo_rp a)) (Some (req_Context r))
      \<lparr>areq_AllowCredentials = [], areq_ExpectedUserHandle = zero_byteValue, areq_Extensions = [], areq_Hints = []\<rparr> = Inr start"
    "waiting (fst (beginAuthentication a s w r c)) name (asr_State start)"
  using assms that unfolding beginAuthentication_def
  by (auto simp: fail_def saveAuthentication_def waiting_def Let_def split: sum.splits prod.splits bool.splits if_splits)

end
