(* ===== verification/Json_Text.thy ===== *)
theory Json_Text
  imports Go_Json
begin

text \<open>
  A text layer for the JSON boundaries: the compact printing of \<^verbatim>\<open>encoding/json/v2\<close> and a parser of the JSON
  grammar that refuses duplicate member names and invalid UTF-8, as that package does. Floats are written with
  their exact decimal value, times as nanoseconds. The layer satisfies the contract \<open>json_text\<close>.
\<close>

section \<open>Characters\<close>

definition is_control :: "char \<Rightarrow> bool" where
  "is_control c \<longleftrightarrow> \<not> digit5 c \<and> \<not> digit6 c \<and> \<not> digit7 c"

definition quote :: char where "quote = CHR 0x22"
definition backslash :: char where "backslash = CHR 0x5C"

definition short_escapes :: "(char \<times> char) list" where
  "short_escapes = [(CHR 0x08, CHR ''b''), (CHR 0x0C, CHR ''f''), (CHR 0x0A, CHR ''n''), (CHR 0x0D, CHR ''r''),
    (CHR 0x09, CHR ''t''), (quote, quote), (backslash, backslash)]"

definition hex_digits :: string where "hex_digits = ''0123456789abcdef''"

definition escape_char :: "char \<Rightarrow> string" where
  "escape_char c =
    (case map_of short_escapes c of Some e \<Rightarrow> [backslash, e]
     | None \<Rightarrow> if is_control c
         then [backslash] @ ''u00'' @ [hex_digits ! (of_char c div 16), hex_digits ! (of_char c mod 16)] else [c])"

definition utf8_text :: "string \<Rightarrow> bool" where
  "utf8_text s \<longleftrightarrow> list_all (\<lambda>c. \<not> digit7 c) s \<or> utf8_valid (map of_char s)"

section \<open>Printing\<close>

definition print_string :: "string \<Rightarrow> string" where
  "print_string s = quote # concat (map escape_char s) @ [quote]"

fun print_json :: "json \<Rightarrow> string"
  and print_items :: "json list \<Rightarrow> string"
  and print_members :: "(string \<times> json) list \<Rightarrow> string" where
  "print_json JNull = ''null''"
| "print_json (JBool b) = (if b then ''true'' else ''false'')"
| "print_json (JNumber s) = s"
| "print_json (JString s) = print_string s"
| "print_json (JArray xs) = CHR ''['' # print_items xs"
| "print_json (JObject ms) = CHR ''{'' # print_members ms"
| "print_items [] = '']''"
| "print_items (x # xs) = print_json x @ (if xs = [] then '']'' else CHR '','' # print_items xs)"
| "print_members [] = ''}''"
| "print_members ((name, x) # ms) =
    print_string name @ CHR '':'' # print_json x @ (if ms = [] then ''}'' else CHR '','' # print_members ms)"

text \<open>The characters and the grammar of numbers.\<close>

definition num_char :: "char \<Rightarrow> bool" where
  "num_char c \<longleftrightarrow> c \<in> set ''0123456789+-.eE''"

definition json_exponent :: "string \<Rightarrow> bool" where
  "json_exponent s = (case s of [] \<Rightarrow> True
    | c # e \<Rightarrow> c \<in> set ''eE'' \<and>
       (let ds = (case e of [] \<Rightarrow> [] | d # ds \<Rightarrow> if d \<in> set ''+-'' then ds else e) in ds \<noteq> [] \<and> list_all is_digit ds))"

definition json_fraction :: "string \<Rightarrow> bool" where
  "json_fraction s = (case s of [] \<Rightarrow> True
    | c # f \<Rightarrow> if c = CHR ''.'' then takeWhile is_digit f \<noteq> [] \<and> json_exponent (dropWhile is_digit f) else json_exponent s)"

definition json_number :: "string \<Rightarrow> bool" where
  "json_number s \<longleftrightarrow> s \<noteq> [] \<and> list_all num_char s \<and>
    (let t = (if hd s = CHR ''-'' then tl s else s); i = takeWhile is_digit t in
     i \<noteq> [] \<and> (length i = 1 \<or> hd i \<noteq> CHR ''0'') \<and> json_fraction (dropWhile is_digit t))"

fun printable :: "json \<Rightarrow> bool" where
  "printable JNull = True"
| "printable (JBool _) = True"
| "printable (JNumber s) = json_number s"
| "printable (JString s) = utf8_text s"
| "printable (JArray xs) = list_all printable xs"
| "printable (JObject ms) = (distinct (map fst ms) \<and> list_all (\<lambda>(name, x). utf8_text name \<and> printable x) ms)"

definition json_Marshal :: "json \<Rightarrow> bytes result" where
  "json_Marshal j = (if printable j then Inr (bytes_of_string (print_json j)) else Inl jsonError)"

text \<open>With \<^verbatim>\<open>EscapeForHTML\<close>, and the newline after a value that \<^verbatim>\<open>jsontext.Encoder\<close> writes: the escaped
  characters only occur in strings.\<close>

definition html_char :: "char \<Rightarrow> string" where
  "html_char c = (if c = CHR ''<'' then [backslash] @ ''u003c'' else if c = CHR ''>'' then [backslash] @ ''u003e''
    else if c = CHR ''&'' then [backslash] @ ''u0026'' else [c])"

definition json_MarshalHTML :: "json \<Rightarrow> bytes result" where
  "json_MarshalHTML j =
    (if printable j then Inr (bytes_of_string (concat (map html_char (print_json j)) @ [CHR 0x0A])) else Inl jsonError)"

section \<open>Parsing\<close>

definition is_space :: "char \<Rightarrow> bool" where
  "is_space c \<longleftrightarrow> c \<in> {CHR 0x20, CHR 0x09, CHR 0x0A, CHR 0x0D}"

definition skip_space :: "string \<Rightarrow> string" where
  "skip_space s = dropWhile is_space s"

text \<open>Four hexadecimal digits, either case.\<close>

definition hex_value :: "char \<Rightarrow> nat option" where
  "hex_value c = map_of (zip (hex_digits @ ''ABCDEF'') ([0..<16] @ [10..<16])) c"

fun hex4 :: "string \<Rightarrow> (nat \<times> string) option" where
  "hex4 (a # b # c # d # rest) =
    (case (hex_value a, hex_value b, hex_value c, hex_value d) of
       (Some a, Some b, Some c, Some d) \<Rightarrow> Some (((a * 16 + b) * 16 + c) * 16 + d, rest)
     | _ \<Rightarrow> None)"
| "hex4 _ = None"

text \<open>UTF-8 of a code point that is not a surrogate.\<close>

definition utf8_encode :: "nat \<Rightarrow> string" where
  "utf8_encode n =
    (if n < 0x80 then [char_of n]
     else if n < 0x800 then [char_of (0xC0 + n div 0x40), char_of (0x80 + n mod 0x40)]
     else if n < 0x10000 then [char_of (0xE0 + n div 0x1000), char_of (0x80 + n div 0x40 mod 0x40), char_of (0x80 + n mod 0x40)]
     else [char_of (0xF0 + n div 0x40000), char_of (0x80 + n div 0x1000 mod 0x40), char_of (0x80 + n div 0x40 mod 0x40),
       char_of (0x80 + n mod 0x40)])"

text \<open>After \<^verbatim>\<open>\u\<close>: one code unit or a surrogate pair; a lone surrogate is refused.\<close>

definition unicode_escape :: "string \<Rightarrow> (string \<times> string) option" where
  "unicode_escape s =
    (case hex4 s of None \<Rightarrow> None
     | Some (hi, rest) \<Rightarrow>
       if hi < 0xD800 \<or> 0xE000 \<le> hi then Some (utf8_encode hi, rest)
       else if 0xDC00 \<le> hi \<or> take 2 rest \<noteq> [backslash, CHR ''u''] then None
       else (case hex4 (drop 2 rest) of None \<Rightarrow> None
         | Some (lo, rest') \<Rightarrow> if lo < 0xDC00 \<or> 0xE000 \<le> lo then None
             else Some (utf8_encode (0x10000 + (hi - 0xD800) * 0x400 + (lo - 0xDC00)), rest')))"

definition plain_escapes :: "(char \<times> char) list" where
  "plain_escapes = (CHR ''/'', CHR ''/'') # map (\<lambda>(c, e). (e, c)) short_escapes"

lemma hex4_length: "hex4 s = Some (n, rest) \<Longrightarrow> length rest < length s"
  by (induction s rule: hex4.induct) (auto split: option.splits)

lemma unicode_escape_length: "unicode_escape s = Some (t, rest) \<Longrightarrow> length rest < length s"
  by (auto simp: unicode_escape_def split: option.splits if_splits dest!: hex4_length)

function scan_string :: "string \<Rightarrow> (string \<times> string) option" where
  "scan_string s =
    (case s of [] \<Rightarrow> None
     | c # cs \<Rightarrow>
       if c = quote then Some ([], cs)
       else if is_control c then None
       else if c \<noteq> backslash then map_option (\<lambda>(t, r). (c # t, r)) (scan_string cs)
       else (case cs of [] \<Rightarrow> None
         | e # es \<Rightarrow>
           if e = CHR ''u'' then
             (case unicode_escape es of None \<Rightarrow> None
              | Some (u, rest) \<Rightarrow> map_option (\<lambda>(t, r). (u @ t, r)) (scan_string rest))
           else (case map_of plain_escapes e of None \<Rightarrow> None
             | Some d \<Rightarrow> map_option (\<lambda>(t, r). (d # t, r)) (scan_string es))))"
  by pat_completeness auto

termination
  by (relation "measure length") (auto dest!: unicode_escape_length)

declare scan_string.simps [simp del]

definition parse_string :: "string \<Rightarrow> (string \<times> string) option" where
  "parse_string s = (case scan_string s of None \<Rightarrow> None | Some (t, rest) \<Rightarrow> if utf8_text t then Some (t, rest) else None)"

definition parse_name :: "string \<Rightarrow> (string \<times> string) option" where
  "parse_name s = (case skip_space s of [] \<Rightarrow> None
    | c # cs \<Rightarrow> if c \<noteq> quote then None else
       (case parse_string cs of None \<Rightarrow> None
        | Some (name, rest) \<Rightarrow> (case skip_space rest of [] \<Rightarrow> None
          | d # r \<Rightarrow> if d = CHR '':'' then Some (name, r) else None)))"

definition parse_number :: "string \<Rightarrow> (json \<times> string) option" where
  "parse_number s = (let t = takeWhile num_char s in if json_number t then Some (JNumber t, dropWhile num_char s) else None)"

text \<open>The fuel is the depth of calls; the length of the text suffices.\<close>

fun parse_value :: "nat \<Rightarrow> string \<Rightarrow> (json \<times> string) option"
  and parse_items :: "nat \<Rightarrow> string \<Rightarrow> (json list \<times> string) option"
  and parse_members :: "nat \<Rightarrow> string \<Rightarrow> ((string \<times> json) list \<times> string) option" where
  "parse_value 0 s = None"
| "parse_value (Suc n) s =
    (case skip_space s of [] \<Rightarrow> None
     | c # cs \<Rightarrow>
       if c = quote then map_option (\<lambda>(t, r). (JString t, r)) (parse_string cs)
       else if c = CHR ''['' then
         (if take 1 (skip_space cs) = '']'' then Some (JArray [], drop 1 (skip_space cs))
          else map_option (\<lambda>(xs, r). (JArray xs, r)) (parse_items n cs))
       else if c = CHR ''{'' then
         (if take 1 (skip_space cs) = ''}'' then Some (JObject [], drop 1 (skip_space cs))
          else (case parse_members n cs of None \<Rightarrow> None
            | Some (ms, r) \<Rightarrow> if distinct (map fst ms) then Some (JObject ms, r) else None))
       else if take 4 (c # cs) = ''null'' then Some (JNull, drop 4 (c # cs))
       else if take 4 (c # cs) = ''true'' then Some (JBool True, drop 4 (c # cs))
       else if take 5 (c # cs) = ''false'' then Some (JBool False, drop 5 (c # cs))
       else parse_number (c # cs))"
| "parse_items 0 s = None"
| "parse_items (Suc n) s =
    (case parse_value n s of None \<Rightarrow> None
     | Some (x, r) \<Rightarrow> (case skip_space r of [] \<Rightarrow> None
       | c # cs \<Rightarrow> if c = CHR '']'' then Some ([x], cs)
           else if c = CHR '','' then map_option (\<lambda>(xs, r). (x # xs, r)) (parse_items n cs) else None))"
| "parse_members 0 s = None"
| "parse_members (Suc n) s =
    (case parse_name s of None \<Rightarrow> None
     | Some (name, t) \<Rightarrow> (case parse_value n t of None \<Rightarrow> None
       | Some (x, r) \<Rightarrow> (case skip_space r of [] \<Rightarrow> None
         | c # cs \<Rightarrow> if c = CHR ''}'' then Some ([(name, x)], cs)
             else if c = CHR '','' then map_option (\<lambda>(ms, r). ((name, x) # ms, r)) (parse_members n cs) else None)))"

definition json_Unmarshal :: "bytes \<Rightarrow> json option" where
  "json_Unmarshal data =
    (case parse_value (Suc (length data)) (string_of_bytes data) of None \<Rightarrow> None
     | Some (j, rest) \<Rightarrow> if skip_space rest = [] then Some j else None)"

section \<open>Strings are read back\<close>

lemma hex_value_digit: "k < 16 \<Longrightarrow> hex_value (hex_digits ! k) = Some k"
proof -
  have "\<forall>k\<in>set [0..<16]. hex_value (hex_digits ! k) = Some k"
    by code_simp
  then show "k < 16 \<Longrightarrow> hex_value (hex_digits ! k) = Some k"
    by simp
qed

lemma hex_zero: "hex_value (CHR ''0'') = Some 0"
  by code_simp

lemma control_less: "is_control c \<Longrightarrow> (of_char c :: nat) < 32"
  by (cases c) (simp add: is_control_def of_char_def horner_sum_simps split: if_splits)

lemma short_escapes_read: "map_of short_escapes c = Some e \<Longrightarrow> e \<noteq> CHR ''u'' \<and> map_of plain_escapes e = Some c"
  by (auto simp: short_escapes_def plain_escapes_def quote_def backslash_def split: if_splits)

lemma special_chars: "\<not> is_control quote" "\<not> is_control backslash" "quote \<noteq> backslash"
    "map_of short_escapes quote = Some quote" "map_of short_escapes backslash = Some backslash"
  by code_simp+

lemma unicode_escape_control:
  "is_control c \<Longrightarrow> unicode_escape (''00'' @ [hex_digits ! (of_char c div 16), hex_digits ! (of_char c mod 16)] @ rest) = Some ([c], rest)"
  using control_less [of c] hex_value_digit [of "of_char c div 16"] hex_value_digit [of "of_char c mod 16"]
  by (simp add: unicode_escape_def hex_zero utf8_encode_def)

lemma scan_escape: "scan_string (escape_char c @ rest) = map_option (\<lambda>(t, r). (c # t, r)) (scan_string rest)"
proof (cases "map_of short_escapes c")
  case (Some e)
  then show ?thesis
    using short_escapes_read [OF Some] special_chars
    by (subst scan_string.simps) (simp add: escape_char_def)
next
  case None
  then have c: "c \<noteq> quote" "c \<noteq> backslash"
    using special_chars by auto
  show ?thesis
  proof (cases "is_control c")
    case True
    then show ?thesis
      using None special_chars unicode_escape_control [OF True, of rest]
      by (subst scan_string.simps) (simp add: escape_char_def)
  next
    case False
    then show ?thesis
      using None c by (subst scan_string.simps) (simp add: escape_char_def)
  qed
qed

lemma scan_printed: "scan_string (concat (map escape_char s) @ quote # rest) = Some (s, rest)"
proof (induction s)
  case Nil
  then show ?case
    by (subst scan_string.simps) simp
next
  case (Cons c s)
  then show ?case
    using scan_escape [of c "concat (map escape_char s) @ quote # rest"] by simp
qed

lemma skip_space_simps:
  "\<not> is_space c \<Longrightarrow> skip_space (c # s) = c # s" "skip_space [] = []"
  by (simp_all add: skip_space_def)

lemma not_space: "\<not> is_space quote" "\<not> is_space (CHR '':'')" "\<not> is_space (CHR '','')" "\<not> is_space (CHR '']'')"
    "\<not> is_space (CHR ''}'')" "\<not> is_space (CHR ''['')" "\<not> is_space (CHR ''{'')" "num_char c \<Longrightarrow> \<not> is_space c"
  by (auto simp: is_space_def quote_def num_char_def)

lemma parse_string_printed: "utf8_text s \<Longrightarrow> parse_string (concat (map escape_char s) @ quote # rest) = Some (s, rest)"
  by (simp add: parse_string_def scan_printed)

lemma parse_name_printed: "utf8_text s \<Longrightarrow> parse_name (print_string s @ CHR '':'' # rest) = Some (s, rest)"
  by (simp add: parse_name_def print_string_def skip_space_simps not_space parse_string_printed)

section \<open>Values are read back\<close>

text \<open>A number ends where no character of a number follows.\<close>

definition boundary :: "string \<Rightarrow> bool" where
  "boundary rest \<longleftrightarrow> rest = [] \<or> \<not> num_char (hd rest)"

lemma boundary_simps [simp]: "boundary []" "boundary (CHR '','' # r)" "boundary (CHR '']'' # r)" "boundary (CHR ''}'' # r)"
  by (simp_all add: boundary_def num_char_def)

lemma parse_number_printed: "json_number s \<Longrightarrow> boundary rest \<Longrightarrow> parse_number (s @ rest) = Some (JNumber s, rest)"
proof -
  assume s: "json_number s" and rest: "boundary rest"
  have "takeWhile num_char (s @ rest) = s" "dropWhile num_char (s @ rest) = rest"
    using s rest by (cases rest; auto simp: json_number_def list_all_iff boundary_def)+
  then show "parse_number (s @ rest) = Some (JNumber s, rest)"
    using s by (simp add: parse_number_def)
qed

lemma parse_value_number:
  assumes "json_number s" "boundary rest"
  shows "parse_value (Suc n) (s @ rest) = Some (JNumber s, rest)"
proof -
  obtain c cs where s: "s = c # cs" "num_char c"
    using assms(1) by (cases s) (auto simp: json_number_def)
  then have "c \<noteq> quote" "c \<noteq> CHR ''['' \<and> c \<noteq> CHR ''{'' \<and> c \<noteq> CHR ''n'' \<and> c \<noteq> CHR ''t'' \<and> c \<noteq> CHR ''f''"
    by (auto simp: num_char_def quote_def)
  then show ?thesis
    using parse_number_printed [OF assms] s not_space(8) [OF s(2)] by (simp add: skip_space_simps)
qed

lemma printed_starts:
  "printable j \<Longrightarrow> print_json j \<noteq> [] \<and> \<not> is_space (hd (print_json j)) \<and> hd (print_json j) \<notin> set '']},:''"
proof (cases j)
  case (JNumber s)
  then show "printable j \<Longrightarrow> ?thesis"
    by (cases s) (auto simp: json_number_def num_char_def is_space_def)
qed (auto simp: is_space_def print_string_def quote_def)

lemma members_start: "ms \<noteq> [] \<Longrightarrow> \<exists>t. print_members ms = quote # t"
  by (cases ms) (auto simp: print_string_def)

lemma parse_printed:
  "printable j \<Longrightarrow> boundary rest \<Longrightarrow> length (print_json j) \<le> n \<Longrightarrow> parse_value n (print_json j @ rest) = Some (j, rest)"
  "list_all printable xs \<Longrightarrow> xs \<noteq> [] \<Longrightarrow> length (print_items xs) \<le> n \<Longrightarrow> parse_items n (print_items xs @ rest) = Some (xs, rest)"
  "list_all (\<lambda>(name, x). utf8_text name \<and> printable x) ms \<Longrightarrow> ms \<noteq> [] \<Longrightarrow> length (print_members ms) \<le> n \<Longrightarrow>
    parse_members n (print_members ms @ rest) = Some (ms, rest)"
proof (induction j and xs and ms arbitrary: n rest and n rest and n rest rule: print_json_print_items_print_members.induct)
  case 1
  then show ?case
    by (cases n) (simp_all add: skip_space_simps is_space_def quote_def)
next
  case (2 b)
  then show ?case
    by (cases n; cases b) (simp_all add: skip_space_simps is_space_def quote_def)
next
  case (3 s)
  then show ?case
    using parse_value_number [of s rest] by (cases n) (auto simp: json_number_def)
next
  case (4 s)
  then show ?case
    by (cases n) (simp_all add: print_string_def skip_space_simps not_space parse_string_printed)
next
  case (5 xs)
  then obtain m where n: "n = Suc m" "length (print_items xs) \<le> m"
    by (cases n) auto
  show ?case
  proof (cases xs)
    case Nil
    then show ?thesis
      by (simp add: n skip_space_simps not_space quote_def)
  next
    case (Cons x ys)
    then have "skip_space (print_items xs @ rest) = print_items xs @ rest" "take 1 (print_items xs @ rest) \<noteq> '']''"
      using 5(2) printed_starts [of x] by (auto simp: skip_space_def neq_Nil_conv)
    moreover have "parse_items m (print_items xs @ rest) = Some (xs, rest)"
      using 5 n Cons by simp
    ultimately show ?thesis
      unfolding n by (simp add: skip_space_simps not_space quote_def)
  qed
next
  case (6 ms)
  then obtain m where n: "n = Suc m" "length (print_members ms) \<le> m"
    by (cases n) auto
  show ?case
  proof (cases ms)
    case Nil
    then show ?thesis
      by (simp add: n skip_space_simps not_space quote_def)
  next
    case (Cons x ys)
    then have "skip_space (print_members ms @ rest) = print_members ms @ rest" "take 1 (print_members ms @ rest) \<noteq> ''}''"
      using members_start [of ms] by (auto simp: skip_space_simps not_space) (simp add: quote_def)
    moreover have "parse_members m (print_members ms @ rest) = Some (ms, rest)" "distinct (map fst ms)"
      using 6 n Cons by simp_all
    ultimately show ?thesis
      unfolding n by (simp add: skip_space_simps not_space quote_def)
  qed
next
  case (8 x xs)
  then obtain m where n: "n = Suc m" "length (print_json x) \<le> m"
    by (cases n) (auto split: if_splits)
  show ?case
    using 8 n printed_starts [of x] by (cases "xs = []") (auto simp: skip_space_simps not_space neq_Nil_conv)
next
  case (10 name x ms)
  then obtain m where n: "n = Suc m" "length (print_json x) \<le> m"
    by (cases n) (auto split: if_splits)
  show ?case
    using 10 n printed_starts [of x]
    by (cases "ms = []") (auto simp: skip_space_simps not_space parse_name_printed)
qed simp_all

text \<open>The text is at least as long as the strings it spells out.\<close>

lemma escape_length: "length s \<le> length (concat (map escape_char s))"
proof (induction s)
  case (Cons c s)
  then show ?case
    by (auto simp: escape_char_def split: option.split)
qed simp

lemma print_weight:
  "printable j \<Longrightarrow> json_weight j \<le> int (length (print_json j))"
  "list_all printable xs \<Longrightarrow> sum_list (map json_weight xs) + 1 \<le> int (length (print_items xs))"
  "list_all (\<lambda>(name, x). utf8_text name \<and> printable x) ms \<Longrightarrow>
    sum_list (map (\<lambda>(name, x). int (length name) + json_weight x) ms) + 1 \<le> int (length (print_members ms))"
proof (induction j and xs and ms rule: print_json_print_items_print_members.induct)
  case (3 s)
  then show ?case
    by (cases s) (auto simp: json_number_def)
next
  case (4 s)
  then show ?case
    using escape_length [of s] by (simp add: print_string_def)
next
  case (10 name x ms)
  then show ?case
    using escape_length [of name] by (auto simp: print_string_def split: if_splits)
qed auto

lemma json_Unmarshal_Marshal: "json_Marshal j = Inr data \<Longrightarrow> json_Unmarshal data = Some j"
  using parse_printed(1) [of j "[]" "Suc (length data)"]
  by (auto simp: json_Marshal_def json_Unmarshal_def skip_space_simps simp del: parse_value.simps split: if_splits)

section \<open>Numbers and times\<close>

text \<open>The value of a decimal number: mantissa digits around a point, and an exponent.\<close>

definition parse_decimal :: "string \<Rightarrow> rat option" where
  "parse_decimal s =
    (let m = takeWhile (\<lambda>c. c \<notin> set ''eE'') s; e = drop 1 (dropWhile (\<lambda>c. c \<notin> set ''eE'') s);
         i = takeWhile (\<lambda>c. c \<noteq> CHR ''.'') m; f = drop 1 (dropWhile (\<lambda>c. c \<noteq> CHR ''.'') m) in
     case (parse_int (i @ f), if e = [] then Some 0 else parse_int (if hd e = CHR ''+'' then tl e else e)) of
       (Some n, Some k) \<Rightarrow> Some (of_int n * 10 powi (k - int (length f)))
     | _ \<Rightarrow> None)"

text \<open>Every finite float is a multiple of the smallest positive one, so 1074 decimals are exact.\<close>

definition decimals :: nat where "decimals = 1074"

definition format_decimal :: "rat \<Rightarrow> string" where
  "format_decimal r = itoa \<lfloor>r * 10 ^ decimals\<rfloor> @ ''e'' @ itoa (- int decimals)"

definition text_layer :: go_text where
  "text_layer = \<lparr>js_Marshal = json_Marshal, js_FormatFloat = format_decimal, js_ParseFloat = parse_decimal,
    js_MarshalHTML = json_MarshalHTML, js_MarshalOther = (\<lambda>_. Inl jsonError), time_Format = itoa, time_Parse = parse_int\<rparr>"

lemma itoa_chars: "c \<in> set (itoa n) \<Longrightarrow> c = CHR ''-'' \<or> is_digit c"
  using nat_digits_value [of "nat n"] nat_digits_value [of "nat (- n)"]
  by (auto simp: itoa_def list_all_iff split: if_splits)

lemma float64_scaled:
  assumes "float64 r"
  shows "of_int \<lfloor>r * 10 ^ decimals\<rfloor> = r * 10 ^ decimals"
proof -
  obtain m e where r: "r = of_int m * 2 powi e" and e: "- int decimals \<le> e"
    using assms by (auto simp: float64_def decimals_def)
  have "(2 :: rat) powi e * 2 ^ decimals = 2 powi (e + int decimals)"
    by (simp add: power_int_add)
  also have "\<dots> = 2 ^ nat (e + int decimals)"
    using e by (simp add: power_int_def)
  finally have two: "(2 :: rat) powi e * 2 ^ decimals = 2 ^ nat (e + int decimals)" .
  have "(10 :: rat) ^ decimals = 2 ^ decimals * 5 ^ decimals"
    by (simp add: power_mult_distrib [symmetric])
  then have "r * 10 ^ decimals = of_int (m * 2 ^ nat (e + int decimals) * 5 ^ decimals)"
    using two by (simp add: r mult.assoc [symmetric])
  then show ?thesis
    by (metis floor_of_int)
qed

lemma takeWhile_all: "\<forall>c\<in>set s. P c \<Longrightarrow> takeWhile P (s @ t) = s @ takeWhile P t" "\<forall>c\<in>set s. P c \<Longrightarrow> dropWhile P (s @ t) = dropWhile P t"
  by (simp_all add: takeWhile_append2 dropWhile_append2)

lemma itoa_no_mark: "c \<in> set (itoa n) \<Longrightarrow> c \<noteq> CHR ''e'' \<and> c \<noteq> CHR ''E'' \<and> c \<noteq> CHR ''.'' \<and> c \<noteq> CHR ''+''"
  using itoa_chars [of c n] by (auto simp: is_digit_def less_eq_char_def)

lemma parse_format_decimal:
  assumes "float64 r"
  shows "parse_decimal (format_decimal r) = Some r"
proof -
  let ?m = "itoa \<lfloor>r * 10 ^ decimals\<rfloor>" and ?e = "itoa (- int decimals)"
  have parts: "takeWhile (\<lambda>c. c \<notin> set ''eE'') (format_decimal r) = ?m"
      "drop 1 (dropWhile (\<lambda>c. c \<notin> set ''eE'') (format_decimal r)) = ?e"
      "takeWhile (\<lambda>c. c \<noteq> CHR ''.'') ?m = ?m" "dropWhile (\<lambda>c. c \<noteq> CHR ''.'') ?m = []"
    using itoa_no_mark by (force simp: format_decimal_def takeWhile_all)+
  have "?e \<noteq> []" "hd ?e \<noteq> CHR ''+''"
    using itoa_no_mark [of "hd ?e" "- int decimals"] parse_int_itoa [of "- int decimals"] by (cases ?e; force)+
  then show ?thesis
    using float64_scaled [OF assms] unfolding parse_decimal_def parts Let_def
    by (simp add: power_int_minus field_simps)
qed

section \<open>The contract of the text layer\<close>

interpretation text_layer: json_text "std\<lparr>std_json := json_Unmarshal\<rparr>" text_layer for std :: go_std
proof unfold_locales
  show "std_json (std\<lparr>std_json := json_Unmarshal\<rparr>) data = Some j" if "js_Marshal text_layer j = Inr data" for j data
    using that by (simp add: text_layer_def json_Unmarshal_Marshal)
  show "json_weight j \<le> int (length data)" if "js_Marshal text_layer j = Inr data" for j data
    using that print_weight(1) by (auto simp: text_layer_def json_Marshal_def split: if_splits)
qed (simp_all add: text_layer_def parse_format_decimal)

end
