(* ===== verification/Sample_Ceremony.thy ===== *)
theory Sample_Ceremony
  imports Relying_Party Attestation_Compound
begin

text \<open>
  One registration and one authentication at concrete inputs, run through the definitions: a
  relying party \<^verbatim>\<open>example.org\<close> that registers a credential with the \<^verbatim>\<open>none\<close> attestation format
  and then verifies an assertion of it. The statements about the ceremonies are applied to
  these runs. The services of \<open>go_std\<close> are instantiated by small concrete functions.
\<close>

definition sample_challenge :: Challenge where
  "sample_challenge = \<lparr>bv_value = Some (replicate 32 3)\<rparr>"

definition sample_json :: "ClientDataType \<Rightarrow> json" where
  "sample_json type = JObject [(''type'', JString type), (''challenge'', JString (b64_encode (replicate 32 3))),
     (''origin'', JString ''https://example.org''), (''crossOrigin'', JBool False)]"

definition sample_std :: go_std where
  "sample_std = \<lparr>
     std_Sum256 = (\<lambda>bs. take 32 (bs @ replicate 32 0)),
     std_json = (\<lambda>bs. if bs = [1] then Some (sample_json ClientDataTypeCreate)
       else if bs = [2] then Some (sample_json ClientDataTypeGet) else None),
     std_url_Parse = (\<lambda>s. if s = ''https://example.org''
       then Some \<lparr>url_Scheme = ''https'', url_Opaque = [], url_HasUser = False, url_Host = ''example.org'',
         url_Path = [], url_RawQuery = [], url_Fragment = [], url_String = s\<rparr> else None),
     std_ParseIP = (\<lambda>_. None), std_unicode_ToLower = (\<lambda>s. s), std_unicode_TrimSpace = (\<lambda>s. s)\<rparr>"

definition sample_env :: go_env where
  "sample_env = \<lparr>env_Now = 1000, env_Reader = (\<lambda>_. Inr (\<lambda>_. 3))\<rparr>"

definition sample_key :: CredentialPublicKey where
  "sample_key = \<lparr>cpk_Algorithm = AlgorithmES256, cpk_raw = [5],
     cpk_material = \<lparr>mat_EC2 = None, mat_RSA = None, mat_OKP = None\<rparr>\<rparr>"

definition sample_hash :: bytes where
  "sample_hash = take 32 (bytes_of_string ''example.org'' @ replicate 32 0)"

text \<open>User present and verified, with and without attested credential data.\<close>

definition sample_created :: AuthenticatorData where
  "sample_created = \<lparr>bv_value = Some (sample_hash @ [0x45, 0, 0, 0, 7] @ replicate 16 0 @ [0, 1, 42, 5])\<rparr>"

definition sample_asserted :: AuthenticatorData where
  "sample_asserted = \<lparr>bv_value = Some (sample_hash @ [0x05, 0, 0, 0, 8])\<rparr>"

definition sample_verify :: "ctx \<Rightarrow> SignatureInput \<Rightarrow> error option" where
  "sample_verify ctx input =
    (if si_RawCredentialPublicKey input = [5] \<and> bv_bytes (si_Signature input) = [9]
       \<and> si_Signed input = bv_bytes sample_asserted @ take 32 ([2] @ replicate 32 0)
     then None else Some (External ''signature''))"

definition sample_config :: Config where
  "sample_config = \<lparr>
     cfg_RP = \<lparr>rp_ID = ''example.org'', rp_Name = ''Example''\<rparr>,
     cfg_OriginPolicy = \<lparr>op_AllowedOrigins = [''https://example.org''], op_AllowedTopOrigins = [],
       op_AllowCrossOriginWithoutTopOrigin = False, op_AllowRelatedOrigins = False\<rparr>,
     cfg_PubKeyCredParams = [],
     cfg_AttestationObjectDecoder = Impl (\<lambda>raw. Inr \<lparr>dao_Format = none_format,
       dao_AuthenticatorData = sample_created, dao_Statement = [], dao_Raw = raw\<rparr>),
     cfg_CredentialPublicKeyDecoder = Impl (\<lambda>_. Inr sample_key),
     cfg_ExtensionMapDecoder = Impl (\<lambda>_. Inr []),
     cfg_SignatureVerifier = Impl sample_verify,
     cfg_AlgorithmPolicy = Impl (\<lambda>a. a \<in> set [AlgorithmES256, AlgorithmRS256]),
     cfg_AttestationRegistry = Some [(none_format, none_Verifier)],
     cfg_AttestationTrustPolicy = Impl (\<lambda>_ request. Inr \<lparr>trust_Accepted = (tq_Format request = none_format),
       trust_Reason = [], trust_Warnings = []\<rparr>),
     cfg_ExtensionRegistry = None,
     cfg_Registration = \<lparr>rc_AuthenticatorSelection = None, rc_Attestation = [], rc_AttestationFormats = [],
       rc_ExtensionInputPolicy = \<lparr>eip_RejectUnknown = True\<rparr>,
       rc_ExtensionPolicy = \<lparr>rep_RejectUnrequested = True, rep_RejectUnknown = True\<rparr>\<rparr>,
     cfg_Authentication = \<lparr>ac_UserVerification = UserVerificationRequired,
       ac_ExtensionInputPolicy = \<lparr>eip_RejectUnknown = True\<rparr>,
       ac_ExtensionPolicy = \<lparr>aep_RejectUnrequested = True, aep_RejectUnknown = True, aep_AppID = []\<rparr>,
       ac_CounterPolicy = \<lparr>cpol_RejectCloneRisk = True, cpol_UpdateOnCloneRisk = False\<rparr>\<rparr>,
     cfg_Timeout = 0, cfg_StateTTL = 0, cfg_ChallengeGenerator = NilIface, cfg_Now = None\<rparr>"

text \<open>The same configuration with the defaults filled in.\<close>

definition sample_parameters :: "CredentialParameter list" where
  "sample_parameters = [\<lparr>cp_Type = CredentialTypePublicKey, cp_Algorithm = AlgorithmES256\<rparr>,
     \<lparr>cp_Type = CredentialTypePublicKey, cp_Algorithm = AlgorithmRS256\<rparr>]"

definition sample_ready_config :: Config where
  "sample_ready_config = sample_config\<lparr>cfg_PubKeyCredParams := sample_parameters,
     cfg_Timeout := DefaultBrowserTimeout, cfg_StateTTL := DefaultChallengeTTL,
     cfg_ChallengeGenerator :=
       Impl (\<lambda>ctx. Random_GenerateChallenge sample_env \<lparr>rcg_Reader = NilIface, rcg_Length = 0\<rparr> (Some ctx)),
     cfg_Registration := (cfg_Registration sample_config)\<lparr>rc_Attestation := AttestationNone\<rparr>\<rparr>"

definition sample_rp :: RelyingParty where
  "sample_rp = \<lparr>rp_config = sample_ready_config, rp_algorithms = [AlgorithmES256, AlgorithmRS256], rp_ready = True\<rparr>"

lemma sample_defaults: "configDefaults sample_env sample_parameters sample_config = sample_ready_config"
  by (simp add: configDefaults_def sample_ready_config_def sample_config_def defaultedSelection_def
      UserVerificationRequired_def)

lemma sample_validateConfig: "validateConfig sample_ready_config sample_std = None"
  by code_simp

lemma sample_New: "New sample_std sample_env sample_config = Inr sample_rp"
proof -
  have "registrationCredentialParameters (cfg_PubKeyCredParams sample_config) = Inr sample_parameters"
    by code_simp
  moreover have "algorithmsFromParameters sample_parameters = [AlgorithmES256, AlgorithmRS256]"
    by code_simp
  ultimately show ?thesis
    by (simp add: New_def Let_def sample_defaults sample_validateConfig sample_rp_def)
qed

section \<open>Registration\<close>

definition sample_user :: UserHandle where
  "sample_user = \<lparr>bv_value = Some [77]\<rparr>"

definition sample_registration :: RegistrationRequest where
  "sample_registration = \<lparr>rreq_User = \<lparr>user_ID = sample_user, user_Name = ''u'', user_DisplayName = ''u''\<rparr>,
     rreq_ExcludeCredentials = [], rreq_Extensions = [], rreq_Hints = [], rreq_ConditionalMediation = False\<rparr>"

definition sample_creation :: RegistrationStartResult where
  "sample_creation = projr (RP_StartRegistration sample_std sample_env (Some sample_rp) None sample_registration)"

definition sample_state :: RegistrationState where
  "sample_state = \<lparr>rs_Challenge = sample_challenge, rs_RPID = ''example.org'',
     rs_OriginPolicy = cfg_OriginPolicy sample_config, rs_ConditionalMediation = False, rs_UserHandle = sample_user,
     rs_RequestedUserVerification = UserVerificationPreferred, rs_RequestedExtensions = [], rs_ExtensionBindings = [],
     rs_AllowedAlgorithms = [AlgorithmES256, AlgorithmRS256], rs_Attestation = AttestationNone,
     rs_ExpiresAt = 600000001000\<rparr>"

definition sample_attestation :: RegistrationVerification where
  "sample_attestation = \<lparr>rver_State = sample_state, rver_Response =
     \<lparr>rr_Type = CredentialTypePublicKey, rr_RawID = \<lparr>bv_value = Some [42]\<rparr>,
      rr_ClientDataJSON = \<lparr>bv_value = Some [1]\<rparr>, rr_AuthenticatorData = \<lparr>bv_value = None\<rparr>,
      rr_AttestationObject = \<lparr>bv_value = Some [6]\<rparr>, rr_PublicKeyAlgorithm = AlgorithmES256,
      rr_Transports = [''usb''], rr_AuthenticatorAttachment = ''platform'', rr_ClientExtensionResults = []\<rparr>\<rparr>"

lemma projr_run: "\<not> isl r \<Longrightarrow> r = Inr (projr r)"
  by simp

lemma sample_StartRegistration:
  "RP_StartRegistration sample_std sample_env (Some sample_rp) None sample_registration = Inr sample_creation"
  unfolding sample_creation_def by (rule projr_run) code_simp

lemma sample_creation_state: "rsr_State sample_creation = sample_state"
  by code_simp

text \<open>What the browser and the authenticator answered, decoded.\<close>

definition sample_client_data :: "ClientDataType \<Rightarrow> ClientDataJSON \<Rightarrow> CollectedClientData" where
  "sample_client_data type raw = \<lparr>ccd_Type = type, ccd_Challenge = b64_encode (replicate 32 3),
     ccd_Origin = ''https://example.org'', ccd_CrossOrigin = Some False, ccd_TopOrigin = [],
     ccd_TokenBinding = None, ccd_Raw = raw, ccd_topOriginSet = False\<rparr>"

definition sample_attested :: AttestedCredentialData where
  "sample_attested = \<lparr>acd_AAGUID = replicate 16 0, acd_CredentialID = \<lparr>bv_value = Some [42]\<rparr>,
     acd_CredentialPublicKeyAndExtensions = [5]\<rparr>"

definition sample_parsed :: ParsedAuthenticatorData where
  "sample_parsed = \<lparr>pad_Raw = sample_created, pad_RPIDHash = sample_hash, pad_Flags = 0x45, pad_SignCount = 7,
     pad_AttestedCredentialData = Some sample_attested, pad_ExtensionData = None\<rparr>"

definition sample_decoded :: DecodedAttestationObject where
  "sample_decoded = \<lparr>dao_Format = none_format, dao_AuthenticatorData = sample_created, dao_Statement = [],
     dao_Raw = \<lparr>bv_value = Some [6]\<rparr>\<rparr>"

definition sample_finish :: RegistrationFinishOptions where
  "sample_finish = registrationFinishOptions (rp_config sample_rp) sample_attestation"

definition sample_registered :: RegistrationResult where
  "sample_registered = registrationResult sample_finish sample_parsed sample_attested sample_key
     (VerificationResult TypeNone (TrustPath TrustPathNone [] None None) True [] NilIface)
     \<lparr>trust_Accepted = True, trust_Reason = [], trust_Warnings = []\<rparr> []"

lemma sample_registration_ready: "registrationReady sample_std 1000 sample_finish"
  by code_simp

lemma sample_registration_key:
  "keyAndExtensions (rfo_CredentialPublicKeyDecoder sample_finish) (rfo_ExtensionMapDecoder sample_finish)
    (pad_Flags sample_parsed) (acd_CredentialPublicKeyAndExtensions sample_attested) sample_key []"
  unfolding decodeCredentialPublicKeyAndExtensions_Inr_iff [symmetric] by code_simp

lemma sample_registration_evidence:
  "registrationEvidence sample_std sample_finish
    (sample_client_data ClientDataTypeCreate \<lparr>bv_value = Some [1]\<rparr>) sample_decoded sample_parsed sample_attested sample_key []"
  unfolding registrationEvidence_def Let_def
  by (intro conjI sample_registration_key; code_simp)

lemma sample_registration_attestation:
  "verifyRegistrationAttestation Background (attestationInputs sample_std sample_finish sample_decoded sample_attested sample_key)
    = Inr (VerificationResult TypeNone (TrustPath TrustPathNone [] None None) True [] NilIface,
       \<lparr>trust_Accepted = True, trust_Reason = [], trust_Warnings = []\<rparr>)"
  by code_simp

lemma sample_registration_extensions:
  "verifyRegistrationExtensions Background (extensionInputs sample_finish []) = Inr []"
  by code_simp

lemma sample_FinishRegistration_low:
  "FinishRegistration sample_std sample_env None sample_finish = Inr sample_registered"
proof -
  have "options_now sample_env (rfo_Now sample_finish) = 1000" "normalizeContext None = Background"
    by (code_simp, simp add: normalizeContext_def)
  then show ?thesis
    unfolding FinishRegistration_refines registrationSpec_def sample_registered_def
    by (simp only:) (intro conjI exI; (rule sample_registration_ready sample_registration_evidence
        sample_registration_attestation sample_registration_extensions refl)?)
qed

lemma sample_FinishRegistration:
  "RP_FinishRegistration sample_std sample_env (Some sample_rp) None sample_attestation = Inr sample_registered"
proof -
  have "rp_ready sample_rp" "registrationStateMatches sample_rp (rver_State sample_attestation)"
    by code_simp+
  then show ?thesis
    using sample_FinishRegistration_low by (simp add: RP_FinishRegistration_def sample_finish_def)
qed

section \<open>Authentication\<close>

definition sample_credential :: CredentialRecord where
  "sample_credential = \<lparr>cr_Type = CredentialTypePublicKey, cr_ID = \<lparr>bv_value = Some [42]\<rparr>, cr_PublicKey = sample_key,
     cr_UserHandle = sample_user, cr_RPID = ''example.org'', cr_AAGUID = replicate 16 0, cr_SignCount = 7,
     cr_Transports = [''usb''], cr_BackupEligible = False, cr_BackupState = False, cr_UVInitialized = True,
     cr_AuthenticatorAttachment = ''platform'', cr_AttestationType = TypeNone\<rparr>"

definition sample_update :: CredentialUpdate where
  "sample_update = \<lparr>cu_ID = \<lparr>bv_value = Some [42]\<rparr>, cu_PreviousSignCount = 7, cu_PreviousBackupState = False,
     cu_PreviousUVInitialized = True, cu_PreviousAuthenticatorAttachment = ''platform'',
     cu_SignCount = 8, cu_SignCountChanged = True, cu_BackupState = False, cu_BackupStateChanged = False,
     cu_UVInitialized = True, cu_UVInitializedChanged = False,
     cu_AuthenticatorAttachment = ''platform'', cu_AuthenticatorAttachmentChanged = False\<rparr>"

lemma sample_registered_credential: "rres_Credential sample_registered = sample_credential"
  by code_simp

definition sample_login :: AuthenticationRequest where
  "sample_login = \<lparr>areq_AllowCredentials = [Descriptor sample_credential],
     areq_ExpectedUserHandle = sample_user, areq_Extensions = [], areq_Hints = []\<rparr>"

definition sample_request :: AuthenticationStartResult where
  "sample_request = projr (RP_StartAuthentication sample_std sample_env (Some sample_rp) None sample_login)"

lemma sample_StartAuthentication:
  "RP_StartAuthentication sample_std sample_env (Some sample_rp) None sample_login = Inr sample_request"
  unfolding sample_request_def by (rule projr_run) code_simp

definition sample_auth_state :: AuthenticationState where
  "sample_auth_state = \<lparr>as_Challenge = sample_challenge, as_RPID = ''example.org'',
     as_OriginPolicy = cfg_OriginPolicy sample_config, as_RequestedUserVerification = UserVerificationRequired,
     as_RequestedExtensions = [], as_ExtensionBindings = [], as_AllowCredentials = [Descriptor sample_credential],
     as_ExpectedUserHandle = sample_user, as_ExpiresAt = 600000001000\<rparr>"

lemma sample_request_state: "asr_State sample_request = sample_auth_state"
  by code_simp

definition sample_assertion :: AuthenticationVerification where
  "sample_assertion = \<lparr>aver_State = sample_auth_state, aver_Response =
     \<lparr>ar_Type = CredentialTypePublicKey, ar_RawID = \<lparr>bv_value = Some [42]\<rparr>,
      ar_ClientDataJSON = \<lparr>bv_value = Some [2]\<rparr>, ar_AuthenticatorData = sample_asserted,
      ar_Signature = \<lparr>bv_value = Some [9]\<rparr>, ar_UserHandle = \<lparr>bv_value = None\<rparr>,
      ar_AuthenticatorAttachment = [], ar_ClientExtensionResults = []\<rparr>,
     aver_Credential = sample_credential, aver_UVInitializationAuthorized = False\<rparr>"

definition sample_asserted_parsed :: ParsedAuthenticatorData where
  "sample_asserted_parsed = \<lparr>pad_Raw = sample_asserted, pad_RPIDHash = sample_hash, pad_Flags = 0x05, pad_SignCount = 8,
     pad_AttestedCredentialData = None, pad_ExtensionData = None\<rparr>"

definition sample_verification :: AuthenticationFinishOptions where
  "sample_verification = authenticationFinishOptions (rp_config sample_rp) sample_assertion"

definition sample_authenticated :: AuthenticationResult where
  "sample_authenticated = authenticationResult sample_verification sample_asserted_parsed (compareCounters 7 8) []"

lemma sample_authentication_ready: "authenticationReady sample_std 1000 sample_verification"
  by code_simp

lemma sample_assertion_bound: "assertionBound sample_verification"
  by code_simp

lemma sample_authentication_verifier: "afo_SignatureVerifier sample_verification = Impl sample_verify"
  "afo_AlgorithmPolicy sample_verification = Impl (\<lambda>a. a \<in> set [AlgorithmES256, AlgorithmRS256])"
  by (simp_all add: sample_verification_def authenticationFinishOptions_def sample_rp_def sample_ready_config_def
      sample_config_def)

lemma sample_signature:
  "sample_verify Background (signatureInput (afo_Credential sample_verification) (afo_Response sample_verification)
    (std_Sum256 sample_std (bv_bytes (ar_ClientDataJSON (afo_Response sample_verification))))) = None"
  by code_simp

lemma sample_assertion_algorithm:
  "cpk_Algorithm (cr_PublicKey (afo_Credential sample_verification)) \<in> set [AlgorithmES256, AlgorithmRS256]"
  by code_simp

lemma sample_assertion_evidence:
  "assertionEvidence sample_std Background sample_verification
    (sample_client_data ClientDataTypeGet \<lparr>bv_value = Some [2]\<rparr>) sample_asserted_parsed []"
  unfolding assertionEvidence_def Let_def sample_authentication_verifier
  using sample_signature sample_assertion_algorithm
  by (intro conjI; (simp; fail)?) code_simp+

lemma sample_assertion_extensions:
  "verifyAuthenticationExtensions Background (assertionExtensionInputs sample_verification []) = Inr []"
  by code_simp

lemma sample_FinishAuthentication_low:
  "FinishAuthentication sample_std sample_env None sample_verification = Inr sample_authenticated"
proof -
  have "options_now sample_env (afo_Now sample_verification) = 1000" "normalizeContext None = Background"
    "compareCounters (cr_SignCount (afo_Credential sample_verification)) (pad_SignCount sample_asserted_parsed)
      = compareCounters 7 8"
    by (code_simp, simp add: normalizeContext_def, code_simp)
  then show ?thesis
    unfolding FinishAuthentication_refines authenticationSpec_def sample_authenticated_def
    using sample_authentication_ready sample_assertion_bound sample_assertion_evidence sample_assertion_extensions
    by (metis (no_types))
qed

lemma sample_FinishAuthentication:
  "RP_FinishAuthentication sample_std sample_env (Some sample_rp) None sample_assertion = Inr sample_authenticated"
proof -
  have "rp_ready sample_rp" "authenticationStateMatches sample_rp (aver_State sample_assertion)"
    "CredentialRecord_Validate (aver_Credential sample_assertion) = None"
    "cpk_Algorithm (cr_PublicKey (aver_Credential sample_assertion)) \<in> set (rp_algorithms sample_rp)"
    by code_simp+
  then show ?thesis
    using sample_FinishAuthentication_low by (simp add: RP_FinishAuthentication_def sample_verification_def)
qed

section \<open>Extension outputs and compound statements\<close>

definition sample_work :: extensionVerificationInputs where
  "sample_work = \<lparr>evi_operation = OperationRegistration, evi_selectedCredentialID = zero_byteValue,
     evi_requestedExtensions = [], evi_policy = \<lparr>eop_rejectUnrequested = False, eop_rejectUnknown = False\<rparr>,
     evi_registry = None, evi_clientExtensionResults = [(''x'', Some (VBool True))], evi_authenticatorExtensions = [],
     evi_clientInputTransform = None\<rparr>"

definition sample_output :: Result where
  "sample_output = projr (verifyExtension Background sample_work ''x'')"

lemma sample_work_run: "verifyExtensions Background sample_work = Inr [sample_output]"
proof -
  have copy: "CloneValue (VBool True) = Inr (VBool True)"
    by code_simp
  have "\<not> isl (verifyExtension Background sample_work ''x'')"
    by (simp add: verifyExtension_def sample_work_def Let_def rawExtensionValue_def Registry_Contains_def
        PreserveRaw_def cloneRawResult_def cloneRawValue_def RawValue_Present_def RawValue_Clone_def copy
        identifier_Valid_def identifier_char_def maxIdentifierLength_def)
  then have "verifyExtension Background sample_work ''x'' = Inr sample_output"
    unfolding sample_output_def by (rule projr_run)
  moreover have "validateExtensionWork [] [(''x'', Some (VBool True))] [] = Inr [''x'']"
    by code_simp
  ultimately show ?thesis
    by (simp add: verifyExtensions_def Background_def sample_work_def [THEN arg_cong, of evi_requestedExtensions]
        sample_work_def [THEN arg_cong, of evi_clientExtensionResults]
        sample_work_def [THEN arg_cong, of evi_authenticatorExtensions])
qed

definition sample_compound :: VerificationRequest where
  "sample_compound = \<lparr>vq_Format = compound_Format, vq_ConveyancePreference = ''direct'',
     vq_AuthenticatorData = sample_created, vq_ClientDataHash = [],
     vq_Statement = [(CompoundSubStatementsKey, VSubStatements (Some [(none_format, Some []), (none_format, Some [])]))],
     vq_CredentialPublicKey = sample_key, vq_RawAttestationObject = zero_byteValue\<rparr>"

text \<open>One sub-statement of a registered format and one of a format nobody registered.\<close>

definition sample_mixed :: VerificationRequest where
  "sample_mixed = sample_compound\<lparr>vq_Statement :=
     [(CompoundSubStatementsKey, VSubStatements (Some [(none_format, Some []), (''other'', Some [])]))]\<rparr>"

end
