(* ===== verification/Attestation_Packed.thy ===== *)
theory Attestation_Packed
  imports X509_Util
begin

text \<open>
  \<^verbatim>\<open>src/attestation/packed\<close>: the \<^verbatim>\<open>packed\<close> format with self attestation and \<^verbatim>\<open>x5c\<close> attestation, its
  statement parser and the certificate profile of section 8.2.1 of the WebAuthn specification.
\<close>

abbreviation ErrPackedInvalidStatement :: sentinel where
  "ErrPackedInvalidStatement \<equiv> ErrAttestation FormatPacked InvalidStatement"
abbreviation ErrPackedAlgorithmMismatch :: sentinel where
  "ErrPackedAlgorithmMismatch \<equiv> ErrAttestation FormatPacked AlgorithmMismatch"
abbreviation ErrPackedInvalidSignature :: sentinel where
  "ErrPackedInvalidSignature \<equiv> ErrAttestation FormatPacked InvalidSignature"
abbreviation ErrPackedCertificateRequirements :: sentinel where
  "ErrPackedCertificateRequirements \<equiv> ErrAttestation FormatPacked CertificateRequirements"

definition packed_format :: string where "packed_format = ''packed''"

section \<open>Statement\<close>

record packedStatement =
  ps_algorithm :: COSEAlgorithmIdentifier
  ps_signature :: bytes
  ps_x5c :: "bytes list option"

definition packed_parseStatement :: "AttestationStatement \<Rightarrow> packedStatement result" where
  "packed_parseStatement statement =
    (if length statement = 0 then Inl (Sentinel ErrPackedInvalidStatement) else
     check (unexpectedField [''alg'', ''sig'', ''x5c''] ErrPackedInvalidStatement statement)
    (and_then (attstmt_Algorithm (statementField statement ''alg'') ErrPackedInvalidStatement) (\<lambda>algorithm.
     and_then (attstmt_Bytes (statementField statement ''sig'') ErrPackedInvalidStatement) (\<lambda>signature.
     case map_of statement ''x5c'' of
       None \<Rightarrow> Inr \<lparr>ps_algorithm = algorithm, ps_signature = signature, ps_x5c = None\<rparr>
     | Some x5cValue \<Rightarrow>
       and_then (attstmt_X5C x5cValue ErrPackedInvalidStatement) (\<lambda>x5c.
       Inr \<lparr>ps_algorithm = algorithm, ps_signature = signature, ps_x5c = Some x5c\<rparr>)))))"

section \<open>Certificate profile\<close>

definition oidExtensionFIDOFirmware :: OID where "oidExtensionFIDOFirmware = [1, 3, 6, 1, 4, 1, 45724, 1, 1, 5]"
definition oidExtensionFIDOSerialNumber :: OID where
  "oidExtensionFIDOSerialNumber = [1, 3, 6, 1, 4, 1, 45724, 1, 1, 2]"
definition oidSubjectCountry :: OID where "oidSubjectCountry = [2, 5, 4, 6]"
definition oidSubjectOrganization :: OID where "oidSubjectOrganization = [2, 5, 4, 10]"
definition oidSubjectOrganizationalUnit :: OID where "oidSubjectOrganizationalUnit = [2, 5, 4, 11]"
definition oidSubjectCommonName :: OID where "oidSubjectCommonName = [2, 5, 4, 3]"

definition validCountryCode :: "string \<Rightarrow> bool" where
  "validCountryCode v \<longleftrightarrow> length v = 2 \<and> CHR ''A'' \<le> v ! 0 \<and> v ! 0 \<le> CHR ''Z'' \<and> CHR ''A'' \<le> v ! 1 \<and> v ! 1 \<le> CHR ''Z''"

definition packedSubjectKeys :: "OID list" where
  "packedSubjectKeys = [oidSubjectCountry, oidSubjectOrganization, oidSubjectOrganizationalUnit, oidSubjectCommonName]"

text \<open>The \<^verbatim>\<open>switch\<close> on the type of a required attribute.\<close>

definition packedAttributeOK :: "NameAttribute \<Rightarrow> bool" where
  "packedAttributeOK a =
    (if na_Type a = oidSubjectCountry then na_Tag a = TagPrintableString \<and> validCountryCode (na_Value a)
     else if na_Type a = oidSubjectOrganizationalUnit
     then na_Tag a = TagUTF8String \<and> na_Value a = ''Authenticator Attestation''
     else na_Tag a = TagUTF8String \<and> na_Value a \<noteq> [])"

definition validatePackedSubject :: "go_pki \<Rightarrow> x509_Certificate \<Rightarrow> error option" where
  "validatePackedSubject pki certificate =
    (case ParseNameAttributes pki (x509_RawSubject certificate) of
       Inl _ \<Rightarrow> Some (Sentinel ErrPackedCertificateRequirements)
     | Inr attributes \<Rightarrow>
       if eachOnce packedSubjectKeys packedAttributeOK attributes then None
       else Some (Sentinel ErrPackedCertificateRequirements))"

definition validateFirmwareExtension :: "x509_Certificate \<Rightarrow> error option" where
  "validateFirmwareExtension certificate =
    (case FindExtension certificate oidExtensionFIDOFirmware of
       None \<Rightarrow> None
     | Some extension \<Rightarrow>
       if pkix_Critical extension then Some (Sentinel ErrPackedCertificateRequirements) else
       (case Unmarshal_BigInt (pkix_Value extension) of
          Inl _ \<Rightarrow> Some (Sentinel ErrPackedCertificateRequirements)
        | Inr (version, rest) \<Rightarrow>
          if rest \<noteq> [] \<or> version < 0 then Some (Sentinel ErrPackedCertificateRequirements) else None))"

definition validateEnterpriseSerialExtension :: "x509_Certificate \<Rightarrow> AttestationConveyancePreference \<Rightarrow> error option" where
  "validateEnterpriseSerialExtension certificate conveyance =
    (case FindExtension certificate oidExtensionFIDOSerialNumber of
       None \<Rightarrow> None
     | Some extension \<Rightarrow>
       if conveyance \<noteq> AttestationEnterprise \<or> pkix_Critical extension
       then Some (Sentinel ErrPackedCertificateRequirements) else
       (case Unmarshal_Octets (pkix_Value extension) of
          Inl _ \<Rightarrow> Some (Sentinel ErrPackedCertificateRequirements)
        | Inr (serial, rest) \<Rightarrow>
          if rest \<noteq> [] \<or> length serial = 0 then Some (Sentinel ErrPackedCertificateRequirements) else None))"

definition validatePackedCertificate ::
  "go_pki \<Rightarrow> x509_Certificate \<Rightarrow> AAGUID \<Rightarrow> AttestationConveyancePreference \<Rightarrow> error option" where
  "validatePackedCertificate pki certificate aaguid conveyance =
    (if x509_Version certificate \<noteq> 3 then Some (Sentinel ErrPackedCertificateRequirements)
     else if validatePackedSubject pki certificate \<noteq> None then Some (Sentinel ErrPackedCertificateRequirements)
     else if \<not> HasExtension certificate oidExtensionBasicConstraints \<or> \<not> x509_BasicConstraintsValid certificate
       \<or> x509_IsCA certificate
     then Some (Sentinel ErrPackedCertificateRequirements)
     else or_err (validateAAGUIDExtension ErrPackedCertificateRequirements certificate aaguid)
       (or_err (validateFirmwareExtension certificate) (validateEnterpriseSerialExtension certificate conveyance)))"

section \<open>Verification\<close>

definition packed_verifySelf ::
  "SignatureVerifier \<Rightarrow> ctx \<Rightarrow> VerificationRequest \<Rightarrow> packedStatement \<Rightarrow> bytes \<Rightarrow> VerificationResult result" where
  "packed_verifySelf verifier ctx request statement data =
    (if ps_algorithm statement \<noteq> cpk_Algorithm (vq_CredentialPublicKey request)
     then Inl (Sentinel ErrPackedAlgorithmMismatch) else
     check (VerifySignature ctx verifier (ps_algorithm statement) (cpk_material (vq_CredentialPublicKey request))
       (cpk_raw (vq_CredentialPublicKey request)) data (ps_signature statement)
       ErrPackedInvalidStatement ErrPackedInvalidSignature)
     (Inr (VerificationResult TypeSelf (TrustPath TrustPathNone [] None None) True [] NilIface)))"

definition packed_verifyX5C ::
  "go_pki \<Rightarrow> SignatureVerifier \<Rightarrow> ctx \<Rightarrow> VerificationRequest \<Rightarrow> packedStatement \<Rightarrow> bytes list \<Rightarrow> bytes
    \<Rightarrow> VerificationResult result" where
  "packed_verifyX5C pki verifier ctx request statement x5c data =
    and_then (wrap_res ErrPackedInvalidStatement (ParseAuthenticatorData (vq_AuthenticatorData request))) (\<lambda>parsed.
    case pad_AttestedCredentialData parsed of
      None \<Rightarrow> Inl (Sentinel ErrPackedInvalidStatement)
    | Some attested \<Rightarrow>
      and_then (ParseCertificateChain pki x5c ErrPackedInvalidStatement) (\<lambda>(chain, certificates).
      check (validatePackedCertificate pki (hd certificates) (acd_AAGUID attested) (vq_ConveyancePreference request))
      (case PublicKeyMaterial pki (x509_PublicKey (hd certificates)) of
         None \<Rightarrow> Inl (Sentinel ErrPackedCertificateRequirements)
       | Some leafMaterial \<Rightarrow>
         check (VerifySignature ctx verifier (ps_algorithm statement) leafMaterial [] data (ps_signature statement)
           ErrPackedInvalidStatement ErrPackedInvalidSignature)
         (Inr (VerificationResult TypeUncertain (TrustPath TrustPathX509 chain None None) True [] NilIface)))))"

definition packed_VerifyAttestation ::
  "go_pki \<Rightarrow> SignatureVerifier \<Rightarrow> ctx option \<Rightarrow> VerificationRequest \<Rightarrow> VerificationResult result" where
  "packed_VerifyAttestation pki verifier ctx request =
    (if vq_Format request \<noteq> packed_format \<or> IsNil verifier then Inl (Sentinel ErrPackedInvalidStatement) else
     and_then (packed_parseStatement (vq_Statement request)) (\<lambda>statement.
     if bv_len (vq_AuthenticatorData request) = 0 \<or> length (vq_ClientDataHash request) = 0
     then Inl (Sentinel ErrPackedInvalidStatement) else
     let data = SignedData (vq_AuthenticatorData request) (vq_ClientDataHash request) in
     case ps_x5c statement of
       Some x5c \<Rightarrow> packed_verifyX5C pki verifier (normalizeContext ctx) request statement x5c data
     | None \<Rightarrow> packed_verifySelf verifier (normalizeContext ctx) request statement data))"

definition packed_Verifier :: "go_pki \<Rightarrow> SignatureVerifier \<Rightarrow> Verifier" where
  "packed_Verifier pki verifier =
    \<lparr>v_Format = packed_format, v_VerifyAttestation = packed_VerifyAttestation pki verifier\<rparr>"

section \<open>What an accepted statement shows\<close>

text \<open>
  The certificate profile of an accepted leaf: version 3, a subject with each required attribute
  exactly once, no certification authority, and extensions that agree with the request.
\<close>

definition packedLeafOK :: "go_pki \<Rightarrow> x509_Certificate \<Rightarrow> AAGUID \<Rightarrow> AttestationConveyancePreference \<Rightarrow> bool" where
  "packedLeafOK pki leaf aaguid conveyance \<longleftrightarrow>
    x509_Version leaf = 3 \<and>
    HasExtension leaf oidExtensionBasicConstraints \<and> x509_BasicConstraintsValid leaf \<and> \<not> x509_IsCA leaf \<and>
    (\<exists>attributes. ParseNameAttributes pki (x509_RawSubject leaf) = Inr attributes \<and>
      (\<forall>k\<in>set packedSubjectKeys. \<exists>a. filter (\<lambda>a. na_Type a = k) attributes = [a] \<and> packedAttributeOK a)) \<and>
    (case FindExtension leaf oidExtensionFIDOAAGUID of None \<Rightarrow> True
     | Some e \<Rightarrow> \<not> pkix_Critical e \<and> length aaguid = AAGUIDLength \<and> Unmarshal_Octets (pkix_Value e) = Inr (aaguid, [])) \<and>
    (case FindExtension leaf oidExtensionFIDOFirmware of None \<Rightarrow> True
     | Some e \<Rightarrow> \<not> pkix_Critical e \<and> (\<exists>v\<ge>0. Unmarshal_BigInt (pkix_Value e) = Inr (v, []))) \<and>
    (case FindExtension leaf oidExtensionFIDOSerialNumber of None \<Rightarrow> True
     | Some e \<Rightarrow> conveyance = AttestationEnterprise \<and> \<not> pkix_Critical e \<and>
         (\<exists>serial. serial \<noteq> [] \<and> Unmarshal_Octets (pkix_Value e) = Inr (serial, [])))"

lemma validateAAGUIDExtension_None_iff:
  "validateAAGUIDExtension invalid certificate aaguid = None \<longleftrightarrow>
    (case FindExtension certificate oidExtensionFIDOAAGUID of None \<Rightarrow> True
     | Some e \<Rightarrow> \<not> pkix_Critical e \<and> length aaguid = AAGUIDLength \<and> Unmarshal_Octets (pkix_Value e) = Inr (aaguid, []))"
  by (auto simp: validateAAGUIDExtension_def split: option.splits sum.splits if_splits)

lemma validateFirmwareExtension_None_iff:
  "validateFirmwareExtension certificate = None \<longleftrightarrow>
    (case FindExtension certificate oidExtensionFIDOFirmware of None \<Rightarrow> True
     | Some e \<Rightarrow> \<not> pkix_Critical e \<and> (\<exists>v\<ge>0. Unmarshal_BigInt (pkix_Value e) = Inr (v, [])))"
  by (auto simp: validateFirmwareExtension_def split: option.splits sum.splits if_splits)

lemma validateEnterpriseSerialExtension_None_iff:
  "validateEnterpriseSerialExtension certificate conveyance = None \<longleftrightarrow>
    (case FindExtension certificate oidExtensionFIDOSerialNumber of None \<Rightarrow> True
     | Some e \<Rightarrow> conveyance = AttestationEnterprise \<and> \<not> pkix_Critical e \<and>
         (\<exists>serial. serial \<noteq> [] \<and> Unmarshal_Octets (pkix_Value e) = Inr (serial, [])))"
  by (auto simp: validateEnterpriseSerialExtension_def split: option.splits sum.splits if_splits)

lemma validatePackedSubject_None_iff:
  "validatePackedSubject pki leaf = None \<longleftrightarrow> (\<exists>attributes. ParseNameAttributes pki (x509_RawSubject leaf) = Inr attributes \<and>
      (\<forall>k\<in>set packedSubjectKeys. \<exists>a. filter (\<lambda>a. na_Type a = k) attributes = [a] \<and> packedAttributeOK a))"
  by (auto simp: validatePackedSubject_def eachOnce_iff split: sum.splits if_splits)

lemma validatePackedCertificate_None_iff:
  "validatePackedCertificate pki leaf aaguid conveyance = None \<longleftrightarrow> packedLeafOK pki leaf aaguid conveyance"
  unfolding validatePackedCertificate_def if_Some_None_iff or_err_None_iff validateAAGUIDExtension_None_iff
    validateFirmwareExtension_None_iff validateEnterpriseSerialExtension_None_iff
    validatePackedSubject_None_iff packedLeafOK_def
  by blast

lemma packed_verifySelf_Inr_iff:
  "packed_verifySelf verifier ctx request statement data = Inr res \<longleftrightarrow>
    ps_algorithm statement = cpk_Algorithm (vq_CredentialPublicKey request) \<and>
    VerifySignature ctx verifier (ps_algorithm statement) (cpk_material (vq_CredentialPublicKey request))
      (cpk_raw (vq_CredentialPublicKey request)) data (ps_signature statement)
      ErrPackedInvalidStatement ErrPackedInvalidSignature = None \<and>
    res = VerificationResult TypeSelf (TrustPath TrustPathNone [] None None) True [] NilIface"
  unfolding packed_verifySelf_def if_Inl_Inr_iff check_Inr_iff by auto

lemma packed_verifyX5C_InrD:
  assumes "packed_verifyX5C pki verifier ctx request statement x5c data = Inr res"
  shows "\<exists>parsed attested leaf material.
    ParseAuthenticatorData (vq_AuthenticatorData request) = Inr parsed \<and>
    pad_AttestedCredentialData parsed = Some attested \<and> x5c \<noteq> [] \<and> pki_ParseCertificate pki (hd x5c) = Inr leaf \<and>
    packedLeafOK pki leaf (acd_AAGUID attested) (vq_ConveyancePreference request) \<and>
    PublicKeyMaterial pki (x509_PublicKey leaf) = Some material \<and>
    VerifySignature ctx verifier (ps_algorithm statement) material [] data (ps_signature statement)
      ErrPackedInvalidStatement ErrPackedInvalidSignature = None \<and>
    res = VerificationResult TypeUncertain (TrustPath TrustPathX509 x5c None None) True [] NilIface"
proof -
  obtain parsed attested certificates material where
    "ParseAuthenticatorData (vq_AuthenticatorData request) = Inr parsed"
    "pad_AttestedCredentialData parsed = Some attested"
    and certificates: "x5c \<noteq> []" "list_all2 (\<lambda>raw c. pki_ParseCertificate pki raw = Inr c) x5c certificates"
    and "validatePackedCertificate pki (hd certificates) (acd_AAGUID attested) (vq_ConveyancePreference request) = None"
    "PublicKeyMaterial pki (x509_PublicKey (hd certificates)) = Some material"
    "VerifySignature ctx verifier (ps_algorithm statement) material [] data (ps_signature statement)
      ErrPackedInvalidStatement ErrPackedInvalidSignature = None"
    "res = VerificationResult TypeUncertain (TrustPath TrustPathX509 x5c None None) True [] NilIface"
    using assms
    by (auto simp: packed_verifyX5C_def and_then_Inr_iff check_Inr_iff ParseCertificateChain_Inr_iff
        simp del: VerifySignature_None_iff split: option.splits)
  moreover have "pki_ParseCertificate pki (hd x5c) = Inr (hd certificates)"
    by (rule leaf_parsed [OF certificates])
  ultimately show ?thesis
    using validatePackedCertificate_None_iff by blast
qed

lemma packed_VerifyAttestation_InrE:
  assumes "packed_VerifyAttestation pki verifier ctx request = Inr res"
  obtains statement where "vq_Format request = packed_format" "packed_parseStatement (vq_Statement request) = Inr statement"
    "case ps_x5c statement of
       Some x5c \<Rightarrow> packed_verifyX5C pki verifier (normalizeContext ctx) request statement x5c
         (bv_bytes (vq_AuthenticatorData request) @ vq_ClientDataHash request) = Inr res
     | None \<Rightarrow> packed_verifySelf verifier (normalizeContext ctx) request statement
         (bv_bytes (vq_AuthenticatorData request) @ vq_ClientDataHash request) = Inr res"
  using assms that
  by (auto simp: packed_VerifyAttestation_def and_then_Inr_iff Let_def split: if_splits option.splits)

end
