(* ===== verification/Attestation_U2F.thy ===== *)
theory Attestation_U2F
  imports X509_Util
begin

text \<open>
  \<^verbatim>\<open>src/attestation/fidou2f\<close>: the \<^verbatim>\<open>fido-u2f\<close> format, whose signature covers the concatenation that
  FIDO U2F registration messages have.
\<close>

abbreviation ErrU2FInvalidStatement :: sentinel where
  "ErrU2FInvalidStatement \<equiv> ErrAttestation FormatFIDOU2F InvalidStatement"
abbreviation ErrU2FUnsupportedKey :: sentinel where
  "ErrU2FUnsupportedKey \<equiv> ErrAttestation FormatFIDOU2F UnsupportedKey"
abbreviation ErrU2FInvalidSignature :: sentinel where
  "ErrU2FInvalidSignature \<equiv> ErrAttestation FormatFIDOU2F InvalidSignature"

definition u2f_format :: string where "u2f_format = ''fido-u2f''"

record u2fStatement =
  us_x5c :: bytes
  us_signature :: bytes

definition u2f_parseStatement :: "AttestationStatement \<Rightarrow> u2fStatement result" where
  "u2f_parseStatement statement =
    (if length statement \<noteq> 2 then Inl (Sentinel ErrU2FInvalidStatement) else
     check (unexpectedField [''x5c'', ''sig''] ErrU2FInvalidStatement statement)
    (and_then (attstmt_SingleX5C (statementField statement ''x5c'') ErrU2FInvalidStatement) (\<lambda>x5c.
     and_then (attstmt_Bytes (statementField statement ''sig'') ErrU2FInvalidStatement) (\<lambda>signature.
     Inr \<lparr>us_x5c = x5c, us_signature = signature\<rparr>))))"

definition parseCertificate :: "go_pki \<Rightarrow> bytes \<Rightarrow> (CertificateChain \<times> x509_Certificate) result" where
  "parseCertificate pki raw =
    and_then (wrap_res ErrU2FInvalidStatement (pki_ParseCertificate pki raw)) (\<lambda>certificate.
    Inr ([raw], certificate))"

definition u2fVerificationData :: "bytes \<Rightarrow> bytes \<Rightarrow> CredentialID \<Rightarrow> bytes \<Rightarrow> bytes" where
  "u2fVerificationData rpIDHash clientDataHash credentialID publicKeyU2F =
    bv_appendTo credentialID ([0x00] @ rpIDHash @ clientDataHash) @ publicKeyU2F"

definition isP256 :: "ecdsa_PublicKey option \<Rightarrow> bool" where
  "isP256 key = (case key of None \<Rightarrow> False | Some k \<Rightarrow> ecdsa_Curve k = Some ''P-256'')"

definition u2f_VerifyAttestation ::
  "go_pki \<Rightarrow> SignatureVerifier \<Rightarrow> ctx option \<Rightarrow> VerificationRequest \<Rightarrow> VerificationResult result" where
  "u2f_VerifyAttestation pki verifier ctx request =
    (if vq_Format request \<noteq> u2f_format \<or> IsNil verifier then Inl (Sentinel ErrU2FInvalidStatement) else
     and_then (u2f_parseStatement (vq_Statement request)) (\<lambda>statement.
     if cpk_Algorithm (vq_CredentialPublicKey request) \<noteq> AlgorithmES256 then Inl (Sentinel ErrU2FUnsupportedKey) else
     let publicKeyU2F = bytes_of (U2FPublicKey (vq_CredentialPublicKey request)) in
     if length publicKeyU2F \<noteq> 65 \<or> hd publicKeyU2F \<noteq> 0x04 then Inl (Sentinel ErrU2FUnsupportedKey)
     else if length (vq_ClientDataHash request) \<noteq> 32 then Inl (Sentinel ErrU2FInvalidStatement) else
     and_then (wrap_res ErrU2FInvalidStatement (ParseAuthenticatorData (vq_AuthenticatorData request))) (\<lambda>parsed.
     case pad_AttestedCredentialData parsed of
       None \<Rightarrow> Inl (Sentinel ErrU2FInvalidStatement)
     | Some attested \<Rightarrow>
       and_then (parseCertificate pki (us_x5c statement)) (\<lambda>(chain, certificate).
       if \<not> (case x509_PublicKey certificate of EcdsaKey key \<Rightarrow> isP256 key | _ \<Rightarrow> False)
       then Inl (Sentinel ErrU2FUnsupportedKey) else
       case PublicKeyMaterial pki (x509_PublicKey certificate) of
         None \<Rightarrow> Inl (Sentinel ErrU2FUnsupportedKey)
       | Some certificateMaterial \<Rightarrow>
         check (VerifySignature (normalizeContext ctx) verifier AlgorithmES256 certificateMaterial []
           (u2fVerificationData (pad_RPIDHash parsed) (vq_ClientDataHash request)
             (acd_CredentialID attested) publicKeyU2F)
           (us_signature statement) ErrU2FInvalidStatement ErrU2FInvalidSignature)
         (Inr (VerificationResult TypeUncertain (TrustPath TrustPathX509 chain None None) True [] NilIface))))))"

definition u2f_Verifier :: "go_pki \<Rightarrow> SignatureVerifier \<Rightarrow> Verifier" where
  "u2f_Verifier pki verifier = \<lparr>v_Format = u2f_format, v_VerifyAttestation = u2f_VerifyAttestation pki verifier\<rparr>"

section \<open>What an accepted statement shows\<close>

lemma u2f_VerifyAttestation_InrE:
  assumes "u2f_VerifyAttestation pki verifier ctx request = Inr res"
  obtains statement parsed attested certificate material where
    "vq_Format request = u2f_format" "u2f_parseStatement (vq_Statement request) = Inr statement"
    "cpk_Algorithm (vq_CredentialPublicKey request) = AlgorithmES256" "length (vq_ClientDataHash request) = 32"
    "length (bytes_of (U2FPublicKey (vq_CredentialPublicKey request))) = 65"
    "ParseAuthenticatorData (vq_AuthenticatorData request) = Inr parsed"
    "pad_AttestedCredentialData parsed = Some attested"
    "pki_ParseCertificate pki (us_x5c statement) = Inr certificate"
    "PublicKeyMaterial pki (x509_PublicKey certificate) = Some material"
    "VerifySignature (normalizeContext ctx) verifier AlgorithmES256 material []
       ([0x00] @ pad_RPIDHash parsed @ vq_ClientDataHash request @ bv_bytes (acd_CredentialID attested)
         @ bytes_of (U2FPublicKey (vq_CredentialPublicKey request)))
       (us_signature statement) ErrU2FInvalidStatement ErrU2FInvalidSignature = None"
    "res = VerificationResult TypeUncertain (TrustPath TrustPathX509 [us_x5c statement] None None) True [] NilIface"
  using assms that
  by (auto simp: u2f_VerifyAttestation_def parseCertificate_def u2fVerificationData_def bv_appendTo_def and_then_Inr_iff
      check_Inr_iff Let_def simp del: VerifySignature_None_iff split: if_split_asm option.split_asm)

end
