(* ===== verification/Attestation_Apple.thy ===== *)
theory Attestation_Apple
  imports X509_Util
begin

text \<open>
  \<^verbatim>\<open>src/attestation/apple\<close>: the \<^verbatim>\<open>apple\<close> anonymous format, which has no signature of its own: the leaf
  certificate carries the nonce of the ceremony and the credential's public key.
\<close>

abbreviation ErrAppleInvalidStatement :: sentinel where
  "ErrAppleInvalidStatement \<equiv> ErrAttestation FormatApple InvalidStatement"
abbreviation ErrAppleUnsupportedKey :: sentinel where
  "ErrAppleUnsupportedKey \<equiv> ErrAttestation FormatApple UnsupportedKey"
abbreviation ErrApplePublicKeyMismatch :: sentinel where
  "ErrApplePublicKeyMismatch \<equiv> ErrAttestation FormatApple PublicKeyMismatch"
abbreviation ErrAppleInvalidNonce :: sentinel where
  "ErrAppleInvalidNonce \<equiv> ErrAttestation FormatApple InvalidNonce"
abbreviation ErrAppleCertificateRequirements :: sentinel where
  "ErrAppleCertificateRequirements \<equiv> ErrAttestation FormatApple CertificateRequirements"

definition apple_format :: string where "apple_format = ''apple''"
definition oidExtensionAppleAnonymousAttestationNonce :: OID where
  "oidExtensionAppleAnonymousAttestationNonce = [1, 2, 840, 113635, 100, 8, 2]"

definition apple_parseStatement :: "AttestationStatement \<Rightarrow> bytes list result" where
  "apple_parseStatement statement =
    (if length statement \<noteq> 1 then Inl (Sentinel ErrAppleInvalidStatement) else
     check (unexpectedField [''x5c''] ErrAppleInvalidStatement statement)
     (attstmt_X5C (statementField statement ''x5c'') ErrAppleInvalidStatement))"

definition apple_expectedNonce :: "go_std \<Rightarrow> AuthenticatorData \<Rightarrow> bytes \<Rightarrow> bytes" where
  "apple_expectedNonce std authenticatorData clientDataHash =
    std_Sum256 std (SignedData authenticatorData clientDataHash)"

definition validateNonceExtension :: "x509_Certificate \<Rightarrow> bytes \<Rightarrow> error option" where
  "validateNonceExtension certificate expected =
    (case FindExtension certificate oidExtensionAppleAnonymousAttestationNonce of
       None \<Rightarrow> Some (Sentinel ErrAppleCertificateRequirements)
     | Some extension \<Rightarrow>
       (case Unmarshal_Raw (pkix_Value extension) of
          Inl _ \<Rightarrow> Some (Sentinel ErrAppleInvalidNonce)
        | Inr (sequence, rest) \<Rightarrow>
          if rest \<noteq> [] \<or> \<not> constructed TagSequence sequence then Some (Sentinel ErrAppleInvalidNonce) else
          (case Unmarshal_Raw (raw_Bytes sequence) of
             Inl _ \<Rightarrow> Some (Sentinel ErrAppleInvalidNonce)
           | Inr (explicitNonce, rest) \<Rightarrow>
             if rest \<noteq> [] \<or> raw_Class explicitNonce \<noteq> ClassContextSpecific \<or> raw_Tag explicitNonce \<noteq> 1
               \<or> \<not> raw_IsCompound explicitNonce
             then Some (Sentinel ErrAppleInvalidNonce) else
             (case Unmarshal_Octets (raw_Bytes explicitNonce) of
                Inl _ \<Rightarrow> Some (Sentinel ErrAppleInvalidNonce)
              | Inr (nonce, rest) \<Rightarrow>
                if rest \<noteq> [] \<or> length nonce \<noteq> 32 then Some (Sentinel ErrAppleInvalidNonce)
                else if nonce \<noteq> expected then Some (Sentinel ErrAppleInvalidNonce)
                else None))))"

definition apple_VerifyAttestation ::
  "go_std \<Rightarrow> go_pki \<Rightarrow> ctx option \<Rightarrow> VerificationRequest \<Rightarrow> VerificationResult result" where
  "apple_VerifyAttestation std pki ctx request =
    (if vq_Format request \<noteq> apple_format then Inl (Sentinel ErrAppleInvalidStatement) else
     and_then (apple_parseStatement (vq_Statement request)) (\<lambda>x5c.
     if bv_len (vq_AuthenticatorData request) = 0 \<or> length (vq_ClientDataHash request) = 0
     then Inl (Sentinel ErrAppleInvalidStatement) else
     and_then (ParseCertificateChain pki x5c ErrAppleInvalidStatement) (\<lambda>(chain, certificates).
     let leaf = hd certificates in
     check (validateNonceExtension leaf (apple_expectedNonce std (vq_AuthenticatorData request) (vq_ClientDataHash request)))
    (check (ValidatePublicKey pki (x509_PublicKey leaf) (cpk_material (vq_CredentialPublicKey request))
       ErrAppleUnsupportedKey ErrApplePublicKeyMismatch)
     (Inr (VerificationResult TypeAnonymizationCA (TrustPath TrustPathX509 chain None None) True [] NilIface))))))"

definition apple_Verifier :: "go_std \<Rightarrow> go_pki \<Rightarrow> Verifier" where
  "apple_Verifier std pki = \<lparr>v_Format = apple_format, v_VerifyAttestation = apple_VerifyAttestation std pki\<rparr>"

section \<open>What an accepted statement shows\<close>

text \<open>The DER nesting of the nonce: a sequence of one context-specific element around an octet string.\<close>

lemma validateNonceExtension_NoneD:
  assumes "validateNonceExtension certificate expected = None"
  shows "\<exists>e sequence explicit. FindExtension certificate oidExtensionAppleAnonymousAttestationNonce = Some e \<and>
    Unmarshal_Raw (pkix_Value e) = Inr (sequence, []) \<and> Unmarshal_Raw (raw_Bytes sequence) = Inr (explicit, []) \<and>
    Unmarshal_Octets (raw_Bytes explicit) = Inr (expected, []) \<and> length expected = 32"
  using assms by (fastforce simp: validateNonceExtension_def split: option.splits sum.splits if_splits)

lemma apple_VerifyAttestation_InrE:
  assumes "apple_VerifyAttestation std pki ctx request = Inr res"
  obtains x5c leaf where "vq_Format request = apple_format" "apple_parseStatement (vq_Statement request) = Inr x5c"
    "x5c \<noteq> []" "pki_ParseCertificate pki (hd x5c) = Inr leaf"
    "validateNonceExtension leaf (std_Sum256 std (bv_bytes (vq_AuthenticatorData request) @ vq_ClientDataHash request)) = None"
    "ValidatePublicKey pki (x509_PublicKey leaf) (cpk_material (vq_CredentialPublicKey request))
       ErrAppleUnsupportedKey ErrApplePublicKeyMismatch = None"
    "res = VerificationResult TypeAnonymizationCA (TrustPath TrustPathX509 x5c None None) True [] NilIface"
proof -
  obtain x5c certificates where "vq_Format request = apple_format" "apple_parseStatement (vq_Statement request) = Inr x5c"
    and certificates: "x5c \<noteq> []" "list_all2 (\<lambda>raw c. pki_ParseCertificate pki raw = Inr c) x5c certificates"
    and "validateNonceExtension (hd certificates)
      (std_Sum256 std (bv_bytes (vq_AuthenticatorData request) @ vq_ClientDataHash request)) = None"
    "ValidatePublicKey pki (x509_PublicKey (hd certificates)) (cpk_material (vq_CredentialPublicKey request))
       ErrAppleUnsupportedKey ErrApplePublicKeyMismatch = None"
    "res = VerificationResult TypeAnonymizationCA (TrustPath TrustPathX509 x5c None None) True [] NilIface"
    using assms
    by (auto simp: apple_VerifyAttestation_def apple_expectedNonce_def and_then_Inr_iff check_Inr_iff
        ParseCertificateChain_Inr_iff Let_def split: if_splits)
  moreover have "pki_ParseCertificate pki (hd x5c) = Inr (hd certificates)"
    by (rule leaf_parsed [OF certificates])
  ultimately show ?thesis
    using that by blast
qed

end
