(* ===== verification/Tpm_Structures.thy ===== *)
theory Tpm_Structures
  imports X509_Util
begin

text \<open>
  \<^verbatim>\<open>src/attestation/tpm/structures.go\<close>: the big-endian reader and the parsers of \<^verbatim>\<open>TPMT_PUBLIC\<close>,
  \<^verbatim>\<open>TPMS_ATTEST\<close> and \<^verbatim>\<open>TPMT_SIGNATURE\<close>. A \<^verbatim>\<open>tpmReader\<close> is its unread bytes (\<^verbatim>\<open>data[pos:]\<close>); every read
  returns the reader after it. The parsers are characterised by encoders: a structure is accepted
  exactly when it is an encoding, to the last byte.
\<close>

abbreviation ErrTPMInvalidStatement :: sentinel where
  "ErrTPMInvalidStatement \<equiv> ErrAttestation FormatTPM InvalidStatement"
abbreviation ErrTPMUnsupportedAlgorithm :: sentinel where
  "ErrTPMUnsupportedAlgorithm \<equiv> ErrAttestation FormatTPM UnsupportedAlgorithm"
abbreviation ErrTPMUnsupportedKey :: sentinel where
  "ErrTPMUnsupportedKey \<equiv> ErrAttestation FormatTPM UnsupportedKey"
abbreviation ErrTPMPublicKeyMismatch :: sentinel where
  "ErrTPMPublicKeyMismatch \<equiv> ErrAttestation FormatTPM PublicKeyMismatch"
abbreviation ErrTPMInvalidPublicArea :: sentinel where
  "ErrTPMInvalidPublicArea \<equiv> ErrAttestation FormatTPM InvalidPublicArea"
abbreviation ErrTPMInvalidCertInfo :: sentinel where
  "ErrTPMInvalidCertInfo \<equiv> ErrAttestation FormatTPM InvalidCertInfo"
abbreviation ErrTPMInvalidSignature :: sentinel where
  "ErrTPMInvalidSignature \<equiv> ErrAttestation FormatTPM InvalidSignature"
abbreviation ErrTPMCertificateRequirements :: sentinel where
  "ErrTPMCertificateRequirements \<equiv> ErrAttestation FormatTPM CertificateRequirements"

section \<open>Constants and algorithms\<close>

definition tpmGeneratedValue :: "32 word" where "tpmGeneratedValue = 0xff544347"
definition tpmSTAttestCertify :: "16 word" where "tpmSTAttestCertify = 0x8017"
definition tpmAlgRSA :: "16 word" where "tpmAlgRSA = 0x0001"
definition tpmAlgSHA256 :: "16 word" where "tpmAlgSHA256 = 0x000b"
definition tpmAlgSHA384 :: "16 word" where "tpmAlgSHA384 = 0x000c"
definition tpmAlgSHA512 :: "16 word" where "tpmAlgSHA512 = 0x000d"
definition tpmAlgNull :: "16 word" where "tpmAlgNull = 0x0010"
definition tpmAlgRSASSA :: "16 word" where "tpmAlgRSASSA = 0x0014"
definition tpmAlgRSAPSS :: "16 word" where "tpmAlgRSAPSS = 0x0016"
definition tpmAlgECDSA :: "16 word" where "tpmAlgECDSA = 0x0018"
definition tpmAlgECC :: "16 word" where "tpmAlgECC = 0x0023"
definition tpmECCNISTP256 :: "16 word" where "tpmECCNISTP256 = 0x0003"
definition tpmECCNISTP384 :: "16 word" where "tpmECCNISTP384 = 0x0004"
definition tpmECCNISTP521 :: "16 word" where "tpmECCNISTP521 = 0x0005"

lemmas tpm_constants = tpmGeneratedValue_def tpmSTAttestCertify_def tpmAlgRSA_def tpmAlgSHA256_def tpmAlgSHA384_def
  tpmAlgSHA512_def tpmAlgNull_def tpmAlgRSASSA_def tpmAlgRSAPSS_def tpmAlgECDSA_def tpmAlgECC_def
  tpmECCNISTP256_def tpmECCNISTP384_def tpmECCNISTP521_def

record coseAlgorithmSpec =
  spec_cose :: COSEAlgorithmIdentifier
  spec_signatureAlg :: "16 word"
  spec_hashAlg :: "16 word"

definition signatureAlgorithmSpec :: "COSEAlgorithmIdentifier \<Rightarrow> coseAlgorithmSpec option" where
  "signatureAlgorithmSpec algorithm =
    map_option (\<lambda>(s, h). \<lparr>spec_cose = algorithm, spec_signatureAlg = s, spec_hashAlg = h\<rparr>)
     (if algorithm = -7 then Some (tpmAlgECDSA, tpmAlgSHA256)
      else if algorithm = -35 then Some (tpmAlgECDSA, tpmAlgSHA384)
      else if algorithm = -36 then Some (tpmAlgECDSA, tpmAlgSHA512)
      else if algorithm = -257 then Some (tpmAlgRSASSA, tpmAlgSHA256)
      else if algorithm = -258 then Some (tpmAlgRSASSA, tpmAlgSHA384)
      else if algorithm = -259 then Some (tpmAlgRSASSA, tpmAlgSHA512)
      else if algorithm = -37 then Some (tpmAlgRSAPSS, tpmAlgSHA256)
      else if algorithm = -38 then Some (tpmAlgRSAPSS, tpmAlgSHA384)
      else if algorithm = -39 then Some (tpmAlgRSAPSS, tpmAlgSHA512)
      else None)"

section \<open>The reader\<close>

type_synonym tpmReader = bytes

definition errTPMTruncated :: error where "errTPMTruncated = Newf ''truncated tpm structure''"

fun reader_uint16 :: "tpmReader \<Rightarrow> (16 word \<times> tpmReader) result" where
  "reader_uint16 (a # b # rest) = Inr (be16 a b, rest)"
| "reader_uint16 _ = Inl errTPMTruncated"

fun reader_uint32 :: "tpmReader \<Rightarrow> (32 word \<times> tpmReader) result" where
  "reader_uint32 (a # b # c # d # rest) = Inr (be32 a b c d, rest)"
| "reader_uint32 _ = Inl errTPMTruncated"

definition reader_uint64 :: "tpmReader \<Rightarrow> (64 word \<times> tpmReader) result" where
  "reader_uint64 r =
    (if length r < 8 then Inl errTPMTruncated
     else Inr (foldl (\<lambda>acc b. acc * 256 + ucast b) 0 (take 8 r), drop 8 r))"

definition reader_sizedBytes :: "tpmReader \<Rightarrow> (bytes \<times> tpmReader) result" where
  "reader_sizedBytes r =
    and_then (reader_uint16 r) (\<lambda>(size, rest).
    if unat size > length rest then Inl errTPMTruncated
    else Inr (take (unat size) rest, drop (unat size) rest))"

definition reader_skip :: "int \<Rightarrow> tpmReader \<Rightarrow> tpmReader result" where
  "reader_skip n r = (if n < 0 \<or> n > int (length r) then Inl errTPMTruncated else Inr (drop (nat n) r))"

definition remaining :: "tpmReader \<Rightarrow> int" where
  "remaining r = int (length r)"

section \<open>Public areas\<close>

record publicAreaEC2 =
  pa_curve :: string
  pa_x :: bytes
  pa_y :: bytes

record publicAreaRSA =
  pa_modulus :: bytes
  pa_exponent :: "32 word"

record publicArea =
  pa_raw :: bytes
  pa_keyType :: "16 word"
  pa_nameAlg :: "16 word"
  pa_ec2 :: "publicAreaEC2 option"
  pa_rsa :: "publicAreaRSA option"

definition validTPMHashAlgorithm :: "16 word \<Rightarrow> bool" where
  "validTPMHashAlgorithm a \<longleftrightarrow> a = tpmAlgSHA256 \<or> a = tpmAlgSHA384 \<or> a = tpmAlgSHA512"

text \<open>
  Trial division by odd numbers, on 32-bit words: the bound \<open>divisor \<le> exponent div divisor\<close> keeps
  the divisor below \<open>2 ^ 16\<close>, so that adding 2 never wraps around and the loop ends. The divisor is
  never zero: it starts at 3.
\<close>

lemma divisor_small:
  fixes d e :: "32 word"
  assumes "d \<le> e div d" "d \<noteq> 0"
  shows "unat d * unat d \<le> unat e" "unat d < 65536"
proof -
  have "unat d \<le> unat e div unat d"
    using assms(1) by (simp add: word_le_nat_alt unat_div)
  then show square: "unat d * unat d \<le> unat e"
    using assms(2) by (simp add: less_eq_div_iff_mult_less_eq unat_gt_0)
  have "unat e < 65536 * 65536"
    using unsigned_less [of e, where ?'a = nat] by simp
  then have "unat d * unat d < 65536 * 65536"
    using square by linarith
  then show "unat d < 65536"
    by (metis mult_le_mono not_less)
qed

lemma divisor_step:
  fixes d e :: "32 word"
  assumes "d \<le> e div d" "d \<noteq> 0"
  shows "unat (d + 2) = unat d + 2"
proof -
  have "unat d + 2 < 2 ^ 32"
    using divisor_small [OF assms] by simp
  then show ?thesis
    by (simp add: unat_word_ariths)
qed

function noDivisor :: "32 word \<Rightarrow> 32 word \<Rightarrow> bool" where
  "noDivisor exponent divisor =
    (if divisor \<noteq> 0 \<and> divisor \<le> exponent div divisor then
       (if exponent mod divisor = 0 then False else noDivisor exponent (divisor + 2))
     else True)"
  by auto
termination
proof (relation "measure (\<lambda>(e, d). unat e + 2 - unat d)")
  fix e d :: "32 word"
  assume a: "d \<noteq> 0 \<and> d \<le> e div d" "e mod d \<noteq> 0"
  then have "unat d \<le> unat e"
    using divisor_small(1) [of d e] by (metis le_square order_trans)
  then show "((e, d + 2), e, d) \<in> measure (\<lambda>(e, d). unat e + 2 - unat d)"
    using divisor_step [of d e] a(1) by simp
qed simp

declare noDivisor.simps [simp del]

definition validTPMRSAExponent :: "32 word \<Rightarrow> bool" where
  "validTPMRSAExponent exponent = (if exponent < 3 \<or> exponent mod 2 = 0 then False else noDivisor exponent 3)"

definition tpmCurve :: "16 word \<Rightarrow> (string \<times> nat) option" where
  "tpmCurve curveID =
    (if curveID = tpmECCNISTP256 then Some (EC2CurveP256, 32)
     else if curveID = tpmECCNISTP384 then Some (EC2CurveP384, 48)
     else if curveID = tpmECCNISTP521 then Some (EC2CurveP521, 66)
     else None)"

abbreviation publicAreaError :: "'a result \<Rightarrow> 'a result" where
  "publicAreaError \<equiv> wrap_res ErrTPMInvalidPublicArea"
abbreviation certInfoError :: "'a result \<Rightarrow> 'a result" where
  "certInfoError \<equiv> wrap_res ErrTPMInvalidCertInfo"
abbreviation signatureError :: "'a result \<Rightarrow> 'a result" where
  "signatureError \<equiv> wrap_res ErrTPMInvalidSignature"

definition parseSymmetricDefinition :: "tpmReader \<Rightarrow> tpmReader result" where
  "parseSymmetricDefinition r =
    and_then (publicAreaError (reader_uint16 r)) (\<lambda>(algorithm, r).
    if algorithm \<noteq> tpmAlgNull then Inl (Sentinel ErrTPMUnsupportedKey) else Inr r)"

definition parseScheme :: "16 word list \<Rightarrow> tpmReader \<Rightarrow> tpmReader result" where
  "parseScheme allowed r =
    and_then (publicAreaError (reader_uint16 r)) (\<lambda>(scheme, r).
    if scheme = tpmAlgNull then Inr r
    else if scheme \<notin> set allowed then Inl (Sentinel ErrTPMUnsupportedKey)
    else and_then (publicAreaError (reader_uint16 r)) (\<lambda>(hashAlgorithm, r).
      if \<not> validTPMHashAlgorithm hashAlgorithm then Inl (Sentinel ErrTPMUnsupportedAlgorithm) else Inr r))"

definition parseECCPublicArea :: "tpmReader \<Rightarrow> (publicAreaEC2 \<times> tpmReader) result" where
  "parseECCPublicArea r =
    and_then (parseSymmetricDefinition r) (\<lambda>r.
    and_then (parseScheme [tpmAlgECDSA] r) (\<lambda>r.
    and_then (publicAreaError (reader_uint16 r)) (\<lambda>(curveID, r).
    and_then (parseScheme [] r) (\<lambda>r.
    and_then (publicAreaError (reader_sizedBytes r)) (\<lambda>(x, r).
    and_then (publicAreaError (reader_sizedBytes r)) (\<lambda>(y, r).
    case tpmCurve curveID of
      None \<Rightarrow> Inl (Sentinel ErrTPMUnsupportedKey)
    | Some (curve, coordinateLength) \<Rightarrow>
      if length x \<noteq> coordinateLength \<or> length y \<noteq> coordinateLength then Inl (Sentinel ErrTPMUnsupportedKey)
      else Inr (\<lparr>pa_curve = curve, pa_x = x, pa_y = y\<rparr>, r)))))))"

text \<open>An exponent of zero stands for the default.\<close>

definition defaultExponent :: "32 word \<Rightarrow> 32 word" where
  "defaultExponent exponent = (if exponent = 0 then 65537 else exponent)"

definition parseRSAPublicArea :: "tpmReader \<Rightarrow> (publicAreaRSA \<times> tpmReader) result" where
  "parseRSAPublicArea r =
    and_then (parseSymmetricDefinition r) (\<lambda>r.
    and_then (parseScheme [tpmAlgRSASSA, tpmAlgRSAPSS] r) (\<lambda>r.
    and_then (publicAreaError (reader_uint16 r)) (\<lambda>(keyBits, r).
    and_then (publicAreaError (reader_uint32 r)) (\<lambda>(exponent, r).
    let exponent = defaultExponent exponent in
    and_then (publicAreaError (reader_sizedBytes r)) (\<lambda>(modulus, r).
    if \<not> RSA_Valid (Some \<lparr>rsa_Modulus = modulus, rsa_Exponent = exponent\<rparr>) \<or> uint keyBits mod 8 \<noteq> 0
      \<or> uint keyBits \<noteq> int (length modulus) * 8 \<or> \<not> validTPMRSAExponent exponent
    then Inl (Sentinel ErrTPMUnsupportedKey)
    else Inr (\<lparr>pa_modulus = modulus, pa_exponent = exponent\<rparr>, r))))))"

definition parsePublicArea :: "bytes \<Rightarrow> publicArea result" where
  "parsePublicArea raw =
    and_then (publicAreaError (reader_uint16 raw)) (\<lambda>(keyType, r).
    and_then (publicAreaError (reader_uint16 r)) (\<lambda>(nameAlg, r).
    and_then (publicAreaError (reader_uint32 r)) (\<lambda>(attributes, r).
    and_then (publicAreaError (reader_sizedBytes r)) (\<lambda>(authPolicy, r).
    let parsed = \<lparr>pa_raw = raw, pa_keyType = keyType, pa_nameAlg = nameAlg, pa_ec2 = None, pa_rsa = None\<rparr> in
    and_then
      (if keyType = tpmAlgECC then and_then (parseECCPublicArea r) (\<lambda>(ec2, r). Inr (parsed\<lparr>pa_ec2 := Some ec2\<rparr>, r))
       else if keyType = tpmAlgRSA then and_then (parseRSAPublicArea r) (\<lambda>(rsa, r). Inr (parsed\<lparr>pa_rsa := Some rsa\<rparr>, r))
       else Inl (Sentinel ErrTPMUnsupportedKey)) (\<lambda>(parsed, r).
    if remaining r \<noteq> 0 then Inl (Sentinel ErrTPMInvalidPublicArea) else Inr parsed)))))"

definition validatePublicAreaBinding :: "publicArea \<Rightarrow> CredentialPublicKeyMaterial \<Rightarrow> error option" where
  "validatePublicAreaBinding parsed material =
    (if pa_keyType parsed = tpmAlgECC then
       (case (pa_ec2 parsed, mat_EC2 material) of
          (Some ec2, Some m) \<Rightarrow>
            if pa_curve ec2 \<noteq> ec2_Curve m \<or> pa_x ec2 \<noteq> ec2_X m \<or> pa_y ec2 \<noteq> ec2_Y m
            then Some (Sentinel ErrTPMPublicKeyMismatch) else None
        | _ \<Rightarrow> Some (Sentinel ErrTPMUnsupportedKey))
     else if pa_keyType parsed = tpmAlgRSA then
       (case (pa_rsa parsed, mat_RSA material) of
          (Some rsa, Some m) \<Rightarrow>
            if \<not> RSA_Valid (Some m) then Some (Sentinel ErrTPMUnsupportedKey)
            else if pa_exponent rsa \<noteq> rsa_Exponent m \<or> pa_modulus rsa \<noteq> rsa_Modulus m
            then Some (Sentinel ErrTPMPublicKeyMismatch) else None
        | _ \<Rightarrow> Some (Sentinel ErrTPMUnsupportedKey))
     else Some (Sentinel ErrTPMUnsupportedKey))"

definition tpmHash :: "go_std \<Rightarrow> go_pki \<Rightarrow> 16 word \<Rightarrow> bytes \<Rightarrow> bytes result" where
  "tpmHash std pki algorithm data =
    (if algorithm = tpmAlgSHA256 then Inr (std_Sum256 std data)
     else if algorithm = tpmAlgSHA384 then Inr (pki_Sum384 pki data)
     else if algorithm = tpmAlgSHA512 then Inr (pki_Sum512 pki data)
     else Inl (Sentinel ErrTPMUnsupportedAlgorithm))"

definition publicArea_name :: "go_std \<Rightarrow> go_pki \<Rightarrow> publicArea \<Rightarrow> bytes result" where
  "publicArea_name std pki p =
    and_then (tpmHash std pki (pa_nameAlg p) (pa_raw p)) (\<lambda>digest. Inr (put16 (pa_nameAlg p) @ digest))"

section \<open>Attestation structures and signatures\<close>

record certifyInfo =
  ci_extraData :: bytes
  ci_name :: bytes

definition parseCertInfo :: "bytes \<Rightarrow> certifyInfo result" where
  "parseCertInfo raw =
    and_then (certInfoError (reader_uint32 raw)) (\<lambda>(magic, r).
    if magic \<noteq> tpmGeneratedValue then Inl (Sentinel ErrTPMInvalidCertInfo) else
    and_then (certInfoError (reader_uint16 r)) (\<lambda>(attestType, r).
    if attestType \<noteq> tpmSTAttestCertify then Inl (Sentinel ErrTPMInvalidCertInfo) else
    and_then (certInfoError (reader_sizedBytes r)) (\<lambda>(qualifiedSigner, r).
    and_then (certInfoError (reader_sizedBytes r)) (\<lambda>(extraData, r).
    and_then (certInfoError (reader_skip 17 r)) (\<lambda>r.
    and_then (certInfoError (reader_uint64 r)) (\<lambda>(firmwareVersion, r).
    and_then (certInfoError (reader_sizedBytes r)) (\<lambda>(name, r).
    and_then (certInfoError (reader_sizedBytes r)) (\<lambda>(qualifiedName, r).
    if remaining r \<noteq> 0 then Inl (Sentinel ErrTPMInvalidCertInfo)
    else Inr \<lparr>ci_extraData = extraData, ci_name = name\<rparr>))))))))"

definition validateCertInfoBinding :: "certifyInfo \<Rightarrow> bytes \<Rightarrow> bytes \<Rightarrow> error option" where
  "validateCertInfoBinding parsed expectedExtraData expectedName =
    (if ci_extraData parsed \<noteq> expectedExtraData \<or> ci_name parsed \<noteq> expectedName
     then Some (Sentinel ErrTPMInvalidCertInfo) else None)"

text \<open>\<^verbatim>\<open>asn1.Marshal\<close> of the sequence of two non-negative integers, which has no error case.\<close>

definition der_element :: "byte \<Rightarrow> bytes \<Rightarrow> bytes" where
  "der_element tag content =
    (let n = length content in
     tag # (if n < 128 then [word_of_nat n] else let ls = bigBytes n in word_of_nat (128 + length ls) # ls) @ content)"

definition der_natural :: "nat \<Rightarrow> bytes" where
  "der_natural n =
    (let bs = bigBytes n in
     der_element 0x02 (case bs of [] \<Rightarrow> [0] | b # _ \<Rightarrow> if b \<ge> 0x80 then 0 # bs else bs))"

definition SetBytes :: "bytes \<Rightarrow> nat" where
  "SetBytes bs = foldl (\<lambda>acc b. acc * 256 + unat b) 0 bs"

definition parseECDSASignature :: "tpmReader \<Rightarrow> (bytes \<times> tpmReader) result" where
  "parseECDSASignature r =
    and_then (reader_sizedBytes r) (\<lambda>(rBytes, r).
    and_then (reader_sizedBytes r) (\<lambda>(sBytes, r).
    if length rBytes = 0 \<or> length sBytes = 0 then Inl (Sentinel ErrTPMInvalidSignature)
    else Inr (der_element 0x30 (der_natural (SetBytes rBytes) @ der_natural (SetBytes sBytes)), r)))"

definition parseTPMSignature :: "bytes \<Rightarrow> coseAlgorithmSpec \<Rightarrow> bytes result" where
  "parseTPMSignature raw spec =
    and_then (signatureError (reader_uint16 raw)) (\<lambda>(signatureAlg, r).
    if signatureAlg \<noteq> spec_signatureAlg spec then Inl (Sentinel ErrTPMInvalidSignature) else
    and_then (signatureError (reader_uint16 r)) (\<lambda>(hashAlg, r).
    if hashAlg \<noteq> spec_hashAlg spec then Inl (Sentinel ErrTPMInvalidSignature) else
    and_then
      (if signatureAlg = tpmAlgECDSA then signatureError (parseECDSASignature r)
       else if signatureAlg = tpmAlgRSASSA \<or> signatureAlg = tpmAlgRSAPSS then signatureError (reader_sizedBytes r)
       else Inl (Sentinel ErrTPMInvalidSignature)) (\<lambda>(signature, r).
    if length signature = 0 \<or> remaining r \<noteq> 0 then Inl (Sentinel ErrTPMInvalidSignature) else Inr signature)))"

section \<open>Reading is the inverse of writing\<close>

definition sized :: "bytes \<Rightarrow> bytes" where
  "sized bs = put16 (word_of_nat (length bs)) @ bs"

lemma uint16_Inr_iff: "reader_uint16 r = Inr (w, rest) \<longleftrightarrow> r = put16 w @ rest"
proof
  assume "reader_uint16 r = Inr (w, rest)"
  then show "r = put16 w @ rest"
    by (cases r rule: reader_uint16.cases) auto
next
  assume "r = put16 w @ rest"
  then show "reader_uint16 r = Inr (w, rest)"
    using be16_put16 [of w] by auto
qed

lemma uint32_Inr_iff: "reader_uint32 r = Inr (w, rest) \<longleftrightarrow> r = put32 w @ rest"
proof
  assume "reader_uint32 r = Inr (w, rest)"
  then show "r = put32 w @ rest"
    by (cases r rule: reader_uint32.cases) auto
next
  assume "r = put32 w @ rest"
  then show "reader_uint32 r = Inr (w, rest)"
    using be32_put32 [of w] by auto
qed

lemma sizedBytes_Inr_iff: "reader_sizedBytes r = Inr (bs, rest) \<longleftrightarrow> length bs < 65536 \<and> r = sized bs @ rest"
proof
  assume "reader_sizedBytes r = Inr (bs, rest)"
  then obtain size tail where r: "r = put16 size @ tail" "\<not> length tail < unat size"
    and bs: "bs = take (unat size) tail" "rest = drop (unat size) tail"
    by (auto simp: reader_sizedBytes_def and_then_Inr_iff uint16_Inr_iff split: if_splits)
  have "length bs = unat size"
    using r bs by simp
  moreover have "unat size < 65536"
    using unsigned_less [of size, where ?'a = nat] by simp
  ultimately show "length bs < 65536 \<and> r = sized bs @ rest"
    using r bs by (simp add: sized_def)
next
  assume a: "length bs < 65536 \<and> r = sized bs @ rest"
  then have size: "unat (word_of_nat (length bs) :: 16 word) = length bs"
    unfolding unat_of_nat by simp
  have "reader_uint16 r = Inr (word_of_nat (length bs), bs @ rest)"
    using a by (simp add: uint16_Inr_iff sized_def)
  then show "reader_sizedBytes r = Inr (bs, rest)"
    by (simp add: reader_sizedBytes_def size del: unsigned_of_nat)
qed

lemma skip_Inr_iff: "0 \<le> n \<Longrightarrow> reader_skip n r = Inr rest \<longleftrightarrow> (\<exists>xs. int (length xs) = n \<and> r = xs @ rest)"
  unfolding reader_skip_def
  by (auto intro!: exI [of _ "take (nat n) r"] simp: nat_le_iff)

lemma uint64_Inr_iff: "(\<exists>w. reader_uint64 r = Inr (w, rest)) \<longleftrightarrow> (\<exists>xs. length xs = 8 \<and> r = xs @ rest)"
  unfolding reader_uint64_def
  by (auto intro!: exI [of _ "take 8 r"] split: if_splits)

lemma read_encoded [simp]:
  "reader_uint16 (put16 w @ rest) = Inr (w, rest)" "reader_uint32 (put32 v @ rest) = Inr (v, rest)"
  "length bs < 65536 \<Longrightarrow> reader_sizedBytes (sized bs @ rest) = Inr (bs, rest)"
  "length bs < 65536 \<Longrightarrow> reader_sizedBytes (sized bs) = Inr (bs, [])"
  by (simp_all add: uint16_Inr_iff uint32_Inr_iff sizedBytes_Inr_iff)

lemmas read_inv = and_then_Inr_iff uint32_Inr_iff uint16_Inr_iff sizedBytes_Inr_iff remaining_def

section \<open>Accepted structures are encodings\<close>

text \<open>A \<^verbatim>\<open>TPMS_ATTEST\<close> of type certify: the fields the verifier reads and those it skips.\<close>

definition encodeCertInfo :: "bytes \<Rightarrow> bytes \<Rightarrow> bytes \<Rightarrow> bytes \<Rightarrow> bytes \<Rightarrow> bytes \<Rightarrow> bytes" where
  "encodeCertInfo qualifiedSigner extraData clock firmware name qualifiedName =
    put32 tpmGeneratedValue @ put16 tpmSTAttestCertify @ sized qualifiedSigner @ sized extraData @ clock @ firmware
      @ sized name @ sized qualifiedName"

lemma parseCertInfo_encode:
  assumes "length signer < 65536" "length extra < 65536" "length clock = 17" "length firmware = 8"
    "length name < 65536" "length final < 65536"
  shows "parseCertInfo (encodeCertInfo signer extra clock firmware name final) = Inr \<lparr>ci_extraData = extra, ci_name = name\<rparr>"
proof -
  have skip: "reader_skip 17 (clock @ rest) = Inr rest" for rest
    using assms(3) by (simp add: skip_Inr_iff)
  obtain w where "reader_uint64 (firmware @ sized name @ sized final) = Inr (w, sized name @ sized final)"
    using assms(4) uint64_Inr_iff by blast
  then show ?thesis
    using assms by (simp add: parseCertInfo_def encodeCertInfo_def skip remaining_def)
qed

lemma parseCertInfo_sound:
  assumes "parseCertInfo raw = Inr ci"
  shows "\<exists>signer clock firmware final. length signer < 65536 \<and> length (ci_extraData ci) < 65536 \<and> length clock = 17 \<and>
      length firmware = 8 \<and> length (ci_name ci) < 65536 \<and> length final < 65536 \<and>
      raw = encodeCertInfo signer (ci_extraData ci) clock firmware (ci_name ci) final"
proof -
  obtain r1 r2 r3 signer extra name final w where raw: "raw = put32 tpmGeneratedValue @ put16 tpmSTAttestCertify @ sized signer @ sized extra @ r1"
    and lengths: "length signer < 65536" "length extra < 65536" "length name < 65536" "length final < 65536"
    and skip: "reader_skip 17 r1 = Inr r2" and firmware: "reader_uint64 r2 = Inr (w, r3)"
    and r3: "r3 = sized name @ sized final" and ci: "ci = \<lparr>ci_extraData = extra, ci_name = name\<rparr>"
    using assms by (auto simp: parseCertInfo_def read_inv split: if_splits)
  obtain clock where clock: "length clock = 17" "r1 = clock @ r2"
    using skip by (auto simp: skip_Inr_iff)
  obtain fw where fw: "length fw = 8" "r2 = fw @ r3"
    using firmware uint64_Inr_iff by blast
  have "raw = encodeCertInfo signer (ci_extraData ci) clock fw (ci_name ci) final"
    by (simp add: raw clock fw r3 ci encodeCertInfo_def)
  then show ?thesis
    using lengths clock(1) fw(1) ci by auto
qed

text \<open>A \<^verbatim>\<open>TPMT_SYM_DEF_OBJECT\<close> or scheme: null, or an allowed scheme with a hash algorithm.\<close>

definition schemeEncodings :: "16 word list \<Rightarrow> bytes set" where
  "schemeEncodings allowed = insert (put16 tpmAlgNull)
    {put16 s @ put16 h | s h. s \<in> set allowed \<and> s \<noteq> tpmAlgNull \<and> validTPMHashAlgorithm h}"

lemma parseScheme_Inr_iff: "parseScheme allowed r = Inr rest \<longleftrightarrow> (\<exists>enc\<in>schemeEncodings allowed. r = enc @ rest)"
proof
  assume "parseScheme allowed r = Inr rest"
  then show "\<exists>enc\<in>schemeEncodings allowed. r = enc @ rest"
    by (fastforce simp: parseScheme_def read_inv schemeEncodings_def split: if_splits)
next
  assume "\<exists>enc\<in>schemeEncodings allowed. r = enc @ rest"
  then show "parseScheme allowed r = Inr rest"
    by (auto simp: parseScheme_def schemeEncodings_def)
qed

lemma parseSymmetricDefinition_Inr_iff: "parseSymmetricDefinition r = Inr rest \<longleftrightarrow> r = put16 tpmAlgNull @ rest"
  by (auto simp: parseSymmetricDefinition_def read_inv split: if_splits)

lemma read_scheme: "enc \<in> schemeEncodings allowed \<Longrightarrow> parseScheme allowed (enc @ rest) = Inr rest"
  by (auto simp: parseScheme_Inr_iff)

lemma read_symmetric [simp]: "parseSymmetricDefinition (put16 tpmAlgNull @ rest) = Inr rest"
  by (simp add: parseSymmetricDefinition_Inr_iff)

text \<open>The parameters and the unique field of an elliptic-curve and of an RSA public area.\<close>

definition eccEncoding :: "publicAreaEC2 \<Rightarrow> bytes \<Rightarrow> bool" where
  "eccEncoding key enc \<longleftrightarrow>
    (\<exists>scheme kdf curveID len. scheme \<in> schemeEncodings [tpmAlgECDSA] \<and> kdf \<in> schemeEncodings [] \<and>
      tpmCurve curveID = Some (pa_curve key, len) \<and> length (pa_x key) = len \<and> length (pa_y key) = len \<and>
      enc = put16 tpmAlgNull @ scheme @ put16 curveID @ kdf @ sized (pa_x key) @ sized (pa_y key))"

definition rsaEncoding :: "publicAreaRSA \<Rightarrow> bytes \<Rightarrow> bool" where
  "rsaEncoding key enc \<longleftrightarrow>
    (\<exists>scheme keyBits exponent. scheme \<in> schemeEncodings [tpmAlgRSASSA, tpmAlgRSAPSS] \<and>
      pa_exponent key = defaultExponent exponent \<and> validTPMRSAExponent (pa_exponent key) \<and>
      RSA_Valid (Some \<lparr>rsa_Modulus = pa_modulus key, rsa_Exponent = pa_exponent key\<rparr>) \<and> length (pa_modulus key) < 65536 \<and>
      uint keyBits = int (length (pa_modulus key)) * 8 \<and>
      enc = put16 tpmAlgNull @ scheme @ put16 keyBits @ put32 exponent @ sized (pa_modulus key))"

lemma tpmCurve_length: "tpmCurve curveID = Some (curve, len) \<Longrightarrow> len < 65536"
  by (auto simp: tpmCurve_def split: if_splits)

lemma parseECCPublicArea_Inr_iff:
  "parseECCPublicArea r = Inr (key, rest) \<longleftrightarrow> (\<exists>enc. eccEncoding key enc \<and> r = enc @ rest)"
proof
  assume "parseECCPublicArea r = Inr (key, rest)"
  then obtain scheme kdf curveID len where "scheme \<in> schemeEncodings [tpmAlgECDSA]" "kdf \<in> schemeEncodings []"
    "tpmCurve curveID = Some (pa_curve key, len)" "length (pa_x key) = len" "length (pa_y key) = len"
    "r = put16 tpmAlgNull @ scheme @ put16 curveID @ kdf @ sized (pa_x key) @ sized (pa_y key) @ rest"
    by (auto simp: parseECCPublicArea_def read_inv parseSymmetricDefinition_Inr_iff parseScheme_Inr_iff
        split: option.split_asm prod.split_asm if_split_asm) fastforce
  then show "\<exists>enc. eccEncoding key enc \<and> r = enc @ rest"
    unfolding eccEncoding_def by fastforce
next
  assume "\<exists>enc. eccEncoding key enc \<and> r = enc @ rest"
  then show "parseECCPublicArea r = Inr (key, rest)"
    using tpmCurve_length by (auto simp: eccEncoding_def parseECCPublicArea_def read_scheme)
qed

lemma parseRSAPublicArea_Inr_iff:
  "parseRSAPublicArea r = Inr (key, rest) \<longleftrightarrow> (\<exists>enc. rsaEncoding key enc \<and> r = enc @ rest)"
proof
  assume "parseRSAPublicArea r = Inr (key, rest)"
  then obtain r1 r2 keyBits exponent modulus where "parseSymmetricDefinition r = Inr r1"
    "parseScheme [tpmAlgRSASSA, tpmAlgRSAPSS] r1 = Inr r2"
    "r2 = put16 keyBits @ put32 exponent @ sized modulus @ rest" "length modulus < 65536"
    and key: "key = \<lparr>pa_modulus = modulus, pa_exponent = defaultExponent exponent\<rparr>"
    and ok: "RSA_Valid (Some \<lparr>rsa_Modulus = modulus, rsa_Exponent = defaultExponent exponent\<rparr>)"
      "uint keyBits = int (length modulus) * 8"
      "validTPMRSAExponent (defaultExponent exponent)"
    unfolding parseRSAPublicArea_def and_then_Inr_iff Let_def
    by (auto simp: read_inv split: if_split_asm)
  moreover from this obtain scheme where "scheme \<in> schemeEncodings [tpmAlgRSASSA, tpmAlgRSAPSS]"
    "r = put16 tpmAlgNull @ scheme @ r2"
    by (auto simp: parseSymmetricDefinition_Inr_iff parseScheme_Inr_iff)
  ultimately show "\<exists>enc. rsaEncoding key enc \<and> r = enc @ rest"
    unfolding rsaEncoding_def key by fastforce
next
  assume "\<exists>enc. rsaEncoding key enc \<and> r = enc @ rest"
  then obtain scheme keyBits exponent where scheme: "scheme \<in> schemeEncodings [tpmAlgRSASSA, tpmAlgRSAPSS]"
    and key: "pa_exponent key = defaultExponent exponent" "length (pa_modulus key) < 65536"
    and ok: "validTPMRSAExponent (pa_exponent key)" "uint keyBits = int (length (pa_modulus key)) * 8"
      "RSA_Valid (Some \<lparr>rsa_Modulus = pa_modulus key, rsa_Exponent = pa_exponent key\<rparr>)"
    and r: "r = put16 tpmAlgNull @ scheme @ put16 keyBits @ put32 exponent @ sized (pa_modulus key) @ rest"
    unfolding rsaEncoding_def by auto
  show "parseRSAPublicArea r = Inr (key, rest)"
    unfolding r parseRSAPublicArea_def Let_def using key ok by (simp add: read_scheme [OF scheme] key(1) [symmetric])
qed

text \<open>A \<^verbatim>\<open>TPMT_PUBLIC\<close>: type, name algorithm, object attributes, policy, then the parameters of the type.\<close>

definition encodesPublicArea :: "publicArea \<Rightarrow> bytes \<Rightarrow> bool" where
  "encodesPublicArea p raw \<longleftrightarrow> pa_raw p = raw \<and>
    (\<exists>attributes policy enc. length policy < 65536 \<and>
      raw = put16 (pa_keyType p) @ put16 (pa_nameAlg p) @ put32 attributes @ sized policy @ enc \<and>
      (pa_keyType p = tpmAlgECC \<and> pa_rsa p = None \<and> (\<exists>key. pa_ec2 p = Some key \<and> eccEncoding key enc) \<or>
       pa_keyType p = tpmAlgRSA \<and> pa_ec2 p = None \<and> (\<exists>key. pa_rsa p = Some key \<and> rsaEncoding key enc)))"

lemma parsePublicArea_Inr_iff: "parsePublicArea raw = Inr p \<longleftrightarrow> encodesPublicArea p raw"
proof
  assume "parsePublicArea raw = Inr p"
  then obtain keyType nameAlg attributes policy r where
    raw: "raw = put16 keyType @ put16 nameAlg @ put32 attributes @ sized policy @ r" "length policy < 65536"
    and p: "keyType = tpmAlgECC \<and> (\<exists>key. parseECCPublicArea r = Inr (key, []) \<and>
        p = \<lparr>pa_raw = raw, pa_keyType = keyType, pa_nameAlg = nameAlg, pa_ec2 = Some key, pa_rsa = None\<rparr>) \<or>
      keyType = tpmAlgRSA \<and> (\<exists>key. parseRSAPublicArea r = Inr (key, []) \<and>
        p = \<lparr>pa_raw = raw, pa_keyType = keyType, pa_nameAlg = nameAlg, pa_ec2 = None, pa_rsa = Some key\<rparr>)"
    unfolding parsePublicArea_def Let_def by (auto simp: read_inv split: if_split_asm)
  then show "encodesPublicArea p raw"
    unfolding encodesPublicArea_def parseECCPublicArea_Inr_iff parseRSAPublicArea_Inr_iff
    by (intro conjI exI [of _ attributes] exI [of _ policy] exI [of _ r]) auto
next
  assume "encodesPublicArea p raw"
  then obtain attributes policy enc where raw: "pa_raw p = raw" "length policy < 65536"
      "raw = put16 (pa_keyType p) @ put16 (pa_nameAlg p) @ put32 attributes @ sized policy @ enc"
    and key: "pa_keyType p = tpmAlgECC \<and> pa_rsa p = None \<and> (\<exists>key. pa_ec2 p = Some key \<and> eccEncoding key enc) \<or>
       pa_keyType p = tpmAlgRSA \<and> pa_ec2 p = None \<and> (\<exists>key. pa_rsa p = Some key \<and> rsaEncoding key enc)"
    unfolding encodesPublicArea_def by blast
  have ecc: "parseECCPublicArea enc = Inr (k, [])" if "eccEncoding k enc" for k
    using that by (simp add: parseECCPublicArea_Inr_iff)
  have rsa: "parseRSAPublicArea enc = Inr (k, [])" if "rsaEncoding k enc" for k
    using that by (simp add: parseRSAPublicArea_Inr_iff)
  have "reader_uint16 raw = Inr (pa_keyType p, put16 (pa_nameAlg p) @ put32 attributes @ sized policy @ enc)"
    using raw(3) by simp
  then show "parsePublicArea raw = Inr p"
    using key raw(1,2) by (cases p) (auto simp: parsePublicArea_def remaining_def ecc rsa tpmAlgECC_def tpmAlgRSA_def)
qed

section \<open>Trial division finds the primes\<close>

lemma divisor_bound_iff:
  fixes d e :: "32 word"
  assumes "d \<noteq> 0"
  shows "d \<le> e div d \<longleftrightarrow> unat d * unat d \<le> unat e"
  using assms by (simp add: word_le_nat_alt unat_div less_eq_div_iff_mult_less_eq unat_gt_0)

lemma noDivisor_iff:
  assumes "3 \<le> unat d" "odd (unat d)"
  shows "noDivisor e d \<longleftrightarrow> (\<forall>k. odd k \<and> unat d \<le> k \<and> k * k \<le> unat e \<longrightarrow> \<not> k dvd unat e)"
  using assms
proof (induction e d rule: noDivisor.induct)
  case (1 e d)
  have nonzero: "d \<noteq> 0"
    using "1.prems" by auto
  show ?case
  proof (cases "d \<le> e div d")
    case False
    then have "unat e < unat d * unat d"
      using divisor_bound_iff [OF nonzero] by simp
    then have large: "\<not> k * k \<le> unat e" if "unat d \<le> k" for k
      using mult_le_mono [OF that that] by linarith
    have "noDivisor e d"
      using False by (subst noDivisor.simps) simp
    then show ?thesis
      using large by blast
  next
    case True
    have dvd: "e mod d = 0 \<longleftrightarrow> unat d dvd unat e"
      by (simp add: word_unat_eq_iff unat_mod dvd_eq_mod_eq_0)
    have step: "unat (d + 2) = unat d + 2"
      using divisor_step [OF True nonzero] .
    have split: "odd k \<and> unat d \<le> k \<longleftrightarrow> k = unat d \<or> odd k \<and> unat d + 2 \<le> k" for k
      using "1.prems"(2) by presburger
    show ?thesis
    proof (cases "e mod d = 0")
      case dvd0: True
      then have "\<not> noDivisor e d"
        using True nonzero by (subst noDivisor.simps) simp
      moreover have "odd (unat d) \<and> unat d \<le> unat d \<and> unat d * unat d \<le> unat e \<and> unat d dvd unat e"
        using dvd0 dvd "1.prems" True divisor_bound_iff [OF nonzero] by simp
      ultimately show ?thesis
        by blast
    next
      case False
      have "noDivisor e d \<longleftrightarrow> noDivisor e (d + 2)"
        using True False nonzero by (subst noDivisor.simps) simp
      also have "\<dots> \<longleftrightarrow> (\<forall>k. odd k \<and> unat (d + 2) \<le> k \<and> k * k \<le> unat e \<longrightarrow> \<not> k dvd unat e)"
        using "1.prems" step by (intro "1.IH") (use True False nonzero in auto)
      also have "\<dots> \<longleftrightarrow> (\<forall>k. odd k \<and> unat d \<le> k \<and> k * k \<le> unat e \<longrightarrow> \<not> k dvd unat e)"
        using split False dvd step by (metis (no_types))
      finally show ?thesis .
    qed
  qed
qed

lemma odd_factor_below_root:
  fixes n d :: nat
  assumes "odd n" "d dvd n" "1 < d" "d < n"
  shows "\<exists>k. odd k \<and> 3 \<le> k \<and> k * k \<le> n \<and> k dvd n"
proof -
  obtain c where n: "n = d * c"
    using assms(2) by blast
  then have odd: "odd d" "odd c"
    using assms(1) by auto
  then have "1 < c"
    using assms n by (cases c) auto
  then have bounds: "3 \<le> c" "3 \<le> d"
    using odd assms(3) by presburger+
  show ?thesis
  proof (cases "d \<le> c")
    case True
    then show ?thesis
      using n odd bounds by (intro exI [of _ d]) simp
  next
    case False
    then show ?thesis
      using n odd bounds by (intro exI [of _ c]) simp
  qed
qed

text \<open>The accepted exponents are the odd primes.\<close>

lemma validTPMRSAExponent_iff:
  "validTPMRSAExponent e \<longleftrightarrow> 3 \<le> unat e \<and> odd (unat e) \<and> (\<forall>d. 1 < d \<and> d < unat e \<longrightarrow> \<not> d dvd unat e)"
proof (cases "3 \<le> unat e \<and> odd (unat e)")
  case True
  have "e mod 2 = 0 \<longleftrightarrow> even (unat e)"
    by (simp add: word_unat_eq_iff unat_mod dvd_eq_mod_eq_0)
  then have "validTPMRSAExponent e \<longleftrightarrow> noDivisor e 3"
    using True by (simp add: validTPMRSAExponent_def word_less_nat_alt)
  also have "\<dots> \<longleftrightarrow> (\<forall>k. odd k \<and> 3 \<le> k \<and> k * k \<le> unat e \<longrightarrow> \<not> k dvd unat e)"
    using noDivisor_iff [of 3 e] by simp
  also have "\<dots> \<longleftrightarrow> (\<forall>d. 1 < d \<and> d < unat e \<longrightarrow> \<not> d dvd unat e)"
  proof
    assume none: "\<forall>k. odd k \<and> 3 \<le> k \<and> k * k \<le> unat e \<longrightarrow> \<not> k dvd unat e"
    show "\<forall>d. 1 < d \<and> d < unat e \<longrightarrow> \<not> d dvd unat e"
      using none odd_factor_below_root [of "unat e"] True by blast
  next
    assume none: "\<forall>d. 1 < d \<and> d < unat e \<longrightarrow> \<not> d dvd unat e"
    have "k < unat e" if "3 \<le> k" "k * k \<le> unat e" for k
    proof -
      have "k < k * k"
        using that(1) by simp
      then show ?thesis
        using that(2) by linarith
    qed
    then show "\<forall>k. odd k \<and> 3 \<le> k \<and> k * k \<le> unat e \<longrightarrow> \<not> k dvd unat e"
      using none by fastforce
  qed
  finally show ?thesis
    using True by simp
next
  case False
  have "e mod 2 = 0 \<longleftrightarrow> even (unat e)"
    by (simp add: word_unat_eq_iff unat_mod dvd_eq_mod_eq_0)
  then show ?thesis
    using False by (auto simp: validTPMRSAExponent_def word_less_nat_alt)
qed

end
