(* ===== verification/Attestation_Tpm.thy ===== *)
theory Attestation_Tpm
  imports Tpm_Structures
begin

text \<open>
  \<^verbatim>\<open>src/attestation/tpm/tpm.go\<close>, \<^verbatim>\<open>statement.go\<close> and \<^verbatim>\<open>certificate.go\<close>: the \<^verbatim>\<open>tpm\<close> format. The TPM
  signs a structure that names the public area by its hash and carries the hash of the ceremony;
  the certificate of the signing key has the profile of section 8.3.1.
\<close>

definition tpm_format :: string where "tpm_format = ''tpm''"
definition tpmVersion :: string where "tpmVersion = ''2.0''"

section \<open>Statement\<close>

record tpmStatement =
  ts_version :: string
  ts_algorithm :: COSEAlgorithmIdentifier
  ts_x5c :: "bytes list"
  ts_signature :: bytes
  ts_certInfo :: bytes
  ts_publicArea :: bytes

definition tpm_parseStatement :: "AttestationStatement \<Rightarrow> tpmStatement result" where
  "tpm_parseStatement statement =
    (if length statement \<noteq> 6 then Inl (Sentinel ErrTPMInvalidStatement) else
     check (unexpectedField [''ver'', ''alg'', ''x5c'', ''sig'', ''certInfo'', ''pubArea''] ErrTPMInvalidStatement statement)
    (and_then (attstmt_String (statementField statement ''ver'') ErrTPMInvalidStatement) (\<lambda>version.
     and_then (attstmt_Algorithm (statementField statement ''alg'') ErrTPMInvalidStatement) (\<lambda>algorithm.
     and_then (attstmt_X5C (statementField statement ''x5c'') ErrTPMInvalidStatement) (\<lambda>x5c.
     and_then (attstmt_Bytes (statementField statement ''sig'') ErrTPMInvalidStatement) (\<lambda>signature.
     and_then (attstmt_Bytes (statementField statement ''certInfo'') ErrTPMInvalidStatement) (\<lambda>certInfo.
     and_then (attstmt_Bytes (statementField statement ''pubArea'') ErrTPMInvalidStatement) (\<lambda>publicArea.
     Inr \<lparr>ts_version = version, ts_algorithm = algorithm, ts_x5c = x5c, ts_signature = signature,
          ts_certInfo = certInfo, ts_publicArea = publicArea\<rparr>))))))))"

section \<open>AIK certificates\<close>

definition oidExtensionSubjectAltName :: OID where "oidExtensionSubjectAltName = [2, 5, 29, 17]"
definition oidAIKEKU :: OID where "oidAIKEKU = [2, 23, 133, 8, 3]"
definition oidTPMManufacturer :: OID where "oidTPMManufacturer = [2, 23, 133, 2, 1]"
definition oidTPMModel :: OID where "oidTPMModel = [2, 23, 133, 2, 2]"
definition oidTPMVersion :: OID where "oidTPMVersion = [2, 23, 133, 2, 3]"

definition subjectEmpty :: "pkix_Name \<Rightarrow> bool" where
  "subjectEmpty subject \<longleftrightarrow>
    name_Country subject = [] \<and> name_Organization subject = [] \<and> name_OrganizationalUnit subject = [] \<and>
    name_Locality subject = [] \<and> name_Province subject = [] \<and> name_StreetAddress subject = [] \<and>
    name_PostalCode subject = [] \<and> name_SerialNumber subject = [] \<and> name_CommonName subject = [] \<and>
    name_Names subject = [] \<and> name_ExtraNames subject = []"

definition hasAIKEKU :: "x509_Certificate \<Rightarrow> bool" where
  "hasAIKEKU certificate \<longleftrightarrow> oidAIKEKU \<in> set (x509_UnknownExtKeyUsage certificate)"

definition upper_hex :: "char \<Rightarrow> bool" where
  "upper_hex c \<longleftrightarrow> CHR ''0'' \<le> c \<and> c \<le> CHR ''9'' \<or> CHR ''A'' \<le> c \<and> c \<le> CHR ''F''"

definition validTPMHexID :: "string \<Rightarrow> bool" where
  "validTPMHexID v \<longleftrightarrow> length v = 11 \<and> take 3 v = ''id:'' \<and> list_all upper_hex (drop 3 v)"

definition tpmAttributeOK :: "NameAttribute \<Rightarrow> bool" where
  "tpmAttributeOK a \<longleftrightarrow> na_Tag a = TagUTF8String \<and>
    (if na_Type a = oidTPMManufacturer \<or> na_Type a = oidTPMVersion then validTPMHexID (na_Value a)
     else na_Value a \<noteq> [])"

definition nameHasTPMAttributes :: "NameAttribute list \<Rightarrow> bool" where
  "nameHasTPMAttributes attributes = eachOnce [oidTPMManufacturer, oidTPMModel, oidTPMVersion] tpmAttributeOK attributes"

definition hasTPMSANAttributes :: "go_pki \<Rightarrow> x509_Certificate \<Rightarrow> bool" where
  "hasTPMSANAttributes pki certificate =
    (case FindExtension certificate oidExtensionSubjectAltName of
       None \<Rightarrow> False
     | Some extension \<Rightarrow>
       if \<not> pkix_Critical extension then False else
       (case Unmarshal_RawSequence (pkix_Value extension) of
          Inr ([generalName], []) \<Rightarrow>
            if raw_Class generalName \<noteq> ClassContextSpecific \<or> raw_Tag generalName \<noteq> 4
              \<or> \<not> raw_IsCompound generalName
            then False
            else (case ParseNameAttributes pki (raw_Bytes generalName) of
                Inl _ \<Rightarrow> False | Inr attributes \<Rightarrow> nameHasTPMAttributes attributes)
        | _ \<Rightarrow> False))"

definition validateAIKCertificate :: "go_pki \<Rightarrow> x509_Certificate \<Rightarrow> AAGUID \<Rightarrow> error option" where
  "validateAIKCertificate pki certificate aaguid =
    (if x509_Version certificate \<noteq> 3 then Some (Sentinel ErrTPMCertificateRequirements)
     else if \<not> subjectEmpty (x509_Subject certificate) then Some (Sentinel ErrTPMCertificateRequirements)
     else if \<not> HasExtension certificate oidExtensionSubjectAltName \<or> \<not> hasTPMSANAttributes pki certificate
     then Some (Sentinel ErrTPMCertificateRequirements)
     else if \<not> hasAIKEKU certificate then Some (Sentinel ErrTPMCertificateRequirements)
     else if \<not> HasExtension certificate oidExtensionBasicConstraints \<or> \<not> x509_BasicConstraintsValid certificate
       \<or> x509_IsCA certificate
     then Some (Sentinel ErrTPMCertificateRequirements)
     else validateAAGUIDExtension ErrTPMCertificateRequirements certificate aaguid)"

section \<open>Verification\<close>

definition tpm_VerifyAttestation ::
  "go_std \<Rightarrow> go_pki \<Rightarrow> SignatureVerifier \<Rightarrow> ctx option \<Rightarrow> VerificationRequest \<Rightarrow> VerificationResult result" where
  "tpm_VerifyAttestation std pki verifier ctx request =
    (if vq_Format request \<noteq> tpm_format \<or> IsNil verifier then Inl (Sentinel ErrTPMInvalidStatement) else
     and_then (tpm_parseStatement (vq_Statement request)) (\<lambda>statement.
     if ts_version statement \<noteq> tpmVersion then Inl (Sentinel ErrTPMInvalidStatement) else
     case signatureAlgorithmSpec (ts_algorithm statement) of
       None \<Rightarrow> Inl (Sentinel ErrTPMUnsupportedAlgorithm)
     | Some signatureSpec \<Rightarrow>
     if bv_len (vq_AuthenticatorData request) = 0 \<or> length (vq_ClientDataHash request) = 0
     then Inl (Sentinel ErrTPMInvalidStatement) else
     and_then (wrap_res ErrTPMInvalidStatement (ParseAuthenticatorData (vq_AuthenticatorData request))) (\<lambda>parsed.
     case pad_AttestedCredentialData parsed of
       None \<Rightarrow> Inl (Sentinel ErrTPMInvalidStatement)
     | Some attested \<Rightarrow>
     and_then (parsePublicArea (ts_publicArea statement)) (\<lambda>publicArea.
     check (validatePublicAreaBinding publicArea (cpk_material (vq_CredentialPublicKey request)))
    (and_then (publicArea_name std pki publicArea) (\<lambda>publicAreaName.
     and_then (tpmHash std pki (spec_hashAlg signatureSpec)
       (SignedData (vq_AuthenticatorData request) (vq_ClientDataHash request))) (\<lambda>extraData.
     and_then (parseCertInfo (ts_certInfo statement)) (\<lambda>certInfo.
     check (validateCertInfoBinding certInfo extraData publicAreaName)
    (and_then (ParseCertificateChain pki (ts_x5c statement) ErrTPMInvalidStatement) (\<lambda>(chain, certificates).
     check (validateAIKCertificate pki (hd certificates) (acd_AAGUID attested))
    (and_then (parseTPMSignature (ts_signature statement) signatureSpec) (\<lambda>signature.
     case PublicKeyMaterial pki (x509_PublicKey (hd certificates)) of
       None \<Rightarrow> Inl (Sentinel ErrTPMUnsupportedKey)
     | Some certificateMaterial \<Rightarrow>
     check (VerifySignature (normalizeContext ctx) verifier (ts_algorithm statement) certificateMaterial []
       (ts_certInfo statement) signature ErrTPMInvalidSignature ErrTPMInvalidSignature)
     (Inr (VerificationResult TypeAttCA (TrustPath TrustPathX509 chain None None) True [] NilIface))))))))))))))"

definition tpm_Verifier :: "go_std \<Rightarrow> go_pki \<Rightarrow> SignatureVerifier \<Rightarrow> Verifier" where
  "tpm_Verifier std pki verifier =
    \<lparr>v_Format = tpm_format, v_VerifyAttestation = tpm_VerifyAttestation std pki verifier\<rparr>"

section \<open>What an accepted statement shows\<close>

lemma tpm_VerifyAttestation_InrE:
  assumes "tpm_VerifyAttestation std pki verifier ctx request = Inr res"
  obtains statement spec parsed attested area name certInfo leaf signature material where
    "vq_Format request = tpm_format" "tpm_parseStatement (vq_Statement request) = Inr statement"
    "signatureAlgorithmSpec (ts_algorithm statement) = Some spec"
    "ParseAuthenticatorData (vq_AuthenticatorData request) = Inr parsed"
    "pad_AttestedCredentialData parsed = Some attested" "parsePublicArea (ts_publicArea statement) = Inr area"
    "validatePublicAreaBinding area (cpk_material (vq_CredentialPublicKey request)) = None"
    "publicArea_name std pki area = Inr name" "parseCertInfo (ts_certInfo statement) = Inr certInfo"
    "tpmHash std pki (spec_hashAlg spec) (bv_bytes (vq_AuthenticatorData request) @ vq_ClientDataHash request)
      = Inr (ci_extraData certInfo)" "ci_name certInfo = name"
    "ts_x5c statement \<noteq> []" "pki_ParseCertificate pki (hd (ts_x5c statement)) = Inr leaf"
    "validateAIKCertificate pki leaf (acd_AAGUID attested) = None"
    "parseTPMSignature (ts_signature statement) spec = Inr signature"
    "PublicKeyMaterial pki (x509_PublicKey leaf) = Some material"
    "VerifySignature (normalizeContext ctx) verifier (ts_algorithm statement) material [] (ts_certInfo statement)
      signature ErrTPMInvalidSignature ErrTPMInvalidSignature = None"
    "res = VerificationResult TypeAttCA (TrustPath TrustPathX509 (ts_x5c statement) None None) True [] NilIface"
proof -
  from assms obtain statement spec parsed attested area name certInfo extra certificates signature material where
    facts: "vq_Format request = tpm_format" "tpm_parseStatement (vq_Statement request) = Inr statement"
    "signatureAlgorithmSpec (ts_algorithm statement) = Some spec"
    "ParseAuthenticatorData (vq_AuthenticatorData request) = Inr parsed"
    "pad_AttestedCredentialData parsed = Some attested" "parsePublicArea (ts_publicArea statement) = Inr area"
    "validatePublicAreaBinding area (cpk_material (vq_CredentialPublicKey request)) = None"
    "publicArea_name std pki area = Inr name" "parseCertInfo (ts_certInfo statement) = Inr certInfo"
    "tpmHash std pki (spec_hashAlg spec) (bv_bytes (vq_AuthenticatorData request) @ vq_ClientDataHash request) = Inr extra"
    "validateCertInfoBinding certInfo extra name = None"
    and certificates: "ts_x5c statement \<noteq> []"
      "list_all2 (\<lambda>raw c. pki_ParseCertificate pki raw = Inr c) (ts_x5c statement) certificates"
    and rest: "validateAIKCertificate pki (hd certificates) (acd_AAGUID attested) = None"
    "parseTPMSignature (ts_signature statement) spec = Inr signature"
    "PublicKeyMaterial pki (x509_PublicKey (hd certificates)) = Some material"
    "VerifySignature (normalizeContext ctx) verifier (ts_algorithm statement) material [] (ts_certInfo statement)
      signature ErrTPMInvalidSignature ErrTPMInvalidSignature = None"
    "res = VerificationResult TypeAttCA (TrustPath TrustPathX509 (ts_x5c statement) None None) True [] NilIface"
    by (auto simp: tpm_VerifyAttestation_def if_Inl_Inr_iff case_option_Inl_iff and_then_Inr_iff check_Inr_iff
        ParseCertificateChain_Inr_iff simp del: VerifySignature_None_iff)
  have "pki_ParseCertificate pki (hd (ts_x5c statement)) = Inr (hd certificates)"
    by (rule leaf_parsed [OF certificates])
  moreover have "ci_extraData certInfo = extra" "ci_name certInfo = name"
    using facts(11) by (auto simp: validateCertInfoBinding_def split: if_splits)
  ultimately show ?thesis
    using that facts certificates rest by blast
qed

end
