(* ===== verification/Attestation_AndroidKey.thy ===== *)
theory Attestation_AndroidKey
  imports X509_Util
begin

text \<open>
  \<^verbatim>\<open>src/attestation/androidkey\<close>: the \<^verbatim>\<open>android-key\<close> format and its certificate extension, a DER
  structure with the challenge of the ceremony and the authorization lists of the key.
\<close>

abbreviation ErrAndroidInvalidStatement :: sentinel where
  "ErrAndroidInvalidStatement \<equiv> ErrAttestation FormatAndroidKey InvalidStatement"
abbreviation ErrAndroidUnsupportedKey :: sentinel where
  "ErrAndroidUnsupportedKey \<equiv> ErrAttestation FormatAndroidKey UnsupportedKey"
abbreviation ErrAndroidPublicKeyMismatch :: sentinel where
  "ErrAndroidPublicKeyMismatch \<equiv> ErrAttestation FormatAndroidKey PublicKeyMismatch"
abbreviation ErrAndroidInvalidSignature :: sentinel where
  "ErrAndroidInvalidSignature \<equiv> ErrAttestation FormatAndroidKey InvalidSignature"
abbreviation ErrAndroidInvalidExtension :: sentinel where
  "ErrAndroidInvalidExtension \<equiv> ErrAttestation FormatAndroidKey InvalidExtension"
abbreviation ErrAndroidCertificateRequirements :: sentinel where
  "ErrAndroidCertificateRequirements \<equiv> ErrAttestation FormatAndroidKey CertificateRequirements"

definition androidkey_format :: string where "androidkey_format = ''android-key''"
definition oidExtensionAndroidKeyAttestation :: OID where
  "oidExtensionAndroidKeyAttestation = [1, 3, 6, 1, 4, 1, 11129, 2, 1, 17]"

definition androidKeyPurposeSign :: int where "androidKeyPurposeSign = 2"
definition androidKeyOriginGenerated :: int where "androidKeyOriginGenerated = 0"
definition androidSecurityLevelSoftware :: int where "androidSecurityLevelSoftware = 0"
definition androidSecurityLevelTEE :: int where "androidSecurityLevelTEE = 1"
definition androidSecurityLevelStrongBox :: int where "androidSecurityLevelStrongBox = 2"
definition androidTagPurpose :: int where "androidTagPurpose = 1"
definition androidTagAllApplications :: int where "androidTagAllApplications = 600"
definition androidTagOrigin :: int where "androidTagOrigin = 702"

section \<open>DER values\<close>

text \<open>
  The rest after an element is always shorter than the input (\<open>Unmarshal_Raw_shorter\<close>), so the
  guard of the source against an empty element never applies.
\<close>

definition parseASN1Items :: "bytes \<Rightarrow> asn1_RawValue list result" where
  "parseASN1Items data = wrap_res ErrAndroidInvalidExtension (rawElements data)"

definition parseSequenceValue :: "asn1_RawValue \<Rightarrow> asn1_RawValue list result" where
  "parseSequenceValue raw =
    (if \<not> constructed TagSequence raw then Inl (Sentinel ErrAndroidInvalidExtension)
     else parseASN1Items (raw_Bytes raw))"

text \<open>\<^verbatim>\<open>asn1.Unmarshal\<close> of a whole value: an error of the package wraps the library's, trailing bytes are its own.\<close>

definition whole :: "('a \<times> bytes) result \<Rightarrow> 'a result" where
  "whole r = and_then (wrap_res ErrAndroidInvalidExtension r) (\<lambda>(v, rest).
    if rest \<noteq> [] then Inl (Sentinel ErrAndroidInvalidExtension) else Inr v)"

definition parseSequence :: "bytes \<Rightarrow> asn1_RawValue list result" where
  "parseSequence raw = and_then (whole (Unmarshal_Raw raw)) parseSequenceValue"

definition parseOctetString :: "asn1_RawValue \<Rightarrow> bytes result" where
  "parseOctetString raw = whole (Unmarshal_Octets (raw_FullBytes raw))"

definition parseInteger :: "asn1_RawValue \<Rightarrow> int result" where
  "parseInteger raw = whole (Unmarshal_Int (raw_FullBytes raw))"

definition parseSecurityLevel :: "asn1_RawValue \<Rightarrow> int result" where
  "parseSecurityLevel raw =
    (case Unmarshal_Enumerated (raw_FullBytes raw) of
       Inl _ \<Rightarrow> Inl (Sentinel ErrAndroidInvalidExtension)
     | Inr (out, rest) \<Rightarrow>
       if rest \<noteq> [] then Inl (Sentinel ErrAndroidInvalidExtension)
       else if out \<noteq> androidSecurityLevelSoftware \<and> out \<noteq> androidSecurityLevelTEE \<and> out \<noteq> androidSecurityLevelStrongBox
       then Inl (Sentinel ErrAndroidInvalidExtension)
       else Inr out)"

definition explicitField :: "asn1_RawValue \<Rightarrow> bool" where
  "explicitField raw \<longleftrightarrow> raw_Class raw = ClassContextSpecific \<and> raw_IsCompound raw"

definition parseExplicitInt :: "asn1_RawValue \<Rightarrow> int result" where
  "parseExplicitInt raw =
    (if \<not> explicitField raw then Inl (Sentinel ErrAndroidInvalidExtension)
     else whole (Unmarshal_Int (raw_Bytes raw)))"

definition parseExplicitIntSet :: "asn1_RawValue \<Rightarrow> int list result" where
  "parseExplicitIntSet raw =
    (if \<not> explicitField raw then Inl (Sentinel ErrAndroidInvalidExtension) else
     and_then (whole (Unmarshal_Raw (raw_Bytes raw))) (\<lambda>set.
     if \<not> constructed TagSet set then Inl (Sentinel ErrAndroidInvalidExtension) else
     and_then (parseASN1Items (raw_Bytes set)) (map_res parseInteger)))"

definition parseExplicitNull :: "asn1_RawValue \<Rightarrow> error option" where
  "parseExplicitNull raw =
    (if \<not> explicitField raw then Some (Sentinel ErrAndroidInvalidExtension) else
     and_err (whole (Unmarshal_Raw (raw_Bytes raw))) (\<lambda>nullValue.
     if raw_Class nullValue \<noteq> ClassUniversal \<or> raw_Tag nullValue \<noteq> TagNull \<or> raw_IsCompound nullValue
       \<or> length (raw_Bytes nullValue) \<noteq> 0
     then Some (Sentinel ErrAndroidInvalidExtension) else None))"

section \<open>Key descriptions\<close>

record androidAuthorizationList =
  al_purposes :: "int list"
  al_origins :: "int list"
  al_allApplications :: bool

record androidKeyDescription =
  kd_attestationSecurityLevel :: int
  kd_keymasterSecurityLevel :: int
  kd_attestationChallenge :: bytes
  kd_softwareEnforced :: androidAuthorizationList
  kd_hardwareEnforced :: androidAuthorizationList

text \<open>The loop over the fields of an authorization list, with the tags seen so far.\<close>

fun authorizationFields :: "int list \<Rightarrow> androidAuthorizationList \<Rightarrow> asn1_RawValue list \<Rightarrow> androidAuthorizationList result" where
  "authorizationFields seen lst [] = Inr lst"
| "authorizationFields seen lst (field # tail) =
    (if \<not> explicitField field \<or> raw_Tag field \<in> set seen then Inl (Sentinel ErrAndroidInvalidExtension) else
     case Unmarshal_Raw (raw_Bytes field) of
       Inl _ \<Rightarrow> Inl (Sentinel ErrAndroidInvalidExtension)
     | Inr (v, rest) \<Rightarrow>
       if rest \<noteq> [] then Inl (Sentinel ErrAndroidInvalidExtension) else
       and_then
        (if raw_Tag field = androidTagPurpose then
           and_then (parseExplicitIntSet field) (\<lambda>purposes. Inr (lst\<lparr>al_purposes := al_purposes lst @ purposes\<rparr>))
         else if raw_Tag field = androidTagAllApplications then
           check (parseExplicitNull field) (Inr (lst\<lparr>al_allApplications := True\<rparr>))
         else if raw_Tag field = androidTagOrigin then
           and_then (parseExplicitInt field) (\<lambda>origin. Inr (lst\<lparr>al_origins := al_origins lst @ [origin]\<rparr>))
         else Inr lst)
        (\<lambda>lst. authorizationFields (raw_Tag field # seen) lst tail))"

definition parseAuthorizationList :: "asn1_RawValue \<Rightarrow> androidAuthorizationList result" where
  "parseAuthorizationList raw =
    and_then (parseSequenceValue raw)
      (authorizationFields [] \<lparr>al_purposes = [], al_origins = [], al_allApplications = False\<rparr>)"

definition parseAndroidKeyDescription :: "bytes \<Rightarrow> androidKeyDescription result" where
  "parseAndroidKeyDescription raw =
    and_then (parseSequence raw) (\<lambda>items.
    if length items \<noteq> 8 then Inl (Sentinel ErrAndroidInvalidExtension) else
    and_then (parseInteger (items ! 0)) (\<lambda>attestationVersion.
    and_then (parseInteger (items ! 2)) (\<lambda>keymasterVersion.
    and_then (parseOctetString (items ! 5)) (\<lambda>uniqueId.
    and_then (parseOctetString (items ! 4)) (\<lambda>challenge.
    and_then (parseAuthorizationList (items ! 6)) (\<lambda>softwareEnforced.
    and_then (parseAuthorizationList (items ! 7)) (\<lambda>hardwareEnforced.
    and_then (parseSecurityLevel (items ! 1)) (\<lambda>attestationSecurityLevel.
    and_then (parseSecurityLevel (items ! 3)) (\<lambda>keymasterSecurityLevel.
    Inr \<lparr>kd_attestationSecurityLevel = attestationSecurityLevel, kd_keymasterSecurityLevel = keymasterSecurityLevel,
         kd_attestationChallenge = challenge, kd_softwareEnforced = softwareEnforced,
         kd_hardwareEnforced = hardwareEnforced\<rparr>)))))))))"

definition hardwareSecurityLevel :: "int \<Rightarrow> bool" where
  "hardwareSecurityLevel level \<longleftrightarrow> level = androidSecurityLevelTEE \<or> level = androidSecurityLevelStrongBox"

definition authorizationListsExactlyMatchWebAuthn :: "androidAuthorizationList list \<Rightarrow> bool" where
  "authorizationListsExactlyMatchWebAuthn selected =
    (let origins = remdups (concat (map al_origins selected)); purposes = remdups (concat (map al_purposes selected)) in
     androidKeyOriginGenerated \<in> set origins \<and> androidKeyPurposeSign \<in> set purposes
       \<and> length origins = 1 \<and> length purposes = 1)"

definition validateAndroidKeyExtension :: "bytes \<Rightarrow> bytes \<Rightarrow> bool \<Rightarrow> error option" where
  "validateAndroidKeyExtension raw clientDataHash requireHardwareEnforced =
    and_err (parseAndroidKeyDescription raw) (\<lambda>description.
    if kd_attestationChallenge description \<noteq> clientDataHash then Some (Sentinel ErrAndroidCertificateRequirements)
    else if al_allApplications (kd_softwareEnforced description) \<or> al_allApplications (kd_hardwareEnforced description)
    then Some (Sentinel ErrAndroidCertificateRequirements)
    else if requireHardwareEnforced \<and> (\<not> hardwareSecurityLevel (kd_attestationSecurityLevel description)
      \<or> \<not> hardwareSecurityLevel (kd_keymasterSecurityLevel description))
    then Some (Sentinel ErrAndroidCertificateRequirements)
    else if \<not> authorizationListsExactlyMatchWebAuthn
      (if requireHardwareEnforced then [kd_hardwareEnforced description]
       else [kd_softwareEnforced description, kd_hardwareEnforced description])
    then Some (Sentinel ErrAndroidCertificateRequirements)
    else None)"

section \<open>Verification\<close>

record androidKeyStatement =
  aks_algorithm :: COSEAlgorithmIdentifier
  aks_signature :: bytes
  aks_x5c :: "bytes list"

definition androidkey_parseStatement :: "AttestationStatement \<Rightarrow> androidKeyStatement result" where
  "androidkey_parseStatement statement =
    (if length statement \<noteq> 3 then Inl (Sentinel ErrAndroidInvalidStatement) else
     check (unexpectedField [''alg'', ''sig'', ''x5c''] ErrAndroidInvalidStatement statement)
    (and_then (attstmt_Algorithm (statementField statement ''alg'') ErrAndroidInvalidStatement) (\<lambda>algorithm.
     and_then (attstmt_Bytes (statementField statement ''sig'') ErrAndroidInvalidStatement) (\<lambda>signature.
     and_then (attstmt_X5C (statementField statement ''x5c'') ErrAndroidInvalidStatement) (\<lambda>x5c.
     Inr \<lparr>aks_algorithm = algorithm, aks_signature = signature, aks_x5c = x5c\<rparr>)))))"

definition androidkey_VerifyAttestation ::
  "go_pki \<Rightarrow> SignatureVerifier \<Rightarrow> bool \<Rightarrow> ctx option \<Rightarrow> VerificationRequest \<Rightarrow> VerificationResult result" where
  "androidkey_VerifyAttestation pki verifier requireHardwareEnforced ctx request =
    (if vq_Format request \<noteq> androidkey_format \<or> IsNil verifier then Inl (Sentinel ErrAndroidInvalidStatement) else
     and_then (androidkey_parseStatement (vq_Statement request)) (\<lambda>statement.
     if bv_len (vq_AuthenticatorData request) = 0 \<or> length (vq_ClientDataHash request) = 0
     then Inl (Sentinel ErrAndroidInvalidStatement) else
     and_then (ParseCertificateChain pki (aks_x5c statement) ErrAndroidInvalidStatement) (\<lambda>(chain, certificates).
     check (ValidatePublicKey pki (x509_PublicKey (hd certificates)) (cpk_material (vq_CredentialPublicKey request))
       ErrAndroidUnsupportedKey ErrAndroidPublicKeyMismatch)
    (case FindExtension (hd certificates) oidExtensionAndroidKeyAttestation of
       None \<Rightarrow> Inl (Sentinel ErrAndroidCertificateRequirements)
     | Some extension \<Rightarrow>
     check (validateAndroidKeyExtension (pkix_Value extension) (vq_ClientDataHash request) requireHardwareEnforced)
    (case PublicKeyMaterial pki (x509_PublicKey (hd certificates)) of
       None \<Rightarrow> Inl (Sentinel ErrAndroidUnsupportedKey)
     | Some leafMaterial \<Rightarrow>
     check (VerifySignature (normalizeContext ctx) verifier (aks_algorithm statement) leafMaterial []
       (SignedData (vq_AuthenticatorData request) (vq_ClientDataHash request)) (aks_signature statement)
       ErrAndroidInvalidSignature ErrAndroidInvalidSignature)
     (Inr (VerificationResult TypeBasic (TrustPath TrustPathX509 chain None None) True [] NilIface)))))))"

definition androidkey_Verifier :: "go_pki \<Rightarrow> SignatureVerifier \<Rightarrow> bool \<Rightarrow> Verifier" where
  "androidkey_Verifier pki verifier requireHardwareEnforced =
    \<lparr>v_Format = androidkey_format,
     v_VerifyAttestation = androidkey_VerifyAttestation pki verifier requireHardwareEnforced\<rparr>"

section \<open>What an accepted statement shows\<close>

text \<open>
  The lists that count have one origin, generated in the key store, and one purpose, signing;
  a policy for hardware looks at the hardware list alone.
\<close>

lemma length_remdups_1: "length (remdups xs) = 1 \<and> x \<in> set xs \<longleftrightarrow> set xs = {x}"
proof -
  have "length (remdups xs) = card (set xs)"
    by (simp add: length_remdups_card_conv)
  then show ?thesis
    by (auto simp: card_1_singleton_iff)
qed

lemma authorizationListsExactlyMatchWebAuthn_iff:
  "authorizationListsExactlyMatchWebAuthn selected \<longleftrightarrow>
    (\<Union>l\<in>set selected. set (al_origins l)) = {androidKeyOriginGenerated} \<and>
    (\<Union>l\<in>set selected. set (al_purposes l)) = {androidKeyPurposeSign}"
  using length_remdups_1 [of "concat (map al_origins selected)" androidKeyOriginGenerated]
    length_remdups_1 [of "concat (map al_purposes selected)" androidKeyPurposeSign]
  by (simp add: authorizationListsExactlyMatchWebAuthn_def Let_def) blast

lemma validateAndroidKeyExtension_NoneE:
  assumes "validateAndroidKeyExtension raw hash hardware = None"
  obtains description where "parseAndroidKeyDescription raw = Inr description"
    "kd_attestationChallenge description = hash" "\<not> al_allApplications (kd_softwareEnforced description)"
    "\<not> al_allApplications (kd_hardwareEnforced description)"
    "hardware \<longrightarrow> hardwareSecurityLevel (kd_attestationSecurityLevel description)
      \<and> hardwareSecurityLevel (kd_keymasterSecurityLevel description)"
    "authorizationListsExactlyMatchWebAuthn (if hardware then [kd_hardwareEnforced description]
      else [kd_softwareEnforced description, kd_hardwareEnforced description])"
  using assms that unfolding validateAndroidKeyExtension_def and_err_None_iff if_Some_None_iff by blast

lemma androidkey_VerifyAttestation_InrE:
  assumes "androidkey_VerifyAttestation pki verifier hardware ctx request = Inr res"
  obtains statement leaf extension material where "vq_Format request = androidkey_format"
    "androidkey_parseStatement (vq_Statement request) = Inr statement"
    "aks_x5c statement \<noteq> []" "pki_ParseCertificate pki (hd (aks_x5c statement)) = Inr leaf"
    "ValidatePublicKey pki (x509_PublicKey leaf) (cpk_material (vq_CredentialPublicKey request))
       ErrAndroidUnsupportedKey ErrAndroidPublicKeyMismatch = None"
    "FindExtension leaf oidExtensionAndroidKeyAttestation = Some extension"
    "validateAndroidKeyExtension (pkix_Value extension) (vq_ClientDataHash request) hardware = None"
    "PublicKeyMaterial pki (x509_PublicKey leaf) = Some material"
    "VerifySignature (normalizeContext ctx) verifier (aks_algorithm statement) material []
       (bv_bytes (vq_AuthenticatorData request) @ vq_ClientDataHash request) (aks_signature statement)
       ErrAndroidInvalidSignature ErrAndroidInvalidSignature = None"
    "res = VerificationResult TypeBasic (TrustPath TrustPathX509 (aks_x5c statement) None None) True [] NilIface"
proof -
  from assms obtain statement certificates extension material where facts: "vq_Format request = androidkey_format"
    "androidkey_parseStatement (vq_Statement request) = Inr statement"
    and certificates: "aks_x5c statement \<noteq> []"
      "list_all2 (\<lambda>raw c. pki_ParseCertificate pki raw = Inr c) (aks_x5c statement) certificates"
    and rest: "ValidatePublicKey pki (x509_PublicKey (hd certificates)) (cpk_material (vq_CredentialPublicKey request))
       ErrAndroidUnsupportedKey ErrAndroidPublicKeyMismatch = None"
    "FindExtension (hd certificates) oidExtensionAndroidKeyAttestation = Some extension"
    "validateAndroidKeyExtension (pkix_Value extension) (vq_ClientDataHash request) hardware = None"
    "PublicKeyMaterial pki (x509_PublicKey (hd certificates)) = Some material"
    "VerifySignature (normalizeContext ctx) verifier (aks_algorithm statement) material []
       (bv_bytes (vq_AuthenticatorData request) @ vq_ClientDataHash request) (aks_signature statement)
       ErrAndroidInvalidSignature ErrAndroidInvalidSignature = None"
    "res = VerificationResult TypeBasic (TrustPath TrustPathX509 (aks_x5c statement) None None) True [] NilIface"
    by (auto simp: androidkey_VerifyAttestation_def if_Inl_Inr_iff case_option_Inl_iff and_then_Inr_iff check_Inr_iff
        ParseCertificateChain_Inr_iff simp del: VerifySignature_None_iff)
  then show ?thesis
    using that leaf_parsed [OF certificates] by blast
qed

end
