(* ===== verification/Attestation_SafetyNet.thy ===== *)
theory Attestation_SafetyNet
  imports X509_Util Protocol_ClientData
begin

text \<open>
  \<^verbatim>\<open>src/attestation/androidsafetynet\<close>: the \<^verbatim>\<open>android-safetynet\<close> format. An injected verifier checks the
  JWS; this package binds its payload to the ceremony, the application and a time window.
\<close>

abbreviation ErrSafetyNetInvalidStatement :: sentinel where
  "ErrSafetyNetInvalidStatement \<equiv> ErrAttestation FormatSafetyNet InvalidStatement"
abbreviation ErrSafetyNetInvalidJWS :: sentinel where
  "ErrSafetyNetInvalidJWS \<equiv> ErrAttestation FormatSafetyNet InvalidJWS"
abbreviation ErrSafetyNetInvalidPayload :: sentinel where
  "ErrSafetyNetInvalidPayload \<equiv> ErrAttestation FormatSafetyNet InvalidPayload"
abbreviation ErrSafetyNetInvalidNonce :: sentinel where
  "ErrSafetyNetInvalidNonce \<equiv> ErrAttestation FormatSafetyNet InvalidNonce"
abbreviation ErrSafetyNetCertificateRequirements :: sentinel where
  "ErrSafetyNetCertificateRequirements \<equiv> ErrAttestation FormatSafetyNet CertificateRequirements"
abbreviation ErrSafetyNetPolicyConfiguration :: sentinel where
  "ErrSafetyNetPolicyConfiguration \<equiv> ErrAttestation FormatSafetyNet PolicyConfiguration"

definition safetynet_format :: string where "safetynet_format = ''android-safetynet''"
definition safetyNetAttestDNSName :: string where "safetyNetAttestDNSName = ''attest.android.com''"

section \<open>Standard base64\<close>

text \<open>
  \<^verbatim>\<open>base64.StdEncoding\<close>: the other alphabet and padding to a multiple of four characters. The
  strict decoder skips line breaks as the URL decoder does.
\<close>

definition std64_char :: "char \<Rightarrow> char" where
  "std64_char c = (if c = CHR ''-'' then CHR ''+'' else if c = CHR ''_'' then CHR ''/'' else c)"

definition url64_char :: "char \<Rightarrow> char" where
  "url64_char c = (if c = CHR ''+'' then CHR ''-'' else if c = CHR ''/'' then CHR ''_''
    else if c = CHR ''-'' \<or> c = CHR ''_'' then CHR ''+'' else c)"

definition padding :: "nat \<Rightarrow> string" where
  "padding n = replicate ((4 - n mod 4) mod 4) (CHR ''='')"

definition std64_encode :: "bytes \<Rightarrow> string" where
  "std64_encode bs = (let s = b64_encode bs in map std64_char s @ padding (length s))"

definition std64_decode :: "string \<Rightarrow> bytes option" where
  "std64_decode s =
    (let cs = filter (\<lambda>c. c \<noteq> CHR 0x0a \<and> c \<noteq> CHR 0x0d) s; core = takeWhile (\<lambda>c. c \<noteq> CHR ''='') cs in
     if cs \<noteq> core @ padding (length core) then None else b64_decode (map url64_char core))"

section \<open>Policy\<close>

record safetynet_Policy =
  sn_ExpectedAPKPackageName :: string
  sn_ExpectedAPKCertificateSHA256 :: "bytes list"
  sn_AllowedVersions :: "string list"
  sn_MaxAge :: int
  sn_ClockSkew :: int
  sn_RequireCTSProfileMatch :: bool
  sn_RequireBasicIntegrity :: bool
  sn_Now :: "int option"

definition safetynet_validatePolicy :: "safetynet_Policy \<Rightarrow> error option" where
  "safetynet_validatePolicy policy =
    (if sn_ExpectedAPKPackageName policy = [] \<or> length (sn_ExpectedAPKCertificateSHA256 policy) = 0
       \<or> sn_MaxAge policy \<le> 0 \<or> sn_ClockSkew policy < 0
       \<or> (\<not> sn_RequireCTSProfileMatch policy \<and> \<not> sn_RequireBasicIntegrity policy)
     then Some (Sentinel ErrSafetyNetPolicyConfiguration) else
     or_err (first_err (\<lambda>digest. if length digest \<noteq> 32 then Some (Sentinel ErrSafetyNetPolicyConfiguration) else None)
       (sn_ExpectedAPKCertificateSHA256 policy))
     (if [] \<in> set (sn_AllowedVersions policy) then Some (Sentinel ErrSafetyNetPolicyConfiguration) else None))"

text \<open>\<^verbatim>\<open>Policy.now\<close>; \<open>clock\<close> is what \<^verbatim>\<open>time.Now\<close> returns.\<close>

definition safetynet_now :: "int \<Rightarrow> safetynet_Policy \<Rightarrow> int" where
  "safetynet_now clock policy = (case sn_Now policy of Some t \<Rightarrow> t | None \<Rightarrow> clock)"

section \<open>Statement and payload\<close>

record safetyNetStatement =
  sns_version :: string
  sns_response :: bytes

definition safetynet_parseStatement :: "AttestationStatement \<Rightarrow> safetyNetStatement result" where
  "safetynet_parseStatement statement =
    (if length statement \<noteq> 2 then Inl (Sentinel ErrSafetyNetInvalidStatement) else
     check (unexpectedField [''ver'', ''response''] ErrSafetyNetInvalidStatement statement)
    (and_then (attstmt_String (statementField statement ''ver'') ErrSafetyNetInvalidStatement) (\<lambda>version.
     and_then (attstmt_Bytes (statementField statement ''response'') ErrSafetyNetInvalidStatement) (\<lambda>response.
     Inr \<lparr>sns_version = version, sns_response = response\<rparr>))))"

text \<open>
  \<^verbatim>\<open>json.Unmarshal\<close> into a map of raw values (JSON null leaves it nil), and \<^verbatim>\<open>payloadClaim\<close>: a claim that is
  absent or null is an error, and so is one of another type.
\<close>

fun payloadMembers :: "json option \<Rightarrow> json go_map result" where
  "payloadMembers (Some (JObject ms)) = Inr ms"
| "payloadMembers (Some JNull) = Inr []"
| "payloadMembers _ = Inl (Wrapf ErrSafetyNetInvalidPayload (External ''json''))"

definition payloadClaim :: "(json \<Rightarrow> 'a option) \<Rightarrow> json option \<Rightarrow> 'a result" where
  "payloadClaim decode raw =
    (case raw of None \<Rightarrow> Inl (Sentinel ErrSafetyNetInvalidPayload)
     | Some j \<Rightarrow>
       if j = JNull then Inl (Sentinel ErrSafetyNetInvalidPayload)
       else (case decode j of None \<Rightarrow> Inl (Wrapf ErrSafetyNetInvalidPayload (External ''json'')) | Some v \<Rightarrow> Inr v))"

fun claim_string :: "json \<Rightarrow> string option" where
  "claim_string (JString s) = Some s"
| "claim_string _ = None"

fun claim_bool :: "json \<Rightarrow> bool option" where
  "claim_bool (JBool b) = Some b"
| "claim_bool _ = None"

fun claim_int64 :: "json \<Rightarrow> int option" where
  "claim_int64 (JNumber s) = Atoi s"
| "claim_int64 _ = None"

fun claim_strings :: "json \<Rightarrow> string list option" where
  "claim_strings (JArray js) =
    (case map_res (\<lambda>j. json_string (Some j)) js of Inl _ \<Rightarrow> None | Inr ss \<Rightarrow> Some ss)"
| "claim_strings _ = None"

definition booleanPayloadClaim :: "json go_map \<Rightarrow> string \<Rightarrow> (bool \<times> bool) result" where
  "booleanPayloadClaim payload name =
    (case map_of payload name of None \<Rightarrow> Inr (False, False)
     | Some raw \<Rightarrow> and_then (payloadClaim claim_bool (Some raw)) (\<lambda>v. Inr (v, True)))"

definition parseCertificateDigests :: "string list \<Rightarrow> bytes list result" where
  "parseCertificateDigests values =
    (if length values = 0 then Inl (Sentinel ErrSafetyNetInvalidPayload) else
     map_res (\<lambda>encoded. case std64_decode encoded of
         None \<Rightarrow> Inl (Sentinel ErrSafetyNetInvalidPayload)
       | Some decoded \<Rightarrow>
         if length decoded \<noteq> 32 \<or> std64_encode decoded \<noteq> encoded then Inl (Sentinel ErrSafetyNetInvalidPayload)
         else Inr decoded) values)"

definition containsExpectedDigest :: "bytes list \<Rightarrow> bytes list \<Rightarrow> bool" where
  "containsExpectedDigest actual expected =
    list_ex (\<lambda>candidate. list_ex (\<lambda>allowed. ConstantTimeCompare candidate allowed = 1) expected) actual"

text \<open>\<^verbatim>\<open>time.UnixMilli\<close>: nanoseconds since the zero time of Go (1 January of year 1).\<close>

definition UnixMilli :: "int \<Rightarrow> int" where
  "UnixMilli ms = 62135596800 * 1000000000 + ms * 1000000"

definition validatePayload :: "go_std \<Rightarrow> int \<Rightarrow> bytes \<Rightarrow> string \<Rightarrow> string \<Rightarrow> safetynet_Policy \<Rightarrow> Evidence result" where
  "validatePayload std clock raw nonceExpected version policy =
    and_then (payloadMembers (std_json std raw)) (\<lambda>payload.
    if length (sn_AllowedVersions policy) \<noteq> 0 \<and> version \<notin> set (sn_AllowedVersions policy)
    then Inl (Sentinel ErrSafetyNetInvalidPayload) else
    case payloadClaim claim_string (map_of payload ''nonce'') of
      Inl _ \<Rightarrow> Inl (Sentinel ErrSafetyNetInvalidPayload)
    | Inr nonce \<Rightarrow>
    if nonce = [] then Inl (Sentinel ErrSafetyNetInvalidPayload)
    else if ConstantTimeCompare (bytes_of_string nonce) (bytes_of_string nonceExpected) \<noteq> 1
    then Inl (Sentinel ErrSafetyNetInvalidNonce) else
    and_then (booleanPayloadClaim payload ''ctsProfileMatch'') (\<lambda>(cts, ctsPresent).
    if sn_RequireCTSProfileMatch policy \<and> (\<not> ctsPresent \<or> \<not> cts) then Inl (Sentinel ErrSafetyNetInvalidPayload) else
    and_then (booleanPayloadClaim payload ''basicIntegrity'') (\<lambda>(basic, basicPresent).
    if sn_RequireBasicIntegrity policy \<and> (\<not> basicPresent \<or> \<not> basic) then Inl (Sentinel ErrSafetyNetInvalidPayload) else
    case payloadClaim claim_int64 (map_of payload ''timestampMs'') of
      Inl _ \<Rightarrow> Inl (Sentinel ErrSafetyNetInvalidPayload)
    | Inr timestamp \<Rightarrow>
    if timestamp \<le> 0 then Inl (Sentinel ErrSafetyNetInvalidPayload) else
    let timestampTime = UnixMilli timestamp; now = safetynet_now clock policy in
    if timestampTime < now - sn_MaxAge policy \<or> timestampTime > now + sn_ClockSkew policy
    then Inl (Sentinel ErrSafetyNetInvalidPayload) else
    case payloadClaim claim_string (map_of payload ''apkPackageName'') of
      Inl _ \<Rightarrow> Inl (Sentinel ErrSafetyNetInvalidPayload)
    | Inr packageName \<Rightarrow>
    if packageName \<noteq> sn_ExpectedAPKPackageName policy then Inl (Sentinel ErrSafetyNetInvalidPayload) else
    and_then (payloadClaim claim_strings (map_of payload ''apkCertificateDigestSha256'')) (\<lambda>encodedDigests.
    case parseCertificateDigests encodedDigests of
      Inl _ \<Rightarrow> Inl (Sentinel ErrSafetyNetInvalidPayload)
    | Inr digests \<Rightarrow>
    if \<not> containsExpectedDigest digests (sn_ExpectedAPKCertificateSHA256 policy)
    then Inl (Sentinel ErrSafetyNetInvalidPayload)
    else Inr (SafetyNetEvidence version timestampTime packageName digests cts basic)))))"

section \<open>Verification\<close>

definition safetynet_expectedNonce :: "go_std \<Rightarrow> AuthenticatorData \<Rightarrow> bytes \<Rightarrow> string" where
  "safetynet_expectedNonce std authenticatorData clientDataHash =
    std64_encode (std_Sum256 std (SignedData authenticatorData clientDataHash))"

definition validateSafetyNetCertificate :: "go_pki \<Rightarrow> CertificateChain \<Rightarrow> error option" where
  "validateSafetyNetCertificate pki chain =
    (if chain = [] then Some (Sentinel ErrSafetyNetCertificateRequirements) else
     and_err (wrap_res ErrSafetyNetCertificateRequirements (pki_ParseCertificate pki (hd chain))) (\<lambda>leaf.
     wrap_err ErrSafetyNetCertificateRequirements (x509_VerifyHostname leaf safetyNetAttestDNSName)))"

definition safetynet_VerifyAttestation ::
  "go_std \<Rightarrow> go_pki \<Rightarrow> int \<Rightarrow> JWSVerifier \<Rightarrow> safetynet_Policy \<Rightarrow> ctx option \<Rightarrow> VerificationRequest
    \<Rightarrow> VerificationResult result" where
  "safetynet_VerifyAttestation std pki clock jws policy ctx request =
    (case jws of
       Impl verifyJWS \<Rightarrow>
       if vq_Format request \<noteq> safetynet_format then Inl (Sentinel ErrSafetyNetInvalidStatement) else
       check (safetynet_validatePolicy policy)
      (and_then (safetynet_parseStatement (vq_Statement request)) (\<lambda>statement.
       if bv_len (vq_AuthenticatorData request) = 0 \<or> length (vq_ClientDataHash request) = 0
       then Inl (Sentinel ErrSafetyNetInvalidStatement) else
       and_then (wrap_res ErrSafetyNetInvalidJWS (verifyJWS (normalizeContext ctx) (sns_response statement))) (\<lambda>verification.
       check (validateSafetyNetCertificate pki (jws_Certificates verification))
      (and_then (validatePayload std clock (jws_Payload verification)
         (safetynet_expectedNonce std (vq_AuthenticatorData request) (vq_ClientDataHash request))
         (sns_version statement) policy) (\<lambda>evidence.
       Inr (VerificationResult TypeBasic
         (TrustPath TrustPathX509 (jws_Certificates verification) None None) True [] (Impl evidence)))))))
     | _ \<Rightarrow> Inl (Sentinel ErrSafetyNetInvalidStatement))"

definition safetynet_Verifier :: "go_std \<Rightarrow> go_pki \<Rightarrow> int \<Rightarrow> JWSVerifier \<Rightarrow> safetynet_Policy \<Rightarrow> Verifier" where
  "safetynet_Verifier std pki clock jws policy =
    \<lparr>v_Format = safetynet_format, v_VerifyAttestation = safetynet_VerifyAttestation std pki clock jws policy\<rparr>"

section \<open>Round trip of standard base64\<close>

lemma std64_url64: "b64_val c \<noteq> None \<Longrightarrow> url64_char (std64_char c) = c \<and> std64_char c \<noteq> CHR ''='' \<and>
    std64_char c \<noteq> CHR 0x0a \<and> std64_char c \<noteq> CHR 0x0d"
proof -
  assume "b64_val c \<noteq> None"
  then have "c \<in> set b64_alphabet"
    using map_of_zip_is_None [of b64_alphabet "[0..<64]" c] by (simp add: b64_val_def length_b64_alphabet)
  then show ?thesis
    unfolding b64_alphabet_def by (auto simp: std64_char_def url64_char_def)
qed

lemma std64_decode_encode [simp]: "std64_decode (std64_encode bs) = Some bs"
proof -
  define s where "s = b64_encode bs"
  have chars: "c \<in> set s \<Longrightarrow> b64_val c \<noteq> None" for c
    using b64_encode_chars [of bs] by (auto simp: s_def list_all_iff)
  have core: "filter (\<lambda>c. c \<noteq> CHR 0x0a \<and> c \<noteq> CHR 0x0d) (map std64_char s @ padding n) = map std64_char s @ padding n" for n
    using std64_url64 chars by (auto simp: filter_id_conv padding_def)
  have take: "takeWhile (\<lambda>c. c \<noteq> CHR ''='') (map std64_char s @ padding n) = map std64_char s" for n
    using std64_url64 chars by (subst takeWhile_append2) (auto simp: padding_def takeWhile_replicate)
  have inverse: "map url64_char (map std64_char s) = s"
    using std64_url64 chars by (simp add: map_idI)
  show ?thesis
    unfolding std64_decode_def std64_encode_def Let_def s_def [symmetric] core take length_map inverse by (simp add: s_def)
qed

lemma parseCertificateDigests_Inr_iff:
  "parseCertificateDigests encoded = Inr digests \<longleftrightarrow>
    encoded \<noteq> [] \<and> encoded = map std64_encode digests \<and> (\<forall>d\<in>set digests. length d = 32)"
proof -
  have one: "(case std64_decode e of None \<Rightarrow> Inl (Sentinel ErrSafetyNetInvalidPayload)
       | Some d \<Rightarrow> if length d \<noteq> 32 \<or> std64_encode d \<noteq> e then Inl (Sentinel ErrSafetyNetInvalidPayload) else Inr d) = Inr d
      \<longleftrightarrow> e = std64_encode d \<and> length d = 32" for e d
    by (auto split: option.splits if_splits)
  have "map_res f es = Inr ds \<longleftrightarrow> es = map std64_encode ds \<and> (\<forall>d\<in>set ds. length d = 32)"
    if "\<And>e d. f e = Inr d \<longleftrightarrow> e = std64_encode d \<and> length d = 32" for f es ds
    unfolding map_res_Inr_iff that
    by (induction es arbitrary: ds) (auto simp: list_all2_Cons1 Cons_eq_map_conv)
  from this [OF one] show ?thesis
    by (auto simp: parseCertificateDigests_def)
qed

section \<open>What an accepted statement shows\<close>

lemma case_sum_Inl_iff: "(case r of Inl _ \<Rightarrow> Inl e | Inr x \<Rightarrow> f x) = Inr y \<longleftrightarrow> (\<exists>x. r = Inr x \<and> f x = Inr y)"
  by (cases r) auto

lemma payloadClaim_Inr_iff: "payloadClaim decode raw = Inr v \<longleftrightarrow> (\<exists>j. raw = Some j \<and> j \<noteq> JNull \<and> decode j = Some v)"
  by (auto simp: payloadClaim_def split: option.splits if_splits)

lemma claim_iff: "claim_string j = Some s \<longleftrightarrow> j = JString s" "claim_bool j = Some b \<longleftrightarrow> j = JBool b"
  by (cases j; auto)+

lemma booleanPayloadClaim_Inr_iff:
  "booleanPayloadClaim payload name = Inr (b, present) \<longleftrightarrow>
    (case map_of payload name of None \<Rightarrow> \<not> b \<and> \<not> present | Some j \<Rightarrow> present \<and> j = JBool b)"
  by (auto simp: booleanPayloadClaim_def and_then_Inr_iff payloadClaim_Inr_iff claim_iff split: option.splits)

lemma containsExpectedDigest_iff: "containsExpectedDigest actual expected \<longleftrightarrow> set actual \<inter> set expected \<noteq> {}"
  by (auto simp: containsExpectedDigest_def list_ex_iff ConstantTimeCompare_iff)

lemma validatePayload_InrE:
  assumes "validatePayload std clock raw nonce version policy = Inr evidence"
  obtains payload timestamp digests cts basic where "payloadMembers (std_json std raw) = Inr payload"
    "map_of payload ''nonce'' = Some (JString nonce)"
    "UnixMilli timestamp \<ge> safetynet_now clock policy - sn_MaxAge policy"
    "UnixMilli timestamp \<le> safetynet_now clock policy + sn_ClockSkew policy"
    "map_of payload ''apkPackageName'' = Some (JString (sn_ExpectedAPKPackageName policy))"
    "set digests \<inter> set (sn_ExpectedAPKCertificateSHA256 policy) \<noteq> {}"
    "sn_RequireCTSProfileMatch policy \<longrightarrow> map_of payload ''ctsProfileMatch'' = Some (JBool True)"
    "sn_RequireBasicIntegrity policy \<longrightarrow> map_of payload ''basicIntegrity'' = Some (JBool True)"
    "sn_AllowedVersions policy = [] \<or> version \<in> set (sn_AllowedVersions policy)"
    "evidence = SafetyNetEvidence version (UnixMilli timestamp) (sn_ExpectedAPKPackageName policy) digests cts basic"
proof -
  from assms obtain payload found cts ctsPresent basic basicPresent timestamp packageName encoded digests where
    "payloadMembers (std_json std raw) = Inr payload"
    "\<not> (length (sn_AllowedVersions policy) \<noteq> 0 \<and> version \<notin> set (sn_AllowedVersions policy))"
    "payloadClaim claim_string (map_of payload ''nonce'') = Inr found"
    "\<not> ConstantTimeCompare (bytes_of_string found) (bytes_of_string nonce) \<noteq> 1"
    and claims: "booleanPayloadClaim payload ''ctsProfileMatch'' = Inr (cts, ctsPresent)"
    "\<not> (sn_RequireCTSProfileMatch policy \<and> (\<not> ctsPresent \<or> \<not> cts))"
    "booleanPayloadClaim payload ''basicIntegrity'' = Inr (basic, basicPresent)"
    "\<not> (sn_RequireBasicIntegrity policy \<and> (\<not> basicPresent \<or> \<not> basic))"
    and "\<not> (UnixMilli timestamp < safetynet_now clock policy - sn_MaxAge policy
      \<or> UnixMilli timestamp > safetynet_now clock policy + sn_ClockSkew policy)"
    "payloadClaim claim_string (map_of payload ''apkPackageName'') = Inr packageName"
    "\<not> packageName \<noteq> sn_ExpectedAPKPackageName policy"
    "parseCertificateDigests encoded = Inr digests"
    "\<not> \<not> containsExpectedDigest digests (sn_ExpectedAPKCertificateSHA256 policy)"
    "SafetyNetEvidence version (UnixMilli timestamp) packageName digests cts basic = evidence"
    by (simp only: validatePayload_def and_then_Inr_iff if_Inl_Inr_iff case_sum_Inl_iff Let_def split_paired_Ex prod.case
        sum.inject) (elim exE conjE, blast)
  moreover from claims have "sn_RequireCTSProfileMatch policy \<longrightarrow> map_of payload ''ctsProfileMatch'' = Some (JBool True)"
    "sn_RequireBasicIntegrity policy \<longrightarrow> map_of payload ''basicIntegrity'' = Some (JBool True)"
    by (auto simp: booleanPayloadClaim_Inr_iff split: option.splits)
  ultimately show ?thesis
    using that [of payload timestamp digests cts basic]
    by (auto simp: payloadClaim_Inr_iff claim_iff ConstantTimeCompare_iff containsExpectedDigest_iff)
qed

lemma safetynet_VerifyAttestation_InrE:
  assumes "safetynet_VerifyAttestation std pki clock jws policy ctx request = Inr res"
  obtains verifyJWS statement verification evidence where "jws = Impl verifyJWS" "vq_Format request = safetynet_format"
    "safetynet_validatePolicy policy = None" "safetynet_parseStatement (vq_Statement request) = Inr statement"
    "verifyJWS (normalizeContext ctx) (sns_response statement) = Inr verification"
    "validateSafetyNetCertificate pki (jws_Certificates verification) = None"
    "validatePayload std clock (jws_Payload verification)
      (std64_encode (std_Sum256 std (bv_bytes (vq_AuthenticatorData request) @ vq_ClientDataHash request)))
      (sns_version statement) policy = Inr evidence"
    "res = VerificationResult TypeBasic (TrustPath TrustPathX509 (jws_Certificates verification) None None) True []
      (Impl evidence)"
  using assms that
  by (cases jws) (auto simp: safetynet_VerifyAttestation_def safetynet_expectedNonce_def if_Inl_Inr_iff and_then_Inr_iff
      check_Inr_iff)

end
