(* ===== verification/Attestation_Formats.thy ===== *)
theory Attestation_Formats
  imports Attestation_Compound Attestation_Packed Attestation_U2F Attestation_Apple Attestation_Tpm Attestation_AndroidKey Attestation_SafetyNet
begin

text \<open>
  The contract of a format verifier, as \<^verbatim>\<open>attestation.Registry\<close> and the compound verifier rely on it:
  its format is a valid identifier, it accepts statements of its own format only, and what it
  returns is a result the compound verifier counts. All the verifiers of the program fulfil it.
\<close>

lemmas result_known = Type_Known_def TrustPathKind_Known_def TypeNone_def TypeSelf_def TypeBasic_def TypeAttCA_def
  TypeAnonymizationCA_def TypeUncertain_def TrustPathNone_def TrustPathX509_def TrustPathRaw_def TrustPathCompound_def

lemmas format_names = none_format_def compound_Format_def packed_format_def u2f_format_def apple_format_def
  tpm_format_def androidkey_format_def safetynet_format_def

locale format_verifier =
  fixes verifier :: Verifier
  assumes format_valid: "identifier_Valid (v_Format verifier)"
    and own_format: "v_VerifyAttestation verifier ctx request = Inr res \<Longrightarrow> vq_Format request = v_Format verifier"
    and result_usable: "v_VerifyAttestation verifier ctx request = Inr res \<Longrightarrow> resultUsable res"
begin

lemma registrable: "verifierUsable (Impl verifier)" "verifierFormat (Impl verifier) = v_Format verifier"
  "verifierImpl (Impl verifier) = verifier"
  by (simp_all add: verifierUsable_def verifierFormat_def verifierImpl_def format_valid)

lemma foreign_refused: "vq_Format request \<noteq> v_Format verifier \<Longrightarrow> \<exists>e. v_VerifyAttestation verifier ctx request = Inl e"
  using own_format by (cases "v_VerifyAttestation verifier ctx request") auto

text \<open>A registered verifier's acceptance is a success of the compound verifier, and nothing else is.\<close>

lemma counts_in_compound:
  assumes "att_Lookup registry (css_Format statement) = Some verifier"
  shows "verifiedBy registry ctx request statement = Some r \<longleftrightarrow>
    (\<exists>res. v_VerifyAttestation verifier (Some ctx) (subRequest request statement) = Inr res \<and>
      r = VerificationResult_Clone res)"
  using assms result_usable by (auto simp: verifiedBy_def split: sum.splits)

end

lemma identifier_Valid_formats [simp]:
  "identifier_Valid none_format" "identifier_Valid compound_Format" "identifier_Valid packed_format"
  "identifier_Valid u2f_format" "identifier_Valid apple_format" "identifier_Valid tpm_format"
  "identifier_Valid androidkey_format" "identifier_Valid safetynet_format"
  by code_simp+

lemma resultUsable_known [simp]:
  "resultUsable (VerificationResult t (TrustPath k certificates raw statements) True warnings evidence) \<longleftrightarrow>
    Type_Known t \<and> TrustPathKind_Known k"
  by (simp add: resultUsable_def)

interpretation none_format: format_verifier none_Verifier
  by unfold_locales (auto simp: none_Verifier_def none_VerifyAttestation_def result_known split: if_splits)

interpretation compound_format: format_verifier "compound_Verifier registry policy" for registry policy
  by unfold_locales
    (auto simp: compound_Verifier_def compound_VerifyAttestation_def and_then_Inr_iff if_Inl_Inr_iff result_known)

lemma packed_result:
  assumes "packed_VerifyAttestation pki verifier ctx request = Inr res"
  shows "vq_Format request = packed_format \<and> resultUsable res"
  using assms
  by (elim packed_VerifyAttestation_InrE)
    (auto simp: packed_verifySelf_Inr_iff result_known dest!: packed_verifyX5C_InrD split: option.splits)

interpretation packed_format: format_verifier "packed_Verifier pki verifier" for pki verifier
  by unfold_locales (simp_all add: packed_Verifier_def packed_result)

interpretation u2f_format: format_verifier "u2f_Verifier pki verifier" for pki verifier
  by unfold_locales (auto simp: u2f_Verifier_def result_known elim: u2f_VerifyAttestation_InrE)

interpretation apple_format: format_verifier "apple_Verifier std pki" for std pki
  by unfold_locales (auto simp: apple_Verifier_def result_known elim: apple_VerifyAttestation_InrE)

interpretation tpm_format: format_verifier "tpm_Verifier std pki verifier" for std pki verifier
  by unfold_locales (auto simp: tpm_Verifier_def result_known elim: tpm_VerifyAttestation_InrE)

interpretation androidkey_format: format_verifier "androidkey_Verifier pki verifier hardware" for pki verifier hardware
  by unfold_locales (auto simp: androidkey_Verifier_def result_known elim: androidkey_VerifyAttestation_InrE)

interpretation safetynet_format: format_verifier "safetynet_Verifier std pki clock jws policy" for std pki clock jws policy
  by unfold_locales (auto simp: safetynet_Verifier_def result_known elim: safetynet_VerifyAttestation_InrE)

end
