(* ===== verification/Attestation_Spec.thy ===== *)
theory Attestation_Spec
  imports Attestation_Formats
begin

text \<open>
  What each attestation format promises, stated without the order of the checks: the conditions
  under which a statement of the \<^verbatim>\<open>packed\<close>, \<^verbatim>\<open>tpm\<close> and \<^verbatim>\<open>android-key\<close> formats is accepted. The verifiers
  refine these specifications in both directions.
\<close>

section \<open>Signatures\<close>

definition signedBy ::
  "SignatureVerifier \<Rightarrow> ctx \<Rightarrow> COSEAlgorithmIdentifier \<Rightarrow> CredentialPublicKeyMaterial \<Rightarrow> bytes \<Rightarrow> bytes \<Rightarrow> bytes \<Rightarrow> bool" where
  "signedBy verifier ctx algorithm key raw data signature \<longleftrightarrow>
    (\<exists>verify sig. verifier = Impl verify \<and> NewSignature (Some signature) = Inr sig \<and> verify ctx
      \<lparr>si_Algorithm = algorithm, si_PublicKey = key, si_RawCredentialPublicKey = raw,
       si_Signed = data, si_Signature = sig\<rparr> = None)"

lemma VerifySignature_signedBy:
  "VerifySignature ctx verifier algorithm key raw data signature malformed invalid = None \<longleftrightarrow>
    signedBy verifier ctx algorithm key raw data signature"
  unfolding signedBy_def by (rule VerifySignature_None_iff)

lemma signedBy_not_nil: "signedBy verifier ctx algorithm key raw data signature \<Longrightarrow> \<not> IsNil verifier"
  by (auto simp: signedBy_def)

text \<open>A chain whose certificates all parse, with its leaf.\<close>

definition chainLeaf :: "go_pki \<Rightarrow> bytes list \<Rightarrow> x509_Certificate \<Rightarrow> bool" where
  "chainLeaf pki x5c leaf \<longleftrightarrow> x5c \<noteq> [] \<and>
    (\<exists>certificates. list_all2 (\<lambda>raw c. pki_ParseCertificate pki raw = Inr c) x5c certificates \<and> leaf = hd certificates)"

section \<open>The packed format\<close>

definition packedSpec ::
  "go_pki \<Rightarrow> SignatureVerifier \<Rightarrow> ctx option \<Rightarrow> VerificationRequest \<Rightarrow> VerificationResult \<Rightarrow> bool" where
  "packedSpec pki verifier ctx request res \<longleftrightarrow>
    (\<exists>statement. vq_Format request = packed_format \<and> packed_parseStatement (vq_Statement request) = Inr statement \<and>
      bv_bytes (vq_AuthenticatorData request) \<noteq> [] \<and> vq_ClientDataHash request \<noteq> [] \<and>
      (case ps_x5c statement of
         None \<Rightarrow>
           ps_algorithm statement = cpk_Algorithm (vq_CredentialPublicKey request) \<and>
           signedBy verifier (normalizeContext ctx) (ps_algorithm statement)
             (cpk_material (vq_CredentialPublicKey request)) (cpk_raw (vq_CredentialPublicKey request))
             (bv_bytes (vq_AuthenticatorData request) @ vq_ClientDataHash request) (ps_signature statement) \<and>
           res = VerificationResult TypeSelf (TrustPath TrustPathNone [] None None) True [] NilIface
       | Some x5c \<Rightarrow>
           (\<exists>parsed attested leaf material.
             ParseAuthenticatorData (vq_AuthenticatorData request) = Inr parsed \<and>
             pad_AttestedCredentialData parsed = Some attested \<and> chainLeaf pki x5c leaf \<and>
             packedLeafOK pki leaf (acd_AAGUID attested) (vq_ConveyancePreference request) \<and>
             PublicKeyMaterial pki (x509_PublicKey leaf) = Some material \<and>
             signedBy verifier (normalizeContext ctx) (ps_algorithm statement) material []
               (bv_bytes (vq_AuthenticatorData request) @ vq_ClientDataHash request) (ps_signature statement) \<and>
             res = VerificationResult TypeUncertain (TrustPath TrustPathX509 x5c None None) True [] NilIface)))"

lemma packed_verifyX5C_Inr_iff:
  "packed_verifyX5C pki verifier ctx request statement x5c data = Inr res \<longleftrightarrow>
    (\<exists>parsed attested leaf material.
      ParseAuthenticatorData (vq_AuthenticatorData request) = Inr parsed \<and>
      pad_AttestedCredentialData parsed = Some attested \<and> chainLeaf pki x5c leaf \<and>
      packedLeafOK pki leaf (acd_AAGUID attested) (vq_ConveyancePreference request) \<and>
      PublicKeyMaterial pki (x509_PublicKey leaf) = Some material \<and>
      signedBy verifier ctx (ps_algorithm statement) material [] data (ps_signature statement) \<and>
      res = VerificationResult TypeUncertain (TrustPath TrustPathX509 x5c None None) True [] NilIface)"
  unfolding packed_verifyX5C_def and_then_Inr_iff wrap_res_simps(3) case_option_Inl_iff check_Inr_iff
    validatePackedCertificate_None_iff VerifySignature_signedBy split_paired_Ex prod.case ParseCertificateChain_Inr_iff
    chainLeaf_def sum.inject
  by blast

lemma packed_Inr_iff_spec: "packed_VerifyAttestation pki verifier ctx request = Inr res \<longleftrightarrow> packedSpec pki verifier ctx request res"
proof -
  have "(case ps_x5c statement of
       Some x5c \<Rightarrow> packed_verifyX5C pki verifier (normalizeContext ctx) request statement x5c data
     | None \<Rightarrow> packed_verifySelf verifier (normalizeContext ctx) request statement data) = Inr res \<Longrightarrow> \<not> IsNil verifier"
    for statement data
    by (auto simp: packed_verifyX5C_Inr_iff packed_verifySelf_Inr_iff VerifySignature_signedBy split: option.splits
      dest: signedBy_not_nil)
  then have "packed_VerifyAttestation pki verifier ctx request = Inr res \<longleftrightarrow>
    (\<exists>statement. vq_Format request = packed_format \<and> packed_parseStatement (vq_Statement request) = Inr statement \<and>
      bv_bytes (vq_AuthenticatorData request) \<noteq> [] \<and> vq_ClientDataHash request \<noteq> [] \<and>
      (case ps_x5c statement of
         Some x5c \<Rightarrow> packed_verifyX5C pki verifier (normalizeContext ctx) request statement x5c
           (bv_bytes (vq_AuthenticatorData request) @ vq_ClientDataHash request)
       | None \<Rightarrow> packed_verifySelf verifier (normalizeContext ctx) request statement
           (bv_bytes (vq_AuthenticatorData request) @ vq_ClientDataHash request)) = Inr res)"
    unfolding packed_VerifyAttestation_def and_then_Inr_iff if_Inl_Inr_iff Let_def SignedData_eq bv_len_0_iff length_0_conv
    by blast
  also have "\<dots> \<longleftrightarrow> packedSpec pki verifier ctx request res"
    unfolding packedSpec_def
    by (intro arg_cong [where f = Ex] ext conj_cong refl)
      (simp add: packed_verifyX5C_Inr_iff packed_verifySelf_Inr_iff VerifySignature_signedBy split: option.split)
  finally show ?thesis .
qed

section \<open>The TPM format\<close>

text \<open>
  The certified structure: extra data and the name of an object, inside a \<^verbatim>\<open>TPMS_ATTEST\<close>; and the
  public area that describes the credential key.
\<close>

definition certifies :: "bytes \<Rightarrow> bytes \<Rightarrow> bytes \<Rightarrow> bool" where
  "certifies raw extraData name \<longleftrightarrow>
    (\<exists>signer clock firmware final. length signer < 65536 \<and> length extraData < 65536 \<and> length clock = 17 \<and>
      length firmware = 8 \<and> length name < 65536 \<and> length final < 65536 \<and>
      raw = encodeCertInfo signer extraData clock firmware name final)"

lemma parseCertInfo_Inr_iff: "parseCertInfo raw = Inr ci \<longleftrightarrow> certifies raw (ci_extraData ci) (ci_name ci)"
  using parseCertInfo_sound [of raw ci] parseCertInfo_encode unfolding certifies_def
  by (metis certifyInfo.surjective old.unit.exhaust)

definition describesKey :: "publicArea \<Rightarrow> CredentialPublicKeyMaterial \<Rightarrow> bool" where
  "describesKey area material \<longleftrightarrow>
    (case (pa_ec2 area, pa_rsa area) of
       (Some key, None) \<Rightarrow> mat_EC2 material = Some \<lparr>ec2_Curve = pa_curve key, ec2_X = pa_x key, ec2_Y = pa_y key\<rparr>
     | (None, Some key) \<Rightarrow> mat_RSA material = Some \<lparr>rsa_Modulus = pa_modulus key, rsa_Exponent = pa_exponent key\<rparr>
     | _ \<Rightarrow> False)"

lemma validatePublicAreaBinding_None_iff:
  assumes "encodesPublicArea area raw"
  shows "validatePublicAreaBinding area material = None \<longleftrightarrow> describesKey area material"
proof -
  have distinct: "tpmAlgECC \<noteq> tpmAlgRSA"
    by (simp add: tpmAlgECC_def tpmAlgRSA_def)
  consider key where "pa_keyType area = tpmAlgECC" "pa_rsa area = None" "pa_ec2 area = Some key"
    | key where "pa_keyType area = tpmAlgRSA" "pa_ec2 area = None" "pa_rsa area = Some key"
        "RSA_Valid (Some \<lparr>rsa_Modulus = pa_modulus key, rsa_Exponent = pa_exponent key\<rparr>)"
    using assms unfolding encodesPublicArea_def rsaEncoding_def by auto
  then show ?thesis
  proof cases
    case 1
    then show ?thesis
      by (auto simp: validatePublicAreaBinding_def describesKey_def split: option.splits if_splits)
  next
    case 2
    then have "validatePublicAreaBinding area material = None \<longleftrightarrow>
        (\<exists>m. mat_RSA material = Some m \<and> RSA_Valid (Some m) \<and> rsa_Exponent m = pa_exponent key \<and> rsa_Modulus m = pa_modulus key)"
      using distinct by (auto simp: validatePublicAreaBinding_def split: option.splits if_splits)
    also have "\<dots> \<longleftrightarrow> mat_RSA material = Some \<lparr>rsa_Modulus = pa_modulus key, rsa_Exponent = pa_exponent key\<rparr>"
      using 2(4) by (auto simp: RSAPublicKeyMaterial.equality)
    finally show ?thesis
      using 2 by (simp add: describesKey_def)
  qed
qed

definition tpmSpec ::
  "go_std \<Rightarrow> go_pki \<Rightarrow> SignatureVerifier \<Rightarrow> ctx option \<Rightarrow> VerificationRequest \<Rightarrow> VerificationResult \<Rightarrow> bool" where
  "tpmSpec std pki verifier ctx request res \<longleftrightarrow>
    (\<exists>statement spec parsed attested area digest extraData leaf signature material.
      vq_Format request = tpm_format \<and> tpm_parseStatement (vq_Statement request) = Inr statement \<and>
      ts_version statement = tpmVersion \<and> signatureAlgorithmSpec (ts_algorithm statement) = Some spec \<and>
      bv_bytes (vq_AuthenticatorData request) \<noteq> [] \<and> vq_ClientDataHash request \<noteq> [] \<and>
      ParseAuthenticatorData (vq_AuthenticatorData request) = Inr parsed \<and>
      pad_AttestedCredentialData parsed = Some attested \<and>
      encodesPublicArea area (ts_publicArea statement) \<and>
      describesKey area (cpk_material (vq_CredentialPublicKey request)) \<and>
      tpmHash std pki (pa_nameAlg area) (ts_publicArea statement) = Inr digest \<and>
      tpmHash std pki (spec_hashAlg spec) (bv_bytes (vq_AuthenticatorData request) @ vq_ClientDataHash request) = Inr extraData \<and>
      certifies (ts_certInfo statement) extraData (put16 (pa_nameAlg area) @ digest) \<and>
      chainLeaf pki (ts_x5c statement) leaf \<and> validateAIKCertificate pki leaf (acd_AAGUID attested) = None \<and>
      parseTPMSignature (ts_signature statement) spec = Inr signature \<and>
      PublicKeyMaterial pki (x509_PublicKey leaf) = Some material \<and>
      signedBy verifier (normalizeContext ctx) (ts_algorithm statement) material [] (ts_certInfo statement) signature \<and>
      res = VerificationResult TypeAttCA (TrustPath TrustPathX509 (ts_x5c statement) None None) True [] NilIface)"

lemma certInfo_binding:
  "(\<exists>ci. parseCertInfo raw = Inr ci \<and> validateCertInfoBinding ci extraData name = None \<and> P) \<longleftrightarrow> certifies raw extraData name \<and> P"
  unfolding parseCertInfo_Inr_iff validateCertInfoBinding_def if_Some_None_iff
  by (auto intro: exI [of _ "\<lparr>ci_extraData = extraData, ci_name = name\<rparr>"])

lemma publicArea_binding:
  "(\<exists>area. parsePublicArea raw = Inr area \<and> validatePublicAreaBinding area material = None \<and>
      (\<exists>name. publicArea_name std pki area = Inr name \<and> P name)) \<longleftrightarrow>
    (\<exists>area digest. encodesPublicArea area raw \<and> describesKey area material \<and>
      tpmHash std pki (pa_nameAlg area) raw = Inr digest \<and> P (put16 (pa_nameAlg area) @ digest))"
proof -
  have "pa_raw area = raw" if "encodesPublicArea area raw" for area
    using that by (simp add: encodesPublicArea_def)
  then show ?thesis
    unfolding parsePublicArea_Inr_iff publicArea_name_def and_then_Inr_iff
    using validatePublicAreaBinding_None_iff by auto
qed

lemma tpm_Inr_iff_spec: "tpm_VerifyAttestation std pki verifier ctx request = Inr res \<longleftrightarrow> tpmSpec std pki verifier ctx request res"
  unfolding tpm_VerifyAttestation_def tpmSpec_def and_then_Inr_iff if_Inl_Inr_iff case_option_Inl_iff check_Inr_iff
    wrap_res_simps(3) SignedData_eq bv_len_0_iff length_0_conv certInfo_binding publicArea_binding
    ParseCertificateChain_Inr_iff split_paired_Ex prod.case chainLeaf_def VerifySignature_signedBy sum.inject
  using signedBy_not_nil by blast

lemma no_proper_divisor_iff:
  fixes n :: nat
  assumes "1 < n"
  shows "(\<forall>d. 1 < d \<and> d < n \<longrightarrow> \<not> d dvd n) \<longleftrightarrow> {d. d dvd n} = {1, n}"
proof
  assume none: "\<forall>d. 1 < d \<and> d < n \<longrightarrow> \<not> d dvd n"
  have "d = 1 \<or> d = n" if "d dvd n" for d
    using none that dvd_imp_le [OF that] assms by (cases "d = 0") (auto simp: nat_neq_iff)
  then show "{d. d dvd n} = {1, n}"
    by auto
next
  assume "{d. d dvd n} = {1, n}"
  then have "d = 1 \<or> d = n" if "d dvd n" for d
    using that by blast
  then show "\<forall>d. 1 < d \<and> d < n \<longrightarrow> \<not> d dvd n"
    by fastforce
qed

section \<open>The android-key extension\<close>

lemma validateAndroidKeyExtension_None_iff:
  "validateAndroidKeyExtension raw hash hardware = None \<longleftrightarrow>
    (\<exists>description. parseAndroidKeyDescription raw = Inr description \<and> kd_attestationChallenge description = hash \<and>
      \<not> al_allApplications (kd_softwareEnforced description) \<and> \<not> al_allApplications (kd_hardwareEnforced description) \<and>
      (if hardware then
         hardwareSecurityLevel (kd_attestationSecurityLevel description) \<and>
         hardwareSecurityLevel (kd_keymasterSecurityLevel description) \<and>
         set (al_origins (kd_hardwareEnforced description)) = {androidKeyOriginGenerated} \<and>
         set (al_purposes (kd_hardwareEnforced description)) = {androidKeyPurposeSign}
       else
         set (al_origins (kd_softwareEnforced description)) \<union> set (al_origins (kd_hardwareEnforced description))
           = {androidKeyOriginGenerated} \<and>
         set (al_purposes (kd_softwareEnforced description)) \<union> set (al_purposes (kd_hardwareEnforced description))
           = {androidKeyPurposeSign}))"
  unfolding validateAndroidKeyExtension_def and_err_None_iff if_Some_None_iff authorizationListsExactlyMatchWebAuthn_iff
  by (intro arg_cong [where f = Ex] ext) (cases hardware; auto)

end
