(* ===== verification/Sample_Attestation.thy ===== *)
theory Sample_Attestation
  imports Credential_Keys Attestation_Spec
begin

text \<open>Concrete inputs of the codec and of the attestation formats, evaluated in the logic.\<close>

text \<open>A decoder that reads every input as one value, and writes that value as one byte.\<close>

definition sample_cbor :: "goval \<Rightarrow> go_cbor" where
  "sample_cbor v = \<lparr>cbor_Unmarshal = (\<lambda>_. Inr v), cbor_UnmarshalFirst = (\<lambda>bs. Inr (v, drop 1 bs)),
    cbor_Marshal = (\<lambda>_. Inr [0xa5]), ecdh_NewPublicKey = (\<lambda>_ _. True)\<rparr>"

definition sample_cose :: goval where
  "sample_cose = VMap TIface TIface (Some
    [(VInt KUint64 1, VInt KUint64 2), (VInt KUint64 3, VInt KInt64 (-7)), (VInt KInt64 (-1), VInt KUint64 1),
     (VInt KInt64 (-2), VBytes (Some (replicate 32 1))), (VInt KInt64 (-3), VBytes (Some (replicate 32 2)))])"

definition sample_cose_key :: CredentialPublicKey where
  "sample_cose_key = NewCredentialPublicKey AlgorithmES256 [0xa5] \<lparr>mat_EC2 = Some \<lparr>ec2_Curve = EC2CurveP256,
    ec2_X = replicate 32 1, ec2_Y = replicate 32 2\<rparr>, mat_RSA = None, mat_OKP = None\<rparr>"

definition sample_gc :: go_crypto where
  "sample_gc = \<lparr>gc_ParseUncompressedPublicKey = (\<lambda>_ _. True), gc_ecdsa_VerifyASN1 = (\<lambda>_ _ _ _. False),
    gc_rsa_VerifyPSS = (\<lambda>_ _ _ _ _. None), gc_rsa_VerifyPKCS1v15 = (\<lambda>_ _ _ _ _. None), gc_ed25519_Verify = (\<lambda>_ _ _. True)\<rparr>"

definition sample_pki :: go_pki where
  "sample_pki = \<lparr>pki_ParseCertificate = (\<lambda>_. Inl (External ''no certificate'')), pki_BMPString = (\<lambda>_. None),
    pki_Sum384 = (\<lambda>_. replicate 48 0), pki_Sum512 = (\<lambda>_. replicate 64 0), pki_IsOnCurve = (\<lambda>_ _ _. True)\<rparr>"

text \<open>A compound object of two \<^verbatim>\<open>none\<close> statements around 37 bytes of authenticator data.\<close>

definition sample_substatement :: goval where
  "sample_substatement = VMap TIface TIface (Some [(VString ''fmt'', VString ''none''), (VString ''attStmt'', VMap TIface TIface (Some []))])"

definition sample_object :: goval where
  "sample_object = VMap TIface TIface (Some [(VString ''fmt'', VString ''compound''),
    (VString ''attStmt'', VSlice TIface (Some [sample_substatement, sample_substatement])),
    (VString ''authData'', VBytes (Some (replicate 37 0)))])"

lemma sample_cose_decoded: "DecodeCredentialPublicKey (Some (sample_cbor sample_cose)) [0xa5, 0x00] = Inr sample_cose_key"
  by code_simp

lemma sample_object_decoded:
  "\<not> isl (DecodeAttestationObject (Some (sample_cbor sample_object)) \<lparr>bv_value = Some [0xa5]\<rparr>)"
  by code_simp

end
