(* ===== verification/Sample_Storage.thy ===== *)
theory Sample_Storage
  imports Storage_Json Json_Text Http_Transport Passkey_Preset Sample_Ceremony Sample_Attestation
begin

text \<open>
  The sample ceremony at the boundaries: stored as JSON, sent by a browser, read from a request, and verified by
  a relying party with the passkey configuration. JSON has the text layer of \<open>Json_Text\<close>.
\<close>

section \<open>Inputs\<close>

text \<open>The two texts of the sample ceremony's client data are read as before, all others as JSON.\<close>

definition sample_text_std :: go_std where
  "sample_text_std = sample_std\<lparr>std_json := (\<lambda>data. if data = [1] \<or> data = [2] then std_json sample_std data else json_Unmarshal data)\<rparr>"

text \<open>States with two extension inputs: a flag and a structured value.\<close>

definition sample_note :: goval where
  "sample_note = VMap TString TIface (Some [(VString ''n'', VInt KInt64 (- 5)), (VString ''b'', VBytes (Some [1, 2, 255]))])"

definition sample_stored_state :: RegistrationState where
  "sample_stored_state = sample_state\<lparr>rs_RequestedExtensions := [(''flag'', VBoolInput True), (''note'', VRawInput (Some sample_note))]\<rparr>"

definition sample_stored_login :: AuthenticationState where
  "sample_stored_login = sample_auth_state\<lparr>as_RequestedExtensions := [(''flag'', VBoolInput True), (''note'', VRawInput (Some sample_note))]\<rparr>"

definition sample_browser_registration :: RegistrationResponse where
  "sample_browser_registration = (rver_Response sample_attestation)\<lparr>rr_AuthenticatorData := sample_created,
     rr_ClientExtensionResults := [(''credProps'', Some (any_object [(''rk'', VBool True)])),
       (''largeBlob'', Some (any_object [(''blob'', VBytes (Some [1, 2]))]))]\<rparr>"

definition sample_results :: ExtensionJSON where
  "sample_results = [(''credProps'', JObject [(''rk'', JBool True)]), (''largeBlob'', JObject [(''blob'', JString ''AQI'')])]"

definition sample_registration_text :: bytes where
  "sample_registration_text = projr (json_Marshal (registration_json sample_browser_registration (Some ''AQID'') sample_results))"

definition sample_passkey_config :: Config where
  "sample_passkey_config = projr (PasskeyConfig sample_std sample_pki sample_gc (Inr (sample_cbor sample_cose))
    (cfg_RP sample_config) (cfg_OriginPolicy sample_config))"

text \<open>A credential with an Ed25519 key; \<open>sample_gc\<close> accepts every Ed25519 signature.\<close>

definition sample_passkey_credential :: CredentialRecord where
  "sample_passkey_credential = sample_credential\<lparr>cr_PublicKey := \<lparr>cpk_Algorithm = AlgorithmEdDSA, cpk_raw = [5],
     cpk_material = \<lparr>mat_EC2 = None, mat_RSA = None, mat_OKP = Some \<lparr>okp_Curve = OKPCurveEd25519, okp_X = replicate 32 7\<rparr>\<rparr>\<rparr>\<rparr>"

definition sample_passkey_assertion :: AuthenticationVerification where
  "sample_passkey_assertion = sample_assertion\<lparr>aver_Credential := sample_passkey_credential\<rparr>"

definition sample_passkey_rp :: RelyingParty where
  "sample_passkey_rp = projr (New sample_std sample_env sample_passkey_config)"

section \<open>Evaluation\<close>

text \<open>What the definitions compute on these inputs.\<close>

lemma sample_no_json: "json_Unmarshal [1] = None" "json_Unmarshal [2] = None"
  by code_simp+

lemma sample_stored_record: "\<not> isl (MarshalCredentialRecord text_layer sample_credential)"
  by code_simp

lemma sample_stored_registration: "\<not> isl (MarshalRegistrationState sample_text_std text_layer sample_stored_state)"
  by code_simp

lemma sample_stored_authentication: "\<not> isl (MarshalAuthenticationState sample_text_std text_layer sample_stored_login)"
  by code_simp

lemma sample_typed: "record_typed sample_credential" "registration_typed sample_stored_state" "authentication_typed sample_stored_login"
    "as_RequestedExtensions sample_stored_login = rs_RequestedExtensions sample_stored_state"
  by code_simp+

lemma sample_inputs:
  "InputValue (VBoolInput True) = Inr (VBool True)"
  "NormalizeInput (VBool True) = Inr (VBoolInput True)"
  "InputValue (VRawInput (Some sample_note)) = Inr sample_note"
  "NormalizeInput sample_note = Inr (VRawInput (Some sample_note))"
  "keyString (VString ''n'') = ''n''"
  "keyString (VString ''b'') = ''b''"
  by code_simp+

lemma sample_sent_texts:
  "registration_response_typed sample_browser_registration"
  "authentication_response_typed (aver_Response sample_assertion)"
  "clientExtensionResultsFromJSON text_layer sample_results = Inr (rr_ClientExtensionResults sample_browser_registration)"
  "js_Marshal text_layer (registration_json sample_browser_registration (map_option b64_encode (Some [1, 2, 3])) sample_results) =
    Inr sample_registration_text"
  "int (length sample_registration_text) \<le> MaxResponseJSONBytes"
  "creation_options_typed (rsr_Options sample_creation)"
  "\<not> isl (CredentialCreationOptionsFromProtocol text_layer (rsr_Options sample_creation))"
  by code_simp+

lemma sample_passkey_run:
  "RPEntity_Validate (cfg_RP sample_config) = None"
  "validateOriginPolicy sample_std (cfg_OriginPolicy sample_config) = None"
  "validateRPIDOriginPolicy sample_std (rp_ID (cfg_RP sample_config)) (cfg_OriginPolicy sample_config) = None"
  "\<not> isl (RP_FinishAuthentication sample_std sample_env (Some sample_passkey_rp) None sample_passkey_assertion)"
  by code_simp+

lemmas sample_browser_typed = sample_sent_texts(1-3)
lemmas sample_registration_sent = sample_sent_texts(4-5)
lemmas sample_creation_options = sample_sent_texts(6-7)
lemmas sample_passkey_origins = sample_passkey_run(1-3)
lemmas sample_passkey_verified = sample_passkey_run(4)

section \<open>Consequences\<close>

lemma sample_json_text: "json_text sample_text_std text_layer"
proof unfold_locales
  fix j data assume "js_Marshal text_layer j = Inr data"
  then have "json_Unmarshal data = Some j"
    using text_layer.json_reads [of j data sample_std] by simp
  then show "std_json sample_text_std data = Some j"
    using sample_no_json by (auto simp: sample_text_std_def)
qed (fact text_layer.json_length text_layer.float_reads text_layer.time_reads)+

lemma sample_plain: "list_all (\<lambda>(_, i). plain_input i) (rs_RequestedExtensions sample_stored_state)"
    "list_all (\<lambda>(_, i). plain_input i) (as_RequestedExtensions sample_stored_login)"
  using sample_inputs sample_typed(4) by (simp_all add: sample_stored_state_def plain_input_def sample_note_def)

lemma sample_passkey: "PasskeyConfig sample_std sample_pki sample_gc (Inr (sample_cbor sample_cose))
    (cfg_RP sample_config) (cfg_OriginPolicy sample_config) = Inr sample_passkey_config"
proof -
  have "\<exists>c. PasskeyConfig sample_std sample_pki sample_gc (Inr (sample_cbor sample_cose))
      (cfg_RP sample_config) (cfg_OriginPolicy sample_config) = Inr c"
    unfolding PasskeyConfig_total by blast
  then show ?thesis
    unfolding sample_passkey_config_def by force
qed

lemma sample_passkey_New: "New sample_std sample_env sample_passkey_config = Inr sample_passkey_rp"
proof -
  have "\<exists>p. New sample_std sample_env sample_passkey_config = Inr p"
    using passkey_accepted_iff [OF sample_passkey] sample_passkey_origins by blast
  then show ?thesis
    unfolding sample_passkey_rp_def by force
qed

end
