(* ===== verification/Sample_Integration.thy ===== *)
theory Sample_Integration
  imports Integration_Runs Sample_Storage
begin

text \<open>
  One run of the application: a user with a granted session enrolls a credential and logs in with it, without
  naming an account. What is stored and sent is JSON text.
\<close>

section \<open>The stores before, and after each handler\<close>

definition sample_app :: app_config where
  "sample_app = \<lparr>app_std = sample_text_std, app_text = text_layer, app_decoder = Impl (\<lambda>_. Inr sample_key), app_rp = sample_rp\<rparr>"

definition sample_call :: app_call where
  "sample_call = \<lparr>call_ctx = (\<lambda>_. Background), call_env = sample_env, call_id = sample_env, call_now = 1000\<rparr>"

definition sample_accounts :: memoryAccounts where
  "sample_accounts = \<lparr>ma_users = [(''u'', \<lparr>user_ID = sample_user, user_Name = ''u'', user_DisplayName = ''u''\<rparr>)],
     ma_grants = [(''s'', ''u'')]\<rparr>"

definition sample_app0 :: application where
  "sample_app0 = \<lparr>app_accounts = sample_accounts, app_ceremonies = [], app_credentials = [], app_sessions = []\<rparr>"

definition sample_name :: string where "sample_name = b64_encode (replicate 32 3)"

definition sample_enrollment :: savedCeremony where
  "sample_enrollment = \<lparr>sc_kind = registration, sc_session = ''s'', sc_account = sample_user, sc_expires = 600000001000,
     sc_payload = projr (MarshalRegistrationState sample_text_std text_layer sample_state)\<rparr>"

definition sample_app1 :: application where
  "sample_app1 = sample_app0\<lparr>app_ceremonies := [(sample_name, sample_enrollment)]\<rparr>"

definition sample_sent :: RegistrationResponse where
  "sample_sent = (rver_Response sample_attestation)\<lparr>rr_AuthenticatorData := sample_created\<rparr>"

definition sample_attestation_body :: bytes where
  "sample_attestation_body = projr (json_Marshal (registration_json sample_sent None []))"

definition sample_enrolled :: RegistrationResult where
  "sample_enrolled = projr (RP_FinishRegistration sample_text_std sample_env (Some sample_rp) (Some Background)
     \<lparr>rver_State = sample_state, rver_Response = sample_sent\<rparr>)"

definition sample_row :: savedCredential where
  "sample_row = \<lparr>sv_payload = projr (MarshalCredentialRecord text_layer sample_credential), sv_version = 1\<rparr>"

definition sample_app2 :: application where
  "sample_app2 = sample_app0\<lparr>app_credentials := [(''*'', sample_row)]\<rparr>"

definition sample_login_state :: AuthenticationState where
  "sample_login_state = sample_auth_state\<lparr>as_AllowCredentials := [], as_ExpectedUserHandle := zero_byteValue\<rparr>"

definition sample_saved_login :: savedCeremony where
  "sample_saved_login = \<lparr>sc_kind = authentication, sc_session = ''t'', sc_account = zero_byteValue, sc_expires = 600000001000,
     sc_payload = projr (MarshalAuthenticationState sample_text_std text_layer sample_login_state)\<rparr>"

definition sample_app3 :: application where
  "sample_app3 = sample_app2\<lparr>app_ceremonies := [(sample_name, sample_saved_login)]\<rparr>"

definition sample_answer :: AuthenticationResponse where
  "sample_answer = (aver_Response sample_assertion)\<lparr>ar_UserHandle := sample_user\<rparr>"

definition sample_answer_body :: bytes where
  "sample_answer_body = projr (json_Marshal (authentication_json sample_answer []))"

definition sample_snapshot :: credentialSnapshot where
  "sample_snapshot = \<lparr>snap_record = sample_credential, snap_version = 1\<rparr>"

definition sample_logged_in :: AuthenticationResult where
  "sample_logged_in = projr (RP_FinishAuthentication sample_text_std sample_env (Some sample_rp) (Some Background)
     \<lparr>aver_State = sample_login_state, aver_Response = sample_answer, aver_Credential = sample_credential,
      aver_UVInitializationAuthorized = False\<rparr>)"

definition sample_row' :: savedCredential where
  "sample_row' = \<lparr>sv_payload = projr (MarshalCredentialRecord text_layer (updatedRecord sample_update sample_credential)), sv_version = 2\<rparr>"

definition sample_app4 :: application where
  "sample_app4 = sample_app2\<lparr>app_credentials := [(''*'', sample_row')], app_sessions := [(sample_name, ares_AuthenticatedAs sample_logged_in)]\<rparr>"

definition sample_updating :: pending where
  "sample_updating = Updating sample_call sample_snapshot sample_logged_in"

section \<open>The configuration\<close>

lemma sample_app_simps [simp]: "app_std sample_app = sample_text_std" "app_text sample_app = text_layer"
    "app_decoder sample_app = Impl (\<lambda>_. Inr sample_key)" "app_rp sample_app = sample_rp"
  by (simp_all add: sample_app_def)

lemma sample_call_simps [simp]: "call_ctx sample_call n = Background" "call_env sample_call = sample_env"
    "call_id sample_call = sample_env" "call_now sample_call = 1000" "ctx_Err Background = None"
  by (simp_all add: sample_call_def ctx_Err_def Background_def)

interpretation sample_app: integration sample_app
  by (intro integration.intro integration_axioms.intro)
    (use sample_json_text in \<open>simp_all add: sample_rp_def sample_ready_config_def sample_config_def call_def\<close>)

section \<open>Evaluation\<close>

lemma sample_beginEnrollment: "fst (beginEnrollment sample_app sample_app0 sample_call ''s'') = sample_app1"
  by code_simp

lemma sample_enrollment_evaluated:
  "\<not> isl (MarshalRegistrationState sample_text_std text_layer sample_state)"
  "registration_typed sample_state"
  "rs_RequestedExtensions sample_state = []"
  "\<not> isl (js_Marshal text_layer (registration_json sample_sent None []))"
  "int (length sample_attestation_body) \<le> MaxResponseJSONBytes"
  "registration_response_typed sample_sent"
  "clientExtensionResultsFromJSON text_layer [] = Inr (rr_ClientExtensionResults sample_sent)"
  "string_of_bytes (bv_bytes (cr_ID sample_credential)) = ''*''"
  by code_simp+

lemma sample_enrollment_run: "case RP_FinishRegistration sample_text_std sample_env (Some sample_rp) (Some Background)
    \<lparr>rver_State = sample_state, rver_Response = sample_sent\<rparr> of Inl e \<Rightarrow> False | Inr r \<Rightarrow> rres_Credential r = sample_credential"
  by code_simp

lemma sample_beginLogin: "fst (beginLogin sample_app sample_app2 sample_call ''t'' []) = sample_app3"
  by code_simp

lemma sample_login_evaluated:
  "\<not> isl (MarshalAuthenticationState sample_text_std text_layer sample_login_state)"
  "authentication_typed sample_login_state"
  "as_RequestedExtensions sample_login_state = []"
  "\<not> isl (js_Marshal text_layer (authentication_json sample_answer []))"
  "int (length sample_answer_body) \<le> MaxResponseJSONBytes"
  "authentication_response_typed sample_answer"
  "clientExtensionResultsFromJSON text_layer [] = Inr (ar_ClientExtensionResults sample_answer)"
  "string_of_bytes (bv_bytes (ar_RawID sample_answer)) = ''*''"
  "cr_UserHandle sample_credential = sample_user"
  "bv_Equal (as_ExpectedUserHandle sample_login_state) (sc_account sample_saved_login)"
  "as_ExpiresAt sample_login_state = sc_expires sample_saved_login"
  "bv_len (as_ExpectedUserHandle sample_login_state) = 0"
  "ar_UserHandle sample_answer = sample_user"
  "bv_len sample_user \<noteq> 0"
  "string_of_bytes (bv_bytes (cu_ID sample_update)) = ''*''"
  "(1 :: 64 word) \<noteq> MaxVersion"
  "ApplyTo sample_update sample_credential = Inr (updatedRecord sample_update sample_credential)"
  "\<not> isl (MarshalCredentialRecord text_layer (updatedRecord sample_update sample_credential))"
  "ceremonyID sample_env = Inr sample_name"
  by code_simp+

lemma sample_login_run: "case RP_FinishAuthentication sample_text_std sample_env (Some sample_rp) (Some Background)
    \<lparr>aver_State = sample_login_state, aver_Response = sample_answer, aver_Credential = sample_credential,
     aver_UVInitializationAuthorized = False\<rparr> of Inl e \<Rightarrow> False
    | Inr r \<Rightarrow> \<not> ctr_CloneRisk (ares_Counter r) \<and> \<not> ares_UVInitializationPending r \<and> ares_Update r = sample_update"
  by code_simp

lemmas sample_row_key = sample_enrollment_evaluated(8)

section \<open>Enrollment\<close>

lemma sample_enrollment_state:
  "UnmarshalRegistrationState sample_text_std text_layer (sc_payload sample_enrollment) = Inr sample_state"
proof -
  show ?thesis
    using sample_enrollment_evaluated(1-3) sample_app.registration_state_survives [of sample_state "sc_payload sample_enrollment"]
    by (simp add: sample_enrollment_def)
qed

lemma sample_response_read: "RegistrationResponseFromJSON sample_text_std text_layer sample_attestation_body = Inr sample_sent"
proof -
  have "js_Marshal text_layer = json_Marshal"
    by (simp add: text_layer_def)
  then show ?thesis
    using sample_enrollment_evaluated(4-7) sample_app.registration_response_survives [of sample_sent None "[]" sample_attestation_body]
    by (simp add: sample_attestation_body_def)
qed

lemma sample_enrolled: "RP_FinishRegistration sample_text_std sample_env (Some sample_rp) (Some Background)
    \<lparr>rver_State = sample_state, rver_Response = sample_sent\<rparr> = Inr sample_enrolled"
    "rres_Credential sample_enrolled = sample_credential"
  using sample_enrollment_run unfolding sample_enrolled_def by (simp_all split: sum.splits)

lemma sample_enrollmentVerified: "enrollmentVerified sample_app sample_call sample_enrollment sample_attestation_body = Inr sample_credential"
proof -
  have "bv_Equal (rs_UserHandle sample_state) (sc_account sample_enrollment)" "rs_ExpiresAt sample_state = sc_expires sample_enrollment"
    by (simp_all add: sample_state_def sample_enrollment_def)
  then show ?thesis
    by (simp add: enrollmentVerified_def sample_enrollment_state sample_response_read sample_enrolled)
qed

lemma sample_marshalled: "MarshalCredentialRecord text_layer sample_credential = Inr (sv_payload sample_row)"
  using sample_stored_record by (simp add: sample_row_def)

lemma sample_finishEnrollment:
  "finishEnrollment sample_app sample_app1 sample_call ''s'' sample_name sample_attestation_body = (sample_app2, None)"
proof -
  have "EnrollmentUser sample_accounts Background ''s'' = Inr \<lparr>user_ID = sample_user, user_Name = ''u'', user_DisplayName = ''u''\<rparr>"
    by (simp add: EnrollmentUser_def sample_accounts_def check_def)
  moreover have "ceremonies_Consume (app_ceremonies sample_app1) 1000 Background sample_name ''s'' registration (Some sample_user)
      = ([], Inr sample_enrollment)"
    by (simp add: ceremonies_Consume_def sample_app1_def sample_enrollment_def Before_def map_delete_def)
  moreover have "credentials_Insert text_layer [] Background sample_credential = ([(''*'', sample_row)], None)"
    by (simp add: credentials_Insert_def sample_marshalled sample_row_key Let_def map_put_def) (simp add: sample_row_def)
  ultimately show ?thesis
    using sample_enrollmentVerified
    by (simp add: finishEnrollment_def sample_app1_def sample_app0_def sample_app2_def Let_def)
qed

section \<open>Login\<close>

lemma sample_login_read: "UnmarshalAuthenticationState sample_text_std text_layer (sc_payload sample_saved_login) = Inr sample_login_state"
proof -
  show ?thesis
    using sample_login_evaluated(1-3) sample_app.authentication_state_survives [of sample_login_state "sc_payload sample_saved_login"]
    by (simp add: sample_saved_login_def)
qed

lemma sample_answer_read: "AuthenticationResponseFromJSON sample_text_std text_layer sample_answer_body = Inr sample_answer"
proof -
  have "js_Marshal text_layer = json_Marshal"
    by (simp add: text_layer_def)
  then show ?thesis
    using sample_login_evaluated(4-7) sample_app.authentication_response_survives [of sample_answer "[]" sample_answer_body]
    by (simp add: sample_answer_body_def)
qed

lemma sample_row_read: "UnmarshalCredentialRecord sample_text_std text_layer (sv_payload sample_row) (Impl (\<lambda>_. Inr sample_key))
    = Inr sample_credential" "sv_version sample_row = 1"
  using sample_app.record_survives [OF _ sample_typed(1), of "sv_payload sample_row"] sample_marshalled
  by (simp_all add: call_def sample_credential_def sample_row_def)

lemma sample_lookup: "credentials_Lookup sample_text_std text_layer (Impl (\<lambda>_. Inr sample_key)) [(''*'', sample_row)] Background
    (ar_RawID sample_answer) sample_user = Inr sample_snapshot"
proof -
  show ?thesis
    using sample_login_evaluated(8,9) sample_row_read by (simp add: credentials_Lookup_def check_def sample_snapshot_def)
qed

lemma sample_logged_in: "RP_FinishAuthentication sample_text_std sample_env (Some sample_rp) (Some Background)
    \<lparr>aver_State = sample_login_state, aver_Response = sample_answer, aver_Credential = sample_credential,
     aver_UVInitializationAuthorized = False\<rparr> = Inr sample_logged_in"
    "\<not> ctr_CloneRisk (ares_Counter sample_logged_in)" "\<not> ares_UVInitializationPending sample_logged_in"
    "ares_Update sample_logged_in = sample_update"
  using sample_login_run unfolding sample_logged_in_def by (simp_all split: sum.splits)

lemma sample_loginVerified:
  "loginVerified sample_app [(''*'', sample_row)] sample_call sample_saved_login sample_answer_body = Inr (sample_snapshot, sample_logged_in)"
proof -
  have "snap_record sample_snapshot = sample_credential"
    by (simp add: sample_snapshot_def)
  then show ?thesis
    using sample_login_evaluated(10-14)
    by (simp add: loginVerified_def sample_login_read sample_answer_read sample_lookup sample_logged_in)
qed

lemma sample_updates: "credentials_Update sample_text_std text_layer (Impl (\<lambda>_. Inr sample_key)) [(''*'', sample_row)] Background
    (ares_Update sample_logged_in) (snap_version sample_snapshot) = ([(''*'', sample_row')], None)"
proof -
  obtain payload where "MarshalCredentialRecord text_layer (updatedRecord sample_update sample_credential) = Inr payload"
    using sum.collapse(2) [OF sample_login_evaluated(18)] by metis
  then show ?thesis
    using sample_login_evaluated(15-17) sample_row_read
    by (simp add: credentials_Update_def sample_logged_in sample_snapshot_def sample_row'_def Let_def map_put_def)
qed

lemma sample_consumed: "ceremonies_Consume (app_ceremonies sample_app3) 1000 Background sample_name ''t'' authentication None
    = ([], Inr sample_saved_login)"
  by (simp add: ceremonies_Consume_def sample_app3_def sample_saved_login_def Before_def map_delete_def)

lemma sample_finishLogin: "finishLogin sample_app sample_app3 sample_call ''t'' sample_name sample_answer_body = (sample_app4, Inr sample_name)"
proof -
  show ?thesis
    using sample_login_evaluated(19) sample_consumed sample_loginVerified sample_updates
    by (simp add: finishLogin_def loginCompleted_def sessions_Create_def sample_app3_def sample_app2_def sample_app0_def sample_app4_def
        Let_def map_put_def)
qed

section \<open>The run\<close>

lemma app_run_reachable: "app_run cfg s s' \<Longrightarrow> app_reachable cfg accounts s \<Longrightarrow> app_reachable cfg accounts s'"
  by (induction rule: rtranclp_induct) (auto intro: app_reachable.step)

lemma sample_reachable: "app_reachable sample_app sample_accounts (sample_app3, {#})"
    "app_reachable sample_app sample_accounts (sample_app4, {#})"
proof -
  have "app_run sample_app (sample_app0, {#}) (sample_app1, {#})" "app_run sample_app (sample_app1, {#}) (sample_app2, {#})"
      "app_run sample_app (sample_app2, {#}) (sample_app3, {#})" "app_run sample_app (sample_app3, {#}) (sample_app4, {#})"
    using beginEnrollment_run [of sample_app sample_app0 "{#}" sample_call "''s''"]
      finishEnrollment_run [of sample_app sample_app1 "{#}" sample_call "''s''" sample_name sample_attestation_body]
      beginLogin_run [of sample_app sample_app2 "{#}" sample_call "''t''" "[]"]
      finishLogin_run [of sample_app sample_app3 "{#}" sample_call "''t''" sample_name sample_answer_body]
    by (simp_all add: sample_beginEnrollment sample_finishEnrollment sample_beginLogin sample_finishLogin)
  moreover have "app_reachable sample_app sample_accounts (sample_app0, {#})"
    unfolding sample_app0_def by (rule app_reachable.start)
  ultimately show "app_reachable sample_app sample_accounts (sample_app3, {#})"
      "app_reachable sample_app sample_accounts (sample_app4, {#})"
    using app_run_reachable by blast+
qed

lemma sample_reachable_updating: "app_reachable sample_app sample_accounts (sample_app2, {#sample_updating#})"
proof -
  have empty: "sample_app3\<lparr>app_ceremonies := []\<rparr> = sample_app2"
    by (simp add: sample_app3_def sample_app2_def sample_app0_def)
  have "app_step sample_app (sample_app3, {#}) (sample_app2, {#LoggingIn sample_call sample_saved_login sample_answer_body#})"
    using login_consumes [of sample_app3 sample_call sample_name "''t''" "[]" sample_saved_login sample_app "{#}" sample_answer_body]
      sample_consumed by (simp add: empty)
  moreover have "app_step sample_app (sample_app2, {#LoggingIn sample_call sample_saved_login sample_answer_body#})
      (sample_app2, {#sample_updating#})"
    unfolding sample_updating_def using sample_loginVerified by (intro verifies) (simp add: sample_app2_def)
  ultimately show ?thesis
    using sample_reachable(1) app_reachable.step by blast
qed

end
