(* ===== verification/Sample_Apps.thy ===== *)
theory Sample_Apps
  imports E2e_Runs Quickstart_Runs Sample_Integration
begin

text \<open>
  Runs of the two web applications: in the demo a login of the sample user, in the end-to-end application a registration with a
  platform authenticator followed by a login. Short byte strings stand for the JSON and CBOR that the browser sends.
\<close>

section \<open>The end-to-end application: inputs\<close>

definition e2e_origin_text :: string where "e2e_origin_text = ''https://example.org:8443''"

definition e2e_client_json :: "ClientDataType \<Rightarrow> json" where
  "e2e_client_json type = JObject [(''type'', JString type), (''challenge'', JString (b64_encode (replicate 32 3))),
     (''origin'', JString e2e_origin_text), (''crossOrigin'', JBool False)]"

definition e2e_created :: bytes where
  "e2e_created = sample_hash @ [0x45, 0, 0, 0, 7] @ replicate 16 0 @ [0, 1, 42, 0xa5]"

definition e2e_registration :: RegistrationResponse where
  "e2e_registration = (rver_Response sample_attestation)\<lparr>rr_AuthenticatorData := \<lparr>bv_value = Some e2e_created\<rparr>\<rparr>"

definition e2e_assertion :: AuthenticationResponse where
  "e2e_assertion = (aver_Response sample_assertion)\<lparr>ar_UserHandle := \<lparr>bv_value = Some (replicate 32 3)\<rparr>\<rparr>"

definition e2e_sample_std :: go_std where
  "e2e_sample_std = sample_std\<lparr>
     std_json := (\<lambda>bs. if bs = [1] then Some (e2e_client_json ClientDataTypeCreate)
       else if bs = [2] then Some (e2e_client_json ClientDataTypeGet)
       else if bs = [11] then Some (registration_json e2e_registration None [])
       else if bs = [12] then Some (authentication_json e2e_assertion []) else None),
     std_url_Parse := (\<lambda>s. if s = e2e_origin_text
       then Some \<lparr>url_Scheme = ''https'', url_Opaque = [], url_HasUser = False, url_Host = ''example.org:8443'',
         url_Path = [], url_RawQuery = [], url_Fragment = [], url_String = s\<rparr> else None)\<rparr>"

definition e2e_object :: goval where
  "e2e_object = VMap TString TIface (Some [(VString ''fmt'', VString ''none''), (VString ''attStmt'', VMap TIface TIface (Some [])),
     (VString ''authData'', VBytes (Some e2e_created))])"

definition e2e_cbor :: go_cbor where
  "e2e_cbor = \<lparr>cbor_Unmarshal = (\<lambda>bs. if bs = [6] then Inr e2e_object else Inr sample_cose),
     cbor_UnmarshalFirst = (\<lambda>bs. Inr (sample_cose, drop 1 bs)),
     cbor_Marshal = (\<lambda>v. Inr (case v of VMap TString _ _ \<Rightarrow> [6] | _ \<Rightarrow> [0xa5])), ecdh_NewPublicKey = (\<lambda>_ _. True)\<rparr>"

definition e2e_gc :: go_crypto where
  "e2e_gc = sample_gc\<lparr>gc_ecdsa_VerifyASN1 := (\<lambda>_ _ _ signature. signature = [9])\<rparr>"

definition sample_e2e :: e2e_app where
  "sample_e2e = \<lparr>e2e_std = e2e_sample_std, e2e_text = text_layer, e2e_pki = sample_pki, e2e_crypto = e2e_gc, e2e_RawMember = (\<lambda>_ _. None),
     e2e_rpID = ''example.org'', e2e_origin = e2e_origin_text, e2e_decoder = e2e_cbor, e2e_attesters = [(none_format, none_Verifier)],
     e2e_extensions = projr NewLevel3RegistryWithDeprecated\<rparr>"

definition sample_http :: http_request where
  "sample_http = \<lparr>req_Method = ''POST'', req_Host = ''example.org'', req_Header = (\<lambda>_. []), req_Cookie = (\<lambda>_. None), req_Query = (\<lambda>_. []),
     req_Body = None, req_Context = Background\<rparr>"

definition sample_server_call :: server_call where
  "sample_server_call = \<lparr>srv_env = sample_env, srv_rand = (\<lambda>_. sample_env), srv_now = (\<lambda>_. 1000)\<rparr>"

section \<open>The end-to-end application: one run\<close>

definition e2e_handle :: UserHandle where "e2e_handle = \<lparr>bv_value = Some (replicate 32 3)\<rparr>"
definition e2e_handle_key :: string where "e2e_handle_key = b64_encode (replicate 32 3)"

definition e2e_u1 :: e2e_user where
  "e2e_u1 = \<lparr>u_Handle = e2e_handle, u_Email = ''u'', u_DisplayName = ''u'', u_CreatedAt = 1000\<rparr>"

definition e2e_s1 :: e2e_store where
  "e2e_s1 = newStore\<lparr>st_usersByEmail := [(''u'', e2e_u1)], st_usersByHandle := [(e2e_handle_key, e2e_u1)]\<rparr>"

definition e2e_state :: RegistrationState where
  "e2e_state = sample_state\<lparr>rs_OriginPolicy := e2e_originPolicy sample_e2e, rs_UserHandle := e2e_handle,
     rs_RequestedUserVerification := UserVerificationRequired, rs_AllowedAlgorithms := [AlgorithmES256]\<rparr>"

definition e2e_saved :: registrationState where "e2e_saved = \<lparr>ers_Email = ''u'', ers_State = e2e_state\<rparr>"

definition e2e_record :: CredentialRecord where
  "e2e_record = sample_credential\<lparr>cr_PublicKey := sample_cose_key, cr_UserHandle := e2e_handle\<rparr>"

definition e2e_s2 :: e2e_store where
  "e2e_s2 = e2e_s1\<lparr>st_heap := [\<lparr>ec_Credential = e2e_record, ec_CreatedAt = 1000, ec_UpdatedAt = 1000\<rparr>],
     st_credentialsByID := [(b64_encode [42], 0)], st_credentialsByUserHandle := [(e2e_handle_key, [0])]\<rparr>"

definition e2e_s3 :: e2e_store where "e2e_s3 = e2e_s2\<lparr>st_sessions := [(sample_name, e2e_handle_key)]\<rparr>"

definition e2e_login :: authenticationState where
  "e2e_login = \<lparr>eas_Email = [], eas_State = sample_login_state\<lparr>as_OriginPolicy := e2e_originPolicy sample_e2e\<rparr>\<rparr>"

definition e2e_checked :: AuthenticationResult where
  "e2e_checked = snd (projr (assertionVerified sample_e2e e2e_s3 sample_http sample_server_call ''u'' [12] (Some e2e_login)))"

definition e2e_s4 :: e2e_store where
  "e2e_s4 = e2e_s3\<lparr>st_heap := [\<lparr>ec_Credential = e2e_record\<lparr>cr_SignCount := 8\<rparr>, ec_CreatedAt = 1000, ec_UpdatedAt = 1000\<rparr>]\<rparr>"

lemma e2e_user_made: "getOrCreateUser newStore sample_env 1000 ''u'' [] = (e2e_s1, Inr e2e_u1)"
  by code_simp

lemma e2e_start_run: "case StartRegistration (e2e_std sample_e2e) sample_env (Some Background) (registerStart sample_e2e e2e_u1 ''platform'') of
    Inl _ \<Rightarrow> False | Inr out \<Rightarrow> rsr_State out = e2e_state"
  by code_simp

lemma e2e_register_run: "case registerVerified sample_e2e sample_http sample_server_call ''u'' [11] (Some e2e_saved) of
    Inl _ \<Rightarrow> False | Inr out \<Rightarrow> rres_Credential out = e2e_record"
  by code_simp

lemma e2e_inserted: "insertCredential e2e_s1 1000 e2e_record = (e2e_s2, True)"
  by code_simp

lemma e2e_entered: "createSession e2e_s2 sample_env e2e_handle = (e2e_s3, Inr sample_name)"
  by code_simp

lemma e2e_ask_run: "case StartAuthentication (e2e_std sample_e2e) sample_env (Some Background) (loginStart sample_e2e [] [] zero_byteValue) of
    Inl _ \<Rightarrow> False | Inr out \<Rightarrow> asr_State out = eas_State e2e_login"
  by code_simp

lemma e2e_check_run: "case assertionVerified sample_e2e e2e_s3 sample_http sample_server_call ''u'' [12] (Some e2e_login) of
    Inl _ \<Rightarrow> False | Inr (stored, out) \<Rightarrow> stored = e2e_record \<and> ares_Update out = sample_update"
  by code_simp

lemma e2e_updated: "updateCredential e2e_s3 1000 sample_update = (e2e_s4, True)"
  by code_simp

lemma e2e_steps:
  obtains start where "StartRegistration (e2e_std sample_e2e) sample_env (Some Background) (registerStart sample_e2e e2e_u1 ''platform'') = Inr start"
    "rsr_State start = e2e_state"
  using e2e_start_run by (auto split: sum.splits)

lemma e2e_registered_once:
  obtains res where "registerVerified sample_e2e sample_http sample_server_call ''u'' [11] (Some e2e_saved) = Inr res"
    "rres_Credential res = e2e_record"
  using e2e_register_run by (auto split: sum.splits)

lemma e2e_checked:
  "assertionVerified sample_e2e e2e_s3 sample_http sample_server_call ''u'' [12] (Some e2e_login) = Inr (e2e_record, e2e_checked)"
  "ares_Update e2e_checked = sample_update"
  using e2e_check_run by (auto simp: e2e_checked_def split: sum.splits)

lemma e2e_reachable_entered: "e2e_reachable sample_e2e (e2e_s3, {#})"
proof -
  have "e2e_reachable sample_e2e (e2e_s1, {#Starting e2e_u1#})"
    using e2e_reachable.step [OF e2e_reachable.start e2e_step.finds_user [OF e2e_user_made]] by simp
  moreover obtain start where start:
      "StartRegistration (e2e_std sample_e2e) sample_env (Some Background) (registerStart sample_e2e e2e_u1 ''platform'') = Inr start"
      "rsr_State start = e2e_state"
    by (rule e2e_steps)
  have "\<lparr>ers_Email = u_Email e2e_u1, ers_State = rsr_State start\<rparr> = e2e_saved"
    by (simp add: e2e_u1_def e2e_saved_def start)
  ultimately have saved: "e2e_reachable sample_e2e (saveRegistrationState e2e_s1 sample_name e2e_saved, {#})"
    using e2e_reachable.step e2e_step.saves_registration [OF start(1)] by metis
  have "consumeRegistrationState (saveRegistrationState e2e_s1 sample_name e2e_saved) sample_name = (e2e_s1, Some e2e_saved)"
    by (simp add: consumeRegistrationState_def saveRegistrationState_def e2e_s1_def newStore_def map_put_def map_delete_def)
  from e2e_reachable.step [OF saved e2e_step.takes_registration [OF this]]
  have registering: "e2e_reachable sample_e2e (e2e_s1, {#Registering (Some e2e_saved)#})" .
  obtain res where res: "registerVerified sample_e2e sample_http sample_server_call ''u'' [11] (Some e2e_saved) = Inr res"
      "rres_Credential res = e2e_record"
    by (rule e2e_registered_once)
  have "e2e_reachable sample_e2e (e2e_s2, {#Entering e2e_handle#})"
    using e2e_reachable.step [OF registering e2e_step.registers [OF res(1)]] e2e_inserted res(2) by (simp add: e2e_record_def)
  then show ?thesis
    using e2e_reachable.step e2e_step.enters [OF e2e_entered] by blast
qed

lemma e2e_reachable_refreshing: "e2e_reachable sample_e2e (e2e_s3, {#Refreshing e2e_record e2e_checked#})"
proof -
  have saved: "e2e_reachable sample_e2e (saveAuthenticationState e2e_s3 sample_name e2e_login, {#})"
    using e2e_reachable.step [OF e2e_reachable_entered e2e_step.saves_authentication] .
  have "consumeAuthenticationState (saveAuthenticationState e2e_s3 sample_name e2e_login) sample_name = (e2e_s3, Some e2e_login)"
    by (simp add: consumeAuthenticationState_def saveAuthenticationState_def e2e_s3_def e2e_s2_def e2e_s1_def newStore_def map_put_def map_delete_def)
  from e2e_reachable.step [OF saved e2e_step.takes_authentication [OF this]]
  show ?thesis
    using e2e_reachable.step e2e_step.checks [OF e2e_checked(1)] by blast
qed

section \<open>The demo\<close>

definition sample_demo :: demo_app where
  "sample_demo = \<lparr>demo_std = sample_text_std, demo_text = text_layer, demo_rp = sample_rp,
     demo_user = \<lparr>user_ID = sample_user, user_Name = ''demo'', user_DisplayName = ''Local demo account''\<rparr>\<rparr>"

definition sample_demo_store :: memoryStore where
  "sample_demo_store = newMemoryStore\<lparr>qs_authentication := [(sample_name, sample_login_state)],
     qs_credentials := [(''*'', sample_credential)]\<rparr>"

definition sample_demo_http :: http_request where
  "sample_demo_http = sample_http\<lparr>req_Cookie := (\<lambda>name. if name = qs_authenticationCookie then Some sample_name else None),
     req_Body := Some \<lparr>rb_Bytes = sample_answer_body, rb_Error = None\<rparr>\<rparr>"

definition sample_other_http :: http_request where
  "sample_other_http = sample_http\<lparr>req_Method := ''GET'', req_Host := ''localhost:8080''\<rparr>"

definition sample_other_call :: server_call where
  "sample_other_call = sample_server_call\<lparr>srv_rand := (\<lambda>_. sample_env\<lparr>env_Reader := (\<lambda>_. Inr (\<lambda>_. 4))\<rparr>)\<rparr>"

lemma sample_demo_began: "case beginAuthentication sample_demo newMemoryStore NilIface sample_http sample_server_call of (s, events) \<Rightarrow>
    s = newMemoryStore\<lparr>qs_authentication := [(sample_name, sample_login_state)]\<rparr> \<and>
    SetCookie qs_authenticationCookie sample_name 600 \<in> set events"
  by code_simp

lemma sample_demo_begin:
  "SetCookie qs_authenticationCookie sample_name 600 \<in> set (snd (beginAuthentication sample_demo newMemoryStore NilIface sample_http sample_server_call))"
  "fst (beginAuthentication sample_demo newMemoryStore NilIface sample_http sample_server_call)
    = newMemoryStore\<lparr>qs_authentication := [(sample_name, sample_login_state)]\<rparr>"
  using sample_demo_began by (auto split: prod.splits)

lemma sample_demo_simps [simp]: "demo_std sample_demo = sample_text_std" "demo_text sample_demo = text_layer" "demo_rp sample_demo = sample_rp"
    "req_Context sample_demo_http = Background" "srv_env sample_server_call = sample_env" "srv_rand sample_server_call i = sample_env"
    "srv_now sample_server_call i = 1000" "cookieID sample_demo_http qs_authenticationCookie = sample_name"
  by (simp_all add: sample_demo_def sample_demo_http_def sample_http_def sample_server_call_def cookieID_def)

lemma sample_demo_verified:
  "demoVerified sample_demo (sample_demo_store\<lparr>qs_authentication := []\<rparr>) sample_demo_http sample_server_call (Some sample_login_state)
    = Inr sample_logged_in"
proof -
  have "ReadAuthenticationResponse sample_text_std text_layer (req_Body sample_demo_http) 0 = Inr sample_answer"
    using sample_login_evaluated(5) sample_answer_read
    by (simp add: ReadAuthenticationResponse_def readRequestBody_def ReadAllLimited_def sample_demo_http_def DefaultMaxBodyBytes_def
        MaxResponseJSONBytes_def Let_def)
  moreover have "qs_lookup (sample_demo_store\<lparr>qs_authentication := []\<rparr>) (ar_RawID sample_answer) (ar_UserHandle sample_answer) = Some sample_credential"
    using sample_login_evaluated(8,9,13) by (simp add: qs_lookup_def sample_demo_store_def CredentialRecord_Clone_id)
  ultimately show ?thesis
    using sample_logged_in by (simp add: demoVerified_def)
qed

lemma sample_demo_login:
  "SetCookie qs_sessionCookie sample_name 3600
    \<in> set (snd (finishAuthentication sample_demo sample_demo_store NilIface sample_demo_http sample_server_call))"
proof -
  have "takeAuthentication sample_demo_store 1000 sample_name = (sample_demo_store\<lparr>qs_authentication := []\<rparr>, Some sample_login_state)"
    by (simp add: takeAuthentication_def prune_def sample_demo_store_def newMemoryStore_def map_delete_def Before_def Let_def
        sample_login_state_def sample_auth_state_def)
  moreover obtain s where "qs_update (sample_demo_store\<lparr>qs_authentication := []\<rparr>) (ares_Update sample_logged_in) = (s, True)" "qs_sessions s = []"
    using sample_login_evaluated(15,17) sample_logged_in(4) by (simp add: qs_update_def sample_demo_store_def newMemoryStore_def Let_def)
  moreover have "token sample_env = Inr sample_name"
    by code_simp
  moreover have "snd (openSession s 1000 old sample_name 1000)" if "qs_sessions s = []" for s old
    using that by (simp add: openSession_def prune_def map_delete_def Let_def)
  ultimately show ?thesis
    using sample_demo_verified by (simp add: finishAuthentication_def Let_def split: prod.split bool.split) (metis snd_conv)
qed

lemma sample_demo_reachable: "demo_reachable sample_demo sample_demo_store"
proof -
  have "qs_insert newMemoryStore (rres_Credential sample_enrolled) = (newMemoryStore\<lparr>qs_credentials := [(''*'', sample_credential)]\<rparr>, True)"
    using sample_row_key by (simp add: qs_insert_def newMemoryStore_def sample_enrolled CredentialRecord_Clone_id map_put_def Let_def)
  moreover have "demo_step sample_demo newMemoryStore (fst (qs_insert newMemoryStore (rres_Credential sample_enrolled)))"
    by (rule demo_step.inserts) (use sample_enrolled(1) in simp)
  ultimately have first: "demo_reachable sample_demo (newMemoryStore\<lparr>qs_credentials := [(''*'', sample_credential)]\<rparr>)"
    using demo_reachable.step [OF demo_reachable.start] by simp
  have "fst (saveAuthentication (newMemoryStore\<lparr>qs_credentials := [(''*'', sample_credential)]\<rparr>) 0 [] sample_name sample_login_state)
      = sample_demo_store"
    by (simp add: saveAuthentication_def prune_def newMemoryStore_def sample_demo_store_def map_delete_def map_put_def Let_def)
  then show ?thesis
    using demo_reachable.step [OF first demo_step.saves_authentication] by metis
qed

lemma sample_undisturbed: "undisturbed sample_name sample_login_state sample_other_http sample_other_call"
proof -
  have "cookieID sample_other_http qs_authenticationCookie \<noteq> sample_name" "token (srv_rand sample_other_call 0) \<noteq> Inr sample_name"
    by code_simp+
  then show ?thesis
    by (simp add: undisturbed_def sample_other_call_def Before_def sample_login_state_def sample_auth_state_def)
qed

end
