(* ===== verification/Clone_Size.thy ===== *)
theory Clone_Size
  imports Extension_Value
begin

text \<open>
  How large a value is, measured without regard to the budget of the copy: its nesting, the number of values in it, and the
  length of the strings and byte slices it holds. The copy is proved to pay for all of it.
\<close>

section \<open>Measures\<close>

definition prf_size :: "PRFValues \<Rightarrow> int" where
  "prf_size v = int (length (bytes_of (prf_First v))) + int (length (bytes_of (prf_Second v)))"

definition key_size :: "goval \<Rightarrow> int" where
  "key_size k = (case k of VString s \<Rightarrow> int (length s) | VStringInput s \<Rightarrow> int (length s) | _ \<Rightarrow> 0)"

fun value_nodes :: "goval \<Rightarrow> int" where
  "value_nodes (VRawInput (Some v)) = value_nodes v"
| "value_nodes (VSlice t (Some xs)) = 1 + sum_list (map value_nodes xs)"
| "value_nodes (VArray t xs) = 1 + sum_list (map value_nodes xs)"
| "value_nodes (VMap k t (Some es)) = 1 + sum_list (map (\<lambda>(_, x). 1 + value_nodes x) es)"
| "value_nodes (VPRFInput p) =
    1 + (case prf_EvalByCredential p of None \<Rightarrow> 0 | Some m \<Rightarrow> int (length m))
    + (case prf_AllowCredentials p of None \<Rightarrow> 0 | Some names \<Rightarrow> int (length names))"
| "value_nodes (VPRFResult p) = 1 + (case prfr_EvalByCredential p of None \<Rightarrow> 0 | Some m \<Rightarrow> int (length m))"
| "value_nodes (VUVMResult (Some es)) = 1 + int (length es)"
| "value_nodes (VUVMEntries (Some es)) = 1 + int (length es)"
| "value_nodes v = 1"

fun value_bytes :: "goval \<Rightarrow> int" where
  "value_bytes (VRawInput (Some v)) = value_bytes v"
| "value_bytes (VSlice t (Some xs)) = sum_list (map value_bytes xs)"
| "value_bytes (VArray t xs) = sum_list (map value_bytes xs)"
| "value_bytes (VMap k t (Some es)) = sum_list (map (\<lambda>(key, x). key_size key + value_bytes x) es)"
| "value_bytes (VString s) = int (length s)"
| "value_bytes (VStringInput s) = int (length s)"
| "value_bytes (VPtrStringInput (Some s)) = int (length s)"
| "value_bytes (VBytes (Some b)) = int (length b)"
| "value_bytes (VPRFValues p) = prf_size p"
| "value_bytes (VPRFInput p) =
    (case prf_Eval p of None \<Rightarrow> 0 | Some v \<Rightarrow> prf_size v)
    + (case prf_EvalByCredential p of None \<Rightarrow> 0 | Some m \<Rightarrow> sum_list (map (\<lambda>(name, v). int (length name) + prf_size v) m))
    + (case prf_AllowCredentials p of None \<Rightarrow> 0 | Some names \<Rightarrow> sum_list (map (\<lambda>name. int (length name)) names))"
| "value_bytes (VPRFResult p) =
    (case prfr_Eval p of None \<Rightarrow> 0 | Some v \<Rightarrow> prf_size v)
    + (case prfr_EvalByCredential p of None \<Rightarrow> 0 | Some m \<Rightarrow> sum_list (map (\<lambda>(name, v). int (length name) + prf_size v) m))
    + (case prfr_Results p of None \<Rightarrow> 0 | Some v \<Rightarrow> prf_size v)"
| "value_bytes (VLargeBlobInput l) = int (length (bytes_of (lb_Write l)))"
| "value_bytes (VLargeBlobResult l) = int (length (bytes_of (lbr_Write l))) + int (length (bytes_of (lbr_Blob l)))"
| "value_bytes v = 0"

text \<open>The nesting below a value: none below a value without elements.\<close>

fun value_depth :: "goval \<Rightarrow> int" where
  "value_depth (VRawInput (Some v)) = value_depth v"
| "value_depth (VSlice t (Some xs)) = Max (insert 0 (set (map (\<lambda>x. 1 + value_depth x) xs)))"
| "value_depth (VArray t xs) = Max (insert 0 (set (map (\<lambda>x. 1 + value_depth x) xs)))"
| "value_depth (VMap k t (Some es)) = Max (insert 0 (set (map (\<lambda>(_, x). 1 + value_depth x) es)))"
| "value_depth v = 0"

section \<open>Sizes by shape\<close>

definition list_depth :: "goval list \<Rightarrow> int" where
  "list_depth xs = Max (insert 0 (set (map (\<lambda>x. 1 + value_depth x) xs)))"

lemma list_depth_simps [simp]: "list_depth [] = 0" "list_depth (x # xs) = max (1 + value_depth x) (list_depth xs)"
proof -
  have "Max (insert 0 (insert (1 + value_depth x) ((\<lambda>x. 1 + value_depth x) ` set xs)))
      = Max (insert (1 + value_depth x) (insert 0 ((\<lambda>x. 1 + value_depth x) ` set xs)))"
    by (simp only: insert_commute)
  then show "list_depth (x # xs) = max (1 + value_depth x) (list_depth xs)"
    by (simp add: list_depth_def)
qed (simp add: list_depth_def)

lemma sequence_size:
  assumes "shape_of v = Sequence c t xs"
  shows "value_nodes v = 1 + sum_list (map value_nodes xs)" "value_bytes v = sum_list (map value_bytes xs)"
    "value_depth v = list_depth xs" "shape_of (c ys) = Sequence c t ys" "directCloneCost v = (1, 0)"
  using assms by (cases v; auto simp: list_depth_def directCloneCost_def split: option.splits)+

lemma entries_size:
  assumes "shape_of v = Entries k t es"
  shows "value_nodes v = 1 + sum_list (map (\<lambda>(_, x). 1 + value_nodes x) es)"
    "value_bytes v = sum_list (map (\<lambda>(key, x). key_size key + value_bytes x) es)"
    "value_depth v = list_depth (map snd es)" "directCloneCost v = (1, 0)"
  using assms by (cases v; auto simp: list_depth_def directCloneCost_def case_prod_unfold image_image split: option.splits)+

lemma wrapped_size:
  assumes "shape_of v = Wrapped w"
  shows "value_nodes v = value_nodes w" "value_bytes v = value_bytes w" "value_depth v = value_depth w"
  using assms by (cases v; auto split: option.splits)+

lemma leaf_paid:
  "shape_of v = Leaf \<Longrightarrow> value_nodes v \<le> fst (directCloneCost v) \<and> value_bytes v \<le> snd (directCloneCost v) \<and> value_depth v = 0"
  by (cases v)
    (auto simp: directCloneCost_def prfInputCost_def bytes_len_def prf_size_def map_entries_def Let_def bytes_of_def add.assoc
      split: option.splits prod.splits)

lemma leaf_copied:
  "cloneLeaf v = Inr w \<Longrightarrow> shape_of v = Leaf \<Longrightarrow>
    shape_of w = Leaf \<and> value_nodes w = value_nodes v \<and> value_bytes w = value_bytes v \<and> value_depth w = value_depth v"
  by (cases v) (auto split: option.splits if_splits)

lemma value_depth_nonneg: "0 \<le> value_depth v"
  by (induction v rule: value_depth.induct) (auto intro: Max_ge)

lemma nil_size: "nil_of t = Some z \<Longrightarrow> value_nodes z = 1 \<and> value_bytes z = 0 \<and> value_depth z = 0"
  by (cases t) (auto split: if_splits)

lemma setClonedValue_size:
  "setClonedValue t v = Inr w \<Longrightarrow> value_nodes w = value_nodes v \<and> value_bytes w = value_bytes v \<and> value_depth w = value_depth v"
  using nil_size [of t w] by (auto simp: setClonedValue_def split: if_splits option.splits)

section \<open>The copy pays for what it copies\<close>

definition paid :: "cloneBudget \<Rightarrow> cloneBudget \<Rightarrow> int \<Rightarrow> int \<Rightarrow> bool" where
  "paid b b' nodes chars \<longleftrightarrow> cb_limits b' = cb_limits b \<and> cb_nodes b + nodes \<le> cb_nodes b' \<and> cb_bytes b + chars \<le> cb_bytes b'"

lemma clone_paid:
  "cloneValueAt v d b = Inr (w, b') \<Longrightarrow> paid b b' (value_nodes v) (value_bytes v) \<and> d + value_depth v \<le> cl_MaxDepth (cb_limits b) \<and>
    value_nodes w = value_nodes v \<and> value_bytes w = value_bytes v \<and> value_depth w = value_depth v"
  "cloneSequence t xs d b = Inr (ys, b') \<Longrightarrow> paid b b' (sum_list (map value_nodes xs)) (sum_list (map value_bytes xs)) \<and>
    (xs \<noteq> [] \<longrightarrow> d + list_depth xs - 1 \<le> cl_MaxDepth (cb_limits b)) \<and> map value_nodes ys = map value_nodes xs \<and>
    map value_bytes ys = map value_bytes xs \<and> list_depth ys = list_depth xs"
  "cloneMap t es d b = Inr (fs, b') \<Longrightarrow> paid b b' (sum_list (map (\<lambda>(_, x). 1 + value_nodes x) es))
      (sum_list (map (\<lambda>(key, x). key_size key + value_bytes x) es)) \<and>
    (es \<noteq> [] \<longrightarrow> d + list_depth (map snd es) - 1 \<le> cl_MaxDepth (cb_limits b)) \<and>
    map (\<lambda>(_, x). 1 + value_nodes x) fs = map (\<lambda>(_, x). 1 + value_nodes x) es \<and>
    map (\<lambda>(key, x). key_size key + value_bytes x) fs = map (\<lambda>(key, x). key_size key + value_bytes x) es \<and>
    list_depth (map snd fs) = list_depth (map snd es)"
proof (induction v d b and t xs d b and t es d b arbitrary: w b' and ys b' and fs b'
    rule: cloneValueAt_cloneSequence_cloneMap.induct)
  case (1 v d b)
  show ?case
  proof (cases "shape_of v")
    case (Wrapped inner)
    then show ?thesis
      using 1(1) [OF Wrapped] 1(8) wrapped_size [OF Wrapped] by (simp add: cloneValueAt.simps [of v])
  next
    case (Sequence c t xs)
    obtain b1 ys where run: "\<not> d > cl_MaxDepth (cb_limits b)"
      "consume b (fst (directCloneCost v)) (snd (directCloneCost v)) = Inr b1"
      "cloneSequence t xs (d + 1) b1 = Inr (ys, b')" "w = c ys"
      using cloneValueAt_SequenceD [OF 1(8) Sequence] by blast
    have items: "paid b1 b' (sum_list (map value_nodes xs)) (sum_list (map value_bytes xs))"
        "xs \<noteq> [] \<longrightarrow> d + list_depth xs \<le> cl_MaxDepth (cb_limits b1)" "map value_nodes ys = map value_nodes xs"
        "map value_bytes ys = map value_bytes xs" "list_depth ys = list_depth xs"
      using 1(2) [OF Sequence run(1) refl run(3)] by auto
    have copy: "value_nodes w = 1 + sum_list (map value_nodes ys)" "value_bytes w = sum_list (map value_bytes ys)"
        "value_depth w = list_depth ys"
      using sequence_size [of w c t ys] sequence_size(4) [OF Sequence, of ys] run(4) by simp_all
    have "paid b b' (value_nodes v) (value_bytes v)"
      using run(2) items(1) sequence_size [OF Sequence] by (auto simp: paid_def consume_Inr_iff)
    moreover have "d + value_depth v \<le> cl_MaxDepth (cb_limits b)"
      using run(1,2) items(2) sequence_size(3) [OF Sequence] by (cases xs) (auto simp: consume_Inr_iff)
    ultimately show ?thesis
      using items(3-5) copy sequence_size(1-3) [OF Sequence] by simp
  next
    case (Entries k t es)
    obtain b1 fs where run: "\<not> d > cl_MaxDepth (cb_limits b)"
      "consume b (fst (directCloneCost v)) (snd (directCloneCost v)) = Inr b1"
      "cloneMap t es (d + 1) b1 = Inr (fs, b')" "w = VMap k t (Some fs)"
      using cloneValueAt_EntriesD [OF 1(8) Entries] by blast
    have items: "paid b1 b' (sum_list (map (\<lambda>(_, x). 1 + value_nodes x) es)) (sum_list (map (\<lambda>(key, x). key_size key + value_bytes x) es))"
        "es \<noteq> [] \<longrightarrow> d + list_depth (map snd es) \<le> cl_MaxDepth (cb_limits b1)"
        "map (\<lambda>(_, x). 1 + value_nodes x) fs = map (\<lambda>(_, x). 1 + value_nodes x) es"
        "map (\<lambda>(key, x). key_size key + value_bytes x) fs = map (\<lambda>(key, x). key_size key + value_bytes x) es"
        "list_depth (map snd fs) = list_depth (map snd es)"
      using 1(5) [OF Entries run(1) refl run(3)] by auto
    have shape: "shape_of w = Entries k t fs"
      by (simp add: run(4))
    have "paid b b' (value_nodes v) (value_bytes v)"
      using run(2) items(1) entries_size [OF Entries] by (auto simp: paid_def consume_Inr_iff)
    moreover have "d + value_depth v \<le> cl_MaxDepth (cb_limits b)"
      using run(1,2) items(2) entries_size(3) [OF Entries] by (cases es) (auto simp: consume_Inr_iff)
    ultimately show ?thesis
      using items(3-5) entries_size(1-3) [OF Entries] entries_size(1-3) [OF shape] by simp
  next
    case Leaf
    then obtain b1 where run: "\<not> d > cl_MaxDepth (cb_limits b)" "cloneLeaf v = Inr w"
      "consume b (fst (directCloneCost v)) (snd (directCloneCost v)) = Inr b1" "b' = b1"
      using 1(8) by (auto simp: cloneValueAt.simps [of v] result_inv)
    then show ?thesis
      using leaf_paid [OF Leaf] leaf_copied [OF run(2) Leaf] by (auto simp: paid_def consume_Inr_iff)
  qed
next
  case (2 t d b)
  then show ?case
    by (auto simp: paid_def)
next
  case (3 t x xs d b)
  obtain item b1 y zs where run: "cloneValueAt x d b = Inr (item, b1)"
    "setClonedValue t item = Inr y" "cloneSequence t xs d b1 = Inr (zs, b')" "ys = y # zs"
    using 3(3) by (auto simp: result_inv)
  show ?case
    using value_depth_nonneg [of x] 3(1) [OF run(1)] 3(2) [OF run(3)] setClonedValue_size [OF run(2)] run(4) by (cases xs) (auto simp: paid_def)
next
  case (4 t d b)
  then show ?case
    by (auto simp: paid_def)
next
  case (5 t k x es d b)
  obtain b1 item b2 y gs where run: "consume b 1 (mapKeyByteSize k) = Inr b1"
    "cloneMapKey k = Inr k" "cloneValueAt x d b1 = Inr (item, b2)"
    "setClonedValue t item = Inr y" "cloneMap t es d b2 = Inr (gs, b')" "fs = (k, y) # gs"
    using 5(3) cloneMapKey_fixed [of k] by (force simp: result_inv)
  have key: "mapKeyByteSize k = key_size k"
    by (simp add: mapKeyByteSize_def key_size_def)
  show ?case
    using value_depth_nonneg [of x] 5(1) [OF run(3)] 5(2) [OF run(5)] setClonedValue_size [OF run(4)] run(1,6) key
    by (cases es) (auto simp: paid_def consume_Inr_iff)
qed

lemma CloneValueWithLimits_size:
  assumes "CloneValueWithLimits v limits = Inr w"
  shows "value_nodes w \<le> cl_MaxNodes (normalizeCloneLimits limits)" "value_bytes w \<le> cl_MaxBytes (normalizeCloneLimits limits)"
    "value_depth w \<le> cl_MaxDepth (normalizeCloneLimits limits)"
proof -
  let ?b = "\<lparr>cb_limits = normalizeCloneLimits limits, cb_nodes = 0, cb_bytes = 0\<rparr>"
  obtain b' where run: "cloneValueAt v 0 ?b = Inr (w, b')" and limits: "\<not> cl_MaxNodes limits < 0" "\<not> cl_MaxBytes limits < 0"
    using assms by (auto simp: CloneValueWithLimits_def result_inv split: if_splits)
  have "in_budget ?b"
    using limits by (simp add: in_budget_def normalizeCloneLimits_def DefaultMaxCloneNodes_def DefaultMaxCloneBytes_def)
  then have "in_budget b'" "cb_limits b' = normalizeCloneLimits limits"
    using clone_spends(1) [OF run] by (simp_all add: spends_def)
  then show "value_nodes w \<le> cl_MaxNodes (normalizeCloneLimits limits)" "value_bytes w \<le> cl_MaxBytes (normalizeCloneLimits limits)"
      "value_depth w \<le> cl_MaxDepth (normalizeCloneLimits limits)"
    using clone_paid(1) [OF run] by (auto simp: in_budget_def paid_def)
qed

text \<open>A map with a string, a list of byte slices and their names.\<close>

definition sample_nested :: goval where
  "sample_nested = VMap TString TIface (Some [(VString ''a'', VString ''xyz''),
     (VString ''b'', VSlice TIface (Some [VBytes (Some [1, 2]), VString ''uv'']))])"

end
