(* ===== verification/Honest_Ceremony.thy ===== *)
theory Honest_Ceremony
  imports Authentication_Spec
begin

text \<open>
  What an honest browser and authenticator answer to the options of a started ceremony, written down from the Web
  Authentication specification and not from the verification code: the members of the client data, the bits of the
  flags, the layout of the authenticator data and what is signed. The ceremonies accept such answers.
\<close>

section \<open>Honest answers\<close>

definition browserClientData :: "string \<Rightarrow> bytes \<Rightarrow> string \<Rightarrow> json" where
  "browserClientData type challenge origin =
    JObject [(''type'', JString type), (''challenge'', JString (b64_encode challenge)), (''origin'', JString origin),
      (''crossOrigin'', JBool False)]"

definition browserSays :: "go_std \<Rightarrow> ClientDataJSON \<Rightarrow> string \<Rightarrow> Challenge \<Rightarrow> string \<Rightarrow> bool" where
  "browserSays std raw type challenge origin \<longleftrightarrow> bv_value raw \<noteq> None \<and> take 3 (bv_bytes raw) \<noteq> [0xef, 0xbb, 0xbf] \<and>
    std_json std (bv_bytes raw) = Some (browserClientData type (bv_bytes challenge) origin) \<and> origin \<noteq> []"

text \<open>Bits 0 and 2 report presence and verification, bits 3 and 4 eligibility and state of the backup, 6 and 7 what follows.\<close>

definition honestFlags :: "byte \<Rightarrow> UserVerificationRequirement \<Rightarrow> bool \<Rightarrow> bool" where
  "honestFlags flags verification attested \<longleftrightarrow>
    bit flags 0 \<and> \<not> bit flags 1 \<and> (verification = ''required'' \<longrightarrow> bit flags 2) \<and> (bit flags 4 \<longrightarrow> bit flags 3) \<and>
    \<not> bit flags 5 \<and> bit flags 6 = attested \<and> \<not> bit flags 7"

definition honestAssertion ::
  "go_std \<Rightarrow> PublicKeyCredentialRequestOptions \<Rightarrow> string \<Rightarrow> CredentialRecord \<Rightarrow> byte \<Rightarrow> 32 word \<Rightarrow> AuthenticationResponse \<Rightarrow> bool" where
  "honestAssertion std request origin credential flags counter response \<longleftrightarrow>
    ar_Type response = ''public-key'' \<and> bv_value (ar_RawID response) = Some (bv_bytes (cr_ID credential)) \<and>
    browserSays std (ar_ClientDataJSON response) ''webauthn.get'' (ro_Challenge request) origin \<and>
    bv_value (ar_AuthenticatorData response) =
      Some (std_Sum256 std (bytes_of_string (ro_RPID request)) @ [flags] @ put32 counter) \<and>
    honestFlags flags (ro_UserVerification request) False \<and> bit flags 3 = cr_BackupEligible credential \<and>
    bv_value (ar_Signature response) \<noteq> None \<and> ar_ClientExtensionResults response = []"

definition honestAttestation ::
  "go_std \<Rightarrow> PublicKeyCredentialCreationOptions \<Rightarrow> string \<Rightarrow> bytes \<Rightarrow> DecodedAttestationObject \<Rightarrow> RegistrationResponse \<Rightarrow> bool" where
  "honestAttestation std creation origin name decoded response \<longleftrightarrow>
    rr_Type response = ''public-key'' \<and> bv_value (rr_RawID response) = Some name \<and>
    browserSays std (rr_ClientDataJSON response) ''webauthn.create'' (co_Challenge creation) origin \<and>
    bv_value (rr_AttestationObject response) \<noteq> None \<and> dao_Raw decoded = rr_AttestationObject response \<and>
    rr_AuthenticatorData response \<in> {zero_byteValue, dao_AuthenticatorData decoded} \<and> rr_ClientExtensionResults response = []"

section \<open>The checks on honest answers\<close>

lemma flag_bits:
  "UserPresent flags = bit flags 0" "UserVerified flags = bit flags 2" "BackupEligible flags = bit flags 3"
  "BackupState flags = bit flags 4" "HasAttestedCredentialData flags = bit flags 6" "HasExtensionData flags = bit flags 7"
proof -
  have mask: "flags AND 2 ^ n \<noteq> 0 \<longleftrightarrow> bit flags n" if "n < 8" for n
    using that by (simp add: and_exp_eq_0_iff_not_bit)
  show "UserPresent flags = bit flags 0" "UserVerified flags = bit flags 2" "BackupEligible flags = bit flags 3"
      "BackupState flags = bit flags 4" "HasAttestedCredentialData flags = bit flags 6" "HasExtensionData flags = bit flags 7"
    using mask [of 0] mask [of 2] mask [of 3] mask [of 4] mask [of 6] mask [of 7]
    by (simp_all add: UserPresent_def UserVerified_def BackupEligible_def BackupState_def HasAttestedCredentialData_def
        HasExtensionData_def authDataFlagUP_def authDataFlagUV_def authDataFlagBE_def authDataFlagBS_def authDataFlagAT_def
        authDataFlagED_def)
qed

lemma reserved_bits: "flags AND authDataRFUMask = 0 \<longleftrightarrow> \<not> bit flags 1 \<and> \<not> bit flags 5"
proof -
  have "authDataRFUMask = 2 ^ 1 OR 2 ^ 5"
    by (simp add: authDataRFUMask_def)
  then have "flags AND authDataRFUMask = (flags AND 2 ^ 1) OR (flags AND 2 ^ 5)"
    by (simp only: bit_eq_iff bit_and_iff bit_or_iff) blast
  then show ?thesis
    by (simp only: or_eq_0_iff and_exp_eq_0_iff_not_bit)
qed

lemma validateAuthenticationResponseShape_None_iff:
  "validateAuthenticationResponseShape response = None \<longleftrightarrow>
    ar_Type response = CredentialTypePublicKey \<and> \<not> bv_IsNil (ar_RawID response) \<and> \<not> bv_IsNil (ar_ClientDataJSON response) \<and>
    \<not> bv_IsNil (ar_AuthenticatorData response) \<and> \<not> bv_IsNil (ar_Signature response)"
  by (simp add: validateAuthenticationResponseShape_def or_err_None_iff CredentialType_Validate_None_iff)

lemma b64_encode_nonempty: "bs \<noteq> [] \<Longrightarrow> b64_encode bs \<noteq> []"
  by (cases bs rule: b64_encode.cases) simp_all

lemma browserSays_accepted:
  assumes "browserSays std raw type challenge origin" "bv_bytes challenge \<noteq> []" "type \<noteq> []" "origin \<in> set (op_AllowedOrigins policy)"
  shows "\<exists>d. clientDataAccepted std raw type challenge policy d"
  using assms b64_encode_nonempty [of "bv_bytes challenge"]
  by (auto simp: browserSays_def browserClientData_def clientDataAccepted_def ParseCollectedClientData_def TrimBOM_def
      verifyCollectedClientOrigin_None_iff HasTopOrigin_def)

lemma no_extensions [simp]:
  "validateFinishExtensionBindings [] [] registry = None" "validateRequestedExtensionIDs [] = None"
  "validateExtensionBindingState [] [] = None" "validateStoredAuthenticationExtensionContext [] allow = None"
  "validateClientExtensionResults [] = None" "cloneExtensionInputs [] = Inr []" "verifyRemoteClientDataBinding [] [] raw = None"
  by (auto simp: validateFinishExtensionBindings_def validateRequestedExtensionIDs_def validateExtensionBindingState_def
      validateStoredAuthenticationExtensionContext_def validateClientExtensionResults_def cloneExtensionInputs_def verifyRemoteClientDataBinding_def)

lemma no_extensions_prepared: "prepareExtensionInputs operation [] registry policy transform = Inr (outs, bindings) \<Longrightarrow> outs = [] \<and> bindings = []"
  by (drule prepareExtensionInputs_InrD) (simp add: sorted_keys_def map_filter_simps)

lemma no_extensions_verified:
  assumes "ctx 0 = None" "evi_requestedExtensions inputs = []" "evi_clientExtensionResults inputs = []" "evi_authenticatorExtensions inputs = []"
  shows "verifyExtensions ctx inputs = Inr []"
  using assms by (simp add: verifyExtensions_def validateExtensionWork_def checkIDs_def Let_def)

text \<open>The authenticator data of an honest answer is parsed to its parts.\<close>

lemma honest_assertion_parsed:
  assumes "bv_value raw = Some (hash @ [flags] @ put32 counter)" "length hash = 32" "honestFlags flags verification False"
  shows "ParseAuthenticatorData raw = Inr \<lparr>pad_Raw = raw, pad_RPIDHash = hash, pad_Flags = flags, pad_SignCount = counter,
    pad_AttestedCredentialData = None, pad_ExtensionData = None\<rparr>"
  using assms
  by (simp add: ParseAuthenticatorData_Inr_iff wf_parsed_def encodeAuthenticatorData_def honestFlags_def flag_bits reserved_bits
      RPIDHashLength_def bv_bytes_def bytes_of_def)

lemma honest_attestation_parsed:
  assumes "bv_value raw = Some (hash @ [flags] @ put32 counter @ aaguid @ put16 (word_of_nat (length name)) @ name @ keyBytes)"
    "length hash = 32" "honestFlags flags verification True" "length aaguid = 16" "1 \<le> length name" "length name \<le> 1023" "keyBytes \<noteq> []"
  shows "ParseAuthenticatorData raw = Inr \<lparr>pad_Raw = raw, pad_RPIDHash = hash, pad_Flags = flags, pad_SignCount = counter,
    pad_AttestedCredentialData = Some \<lparr>acd_AAGUID = aaguid, acd_CredentialID = \<lparr>bv_value = Some name\<rparr>,
      acd_CredentialPublicKeyAndExtensions = keyBytes\<rparr>, pad_ExtensionData = None\<rparr>"
  using assms
  by (simp add: ParseAuthenticatorData_Inr_iff wf_parsed_def wf_attested_def encodeAuthenticatorData_def encodeAttested_def
      honestFlags_def flag_bits reserved_bits RPIDHashLength_def AAGUIDLength_def MaxCredentialIDLength_def bv_len_def bv_bytes_def bytes_of_def)

section \<open>Ceremonies whose checks pass\<close>

lemma FinishAuthentication_accepts:
  assumes "authenticationReady std (options_now env (afo_Now options)) options" "assertionBound options"
    "assertionEvidence std (normalizeContext ctx) options d parsed exts"
    "verifyAuthenticationExtensions (normalizeContext ctx) (assertionExtensionInputs options exts) = Inr results"
  shows "FinishAuthentication std env ctx options = Inr (authenticationResult options parsed
    (compareCounters (cr_SignCount (afo_Credential options)) (pad_SignCount parsed)) results)"
  unfolding FinishAuthentication_refines authenticationSpec_def using assms by blast

lemma FinishRegistration_accepts:
  assumes "registrationReady std (options_now env (rfo_Now options)) options"
    "registrationEvidence std options d decoded parsed attested key exts"
    "verifyRegistrationAttestation (normalizeContext ctx) (attestationInputs std options decoded attested key) = Inr (att, trust)"
    "verifyRegistrationExtensions (normalizeContext ctx) (extensionInputs options exts) = Inr results"
  shows "FinishRegistration std env ctx options = Inr (registrationResult options parsed attested key att trust results)"
  unfolding FinishRegistration_refines registrationSpec_def using assms by blast

section \<open>The state of a ceremony started without extensions\<close>

lemma started_authentication:
  assumes "StartAuthentication std env ctx options = Inr out" "aso_Extensions options = []" "0 \<le> options_now env (aso_Now options)"
  shows "AuthenticationState_Validate std (asr_State out) = None \<and> as_RequestedExtensions (asr_State out) = [] \<and>
      as_ExtensionBindings (asr_State out) = [] \<and> bv_bytes (ro_Challenge (asr_Options out)) \<noteq> [] \<and>
      as_Challenge (asr_State out) = ro_Challenge (asr_Options out) \<and> as_RPID (asr_State out) = aso_RPID options \<and>
      ro_RPID (asr_Options out) = aso_RPID options \<and> as_OriginPolicy (asr_State out) = aso_OriginPolicy options \<and>
      as_RequestedUserVerification (asr_State out) = ro_UserVerification (asr_Options out) \<and>
      as_AllowCredentials (asr_State out) = aso_AllowCredentials options \<and> aso_RPID options \<noteq> [] \<and>
      as_ExpectedUserHandle (asr_State out) = aso_ExpectedUserHandle options"
  using assms(1)
proof (rule StartAuthentication_InrE)
  fix challenge prepared ms
  assume prepare: "prepareExtensionInputs OperationAuthentication (aso_Extensions options) (aso_ExtensionRegistry options)
      (aso_ExtensionInputPolicy options) (Some (prfTransform (aso_AllowCredentials options)))
      = Inr (prepared, as_ExtensionBindings (asr_State out))"
    and clone: "cloneExtensionInputs prepared = Inr (as_RequestedExtensions (asr_State out))"
    and timeout: "timeoutState (aso_Timeout options) (aso_StateTTL options) (options_now env (aso_Now options))
      = Inr (ms, as_ExpiresAt (asr_State out))"
    and same: "as_Challenge (asr_State out) = challenge" "ro_Challenge (asr_Options out) = challenge"
      "as_AllowCredentials (asr_State out) = aso_AllowCredentials options" "as_RPID (asr_State out) = aso_RPID options"
      "ro_RPID (asr_Options out) = aso_RPID options" "as_OriginPolicy (asr_State out) = aso_OriginPolicy options"
      "ro_UserVerification (asr_Options out) = as_RequestedUserVerification (asr_State out)"
      "as_ExpectedUserHandle (asr_State out) = aso_ExpectedUserHandle options"
    and checked: "UserVerification_Known (as_RequestedUserVerification (asr_State out))" "aso_RPID options \<noteq> []"
      "\<forall>descriptor\<in>set (aso_AllowCredentials options). CredentialDescriptor_Validate descriptor = None"
      "validateOriginPolicy std (aso_OriginPolicy options) = None"
      "validateRPIDOriginPolicy std (aso_RPID options) (aso_OriginPolicy options) = None"
      "RequestOptions_Validate (asr_Options out) = None"
  have none: "as_RequestedExtensions (asr_State out) = []" "as_ExtensionBindings (asr_State out) = []"
    using no_extensions_prepared prepare clone assms(2) by fastforce+
  moreover have "bv_bytes challenge \<noteq> []"
    using checked(6) same(2) by (simp add: RequestOptions_Validate_None_iff)
  ultimately show ?thesis
    using same checked(1-5) timeoutState_bounds [OF timeout] assms(3) by (simp add: AuthenticationState_Validate_None_iff)
qed

lemma started_registration:
  assumes "StartRegistration std env ctx options = Inr out" "rso_Extensions options = []" "0 \<le> options_now env (rso_Now options)"
  shows "RegistrationState_Validate std (rsr_State out) = None \<and> rs_RequestedExtensions (rsr_State out) = [] \<and>
      rs_ExtensionBindings (rsr_State out) = [] \<and> bv_bytes (co_Challenge (rsr_Options out)) \<noteq> [] \<and>
      rs_Challenge (rsr_State out) = co_Challenge (rsr_Options out) \<and> rs_RPID (rsr_State out) = rp_ID (rso_RP options) \<and>
      rs_OriginPolicy (rsr_State out) = rso_OriginPolicy options \<and> rs_UserHandle (rsr_State out) = user_ID (rso_User options) \<and>
      rs_AllowedAlgorithms (rsr_State out) = map cp_Algorithm (co_PubKeyCredParams (rsr_Options out)) \<and>
      rs_Attestation (rsr_State out) = co_Attestation (rsr_Options out)"
  using assms(1)
proof (rule StartRegistration_InrE)
  fix challenge params prepared ms
  assume prepare: "prepareExtensionInputs OperationRegistration (rso_Extensions options) (rso_ExtensionRegistry options)
      (rso_ExtensionInputPolicy options) None = Inr (prepared, rs_ExtensionBindings (rsr_State out))"
    and clone: "cloneExtensionInputs prepared = Inr (rs_RequestedExtensions (rsr_State out))"
    and params: "registrationCredentialParameters (rso_PubKeyCredParams options) = Inr params"
      "rs_AllowedAlgorithms (rsr_State out) = map cp_Algorithm params" "co_PubKeyCredParams (rsr_Options out) = params"
    and timeout: "timeoutState (rso_Timeout options) (rso_StateTTL options) (options_now env (rso_Now options))
      = Inr (ms, rs_ExpiresAt (rsr_State out))"
    and same: "rs_Challenge (rsr_State out) = challenge" "co_Challenge (rsr_Options out) = challenge"
      "rs_RPID (rsr_State out) = rp_ID (rso_RP options)" "rs_OriginPolicy (rsr_State out) = rso_OriginPolicy options"
      "rs_UserHandle (rsr_State out) = user_ID (rso_User options)" "co_Attestation (rsr_Options out) = rs_Attestation (rsr_State out)"
    and checked: "Attestation_Known (rs_Attestation (rsr_State out))"
      "UserVerification_Known (rs_RequestedUserVerification (rsr_State out))" "RPEntity_Validate (rso_RP options) = None"
      "UserEntity_Validate (rso_User options) = None" "validateOriginPolicy std (rso_OriginPolicy options) = None"
      "validateRPIDOriginPolicy std (rp_ID (rso_RP options)) (rso_OriginPolicy options) = None"
      "CreationOptions_Validate (rsr_Options out) = None"
  have "rs_RequestedExtensions (rsr_State out) = []" "rs_ExtensionBindings (rsr_State out) = []"
    using no_extensions_prepared prepare clone assms(2) by fastforce+
  moreover have "params \<noteq> []" "\<forall>p\<in>set params. Algorithm_Validate (cp_Algorithm p) = None"
    using registrationCredentialParameters_Inr [OF params(1)] by (auto simp: CredentialParameter_Validate_None_iff)
  moreover have "bv_bytes challenge \<noteq> []"
    using checked(7) same(2) by (simp add: CreationOptions_Validate_None_iff)
  ultimately show ?thesis
    using same params checked(1-6) timeoutState_bounds [OF timeout] assms(3)
    by (simp add: RegistrationState_Validate_None_iff RPEntity_Validate_None_iff UserEntity_Validate_None_iff)
qed

end
