(* ===== verification/Spec2Isabelle.thy ===== *)
theory Spec2Isabelle
  imports Sample_Apps Clone_Size Honest_Ceremony
begin

text \<open>
  Verification of a WebAuthn relying-party library written in Go (\<^verbatim>\<open>src/\<close>, the root package
  \<^verbatim>\<open>webauthn\<close> and its subpackages).

  \<^bold>\<open>The program.\<close> A relying party starts a ceremony (\<^verbatim>\<open>StartRegistration\<close>, \<^verbatim>\<open>StartAuthentication\<close>),
  sends options to a browser, keeps a ceremony state, and finishes the ceremony with the browser's
  response (\<^verbatim>\<open>FinishRegistration\<close>, \<^verbatim>\<open>FinishAuthentication\<close>). A finished registration gives a credential
  record; a finished authentication gives an update for that record, written by compare-and-set
  (\<^verbatim>\<open>CredentialUpdate.ApplyTo\<close>). The ceremonies call the protocol layer (byte values, dictionaries,
  authenticator data, client data), the origin policy, the extension framework (a registry of typed
  handlers behind erased adapters), the attestation framework (a registry of format verifiers and
  trust policies) and injected dependencies (decoders, signature and certificate verifiers, random
  source, clock).

  \<^bold>\<open>Conventions.\<close> A Go function that returns \<^verbatim>\<open>(T, error)\<close> is a HOL function into the sum
  \<open>error + 'a\<close>, one that returns only \<^verbatim>\<open>error\<close> is one into \<open>error option\<close>; early returns are
  sequenced by \<open>check\<close> and \<open>and_then\<close> (\<^verbatim>\<open>Go_Errors\<close>). Every sentinel of the code is a constructor, and
  \<open>errors_is\<close> follows the wrapping of \<^verbatim>\<open>errors.Is\<close>. An interface value is \<open>iface\<close>: nil, typed nil,
  or an implementation, so that both kinds of nil of Go are distinguished. A \<^verbatim>\<open>[]byte\<close> is
  \<open>bytes option\<close> where the code sees nil, a map is an association list with distinct keys
  (\<open>wf_map\<close>); the results of the code that ranges over maps do not depend on the order because it sorts
  the keys, and so does the model. Values of type \<^verbatim>\<open>any\<close> are the datatype \<open>goval\<close> with dynamic
  types. Machine integers keep their width (\<open>32 word\<close> for counters and the browser timeout, \<open>8 word\<close>
  for flags); \<^verbatim>\<open>int\<close>, durations and times are \<open>int\<close>. Values are immutable here, so defensive copies
  are the identity except where the copy changes the value (nil slices, extension inputs). A context
  is a stream of polls of its done channel; \<open>normalizeContext\<close> is the nil check.

  \<^bold>\<open>Parameters.\<close> \<open>go_std\<close> holds SHA-256 and the grammars of \<^verbatim>\<open>encoding/json\<close>, \<^verbatim>\<open>net/url\<close> and
  \<^verbatim>\<open>net.ParseIP\<close> and the Unicode tables of \<^verbatim>\<open>strings\<close>; \<open>go_env\<close> the random reader and the clock; \<open>go_pki\<close>
  \<^verbatim>\<open>x509.ParseCertificate\<close>, the longer hashes and curve membership; \<open>go_crypto\<close> the signature primitives; \<open>go_cbor\<close>
  the third-party CBOR package; \<open>go_text\<close> the writing of JSON, decimal numbers and RFC 3339 times. One theorem assumes
  that two point parsers of the standard library agree; those that store or send JSON assume the locale \<open>json_text\<close> (what
  is written is read back), which \<^verbatim>\<open>Json_Text\<close> proves of an executable printer and parser; the others assume nothing of these
  parameters. Decoders, verifiers, policies and extension handlers of an
  application are fields of the options, as in the code.

  \<^bold>\<open>Theories.\<close>
  \<^item> \<^verbatim>\<open>Go_Prelude\<close>, \<^verbatim>\<open>Go_Errors\<close>, \<^verbatim>\<open>Go_Std\<close>, \<^verbatim>\<open>Go_Base64\<close>: bytes, big-endian integers, maps, interfaces,
    errors, the string functions of the standard library and base64url with its round trip.
  \<^item> \<^verbatim>\<open>Protocol_Bytes\<close>, \<^verbatim>\<open>Protocol_Types\<close>, \<^verbatim>\<open>Protocol_AuthData\<close>, \<^verbatim>\<open>Protocol_ClientData\<close>:
    \<^verbatim>\<open>src/protocol\<close>; the parser of authenticator data is proved to be the inverse of an encoder.
  \<^item> \<^verbatim>\<open>Origin\<close>: \<^verbatim>\<open>src/origin.go\<close>, with exact characterisations of the accepted origins and RP IDs.
  \<^item> \<^verbatim>\<open>Extension_Data\<close>, \<^verbatim>\<open>Extension_Value\<close>, \<^verbatim>\<open>Extension_Input\<close>, \<^verbatim>\<open>Extension_Handlers\<close>,
    \<^verbatim>\<open>Extension_Registry\<close>: \<^verbatim>\<open>src/extension\<close>, with the budget and idempotence of the recursive copy and
    the built-in handlers. \<^verbatim>\<open>Clone_Size\<close> measures values by their parts and shows that a copy pays for all of them. \<^verbatim>\<open>Keyed_Registry\<close> is the locale of a registry that refuses duplicate keys;
    it is interpreted for extension handlers and for attestation verifiers.
  \<^item> \<^verbatim>\<open>Extension_Verification\<close>: \<^verbatim>\<open>src/extension_verification.go\<close>, the framework of both ceremonies.
  \<^item> \<^verbatim>\<open>Codec\<close>: \<^verbatim>\<open>src/codec/codec.go\<close>, the contracts of \<^verbatim>\<open>src/crypto/crypto.go\<close> and \<^verbatim>\<open>attstmt\<close>.
  \<^item> \<^verbatim>\<open>Attestation_Core\<close>, \<^verbatim>\<open>Attestation_Policy\<close>, \<^verbatim>\<open>Attestation_Compound\<close>: \<^verbatim>\<open>src/attestation\<close>, the
    formats \<^verbatim>\<open>none\<close> and \<^verbatim>\<open>compound\<close>, and the trust policies with the meaning of their combinators.
  \<^item> \<^verbatim>\<open>Go_Asn1\<close>, \<^verbatim>\<open>X509_Util\<close>: the part of \<^verbatim>\<open>encoding/asn1\<close> the code calls, and the certificate and signature
    helpers of \<^verbatim>\<open>src/attestation/internal\<close>.
  \<^item> \<^verbatim>\<open>Attestation_Packed\<close>, \<^verbatim>\<open>Attestation_U2F\<close>, \<^verbatim>\<open>Attestation_Apple\<close>, \<^verbatim>\<open>Tpm_Structures\<close>, \<^verbatim>\<open>Attestation_Tpm\<close>,
    \<^verbatim>\<open>Attestation_AndroidKey\<close>, \<^verbatim>\<open>Attestation_SafetyNet\<close>: one theory per format verifier, with what an
    accepted statement shows. \<^verbatim>\<open>Attestation_Formats\<close> is the locale of a format verifier, interpreted for
    all eight; \<^verbatim>\<open>Attestation_Spec\<close> has specifications without an order of checks that the packed and TPM
    verifiers refine in both directions.
  \<^item> \<^verbatim>\<open>Cbor_Codec\<close>: \<^verbatim>\<open>src/codec/cbor\<close>; \<^verbatim>\<open>Standard_Verifier\<close>: \<^verbatim>\<open>src/crypto/standard\<close>; \<^verbatim>\<open>Credential_Keys\<close>: keys
    the first decodes suit the second.
  \<^item> \<^verbatim>\<open>Ceremony\<close>, \<^verbatim>\<open>Validation\<close>, \<^verbatim>\<open>Registration_Start\<close>, \<^verbatim>\<open>Registration\<close>, \<^verbatim>\<open>Authentication\<close>,
    \<^verbatim>\<open>Authentication_Spec\<close>, \<^verbatim>\<open>Credential_Update\<close>: the ceremonies. \<open>registrationSpec\<close> and
    \<open>authenticationSpec\<close> put the checks of a finish operation, in the functions of the code, into one relation without an order; they are
    a tool of the proofs. What the operations guarantee is stated by the theorems below in terms of the responses and options.
  \<^item> \<^verbatim>\<open>Honest_Ceremony\<close>: what an honest browser and authenticator answer, written from the Web Authentication specification (client
    data, flag bits, layout of authenticator data); such answers are accepted.
  \<^item> \<^verbatim>\<open>Relying_Party\<close>: \<^verbatim>\<open>src/config.go\<close> and \<^verbatim>\<open>src/relying_party.go\<close>.
  \<^item> \<^verbatim>\<open>Update_Laws\<close>: what the update of a verified authentication can change of a record; the stores of the applications use it.
  \<^item> \<^verbatim>\<open>Go_Json\<close>, \<^verbatim>\<open>Json_Text\<close>: how \<^verbatim>\<open>encoding/json/v2\<close> maps structs to JSON values (members, omitted zero values, unknown
    and duplicate members), the contract \<open>json_text\<close>, and a JSON text grammar that satisfies it.
  \<^item> \<^verbatim>\<open>Storage_Value\<close>, \<^verbatim>\<open>Storage_Dto\<close>, \<^verbatim>\<open>Storage_Json\<close>: \<^verbatim>\<open>src/storage/json\<close>; extension values under their budget, the envelopes and
    the round trips of both states and of records.
  \<^item> \<^verbatim>\<open>Browser_Json\<close>: \<^verbatim>\<open>src/browser\<close>; options to JSON, responses from JSON. \<^verbatim>\<open>Http_Transport\<close>: \<^verbatim>\<open>src/transport/http\<close>, where a
    response writer is the list of calls it receives. \<^verbatim>\<open>Passkey_Preset\<close>: \<^verbatim>\<open>src/preset\<close>.
  \<^item> \<^verbatim>\<open>Integration_Store\<close>, \<^verbatim>\<open>Integration_App\<close>, \<^verbatim>\<open>Integration_Runs\<close>: \<^verbatim>\<open>src/examples/integration\<close>, an application over all of these. The
    locale \<open>ceremony_store\<close> is the contract of its ceremony store; the credential store refines a store of records
    without JSON; \<open>app_step\<close> interleaves the atomic operations of concurrent handlers, and the locale \<open>integration\<close> has the
    invariant of its runs.
  \<^item> \<^verbatim>\<open>Http_Server\<close>: requests, cookies and responses as the handlers of the web applications see them, and the locale
    \<open>one_time_store\<close>, the contract of their stores for ceremony states.
  \<^item> \<^verbatim>\<open>Quickstart\<close>, \<^verbatim>\<open>Quickstart_Runs\<close>: \<^verbatim>\<open>src/examples/quickstart\<close>, a demo with bounded maps; \<open>demo_step\<close> is a section of a handler
    under the lock, and every route is a run of such steps.
  \<^item> \<^verbatim>\<open>E2e_Store\<close>, \<^verbatim>\<open>E2e_App\<close>, \<^verbatim>\<open>E2e_Runs\<close>: \<^verbatim>\<open>src/internal/e2eapp\<close>. Its store shares credential objects between two indexes and changes
    them in place, so it has a heap and is proved to refine a map of records; \<open>e2e_step\<close> interleaves the operations of handlers, whose
    local results are the multiset \<open>e2e_pending\<close>.
  \<^item> \<^verbatim>\<open>Sample_Ceremony\<close>, \<^verbatim>\<open>Sample_Attestation\<close>, \<^verbatim>\<open>Sample_Storage\<close>, \<^verbatim>\<open>Sample_Integration\<close>, \<^verbatim>\<open>Sample_Apps\<close>: a concrete registration and
    authentication, concrete codec inputs, stored and sent JSON, and runs of the applications, evaluated in the logic;
    the theorems below are applied to them.

  \<^bold>\<open>Results.\<close> The sections below give safety (what an accepted response shows), completeness (honest responses are accepted) and error behaviour of the two finish
  operations, validity of the states the start operations return, composition through the relying
  party, updates and replay, the protocol layer, extensions, attestation, the storage and browser formats, and
  the applications. Hypotheses of the form
  \<open>wf_map\<close> say that an association list is a Go map; \<open>wt_value\<close> that a value is well typed in Go's
  sense (elements have the element type) and holds no pointer to an input.

  \<^bold>\<open>Termination.\<close> Every definition is a total function. Fuel occurs only in the JSON parser of \<^verbatim>\<open>Json_Text\<close>, an instance of a
  parameter, where it bounds the depth of calls by the length of the text and is proved enough for every printed
  value. The loops are structural except trial division in \<^verbatim>\<open>validTPMRSAExponent\<close>, which ends because the divisor grows below 2 to the 16, and the
  element loop of the DER reader, which consumes at least one byte per round.

  \<^bold>\<open>Not modelled.\<close> Aliasing and data races, except in the store of the end-to-end application (elsewhere values are immutable),
  texts of error messages that print Go types, panics of injected dependencies. Times do not saturate, floating-point numbers are
  rationals (so negative zero is zero), and the default challenge generator reads the random source given to \<^verbatim>\<open>New\<close>. The order in which \<^verbatim>\<open>range\<close> visits a map is that of the
  association list where the code does not sort. The attributes of cookies that never vary, the self-signed TLS configuration of the
  end-to-end application, the functions \<^verbatim>\<open>main\<close>, the examples that call the library with fixed inputs
  and the tools that inspect the module.
\<close>
section \<open>Authentication ceremonies\<close>

text \<open>
  C1. Safety of \<^verbatim>\<open>FinishAuthentication\<close>. Whenever it returns a result, the stored state had not
  expired; the client data is of type \<^verbatim>\<open>webauthn.get\<close>, carries the challenge of the state and an
  allowed origin; the credential is the one named by the response, registered for the RP ID of
  the state and, when the state lists credentials, one of them; the authenticated user is the
  owner of the credential, is the expected user when the state names one, and is otherwise the
  user the response names; and the signature verifier accepted the signature over the
  authenticator data followed by the hash of the client data under the stored public key.
\<close>

theorem FinishAuthentication_sound:
  assumes run: "FinishAuthentication std env ctx options = Inr res"
  shows "options_now env (afo_Now options) < as_ExpiresAt (afo_State options) \<and>
    (\<exists>d. ParseCollectedClientData std (ar_ClientDataJSON (afo_Response options)) = Inr d \<and>
      ccd_Type d = ''webauthn.get'' \<and>
      ccd_Challenge d = b64_encode (bv_bytes (as_Challenge (afo_State options))) \<and>
      ccd_Origin d \<in> set (op_AllowedOrigins (as_OriginPolicy (afo_State options)))) \<and>
    bv_bytes (cr_ID (afo_Credential options)) = bv_bytes (ar_RawID (afo_Response options)) \<and>
    cr_RPID (afo_Credential options) = as_RPID (afo_State options) \<and>
    (as_AllowCredentials (afo_State options) = [] \<or>
      (\<exists>c\<in>set (as_AllowCredentials (afo_State options)). bv_bytes (cd_ID c) = bv_bytes (cr_ID (afo_Credential options)))) \<and>
    ares_AuthenticatedAs res = cr_UserHandle (afo_Credential options) \<and>
    bv_bytes (ares_AuthenticatedAs res) =
      (if bv_bytes (as_ExpectedUserHandle (afo_State options)) \<noteq> []
       then bv_bytes (as_ExpectedUserHandle (afo_State options)) else bv_bytes (ar_UserHandle (afo_Response options))) \<and>
    (\<exists>verify. afo_SignatureVerifier options = Impl verify \<and> verify (normalizeContext ctx)
      \<lparr>si_Algorithm = cpk_Algorithm (cr_PublicKey (afo_Credential options)),
       si_PublicKey = cpk_material (cr_PublicKey (afo_Credential options)),
       si_RawCredentialPublicKey = cpk_raw (cr_PublicKey (afo_Credential options)),
       si_Signed = bv_bytes (ar_AuthenticatorData (afo_Response options))
         @ std_Sum256 std (bv_bytes (ar_ClientDataJSON (afo_Response options))),
       si_Signature = ar_Signature (afo_Response options)\<rparr> = None)"
proof -
  obtain d parsed exts extensionResults where ready: "authenticationReady std (options_now env (afo_Now options)) options"
    and bound: "assertionBound options"
    and evidence: "assertionEvidence std (normalizeContext ctx) options d parsed exts"
    and res: "res = authenticationResult options parsed
      (compareCounters (cr_SignCount (afo_Credential options)) (pad_SignCount parsed)) extensionResults"
    using run unfolding FinishAuthentication_refines authenticationSpec_def by blast
  have signature: "\<exists>verify. afo_SignatureVerifier options = Impl verify \<and> verify (normalizeContext ctx)
      (signatureInput (afo_Credential options) (afo_Response options)
        (std_Sum256 std (bv_bytes (ar_ClientDataJSON (afo_Response options))))) = None"
    and client: "clientDataAccepted std (ar_ClientDataJSON (afo_Response options)) ClientDataTypeGet
      (as_Challenge (afo_State options)) (as_OriginPolicy (afo_State options)) d"
    using evidence by (simp_all add: assertionEvidence_def Let_def)
  have user: "bv_bytes (cr_UserHandle (afo_Credential options)) =
      (if bv_bytes (as_ExpectedUserHandle (afo_State options)) \<noteq> []
       then bv_bytes (as_ExpectedUserHandle (afo_State options)) else bv_bytes (ar_UserHandle (afo_Response options)))"
    using bound by (auto simp: assertionBound_def verifyAuthenticationUserBinding_None_iff split: if_splits)
  have client': "\<exists>d. ParseCollectedClientData std (ar_ClientDataJSON (afo_Response options)) = Inr d \<and>
      ccd_Type d = ''webauthn.get'' \<and>
      ccd_Challenge d = b64_encode (bv_bytes (as_Challenge (afo_State options))) \<and>
      ccd_Origin d \<in> set (op_AllowedOrigins (as_OriginPolicy (afo_State options)))"
    using client by (auto simp: clientDataAccepted_def ClientDataTypeGet_def verifyCollectedClientOrigin_None_iff)
  show ?thesis
    using ready bound client' signature user
    unfolding res authenticationResult_simps signatureInput_def authenticationReady_def assertionBound_def
      verifyAuthenticationCredentialBinding_None_iff by blast
qed

theorem FinishAuthentication_sound_witness:
  "FinishAuthentication sample_std sample_env None sample_verification = Inr sample_authenticated \<and>
    ares_AuthenticatedAs sample_authenticated = cr_UserHandle (afo_Credential sample_verification)"
  using FinishAuthentication_sound [OF sample_FinishAuthentication_low] sample_FinishAuthentication_low by blast

text \<open>
  C2. The authenticator's part. A successful \<^verbatim>\<open>FinishAuthentication\<close> parsed authenticator data
  without attested credential data whose RP ID hash is the hash of the RP ID (or of the App ID
  that both the request and the policy name, when the client reports having used it), with the
  user-present flag, with the user-verified flag when verification was required, with a backup
  state only for backup-eligible credentials and with the eligibility the record has; the
  result reports these flags.
\<close>

theorem FinishAuthentication_authenticator_data:
  assumes run: "FinishAuthentication std env ctx options = Inr res"
  shows "\<exists>parsed. ParseAuthenticatorData (ar_AuthenticatorData (afo_Response options)) = Inr parsed \<and>
    pad_AttestedCredentialData parsed = None \<and>
    (if appIDUsed (afo_Response options)
     then map_of (as_RequestedExtensions (afo_State options)) IDAppID
         = Some (VStringInput (aep_AppID (afo_ExtensionPolicy options))) \<and>
       pad_RPIDHash parsed = std_Sum256 std (bytes_of_string (aep_AppID (afo_ExtensionPolicy options)))
     else pad_RPIDHash parsed = std_Sum256 std (bytes_of_string (as_RPID (afo_State options)))) \<and>
    UserPresent (pad_Flags parsed) \<and> ares_UserPresent res \<and> ares_UserVerified res = UserVerified (pad_Flags parsed) \<and>
    (as_RequestedUserVerification (afo_State options) = UserVerificationRequired \<longrightarrow> ares_UserVerified res) \<and>
    (cr_BackupState (ares_Credential res) \<longrightarrow> cr_BackupEligible (ares_Credential res)) \<and>
    cr_BackupEligible (ares_Credential res) = BackupEligible (pad_Flags parsed)"
proof -
  obtain d parsed exts extensionResults where
    evidence: "assertionEvidence std (normalizeContext ctx) options d parsed exts"
    and res: "res = authenticationResult options parsed
      (compareCounters (cr_SignCount (afo_Credential options)) (pad_SignCount parsed)) extensionResults"
    using run unfolding FinishAuthentication_refines authenticationSpec_def by blast
  have parse: "ParseAuthenticatorData (ar_AuthenticatorData (afo_Response options)) = Inr parsed"
    and hash: "expectedAuthenticationRPIDHash std (afo_State options) (afo_Response options) (afo_ExtensionPolicy options)
      = Some (pad_RPIDHash parsed)"
    and flags: "authenticationFlagsOK (afo_State options) (afo_Credential options) (pad_Flags parsed)"
    using evidence by (simp_all add: assertionEvidence_def Let_def)
  have "pad_AttestedCredentialData parsed = None"
    using ParseAuthenticatorData_sound [OF parse] wf_parsed_attested_iff [of parsed] flags
    by (simp add: authenticationFlagsOK_def)
  then show ?thesis
    using parse hash flags
    by (auto simp: res expectedAuthenticationRPIDHash_Some_iff authenticationFlagsOK_def split: if_splits)
qed

theorem FinishAuthentication_authenticator_data_witness:
  "FinishAuthentication sample_std sample_env None sample_verification = Inr sample_authenticated \<and>
    ares_UserPresent sample_authenticated"
  using FinishAuthentication_authenticator_data [OF sample_FinishAuthentication_low] sample_FinishAuthentication_low
  by blast

text \<open>
  C3. Completeness of authentication: honest answers are accepted. For a ceremony started without extensions, let the
  browser answer in time with client data of type \<^verbatim>\<open>webauthn.get\<close> that carries the challenge it was sent and an allowed origin, let the
  authenticator data be the hash of the RP ID, the flags and the counter, with the bits the specification asks for, let the credential be a
  valid record of this RP ID that the ceremony allows and the user be its owner, let the counter have grown (or be unsupported on both
  sides), and let the verifier accept the signature over the authenticator data and the hash of the client data. Then
  \<^verbatim>\<open>FinishAuthentication\<close> returns a result for the owner; its credential has the counter and the backup state of the answer, a user verification
  initialized before or now with the caller's authorization, and the attachment the response names, and is otherwise unchanged.
\<close>

theorem honest_assertion_accepted:
  assumes start: "StartAuthentication std env ctx options = Inr out" "aso_Extensions options = []"
      "0 \<le> options_now env (aso_Now options)"
    and finish: "afo_State verification = asr_State out" "afo_Response verification = response" "afo_Credential verification = credential"
      "options_now env' (afo_Now verification) < as_ExpiresAt (asr_State out)" "normalizeContext ctx' 0 = None"
    and honest: "honestAssertion std (asr_Options out) origin credential flags counter response"
      "origin \<in> set (op_AllowedOrigins (aso_OriginPolicy options))" "length (std_Sum256 std (bytes_of_string (aso_RPID options))) = 32"
    and stored: "CredentialRecord_Validate credential = None" "cr_RPID credential = aso_RPID options"
      "aso_AllowCredentials options = [] \<or> (\<exists>c\<in>set (aso_AllowCredentials options). bv_bytes (cd_ID c) = bv_bytes (cr_ID credential))"
    and user: "bv_bytes (ar_UserHandle response) = bv_bytes (cr_UserHandle credential) \<or>
        bv_bytes (ar_UserHandle response) = [] \<and> bv_bytes (aso_ExpectedUserHandle options) \<noteq> []"
      "bv_bytes (aso_ExpectedUserHandle options) \<in> {[], bv_bytes (cr_UserHandle credential)}"
    and counter: "cr_SignCount credential < counter \<or> cr_SignCount credential = 0 \<and> counter = 0"
      "\<not> (cpol_RejectCloneRisk (afo_CounterPolicy verification) \<and> cpol_UpdateOnCloneRisk (afo_CounterPolicy verification))"
    and verifier: "afo_SignatureVerifier verification = Impl verify" "verify (normalizeContext ctx')
      \<lparr>si_Algorithm = cpk_Algorithm (cr_PublicKey credential), si_PublicKey = cpk_material (cr_PublicKey credential),
       si_RawCredentialPublicKey = cpk_raw (cr_PublicKey credential),
       si_Signed = bv_bytes (ar_AuthenticatorData response) @ std_Sum256 std (bv_bytes (ar_ClientDataJSON response)),
       si_Signature = ar_Signature response\<rparr> = None"
      "afo_AlgorithmPolicy verification = NilIface \<or>
        (\<exists>accepted. afo_AlgorithmPolicy verification = Impl accepted \<and> accepted (cpk_Algorithm (cr_PublicKey credential)))"
  shows "\<exists>res. FinishAuthentication std env' ctx' verification = Inr res \<and> ares_AuthenticatedAs res = cr_UserHandle credential \<and>
    ares_Credential res = credential\<lparr>cr_SignCount := counter, cr_BackupState := bit flags 4,
      cr_UVInitialized := cr_UVInitialized credential \<or> bit flags 2 \<and> afo_UVInitializationAuthorized verification,
      cr_AuthenticatorAttachment := (if ar_AuthenticatorAttachment response \<in> {''platform'', ''cross-platform''}
        then ar_AuthenticatorAttachment response else cr_AuthenticatorAttachment credential)\<rparr> \<and>
    ares_UserPresent res \<and> ares_UserVerified res = bit flags 2 \<and> \<not> ctr_CloneRisk (ares_Counter res) \<and> ares_Extensions res = []"
proof -
  let ?parsed = "\<lparr>pad_Raw = ar_AuthenticatorData response, pad_RPIDHash = std_Sum256 std (bytes_of_string (aso_RPID options)),
    pad_Flags = flags, pad_SignCount = counter, pad_AttestedCredentialData = None, pad_ExtensionData = None\<rparr>"
  let ?res = "authenticationResult verification ?parsed (compareCounters (cr_SignCount credential) counter) []"
  note started = started_authentication [OF start]
  have parse: "ParseAuthenticatorData (ar_AuthenticatorData response) = Inr ?parsed"
    using honest(1,3) started by (intro honest_assertion_parsed [of _ _ _ _ "ro_UserVerification (asr_Options out)"]) (simp_all add: honestAssertion_def)
  obtain d where client: "clientDataAccepted std (ar_ClientDataJSON response) ClientDataTypeGet (as_Challenge (asr_State out))
      (as_OriginPolicy (asr_State out)) d"
    using browserSays_accepted [of std "ar_ClientDataJSON response" ClientDataTypeGet "ro_Challenge (asr_Options out)" origin] honest(1,2) started
    by (auto simp: honestAssertion_def ClientDataTypeGet_def)
  have risk: "\<not> ctr_CloneRisk (compareCounters (cr_SignCount credential) counter)"
    using counter(1) by (auto simp: compareCounters_CloneRisk_iff)
  have "authenticationReady std (options_now env' (afo_Now verification)) verification"
    using finish honest(1) stored(1) counter(2) verifier(1,3) started
    by (auto simp: authenticationReady_def validateAuthenticationDependencies_None_iff validateAuthenticationResponseShape_None_iff
        honestAssertion_def browserSays_def CredentialTypePublicKey_def bv_IsNil_def)
  moreover have "assertionBound verification"
    using finish honest(1) stored user started
    by (auto simp: assertionBound_def verifyAuthenticationCredentialBinding_None_iff verifyAuthenticationUserBinding_None_iff
        CredentialRecord_Validate_None_iff honestAssertion_def bv_bytes_def [of "ar_RawID response"] bytes_of_def)
  moreover have "assertionEvidence std (normalizeContext ctx') verification d ?parsed []"
    using finish honest(1) parse client verifier started risk
    by (auto simp: assertionEvidence_def expectedAuthenticationRPIDHash_Some_iff appIDUsed_def authenticationFlagsOK_def flag_bits
        honestAssertion_def honestFlags_def decodeAuthenticationExtensions_def signatureInput_def UserVerificationRequired_def)
  moreover have "verifyAuthenticationExtensions (normalizeContext ctx') (assertionExtensionInputs verification []) = Inr []"
    using finish honest(1) started
    by (simp add: verifyAuthenticationExtensions_def assertionExtensionInputs_def authenticationExtensionWork_def no_extensions_verified
        honestAssertion_def)
  ultimately have "FinishAuthentication std env' ctx' verification = Inr ?res"
    using FinishAuthentication_accepts [of std env' verification ctx' d ?parsed "[]" "[]"] finish(3) by simp
  moreover have "ares_Credential ?res = credential\<lparr>cr_SignCount := counter, cr_BackupState := bit flags 4,
      cr_UVInitialized := cr_UVInitialized credential \<or> bit flags 2 \<and> afo_UVInitializationAuthorized verification,
      cr_AuthenticatorAttachment := (if ar_AuthenticatorAttachment response \<in> {''platform'', ''cross-platform''}
        then ar_AuthenticatorAttachment response else cr_AuthenticatorAttachment credential)\<rparr>"
    using finish counter(1) risk
    by (auto simp: authenticationResult_def Let_def flag_bits compareCounters_Incremented_iff CredentialRecord_Clone_id
        normalizeAuthenticatorAttachment_def Attachment_Known_def)
  ultimately show ?thesis
    using finish honest(1) risk by (auto simp: authenticationResult_def Let_def flag_bits honestAssertion_def honestFlags_def CredentialRecord_Clone_id)
qed

theorem honest_assertion_accepted_witness:
  "\<exists>res. FinishAuthentication sample_std sample_env None sample_verification = Inr res \<and> cr_SignCount (ares_Credential res) = 8"
proof -
  let ?options = "authenticationStartOptions sample_ready_config sample_login" and ?response = "afo_Response sample_verification"
  have start: "StartAuthentication sample_std sample_env None ?options = Inr sample_request" "aso_Extensions ?options = []"
      "0 \<le> options_now sample_env (aso_Now ?options)"
    using sample_StartAuthentication by (simp add: RP_StartAuthentication_def sample_rp_def, code_simp+)
  have finish: "afo_State sample_verification = asr_State sample_request" "afo_Credential sample_verification = sample_credential"
      "options_now sample_env (afo_Now sample_verification) < as_ExpiresAt (asr_State sample_request)" "normalizeContext None 0 = None"
    by code_simp+
  have honest: "honestAssertion sample_std (asr_Options sample_request) ''https://example.org'' sample_credential 5 8 ?response"
      "''https://example.org'' \<in> set (op_AllowedOrigins (aso_OriginPolicy ?options))"
      "length (std_Sum256 sample_std (bytes_of_string (aso_RPID ?options))) = 32"
    by code_simp+
  have stored: "CredentialRecord_Validate sample_credential = None" "cr_RPID sample_credential = aso_RPID ?options"
      "aso_AllowCredentials ?options = [] \<or> (\<exists>c\<in>set (aso_AllowCredentials ?options). bv_bytes (cd_ID c) = bv_bytes (cr_ID sample_credential))"
    by code_simp+
  have user: "bv_bytes (ar_UserHandle ?response) = bv_bytes (cr_UserHandle sample_credential) \<or>
        bv_bytes (ar_UserHandle ?response) = [] \<and> bv_bytes (aso_ExpectedUserHandle ?options) \<noteq> []"
      "bv_bytes (aso_ExpectedUserHandle ?options) \<in> {[], bv_bytes (cr_UserHandle sample_credential)}"
    and counter: "cr_SignCount sample_credential < 8 \<or> cr_SignCount sample_credential = 0 \<and> (8 :: 32 word) = 0"
      "\<not> (cpol_RejectCloneRisk (afo_CounterPolicy sample_verification) \<and> cpol_UpdateOnCloneRisk (afo_CounterPolicy sample_verification))"
    by code_simp+
  have verified: "sample_verify (normalizeContext None)
      \<lparr>si_Algorithm = cpk_Algorithm (cr_PublicKey sample_credential), si_PublicKey = cpk_material (cr_PublicKey sample_credential),
       si_RawCredentialPublicKey = cpk_raw (cr_PublicKey sample_credential),
       si_Signed = bv_bytes (ar_AuthenticatorData ?response) @ std_Sum256 sample_std (bv_bytes (ar_ClientDataJSON ?response)),
       si_Signature = ar_Signature ?response\<rparr> = None" "cpk_Algorithm (cr_PublicKey sample_credential) \<in> set [AlgorithmES256, AlgorithmRS256]"
    by code_simp+
  show ?thesis
    using honest_assertion_accepted [OF start finish(1) refl finish(2-4) honest stored user counter
        sample_authentication_verifier(1) verified(1)] sample_authentication_verifier(2) verified(2) by fastforce
qed

text \<open>
  C4. Error behaviour of expiry: at or after the expiry of the state, whatever the response, an
  authentication with working dependencies ends with \<^verbatim>\<open>ErrCeremonyExpired\<close>, before the
  response is looked at.
\<close>

theorem FinishAuthentication_expired:
  assumes "validateAuthenticationDependencies options = None"
    and "as_ExpiresAt (afo_State options) \<noteq> 0" "as_ExpiresAt (afo_State options) \<le> options_now env (afo_Now options)"
  shows "FinishAuthentication std env ctx (options\<lparr>afo_Response := response\<rparr>) = Inl (Sentinel ErrCeremonyExpired)"
proof -
  have "validateAuthenticationDependencies (options\<lparr>afo_Response := response\<rparr>) = None"
    using assms(1) by (simp add: validateAuthenticationDependencies_None_iff)
  then show ?thesis
    using assms(2,3)
    by (simp add: FinishAuthentication_def Let_def validateAuthenticationState_def IsZero_def Before_def)
qed

theorem FinishAuthentication_expired_witness:
  "FinishAuthentication sample_std sample_env None
    (sample_verification\<lparr>afo_Now := Some 600000001000, afo_Response := afo_Response sample_verification\<rparr>)
    = Inl (Sentinel ErrCeremonyExpired)"
proof -
  have "validateAuthenticationDependencies (sample_verification\<lparr>afo_Now := Some 600000001000\<rparr>) = None"
    by code_simp
  then show ?thesis
    using FinishAuthentication_expired [of "sample_verification\<lparr>afo_Now := Some 600000001000\<rparr>" sample_env]
    by (simp add: options_now_def sample_verification_def authenticationFinishOptions_def sample_assertion_def
        sample_auth_state_def)
qed

text \<open>
  Error behaviour of the signature: when every check before it passes and the verifier
  reports an error, the ceremony fails with \<^verbatim>\<open>ErrInvalidSignature\<close> wrapping that error.
\<close>

theorem FinishAuthentication_bad_signature:
  assumes "authenticationReady std (options_now env (afo_Now options)) options" "assertionBound options"
    and "verifyClientData std (ar_ClientDataJSON (afo_Response options)) ClientDataTypeGet
      (as_Challenge (afo_State options)) (as_OriginPolicy (afo_State options)) = Inr hash"
    and "verifyAuthenticationAuthenticatorData std (afo_State options) (afo_Response options) (afo_Credential options)
      (afo_ExtensionPolicy options) = Inr parsed"
    and "decodeAuthenticationExtensions (afo_ExtensionMapDecoder options) parsed = Inr exts"
    and "afo_AlgorithmPolicy options = NilIface" "afo_SignatureVerifier options = Impl verify"
    and "verify (normalizeContext ctx) (signatureInput (afo_Credential options) (afo_Response options) hash) = Some e"
  shows "FinishAuthentication std env ctx options = Inl (Wrapf ErrInvalidSignature e)"
proof -
  have "verifyAuthenticationSignature (normalizeContext ctx) (Impl verify) (afo_Credential options) (afo_Response options) hash
      = Some (Wrapf ErrInvalidSignature e)"
    using assms(8) by (simp add: verifyAuthenticationSignature_def signatureInput_def bv_appendTo_def Let_def)
  moreover have "validateAuthenticationState std (afo_State options) (options_now env (afo_Now options)) = None"
    using assms(1) by (simp add: validateAuthenticationState_None_iff authenticationReady_def)
  ultimately show ?thesis
    using assms(1-7) by (simp add: FinishAuthentication_def Let_def authenticationReady_def assertionBound_def)
qed

theorem FinishAuthentication_bad_signature_witness:
  "FinishAuthentication sample_std sample_env None (sample_verification
    \<lparr>afo_AlgorithmPolicy := NilIface, afo_SignatureVerifier := Impl (\<lambda>_ _. Some (External ''bad''))\<rparr>)
    = Inl (Wrapf ErrInvalidSignature (External ''bad''))"
  (is "FinishAuthentication _ _ _ ?options = _")
proof (rule FinishAuthentication_bad_signature)
  have "options_now sample_env (afo_Now ?options) = 1000"
    by code_simp
  moreover have "authenticationReady sample_std 1000 ?options"
    by code_simp
  ultimately show "authenticationReady sample_std (options_now sample_env (afo_Now ?options)) ?options"
    by simp
  show "assertionBound ?options"
    by code_simp
  show "verifyClientData sample_std (ar_ClientDataJSON (afo_Response ?options)) ClientDataTypeGet
      (as_Challenge (afo_State ?options)) (as_OriginPolicy (afo_State ?options)) = Inr (take 32 ([2] @ replicate 32 0))"
    by code_simp
  show "verifyAuthenticationAuthenticatorData sample_std (afo_State ?options) (afo_Response ?options)
      (afo_Credential ?options) (afo_ExtensionPolicy ?options) = Inr sample_asserted_parsed"
    by code_simp
  show "decodeAuthenticationExtensions (afo_ExtensionMapDecoder ?options) sample_asserted_parsed = Inr []"
    by code_simp
qed simp_all

section \<open>Registration ceremonies\<close>

text \<open>
  C5. Safety of \<^verbatim>\<open>FinishRegistration\<close>. Whenever it returns a credential, the state had not
  expired; the client data is of type \<^verbatim>\<open>webauthn.create\<close> with the challenge of the state and an
  allowed origin; the authenticator data of the decoded attestation object is well formed, has
  the hash of the RP ID and the required flags; the credential is bound to the user and the RP
  ID of the state, has the identifier the response names and a key of an allowed algorithm
  decoded from the attested data; and the trust policy accepted the attestation result.
\<close>

theorem FinishRegistration_sound:
  assumes run: "FinishRegistration std env ctx options = Inr res"
  shows "options_now env (rfo_Now options) < rs_ExpiresAt (rfo_State options) \<and>
    (\<exists>d. ParseCollectedClientData std (rr_ClientDataJSON (rfo_Response options)) = Inr d \<and>
      ccd_Type d = ''webauthn.create'' \<and>
      ccd_Challenge d = b64_encode (bv_bytes (rs_Challenge (rfo_State options))) \<and>
      ccd_Origin d \<in> set (op_AllowedOrigins (rs_OriginPolicy (rfo_State options)))) \<and>
    (\<exists>decoded parsed attested. call (rfo_AttestationObjectDecoder options) (rr_AttestationObject (rfo_Response options)) = Inr decoded \<and>
      ParseAuthenticatorData (dao_AuthenticatorData decoded) = Inr parsed \<and>
      pad_RPIDHash parsed = std_Sum256 std (bytes_of_string (rs_RPID (rfo_State options))) \<and>
      (rs_ConditionalMediation (rfo_State options) \<or> UserPresent (pad_Flags parsed)) \<and>
      (rs_RequestedUserVerification (rfo_State options) = UserVerificationRequired \<longrightarrow> UserVerified (pad_Flags parsed)) \<and>
      pad_AttestedCredentialData parsed = Some attested \<and>
      cr_ID (rres_Credential res) = acd_CredentialID attested \<and>
      bv_bytes (acd_CredentialID attested) = bv_bytes (rr_RawID (rfo_Response options)) \<and>
      call (rfo_CredentialPublicKeyDecoder options) (acd_CredentialPublicKeyAndExtensions attested)
        = Inr (cr_PublicKey (rres_Credential res)) \<and>
      accepts (rfo_AttestationTrustPolicy options) (Some (normalizeContext ctx))
        \<lparr>tq_Format = dao_Format decoded, tq_Result = rres_Attestation res, tq_AAGUID = acd_AAGUID attested,
         tq_AuthenticatorData = dao_AuthenticatorData decoded,
         tq_CredentialPublicKey = cr_PublicKey (rres_Credential res), tq_RawAttestationObject = dao_Raw decoded\<rparr>) \<and>
    cr_UserHandle (rres_Credential res) = rs_UserHandle (rfo_State options) \<and>
    cr_RPID (rres_Credential res) = rs_RPID (rfo_State options) \<and>
    cpk_Algorithm (cr_PublicKey (rres_Credential res)) \<in> set (rs_AllowedAlgorithms (rfo_State options)) \<and>
    vr_CryptographicallyValid (rres_Attestation res)"
proof -
  obtain d decoded parsed attested key exts att trust extensionResults where
    ready: "registrationReady std (options_now env (rfo_Now options)) options"
    and evidence: "registrationEvidence std options d decoded parsed attested key exts"
    and attestation: "verifyRegistrationAttestation (normalizeContext ctx)
      (attestationInputs std options decoded attested key) = Inr (att, trust)"
    and res: "res = registrationResult options parsed attested key att trust extensionResults"
    using run unfolding FinishRegistration_refines registrationSpec_def by blast
  have copy: "VerificationResult_Clone att = att"
    and valid: "vr_CryptographicallyValid att" "evaluate (rfo_AttestationTrustPolicy options) (Some (normalizeContext ctx))
      (attestationTrustRequest (attestationInputs std options decoded attested key) att) = Inr trust" "trust_Accepted trust"
    using attestation unfolding verifyRegistrationAttestation_Inr_iff by (auto simp: attestationInputs_def)
  then have "accepts (rfo_AttestationTrustPolicy options) (Some (normalizeContext ctx))
      \<lparr>tq_Format = dao_Format decoded, tq_Result = att, tq_AAGUID = acd_AAGUID attested,
       tq_AuthenticatorData = dao_AuthenticatorData decoded, tq_CredentialPublicKey = key,
       tq_RawAttestationObject = dao_Raw decoded\<rparr>"
    by (auto simp: accepts_def attestationTrustRequest_def attestationInputs_def Let_def)
  then show ?thesis
    using ready evidence valid
    by (simp add: res registrationReady_def registrationEvidence_def registrationResult_def Let_def
        clientDataAccepted_def ClientDataTypeCreate_def verifyCollectedClientOrigin_None_iff
        registrationFlagsOK_def keyAndExtensions_def)
qed

theorem FinishRegistration_sound_witness:
  "FinishRegistration sample_std sample_env None sample_finish = Inr sample_registered \<and>
    cr_RPID (rres_Credential sample_registered) = rs_RPID (rfo_State sample_finish)"
  using FinishRegistration_sound [OF sample_FinishRegistration_low] sample_FinishRegistration_low by blast

text \<open>
  C6. Completeness of registration: honest answers are accepted. For a ceremony started without extensions, let the browser answer
  in time with client data of type \<^verbatim>\<open>webauthn.create\<close> that carries the challenge it was sent and an allowed origin, and with an attestation
  object whose authenticator data is the hash of the RP ID, the flags, the counter, the AAGUID, the length and the bytes of the
  identifier and the encoded key; let the key have a requested algorithm, the verifier of the format return a usable result for exactly this
  request, and the trust policy accept it. Then \<^verbatim>\<open>FinishRegistration\<close> returns the credential of the answer, for the user and the RP ID
  of the started ceremony.
\<close>

theorem honest_registration_accepted:
  assumes start: "StartRegistration std env ctx options = Inr out" "rso_Extensions options = []" "0 \<le> options_now env (rso_Now options)"
    and finish: "rfo_State verification = rsr_State out" "rfo_Response verification = response"
      "options_now env' (rfo_Now verification) < rs_ExpiresAt (rsr_State out)" "normalizeContext ctx' 0 = None"
    and honest: "honestAttestation std (rsr_Options out) origin name decoded response"
      "origin \<in> set (op_AllowedOrigins (rso_OriginPolicy options))"
    and decoded: "rfo_AttestationObjectDecoder verification = Impl decode" "decode (rr_AttestationObject response) = Inr decoded"
      "bv_value (dao_AuthenticatorData decoded) = Some (std_Sum256 std (bytes_of_string (rp_ID (rso_RP options))) @ [flags] @ put32 counter
        @ aaguid @ put16 (word_of_nat (length name)) @ name @ keyBytes)"
      "length (std_Sum256 std (bytes_of_string (rp_ID (rso_RP options)))) = 32" "length aaguid = 16" "1 \<le> length name" "length name \<le> 1023"
      "honestFlags flags (rs_RequestedUserVerification (rsr_State out)) True"
    and key: "rfo_CredentialPublicKeyDecoder verification = Impl decodeKey" "decodeKey keyBytes = Inr key" "cpk_raw key = keyBytes"
      "PublicKey_Validate key = None" "cpk_Algorithm key \<in> cp_Algorithm ` set (co_PubKeyCredParams (rsr_Options out))"
      "rr_PublicKeyAlgorithm response \<in> {0, cpk_Algorithm key}"
    and attestation: "att_Lookup (rfo_AttestationRegistry verification) (dao_Format decoded) = Some verifier" "identifier_Valid (dao_Format decoded)"
      "v_VerifyAttestation verifier (Some (normalizeContext ctx'))
        \<lparr>vq_Format = dao_Format decoded, vq_ConveyancePreference = co_Attestation (rsr_Options out),
         vq_AuthenticatorData = dao_AuthenticatorData decoded, vq_ClientDataHash = std_Sum256 std (bv_bytes (rr_ClientDataJSON response)),
         vq_Statement = dao_Statement decoded, vq_CredentialPublicKey = key, vq_RawAttestationObject = dao_Raw decoded\<rparr> = Inr att"
      "vr_CryptographicallyValid att" "Type_Known (vr_Type att)" "TrustPathKind_Known (tp_Kind (vr_TrustPath att))"
    and trust: "rfo_AttestationTrustPolicy verification = Impl policy" "policy (Some (normalizeContext ctx'))
        \<lparr>tq_Format = dao_Format decoded, tq_Result = VerificationResult_Clone att, tq_AAGUID = aaguid,
         tq_AuthenticatorData = dao_AuthenticatorData decoded, tq_CredentialPublicKey = key, tq_RawAttestationObject = dao_Raw decoded\<rparr> = Inr trust"
      "trust_Accepted trust"
  shows "\<exists>res. FinishRegistration std env' ctx' verification = Inr res \<and>
    rres_Credential res = \<lparr>cr_Type = ''public-key'', cr_ID = \<lparr>bv_value = Some name\<rparr>, cr_PublicKey = key,
      cr_UserHandle = user_ID (rso_User options), cr_RPID = rp_ID (rso_RP options), cr_AAGUID = aaguid, cr_SignCount = counter,
      cr_Transports = rr_Transports response, cr_BackupEligible = bit flags 3, cr_BackupState = bit flags 4, cr_UVInitialized = bit flags 2,
      cr_AuthenticatorAttachment = (if rr_AuthenticatorAttachment response \<in> {''platform'', ''cross-platform''}
        then rr_AuthenticatorAttachment response else []), cr_AttestationType = vr_Type att\<rparr> \<and>
    rres_Attestation res = VerificationResult_Clone att \<and> rres_AttestationTrust res = trust \<and> rres_Extensions res = []"
proof -
  let ?attested = "\<lparr>acd_AAGUID = aaguid, acd_CredentialID = \<lparr>bv_value = Some name\<rparr>, acd_CredentialPublicKeyAndExtensions = keyBytes\<rparr>"
  let ?parsed = "\<lparr>pad_Raw = dao_AuthenticatorData decoded, pad_RPIDHash = std_Sum256 std (bytes_of_string (rp_ID (rso_RP options))),
    pad_Flags = flags, pad_SignCount = counter, pad_AttestedCredentialData = Some ?attested, pad_ExtensionData = None\<rparr>"
  let ?res = "registrationResult verification ?parsed ?attested key (VerificationResult_Clone att) trust []"
  note started = started_registration [OF start]
  have parse: "ParseAuthenticatorData (dao_AuthenticatorData decoded) = Inr ?parsed"
    using honest_attestation_parsed [OF decoded(3,4,8,5-7)] key(3,4) by (simp add: PublicKey_Validate_None_iff)
  obtain d where client: "clientDataAccepted std (rr_ClientDataJSON response) ClientDataTypeCreate (rs_Challenge (rsr_State out))
      (rs_OriginPolicy (rsr_State out)) d"
    using browserSays_accepted [of std "rr_ClientDataJSON response" ClientDataTypeCreate "co_Challenge (rsr_Options out)" origin] honest started
    by (auto simp: honestAttestation_def ClientDataTypeCreate_def)
  have "registrationReady std (options_now env' (rfo_Now verification)) verification"
    using finish honest(1) decoded(1) key(1) attestation(1) started
    by (auto simp: registrationReady_def validateRegistrationResponseShape_None_iff honestAttestation_def browserSays_def
        CredentialTypePublicKey_def bv_IsNil_def att_Lookup_def split: option.splits)
  moreover have "registrationEvidence std verification d decoded ?parsed ?attested key []"
    using finish honest(1) decoded parse client key started
    by (auto simp: registrationEvidence_def registrationFlagsOK_def flag_bits honestAttestation_def honestFlags_def keyAndExtensions_def
        call_Inr_iff UserVerificationRequired_def bv_bytes_def bytes_of_def bv_IsNil_def zero_byteValue_def)
  moreover have "verifyRegistrationAttestation (normalizeContext ctx') (attestationInputs std verification decoded ?attested key)
      = Inr (VerificationResult_Clone att, trust)"
    using finish attestation trust started
    by (simp add: verifyRegistrationAttestation_Inr_iff attestationInputs_def attestationRequest_def attestationTrustRequest_def
        evaluate_def Let_def)
  moreover have "verifyRegistrationExtensions (normalizeContext ctx') (extensionInputs verification []) = Inr []"
    using finish honest(1) started
    by (simp add: verifyRegistrationExtensions_def extensionInputs_def registrationExtensionWork_def no_extensions_verified
        honestAttestation_def)
  ultimately have "FinishRegistration std env' ctx' verification = Inr ?res"
    by (rule FinishRegistration_accepts)
  then show ?thesis
    using finish honest(1) started
    by (auto simp: registrationResult_def Let_def flag_bits honestAttestation_def normalizeAuthenticatorAttachment_def Attachment_Known_def)
qed

theorem honest_registration_accepted_witness:
  "\<exists>res. FinishRegistration sample_std sample_env None sample_finish = Inr res \<and> rres_Credential res = sample_credential"
proof -
  let ?options = "registrationStartOptions sample_ready_config sample_registration" and ?response = "rfo_Response sample_finish"
  let ?att = "VerificationResult TypeNone (TrustPath TrustPathNone [] None None) True [] NilIface"
  let ?trust = "\<lparr>trust_Accepted = True, trust_Reason = [], trust_Warnings = []\<rparr>"
  have start: "StartRegistration sample_std sample_env None ?options = Inr sample_creation" "rso_Extensions ?options = []"
      "0 \<le> options_now sample_env (rso_Now ?options)"
    using sample_StartRegistration by (simp add: RP_StartRegistration_def sample_rp_def, code_simp+)
  have finish: "rfo_State sample_finish = rsr_State sample_creation" "options_now sample_env (rfo_Now sample_finish) < rs_ExpiresAt (rsr_State sample_creation)"
      "normalizeContext None 0 = None"
    by code_simp+
  have honest: "honestAttestation sample_std (rsr_Options sample_creation) ''https://example.org'' [42] sample_decoded ?response"
      "''https://example.org'' \<in> set (op_AllowedOrigins (rso_OriginPolicy ?options))"
    by code_simp+
  have parts: "rfo_AttestationObjectDecoder sample_finish = Impl (\<lambda>raw. Inr \<lparr>dao_Format = none_format,
        dao_AuthenticatorData = sample_created, dao_Statement = [], dao_Raw = raw\<rparr>)"
      "rfo_CredentialPublicKeyDecoder sample_finish = Impl (\<lambda>_. Inr sample_key)"
      "rfo_AttestationTrustPolicy sample_finish = Impl (\<lambda>_ request. Inr \<lparr>trust_Accepted = (tq_Format request = none_format),
        trust_Reason = [], trust_Warnings = []\<rparr>)"
      "att_Lookup (rfo_AttestationRegistry sample_finish) (dao_Format sample_decoded) = Some none_Verifier"
    by (simp_all add: sample_finish_def registrationFinishOptions_def sample_rp_def sample_ready_config_def sample_config_def
        att_Lookup_def sample_decoded_def)
  have decoded: "Inr \<lparr>dao_Format = none_format, dao_AuthenticatorData = sample_created, dao_Statement = [],
        dao_Raw = rr_AttestationObject ?response\<rparr> = (Inr sample_decoded :: DecodedAttestationObject result)"
      "bv_value (dao_AuthenticatorData sample_decoded) = Some (std_Sum256 sample_std (bytes_of_string (rp_ID (rso_RP ?options))) @ [0x45] @ put32 7
        @ replicate 16 0 @ put16 (word_of_nat (length [42 :: byte])) @ [42] @ [5])"
      "length (std_Sum256 sample_std (bytes_of_string (rp_ID (rso_RP ?options)))) = 32"
      "honestFlags 0x45 (rs_RequestedUserVerification (rsr_State sample_creation)) True"
    by code_simp+
  have key: "cpk_raw sample_key = [5]" "PublicKey_Validate sample_key = None"
      "cpk_Algorithm sample_key \<in> cp_Algorithm ` set (co_PubKeyCredParams (rsr_Options sample_creation))"
      "rr_PublicKeyAlgorithm ?response \<in> {0, cpk_Algorithm sample_key}" "identifier_Valid (dao_Format sample_decoded)"
    by code_simp+
  have attestation: "v_VerifyAttestation none_Verifier (Some (normalizeContext None))
      \<lparr>vq_Format = dao_Format sample_decoded, vq_ConveyancePreference = co_Attestation (rsr_Options sample_creation),
       vq_AuthenticatorData = dao_AuthenticatorData sample_decoded, vq_ClientDataHash = std_Sum256 sample_std (bv_bytes (rr_ClientDataJSON ?response)),
       vq_Statement = dao_Statement sample_decoded, vq_CredentialPublicKey = sample_key, vq_RawAttestationObject = dao_Raw sample_decoded\<rparr> = Inr ?att"
      "vr_CryptographicallyValid ?att" "Type_Known (vr_Type ?att)" "TrustPathKind_Known (tp_Kind (vr_TrustPath ?att))"
    by code_simp+
  have credential: "sample_credential = \<lparr>cr_Type = ''public-key'', cr_ID = \<lparr>bv_value = Some [42]\<rparr>, cr_PublicKey = sample_key,
      cr_UserHandle = user_ID (rso_User ?options), cr_RPID = rp_ID (rso_RP ?options), cr_AAGUID = replicate 16 0, cr_SignCount = 7,
      cr_Transports = rr_Transports ?response, cr_BackupEligible = bit (0x45 :: byte) 3, cr_BackupState = bit (0x45 :: byte) 4,
      cr_UVInitialized = bit (0x45 :: byte) 2,
      cr_AuthenticatorAttachment = (if rr_AuthenticatorAttachment ?response \<in> {''platform'', ''cross-platform''}
        then rr_AuthenticatorAttachment ?response else []), cr_AttestationType = vr_Type ?att\<rparr>"
    by code_simp
  have sizes: "length (replicate 16 0 :: bytes) = 16" "1 \<le> length [42 :: byte]" "length [42 :: byte] \<le> 1023"
    by simp_all
  have trust: "(\<lambda>_ request. Inr \<lparr>trust_Accepted = (tq_Format request = none_format), trust_Reason = [], trust_Warnings = []\<rparr>) (Some (normalizeContext None))
      \<lparr>tq_Format = dao_Format sample_decoded, tq_Result = VerificationResult_Clone ?att, tq_AAGUID = replicate 16 0,
       tq_AuthenticatorData = dao_AuthenticatorData sample_decoded, tq_CredentialPublicKey = sample_key,
       tq_RawAttestationObject = dao_Raw sample_decoded\<rparr> = (Inr ?trust :: TrustResult result)" "trust_Accepted ?trust"
    by (simp_all add: sample_decoded_def)
  show ?thesis
    using honest_registration_accepted [OF start finish(1) refl finish(2,3) honest parts(1) decoded(1-3) sizes decoded(4) parts(2) refl key(1-4)
        parts(4) key(5) attestation parts(3) trust] unfolding credential [symmetric] by blast
qed

text \<open>
  The record a registration returns satisfies the record invariant that authentication and
  storage demand, so it can be stored and used without further checks.
\<close>

theorem FinishRegistration_record_valid:
  assumes run: "FinishRegistration std env ctx options = Inr res"
  shows "CredentialRecord_Validate (rres_Credential res) = None"
  by (rule FinishRegistration_facts(1) [OF run])

theorem FinishRegistration_record_valid_witness:
  "FinishRegistration sample_std sample_env None sample_finish = Inr sample_registered \<and>
    CredentialRecord_Validate (rres_Credential sample_registered) = None"
  using FinishRegistration_record_valid [OF sample_FinishRegistration_low] sample_FinishRegistration_low by blast

text \<open>
  A nil trust policy, typed or not, accepts no attestation: the registration ends with an
  error whatever the response is.
\<close>

theorem FinishRegistration_needs_policy:
  assumes "IsNil (rfo_AttestationTrustPolicy options)"
  shows "\<exists>e. FinishRegistration std env ctx options = Inl e"
proof (cases "FinishRegistration std env ctx options")
  case (Inr res)
  then obtain decoded attested key att trust where
    "verifyRegistrationAttestation (normalizeContext ctx) (attestationInputs std options decoded attested key) = Inr (att, trust)"
    unfolding FinishRegistration_refines registrationSpec_def by blast
  then show ?thesis
    using assms by (cases "rfo_AttestationTrustPolicy options")
      (auto simp: verifyRegistrationAttestation_Inr_iff attestationInputs_def evaluate_def)
qed simp

theorem FinishRegistration_needs_policy_witness:
  "\<exists>e. FinishRegistration sample_std sample_env None (sample_finish\<lparr>rfo_AttestationTrustPolicy := NilIface\<rparr>) = Inl e"
  by (rule FinishRegistration_needs_policy) simp

section \<open>From start to finish\<close>

text \<open>
  C7. The state \<^verbatim>\<open>StartRegistration\<close> returns is one \<^verbatim>\<open>FinishRegistration\<close> accepts: it passes
  \<^verbatim>\<open>Validate\<close>, its extension bindings agree with the same registry, it expires after the start,
  and it holds the challenge, the algorithms and the extension inputs that the browser is sent.
  Extension inputs are a map (distinct keys) and a registry is built by \<^verbatim>\<open>NewRegistry\<close>.
\<close>

theorem StartRegistration_state_valid:
  assumes run: "StartRegistration std env ctx options = Inr out"
    and inputs: "wf_map (rso_Extensions options)"
    and registry: "\<And>m. rso_ExtensionRegistry options = Some m \<Longrightarrow> \<exists>es. NewRegistry es = Inr m"
    and now: "0 \<le> options_now env (rso_Now options)"
  shows "RegistrationState_Validate std (rsr_State out) = None \<and>
    validateFinishExtensionBindings (rs_RequestedExtensions (rsr_State out)) (rs_ExtensionBindings (rsr_State out))
      (rso_ExtensionRegistry options) = None \<and>
    options_now env (rso_Now options) < rs_ExpiresAt (rsr_State out) \<and>
    rs_Challenge (rsr_State out) = co_Challenge (rsr_Options out) \<and>
    rs_AllowedAlgorithms (rsr_State out) = map cp_Algorithm (co_PubKeyCredParams (rsr_Options out)) \<and>
    rs_RequestedExtensions (rsr_State out) = co_Extensions (rsr_Options out)"
proof -
  have wf: "rso_ExtensionRegistry options = Some m \<Longrightarrow> wf_ext_registry m" for m
    using registry NewRegistry_wf by blast
  show ?thesis
    using run
  proof (rule StartRegistration_InrE)
    fix challenge params prepared ms
    assume prepare: "prepareExtensionInputs OperationRegistration (rso_Extensions options) (rso_ExtensionRegistry options)
        (rso_ExtensionInputPolicy options) None = Inr (prepared, rs_ExtensionBindings (rsr_State out))"
      and clone: "cloneExtensionInputs prepared = Inr (rs_RequestedExtensions (rsr_State out))"
      and options: "cloneExtensionInputs prepared = Inr (co_Extensions (rsr_Options out))"
      and params: "registrationCredentialParameters (rso_PubKeyCredParams options) = Inr params"
        "rs_AllowedAlgorithms (rsr_State out) = map cp_Algorithm params" "co_PubKeyCredParams (rsr_Options out) = params"
      and challenge: "rs_Challenge (rsr_State out) = challenge" "co_Challenge (rsr_Options out) = challenge"
      and timeout: "timeoutState (rso_Timeout options) (rso_StateTTL options) (options_now env (rso_Now options))
        = Inr (ms, rs_ExpiresAt (rsr_State out))"
      and creation: "CreationOptions_Validate (rsr_Options out) = None"
      and rest: "rs_RPID (rsr_State out) = rp_ID (rso_RP options)" "rs_OriginPolicy (rsr_State out) = rso_OriginPolicy options"
        "rs_UserHandle (rsr_State out) = user_ID (rso_User options)" "Attestation_Known (rs_Attestation (rsr_State out))"
        "UserVerification_Known (rs_RequestedUserVerification (rsr_State out))" "RPEntity_Validate (rso_RP options) = None"
        "UserEntity_Validate (rso_User options) = None" "validateOriginPolicy std (rso_OriginPolicy options) = None"
        "validateRPIDOriginPolicy std (rp_ID (rso_RP options)) (rso_OriginPolicy options) = None"
    have bound: "extensionsBound (rso_ExtensionRegistry options) (rs_RequestedExtensions (rsr_State out))
        (rs_ExtensionBindings (rsr_State out))"
      by (rule prepared_extensionsBound [OF prepare clone inputs wf])
    have expiry: "options_now env (rso_Now options) < rs_ExpiresAt (rsr_State out)"
      using timeoutState_bounds [OF timeout] by simp
    have algorithms: "params \<noteq> []" "\<forall>p\<in>set params. Algorithm_Validate (cp_Algorithm p) = None"
      using registrationCredentialParameters_Inr [OF params(1)] by (auto simp: CredentialParameter_Validate_None_iff)
    have "bv_bytes challenge \<noteq> []"
      using creation challenge by (simp add: CreationOptions_Validate_None_iff)
    then show ?thesis
      using bound expiry algorithms params challenge clone options rest now
      by (simp add: RegistrationState_Validate_None_iff extensionsBound_def RPEntity_Validate_None_iff
          UserEntity_Validate_None_iff)
  qed
qed

theorem StartRegistration_state_valid_witness:
  "RegistrationState_Validate sample_std (rsr_State sample_creation) = None"
proof -
  have "StartRegistration sample_std sample_env None (registrationStartOptions sample_ready_config sample_registration)
      = Inr sample_creation"
    using sample_StartRegistration by (simp add: RP_StartRegistration_def sample_rp_def)
  then show ?thesis
    using StartRegistration_state_valid
      [of sample_std sample_env None "registrationStartOptions sample_ready_config sample_registration" sample_creation]
    by (simp add: registrationStartOptions_def sample_registration_def sample_ready_config_def sample_config_def
        options_now_def sample_env_def wf_map_def)
qed

text \<open>
  C8. The same for authentication, including the context rule of \<^verbatim>\<open>largeBlob\<close> that is checked again
  on the stored state: the values stored are those that were checked, because a prepared input
  is unchanged by copying. Inputs are well-typed Go values, and so are those handlers return.
\<close>

theorem StartAuthentication_state_valid:
  assumes run: "StartAuthentication std env ctx options = Inr out"
    and inputs: "wf_map (aso_Extensions options)" "\<forall>(_, v)\<in>set (aso_Extensions options). wt_value v"
    and registry: "\<And>m. aso_ExtensionRegistry options = Some m \<Longrightarrow> \<exists>es. NewRegistry es = Inr m"
      "registry_typed (aso_ExtensionRegistry options)"
    and now: "0 \<le> options_now env (aso_Now options)"
  shows "AuthenticationState_Validate std (asr_State out) = None \<and>
    validateFinishExtensionBindings (as_RequestedExtensions (asr_State out)) (as_ExtensionBindings (asr_State out))
      (aso_ExtensionRegistry options) = None \<and>
    options_now env (aso_Now options) < as_ExpiresAt (asr_State out) \<and>
    as_Challenge (asr_State out) = ro_Challenge (asr_Options out) \<and>
    as_AllowCredentials (asr_State out) = ro_AllowCredentials (asr_Options out) \<and>
    as_RequestedExtensions (asr_State out) = ro_Extensions (asr_Options out)"
proof -
  have wf: "aso_ExtensionRegistry options = Some m \<Longrightarrow> wf_ext_registry m" for m
    using registry NewRegistry_wf by blast
  have transform: "transform_copies (Some (prfTransform (aso_AllowCredentials options)))"
    by (auto simp: transform_copies_def prfTransform_def BuiltInBinding_def split: if_splits)
  show ?thesis
    using run
  proof (rule StartAuthentication_InrE)
    fix challenge prepared ms
    assume prepare: "prepareExtensionInputs OperationAuthentication (aso_Extensions options) (aso_ExtensionRegistry options)
        (aso_ExtensionInputPolicy options) (Some (prfTransform (aso_AllowCredentials options)))
        = Inr (prepared, as_ExtensionBindings (asr_State out))"
      and checked: "validateAuthenticationExtensionContext prepared (aso_ExtensionRegistry options)
        (aso_AllowCredentials options) = None"
      and clone: "cloneExtensionInputs prepared = Inr (as_RequestedExtensions (asr_State out))"
        "cloneExtensionInputs prepared = Inr (ro_Extensions (asr_Options out))"
      and timeout: "timeoutState (aso_Timeout options) (aso_StateTTL options) (options_now env (aso_Now options))
        = Inr (ms, as_ExpiresAt (asr_State out))"
      and challenge: "as_Challenge (asr_State out) = challenge" "ro_Challenge (asr_Options out) = challenge"
      and allow: "as_AllowCredentials (asr_State out) = aso_AllowCredentials options"
        "ro_AllowCredentials (asr_Options out) = aso_AllowCredentials options"
      and request: "RequestOptions_Validate (asr_Options out) = None"
      and rest: "as_RPID (asr_State out) = aso_RPID options" "as_OriginPolicy (asr_State out) = aso_OriginPolicy options"
        "UserVerification_Known (as_RequestedUserVerification (asr_State out))" "aso_RPID options \<noteq> []"
        "validateOriginPolicy std (aso_OriginPolicy options) = None"
        "validateRPIDOriginPolicy std (aso_RPID options) (aso_OriginPolicy options) = None"
    have bound: "extensionsBound (aso_ExtensionRegistry options) (as_RequestedExtensions (asr_State out))
        (as_ExtensionBindings (asr_State out))"
      by (rule prepared_extensionsBound [OF prepare clone(1) inputs(1) wf])
    have stored: "as_RequestedExtensions (asr_State out) = prepared"
      using prepared_clone_id [OF prepare inputs(2) registry(2) transform] clone(1) by simp
    have "validateStoredAuthenticationExtensionContext prepared (aso_AllowCredentials options) = None"
      using checked
      by (auto simp: validateAuthenticationExtensionContext_def validateStoredAuthenticationExtensionContext_def
          split: option.splits if_splits)
    moreover have "options_now env (aso_Now options) < as_ExpiresAt (asr_State out)"
      using timeoutState_bounds [OF timeout] by simp
    ultimately show ?thesis
      using bound stored clone challenge allow request rest now
      by (simp add: AuthenticationState_Validate_None_iff RequestOptions_Validate_None_iff extensionsBound_def)
  qed
qed

theorem StartAuthentication_state_valid_witness:
  "AuthenticationState_Validate sample_std (asr_State sample_request) = None"
proof -
  have "StartAuthentication sample_std sample_env None (authenticationStartOptions sample_ready_config sample_login)
      = Inr sample_request"
    using sample_StartAuthentication by (simp add: RP_StartAuthentication_def sample_rp_def)
  then show ?thesis
    using StartAuthentication_state_valid
      [of sample_std sample_env None "authenticationStartOptions sample_ready_config sample_login" sample_request]
    by (simp add: authenticationStartOptions_def sample_login_def sample_ready_config_def sample_config_def
        options_now_def sample_env_def wf_map_def registry_typed_def Registry_lookup_def)
qed

text \<open>
  A relying party recognises its own registrations: for a state that its
  \<^verbatim>\<open>StartRegistration\<close> returned, its \<^verbatim>\<open>FinishRegistration\<close> is the verification of the response
  with the relying party's configuration, never the refusal of a foreign state.
\<close>

theorem RP_registration_recognised:
  assumes "New std env config = Inr rp" "RP_StartRegistration std env (Some rp) ctx request = Inr out"
  shows "RP_FinishRegistration std env' (Some rp) ctx' \<lparr>rver_State = rsr_State out, rver_Response = response\<rparr>
    = FinishRegistration std env' ctx'
      (registrationFinishOptions (rp_config rp) \<lparr>rver_State = rsr_State out, rver_Response = response\<rparr>)"
  using RP_StartRegistration_matches [OF assms] New_InrE [OF assms(1)]
  by (auto simp: RP_FinishRegistration_def)

theorem RP_registration_recognised_witness:
  "RP_FinishRegistration sample_std sample_env (Some sample_rp) None
      \<lparr>rver_State = rsr_State sample_creation, rver_Response = rver_Response sample_attestation\<rparr>
    = FinishRegistration sample_std sample_env None (registrationFinishOptions (rp_config sample_rp)
      \<lparr>rver_State = rsr_State sample_creation, rver_Response = rver_Response sample_attestation\<rparr>)"
  by (rule RP_registration_recognised [OF sample_New sample_StartRegistration])

text \<open>
  C9. End to end: a credential that a relying party registered can answer any authentication
  the same relying party starts. The finish goes straight to the verification of the
  assertion: the state is recognised, the record is valid, its algorithm is one the relying
  party offers and the algorithm policy accepts it.
\<close>

theorem RP_registered_credential_usable:
  assumes new: "New std env config = Inr rp"
    and registered: "RP_FinishRegistration std env' (Some rp) ctx' verification = Inr reg"
    and started: "RP_StartAuthentication std env (Some rp) ctx request = Inr out"
    and assertion: "aver_State assertion = asr_State out" "aver_Credential assertion = rres_Credential reg"
  shows "RP_FinishAuthentication std env'' (Some rp) ctx'' assertion
      = FinishAuthentication std env'' ctx'' (authenticationFinishOptions (rp_config rp) assertion) \<and>
    validateAuthenticationDependencies (authenticationFinishOptions (rp_config rp) assertion) = None \<and>
    (\<exists>f. cfg_AlgorithmPolicy (rp_config rp) = Impl f \<and> f (cpk_Algorithm (cr_PublicKey (rres_Credential reg))))"
proof -
  obtain parameters where rp: "rp_config rp = configDefaults env parameters config" "rp_ready rp"
    "rp_algorithms rp = map cp_Algorithm parameters" and config: "validateConfig (rp_config rp) std = None"
    using new by (rule New_InrE)
  have matches: "registrationStateMatches rp (rver_State verification)"
    and run: "FinishRegistration std env' ctx' (registrationFinishOptions (rp_config rp) verification) = Inr reg"
    using registered rp(2) by (auto simp: RP_FinishRegistration_def split: if_splits)
  have "cpk_Algorithm (cr_PublicKey (rres_Credential reg)) \<in> set (rs_AllowedAlgorithms (rver_State verification))"
    using FinishRegistration_facts(2) [OF run] by (simp add: registrationFinishOptions_def)
  then have algorithm: "cpk_Algorithm (cr_PublicKey (rres_Credential reg)) \<in> set (rp_algorithms rp)"
    using matches by (simp add: registrationStateMatches_def)
  then obtain p where "p \<in> set (cfg_PubKeyCredParams (rp_config rp))"
    "cp_Algorithm p = cpk_Algorithm (cr_PublicKey (rres_Credential reg))"
    using rp by auto
  then have policy: "\<exists>f. cfg_AlgorithmPolicy (rp_config rp) = Impl f \<and> f (cpk_Algorithm (cr_PublicKey (rres_Credential reg)))"
    using validateConfig_algorithms [OF config] by metis
  have valid: "CredentialRecord_Validate (rres_Credential reg) = None"
    by (rule FinishRegistration_facts(1) [OF run])
  show ?thesis
    using valid algorithm policy rp(2) RP_StartAuthentication_matches [OF new started] validateConfig_NoneD [OF config]
    by (auto simp: RP_FinishAuthentication_def assertion validateAuthenticationDependencies_None_iff
        authenticationFinishOptions_def not_IsNil_iff)
qed

theorem RP_registered_credential_usable_witness:
  "RP_FinishAuthentication sample_std sample_env (Some sample_rp) None
      \<lparr>aver_State = asr_State sample_request, aver_Response = aver_Response sample_assertion,
       aver_Credential = rres_Credential sample_registered, aver_UVInitializationAuthorized = False\<rparr>
    = FinishAuthentication sample_std sample_env None (authenticationFinishOptions (rp_config sample_rp)
      \<lparr>aver_State = asr_State sample_request, aver_Response = aver_Response sample_assertion,
       aver_Credential = rres_Credential sample_registered, aver_UVInitializationAuthorized = False\<rparr>)"
  by (rule RP_registered_credential_usable
      [OF sample_New sample_FinishRegistration sample_StartAuthentication, THEN conjunct1]) simp_all

section \<open>Credential updates\<close>

text \<open>
  C10. Applying the update of a verified authentication to the record it was verified against
  gives exactly the credential the result reports.
\<close>

theorem ApplyTo_verified_update:
  assumes run: "FinishAuthentication std env ctx options = Inr res"
  shows "ApplyTo (ares_Update res) (afo_Credential options) = Inr (ares_Credential res)"
  using FinishAuthentication_result [OF run] by (simp add: ApplyTo_Inr_iff)

theorem ApplyTo_verified_update_witness:
  "ApplyTo (ares_Update sample_authenticated) (afo_Credential sample_verification) = Inr (ares_Credential sample_authenticated)"
  by (rule ApplyTo_verified_update [OF sample_FinishAuthentication_low])

text \<open>
  An update that changed the record is written at most once: applied to the record it
  produced, it ends with \<^verbatim>\<open>ErrCredentialUpdateConflict\<close>.
\<close>

theorem ApplyTo_once:
  assumes "ApplyTo update stored = Inr next" "next \<noteq> stored"
  shows "ApplyTo update next = Inl (Sentinel ErrCredentialUpdateConflict)"
proof -
  have "matchesPrevious update stored" "next = updatedRecord update stored" "CredentialRecord_Validate next = None"
    using assms(1) unfolding ApplyTo_Inr_iff by blast+
  moreover have "\<not> matchesPrevious update next"
    using assms(2) calculation updatedRecord_matches_again by blast
  ultimately show ?thesis
    by (simp add: ApplyTo_unfold)
qed

theorem ApplyTo_once_witness:
  "ApplyTo sample_update (sample_credential\<lparr>cr_SignCount := 8\<rparr>) = Inl (Sentinel ErrCredentialUpdateConflict)"
proof (rule ApplyTo_once)
  have "CredentialRecord_Validate sample_credential = None"
    "CredentialRecord_Validate (sample_credential\<lparr>cr_SignCount := 8\<rparr>) = None"
    by code_simp+
  then show "ApplyTo sample_update sample_credential = Inr (sample_credential\<lparr>cr_SignCount := 8\<rparr>)"
    by (simp add: ApplyTo_Inr_iff matchesPrevious_def updatedRecord_def sample_update_def sample_credential_def)
  show "sample_credential\<lparr>cr_SignCount := 8\<rparr> \<noteq> sample_credential"
    by (simp add: sample_credential_def)
qed

text \<open>
  C11. Replay: under a policy that rejects clone risks, an assertion with a non-zero counter is
  accepted at most once. Verified again, in any ceremony, against the record its first
  acceptance produced, it is refused.
\<close>

theorem FinishAuthentication_no_replay:
  assumes first: "FinishAuthentication std env ctx options = Inr res"
    and policy: "cpol_RejectCloneRisk (afo_CounterPolicy options)" "ctr_New (ares_Counter res) \<noteq> 0"
    and again: "ar_AuthenticatorData (afo_Response options') = ar_AuthenticatorData (afo_Response options)"
      "afo_Credential options' = ares_Credential res" "cpol_RejectCloneRisk (afo_CounterPolicy options')"
  shows "\<exists>e. FinishAuthentication std' env' ctx' options' = Inl e"
proof (cases "FinishAuthentication std' env' ctx' options'")
  case (Inr res')
  obtain d parsed exts extensionResults where
    evidence: "assertionEvidence std (normalizeContext ctx) options d parsed exts"
    and res: "res = authenticationResult options parsed
      (compareCounters (cr_SignCount (afo_Credential options)) (pad_SignCount parsed)) extensionResults"
    using first unfolding FinishAuthentication_refines authenticationSpec_def by blast
  obtain d' parsed' exts' where evidence': "assertionEvidence std' (normalizeContext ctx') options' d' parsed' exts'"
    using Inr unfolding FinishAuthentication_refines authenticationSpec_def by blast
  have same: "parsed' = parsed"
    using evidence evidence' again(1) by (simp add: assertionEvidence_def Let_def)
  have "pad_SignCount parsed \<noteq> 0"
    using policy(2) by (auto simp: res compareCounters_def split: if_splits)
  then have "cr_SignCount (afo_Credential options) < pad_SignCount parsed"
    using evidence policy(1) by (auto simp: assertionEvidence_def Let_def compareCounters_CloneRisk_iff)
  then have "cr_SignCount (afo_Credential options') = pad_SignCount parsed"
    by (simp add: again(2) res authenticationResult_def Let_def compareCounters_Incremented_iff)
  then show ?thesis
    using evidence' again(3) \<open>pad_SignCount parsed \<noteq> 0\<close>
    by (simp add: assertionEvidence_def Let_def compareCounters_CloneRisk_iff same)
qed simp

theorem FinishAuthentication_no_replay_witness:
  "\<exists>e. FinishAuthentication sample_std sample_env None
    (sample_verification\<lparr>afo_Credential := ares_Credential sample_authenticated\<rparr>) = Inl e"
proof (rule FinishAuthentication_no_replay [OF sample_FinishAuthentication_low])
  show "cpol_RejectCloneRisk (afo_CounterPolicy sample_verification)"
    "cpol_RejectCloneRisk (afo_CounterPolicy (sample_verification\<lparr>afo_Credential := ares_Credential sample_authenticated\<rparr>))"
    by (simp_all add: sample_verification_def authenticationFinishOptions_def sample_rp_def sample_ready_config_def
        sample_config_def)
  show "ctr_New (ares_Counter sample_authenticated) \<noteq> 0"
    by (simp add: sample_authenticated_def compareCounters_def)
qed simp_all

section \<open>Protocol data\<close>

text \<open>
  C12. The authenticator data parser accepts exactly the encodings of well-formed authenticator
  data, and returns the structure that was encoded: parsing succeeds with \<open>p\<close> if and only if
  \<open>p\<close> is well formed (hash and AAGUID lengths, reserved flag bits clear, AT and ED flags
  agreeing with the members present, credential ID of 1 to 1023 bytes) and the raw bytes are
  its encoding.
\<close>

theorem ParseAuthenticatorData_inverts_encoding:
  "ParseAuthenticatorData raw = Inr p \<longleftrightarrow>
    wf_parsed p \<and> pad_Raw p = raw \<and> encodeAuthenticatorData p = bv_bytes raw"
  by (rule ParseAuthenticatorData_Inr_iff)

text \<open>
  The challenge of collected client data decodes to \<open>bs\<close> exactly when the text is the
  unpadded base64url encoding of \<open>bs\<close>: no second spelling (padding, line breaks, non-zero
  trailing bits) of the same challenge is accepted.
\<close>

theorem ChallengeBytes_canonical: "ChallengeBytes d = Inr bs \<longleftrightarrow> ccd_Challenge d = b64_encode bs"
  by (rule ChallengeBytes_Inr_iff)

text \<open>
  The length-checked byte values: the constructors of challenges, credential identifiers and
  user handles accept exactly the lengths the specification gives (at least 16 bytes; 1 to
  1023 bytes; 1 to 64 bytes).
\<close>

theorem byte_values_bounds:
  "((\<exists>c. NewChallenge v = Inr c) \<longleftrightarrow> 16 \<le> length (bytes_of v)) \<and>
   ((\<exists>i. NewCredentialID v = Inr i) \<longleftrightarrow> 1 \<le> length (bytes_of v) \<and> length (bytes_of v) \<le> 1023) \<and>
   ((\<exists>u. NewUserHandle v = Inr u) \<longleftrightarrow> 1 \<le> length (bytes_of v) \<and> length (bytes_of v) \<le> 64)"
  by (auto simp: challenge.accepts credential_id.accepts user_handle.accepts MinChallengeLength_def
      MaxCredentialIDLength_def MaxUserHandleLength_def)

text \<open>
  C13. Origins stay in the scope of the RP ID. When the policy does not allow related origins, a
  client origin that a validated policy accepts parses as a URL whose host is the RP ID or a
  subdomain of it, and the RP ID is a DNS name and no IP address.
\<close>

theorem accepted_origin_in_scope:
  assumes "validateRPIDOriginPolicy std rpID policy = None" "\<not> op_AllowRelatedOrigins policy"
    and "verifyCollectedClientOrigin policy d = None"
  shows "\<exists>u. std_url_Parse std (ccd_Origin d) = Some u \<and>
    (ToLower std (Hostname u) = rpID \<or> (\<exists>sub. ToLower std (Hostname u) = sub @ ''.'' @ rpID)) \<and>
    validDNSName rpID \<and> std_ParseIP std rpID = None"
proof -
  have "ccd_Origin d \<in> set (op_AllowedOrigins policy)"
    using assms(3) by (simp add: verifyCollectedClientOrigin_None_iff)
  then show ?thesis
    using assms(1,2) by (auto simp: validateRPIDOriginPolicy_None_iff validRPID_iff originScopedTo_None_iff)
qed

theorem accepted_origin_in_scope_witness:
  "\<exists>u. std_url_Parse sample_std ''https://example.org'' = Some u \<and>
    (ToLower sample_std (Hostname u) = ''example.org'' \<or> (\<exists>sub. ToLower sample_std (Hostname u) = sub @ ''.'' @ ''example.org''))"
proof -
  let ?d = "sample_client_data ClientDataTypeGet \<lparr>bv_value = Some [2]\<rparr>"
  have "validateRPIDOriginPolicy sample_std ''example.org'' (cfg_OriginPolicy sample_config) = None"
    "verifyCollectedClientOrigin (cfg_OriginPolicy sample_config) ?d = None"
    "\<not> op_AllowRelatedOrigins (cfg_OriginPolicy sample_config)"
    by code_simp+
  then have "\<exists>u. std_url_Parse sample_std (ccd_Origin ?d) = Some u \<and>
      (ToLower sample_std (Hostname u) = ''example.org'' \<or> (\<exists>sub. ToLower sample_std (Hostname u) = sub @ ''.'' @ ''example.org''))"
    using accepted_origin_in_scope by blast
  then show ?thesis
    by (simp add: sample_client_data_def)
qed

text \<open>
  Cross-origin use is explicit: an accepted client origin with a top origin is declared
  cross-origin and its top origin is allowed; without a top origin, a cross-origin call is
  accepted only when the policy says so. These are the only origins accepted.
\<close>

theorem verifyCollectedClientOrigin_exact:
  "verifyCollectedClientOrigin policy d = None \<longleftrightarrow>
    ccd_Origin d \<in> set (op_AllowedOrigins policy) \<and>
    (if HasTopOrigin d
     then ccd_CrossOrigin d = Some True \<and> ccd_TopOrigin d \<in> set (op_AllowedTopOrigins policy)
     else ccd_CrossOrigin d \<in> {None, Some False} \<or> op_AllowCrossOriginWithoutTopOrigin policy)"
  by (cases "ccd_CrossOrigin d") (auto simp: verifyCollectedClientOrigin_None_iff)

text \<open>
  Timeouts. A successful \<^verbatim>\<open>timeoutState\<close> gives the browser a hint of at least one
  millisecond that fits 32 bits without wrap-around (the timeout in milliseconds, rounded down
  but never to zero) and a state that expires a full lifetime after now, at or after the
  browser's timeout.
\<close>

theorem timeoutState_result:
  assumes "timeoutState timeout ttl now = Inr (ms, expires)"
  defines "t \<equiv> (if timeout = 0 then DefaultBrowserTimeout else timeout)"
  shows "uint ms = max 1 (t div 1000000) \<and> now < expires \<and> now + t \<le> expires \<and>
    expires = now + (if ttl = 0 then DefaultChallengeTTL else ttl)"
proof -
  have facts: "t \<le> (if ttl = 0 then DefaultChallengeTTL else ttl)" "t div 1000000 < 2 ^ 32"
    "ms = word_of_int (max 1 (t div 1000000))" "expires = now + (if ttl = 0 then DefaultChallengeTTL else ttl)"
    using assms(1) by (auto simp: timeoutState_Inr_iff Let_def t_def)
  then have "uint ms = max 1 (t div 1000000)"
    by (simp add: uint_word_of_int take_bit_int_eq_self unsigned_of_int)
  then show ?thesis
    using facts timeoutState_bounds [OF assms(1)] by simp
qed

theorem timeoutState_result_witness:
  "timeoutState 0 0 5 = Inr (300000, 600000000005) \<and> (5 :: int) < 600000000005"
proof -
  have run: "timeoutState 0 0 5 = Inr (300000, 600000000005)"
    by (simp add: timeoutState_Inr_iff Let_def DefaultBrowserTimeout_def DefaultChallengeTTL_def)
  show ?thesis
    using timeoutState_result [OF run] run by blast
qed

section \<open>Extensions\<close>

text \<open>
  C14. Verified extension results. The results of \<^verbatim>\<open>verifyExtensions\<close> are in strictly increasing
  order of identifier, one for every identifier that was requested or answered, at most
  \<^verbatim>\<open>MaxEntries\<close> of them; and a result marked accepted is one of a registered handler for an
  extension the relying party requested. Outputs nobody asked for, and outputs of unknown
  extensions, are only ever preserved as raw, unaccepted data. Entries of a registry are
  adapters around typed handlers, by the sealed interface of the source.
\<close>

theorem verifyExtensions_results:
  assumes run: "verifyExtensions ctx inputs = Inr results" and adapters: "registry_adapters (evi_registry inputs)"
    and keys: "res \<in> set results"
  shows "sorted (map res_ID results) \<and> distinct (map res_ID results) \<and> length results \<le> 64 \<and>
    set (map res_ID results) = fst ` set (evi_requestedExtensions inputs)
      \<union> fst ` set (evi_clientExtensionResults inputs) \<union> fst ` set (evi_authenticatorExtensions inputs) \<and>
    (res_Accepted res \<longrightarrow> \<not> res_raw res \<and> Registry_Contains (evi_registry inputs) (res_ID res)) \<and>
    (res_ID res \<notin> fst ` set (evi_requestedExtensions inputs) \<longrightarrow> res_raw res \<and> \<not> res_Accepted res)"
proof -
  note all = verifyExtensions_IDs [OF run adapters]
  have one: "verifyExtension ctx inputs (res_ID res) = Inr res"
    using all keys by blast
  have key: "res_ID res \<in> extensionKeys inputs"
    using all keys by auto
  note facts = verifyExtension_InrD [OF one adapters]
  have "map_of m name = None \<longleftrightarrow> name \<notin> fst ` set m" for m :: "goval go_map" and name
    by (simp add: map_of_eq_None_iff)
  moreover have "map_of m name = None \<longleftrightarrow> name \<notin> fst ` set m" for m :: "RawValue go_map" and name
    by (simp add: map_of_eq_None_iff)
  ultimately show ?thesis
    using all facts key by (auto simp: extensionKeys_def MaxEntries_def)
qed

theorem verifyExtensions_results_witness: "sorted (map res_ID [sample_output]) \<and> \<not> res_Accepted sample_output"
  using verifyExtensions_results [OF sample_work_run, of sample_output]
  by (simp add: sample_work_def registry_adapters_def)

text \<open>
  Binding of extension inputs. A successful \<^verbatim>\<open>prepareExtensionInputs\<close> keeps exactly the
  requested identifiers in sorted order, binds each identifier the registry knows to the
  revision of its handler, and lets no built-in extension through without its handler; the
  finish of the ceremony then accepts these bindings for that registry.
\<close>

theorem prepareExtensionInputs_bound:
  assumes run: "prepareExtensionInputs operation inputs registry policy transform = Inr (outs, bindings)"
    and inputs: "wf_map inputs" and registry: "\<And>m. registry = Some m \<Longrightarrow> \<exists>es. NewRegistry es = Inr m"
  shows "map fst outs = sort (map fst inputs) \<and>
    bindings = List.map_filter (Registry_Binding registry) (map fst outs) \<and>
    (\<forall>name b. name \<in> fst ` set outs \<and> BuiltInBinding name = Some b \<longrightarrow> b \<in> set bindings) \<and>
    validateFinishExtensionBindings outs bindings registry = None"
proof -
  note facts = prepareExtensionInputs_InrD [OF run]
  have wf: "registry = Some m \<Longrightarrow> wf_ext_registry m" for m
    using registry NewRegistry_wf by blast
  have keys: "fst ` set outs = set (sorted_keys inputs)"
    using facts by (metis list.set_map)
  have "b \<in> set bindings" if "name \<in> fst ` set outs" "BuiltInBinding name = Some b" for name b
  proof -
    have "Registry_Contains registry name"
      using facts that by blast
    then obtain c where "Registry_Binding registry name = Some c"
      by (auto simp: Registry_Contains_iff)
    moreover have "c = b"
      using Registry_Binding_wf [OF wf calculation] that(2) by simp
    ultimately show ?thesis
      using facts that(1) keys by (auto simp: set_map_filter)
  qed
  moreover have "validateFinishExtensionBindings outs bindings registry = None"
    using prepared_bindings_accepted [of registry outs "sorted_keys inputs" bindings] wf keys facts
      distinct_sorted_keys [OF inputs] by blast
  ultimately show ?thesis
    using facts by (auto simp: sorted_keys_def)
qed

theorem prepareExtensionInputs_bound_witness:
  "validateFinishExtensionBindings [(IDCredProps, VBoolInput True)]
    [\<lparr>bind_ID = IDCredProps, bind_Revision = RevisionLevel3Recommendation\<rparr>] (Some (projr NewLevel3Registry)) = None"
proof -
  have run: "prepareExtensionInputs OperationRegistration [(IDCredProps, VBoolInput True)] (Some (projr NewLevel3Registry))
      \<lparr>eip_RejectUnknown = True\<rparr> None = Inr ([(IDCredProps, VBoolInput True)],
        [\<lparr>bind_ID = IDCredProps, bind_Revision = RevisionLevel3Recommendation\<rparr>])"
    by code_simp
  have "\<exists>es. NewRegistry es = Inr (projr NewLevel3Registry)"
    using Level3_registry unfolding NewLevel3Registry_def by auto
  then show ?thesis
    by (intro prepareExtensionInputs_bound [OF run, THEN conjunct2, THEN conjunct2, THEN conjunct2])
      (auto simp: wf_map_def)
qed



text \<open>
  Registries do not depend on the order of registration: handlers registered in another
  order give a registry with the same lookups, and one registered twice is an error.
\<close>

theorem extension_registry_order:
  assumes "NewRegistry es = Inr m" "mset es = mset es'"
  shows "\<exists>m'. NewRegistry es' = Inr m' \<and> (\<forall>name. map_of m' name = map_of m name)"
  by (rule ext_registry.order_irrelevant [OF assms])

theorem extension_registry_order_witness:
  "\<exists>m'. NewRegistry (rev Level3Handlers) = Inr m' \<and> (\<forall>name. map_of m' name = map_of (projr NewLevel3Registry) name)"
proof (rule extension_registry_order)
  show "NewRegistry Level3Handlers = Inr (projr NewLevel3Registry)"
    using Level3_registry by (simp add: NewLevel3Registry_def)
qed simp

section \<open>Attestation\<close>

text \<open>
  \<^verbatim>\<open>AllOf\<close> accepts exactly when it has policies and every one of them accepts the request.
\<close>

theorem AllOf_accepts:
  "accepts (AllOf policies) ctx request \<longleftrightarrow>
    policies \<noteq> [] \<and> list_all (\<lambda>p. accepts p ctx (cloneTrustRequest request)) policies"
  by (simp add: AllOf_accepts_iff list_all_iff)

text \<open>
  \<^verbatim>\<open>AnyOf\<close> accepts exactly when some policy accepts and every policy before it rejects: an
  error of an earlier policy is not skipped.
\<close>

theorem AnyOf_accepts:
  "accepts (AnyOf policies) ctx request \<longleftrightarrow>
    (\<exists>before p after. policies = before @ p # after \<and> accepts p ctx (cloneTrustRequest request) \<and>
      list_all (\<lambda>q. rejects q ctx (cloneTrustRequest request)) before)"
  by (simp add: AnyOf_accepts_iff list_all_iff)

text \<open>
  A policy of trusted roots accepts exactly the results with a non-empty X.509 trust path
  that the injected certificate verifier trusts under the configured verification context.
\<close>

theorem RequireTrustedRoots_accepts:
  "accepts (RequireTrustedRoots (Impl verify) vc) ctx request \<longleftrightarrow>
    tp_Kind (vr_TrustPath (tq_Result request)) = TrustPathX509 \<and>
    tp_Certificates (vr_TrustPath (tq_Result request)) \<noteq> [] \<and>
    (\<exists>v. verify (normalizeContext ctx) (tp_Certificates (vr_TrustPath (tq_Result request))) vc = Inr v \<and> cv_Trusted v)"
  by (auto simp: RequireTrustedRoots_accepts_iff hasX5C_def)

text \<open>
  C16. A compound attestation stands for verified sub-statements. When the compound verifier
  succeeds there are 2 to 64 sub-statements, none of them compound itself, and the trust path
  of the result lists exactly the results of those sub-statements a registered verifier
  verified, in order. There are at least as many of them as the policy requires: all the sub-statements when it
  requires all or sets no minimum, and otherwise the configured minimum, which is between one and their number.
\<close>

theorem compound_verified:
  assumes "compound_VerifyAttestation registry policy ctx request = Inr res"
  shows "\<exists>statements results.
    compoundSubStatements (vq_Statement request) = Inr statements \<and>
    2 \<le> length statements \<and> length statements \<le> 64 \<and> (\<forall>s\<in>set statements. css_Format s \<noteq> ''compound'') \<and>
    results = List.map_filter (verifiedBy registry (normalizeContext ctx) request) statements \<and>
    tp_Statements (vr_TrustPath res) = Some results \<and>
    (if cmp_RequireAll policy \<or> cmp_MinimumSuccessful policy = 0 then length results = length statements
     else 1 \<le> cmp_MinimumSuccessful policy \<and> cmp_MinimumSuccessful policy \<le> int (length statements) \<and>
       cmp_MinimumSuccessful policy \<le> int (length results))"
proof -
  obtain statements required results warnings where
    sub: "compoundSubStatements (vq_Statement request) = Inr statements"
    and req: "requiredSuccesses policy (int (length statements)) = Inr required"
    and run: "verifyStatements registry (normalizeContext ctx) request 0 statements [] [] = Inr (results, warnings)"
    and len: "required \<le> int (length results)" and res: "tp_Statements (vr_TrustPath res) = Some results"
    using assms by (auto simp: compound_VerifyAttestation_def and_then_Inr_iff if_Inl_Inr_iff not_less)
  show ?thesis
    using sub len res requiredSuccesses_bounds [OF req] verifyStatements_results [OF run]
      length_map_filter_le [of "verifiedBy registry (normalizeContext ctx) request" statements]
    by (auto simp: compound_Format_def)
qed

theorem compound_verified_witness:
  "case compound_VerifyAttestation (Some [(none_format, none_Verifier)])
      \<lparr>cmp_MinimumSuccessful = 1, cmp_RequireAll = False, cmp_MaxStatements = 0\<rparr> None sample_mixed of
    Inl _ \<Rightarrow> False | Inr res \<Rightarrow> \<exists>results. tp_Statements (vr_TrustPath res) = Some results \<and> 1 \<le> int (length results)"
  (is "case ?run of Inl _ \<Rightarrow> False | Inr res \<Rightarrow> ?P res")
proof -
  have "\<not> isl ?run"
    by code_simp
  then obtain res where "?run = Inr res"
    by (cases ?run) simp_all
  then show ?thesis
    using compound_verified [OF \<open>?run = Inr res\<close>] by auto
qed

section \<open>Attestation formats, keys and signatures\<close>

text \<open>
  C17. The packed format. The verifier accepts a statement exactly when the specification holds: without
  certificates the credential key itself, of the algorithm the statement names, has signed the
  authenticator data and the client data hash; with certificates the key of the first one has, all of
  them parse, and that one has the packed certificate profile for the AAGUID of the authenticator.
\<close>

theorem packed_VerifyAttestation_iff_spec:
  "packed_VerifyAttestation pki verifier ctx request = Inr res \<longleftrightarrow> packedSpec pki verifier ctx request res"
  by (rule packed_Inr_iff_spec)

text \<open>
  C18. The TPM format. A statement is accepted exactly when the public area encodes the credential key, the
  signed structure certifies the name of that public area and the hash of the authenticator data and
  client data hash, and the key of a certificate with the profile of attestation identity keys
  has signed that structure.
\<close>

theorem tpm_VerifyAttestation_iff_spec:
  "tpm_VerifyAttestation std pki verifier ctx request = Inr res \<longleftrightarrow> tpmSpec std pki verifier ctx request res"
  by (rule tpm_Inr_iff_spec)

text \<open>
  C19. The TPM parsers invert the encodings of the structures they read: \<^verbatim>\<open>parsePublicArea\<close> and
  \<^verbatim>\<open>parseCertInfo\<close> succeed exactly on well-formed encodings, without trailing bytes, and return what is encoded.
\<close>

theorem tpm_structures_decoded:
  "(parsePublicArea raw = Inr area \<longleftrightarrow> encodesPublicArea area raw) \<and>
   (parseCertInfo raw' = Inr info \<longleftrightarrow>
    (\<exists>signer clock firmware final. length signer < 65536 \<and> length (ci_extraData info) < 65536 \<and> length clock = 17 \<and>
      length firmware = 8 \<and> length (ci_name info) < 65536 \<and> length final < 65536 \<and>
      raw' = encodeCertInfo signer (ci_extraData info) clock firmware (ci_name info) final))"
  unfolding parsePublicArea_Inr_iff parseCertInfo_Inr_iff certifies_def by (intro conjI refl)

text \<open>
  C20. Trial division over 32-bit words neither overflows nor misses a factor: the exponents the TPM
  verifier accepts are exactly the odd primes.
\<close>

theorem validTPMRSAExponent_odd_primes:
  "validTPMRSAExponent e \<longleftrightarrow> 2 < unat e \<and> odd (unat e) \<and> {d. d dvd unat e} = {1, unat e}"
proof (cases "2 < unat e")
  case True
  then have "3 \<le> unat e" "1 < unat e"
    by simp_all
  with True show ?thesis
    by (simp only: validTPMRSAExponent_iff no_proper_divisor_iff simp_thms)
next
  case False
  then have "\<not> 3 \<le> unat e"
    by simp
  with False show ?thesis
    by (simp only: validTPMRSAExponent_iff simp_thms)
qed

text \<open>
  The android-key extension is accepted exactly when its challenge is the client data hash, no list
  allows all applications, and the key was generated in the key store for signing and nothing
  else, in the lists that count: with the hardware policy the hardware list alone, at a hardware
  security level.
\<close>

theorem validateAndroidKeyExtension_accepts:
  "validateAndroidKeyExtension raw hash hardware = None \<longleftrightarrow>
    (\<exists>description. parseAndroidKeyDescription raw = Inr description \<and> kd_attestationChallenge description = hash \<and>
      \<not> al_allApplications (kd_softwareEnforced description) \<and> \<not> al_allApplications (kd_hardwareEnforced description) \<and>
      (if hardware then
         hardwareSecurityLevel (kd_attestationSecurityLevel description) \<and>
         hardwareSecurityLevel (kd_keymasterSecurityLevel description) \<and>
         set (al_origins (kd_hardwareEnforced description)) = {androidKeyOriginGenerated} \<and>
         set (al_purposes (kd_hardwareEnforced description)) = {androidKeyPurposeSign}
       else
         set (al_origins (kd_softwareEnforced description)) \<union> set (al_origins (kd_hardwareEnforced description))
           = {androidKeyOriginGenerated} \<and>
         set (al_purposes (kd_softwareEnforced description)) \<union> set (al_purposes (kd_hardwareEnforced description))
           = {androidKeyPurposeSign}))"
  by (rule validateAndroidKeyExtension_None_iff)

text \<open>
  C21. The standard verifier accepts a signature exactly when the algorithm is allowed, the context is not
  done, and the one scheme of the algorithm (curve, hash, padding) accepts it for key material of the
  kind of that scheme and no other.
\<close>

theorem standard_VerifySignature_scheme:
  "standard_VerifySignature std pki gc v ctx input = None \<longleftrightarrow>
    AcceptsAlgorithm v (si_Algorithm input) \<and> (case ctx of None \<Rightarrow> True | Some poll \<Rightarrow> poll 0 = None) \<and>
    (\<exists>s. scheme_of (si_Algorithm input) = Some s \<and>
      scheme_accepts std pki gc s (si_PublicKey input) (si_Signed input) (bv_bytes (si_Signature input)))"
  by (rule standard_VerifySignature_None_iff)

text \<open>
  C22. A credential key the CBOR codec decodes can be used: its bytes are the consumed prefix of the
  input and pass the validation of stored keys, and where a standard verifier allows its algorithm and knows every
  curve point the codec accepted, a refusal is always about the signature and never about the key.
\<close>

theorem decoded_key_usable:
  assumes "DecodeCredentialPublicKey (Some c) raw = Inr k" "NewVerifier allowed = Inr v" "cpk_Algorithm k \<in> set allowed"
    and "\<And>curve point. ecdh_NewPublicKey c curve point \<Longrightarrow> gc_ParseUncompressedPublicKey gc curve point"
  shows "(\<exists>rest. raw = cpk_raw k @ rest) \<and> PublicKey_Validate k = None \<and>
    standard_VerifySignature std pki gc (Some v) None \<lparr>si_Algorithm = cpk_Algorithm k, si_PublicKey = cpk_material k,
      si_RawCredentialPublicKey = cpk_raw k, si_Signed = data, si_Signature = sig\<rparr> \<in>
      insert None (Some ` {e. errors_is e ErrStandardInvalidSignature})"
proof -
  obtain key keyType where decoded: "PublicKey_Validate k = None" "cpk_material k = publicKeyMaterial key keyType"
    "validateCredentialPublicKey c (cpk_Algorithm k) (cpk_material k) = None"
    and raw: "\<exists>n. cpk_raw k = take n raw"
    using assms(1) by (elim DecodeCredentialPublicKey_InrE) auto
  obtain s where s: "scheme_of (cpk_Algorithm k) = Some s" "AcceptsAlgorithm (Some v) (cpk_Algorithm k)"
    using assms(2,3) by (auto simp: NewVerifier_Inr_iff scheme_of_supported AcceptsAlgorithm_def)
  have key: "schemeKey c s (cpk_material k)"
    using decoded_schemeKey decoded(2,3) s(1) by simp
  have "\<exists>rest. raw = cpk_raw k @ rest"
    using raw by (metis append_take_drop_id)
  moreover have "standard_VerifySignature std pki gc (Some v) None \<lparr>si_Algorithm = cpk_Algorithm k, si_PublicKey = cpk_material k,
      si_RawCredentialPublicKey = cpk_raw k, si_Signed = data, si_Signature = sig\<rparr> \<in>
      insert None (Some ` {e. errors_is e ErrStandardInvalidSignature})" (is "?r \<in> _")
  proof (cases ?r)
    case (Some e)
    then show ?thesis
      using schemeKey_verdict [OF key _ _ assms(4) _ Some] s by simp
  qed simp
  ultimately show ?thesis
    using decoded(1) by blast
qed

theorem decoded_key_usable_witness:
  "(\<exists>rest. [0xa5, 0x00] = cpk_raw sample_cose_key @ rest) \<and> PublicKey_Validate sample_cose_key = None \<and>
    standard_VerifySignature sample_std sample_pki sample_gc (Some [AlgorithmES256]) None \<lparr>si_Algorithm = cpk_Algorithm sample_cose_key,
      si_PublicKey = cpk_material sample_cose_key, si_RawCredentialPublicKey = cpk_raw sample_cose_key,
      si_Signed = [1], si_Signature = \<lparr>bv_value = Some [2]\<rparr>\<rparr> \<in> insert None (Some ` {e. errors_is e ErrStandardInvalidSignature})"
proof (rule decoded_key_usable [OF sample_cose_decoded])
  show "NewVerifier [AlgorithmES256] = Inr [AlgorithmES256]"
    by (simp add: NewVerifier_Inr_iff supported_def)
  show "cpk_Algorithm sample_cose_key \<in> set [AlgorithmES256]"
    by (simp add: sample_cose_key_def NewCredentialPublicKey_def)
  show "ecdh_NewPublicKey (sample_cbor sample_cose) curve point \<Longrightarrow> gc_ParseUncompressedPublicKey sample_gc curve point"
    for curve point
    by (simp add: sample_gc_def)
qed

text \<open>
  Decoder and compound verifier agree on what a compound statement is: whatever the codec decodes with the
  compound format has at least two sub-statements, none of them compound, and the verifier reads
  exactly that many.
\<close>

theorem decoded_compound_readable:
  assumes "DecodeAttestationObject d raw = Inr obj" "dao_Format obj = compound_Format"
  shows "\<exists>subs. compoundSubStatements (dao_Statement obj) = Inr subs \<and> 2 \<le> length subs \<and>
    compound_Format \<notin> css_Format ` set subs"
  using assms by (elim DecodeAttestationObject_InrE) (auto elim: decodeAttestationStatement_compound)

theorem decoded_compound_readable_witness:
  "\<exists>subs. compoundSubStatements (dao_Statement (projr (DecodeAttestationObject (Some (sample_cbor sample_object))
      \<lparr>bv_value = Some [0xa5]\<rparr>))) = Inr subs \<and> 2 \<le> length subs \<and> compound_Format \<notin> css_Format ` set subs"
proof (rule decoded_compound_readable)
  show "DecodeAttestationObject (Some (sample_cbor sample_object)) \<lparr>bv_value = Some [0xa5]\<rparr> =
      Inr (projr (DecodeAttestationObject (Some (sample_cbor sample_object)) \<lparr>bv_value = Some [0xa5]\<rparr>))"
    using sample_object_decoded by (cases "DecodeAttestationObject (Some (sample_cbor sample_object)) \<lparr>bv_value = Some [0xa5]\<rparr>") auto
  show "dao_Format (projr (DecodeAttestationObject (Some (sample_cbor sample_object)) \<lparr>bv_value = Some [0xa5]\<rparr>)) = compound_Format"
    by code_simp
qed

section \<open>Stored states and records\<close>

text \<open>
  C23. A stored credential record is read back as it was: whatever \<^verbatim>\<open>MarshalCredentialRecord\<close> writes,
  \<^verbatim>\<open>UnmarshalCredentialRecord\<close> reads as the same record, with a decoder that knows the credential's key.
\<close>

theorem credential_record_roundtrip:
  assumes "json_text std tx" "record_typed r" "call decoder (cpk_raw (cr_PublicKey r)) = Inr (cr_PublicKey r)"
    and "MarshalCredentialRecord tx r = Inr data"
  shows "UnmarshalCredentialRecord std tx data decoder = Inr r"
  by (rule json_text.record_survives [OF assms(1,4,2,3)])

theorem credential_record_roundtrip_witness:
  "\<exists>data. MarshalCredentialRecord text_layer sample_credential = Inr data \<and>
    UnmarshalCredentialRecord sample_text_std text_layer data (Impl (\<lambda>_. Inr sample_key)) =
      Inr sample_credential"
proof -
  obtain data where data: "MarshalCredentialRecord text_layer sample_credential = Inr data"
    using sum.collapse(2) [OF sample_stored_record] by metis
  have "cr_PublicKey sample_credential = sample_key"
    by code_simp
  then show ?thesis
    using credential_record_roundtrip [OF sample_json_text _ _ data] data sample_typed(1) by (auto simp: call_def)
qed





text \<open>
  C26. What is read from storage is well typed, whatever the text: the record passes its validation, its
  identifier and user handle are values their constructors accept, its AAGUID has sixteen bytes, and its key is
  what the decoder makes of the stored bytes.
\<close>

theorem UnmarshalCredentialRecord_typed:
  assumes "UnmarshalCredentialRecord std tx data decoder = Inr r"
  shows "CredentialRecord_Validate r = None \<and> NewCredentialID (Some (bv_bytes (cr_ID r))) = Inr (cr_ID r) \<and>
    NewUserHandle (Some (bv_bytes (cr_UserHandle r))) = Inr (cr_UserHandle r) \<and> length (cr_AAGUID r) = 16 \<and>
    call decoder (cpk_raw (cr_PublicKey r)) = Inr (cr_PublicKey r)"
  using UnmarshalCredentialRecord_Inr [OF assms] by (simp add: record_typed_def Go_Json.constructed_def AAGUIDLength_def)

theorem UnmarshalCredentialRecord_typed_witness:
  "call (Impl (\<lambda>_. Inr sample_key)) (cpk_raw (cr_PublicKey sample_credential)) = Inr (cr_PublicKey sample_credential)"
proof -
  obtain data where data: "MarshalCredentialRecord text_layer sample_credential = Inr data"
    using sum.collapse(2) [OF sample_stored_record] by metis
  have "cr_PublicKey sample_credential = sample_key"
    by code_simp
  then have "UnmarshalCredentialRecord sample_text_std text_layer data (Impl (\<lambda>_. Inr sample_key)) =
      Inr sample_credential"
    by (intro json_text.record_survives [OF sample_json_text data sample_typed(1)]) (simp_all add: call_def)
  from UnmarshalCredentialRecord_typed [OF this] show ?thesis
    by simp
qed

section \<open>The browser boundary\<close>

text \<open>
  C27. A registration response is decoded to what the browser sent: for every response with constructed values, the JSON of
  the W3C serialization is read back as that response, with the extension results the JSON values
  stand for, whatever public key the browser added.
\<close>

theorem registration_response_roundtrip:
  assumes "json_text std tx" "registration_response_typed r"
    and "js_Marshal tx (registration_json r (map_option b64_encode publicKey) results) = Inr data"
    and "int (length data) \<le> MaxResponseJSONBytes"
    and "clientExtensionResultsFromJSON tx results = Inr (rr_ClientExtensionResults r)"
  shows "RegistrationResponseFromJSON std tx data = Inr r"
  by (rule json_text.registration_response_survives [OF assms(1,3,4,2,5)])

theorem registration_response_roundtrip_witness:
  "RegistrationResponseFromJSON sample_text_std text_layer sample_registration_text = Inr sample_browser_registration"
  by (rule registration_response_roundtrip [OF sample_json_text sample_browser_typed(1) sample_registration_sent sample_browser_typed(3)])

text \<open>
  C28. What is decoded from a browser is well formed, whatever the text: a response that is returned has the type of public
  keys, its identifier and the client data, authenticator data and signature are values their
  constructors accept, its user handle is absent or such a value, and the text was within the size limit.
\<close>

theorem AuthenticationResponseFromJSON_typed:
  assumes "AuthenticationResponseFromJSON std tx data = Inr r"
  shows "authentication_response_typed r \<and> int (length data) \<le> MaxResponseJSONBytes"
  using AuthenticationResponseFromJSON_Inr [OF assms] by (simp add: authentication_response_typed_def)

theorem AuthenticationResponseFromJSON_typed_witness:
  "authentication_response_typed sample_answer \<and> int (length sample_answer_body) \<le> MaxResponseJSONBytes"
  by (rule AuthenticationResponseFromJSON_typed [OF sample_answer_read])

text \<open>
  Creation options survive the conversion for the browser: what the browser parses from the JSON form, with the extension
  inputs it was given, are the options that the relying party created.
\<close>

theorem creation_options_roundtrip:
  assumes "CredentialCreationOptionsFromProtocol tx opts = Inr dto" "creation_options_typed opts"
  shows "parseCreationOptions dto (co_Extensions opts) = Inr opts"
  by (rule creation_options_survive [OF assms])

theorem creation_options_roundtrip_witness:
  "\<exists>dto. CredentialCreationOptionsFromProtocol text_layer (rsr_Options sample_creation) = Inr dto \<and>
    parseCreationOptions dto (co_Extensions (rsr_Options sample_creation)) = Inr (rsr_Options sample_creation)"
  using creation_options_roundtrip [OF _ sample_creation_options(1), of text_layer] sum.collapse(2) [OF sample_creation_options(2)] by metis

section \<open>HTTP requests and the passkey preset\<close>

text \<open>
  C29. A request body is read whole or not at all: a body is returned exactly when it ended without an error, its length is
  within the limit of the caller (or the default), and that limit is not above the maximum. No body
  is ever truncated.
\<close>

theorem readRequestBody_whole:
  "readRequestBody request maxBodyBytes = Inr data \<longleftrightarrow>
    request = Some \<lparr>rb_Bytes = data, rb_Error = None\<rparr> \<and>
    (let limit = if maxBodyBytes \<le> 0 then DefaultMaxBodyBytes else maxBodyBytes in
      int (length data) \<le> limit \<and> limit \<le> MaxResponseJSONBytes)"
  unfolding readRequestBody_Inr_iff body_limit_def Let_def by blast

text \<open>
  C30. A relying party built from the passkey preset authenticates only with user verification, and only with a signature
  that the scheme of the credential's algorithm, one of the three recommended ones, accepts for
  the authenticator data and the client data.
\<close>

theorem passkey_verified:
  assumes "PasskeyConfig std pki gc NewDecoder rp origins = Inr c" "New std env c = Inr p"
    and "RP_FinishAuthentication std env (Some p) ctx request = Inr res"
  shows "ares_UserVerified res \<and>
    cpk_Algorithm (cr_PublicKey (aver_Credential request)) \<in> {AlgorithmEdDSA, AlgorithmES256, AlgorithmRS256} \<and>
    (\<exists>s. scheme_of (cpk_Algorithm (cr_PublicKey (aver_Credential request))) = Some s \<and>
      scheme_accepts std pki gc s (cpk_material (cr_PublicKey (aver_Credential request)))
        (bv_bytes (ar_AuthenticatorData (aver_Response request)) @
          std_Sum256 std (bv_bytes (ar_ClientDataJSON (aver_Response request))))
        (bv_bytes (ar_Signature (aver_Response request))))"
  using passkey_authentication [OF assms] by blast

theorem passkey_verified_witness:
  "\<exists>res. RP_FinishAuthentication sample_std sample_env (Some sample_passkey_rp) None sample_passkey_assertion = Inr res \<and>
    ares_UserVerified res"
  using passkey_verified [OF sample_passkey sample_passkey_New] sum.collapse(2) [OF sample_passkey_verified] by metis

text \<open>
  The preset's configuration is accepted exactly when the relying party and the origins that the caller
  chose are valid: nothing that the preset adds is ever refused.
\<close>

theorem passkey_accepted:
  assumes "PasskeyConfig std pki gc NewDecoder rp origins = Inr c"
  shows "(\<exists>p. New std env c = Inr p) \<longleftrightarrow> RPEntity_Validate rp = None \<and> validateOriginPolicy std origins = None \<and>
    validateRPIDOriginPolicy std (rp_ID rp) origins = None"
  by (rule passkey_accepted_iff [OF assms])

section \<open>An application over the library\<close>

text \<open>
  C31. A login that succeeds was earned. The ceremony was saved for this session as a login, had not expired and is gone, so
  that the same answer cannot be used again; its stored state, the response in the body and the record read from
  the credential's row passed \<^verbatim>\<open>FinishAuthentication\<close> without clone risk; and the new session belongs to the owner
  of that record.
\<close>

theorem finishLogin_sound:
  assumes "finishLogin cfg a c session name body = (a', Inr tok)"
  shows "\<exists>saved state response stored res. map_of (app_ceremonies a) name = Some saved \<and> sc_kind saved = authentication \<and>
    sc_session saved = session \<and> call_now c < sc_expires saved \<and> map_of (app_ceremonies a') name = None \<and>
    UnmarshalAuthenticationState (app_std cfg) (app_text cfg) (sc_payload saved) = Inr state \<and>
    AuthenticationResponseFromJSON (app_std cfg) (app_text cfg) body = Inr response \<and>
    (\<exists>user. credentials_Lookup (app_std cfg) (app_text cfg) (app_decoder cfg) (app_credentials a) (call_ctx c 1)
      (ar_RawID response) user = Inr stored) \<and>
    RP_FinishAuthentication (app_std cfg) (call_env c) (Some (app_rp cfg)) (Some (call_ctx c 2))
      \<lparr>aver_State = state, aver_Response = response, aver_Credential = snap_record stored, aver_UVInitializationAuthorized = False\<rparr>
      = Inr res \<and> \<not> ctr_CloneRisk (ares_Counter res) \<and>
    map_of (app_sessions a') tok = Some (cr_UserHandle (snap_record stored)) \<and>
    (\<forall>c' session' body' b tok'. finishLogin cfg a' c' session' name body' \<noteq> (b, Inr tok'))"
proof -
  obtain entries saved stored res credentials where
    consume: "ceremonies_Consume (app_ceremonies a) (call_now c) (call_ctx c 0) name session authentication None = (entries, Inr saved)"
    and verified: "loginVerified cfg (app_credentials a) c saved body = Inr (stored, res)"
    and a': "a' = a\<lparr>app_ceremonies := entries, app_credentials := credentials,
      app_sessions := map_put tok (ares_AuthenticatedAs res) (app_sessions a)\<rparr>"
    using finishLogin_Inr [OF assms] by metis
  obtain state response user where run: "UnmarshalAuthenticationState (app_std cfg) (app_text cfg) (sc_payload saved) = Inr state"
    "AuthenticationResponseFromJSON (app_std cfg) (app_text cfg) body = Inr response"
    "credentials_Lookup (app_std cfg) (app_text cfg) (app_decoder cfg) (app_credentials a) (call_ctx c 1) (ar_RawID response) user = Inr stored"
    "RP_FinishAuthentication (app_std cfg) (call_env c) (Some (app_rp cfg)) (Some (call_ctx c 2))
      \<lparr>aver_State = state, aver_Response = response, aver_Credential = snap_record stored, aver_UVInitializationAuthorized = False\<rparr>
      = Inr res" "\<not> ctr_CloneRisk (ares_Counter res)"
    using loginVerified_Inr [OF verified] by metis
  have "ares_AuthenticatedAs res = cr_UserHandle (snap_record stored)"
    using RP_FinishAuthentication_result(1) [OF run(4)] by simp
  moreover have "finishLogin cfg a' c' session' name body' \<noteq> (b, Inr tok')" for c' session' body' b tok'
    using memory_ceremonies.no_second_use [OF consume] a' by (auto elim: finishLogin_Inr)
  ultimately show ?thesis
    using memory_ceremonies.consumed [OF consume] run
    by (intro exI [of _ saved] exI [of _ state] exI [of _ response] exI [of _ stored] exI [of _ res]) (auto simp: a')
qed

theorem finishLogin_sound_witness:
  "\<exists>stored :: credentialSnapshot. map_of (app_sessions sample_app4) sample_name = Some (cr_UserHandle (snap_record stored)) \<and>
    map_of (app_ceremonies sample_app4) sample_name = None"
  using finishLogin_sound [OF sample_finishLogin] by blast

text \<open>
  C32. No update is lost. Under every interleaving of the handlers, an update that succeeds replaces the very record that was
  read and verified: the row still reads as that record, then reads as the record of the verification's result, and its
  version is one higher.
\<close>

theorem login_update_not_lost:
  assumes "json_text (app_std cfg) (app_text cfg)"
    and "\<And>raw key. call (cfg_CredentialPublicKeyDecoder (rp_config (app_rp cfg))) raw = Inr key \<Longrightarrow>
      call (app_decoder cfg) (cpk_raw key) = Inr key"
    and "app_reachable cfg accounts (a, add_mset (Updating c stored res) pending)"
    and "credentials_Update (app_std cfg) (app_text cfg) (app_decoder cfg) (app_credentials a) ctx (ares_Update res)
      (snap_version stored) = (credentials, None)"
  shows "\<exists>entry entry'. map_of (app_credentials a) (row_key (snap_record stored)) = Some entry \<and>
    UnmarshalCredentialRecord (app_std cfg) (app_text cfg) (sv_payload entry) (app_decoder cfg) = Inr (snap_record stored) \<and>
    map_of credentials (row_key (snap_record stored)) = Some entry' \<and>
    UnmarshalCredentialRecord (app_std cfg) (app_text cfg) (sv_payload entry') (app_decoder cfg) = Inr (ares_Credential res) \<and>
    unat (sv_version entry') = unat (sv_version entry) + 1"
proof -
  have app: "integration cfg"
    using assms(1,2) by (intro integration.intro integration_axioms.intro)
  show ?thesis
    using integration.update_applies_to_verified [OF app assms(3,4)] by metis
qed

theorem login_update_not_lost_witness:
  "\<exists>entry. map_of [(''*'', sample_row')] (row_key sample_credential) = Some entry \<and>
    UnmarshalCredentialRecord sample_text_std text_layer (sv_payload entry) (Impl (\<lambda>_. Inr sample_key)) = Inr (ares_Credential sample_logged_in)"
proof -
  have rows: "app_credentials sample_app2 = [(''*'', sample_row)]" "snap_record sample_snapshot = sample_credential"
    by (simp_all add: sample_app2_def sample_app0_def sample_snapshot_def)
  show ?thesis
    using login_update_not_lost [of sample_app sample_accounts sample_app2 sample_call sample_snapshot sample_logged_in "{#}" Background
        "[(''*'', sample_row')]"] sample_json_text sample_app.stored_keys sample_reachable_updating sample_updates
    by (auto simp: rows sample_updating_def sample_row_key)
qed

text \<open>
  C33. Invariant of the running application: in every reachable state, between any operations of any handlers, every stored
  row is readable, under the identifier of its record, and every session belongs to the owner of a stored credential.
\<close>

theorem sessions_have_credentials:
  assumes "json_text (app_std cfg) (app_text cfg)"
    and "\<And>raw key. call (cfg_CredentialPublicKeyDecoder (rp_config (app_rp cfg))) raw = Inr key \<Longrightarrow>
      call (app_decoder cfg) (cpk_raw key) = Inr key"
    and "app_reachable cfg accounts (a, pending)"
  shows "\<exists>rows. represents (app_std cfg) (app_text cfg) (app_decoder cfg) (app_credentials a) rows \<and>
    (\<forall>tok user. (tok, user) \<in> set (app_sessions a) \<longrightarrow>
      (\<exists>key snap. map_of rows key = Some snap \<and> cr_UserHandle (snap_record snap) = user))"
proof -
  have "integration cfg"
    using assms(1,2) by (intro integration.intro integration_axioms.intro)
  then obtain rows where "consistent cfg rows (a, pending)"
    using integration.reachable_consistent assms(3) by blast
  then show ?thesis
    by (intro exI [of _ rows]) (auto simp: consistent_def owned_def)
qed

theorem sessions_have_credentials_witness:
  "\<exists>rows key snap. represents sample_text_std text_layer (Impl (\<lambda>_. Inr sample_key)) (app_credentials sample_app4) rows \<and>
    map_of rows key = Some snap \<and> cr_UserHandle (snap_record snap) = ares_AuthenticatedAs sample_logged_in"
proof -
  have "(sample_name, ares_AuthenticatedAs sample_logged_in) \<in> set (app_sessions sample_app4)"
    by (simp add: sample_app4_def)
  then show ?thesis
    using sessions_have_credentials [of sample_app sample_accounts sample_app4 "{#}"] sample_json_text sample_app.stored_keys
      sample_reachable(2) by auto
qed

text \<open>
  C34. An enrollment that succeeds stores one new credential: a record that \<^verbatim>\<open>FinishRegistration\<close> returned for a state of this
  session, for the very account that the session is granted, under an identifier no other record has; every
  other row is left as it was, and what was inserted is read back as that record.
\<close>

theorem finishEnrollment_sound:
  assumes "json_text (app_std cfg) (app_text cfg)"
    and "\<And>raw key. call (cfg_CredentialPublicKeyDecoder (rp_config (app_rp cfg))) raw = Inr key \<Longrightarrow>
      call (app_decoder cfg) (cpk_raw key) = Inr key"
    and "finishEnrollment cfg a c session name body = (a', None)"
  shows "\<exists>user saved state response res r entry. EnrollmentUser (app_accounts a) (call_ctx c 0) session = Inr user \<and>
    map_of (app_ceremonies a) name = Some saved \<and> sc_session saved = session \<and> call_now c < sc_expires saved \<and>
    UnmarshalRegistrationState (app_std cfg) (app_text cfg) (sc_payload saved) = Inr state \<and>
    RegistrationResponseFromJSON (app_std cfg) (app_text cfg) body = Inr response \<and>
    RP_FinishRegistration (app_std cfg) (call_env c) (Some (app_rp cfg)) (Some (call_ctx c 2))
      \<lparr>rver_State = state, rver_Response = response\<rparr> = Inr res \<and> r = rres_Credential res \<and>
    bv_bytes (cr_UserHandle r) = bv_bytes (user_ID user) \<and> CredentialRecord_Validate r = None \<and>
    map_of (app_credentials a) (row_key r) = None \<and>
    map_of (app_credentials a') = (map_of (app_credentials a)) (row_key r \<mapsto> entry) \<and>
    UnmarshalCredentialRecord (app_std cfg) (app_text cfg) (sv_payload entry) (app_decoder cfg) = Inr r \<and>
    map_of (app_ceremonies a') name = None \<and> app_sessions a' = app_sessions a"
proof -
  obtain user entries saved r credentials where user: "EnrollmentUser (app_accounts a) (call_ctx c 0) session = Inr user"
    and consume: "ceremonies_Consume (app_ceremonies a) (call_now c) (call_ctx c 1) name session registration (Some (user_ID user))
      = (entries, Inr saved)"
    and verified: "enrollmentVerified cfg c saved body = Inr r"
    and insert: "credentials_Insert (app_text cfg) (app_credentials a) (call_ctx c 3) r = (credentials, None)"
    and a': "a' = a\<lparr>app_ceremonies := entries, app_credentials := credentials\<rparr>"
    using finishEnrollment_None [OF assms(3)] by metis
  obtain state :: RegistrationState and response res raw where
    run: "UnmarshalRegistrationState (app_std cfg) (app_text cfg) (sc_payload saved) = Inr state"
      "RegistrationResponseFromJSON (app_std cfg) (app_text cfg) body = Inr response"
      "RP_FinishRegistration (app_std cfg) (call_env c) (Some (app_rp cfg)) (Some (call_ctx c 2))
        \<lparr>rver_State = state, rver_Response = response\<rparr> = Inr res" "r = rres_Credential res"
    and state: "bv_bytes (rs_UserHandle state) = bv_bytes (sc_account saved)" "record_typed r"
      "cr_UserHandle r = rs_UserHandle state" "call (cfg_CredentialPublicKeyDecoder (rp_config (app_rp cfg))) raw = Inr (cr_PublicKey r)"
    using enrollmentVerified_Inr [OF verified] by metis
  obtain payload where payload: "MarshalCredentialRecord (app_text cfg) r = Inr payload" and fresh: "map_of (app_credentials a) (row_key r) = None"
    and rows: "credentials = map_put (row_key r) \<lparr>sv_payload = payload, sv_version = 1\<rparr> (app_credentials a)"
    using insert by (auto simp: credentials_Insert_def Let_def split: option.splits sum.splits if_splits)
  have read: "UnmarshalCredentialRecord (app_std cfg) (app_text cfg) payload (app_decoder cfg) = Inr r"
    by (rule json_text.record_survives [OF assms(1) payload state(2) assms(2) [OF state(4)]])
  then have "map_of (app_credentials a') = (map_of (app_credentials a)) (row_key r \<mapsto> \<lparr>sv_payload = payload, sv_version = 1\<rparr>)"
    by (auto simp: a' rows)
  then show ?thesis
    using user fresh read run state memory_ceremonies.consumed [OF consume] UnmarshalCredentialRecord_Inr(1) [OF read]
    by (intro exI [of _ user] exI [of _ saved] exI [of _ state] exI [of _ response] exI [of _ res] exI [of _ r]
        exI [of _ "\<lparr>sv_payload = payload, sv_version = 1\<rparr>"]) (simp add: a')
qed

theorem finishEnrollment_sound_witness:
  "\<exists>r entry. bv_bytes (cr_UserHandle r) = bv_bytes sample_user \<and> map_of (app_credentials sample_app2) (row_key r) = Some entry \<and>
    UnmarshalCredentialRecord sample_text_std text_layer (sv_payload entry) (Impl (\<lambda>_. Inr sample_key)) = Inr r"
proof -
  have "user_ID user = sample_user" if "EnrollmentUser (app_accounts sample_app1) Background ''s'' = Inr user" for user
    using that by (auto simp: EnrollmentUser_def sample_app1_def sample_app0_def sample_accounts_def check_def)
  then show ?thesis
    using finishEnrollment_sound [OF _ _ sample_finishEnrollment] sample_json_text sample_app.stored_keys by fastforce
qed

section \<open>The demo\<close>

text \<open>
  C35. The demo's memory is bounded. Handling a request, at any moment of any interleaving, leads to a reachable store; and in
  every reachable store there are at most 128 states of each kind, 64 credentials and 128 sessions, and every
  credential is a valid record under its own identifier.
\<close>

theorem demo_store_bounded:
  assumes "demo_reachable a s"
  shows "demo_reachable a (fst (qs_routes mux static ParseMediaType a s w r c)) \<and>
    length (qs_registration s) \<le> 128 \<and> length (qs_authentication s) \<le> 128 \<and> length (qs_credentials s) \<le> 64 \<and>
    length (qs_sessions s) \<le> 128 \<and>
    (\<forall>key stored. map_of (qs_credentials s) key = Some stored \<longrightarrow>
      key = string_of_bytes (bv_bytes (cr_ID stored)) \<and> CredentialRecord_Validate stored = None)"
  using demo_reachable_run [OF demo_routes_run assms] demo_reachable_inv [OF assms] by (simp add: demo_inv_def)

theorem demo_store_bounded_witness:
  "length (qs_authentication sample_demo_store) \<le> 128 \<and> CredentialRecord_Validate sample_credential = None"
  using demo_store_bounded [OF sample_demo_reachable] by (simp add: sample_demo_store_def)

text \<open>
  C36. A session of the demo was earned. When a request to finish a login sets the session cookie, the state named by the
  request's cookie was saved, had not expired and is gone; the response of the body names a stored credential of the user it
  claims; the two passed \<^verbatim>\<open>FinishAuthentication\<close> without clone risk; the credential is now the verified
  result; the session lasts one hour; and no further request with the same cookie sets a session.
\<close>

theorem demo_login_sound:
  assumes "demo_reachable a s" "finishAuthentication a s w r c = (s', events)" "SetCookie qs_sessionCookie name n \<in> set events"
  shows "\<exists>state response stored res. map_of (qs_authentication s) (cookieID r qs_authenticationCookie) = Some state \<and>
    Before (srv_now c 0) (as_ExpiresAt state) \<and> map_of (qs_authentication s') (cookieID r qs_authenticationCookie) = None \<and>
    ReadAuthenticationResponse (demo_std a) (demo_text a) (req_Body r) 0 = Inr response \<and>
    map_of (qs_credentials s) (string_of_bytes (bv_bytes (ar_RawID response))) = Some stored \<and>
    bv_bytes (cr_UserHandle stored) = bv_bytes (ar_UserHandle response) \<and>
    RP_FinishAuthentication (demo_std a) (srv_env c) (Some (demo_rp a)) (Some (req_Context r))
      \<lparr>aver_State = state, aver_Response = response, aver_Credential = stored, aver_UVInitializationAuthorized = False\<rparr> = Inr res \<and>
    \<not> ctr_CloneRisk (ares_Counter res) \<and> \<not> ares_UVInitializationPending res \<and>
    map_of (qs_credentials s') (string_of_bytes (bv_bytes (ar_RawID response))) = Some (ares_Credential res) \<and>
    map_of (qs_sessions s') name = Some (srv_now c 2 + 3600 * second) \<and>
    (\<forall>w' r' c' name' n'. cookieID r' qs_authenticationCookie = cookieID r qs_authenticationCookie \<longrightarrow>
      SetCookie qs_sessionCookie name' n' \<notin> set (snd (finishAuthentication a s' w' r' c')))"
proof -
  let ?cookie = "cookieID r qs_authenticationCookie"
  have cookie: "SetCookie qs_sessionCookie name n \<in> set (snd (finishAuthentication a s w r c))"
    using assms(2,3) by simp
  obtain s1 found res s2 where
    take: "takeAuthentication s (srv_now c 0) ?cookie = (s1, found)" and verified: "demoVerified a s1 r c found = Inr res"
    and update: "qs_update s1 (ares_Update res) = (s2, True)"
    and session: "openSession s2 (srv_now c 1) (cookieID r qs_sessionCookie) name (srv_now c 2) = (s', True)"
    using finishAuthentication_session [OF cookie] assms(2) by (metis fst_conv)
  obtain state response stored where found: "found = Some state"
    and read: "ReadAuthenticationResponse (demo_std a) (demo_text a) (req_Body r) 0 = Inr response"
    and lookup: "qs_lookup s1 (ar_RawID response) (ar_UserHandle response) = Some stored"
    and run: "RP_FinishAuthentication (demo_std a) (srv_env c) (Some (demo_rp a)) (Some (req_Context r))
      \<lparr>aver_State = state, aver_Response = response, aver_Credential = stored, aver_UVInitializationAuthorized = False\<rparr> = Inr res"
    and safe: "\<not> ctr_CloneRisk (ares_Counter res)" "\<not> ares_UVInitializationPending res"
    using demoVerified_Inr [OF verified] by metis
  have inv: "demo_inv s"
    by (rule demo_reachable_inv [OF assms(1)])
  have taken: "map_of (qs_authentication s) ?cookie = Some state" "Before (srv_now c 0) (as_ExpiresAt state)"
      "map_of (qs_authentication s1) ?cookie = None" "qs_credentials s1 = qs_credentials s"
    using takeAuthentication_found [OF _ take [unfolded found]] inv by (auto simp: demo_inv_def)
  have stored: "map_of (qs_credentials s) (string_of_bytes (bv_bytes (ar_RawID response))) = Some stored"
      "bv_bytes (cr_UserHandle stored) = bv_bytes (ar_UserHandle response)"
    using lookup taken(4) by (auto simp: qs_lookup_def CredentialRecord_Clone_id split: option.splits if_splits)
  then have key: "string_of_bytes (bv_bytes (ar_RawID response)) = row_key stored"
    using inv by (auto simp: demo_inv_def)
  have result: "cu_ID (ares_Update res) = cr_ID stored" "updatedRecord (ares_Update res) stored = ares_Credential res"
    using RP_FinishAuthentication_result [OF run] by simp_all
  then have after: "map_of (qs_credentials s2) (row_key stored) = Some (ares_Credential res)" "qs_authentication s2 = qs_authentication s1"
    using update stored(1) key taken(4)
    by (auto simp: qs_update_def Let_def ApplyTo_Inr_iff split: option.splits sum.splits)
  have gone: "map_of (qs_authentication s') ?cookie = None"
    using taken(3) after(2) openSession_opened(3) [OF session] by (simp add: map_of_filter_None)
  have "demo_reachable a s'"
    using demo_reachable_run [OF finishAuthentication_run assms(1)] assms(2) by (metis fst_conv)
  then have wf: "wf_map (qs_authentication s')"
    using demo_reachable_inv by (auto simp: demo_inv_def)
  have "SetCookie qs_sessionCookie name' n' \<notin> set (snd (finishAuthentication a s' w' r' c'))"
    if "cookieID r' qs_authenticationCookie = ?cookie" for w' r' c' name' n'
    using finishAuthentication_missing [OF wf, of r'] gone that by simp
  then show ?thesis
    using taken stored read run safe after key gone openSession_opened [OF session]
    by (intro exI [of _ state] exI [of _ response] exI [of _ stored] exI [of _ res]) simp
qed

theorem demo_login_sound_witness:
  "\<exists>stored :: CredentialRecord. map_of (qs_credentials sample_demo_store) ''*'' = Some stored \<and>
    map_of (qs_sessions (fst (finishAuthentication sample_demo sample_demo_store NilIface sample_demo_http sample_server_call))) sample_name
      = Some (1000 + 3600 * second)"
proof -
  obtain s events where run: "finishAuthentication sample_demo sample_demo_store NilIface sample_demo_http sample_server_call = (s, events)"
    by force
  have "map_of (qs_sessions s) sample_name = Some (1000 + 3600 * second)"
    using demo_login_sound [OF sample_demo_reachable run] sample_demo_login by (auto simp: run)
  then show ?thesis
    unfolding run fst_conv by (simp add: sample_demo_store_def)
qed

text \<open>
  C37. A login of the demo survives the requests of other browsers. Once the answer of a begun login has set its cookie, the state that
  \<^verbatim>\<open>StartAuthentication\<close> returned is found again under that cookie until it expires, after any sequence of requests, answered one after
  the other before the expiry, that do not carry this login cookie and whose handlers do not draw the same random token. (A second login
  begun with the same cookie replaces the state, and is excluded.)
\<close>

theorem demo_login_resumable:
  assumes "beginAuthentication a s w r c = (s', events)" "SetCookie qs_authenticationCookie name n \<in> set events"
  shows "\<exists>start. RP_StartAuthentication (demo_std a) (srv_env c) (Some (demo_rp a)) (Some (req_Context r))
      \<lparr>areq_AllowCredentials = [], areq_ExpectedUserHandle = zero_byteValue, areq_Extensions = [], areq_Hints = []\<rparr> = Inr start \<and>
    (\<forall>requests now. list_all (\<lambda>(_, r', c'). undisturbed name (asr_State start) r' c') requests \<and> Before now (as_ExpiresAt (asr_State start)) \<longrightarrow>
      snd (takeAuthentication (demo_serve mux static ParseMediaType a s' requests) now name) = Some (asr_State start))"
proof -
  have cookie: "SetCookie qs_authenticationCookie name n \<in> set (snd (beginAuthentication a s w r c))"
    using assms by simp
  obtain start where "RP_StartAuthentication (demo_std a) (srv_env c) (Some (demo_rp a)) (Some (req_Context r))
      \<lparr>areq_AllowCredentials = [], areq_ExpectedUserHandle = zero_byteValue, areq_Extensions = [], areq_Hints = []\<rparr> = Inr start"
    "waiting s' name (asr_State start)"
    using beginAuthentication_waiting [OF cookie] assms(1) by (metis fst_conv)
  then show ?thesis
    using waiting_taken waiting_serve by blast
qed

theorem demo_login_resumable_witness:
  "snd (takeAuthentication (demo_serve (\<lambda>_ _. Some ''GET /me'') (\<lambda>_. []) (\<lambda>_. None) sample_demo
      (newMemoryStore\<lparr>qs_authentication := [(sample_name, sample_login_state)]\<rparr>) [(NilIface, sample_other_http, sample_other_call)]) 2000 sample_name)
    = Some sample_login_state"
proof -
  let ?s = "newMemoryStore\<lparr>qs_authentication := [(sample_name, sample_login_state)]\<rparr>"
  obtain events where run: "beginAuthentication sample_demo newMemoryStore NilIface sample_http sample_server_call = (?s, events)"
      "SetCookie qs_authenticationCookie sample_name 600 \<in> set events"
    using sample_demo_begin by (metis prod.collapse)
  obtain start :: AuthenticationStartResult where start: "\<forall>requests now. list_all (\<lambda>(_, r, c). undisturbed sample_name (asr_State start) r c) requests \<and>
      Before now (as_ExpiresAt (asr_State start)) \<longrightarrow>
      snd (takeAuthentication (demo_serve (\<lambda>_ _. Some ''GET /me'') (\<lambda>_. []) (\<lambda>_. None) sample_demo ?s requests) now sample_name) = Some (asr_State start)"
    using demo_login_resumable [OF run] by metis
  have state: "asr_State start = sample_login_state"
    using start [THEN spec [of _ "[]"], THEN spec [of _ "as_ExpiresAt (asr_State start) - 1"]]
    by (simp add: Before_def takeAuthentication_def demo_serve_def prune_def Let_def split: if_splits)
  show ?thesis
    using start [THEN spec [of _ "[(NilIface, sample_other_http, sample_other_call)]"], THEN spec [of _ 2000]] sample_undisturbed
    by (simp add: state) (simp add: Before_def sample_login_state_def sample_auth_state_def)
qed

section \<open>The end-to-end application\<close>

text \<open>
  C38. Invariant of the end-to-end application. Handling a request leads to a reachable store; and in every reachable store, whatever
  the handlers are doing, the two indexes of the credentials agree, every credential is a valid record found under its
  identifier and belongs to a user, and every session belongs to a user who has a credential.
\<close>

theorem e2e_store_coherent:
  assumes "e2e_reachable a (s, pending)"
  shows "e2e_reachable a (fst (e2e_routes mux static a s w r c), pending) \<and>
    (\<forall>handle stored. stored \<in> set (credentialsForUser s handle) \<longleftrightarrow>
      credentialByID s (bv_bytes (cr_ID stored)) = Some stored \<and> bv_bytes (cr_UserHandle stored) = bv_bytes handle) \<and>
    (\<forall>bs stored. credentialByID s bs = Some stored \<longrightarrow>
      bv_bytes (cr_ID stored) = bs \<and> CredentialRecord_Validate stored = None \<and> userByHandle s (cr_UserHandle stored) \<noteq> None) \<and>
    (\<forall>name handle. map_of (st_sessions s) name = Some handle \<longrightarrow>
      (\<exists>user. sessionUser s name = Some user \<and> userByEmail s (u_Email user) = Some user \<and> credentialsForUser s (u_Handle user) \<noteq> []))"
proof -
  have inv: "e2e_inv (s, pending)"
    by (rule e2e_reachable_inv [OF assms])
  then have indexed: "indexed s" and records: "records_ok s"
    by (simp_all add: e2e_inv_def records_ok_def)
  have "credentialByID s bs = Some stored \<Longrightarrow>
      bv_bytes (cr_ID stored) = bs \<and> CredentialRecord_Validate stored = None \<and> userByHandle s (cr_UserHandle stored) \<noteq> None" for bs stored
    using records records_key [OF indexed] by (simp add: credentialByID_records records_ok_def has_user_def) (metis credentialKey_iff)
  moreover have "stored \<in> set (credentialsForUser s handle) \<longleftrightarrow>
      credentialByID s (bv_bytes (cr_ID stored)) = Some stored \<and> bv_bytes (cr_UserHandle stored) = bv_bytes handle" for handle stored
    using records_key [OF indexed] by (auto simp: credentialsForUser_records [OF indexed] credentialByID_records)
  moreover have "\<exists>user. sessionUser s name = Some user \<and> userByEmail s (u_Email user) = Some user \<and> credentialsForUser s (u_Handle user) \<noteq> []"
    if "map_of (st_sessions s) name = Some handle" for name handle
    using e2e_session_user [OF inv that] by metis
  ultimately show ?thesis
    using e2e_reachable_run [OF e2e_routes_run assms] by simp
qed

theorem e2e_store_coherent_witness:
  "\<exists>user. sessionUser e2e_s3 sample_name = Some user \<and> credentialsForUser e2e_s3 (u_Handle user) \<noteq> []"
proof -
  have "map_of (st_sessions e2e_s3) sample_name = Some e2e_handle_key"
    by (simp add: e2e_s3_def)
  then show ?thesis
    using e2e_store_coherent [OF e2e_reachable_entered] by blast
qed

text \<open>
  C39. Credentials of the end-to-end application are updated in place, and no update is lost. Whatever ran since a login was verified, its update
  is applied exactly when the stored record is still the verified one; then every index shows the record that the verification
  reports, which is what \<^verbatim>\<open>ApplyTo\<close> computes, and every other record is as before; otherwise nothing changes.
\<close>

theorem e2e_update_not_lost:
  assumes "e2e_reachable a (s, add_mset (Refreshing stored res) pending)" "updateCredential s now (ares_Update res) = (s', applied)"
  shows "(applied \<longleftrightarrow> credentialByID s (bv_bytes (cr_ID stored)) = Some stored) \<and> (\<not> applied \<longrightarrow> s' = s) \<and>
    (applied \<longrightarrow> credentialByID s' = (credentialByID s)(bv_bytes (cr_ID stored) \<mapsto> ares_Credential res) \<and>
      ApplyTo (ares_Update res) stored = Inr (ares_Credential res) \<and>
      ares_Credential res \<in> set (credentialsForUser s' (cr_UserHandle stored)))"
proof -
  have "e2e_inv (s, add_mset (Refreshing stored res) pending)"
    by (rule e2e_reachable_inv [OF assms(1)])
  then have users: "users_ok s" and records: "records_ok s" and pending: "e2e_pending_ok s (Refreshing stored res)"
    by (simp_all add: e2e_inv_def)
  show ?thesis
    by (rule updateCredential_applied [OF assms(2) users records pending])
qed

theorem e2e_update_not_lost_witness:
  "credentialByID e2e_s4 = (credentialByID e2e_s3)([42] \<mapsto> ares_Credential e2e_checked)"
proof -
  have "updateCredential e2e_s3 1000 (ares_Update e2e_checked) = (e2e_s4, True)"
    by (simp add: e2e_checked e2e_updated)
  moreover have "bv_bytes (cr_ID e2e_record) = [42]"
    by code_simp
  ultimately show ?thesis
    using e2e_update_not_lost [of sample_e2e e2e_s3 e2e_record e2e_checked "{#}"] e2e_reachable_refreshing by auto
qed

text \<open>
  C40. Counters of the end-to-end application. However its handlers interleave, a credential that is stored stays
  stored under its identifier, with the same key, owner and RP ID, its signature counter is never lowered, and a
  credential whose user verification was initialized stays so.
\<close>

theorem e2e_counter_monotone:
  assumes "e2e_reachable a (s, pending)" "(e2e_step a)\<^sup>*\<^sup>* (s, pending) (s', pending')" "credentialByID s bs = Some stored"
  shows "\<exists>stored'. credentialByID s' bs = Some stored' \<and> cr_ID stored' = cr_ID stored \<and> cr_PublicKey stored' = cr_PublicKey stored \<and>
    cr_UserHandle stored' = cr_UserHandle stored \<and> cr_RPID stored' = cr_RPID stored \<and>
    cr_SignCount stored \<le> cr_SignCount stored' \<and> (cr_UVInitialized stored \<longrightarrow> cr_UVInitialized stored')"
  using e2e_run_grows [OF assms(2,1)] assms(3)
  by (fastforce simp: store_grows_def credentialByID_records same_identity_def)

theorem e2e_counter_monotone_witness:
  "\<exists>stored'. credentialByID e2e_s4 [42] = Some stored' \<and> cr_SignCount e2e_record \<le> cr_SignCount stored' \<and>
    cr_SignCount e2e_record = 7 \<and> cr_SignCount stored' = 8"
proof -
  have "updateCredential e2e_s3 1000 (ares_Update e2e_checked) = (e2e_s4, True)"
    by (simp add: e2e_checked e2e_updated)
  from e2e_step.updates [OF this]
  have run: "(e2e_step sample_e2e)\<^sup>*\<^sup>* (e2e_s3, {#Refreshing e2e_record e2e_checked#}) (e2e_s4, {#Entering (ares_AuthenticatedAs e2e_checked)#})"
    by blast
  have counters: "credentialByID e2e_s3 [42] = Some e2e_record" "map_option cr_SignCount (credentialByID e2e_s4 [42]) = Some 8"
      "cr_SignCount e2e_record = 7"
    by code_simp+
  then show ?thesis
    using e2e_counter_monotone [OF e2e_reachable_refreshing run counters(1)] by auto
qed

end
